(* ===== verification/Michi_Prelude.thy ===== *)
theory Michi_Prelude
  imports Complex_Main "HOL-Library.Word" "HOL-Library.Multiset"
begin

text \<open>
  The prelude of the development: the machine integers and identifiers the Rust sources use,
  saturating arithmetic, checked indexing (an out-of-range index is a panic in Rust and
  \<open>None\<close> here), \<open>Iterator::position\<close>, \<open>slice::swap\<close>, and \<open>HashMap::retain\<close> on maps,
  each with the lemmas the components share.
\<close>

named_theorems michi_defs
  \<open>small helper definitions of the sources that component proofs unfold\<close>
named_theorems michi_frame
  \<open>frame facts: what an operation leaves unchanged\<close>
named_theorems michi_inv
  \<open>preservation of a component invariant by one operation\<close>

section \<open>Machine integers, identifiers, time\<close>

type_synonym u8 = "8 word"
type_synonym u16 = "16 word"
type_synonym u32 = "32 word"
type_synonym u64 = "64 word"

text \<open>
  A \<open>Uuid\<close> is its canonical hyphenated text, so that \<open>Display\<close> is the identity and equality
  is equality of the text. An \<open>Instant\<close> is a count of nanoseconds on the monotonic clock, a
  \<open>DateTime<Utc>\<close> a count of nanoseconds on the wall clock.
\<close>

type_synonym uuid = string
type_synonym instant = nat
type_synonym utc = int

text \<open>\<open>Instant::elapsed\<close> saturates at zero, as subtraction on \<^typ>\<open>nat\<close> does.\<close>

definition elapsed :: "instant \<Rightarrow> instant \<Rightarrow> nat" where
  "elapsed now started = now - started"

definition as_millis :: "nat \<Rightarrow> nat" where
  "as_millis d = d div 1000000"

definition from_millis :: "nat \<Rightarrow> nat" where
  "from_millis ms = ms * 1000000"

definition as_secs :: "nat \<Rightarrow> nat" where
  "as_secs d = d div 1000000000"

definition from_secs :: "nat \<Rightarrow> nat" where
  "from_secs s = s * 1000000000"

section \<open>Saturating arithmetic\<close>

definition sat_add :: "'a::len word \<Rightarrow> 'a word \<Rightarrow> 'a word" where
  "sat_add a b = (if unat a + unat b < 2 ^ LENGTH('a) then a + b else - 1)"

definition sat_sub :: "'a::len word \<Rightarrow> 'a word \<Rightarrow> 'a word" where
  "sat_sub a b = (if a < b then 0 else a - b)"

lemma unat_max_word_eq: "unat (- 1 :: 'a::len word) = 2 ^ LENGTH('a) - 1"
  by (simp add: unsigned_minus_1_eq_mask mask_eq_exp_minus_1)

lemma unat_sat_add:
  fixes a b :: "'a::len word"
  shows "unat (sat_add a b) = min (unat a + unat b) (2 ^ LENGTH('a) - 1)"
  by (auto simp: sat_add_def unat_word_ariths unat_max_word_eq)

lemma unat_le_max: "unat (a :: 'a::len word) \<le> 2 ^ LENGTH('a) - 1"
proof -
  have "unat a < 2 ^ LENGTH('a)" by (rule unsigned_less)
  then show ?thesis by linarith
qed

lemma unat_ucast_widen:
  fixes x :: "'a::len word"
  assumes "LENGTH('a) \<le> LENGTH('b::len)"
  shows "unat (ucast x :: 'b word) = unat x"
proof -
  have "unat x < 2 ^ LENGTH('a)" by (rule unsigned_less)
  also have "(2::nat) ^ LENGTH('a) \<le> 2 ^ LENGTH('b)" using assms by simp
  finally show ?thesis by (simp add: unsigned_ucast_eq take_bit_nat_eq_self)
qed

lemma sat_add_ge1: "a \<le> sat_add a b"
  using unat_le_max [of a] by (simp add: word_le_nat_alt unat_sat_add)

lemma sat_add_ge2: "b \<le> sat_add a b"
  using unat_le_max [of b] by (simp add: word_le_nat_alt unat_sat_add)

lemma sat_add_strict:
  fixes a b :: "'a::len word"
  assumes a: "a \<noteq> - 1" and b: "0 < b"
  shows "a < sat_add a b"
proof -
  have "unat a \<noteq> 2 ^ LENGTH('a) - 1"
    using a unat_max_word_eq [where 'a = 'a] by (metis unsigned_word_eqI)
  with unat_le_max [of a] have "unat a < 2 ^ LENGTH('a) - 1" by linarith
  moreover have "0 < unat b" using b by (simp add: word_less_nat_alt)
  ultimately show ?thesis
    by (simp add: word_less_nat_alt unat_sat_add)
qed

lemma unat_sat_sub: "unat (sat_sub a b) = unat a - unat b"
  by (auto simp: sat_sub_def word_less_nat_alt unat_sub word_le_nat_alt not_less)

section \<open>Checked indexing, positions, swaps\<close>

definition nth_opt :: "'a list \<Rightarrow> nat \<Rightarrow> 'a option" where
  "nth_opt xs i = (if i < length xs then Some (xs ! i) else None)"

lemma nth_opt_Some_iff [simp]: "nth_opt xs i = Some x \<longleftrightarrow> i < length xs \<and> xs ! i = x"
  by (auto simp: nth_opt_def)

lemma nth_opt_None_iff [simp]: "nth_opt xs i = None \<longleftrightarrow> length xs \<le> i"
  by (auto simp: nth_opt_def)

lemma nth_opt_in: "i < length xs \<Longrightarrow> nth_opt xs i = Some (xs ! i)"
  by simp

fun position :: "('a \<Rightarrow> bool) \<Rightarrow> 'a list \<Rightarrow> nat option" where
  "position P [] = None"
| "position P (x # xs) = (if P x then Some 0 else map_option Suc (position P xs))"

lemma position_SomeD: "position P xs = Some i \<Longrightarrow> i < length xs \<and> P (xs ! i)"
  by (induction xs arbitrary: i) (auto split: if_splits)

lemma position_first: "position P xs = Some i \<Longrightarrow> j < i \<Longrightarrow> \<not> P (xs ! j)"
proof (induction xs arbitrary: i j)
  case Nil
  then show ?case by simp
next
  case (Cons x xs)
  then show ?case
    by (cases j) (auto split: if_splits)
qed

lemma position_None_iff [simp]: "position P xs = None \<longleftrightarrow> (\<forall>x \<in> set xs. \<not> P x)"
  by (induction xs) auto

lemma position_mem: "x \<in> set xs \<Longrightarrow> \<exists>i. position ((=) x) xs = Some i \<and> i < length xs \<and> xs ! i = x"
proof -
  assume "x \<in> set xs"
  then have "position ((=) x) xs \<noteq> None" by auto
  then obtain i where i: "position ((=) x) xs = Some i" by blast
  from position_SomeD [OF i] i show ?thesis by auto
qed

definition list_swap :: "'a list \<Rightarrow> nat \<Rightarrow> nat \<Rightarrow> 'a list" where
  "list_swap xs i j = xs[i := xs ! j, j := xs ! i]"

lemma length_list_swap [simp]: "length (list_swap xs i j) = length xs"
  by (simp add: list_swap_def)

lemma mset_list_swap [simp]:
  "i < length xs \<Longrightarrow> j < length xs \<Longrightarrow> mset (list_swap xs i j) = mset xs"
  by (simp add: list_swap_def mset_swap)

lemma list_swap_0: "j < length xs \<Longrightarrow> list_swap xs 0 j ! 0 = xs ! j"
  by (cases xs; cases j) (auto simp: list_swap_def)

lemma mset_upt_perm:
  assumes "mset xs = mset [0..<n]"
  shows "distinct xs" "set xs = {0..<n}" "length xs = n"
proof -
  show "distinct xs" using assms distinct_upt mset_eq_imp_distinct_iff by blast
  show "set xs = {0..<n}" using assms mset_eq_setD by fastforce
  show "length xs = n" using assms mset_eq_length by fastforce
qed

section \<open>Maps\<close>

text \<open>\<open>HashMap::retain\<close>: keep the entries whose key and value satisfy the predicate.\<close>

definition map_retain :: "('k \<Rightarrow> 'v \<Rightarrow> bool) \<Rightarrow> ('k \<rightharpoonup> 'v) \<Rightarrow> ('k \<rightharpoonup> 'v)" where
  "map_retain P m = (\<lambda>k. case m k of None \<Rightarrow> None | Some v \<Rightarrow> if P k v then Some v else None)"

lemma map_retain_Some_iff [simp]:
  "map_retain P m k = Some v \<longleftrightarrow> m k = Some v \<and> P k v"
  by (auto simp: map_retain_def split: option.splits)

lemma map_retain_None_iff: "map_retain P m k = None \<longleftrightarrow> (\<forall>v. m k = Some v \<longrightarrow> \<not> P k v)"
  by (auto simp: map_retain_def split: option.splits)

lemma map_retain_empty [simp]: "map_retain P Map.empty = Map.empty"
  by (rule ext) (simp add: map_retain_def)

lemma dom_map_retain: "dom (map_retain P m) \<subseteq> dom m"
  by auto

section \<open>Results\<close>

type_synonym ('e, 'a) result = "'e + 'a"

fun is_ok :: "'e + 'a \<Rightarrow> bool" where
  "is_ok (Inl _) = False"
| "is_ok (Inr _) = True"

fun is_err :: "'e + 'a \<Rightarrow> bool" where
  "is_err (Inl _) = True"
| "is_err (Inr _) = False"

lemma is_err_iff: "is_err r \<longleftrightarrow> (\<exists>e. r = Inl e)"
  by (cases r) auto

lemma is_ok_iff: "is_ok r \<longleftrightarrow> (\<exists>a. r = Inr a)"
  by (cases r) auto

lemma not_is_err [simp]: "\<not> is_err r \<longleftrightarrow> is_ok r"
  by (cases r) auto

lemma find_appended:
  "\<forall>x \<in> set xs. \<not> P x \<Longrightarrow> P y \<Longrightarrow> List.find P (xs @ [y]) = Some y"
  by (induction xs) auto

end
