(* ===== verification/Rust_Strings.thy ===== *)
theory Rust_Strings
  imports Michi_Prelude
begin

text \<open>
  The string operations of the Rust standard library the sources call, on byte strings
  (\<^typ>\<open>string\<close> is a list of bytes, as \<open>str::len\<close> counts). \<open>to_lowercase\<close>,
  \<open>eq_ignore_ascii_case\<close> and \<open>trim\<close> are given on the ASCII bytes: every keyword, digit
  and separator the sources compare with is ASCII. Decimal printing and \<open>str::parse::<u64>\<close>
  come with their round trip.
\<close>

section \<open>Case and white space\<close>

definition ascii_lower :: "char \<Rightarrow> char" where
  "ascii_lower c = (let n = (of_char c :: nat) in if 65 \<le> n \<and> n \<le> 90 then char_of (n + 32) else c)"

definition to_lowercase :: "string \<Rightarrow> string" where
  "to_lowercase s = map ascii_lower s"

definition eq_ignore_ascii_case :: "string \<Rightarrow> string \<Rightarrow> bool" where
  "eq_ignore_ascii_case s t \<longleftrightarrow> to_lowercase s = to_lowercase t"

definition is_ws :: "char \<Rightarrow> bool" where
  "is_ws c \<longleftrightarrow> (let n = (of_char c :: nat) in n = 32 \<or> (9 \<le> n \<and> n \<le> 13))"

definition trim_start :: "string \<Rightarrow> string" where
  "trim_start s = dropWhile is_ws s"

definition trim_end :: "string \<Rightarrow> string" where
  "trim_end s = rev (dropWhile is_ws (rev s))"

definition trim :: "string \<Rightarrow> string" where
  "trim s = trim_end (trim_start s)"

lemmas ascii_case = to_lowercase_def ascii_lower_def Let_def

lemma length_to_lowercase [simp]: "length (to_lowercase s) = length s"
  by (simp add: to_lowercase_def)

lemma trim_Nil [simp]: "trim [] = []"
  by (simp add: trim_def trim_start_def trim_end_def)

lemma dropWhile_ws_id: "s = [] \<or> \<not> is_ws (hd s) \<Longrightarrow> dropWhile is_ws s = s"
  by (cases s) auto

lemma trim_id:
  assumes "s = [] \<or> (\<not> is_ws (hd s) \<and> \<not> is_ws (last s))"
  shows "trim s = s"
proof (cases "s = []")
  case False
  with assms have "trim_start s = s" by (simp add: trim_start_def dropWhile_ws_id)
  moreover have "dropWhile is_ws (rev s) = rev s"
    using assms False by (intro dropWhile_ws_id) (simp add: hd_rev)
  ultimately show ?thesis by (simp add: trim_def trim_end_def)
qed simp

section \<open>Prefixes, splitting, lines\<close>

fun strip_prefix :: "string \<Rightarrow> string \<Rightarrow> string option" where
  "strip_prefix [] s = Some s"
| "strip_prefix (p # ps) [] = None"
| "strip_prefix (p # ps) (c # cs) = (if p = c then strip_prefix ps cs else None)"

definition starts_with :: "string \<Rightarrow> string \<Rightarrow> bool" where
  "starts_with s p \<longleftrightarrow> strip_prefix p s \<noteq> None"

lemma strip_prefix_append [simp]: "strip_prefix p (p @ s) = Some s"
  by (induction p) auto

lemma strip_prefix_Some_iff: "strip_prefix p s = Some r \<longleftrightarrow> s = p @ r"
  by (induction p s rule: strip_prefix.induct) auto

text \<open>\<open>str::split_once\<close> with a one-byte separator: at its first occurrence.\<close>

fun split_once :: "char \<Rightarrow> string \<Rightarrow> (string \<times> string) option" where
  "split_once d [] = None"
| "split_once d (c # cs) =
     (if c = d then Some ([], cs)
      else map_option (\<lambda>(a, b). (c # a, b)) (split_once d cs))"

lemma split_once_append [simp]: "d \<notin> set a \<Longrightarrow> split_once d (a @ d # b) = Some (a, b)"
  by (induction a) auto

lemma split_once_None_iff: "split_once d s = None \<longleftrightarrow> d \<notin> set s"
  by (induction s) auto

text \<open>
  \<open>str::lines\<close>: split at line feeds, a carriage return before the line feed dropped, no empty
  last line after a final line feed.
\<close>

abbreviation LF :: char where "LF \<equiv> CHR 0x0A"
abbreviation CR :: char where "CR \<equiv> CHR 0x0D"

definition strip_cr :: "string \<Rightarrow> string" where
  "strip_cr s = (if s \<noteq> [] \<and> last s = CR then butlast s else s)"

fun split_lf :: "string \<Rightarrow> string \<Rightarrow> string list" where
  "split_lf acc [] = (if acc = [] then [] else [rev acc])"
| "split_lf acc (c # cs) =
     (if c = LF then strip_cr (rev acc) # split_lf [] cs else split_lf (c # acc) cs)"

definition lines :: "string \<Rightarrow> string list" where
  "lines s = split_lf [] s"

lemma split_lf_line: "LF \<notin> set l \<Longrightarrow> split_lf acc (l @ LF # s) = strip_cr (rev acc @ l) # split_lf [] s"
  by (induction l arbitrary: acc) auto

lemma lines_Nil [simp]: "lines [] = []"
  by (simp add: lines_def)

lemma lines_line: "LF \<notin> set l \<Longrightarrow> lines (l @ LF # s) = strip_cr l # lines s"
  by (simp add: lines_def split_lf_line)

section \<open>Decimal numbers\<close>

definition digit_char :: "nat \<Rightarrow> char" where
  "digit_char d = char_of (48 + d)"

definition digit_val :: "char \<Rightarrow> nat option" where
  "digit_val c = (let n = (of_char c :: nat) in if 48 \<le> n \<and> n \<le> 57 then Some (n - 48) else None)"

fun show_nat :: "nat \<Rightarrow> string" where
  "show_nat n = (if n < 10 then [digit_char n] else show_nat (n div 10) @ [digit_char (n mod 10)])"

declare show_nat.simps [simp del]

fun parse_digits :: "nat \<Rightarrow> string \<Rightarrow> nat option" where
  "parse_digits acc [] = Some acc"
| "parse_digits acc (c # cs) =
     (case digit_val c of None \<Rightarrow> None | Some d \<Rightarrow> parse_digits (acc * 10 + d) cs)"

text \<open>
  \<open>str::parse\<close> for an unsigned type of the given exclusive bound: an optional leading plus
  sign, at least one digit, no overflow.
\<close>

definition parse_unsigned :: "nat \<Rightarrow> string \<Rightarrow> nat option" where
  "parse_unsigned bound s =
     (let ds = (case s of c # cs \<Rightarrow> if c = CHR ''+'' then cs else s | [] \<Rightarrow> s)
      in if ds = [] then None
         else case parse_digits 0 ds of
           None \<Rightarrow> None
         | Some n \<Rightarrow> if n < bound then Some n else None)"

definition parse_u64 :: "string \<Rightarrow> u64 option" where
  "parse_u64 s = map_option word_of_nat (parse_unsigned (2 ^ 64) s)"

lemma of_char_digit: "d < 10 \<Longrightarrow> (of_char (digit_char d) :: nat) = 48 + d"
  by (simp add: digit_char_def of_char_of)

lemma digit_val_digit_char [simp]: "d < 10 \<Longrightarrow> digit_val (digit_char d) = Some d"
  by (simp add: digit_val_def of_char_digit)

lemma digit_not_ws: "d < 10 \<Longrightarrow> \<not> is_ws (digit_char d)"
  by (simp add: is_ws_def of_char_digit)

lemma digit_char_neq:
  assumes "d < 10" and "(of_char c :: nat) < 48 \<or> 57 < (of_char c :: nat)"
  shows "digit_char d \<noteq> c"
proof
  assume "digit_char d = c"
  then have "(of_char c :: nat) = 48 + d" using of_char_digit [OF assms(1)] by simp
  with assms show False by simp
qed

lemma show_nat_nonempty [simp]: "show_nat n \<noteq> []"
  by (subst show_nat.simps) simp

lemma show_nat_digits: "c \<in> set (show_nat n) \<Longrightarrow> \<exists>d < 10. c = digit_char d"
proof (induction n rule: show_nat.induct)
  case (1 n)
  show ?case
  proof (cases "n < 10")
    case True
    with "1.prems" show ?thesis by (auto simp: show_nat.simps [of n])
  next
    case False
    with "1.prems" have "c \<in> set (show_nat (n div 10)) \<or> c = digit_char (n mod 10)"
      by (auto simp: show_nat.simps [of n])
    moreover have "n mod 10 < 10" by simp
    ultimately show ?thesis using "1.IH" [OF False] by blast
  qed
qed

lemma parse_digits_append:
  "parse_digits acc (xs @ ys) =
     (case parse_digits acc xs of None \<Rightarrow> None | Some n \<Rightarrow> parse_digits n ys)"
  by (induction acc xs rule: parse_digits.induct) (auto split: option.splits)

lemma parse_digits_show: "parse_digits 0 (show_nat n) = Some n"
proof (induction n rule: show_nat.induct)
  case (1 n)
  show ?case
  proof (cases "n < 10")
    case True
    then show ?thesis by (simp add: show_nat.simps [of n])
  next
    case False
    with "1.IH" show ?thesis
      by (simp add: show_nat.simps [of n] parse_digits_append)
  qed
qed

lemma show_nat_notin:
  assumes "(of_char c :: nat) < 48 \<or> 57 < (of_char c :: nat)"
  shows "c \<notin> set (show_nat n)"
proof
  assume "c \<in> set (show_nat n)"
  then obtain d where "d < 10" "c = digit_char d" using show_nat_digits by blast
  then show False using digit_char_neq assms by blast
qed

lemma show_nat_hd_last: "\<not> is_ws (hd (show_nat n))" "\<not> is_ws (last (show_nat n))"
proof -
  have "hd (show_nat n) \<in> set (show_nat n)" "last (show_nat n) \<in> set (show_nat n)"
    by simp_all
  then show "\<not> is_ws (hd (show_nat n))" "\<not> is_ws (last (show_nat n))"
    using show_nat_digits digit_not_ws by metis+
qed

lemma trim_show_nat [simp]: "trim (show_nat n) = show_nat n"
  by (rule trim_id) (simp add: show_nat_hd_last)

theorem parse_show_unsigned:
  assumes "n < bound"
  shows "parse_unsigned bound (show_nat n) = Some n"
proof -
  obtain c cs where s: "show_nat n = c # cs" by (cases "show_nat n") auto
  have "CHR ''+'' \<notin> set (show_nat n)" by (rule show_nat_notin) simp
  with s have "c \<noteq> CHR ''+''" by auto
  then show ?thesis
    using assms parse_digits_show [of n] s by (simp add: parse_unsigned_def)
qed

lemma parse_unsigned_bound: "parse_unsigned bound s = Some n \<Longrightarrow> n < bound"
  by (auto simp: parse_unsigned_def Let_def split: if_splits option.splits list.splits)

lemma parse_show_u64: "parse_u64 (show_nat (unat w)) = Some w"
proof -
  have "unat w < 2 ^ 64" using unsigned_less [of w] by simp
  then show ?thesis by (simp add: parse_u64_def parse_show_unsigned)
qed

text \<open>\<open>str::split\<close> on one character; the second argument is what is read of the current piece.\<close>

fun split_char :: "char \<Rightarrow> string \<Rightarrow> string \<Rightarrow> string list" where
  "split_char d acc [] = [rev acc]"
| "split_char d acc (c # cs) =
     (if c = d then rev acc # split_char d [] cs else split_char d (c # acc) cs)"

lemma split_char_absent: "c \<notin> set p \<Longrightarrow> split_char c acc p = [rev acc @ p]"
  by (induction p arbitrary: acc) auto

lemma split_char_append:
  assumes "c \<notin> set p"
  shows "split_char c acc (h @ c # p) = split_char c acc h @ [p]"
proof (induction h arbitrary: acc)
  case Nil
  then show ?case using assms by (simp add: split_char_absent)
qed simp

end
