(* ===== verification/Core_Model.thy ===== *)
theory Core_Model
  imports Rust_Strings
begin

text \<open>
  The shared data model of \<^verbatim>\<open>crates/michi-core/src/lib.rs\<close>: audio formats, tracks, the
  persisted playback session, the configuration enumerations with their text forms, playback
  targets and endpoints. The text forms that are stored in the database or the configuration
  all satisfy one contract, the locale \<open>text_codec\<close>: what is written is read back.
\<close>

section \<open>Text codecs\<close>

text \<open>
  An enumeration with a text form: \<open>enc\<close> prints a value, \<open>dec\<close> reads a text and may refuse
  it. The provider promises the round trip; the clients get injectivity of the printing and
  that reading is the only inverse on printed texts.
\<close>

locale text_codec =
  fixes enc :: "'a \<Rightarrow> string"
    and dec :: "string \<Rightarrow> 'a option"
  assumes dec_enc: "dec (enc x) = Some x"
begin

lemma enc_inj: "enc x = enc y \<longleftrightarrow> x = y"
  by (metis dec_enc option.inject)

lemma dec_enc_iff: "dec (enc x) = Some y \<longleftrightarrow> y = x"
  by (auto simp: dec_enc)

lemma enc_eq_dec: "enc x = s \<Longrightarrow> dec s = Some x"
  using dec_enc by auto

lemma map_enc_inj: "map enc xs = map enc ys \<longleftrightarrow> xs = ys"
  by (simp add: inj_map_eq_map inj_def enc_inj)

end

section \<open>Audio formats and tracks\<close>

datatype AudioFormat = Mp3 | Flac | Ogg | Opus | Aac | M4a | Wav | UnknownFormat

definition from_extension :: "string \<Rightarrow> AudioFormat" where
  "from_extension ext =
     (let e = to_lowercase ext in
      if e = ''mp3'' then Mp3
      else if e = ''flac'' then Flac
      else if e = ''ogg'' then Ogg
      else if e = ''opus'' then Opus
      else if e = ''aac'' then Aac
      else if e = ''m4a'' then M4a
      else if e = ''wav'' then Wav
      else UnknownFormat)"

fun mime_type :: "AudioFormat \<Rightarrow> string" where
  "mime_type Mp3 = ''audio/mpeg''"
| "mime_type Flac = ''audio/flac''"
| "mime_type Ogg = ''audio/ogg''"
| "mime_type Opus = ''audio/ogg''"
| "mime_type Aac = ''audio/aac''"
| "mime_type M4a = ''audio/mp4''"
| "mime_type Wav = ''audio/wav''"
| "mime_type UnknownFormat = ''application/octet-stream''"

fun format_as_str :: "AudioFormat \<Rightarrow> string" where
  "format_as_str Mp3 = ''mp3''"
| "format_as_str Flac = ''flac''"
| "format_as_str Ogg = ''ogg''"
| "format_as_str Opus = ''opus''"
| "format_as_str Aac = ''aac''"
| "format_as_str M4a = ''m4a''"
| "format_as_str Wav = ''wav''"
| "format_as_str UnknownFormat = ''unknown''"

fun is_lossless :: "AudioFormat \<Rightarrow> bool" where
  "is_lossless Flac = True"
| "is_lossless Wav = True"
| "is_lossless _ = False"

fun bitrate_requirement_kbps :: "AudioFormat \<Rightarrow> u32" where
  "bitrate_requirement_kbps Mp3 = 320"
| "bitrate_requirement_kbps Aac = 320"
| "bitrate_requirement_kbps M4a = 320"
| "bitrate_requirement_kbps Ogg = 160"
| "bitrate_requirement_kbps Opus = 160"
| "bitrate_requirement_kbps _ = 0"

text \<open>Floating point fields (replay gain, volumes) are rational numbers here.\<close>

record Track =
  trk_id :: uuid
  trk_title :: "string option"
  trk_artist :: "string option"
  trk_album :: "string option"
  trk_album_artist :: "string option"
  trk_duration_ms :: "u64 option"
  trk_file_path :: string
  trk_format :: AudioFormat
  trk_sample_rate :: "u32 option"
  trk_bit_depth :: "u8 option"
  trk_channels :: "u8 option"
  trk_artwork_id :: "uuid option"
  trk_genre :: "string option"
  trk_year :: "int option"
  trk_track_number :: "u32 option"
  trk_disc_number :: "u32 option"
  trk_content_hash :: "string option"
  trk_file_size :: "u64 option"
  trk_file_mtime_ns :: "int option"
  trk_starred :: bool
  trk_rating :: u8
  trk_starred_at :: "string option"
  trk_replaygain_track_gain :: "rat option"
  trk_replaygain_track_peak :: "rat option"
  trk_created_at :: utc
  trk_updated_at :: utc

record PlaybackSessionDb =
  sess_id :: uuid
  sess_device_id :: uuid
  sess_queue_id :: "uuid option"
  sess_queue_state_json :: string
  sess_current_index :: int
  sess_current_track_id :: "uuid option"
  sess_position_ms :: u64
  sess_playing :: bool
  sess_repeat_mode :: string
  sess_shuffle :: bool
  sess_volume :: rat
  sess_source :: string
  sess_resume_policy :: string
  sess_restored :: bool

section \<open>Configuration enumerations\<close>

datatype ResourceProfile = Eco | Balanced | Performance | CustomResource

definition resource_from_config_str_strict :: "string \<Rightarrow> ResourceProfile option" where
  "resource_from_config_str_strict s =
     (let t = to_lowercase s in
      if t = ''eco'' then Some Eco
      else if t = ''performance'' then Some Performance
      else if t = ''balanced'' then Some Balanced
      else if t = ''custom'' then Some CustomResource
      else None)"

definition resource_from_config_str :: "string \<Rightarrow> ResourceProfile" where
  "resource_from_config_str s =
     (case resource_from_config_str_strict s of Some p \<Rightarrow> p | None \<Rightarrow> Balanced)"

fun max_transcodes :: "ResourceProfile \<Rightarrow> nat" where
  "max_transcodes Eco = 0"
| "max_transcodes Balanced = 2"
| "max_transcodes Performance = 4"
| "max_transcodes CustomResource = 2"

fun resource_to_string :: "ResourceProfile \<Rightarrow> string" where
  "resource_to_string Eco = ''eco''"
| "resource_to_string Balanced = ''balanced''"
| "resource_to_string Performance = ''performance''"
| "resource_to_string CustomResource = ''custom''"

datatype StreamProfile =
    Original | LosslessCompatible | OpusMobile96 | OpusMobile160
  | Mp3Compatibility192 | Mp3Compatibility320 | Downsample2448 | CustomStream

definition stream_from_config_str_strict :: "string \<Rightarrow> StreamProfile option" where
  "stream_from_config_str_strict s =
     (let t = to_lowercase s in
      if t = ''original'' then Some Original
      else if t = ''lossless'' then Some LosslessCompatible
      else if t = ''opus96'' then Some OpusMobile96
      else if t = ''opus160'' then Some OpusMobile160
      else if t = ''mp3192'' then Some Mp3Compatibility192
      else if t = ''mp3320'' then Some Mp3Compatibility320
      else if t = ''downsample'' then Some Downsample2448
      else if t = ''custom'' then Some CustomStream
      else None)"

definition stream_from_config_str :: "string \<Rightarrow> StreamProfile" where
  "stream_from_config_str s =
     (case stream_from_config_str_strict s of Some p \<Rightarrow> p | None \<Rightarrow> Original)"

fun stream_needs_transcode :: "StreamProfile \<Rightarrow> bool" where
  "stream_needs_transcode Original = False"
| "stream_needs_transcode LosslessCompatible = False"
| "stream_needs_transcode _ = True"

fun stream_profile_bitrate :: "StreamProfile \<Rightarrow> u32 option" where
  "stream_profile_bitrate OpusMobile96 = Some 96000"
| "stream_profile_bitrate OpusMobile160 = Some 160000"
| "stream_profile_bitrate Mp3Compatibility192 = Some 192000"
| "stream_profile_bitrate Mp3Compatibility320 = Some 320000"
| "stream_profile_bitrate _ = None"

fun stream_to_string :: "StreamProfile \<Rightarrow> string" where
  "stream_to_string Original = ''original''"
| "stream_to_string LosslessCompatible = ''lossless''"
| "stream_to_string OpusMobile96 = ''opus96''"
| "stream_to_string OpusMobile160 = ''opus160''"
| "stream_to_string Mp3Compatibility192 = ''mp3192''"
| "stream_to_string Mp3Compatibility320 = ''mp3320''"
| "stream_to_string Downsample2448 = ''downsample''"
| "stream_to_string CustomStream = ''custom''"

datatype AudioFormatPolicy = LosslessOnly | StandardOnly | DirectPlay

definition policy_from_config_str_strict :: "string \<Rightarrow> AudioFormatPolicy option" where
  "policy_from_config_str_strict s =
     (let t = to_lowercase s in
      if t = ''lossless'' then Some LosslessOnly
      else if t = ''standard'' then Some StandardOnly
      else if t = ''direct'' then Some DirectPlay
      else None)"

fun requires_transcode :: "AudioFormatPolicy \<Rightarrow> AudioFormat \<Rightarrow> ResourceProfile \<Rightarrow> bool" where
  "requires_transcode LosslessOnly f p = (max_transcodes p = 0 \<and> is_lossless f)"
| "requires_transcode StandardOnly f p = is_lossless f"
| "requires_transcode DirectPlay f p = False"

fun policy_to_string :: "AudioFormatPolicy \<Rightarrow> string" where
  "policy_to_string LosslessOnly = ''lossless''"
| "policy_to_string StandardOnly = ''standard''"
| "policy_to_string DirectPlay = ''direct''"

datatype ImportState =
    ImpCreated | ImpUploading | ImpUploaded | ImpVerifying | ImpCommitting
  | ImpCommitted | ImpFailed | ImpRolledBack | ImpExpired

fun import_as_str :: "ImportState \<Rightarrow> string" where
  "import_as_str ImpCreated = ''created''"
| "import_as_str ImpUploading = ''uploading''"
| "import_as_str ImpUploaded = ''uploaded''"
| "import_as_str ImpVerifying = ''verifying''"
| "import_as_str ImpCommitting = ''committing''"
| "import_as_str ImpCommitted = ''committed''"
| "import_as_str ImpFailed = ''failed''"
| "import_as_str ImpRolledBack = ''rolled_back''"
| "import_as_str ImpExpired = ''expired''"

text \<open>\<open>ImportState::from_str\<close> never fails: an unknown text is read as \<open>Created\<close>.\<close>

definition import_from_str :: "string \<Rightarrow> ImportState" where
  "import_from_str s =
     (if s = ''created'' then ImpCreated
      else if s = ''uploading'' then ImpUploading
      else if s = ''uploaded'' then ImpUploaded
      else if s = ''verifying'' then ImpVerifying
      else if s = ''committing'' then ImpCommitting
      else if s = ''committed'' then ImpCommitted
      else if s = ''failed'' then ImpFailed
      else if s = ''rolled_back'' then ImpRolledBack
      else if s = ''expired'' then ImpExpired
      else ImpCreated)"

section \<open>The codecs of the core enumerations\<close>

interpretation resource_codec: text_codec resource_to_string resource_from_config_str_strict
proof
  fix x show "resource_from_config_str_strict (resource_to_string x) = Some x"
    by (cases x) (simp_all add: resource_from_config_str_strict_def ascii_case)
qed

interpretation stream_codec: text_codec stream_to_string stream_from_config_str_strict
proof
  fix x show "stream_from_config_str_strict (stream_to_string x) = Some x"
    by (cases x) (simp_all add: stream_from_config_str_strict_def ascii_case)
qed

interpretation policy_codec: text_codec policy_to_string policy_from_config_str_strict
proof
  fix x show "policy_from_config_str_strict (policy_to_string x) = Some x"
    by (cases x) (simp_all add: policy_from_config_str_strict_def ascii_case)
qed

interpretation import_codec: text_codec import_as_str "\<lambda>s. Some (import_from_str s)"
proof
  fix x show "Some (import_from_str (import_as_str x)) = Some x"
    by (cases x) (simp_all add: import_from_str_def)
qed

interpretation format_codec: text_codec format_as_str "\<lambda>s. Some (from_extension s)"
proof
  fix x show "Some (from_extension (format_as_str x)) = Some x"
    by (cases x) (simp_all add: from_extension_def ascii_case)
qed

end
