(* ===== verification/Host_Env.thy ===== *)
theory Host_Env
  imports Core_Model
begin

text \<open>
  The host the server runs on, as a parameter: the answers of the file system and of process
  creation. Nothing is assumed about them. \<open>path_starts_with\<close> is \<open>Path::starts_with\<close> on
  canonical absolute paths, which compares whole components.
\<close>

record HostEnv =
  env_path_exists :: "string \<Rightarrow> bool"
  env_canonicalize :: "string \<Rightarrow> string + string"
    \<comment> \<open>the printed I/O error, or the canonical path\<close>
  env_is_file :: "string \<Rightarrow> bool"
  env_to_str :: "string \<Rightarrow> string option"
    \<comment> \<open>\<open>None\<close> for a path that is not UTF-8\<close>
  env_spawn :: "string list \<Rightarrow> string + bool"
    \<comment> \<open>the printed error of spawning ffmpeg, or whether its stdout was captured\<close>

fun path_components :: "string \<Rightarrow> string \<Rightarrow> string list" where
  "path_components acc [] = (if acc = [] then [] else [rev acc])"
| "path_components acc (c # cs) =
     (if c = CHR ''/'' then (if acc = [] then path_components [] cs else rev acc # path_components [] cs)
      else path_components (c # acc) cs)"

definition path_starts_with :: "string \<Rightarrow> string \<Rightarrow> bool" where
  "path_starts_with p base \<longleftrightarrow>
     (let ps = path_components [] p; rs = path_components [] base
      in take (length rs) ps = rs)"

text \<open>
  The library guard that \<open>SqliteTrackResolver::get_track\<close> and \<open>validate_track_path\<close> share: a
  canonical path is inside the library when some configured base canonicalizes to a prefix of it;
  a base that does not canonicalize is skipped.
\<close>

definition inside_roots :: "'e HostEnv_scheme \<Rightarrow> string list \<Rightarrow> string \<Rightarrow> bool" where
  "inside_roots E roots canonical =
     list_ex (\<lambda>base. case env_canonicalize E base of
        Inr r \<Rightarrow> path_starts_with canonical r
      | Inl _ \<Rightarrow> False) roots"

lemma inside_roots_iff:
  "inside_roots E roots p \<longleftrightarrow>
     (\<exists>base \<in> set roots. \<exists>r. env_canonicalize E base = Inr r \<and> path_starts_with p r)"
  by (induction roots) (auto simp: inside_roots_def split: sum.splits)

lemma path_starts_with_refl: "path_starts_with p p"
  by (simp add: path_starts_with_def)

lemma path_starts_with_trans:
  "path_starts_with p q \<Longrightarrow> path_starts_with q r \<Longrightarrow> path_starts_with p r"
proof -
  assume pq: "path_starts_with p q" and qr: "path_starts_with q r"
  have "length (path_components [] r) \<le> length (path_components [] q)"
    using qr by (metis path_starts_with_def length_take min.cobounded1 length_append le_cases
        take_all_iff)
  with pq qr show ?thesis
    by (simp add: path_starts_with_def Let_def) (metis min.absorb1 take_take)
qed

end
