(* ===== verification/Playback_Model.thy ===== *)
theory Playback_Model
  imports Core_Model
begin

text \<open>
  The data model of the playback engine: \<^verbatim>\<open>crates/michi-playback/src/model.rs\<close>,
  \<^verbatim>\<open>error.rs\<close> and the \<^verbatim>\<open>AudioSink\<close> trait of \<^verbatim>\<open>sink.rs\<close>. A sink is a value of an
  abstract type with the trait's methods as functions that return the outcome and the sink's
  next state; the two calls the engine bounds by \<open>tokio::time::timeout\<close> may also time out.
\<close>

section \<open>Lifecycle and repeat mode\<close>

datatype PlaybackLifecycle =
    Idle | Preparing | Buffering | AudioFlowing | Playing | Paused | Stopping | Stopped
  | Ended | Failed

fun lifecycle_is_playing :: "PlaybackLifecycle \<Rightarrow> bool" where
  "lifecycle_is_playing AudioFlowing = True"
| "lifecycle_is_playing Playing = True"
| "lifecycle_is_playing _ = False"

fun lifecycle_as_str :: "PlaybackLifecycle \<Rightarrow> string" where
  "lifecycle_as_str Idle = ''idle''"
| "lifecycle_as_str Preparing = ''preparing''"
| "lifecycle_as_str Buffering = ''buffering''"
| "lifecycle_as_str AudioFlowing = ''audio_flowing''"
| "lifecycle_as_str Playing = ''playing''"
| "lifecycle_as_str Paused = ''paused''"
| "lifecycle_as_str Stopping = ''stopping''"
| "lifecycle_as_str Stopped = ''stopped''"
| "lifecycle_as_str Ended = ''ended''"
| "lifecycle_as_str Failed = ''failed''"

datatype RepeatMode = RepeatOff | RepeatAll | RepeatOne

fun repeat_as_str :: "RepeatMode \<Rightarrow> string" where
  "repeat_as_str RepeatOff = ''off''"
| "repeat_as_str RepeatAll = ''all''"
| "repeat_as_str RepeatOne = ''one''"

definition repeat_from_str :: "string \<Rightarrow> RepeatMode" where
  "repeat_from_str s =
     (let t = to_lowercase s in
      if t = ''all'' then RepeatAll
      else if t = ''one'' \<or> t = ''track'' then RepeatOne
      else RepeatOff)"

interpretation repeat_codec: text_codec repeat_as_str "\<lambda>s. Some (repeat_from_str s)"
proof
  fix x show "Some (repeat_from_str (repeat_as_str x)) = Some x"
    by (cases x) (simp_all add: repeat_from_str_def ascii_case)
qed

section \<open>PCM formats\<close>

record PcmFormat =
  pcm_sample_rate :: u32
  pcm_channels :: u16
  pcm_bit_depth :: u16

definition default_pcm_format :: PcmFormat where
  "default_pcm_format = \<lparr>pcm_sample_rate = 48000, pcm_channels = 2, pcm_bit_depth = 16\<rparr>"

text \<open>\<open>usize\<close> is 64 bits wide; the products are computed in \<open>u64\<close> and wrap.\<close>

definition bytes_per_frame :: "PcmFormat \<Rightarrow> u64" where
  "bytes_per_frame f = ucast (pcm_channels f) * (ucast (pcm_bit_depth f) div 8)"

definition bytes_for_duration_ms :: "PcmFormat \<Rightarrow> u64 \<Rightarrow> u64" where
  "bytes_for_duration_ms f ms = (ucast (pcm_sample_rate f) * ms * bytes_per_frame f) div 1000"

definition duration_ms_for_bytes :: "PcmFormat \<Rightarrow> u64 \<Rightarrow> u64" where
  "duration_ms_for_bytes f bytes =
     (let bpf = bytes_per_frame f in
      if bpf = 0 \<or> pcm_sample_rate f = 0 then 0
      else (bytes * 1000) div (ucast (pcm_sample_rate f) * bpf))"

section \<open>Sinks\<close>

datatype SinkKind = ReceiverKind | RoomGroupKind | ChainKind | LocalKind

datatype SinkState =
  SinkPreparing | SinkReady | SinkAudioFlowing | SinkPaused | SinkFailed | SinkStopped

record SinkSnapshot =
  ss_sink_id :: string
  ss_kind :: SinkKind
  ss_state :: SinkState
  ss_bytes_received :: nat
  ss_bytes_sent_to_transport :: nat
  ss_muted :: bool
  ss_last_error :: "string option"

record PlaybackOutputDescription =
  out_target_id :: string
  out_target_name :: string
  out_kind :: string
  out_receiver_count :: nat

section \<open>Errors\<close>

text \<open>An I/O or database error is carried as its printed text.\<close>

datatype PlaybackError =
    NoOutputSelected
  | OutputNotFound string
  | OutputUnavailable string
  | TrackNotFound uuid
  | TrackFileMissing string
  | DecoderUnavailable string
  | DecoderFailed string
  | InvalidMedia string
  | PlaybackFailed string
  | AllOutputsFailed
  | ReceiverNotPaired string
  | ReceiverOffline string
  | InvalidSeek u64
  | InvalidVolume u8
  | TrackOutsideLibrary string
  | QueueEmpty
  | QueueIndexInvalid nat
  | NoTrackSelected
  | EngineUnavailable
  | ChannelClosed
  | IoError string
  | DatabaseError string

fun error_to_string :: "PlaybackError \<Rightarrow> string" where
  "error_to_string NoOutputSelected = ''NO_OUTPUT_SELECTED: no playback output target selected''"
| "error_to_string (OutputNotFound x) = ''OUTPUT_NOT_FOUND: output '' @ [CHR 39] @ x @ [CHR 39] @ '' was not found''"
| "error_to_string (OutputUnavailable x) = ''OUTPUT_UNAVAILABLE: output '' @ [CHR 39] @ x @ [CHR 39] @ '' is unavailable''"
| "error_to_string (TrackNotFound x) = ''TRACK_NOT_FOUND: track '' @ [CHR 39] @ x @ [CHR 39] @ '' was not found''"
| "error_to_string (TrackFileMissing x) = ''TRACK_FILE_MISSING: track audio file '' @ [CHR 39] @ x @ [CHR 39] @ '' does not exist on disk''"
| "error_to_string (DecoderUnavailable x) = ''DECODER_UNAVAILABLE: ffmpeg decoder is not available: '' @ x"
| "error_to_string (DecoderFailed x) = ''DECODER_FAILED: decoding failed: '' @ x"
| "error_to_string (InvalidMedia x) = ''INVALID_MEDIA: invalid media file: '' @ x"
| "error_to_string (PlaybackFailed x) = ''PLAYBACK_FAILED: playback failed: '' @ x"
| "error_to_string AllOutputsFailed = ''ALL_OUTPUTS_FAILED: all output sinks failed to render audio''"
| "error_to_string (ReceiverNotPaired x) = ''RECEIVER_NOT_PAIRED: receiver '' @ [CHR 39] @ x @ [CHR 39] @ '' is not paired''"
| "error_to_string (ReceiverOffline x) = ''RECEIVER_OFFLINE: receiver '' @ [CHR 39] @ x @ [CHR 39] @ '' is offline''"
| "error_to_string (InvalidSeek ms) = ''INVALID_SEEK: requested seek position '' @ show_nat (unat ms) @ ''ms is invalid''"
| "error_to_string (InvalidVolume v) = ''INVALID_VOLUME: volume '' @ show_nat (unat v) @ '' is out of valid range 0..=100''"
| "error_to_string (TrackOutsideLibrary x) = ''TRACK_OUTSIDE_LIBRARY: track file '' @ [CHR 39] @ x @ [CHR 39] @ '' is outside permitted music library paths''"
| "error_to_string QueueEmpty = ''QUEUE_EMPTY: playback queue is empty''"
| "error_to_string (QueueIndexInvalid i) = ''QUEUE_INDEX_INVALID: queue index '' @ show_nat i @ '' is out of bounds''"
| "error_to_string NoTrackSelected = ''NO_TRACK_SELECTED: no track was selected for playback''"
| "error_to_string EngineUnavailable = ''ENGINE_UNAVAILABLE: playback engine is unavailable''"
| "error_to_string ChannelClosed = ''CHANNEL_CLOSED: playback engine command channel closed''"
| "error_to_string (IoError x) = ''IO_ERROR: '' @ x"
| "error_to_string (DatabaseError x) = ''DATABASE_ERROR: '' @ x"

fun error_code :: "PlaybackError \<Rightarrow> string" where
  "error_code NoOutputSelected = ''NO_OUTPUT_SELECTED''"
| "error_code (OutputNotFound _) = ''OUTPUT_NOT_FOUND''"
| "error_code (OutputUnavailable _) = ''OUTPUT_UNAVAILABLE''"
| "error_code (TrackNotFound _) = ''TRACK_NOT_FOUND''"
| "error_code (TrackFileMissing _) = ''TRACK_FILE_MISSING''"
| "error_code (TrackOutsideLibrary _) = ''TRACK_OUTSIDE_LIBRARY''"
| "error_code QueueEmpty = ''QUEUE_EMPTY''"
| "error_code (QueueIndexInvalid _) = ''QUEUE_INDEX_INVALID''"
| "error_code NoTrackSelected = ''NO_TRACK_SELECTED''"
| "error_code EngineUnavailable = ''ENGINE_UNAVAILABLE''"
| "error_code (DecoderUnavailable _) = ''DECODER_UNAVAILABLE''"
| "error_code (DecoderFailed _) = ''DECODER_FAILED''"
| "error_code (InvalidMedia _) = ''INVALID_MEDIA''"
| "error_code (PlaybackFailed _) = ''PLAYBACK_FAILED''"
| "error_code AllOutputsFailed = ''ALL_OUTPUTS_FAILED''"
| "error_code (ReceiverNotPaired _) = ''RECEIVER_NOT_PAIRED''"
| "error_code (ReceiverOffline _) = ''RECEIVER_OFFLINE''"
| "error_code (InvalidSeek _) = ''INVALID_SEEK''"
| "error_code (InvalidVolume _) = ''INVALID_VOLUME''"
| "error_code ChannelClosed = ''CHANNEL_CLOSED''"
| "error_code (IoError _) = ''IO_ERROR''"
| "error_code (DatabaseError _) = ''DATABASE_ERROR''"

section \<open>The AudioSink trait\<close>

type_synonym 'a outcome = "PlaybackError + 'a"

datatype 'a timed = TimedOut | Done 'a

record 's AudioSink =
  as_id :: "'s \<Rightarrow> string"
  as_kind :: "'s \<Rightarrow> SinkKind"
  as_prepare :: "'s \<Rightarrow> PcmFormat \<Rightarrow> unit outcome timed \<times> 's"
  as_write_pcm :: "'s \<Rightarrow> u8 list \<Rightarrow> nat outcome timed \<times> 's"
  as_pause :: "'s \<Rightarrow> unit outcome \<times> 's"
  as_resume :: "'s \<Rightarrow> unit outcome \<times> 's"
  as_set_volume :: "'s \<Rightarrow> u8 \<Rightarrow> unit outcome \<times> 's"
  as_health :: "'s \<Rightarrow> unit outcome"
  as_stop :: "'s \<Rightarrow> unit outcome \<times> 's"
  as_snapshot :: "'s \<Rightarrow> SinkSnapshot"

section \<open>Commands, events and snapshots\<close>

datatype CommandOrigin =
    LocalOrigin
  | RemoteOrigin (origin_device_id: string) (origin_event_id: uuid)
      (origin_sequence: "u64 option") (origin_epoch: "u64 option")
      (origin_boot_id: "uuid option") (origin_lamport: "u64 option")

datatype EngineEvent =
    EvLifecycleChanged PlaybackLifecycle "uuid option"
  | EvTrackChanged "uuid option" nat
  | EvPositionCheckpoint "uuid option" u64
  | EvPaused "uuid option" u64
  | EvStopped
  | EvSeeked "uuid option" u64
  | EvEnded "uuid option"
  | EvFailed string
  | EvVolumeChanged u8
  | EvShuffleChanged bool
  | EvRepeatChanged RepeatMode
  | EvQueueChanged nat
  | EvOutputChanged string

record TrackedEngineEvent =
  te_event :: EngineEvent
  te_origin :: CommandOrigin

datatype 's EngineCommand =
    CmdPlay Track "'s list" PlaybackOutputDescription u64 CommandOrigin
  | CmdLoadTrack Track u64 CommandOrigin
  | CmdJumpToIndex nat CommandOrigin
  | CmdPause CommandOrigin
  | CmdResume CommandOrigin
  | CmdSeek u64 CommandOrigin
  | CmdNext CommandOrigin
  | CmdPrevious CommandOrigin
  | CmdStop CommandOrigin
  | CmdSetVolume u8 CommandOrigin
  | CmdSetShuffle bool CommandOrigin
  | CmdSetRepeat RepeatMode CommandOrigin
  | CmdSetQueue "Track list" nat "uuid option" CommandOrigin
  | CmdGetSnapshot
  | CmdShutdown

fun cmd_origin :: "'s EngineCommand \<Rightarrow> CommandOrigin" where
  "cmd_origin (CmdPlay _ _ _ _ o') = o'"
| "cmd_origin (CmdLoadTrack _ _ o') = o'"
| "cmd_origin (CmdJumpToIndex _ o') = o'"
| "cmd_origin (CmdPause o') = o'"
| "cmd_origin (CmdResume o') = o'"
| "cmd_origin (CmdSeek _ o') = o'"
| "cmd_origin (CmdNext o') = o'"
| "cmd_origin (CmdPrevious o') = o'"
| "cmd_origin (CmdStop o') = o'"
| "cmd_origin (CmdSetVolume _ o') = o'"
| "cmd_origin (CmdSetShuffle _ o') = o'"
| "cmd_origin (CmdSetRepeat _ o') = o'"
| "cmd_origin (CmdSetQueue _ _ _ o') = o'"
| "cmd_origin CmdGetSnapshot = LocalOrigin"
| "cmd_origin CmdShutdown = LocalOrigin"

record EngineSnapshot =
  snap_lifecycle :: PlaybackLifecycle
  snap_generation_id :: nat
  snap_track_id :: "uuid option"
  snap_current_track :: "Track option"
  snap_position_ms :: u64
  snap_duration_ms :: "u64 option"
  snap_volume :: u8
  snap_shuffle :: bool
  snap_repeat :: RepeatMode
  snap_output :: "PlaybackOutputDescription option"
  snap_sinks :: "SinkSnapshot list"
  snap_failed_sinks :: "SinkSnapshot list"
  snap_track_bytes_decoded :: nat
  snap_track_pcm_timeline_bytes :: nat
  snap_network_bytes_sent_total :: nat
  snap_bytes_decoded :: nat
  snap_bytes_delivered :: nat
  snap_output_health :: string
  snap_last_error :: "string option"
  snap_updated_at :: utc
  snap_timeline_origin :: CommandOrigin

definition snapshot_is_playing :: "EngineSnapshot \<Rightarrow> bool" where
  "snapshot_is_playing s = lifecycle_is_playing (snap_lifecycle s)"

section \<open>Lemmas\<close>

lemma lifecycle_is_playing_iff: "lifecycle_is_playing l \<longleftrightarrow> l = AudioFlowing \<or> l = Playing"
  by (cases l) auto

text \<open>The machine-readable code is the prefix of every printed error.\<close>

lemma error_to_string_code: "\<exists>rest. error_to_string e = error_code e @ '': '' @ rest"
  by (cases e) auto

lemma bytes_per_frame_unat:
  "unat (bytes_per_frame f) = unat (pcm_channels f) * (unat (pcm_bit_depth f) div 8)"
proof -
  have c: "unat (pcm_channels f) < 2 ^ 16" and b: "unat (pcm_bit_depth f) < 2 ^ 16"
    using unat_le_max [of "pcm_channels f"] unat_le_max [of "pcm_bit_depth f"] by simp_all
  have "unat (pcm_channels f) * (unat (pcm_bit_depth f) div 8) < 2 ^ 16 * 2 ^ 16"
    using c b by (intro mult_strict_mono) auto
  then have "unat (pcm_channels f) * (unat (pcm_bit_depth f) div 8) < 2 ^ 64" by simp
  moreover have "unat (pcm_bit_depth f) div 8 < 2 ^ 64" using b by simp
  ultimately show ?thesis
    by (simp add: bytes_per_frame_def unat_word_ariths unat_div_distrib unat_ucast_widen)
qed

lemma bytes_for_duration_ms_unat:
  assumes "unat (pcm_sample_rate f) * unat ms * unat (bytes_per_frame f) < 2 ^ 64"
  shows "unat (bytes_for_duration_ms f ms)
       = unat (pcm_sample_rate f) * unat ms * unat (bytes_per_frame f) div 1000"
proof (cases "bytes_per_frame f = 0")
  case True
  then show ?thesis by (simp add: bytes_for_duration_ms_def)
next
  case False
  then have "1 \<le> unat (bytes_per_frame f)"
    by (simp add: Suc_leI unat_gt_0)
  then have "unat (pcm_sample_rate f) * unat ms * 1
      \<le> unat (pcm_sample_rate f) * unat ms * unat (bytes_per_frame f)"
    by (rule mult_le_mono2)
  with assms have "unat (pcm_sample_rate f) * unat ms < 2 ^ 64" by linarith
  with assms show ?thesis
    by (simp add: bytes_for_duration_ms_def unat_word_ariths unat_div_distrib unat_ucast_widen)
qed

end
