(* ===== verification/Playback_Decoder.thy ===== *)
theory Playback_Decoder
  imports Host_Env Playback_Model
begin

text \<open>
  The ffmpeg decoder (\<^verbatim>\<open>crates/michi-playback/src/decoder.rs\<close>) and the track resolver
  (\<^verbatim>\<open>resolver.rs\<close>). The child process and its stdout pipe are present or absent; what a read
  of the pipe returns is an argument of the read.
\<close>

section \<open>FfmpegPcmDecoder\<close>

record FfmpegPcmDecoder =
  dec_file_path :: string
  dec_format :: PcmFormat
  dec_child :: bool
  dec_stdout :: bool
  dec_last_error :: "string option"
  dec_bytes_decoded :: nat
  dec_eof :: bool

definition decoder_new :: "string \<Rightarrow> PcmFormat \<Rightarrow> FfmpegPcmDecoder" where
  "decoder_new path fmt =
     \<lparr>dec_file_path = path, dec_format = fmt, dec_child = False, dec_stdout = False,
      dec_last_error = None, dec_bytes_decoded = 0, dec_eof = False\<rparr>"

text \<open>\<open>stop\<close> kills and reaps the child; it never fails.\<close>

definition decoder_stop :: "FfmpegPcmDecoder \<Rightarrow> FfmpegPcmDecoder" where
  "decoder_stop d = d\<lparr>dec_stdout := False, dec_child := False, dec_eof := False\<rparr>"

text \<open>The start position is printed as seconds with three decimals.\<close>

definition show_millis :: "nat \<Rightarrow> string" where
  "show_millis ms =
     show_nat (ms div 1000) @ ''.'' @
     [digit_char (ms div 100 mod 10), digit_char (ms div 10 mod 10), digit_char (ms mod 10)]"

definition ffmpeg_args :: "FfmpegPcmDecoder \<Rightarrow> string \<Rightarrow> u64 \<Rightarrow> string list" where
  "ffmpeg_args d path start_position_ms =
     [''-hide_banner'', ''-loglevel'', ''error'', ''-nostdin''] @
     (if start_position_ms > 0 then [''-ss'', show_millis (unat start_position_ms)] else []) @
     [''-i'', path, ''-vn'', ''-sn'', ''-dn'', ''-f'', ''s16le'', ''-acodec'', ''pcm_s16le'',
      ''-ar'', show_nat (unat (pcm_sample_rate (dec_format d))),
      ''-ac'', show_nat (unat (pcm_channels (dec_format d))), ''pipe:1'']"

definition decoder_start ::
  "'e HostEnv_scheme \<Rightarrow> FfmpegPcmDecoder \<Rightarrow> u64 \<Rightarrow> unit outcome \<times> FfmpegPcmDecoder" where
  "decoder_start E d0 start_position_ms =
     (let d = decoder_stop d0; path = dec_file_path d in
      if \<not> env_path_exists E path then (Inl (TrackFileMissing path), d)
      else case env_canonicalize E path of
        Inl e \<Rightarrow> (Inl (TrackFileMissing (''path invalid or inaccessible: '' @ e)), d)
      | Inr canonical \<Rightarrow>
          if \<not> env_is_file E canonical then (Inl (InvalidMedia ''path is not a regular file''), d)
          else case env_to_str E canonical of
            None \<Rightarrow> (Inl (InvalidMedia ''non-UTF-8 path''), d)
          | Some canonical_str \<Rightarrow>
              (case env_spawn E (ffmpeg_args d canonical_str start_position_ms) of
                 Inl e \<Rightarrow> (Inl (DecoderUnavailable (''failed to spawn ffmpeg: '' @ e)), d)
               | Inr False \<Rightarrow> (Inl (DecoderFailed ''failed to capture ffmpeg stdout pipe''), d)
               | Inr True \<Rightarrow>
                   (Inr (), d\<lparr>dec_child := True, dec_stdout := True, dec_eof := False\<rparr>)))"

text \<open>
  The task that drains stderr remembers the last line that is not blank.
\<close>

definition decoder_stderr_line :: "FfmpegPcmDecoder \<Rightarrow> string \<Rightarrow> FfmpegPcmDecoder" where
  "decoder_stderr_line d line =
     (if trim line \<noteq> [] then d\<lparr>dec_last_error := Some line\<rparr> else d)"

text \<open>
  \<open>rd\<close> is what reading the pipe into a buffer of \<open>buf_len\<close> bytes gives: an I/O error or some
  bytes, none at end of file.
\<close>

definition read_pcm ::
  "string + u8 list \<Rightarrow> nat \<Rightarrow> FfmpegPcmDecoder \<Rightarrow> u8 list outcome \<times> FfmpegPcmDecoder" where
  "read_pcm rd buf_len d =
     (if dec_eof d then (Inr [], d)
      else if \<not> dec_stdout d then (Inl (DecoderFailed ''decoder not started''), d)
      else case rd of
        Inr bytes \<Rightarrow>
          (let chunk = take buf_len bytes in
           if chunk = [] then (Inr [], d\<lparr>dec_eof := True, dec_child := False, dec_stdout := False\<rparr>)
           else (Inr chunk, d\<lparr>dec_bytes_decoded := dec_bytes_decoded d + length chunk\<rparr>))
      | Inl e \<Rightarrow>
          (Inl (DecoderFailed (case dec_last_error d of Some m \<Rightarrow> m | None \<Rightarrow> e)), d))"

section \<open>SqliteTrackResolver\<close>

text \<open>The table \<open>tracks\<close> is a lookup that may fail with a database error.\<close>

definition get_track ::
  "'e HostEnv_scheme \<Rightarrow> (uuid \<Rightarrow> string + Track option) \<Rightarrow> string list \<Rightarrow> uuid \<Rightarrow> Track outcome" where
  "get_track E db_get music_paths tid =
     (case db_get tid of
        Inl e \<Rightarrow> Inl (DatabaseError e)
      | Inr None \<Rightarrow> Inl (TrackNotFound tid)
      | Inr (Some track) \<Rightarrow>
          (if \<not> env_path_exists E (trk_file_path track)
           then Inl (TrackFileMissing (trk_file_path track))
           else case env_canonicalize E (trk_file_path track) of
             Inl e \<Rightarrow> Inl (TrackFileMissing (''path invalid or inaccessible: '' @ e))
           | Inr canonical \<Rightarrow>
               if \<not> env_is_file E canonical
               then Inl (InvalidMedia ''track path is not a regular file'')
               else if music_paths \<noteq> [] \<and> \<not> inside_roots E music_paths canonical
               then Inl (TrackOutsideLibrary (trk_file_path track))
               else Inr (track\<lparr>trk_file_path := canonical\<rparr>)))"

section \<open>Lemmas\<close>

lemma decoder_start_ok_running:
  "decoder_start E d p = (Inr (), d') \<Longrightarrow> dec_child d' \<and> dec_stdout d' \<and> \<not> dec_eof d'"
  by (auto simp: decoder_start_def decoder_stop_def Let_def
      split: if_splits sum.splits option.splits bool.splits)

lemma decoder_start_err_stopped:
  "decoder_start E d p = (Inl e, d') \<Longrightarrow> d' = decoder_stop d"
  by (auto simp: decoder_start_def Let_def split: if_splits sum.splits option.splits bool.splits)

lemma read_pcm_bounded: "read_pcm rd n d = (Inr bs, d') \<Longrightarrow> length bs \<le> n"
  by (auto simp: read_pcm_def Let_def split: if_splits sum.splits)

lemma read_pcm_counts:
  "read_pcm rd n d = (Inr bs, d') \<Longrightarrow> dec_bytes_decoded d' = dec_bytes_decoded d + length bs"
  by (auto simp: read_pcm_def Let_def split: if_splits sum.splits)

text \<open>A resolved track is a regular file inside the library, whatever the database row says.\<close>

lemma get_track_inside:
  assumes "get_track E db roots tid = Inr t" and "roots \<noteq> []"
  shows "inside_roots E roots (trk_file_path t) \<and> env_is_file E (trk_file_path t)"
  using assms by (auto simp: get_track_def split: if_splits sum.splits option.splits)

lemma get_track_id:
  assumes "get_track E db roots tid = Inr t"
  shows "\<exists>row. db tid = Inr (Some row) \<and> trk_id t = trk_id row"
  using assms by (auto simp: get_track_def split: if_splits sum.splits option.splits)

end
