(* ===== verification/Playback_Engine.thy ===== *)
theory Playback_Engine
  imports Playback_Decoder
begin

text \<open>
  The playback engine of \<^verbatim>\<open>crates/michi-playback/src/engine.rs\<close>: its state, every command
  handler, the audio step that decodes a chunk and fans it out to the sinks, end-of-track
  handling, and the loop as a step relation. The model takes the sinks' behaviour (an
  \<open>AudioSink\<close>) and the environment of one step (file system, clock readings, random numbers,
  the outcome of reading the decoder's pipe) as arguments. Indexing a vector out of range is a
  panic, a value of its own here; \<open>Engine_Properties\<close> proves that no reachable state panics.
  Byte and generation counters are natural numbers; positions are 64 bits wide and wrap.
\<close>

section \<open>State and environment\<close>

record EngineEnv = HostEnv +
  env_now :: instant
    \<comment> \<open>the clock when the handler reads positions\<close>
  env_now_start :: instant
    \<comment> \<open>the clock when a playback start records its first checkpoint\<close>
  env_utc :: utc
  env_shuffle :: "nat list \<Rightarrow> nat list"
    \<comment> \<open>\<open>SliceRandom::shuffle\<close>\<close>
  env_gen_range :: "nat \<Rightarrow> nat"
    \<comment> \<open>\<open>Rng::gen_range(1..n)\<close>\<close>
  env_read :: "string + u8 list"
    \<comment> \<open>the outcome of reading the decoder's pipe\<close>

text \<open>What the documentation of the \<open>rand\<close> crate says of the two calls.\<close>

definition rng_ok :: "EngineEnv \<Rightarrow> bool" where
  "rng_ok E \<longleftrightarrow>
     (\<forall>xs. mset (env_shuffle E xs) = mset xs) \<and>
     (\<forall>n. 1 < n \<longrightarrow> 1 \<le> env_gen_range E n \<and> env_gen_range E n < n)"

record 's Engine =
  eng_format :: PcmFormat
  eng_state :: PlaybackLifecycle
  eng_generation_id :: nat
  eng_current_track :: "Track option"
  eng_queue :: "Track list"
  eng_queue_index :: nat
  eng_play_order :: "nat list"
  eng_play_order_pos :: nat
  eng_base_position_ms :: u64
  eng_playing_started_at :: "instant option"
  eng_volume :: u8
  eng_shuffle :: bool
  eng_repeat :: RepeatMode
  eng_output_desc :: "PlaybackOutputDescription option"
  eng_sinks :: "'s list"
  eng_failed_sinks :: "SinkSnapshot list"
  eng_decoder :: "FfmpegPcmDecoder option"
  eng_track_bytes_decoded :: nat
  eng_track_pcm_timeline_bytes :: nat
  eng_network_bytes_sent_total :: nat
  eng_output_health :: string
  eng_last_error :: "string option"
  eng_events :: "TrackedEngineEvent list"
    \<comment> \<open>everything sent on the broadcast channel, oldest first\<close>
  eng_last_checkpoint :: instant
  eng_command_origin :: "CommandOrigin option"
  eng_timeline_origin :: CommandOrigin
  eng_detached :: "'s list"
    \<comment> \<open>sinks handed to a background task that stops them\<close>
  eng_released :: "'s list"
    \<comment> \<open>sinks the engine stopped and dropped\<close>

abbreviation PLAYING_EVIDENCE_THRESHOLD_MS :: u64 where
  "PLAYING_EVIDENCE_THRESHOLD_MS \<equiv> 100"

abbreviation MAX_FAILED_SINK_SNAPSHOTS :: nat where
  "MAX_FAILED_SINK_SNAPSHOTS \<equiv> 32"

datatype Panic = IndexOutOfBounds

definition new_with_events :: "PcmFormat \<Rightarrow> instant \<Rightarrow> 's Engine" where
  "new_with_events fmt now =
     \<lparr>eng_format = fmt, eng_state = Idle, eng_generation_id = 0, eng_current_track = None,
      eng_queue = [], eng_queue_index = 0, eng_play_order = [], eng_play_order_pos = 0,
      eng_base_position_ms = 0, eng_playing_started_at = None, eng_volume = 80,
      eng_shuffle = False, eng_repeat = RepeatOff, eng_output_desc = None, eng_sinks = [],
      eng_failed_sinks = [], eng_decoder = None, eng_track_bytes_decoded = 0,
      eng_track_pcm_timeline_bytes = 0, eng_network_bytes_sent_total = 0,
      eng_output_health = ''none'', eng_last_error = None, eng_events = [],
      eng_last_checkpoint = now, eng_command_origin = None, eng_timeline_origin = LocalOrigin,
      eng_detached = [], eng_released = []\<rparr>"

definition current_track_id :: "'s Engine \<Rightarrow> uuid option" where
  "current_track_id e = map_option trk_id (eng_current_track e)"

definition event_origin :: "'s Engine \<Rightarrow> CommandOrigin" where
  "event_origin e =
     (case eng_command_origin e of Some o' \<Rightarrow> o' | None \<Rightarrow> eng_timeline_origin e)"

definition emit_event :: "EngineEvent \<Rightarrow> 's Engine \<Rightarrow> 's Engine" where
  "emit_event ev e =
     e\<lparr>eng_events := eng_events e @ [\<lparr>te_event = ev, te_origin = event_origin e\<rparr>]\<rparr>"

section \<open>Play order\<close>

definition recompute_play_order :: "EngineEnv \<Rightarrow> nat \<Rightarrow> 's Engine \<Rightarrow> 's Engine" where
  "recompute_play_order E current_idx e =
     (let n = length (eng_queue e) in
      if n = 0 then e\<lparr>eng_play_order := [], eng_play_order_pos := 0\<rparr>
      else if eng_shuffle e then
        (let order = env_shuffle E [0..<n];
             order' = (case position (\<lambda>x. x = current_idx) order of
                         Some pos \<Rightarrow> list_swap order 0 pos
                       | None \<Rightarrow> order)
         in e\<lparr>eng_play_order := order', eng_play_order_pos := 0\<rparr>)
      else e\<lparr>eng_play_order := [0..<n], eng_play_order_pos := min current_idx (n - 1)\<rparr>)"

definition recompute_play_order_new_cycle :: "EngineEnv \<Rightarrow> nat \<Rightarrow> 's Engine \<Rightarrow> 's Engine" where
  "recompute_play_order_new_cycle E just_finished_idx e =
     (let n = length (eng_queue e) in
      if n = 0 then e\<lparr>eng_play_order := [], eng_play_order_pos := 0\<rparr>
      else if eng_shuffle e then
        (let order = env_shuffle E [0..<n];
             order' = (if n > 1 \<and> nth_opt order 0 = Some just_finished_idx
                       then list_swap order 0 (env_gen_range E n) else order)
         in e\<lparr>eng_play_order := order', eng_play_order_pos := 0\<rparr>)
      else e\<lparr>eng_play_order := [0..<n], eng_play_order_pos := 0\<rparr>)"

text \<open>\<open>self.queue_index = self.play_order[self.play_order_pos]; self.queue[self.queue_index].clone()\<close>\<close>

definition select_current :: "'s Engine \<Rightarrow> Panic + 's Engine \<times> Track" where
  "select_current e =
     (case nth_opt (eng_play_order e) (eng_play_order_pos e) of
        None \<Rightarrow> Inl IndexOutOfBounds
      | Some qi \<Rightarrow>
          (case nth_opt (eng_queue e) qi of
             None \<Rightarrow> Inl IndexOutOfBounds
           | Some t \<Rightarrow> Inr (e\<lparr>eng_queue_index := qi\<rparr>, t)))"

section \<open>Position and snapshot\<close>

definition calculate_current_position_ms :: "instant \<Rightarrow> 's Engine \<Rightarrow> u64" where
  "calculate_current_position_ms now e =
     (case eng_playing_started_at e of
        None \<Rightarrow> eng_base_position_ms e
      | Some started \<Rightarrow>
          eng_base_position_ms e + word_of_nat (as_millis (elapsed now started)))"

definition engine_snapshot :: "'s AudioSink \<Rightarrow> EngineEnv \<Rightarrow> 's Engine \<Rightarrow> EngineSnapshot" where
  "engine_snapshot A E e =
     \<lparr>snap_lifecycle = eng_state e,
      snap_generation_id = eng_generation_id e,
      snap_track_id = current_track_id e,
      snap_current_track = eng_current_track e,
      snap_position_ms = calculate_current_position_ms (env_now E) e,
      snap_duration_ms = Option.bind (eng_current_track e) trk_duration_ms,
      snap_volume = eng_volume e,
      snap_shuffle = eng_shuffle e,
      snap_repeat = eng_repeat e,
      snap_output = eng_output_desc e,
      snap_sinks = map (as_snapshot A) (eng_sinks e),
      snap_failed_sinks = eng_failed_sinks e,
      snap_track_bytes_decoded = eng_track_bytes_decoded e,
      snap_track_pcm_timeline_bytes = eng_track_pcm_timeline_bytes e,
      snap_network_bytes_sent_total = eng_network_bytes_sent_total e,
      snap_bytes_decoded = eng_track_bytes_decoded e,
      snap_bytes_delivered = eng_network_bytes_sent_total e,
      snap_output_health = eng_output_health e,
      snap_last_error = eng_last_error e,
      snap_updated_at = env_utc E,
      snap_timeline_origin = eng_timeline_origin e\<rparr>"

section \<open>Sinks\<close>

definition record_failed_sink :: "SinkSnapshot \<Rightarrow> 's Engine \<Rightarrow> 's Engine" where
  "record_failed_sink snap e =
     e\<lparr>eng_failed_sinks :=
         (if MAX_FAILED_SINK_SNAPSHOTS \<le> length (eng_failed_sinks e)
          then tl (eng_failed_sinks e) else eng_failed_sinks e) @ [snap]\<rparr>"

definition detach_sink :: "'s \<Rightarrow> 's Engine \<Rightarrow> 's Engine" where
  "detach_sink s e = e\<lparr>eng_detached := eng_detached e @ [s]\<rparr>"

text \<open>A call on every sink, in order; the outcomes and the sinks after it.\<close>

definition sink_errors :: "('s \<Rightarrow> 'a outcome \<times> 's) \<Rightarrow> 's list \<Rightarrow> PlaybackError list" where
  "sink_errors f ss =
     List.map_filter (\<lambda>s. case fst (f s) of Inl er \<Rightarrow> Some er | Inr _ \<Rightarrow> None) ss"

definition sinks_after :: "('s \<Rightarrow> 'a outcome \<times> 's) \<Rightarrow> 's list \<Rightarrow> 's list" where
  "sinks_after f ss = map (\<lambda>s. snd (f s)) ss"

definition stop_decoder :: "'s Engine \<Rightarrow> 's Engine" where
  "stop_decoder e = e\<lparr>eng_decoder := None\<rparr>"

definition cleanup_playback :: "'s AudioSink \<Rightarrow> 's Engine \<Rightarrow> unit outcome \<times> 's Engine" where
  "cleanup_playback A e =
     (let total = length (eng_sinks e);
          errs = sink_errors (as_stop A) (eng_sinks e);
          e1 = (stop_decoder e)\<lparr>eng_sinks := sinks_after (as_stop A) (eng_sinks e),
                                eng_playing_started_at := None\<rparr>
      in if total > 0 \<and> length errs = total then
           (Inl (case errs of er # _ \<Rightarrow> er | [] \<Rightarrow> PlaybackFailed ''all sinks failed to stop''),
            e1\<lparr>eng_output_health := ''failed''\<rparr>)
         else if length errs > 0 then (Inr (), e1\<lparr>eng_output_health := ''partial''\<rparr>)
         else (Inr (), e1))"

definition cleanup :: "'s AudioSink \<Rightarrow> 's Engine \<Rightarrow> 's Engine" where
  "cleanup A e =
     (let e1 = snd (cleanup_playback A e)
      in e1\<lparr>eng_released := eng_released e1 @ eng_sinks e1, eng_sinks := [], eng_state := Stopped\<rparr>)"

definition fail_playback :: "'s AudioSink \<Rightarrow> PlaybackError \<Rightarrow> 's Engine \<Rightarrow> 's Engine" where
  "fail_playback A er e =
     (let e1 = (stop_decoder e)\<lparr>eng_sinks := sinks_after (as_stop A) (eng_sinks e),
                                eng_state := Failed,
                                eng_last_error := Some (error_to_string er),
                                eng_playing_started_at := None\<rparr>
      in emit_event (EvLifecycleChanged Failed (current_track_id e1))
           (emit_event (EvFailed (error_to_string er)) e1))"

section \<open>Starting a track\<close>

definition prepared_sinks :: "'s AudioSink \<Rightarrow> PcmFormat \<Rightarrow> 's list \<Rightarrow> 's list" where
  "prepared_sinks A fmt ss =
     map (\<lambda>s. snd (as_prepare A s fmt)) (filter (\<lambda>s. fst (as_prepare A s fmt) = Done (Inr ())) ss)"

definition unprepared_sinks :: "'s AudioSink \<Rightarrow> PcmFormat \<Rightarrow> 's list \<Rightarrow> 's list" where
  "unprepared_sinks A fmt ss =
     map (\<lambda>s. snd (as_prepare A s fmt)) (filter (\<lambda>s. fst (as_prepare A s fmt) \<noteq> Done (Inr ())) ss)"

definition start_playback_internal ::
  "'s AudioSink \<Rightarrow> EngineEnv \<Rightarrow> Track \<Rightarrow> u64 \<Rightarrow> 's Engine \<Rightarrow> unit outcome \<times> 's Engine" where
  "start_playback_internal A E track position_ms e0 =
     (let e = e0\<lparr>eng_failed_sinks := []\<rparr> in
      if eng_sinks e = [] then
        (Inl NoOutputSelected,
         emit_event (EvLifecycleChanged Failed (Some (trk_id track)))
           (emit_event (EvFailed ''no output sinks available'')
              (e\<lparr>eng_state := Failed, eng_output_health := ''none'',
                 eng_last_error := Some ''no output sinks available''\<rparr>)))
      else
        (let total = length (eng_sinks e);
             prepared = prepared_sinks A (eng_format e) (eng_sinks e);
             e1 = e\<lparr>eng_sinks := [],
                    eng_detached := eng_detached e @ unprepared_sinks A (eng_format e) (eng_sinks e)\<rparr>
         in if prepared = [] then
              (Inl (OutputUnavailable ''none of the selected sinks are available''),
               emit_event (EvLifecycleChanged Failed (Some (trk_id track)))
                 (emit_event (EvFailed ''all output sinks failed to prepare'')
                    (e1\<lparr>eng_state := Failed, eng_output_health := ''failed'',
                        eng_last_error := Some ''all output sinks failed to prepare''\<rparr>)))
            else
              (let e2 = e1\<lparr>eng_output_health :=
                             (if length prepared = total then ''healthy'' else ''partial'')\<rparr>
               in case decoder_start E (decoder_new (trk_file_path track) (eng_format e)) position_ms of
                    (Inl er, _) \<Rightarrow>
                      (Inl er,
                       emit_event (EvLifecycleChanged Idle (Some (trk_id track)))
                         (emit_event (EvFailed (error_to_string er))
                            (e2\<lparr>eng_released := eng_released e2 @ sinks_after (as_stop A) prepared,
                                eng_sinks := [], eng_state := Idle, eng_output_health := ''none'',
                                eng_last_error := Some (error_to_string er)\<rparr>)))
                  | (Inr _, decoder) \<Rightarrow>
                      (let e3 = e2\<lparr>eng_sinks := prepared,
                                   eng_generation_id := eng_generation_id e2 + 1,
                                   eng_track_bytes_decoded := 0,
                                   eng_track_pcm_timeline_bytes := 0,
                                   eng_decoder := Some decoder,
                                   eng_current_track := Some track,
                                   eng_base_position_ms := position_ms,
                                   eng_playing_started_at := None,
                                   eng_state := Preparing,
                                   eng_last_error := None,
                                   eng_last_checkpoint := env_now_start E\<rparr>
                       in (Inr (),
                           emit_event (EvOutputChanged (eng_output_health e3))
                             (emit_event (EvTrackChanged (current_track_id e3) (eng_queue_index e3))
                                (emit_event (EvLifecycleChanged (eng_state e3) (current_track_id e3))
                                   e3)))))))"

section \<open>End of a track\<close>

definition start_or_fail ::
  "'s AudioSink \<Rightarrow> EngineEnv \<Rightarrow> Track \<Rightarrow> 's Engine \<Rightarrow> 's Engine" where
  "start_or_fail A E track e =
     (case start_playback_internal A E track 0 e of
        (Inr _, e') \<Rightarrow> e'
      | (Inl er, e') \<Rightarrow> fail_playback A er e')"

definition end_of_queue :: "'s Engine \<Rightarrow> 's Engine" where
  "end_of_queue e = emit_event (EvLifecycleChanged Ended None) (e\<lparr>eng_state := Ended\<rparr>)"

definition handle_eof :: "'s AudioSink \<Rightarrow> EngineEnv \<Rightarrow> 's Engine \<Rightarrow> Panic + 's Engine" where
  "handle_eof A E e0 =
     (let e = emit_event (EvEnded (current_track_id e0)) (stop_decoder e0) in
      case eng_repeat e of
        RepeatOne \<Rightarrow>
          (case eng_current_track e of
             Some track \<Rightarrow> Inr (start_or_fail A E track e)
           | None \<Rightarrow> Inr (end_of_queue e))
      | RepeatAll \<Rightarrow>
          (if eng_queue e \<noteq> [] then
             (let e1 = (if length (eng_play_order e) \<le> eng_play_order_pos e + 1 then
                          (if eng_shuffle e
                           then recompute_play_order_new_cycle E (eng_queue_index e) e
                           else e\<lparr>eng_play_order_pos := 0\<rparr>)
                        else e\<lparr>eng_play_order_pos := eng_play_order_pos e + 1\<rparr>)
              in case select_current e1 of
                   Inl p \<Rightarrow> Inl p
                 | Inr (e2, t) \<Rightarrow> Inr (start_or_fail A E t e2))
           else Inr (end_of_queue e))
      | RepeatOff \<Rightarrow>
          (if eng_queue e \<noteq> [] \<and> eng_play_order_pos e + 1 < length (eng_play_order e) then
             (case select_current (e\<lparr>eng_play_order_pos := eng_play_order_pos e + 1\<rparr>) of
                Inl p \<Rightarrow> Inl p
              | Inr (e2, t) \<Rightarrow> Inr (start_or_fail A E t e2))
           else Inr (end_of_queue e)))"

section \<open>One audio chunk\<close>

definition failed_snapshot :: "'s AudioSink \<Rightarrow> 's \<Rightarrow> string \<Rightarrow> SinkSnapshot" where
  "failed_snapshot A s msg =
     (as_snapshot A s)\<lparr>ss_state := SinkFailed, ss_last_error := Some msg\<rparr>"

text \<open>
  The results of the concurrent writes are folded in sink order: bytes delivered, the sinks that
  survive, and the engine with the failed ones recorded and detached.
\<close>

fun collect_writes ::
  "'s AudioSink \<Rightarrow> (nat outcome timed \<times> 's) list \<Rightarrow> 's Engine \<Rightarrow> nat \<times> 's list \<times> 's Engine" where
  "collect_writes A [] e = (0, [], e)"
| "collect_writes A ((Done (Inr written), s) # rs) e =
     (case collect_writes A rs e of (d, ss, e') \<Rightarrow> (written + d, s # ss, e'))"
| "collect_writes A ((Done (Inl er), s) # rs) e =
     collect_writes A rs
       (detach_sink s (record_failed_sink (failed_snapshot A s (error_to_string er)) e))"
| "collect_writes A ((TimedOut, s) # rs) e =
     collect_writes A rs
       (detach_sink s (record_failed_sink (failed_snapshot A s ''write timed out after 250ms'') e))"

definition all_sinks_failed :: "'s Engine \<Rightarrow> 's Engine" where
  "all_sinks_failed e =
     (let e1 = (stop_decoder e)\<lparr>eng_sinks := [], eng_state := Failed,
                                eng_output_health := ''failed'',
                                eng_last_error := Some ''all output sinks failed'',
                                eng_playing_started_at := None\<rparr>
      in emit_event (EvLifecycleChanged Failed (current_track_id e1))
           (emit_event (EvFailed ''all output sinks failed'') e1))"

definition promote_lifecycle :: "EngineEnv \<Rightarrow> 's Engine \<Rightarrow> 's Engine" where
  "promote_lifecycle E e =
     (let e1 = (if eng_state e = Preparing \<or> eng_state e = Buffering
                then e\<lparr>eng_state := AudioFlowing,
                       eng_playing_started_at :=
                         (case eng_playing_started_at e of
                            None \<Rightarrow> Some (env_now E) | Some t \<Rightarrow> Some t)\<rparr>
                else e)
      in if eng_state e1 = AudioFlowing \<and>
            unat (bytes_for_duration_ms (eng_format e1) PLAYING_EVIDENCE_THRESHOLD_MS)
              \<le> eng_track_pcm_timeline_bytes e1
         then (let e2 = e1\<lparr>eng_state := Playing\<rparr>
               in emit_event (EvLifecycleChanged Playing (current_track_id e2)) e2)
         else e1)"

definition maybe_checkpoint :: "EngineEnv \<Rightarrow> 's Engine \<Rightarrow> 's Engine" where
  "maybe_checkpoint E e =
     (if lifecycle_is_playing (eng_state e) \<and>
         from_millis 2500 \<le> elapsed (env_now E) (eng_last_checkpoint e)
      then emit_event (EvPositionCheckpoint (current_track_id e)
                         (calculate_current_position_ms (env_now E) e))
             (e\<lparr>eng_last_checkpoint := env_now E\<rparr>)
      else e)"

definition deliver_chunk :: "'s AudioSink \<Rightarrow> EngineEnv \<Rightarrow> u8 list \<Rightarrow> 's Engine \<Rightarrow> 's Engine" where
  "deliver_chunk A E chunk e0 =
     (let n = length chunk;
          e = e0\<lparr>eng_track_bytes_decoded := eng_track_bytes_decoded e0 + n\<rparr>;
          total_sinks = length (eng_sinks e)
      in case collect_writes A (map (\<lambda>s. as_write_pcm A s chunk) (eng_sinks e)) e of
           (delivered, surviving, e1) \<Rightarrow>
             if surviving = [] then all_sinks_failed e1
             else
               (let e2 = (if length surviving < total_sinks
                          then emit_event (EvOutputChanged ''partial'')
                                 (e1\<lparr>eng_output_health := ''partial''\<rparr>)
                          else e1);
                    e3 = e2\<lparr>eng_sinks := surviving,
                            eng_network_bytes_sent_total :=
                              eng_network_bytes_sent_total e2 + delivered\<rparr>
                in if delivered > 0
                   then maybe_checkpoint E (promote_lifecycle E
                          (e3\<lparr>eng_track_pcm_timeline_bytes :=
                                eng_track_pcm_timeline_bytes e3 + n\<rparr>))
                   else e3))"

definition decoder_error :: "PlaybackError \<Rightarrow> 's Engine \<Rightarrow> 's Engine" where
  "decoder_error er e =
     (let e1 = (stop_decoder e)\<lparr>eng_state := Failed, eng_output_health := ''failed'',
                                eng_last_error := Some (error_to_string er),
                                eng_playing_started_at := None\<rparr>
      in emit_event (EvLifecycleChanged Failed (current_track_id e1))
           (emit_event (EvFailed (error_to_string er)) e1))"

definition process_audio_chunk ::
  "'s AudioSink \<Rightarrow> EngineEnv \<Rightarrow> nat \<Rightarrow> 's Engine \<Rightarrow> Panic + 's Engine" where
  "process_audio_chunk A E buf_len e =
     (case eng_decoder e of
        None \<Rightarrow> Inr (e\<lparr>eng_state := Stopped\<rparr>)
      | Some d \<Rightarrow>
          (case read_pcm (env_read E) buf_len d of
             (Inr chunk, d') \<Rightarrow>
               if chunk = [] then handle_eof A E (e\<lparr>eng_decoder := Some d'\<rparr>)
               else Inr (deliver_chunk A E chunk (e\<lparr>eng_decoder := Some d'\<rparr>))
           | (Inl er, d') \<Rightarrow> Inr (decoder_error er (e\<lparr>eng_decoder := Some d'\<rparr>))))"

end
