(* ===== verification/Engine_Commands.thy ===== *)
theory Engine_Commands
  imports Playback_Engine
begin

text \<open>
  The command handlers of the playback engine (\<open>handle_command\<close> and its match arms in
  \<^verbatim>\<open>crates/michi-playback/src/engine.rs\<close>), the loop \<open>run\<close> as a step relation, and the client
  side \<open>PlaybackEngineHandle\<close>. A handler returns the reply it sends on the command's oneshot
  channel and the engine after it; \<open>handle_command\<close> adds whether the loop goes on.
\<close>

datatype Reply = Answer "unit outcome" | SnapshotReply EngineSnapshot | ShutdownDone

section \<open>Handlers\<close>

definition set_timeline_origin :: "'s Engine \<Rightarrow> 's Engine" where
  "set_timeline_origin e =
     e\<lparr>eng_timeline_origin :=
         (case eng_command_origin e of Some o' \<Rightarrow> o' | None \<Rightarrow> LocalOrigin)\<rparr>"

definition cmd_play ::
  "'s AudioSink \<Rightarrow> EngineEnv \<Rightarrow> Track \<Rightarrow> 's list \<Rightarrow> PlaybackOutputDescription \<Rightarrow> u64 \<Rightarrow>
   's Engine \<Rightarrow> unit outcome \<times> 's Engine" where
  "cmd_play A E track sinks output_desc position_ms e0 =
     (let e = set_timeline_origin e0 in
      if sinks = [] then (Inl NoOutputSelected, e)
      else
        (let c = snd (cleanup_playback A e);
             e1 = c\<lparr>eng_released := eng_released c @ eng_sinks c,
                    eng_sinks := sinks, eng_output_desc := Some output_desc\<rparr>
         in start_playback_internal A E track position_ms e1))"

definition cmd_load_track ::
  "'s AudioSink \<Rightarrow> Track \<Rightarrow> u64 \<Rightarrow> 's Engine \<Rightarrow> unit outcome \<times> 's Engine" where
  "cmd_load_track A track position_ms e0 =
     (let e = (snd (cleanup_playback A (set_timeline_origin e0)))\<lparr>
                eng_current_track := Some track,
                eng_base_position_ms := position_ms,
                eng_state := Paused\<rparr>
      in (Inr (),
          emit_event (EvLifecycleChanged (eng_state e) (current_track_id e))
            (emit_event (EvPaused (current_track_id e) position_ms)
               (emit_event (EvTrackChanged (current_track_id e) (eng_queue_index e)) e))))"

definition cmd_jump_to_index ::
  "'s AudioSink \<Rightarrow> EngineEnv \<Rightarrow> nat \<Rightarrow> 's Engine \<Rightarrow> unit outcome \<times> 's Engine" where
  "cmd_jump_to_index A E index e0 =
     (let e = set_timeline_origin e0 in
      case nth_opt (eng_queue e) index of
        None \<Rightarrow> (Inl (QueueIndexInvalid index), e)
      | Some target_track \<Rightarrow>
          (let e1 = e\<lparr>eng_queue_index := index,
                      eng_play_order_pos :=
                        (case position (\<lambda>x. x = index) (eng_play_order e) of
                           Some p \<Rightarrow> p | None \<Rightarrow> 0)\<rparr>
           in if (lifecycle_is_playing (eng_state e1) \<or> eng_state e1 = Preparing) \<and>
                 eng_sinks e1 \<noteq> []
              then start_playback_internal A E target_track 0 e1
              else
                (let e2 = e1\<lparr>eng_generation_id := eng_generation_id e1 + 1,
                             eng_track_bytes_decoded := 0,
                             eng_track_pcm_timeline_bytes := 0,
                             eng_current_track := Some target_track,
                             eng_base_position_ms := 0\<rparr>
                 in (Inr (),
                     emit_event (EvTrackChanged (current_track_id e2) (eng_queue_index e2)) e2))))"

definition cmd_pause ::
  "'s AudioSink \<Rightarrow> EngineEnv \<Rightarrow> 's Engine \<Rightarrow> unit outcome \<times> 's Engine" where
  "cmd_pause A E e0 =
     (let e = set_timeline_origin e0;
          pos = calculate_current_position_ms (env_now E) e;
          pause_errors = length (sink_errors (as_pause A) (eng_sinks e));
          e1 = (stop_decoder e)\<lparr>eng_playing_started_at := None,
                                eng_base_position_ms := pos,
                                eng_sinks := sinks_after (as_pause A) (eng_sinks e)\<rparr>;
          e2 = (if pause_errors = length (eng_sinks e1) \<and> eng_sinks e1 \<noteq> []
                then e1\<lparr>eng_output_health := ''failed''\<rparr> else e1);
          e3 = e2\<lparr>eng_state := Paused\<rparr>
      in (Inr (),
          emit_event (EvLifecycleChanged (eng_state e3) (current_track_id e3))
            (emit_event (EvPaused (current_track_id e3) pos) e3)))"

definition cmd_resume ::
  "'s AudioSink \<Rightarrow> EngineEnv \<Rightarrow> 's Engine \<Rightarrow> unit outcome \<times> 's Engine" where
  "cmd_resume A E e0 =
     (let e = set_timeline_origin e0 in
      if eng_sinks e = [] then (Inl NoOutputSelected, e)
      else if eng_state e = Paused then
        (case eng_current_track e of
           Some track \<Rightarrow>
             (let resume_errors = length (sink_errors (as_resume A) (eng_sinks e));
                  e1 = e\<lparr>eng_sinks := sinks_after (as_resume A) (eng_sinks e)\<rparr>;
                  e2 = (if resume_errors = length (eng_sinks e1)
                        then e1\<lparr>eng_output_health := ''failed''\<rparr> else e1)
              in start_playback_internal A E track (eng_base_position_ms e2) e2)
         | None \<Rightarrow> (Inl (PlaybackFailed ''no track to resume''), e))
      else if eng_state e = Idle \<or> eng_state e = Stopped then
        (case eng_current_track e of
           Some track \<Rightarrow> start_playback_internal A E track (eng_base_position_ms e) e
         | None \<Rightarrow> (Inl (PlaybackFailed ''no track loaded''), e))
      else (Inr (), e))"

definition cmd_seek ::
  "EngineEnv \<Rightarrow> u64 \<Rightarrow> 's Engine \<Rightarrow> unit outcome \<times> 's Engine" where
  "cmd_seek E position_ms e0 =
     (let e = set_timeline_origin e0 in
      if lifecycle_is_playing (eng_state e) then
        (case eng_current_track e of
           Some track \<Rightarrow>
             (let e1 = (stop_decoder e)\<lparr>eng_generation_id := eng_generation_id e + 1,
                                        eng_track_bytes_decoded := 0,
                                        eng_track_pcm_timeline_bytes := 0,
                                        eng_failed_sinks := [],
                                        eng_playing_started_at := None,
                                        eng_state := Preparing\<rparr>
              in case decoder_start E (decoder_new (trk_file_path track) (eng_format e1)) position_ms of
                   (Inr _, decoder) \<Rightarrow>
                     (let e2 = e1\<lparr>eng_decoder := Some decoder,
                                  eng_base_position_ms := position_ms\<rparr>
                      in (Inr (),
                          emit_event (EvLifecycleChanged (eng_state e2) (Some (trk_id track)))
                            (emit_event (EvSeeked (Some (trk_id track)) position_ms) e2)))
                 | (Inl er, _) \<Rightarrow>
                     (let e2 = e1\<lparr>eng_state := Failed, eng_decoder := None,
                                  eng_last_error := Some (error_to_string er)\<rparr>
                      in (Inl er,
                          emit_event (EvLifecycleChanged (eng_state e2) (Some (trk_id track)))
                            (emit_event (EvFailed (error_to_string er)) e2))))
         | None \<Rightarrow> (Inr (), e))
      else
        (let e1 = e\<lparr>eng_base_position_ms := position_ms\<rparr>
         in (Inr (), emit_event (EvSeeked (current_track_id e1) position_ms) e1)))"

text \<open>
  The block that \<open>Next\<close> and \<open>Previous\<close> repeat once the target track is chosen: without sinks only
  the selection moves, otherwise playback starts.
\<close>

definition switch_track ::
  "'s AudioSink \<Rightarrow> EngineEnv \<Rightarrow> Track \<Rightarrow> 's Engine \<Rightarrow> unit outcome \<times> 's Engine" where
  "switch_track A E t e =
     (if eng_sinks e = [] then
        (let e1 = e\<lparr>eng_generation_id := eng_generation_id e + 1,
                    eng_track_bytes_decoded := 0,
                    eng_track_pcm_timeline_bytes := 0,
                    eng_current_track := Some t,
                    eng_base_position_ms := 0,
                    eng_playing_started_at := None\<rparr>
         in (Inr (), emit_event (EvTrackChanged (current_track_id e1) (eng_queue_index e1)) e1))
      else start_playback_internal A E t 0 e)"

definition switch_selected ::
  "'s AudioSink \<Rightarrow> EngineEnv \<Rightarrow> 's Engine \<Rightarrow> Panic + unit outcome \<times> 's Engine" where
  "switch_selected A E e =
     (case select_current e of
        Inl p \<Rightarrow> Inl p
      | Inr (e1, t) \<Rightarrow> Inr (switch_track A E t e1))"

definition cmd_next ::
  "'s AudioSink \<Rightarrow> EngineEnv \<Rightarrow> 's Engine \<Rightarrow> Panic + unit outcome \<times> 's Engine" where
  "cmd_next A E e =
     (if eng_queue e \<noteq> [] \<and> eng_play_order_pos e + 1 < length (eng_play_order e) then
        switch_selected A E (e\<lparr>eng_play_order_pos := eng_play_order_pos e + 1\<rparr>)
      else if eng_repeat e = RepeatAll \<and> eng_queue e \<noteq> [] then
        switch_selected A E
          (if eng_shuffle e then recompute_play_order_new_cycle E (eng_queue_index e) e
           else e\<lparr>eng_play_order_pos := 0\<rparr>)
      else
        (let e1 = (snd (cleanup_playback A e))\<lparr>eng_state := Ended\<rparr>
         in Inr (Inr (),
              emit_event (EvLifecycleChanged Ended None)
                (emit_event (EvEnded (current_track_id e1)) e1))))"

definition restart_current ::
  "'s AudioSink \<Rightarrow> EngineEnv \<Rightarrow> 's Engine \<Rightarrow> unit outcome \<times> 's Engine" where
  "restart_current A E e =
     (case eng_current_track e of
        Some track \<Rightarrow>
          (if eng_sinks e = []
           then (Inr (), e\<lparr>eng_base_position_ms := 0, eng_playing_started_at := None\<rparr>)
           else start_playback_internal A E track 0 e)
      | None \<Rightarrow> (Inr (), e))"

definition cmd_previous ::
  "'s AudioSink \<Rightarrow> EngineEnv \<Rightarrow> 's Engine \<Rightarrow> Panic + unit outcome \<times> 's Engine" where
  "cmd_previous A E e =
     (if 3000 < eng_base_position_ms e \<or>
         (case eng_playing_started_at e of
            Some s \<Rightarrow> 3000 < as_millis (elapsed (env_now E) s) | None \<Rightarrow> False)
      then Inr (restart_current A E e)
      else if 0 < eng_play_order_pos e \<and> eng_queue e \<noteq> []
      then switch_selected A E (e\<lparr>eng_play_order_pos := eng_play_order_pos e - 1\<rparr>)
      else Inr (restart_current A E e))"

definition cmd_stop :: "'s AudioSink \<Rightarrow> 's Engine \<Rightarrow> unit outcome \<times> 's Engine" where
  "cmd_stop A e0 =
     (case cleanup_playback A (e0\<lparr>eng_timeline_origin := LocalOrigin\<rparr>) of
        (res, e) \<Rightarrow>
          (let e1 = e\<lparr>eng_base_position_ms := 0, eng_state := Stopped\<rparr>
           in (res,
               emit_event (EvLifecycleChanged (eng_state e1) None) (emit_event EvStopped e1))))"

definition cmd_set_volume ::
  "'s AudioSink \<Rightarrow> u8 \<Rightarrow> 's Engine \<Rightarrow> unit outcome \<times> 's Engine" where
  "cmd_set_volume A volume e0 =
     (let e1 = e0\<lparr>eng_volume := min volume 100\<rparr>;
          e = emit_event (EvVolumeChanged (eng_volume e1)) e1
      in if eng_sinks e = [] then (Inr (), e)
         else
           (let f = (\<lambda>s. as_set_volume A s (eng_volume e));
                errors = length (sink_errors f (eng_sinks e));
                total = length (eng_sinks e);
                e2 = e\<lparr>eng_sinks := sinks_after f (eng_sinks e)\<rparr>
            in if errors = total then
                 (Inl AllOutputsFailed, e2\<lparr>eng_output_health := ''failed''\<rparr>)
               else if errors > 0 then (Inr (), e2\<lparr>eng_output_health := ''partial''\<rparr>)
               else (Inr (), e2)))"

definition cmd_set_shuffle :: "EngineEnv \<Rightarrow> bool \<Rightarrow> 's Engine \<Rightarrow> unit outcome \<times> 's Engine" where
  "cmd_set_shuffle E shuffle e =
     (let e1 = recompute_play_order E (eng_queue_index e) (e\<lparr>eng_shuffle := shuffle\<rparr>)
      in (Inr (), emit_event (EvShuffleChanged (eng_shuffle e1)) e1))"

definition cmd_set_repeat :: "RepeatMode \<Rightarrow> 's Engine \<Rightarrow> unit outcome \<times> 's Engine" where
  "cmd_set_repeat r e =
     (let e1 = e\<lparr>eng_repeat := r\<rparr> in (Inr (), emit_event (EvRepeatChanged (eng_repeat e1)) e1))"

definition cmd_set_queue ::
  "EngineEnv \<Rightarrow> Track list \<Rightarrow> nat \<Rightarrow> uuid option \<Rightarrow> 's Engine \<Rightarrow> unit outcome \<times> 's Engine" where
  "cmd_set_queue E tracks current_index cur_track e0 =
     (let resolved_index =
            (case cur_track of
               Some target \<Rightarrow>
                 (case position (\<lambda>t. trk_id t = target) tracks of
                    Some p \<Rightarrow> p | None \<Rightarrow> current_index)
             | None \<Rightarrow> current_index);
          e1 = e0\<lparr>eng_queue := tracks,
                  eng_queue_index := min resolved_index (length tracks - 1)\<rparr>;
          e2 = recompute_play_order E (eng_queue_index e1) e1;
          e3 = (if \<not> lifecycle_is_playing (eng_state e2) \<and> eng_current_track e2 = None
                then e2\<lparr>eng_current_track := nth_opt (eng_queue e2) (eng_queue_index e2)\<rparr>
                else e2)
      in (Inr (),
          emit_event (EvTrackChanged (current_track_id e3) (eng_queue_index e3))
            (emit_event (EvQueueChanged (length (eng_queue e3))) e3)))"

section \<open>Dispatch\<close>

definition answer :: "unit outcome \<times> 's Engine \<Rightarrow> Panic + Reply \<times> 's Engine \<times> bool" where
  "answer r = Inr (Answer (fst r), snd r, True)"

definition answer_or_panic ::
  "Panic + unit outcome \<times> 's Engine \<Rightarrow> Panic + Reply \<times> 's Engine \<times> bool" where
  "answer_or_panic r = (case r of Inl p \<Rightarrow> Inl p | Inr x \<Rightarrow> answer x)"

fun handle_command_inner ::
  "'s AudioSink \<Rightarrow> EngineEnv \<Rightarrow> 's EngineCommand \<Rightarrow> 's Engine \<Rightarrow> Panic + Reply \<times> 's Engine \<times> bool"
where
  "handle_command_inner A E (CmdPlay t ss od p _) e = answer (cmd_play A E t ss od p e)"
| "handle_command_inner A E (CmdLoadTrack t p _) e = answer (cmd_load_track A t p e)"
| "handle_command_inner A E (CmdJumpToIndex i _) e = answer (cmd_jump_to_index A E i e)"
| "handle_command_inner A E (CmdPause _) e = answer (cmd_pause A E e)"
| "handle_command_inner A E (CmdResume _) e = answer (cmd_resume A E e)"
| "handle_command_inner A E (CmdSeek p _) e = answer (cmd_seek E p e)"
| "handle_command_inner A E (CmdNext _) e = answer_or_panic (cmd_next A E e)"
| "handle_command_inner A E (CmdPrevious _) e = answer_or_panic (cmd_previous A E e)"
| "handle_command_inner A E (CmdStop _) e = answer (cmd_stop A e)"
| "handle_command_inner A E (CmdSetVolume v _) e = answer (cmd_set_volume A v e)"
| "handle_command_inner A E (CmdSetShuffle s _) e = answer (cmd_set_shuffle E s e)"
| "handle_command_inner A E (CmdSetRepeat r _) e = answer (cmd_set_repeat r e)"
| "handle_command_inner A E (CmdSetQueue ts i c _) e = answer (cmd_set_queue E ts i c e)"
| "handle_command_inner A E CmdGetSnapshot e = Inr (SnapshotReply (engine_snapshot A E e), e, True)"
| "handle_command_inner A E CmdShutdown e = Inr (ShutdownDone, cleanup A e, False)"

definition handle_command ::
  "'s AudioSink \<Rightarrow> EngineEnv \<Rightarrow> 's EngineCommand \<Rightarrow> 's Engine \<Rightarrow> Panic + Reply \<times> 's Engine \<times> bool"
where
  "handle_command A E cmd e =
     (case handle_command_inner A E cmd (e\<lparr>eng_command_origin := Some (cmd_origin cmd)\<rparr>) of
        Inl p \<Rightarrow> Inl p
      | Inr (reply, e', go) \<Rightarrow> Inr (reply, e'\<lparr>eng_command_origin := None\<rparr>, go))"

section \<open>The loop\<close>

definition run_polls_audio :: "'s Engine \<Rightarrow> bool" where
  "run_polls_audio e \<longleftrightarrow>
     lifecycle_is_playing (eng_state e) \<or> eng_state e = Preparing \<or> eng_state e = Buffering"

definition chunk_size :: "'s Engine \<Rightarrow> nat" where
  "chunk_size e = max (unat (bytes_for_duration_ms (eng_format e) 10)) 1920"

text \<open>
  One iteration of \<open>run\<close>: a command at any time, an audio chunk in the states that poll for one,
  between them a line on the decoder's stderr, and \<open>cleanup\<close> when the loop is left (the command
  channel is closed, or a \<open>Shutdown\<close> was handled). The relation lets steps follow the last one, so
  what holds of every reachable state holds of a run that ends.
\<close>

inductive engine_step :: "'s AudioSink \<Rightarrow> 's Engine \<Rightarrow> 's Engine \<Rightarrow> bool" for A where
  command: "rng_ok E \<Longrightarrow> handle_command A E cmd e = Inr (reply, e', go) \<Longrightarrow> engine_step A e e'"
| audio: "rng_ok E \<Longrightarrow> run_polls_audio e \<Longrightarrow>
     process_audio_chunk A E (chunk_size e) e = Inr e' \<Longrightarrow> engine_step A e e'"
| stderr: "eng_decoder e = Some d \<Longrightarrow>
     engine_step A e (e\<lparr>eng_decoder := Some (decoder_stderr_line d line)\<rparr>)"
| closed: "engine_step A e (cleanup A e)"

inductive engine_reachable :: "'s AudioSink \<Rightarrow> 's Engine \<Rightarrow> bool" for A where
  start: "engine_reachable A (new_with_events fmt now)"
| step: "engine_reachable A e \<Longrightarrow> engine_step A e e' \<Longrightarrow> engine_reachable A e'"

inductive_cases engine_stepE: "engine_step A e e'"

section \<open>The handle\<close>

text \<open>
  \<open>PlaybackEngineHandle\<close> sends a command and waits for its reply; when the engine task is gone
  either step fails with \<open>ChannelClosed\<close>. \<open>None\<close> is an engine whose task has ended (after
  \<open>Shutdown\<close>, or a panic).
\<close>

type_synonym 's engine_task = "'s Engine option"

definition send_command ::
  "'s AudioSink \<Rightarrow> EngineEnv \<Rightarrow> 's EngineCommand \<Rightarrow> 's engine_task \<Rightarrow> Reply outcome \<times> 's engine_task"
where
  "send_command A E cmd task =
     (case task of
        None \<Rightarrow> (Inl ChannelClosed, None)
      | Some e \<Rightarrow>
          (case handle_command A E cmd e of
             Inl _ \<Rightarrow> (Inl ChannelClosed, None)
           | Inr (reply, e', go) \<Rightarrow> (Inr reply, if go then Some e' else None)))"

definition ask ::
  "'s AudioSink \<Rightarrow> EngineEnv \<Rightarrow> 's EngineCommand \<Rightarrow> 's engine_task \<Rightarrow> unit outcome \<times> 's engine_task"
where
  "ask A E cmd task =
     (case send_command A E cmd task of
        (Inr (Answer r), task') \<Rightarrow> (r, task')
      | (Inr _, task') \<Rightarrow> (Inr (), task')
      | (Inl er, task') \<Rightarrow> (Inl er, task'))"

definition handle_play where
  "handle_play A E track sinks output_desc position_ms o' =
     ask A E (CmdPlay track sinks output_desc position_ms o')"

definition handle_load_track where
  "handle_load_track A E track position_ms o' = ask A E (CmdLoadTrack track position_ms o')"

definition handle_jump_to_index where
  "handle_jump_to_index A E index = ask A E (CmdJumpToIndex index LocalOrigin)"

definition handle_pause where
  "handle_pause A E o' = ask A E (CmdPause o')"

definition handle_resume where
  "handle_resume A E o' = ask A E (CmdResume o')"

definition handle_seek where
  "handle_seek A E position_ms o' = ask A E (CmdSeek position_ms o')"

definition handle_next where
  "handle_next A E = ask A E (CmdNext LocalOrigin)"

definition handle_previous where
  "handle_previous A E = ask A E (CmdPrevious LocalOrigin)"

definition handle_stop where
  "handle_stop A E o' = ask A E (CmdStop o')"

definition handle_set_volume where
  "handle_set_volume A E volume o' = ask A E (CmdSetVolume volume o')"

definition handle_set_shuffle where
  "handle_set_shuffle A E shuffle = ask A E (CmdSetShuffle shuffle LocalOrigin)"

definition handle_set_repeat where
  "handle_set_repeat A E r = ask A E (CmdSetRepeat r LocalOrigin)"

definition handle_set_queue where
  "handle_set_queue A E tracks i c = ask A E (CmdSetQueue tracks i c LocalOrigin)"

definition handle_snapshot ::
  "'s AudioSink \<Rightarrow> EngineEnv \<Rightarrow> 's engine_task \<Rightarrow> EngineSnapshot outcome" where
  "handle_snapshot A E task =
     (case send_command A E CmdGetSnapshot task of
        (Inr (SnapshotReply s), _) \<Rightarrow> Inr s
      | _ \<Rightarrow> Inl ChannelClosed)"

definition handle_shutdown :: "'s AudioSink \<Rightarrow> EngineEnv \<Rightarrow> 's engine_task \<Rightarrow> 's engine_task" where
  "handle_shutdown A E task = snd (send_command A E CmdShutdown task)"

end
