(* ===== verification/Engine_Properties.thy ===== *)
theory Engine_Properties
  imports Engine_Commands
begin

text \<open>
  The invariant of the playback engine and its preservation by the building blocks of the handlers:
  what each helper of \<open>Playback_Engine\<close> leaves alone (frame lemmas), the play-order permutation and
  its cursor, and the invariant after a start, a failure, an end of track and a chunk of audio.
  \<open>Engine_Invariant\<close> lifts these to whole commands and to every reachable state.
\<close>

section \<open>Frame lemmas\<close>

lemma emit_event_frame [simp]:
  "eng_format (emit_event ev e) = eng_format e"
  "eng_state (emit_event ev e) = eng_state e"
  "eng_generation_id (emit_event ev e) = eng_generation_id e"
  "eng_current_track (emit_event ev e) = eng_current_track e"
  "eng_queue (emit_event ev e) = eng_queue e"
  "eng_queue_index (emit_event ev e) = eng_queue_index e"
  "eng_play_order (emit_event ev e) = eng_play_order e"
  "eng_play_order_pos (emit_event ev e) = eng_play_order_pos e"
  "eng_base_position_ms (emit_event ev e) = eng_base_position_ms e"
  "eng_playing_started_at (emit_event ev e) = eng_playing_started_at e"
  "eng_volume (emit_event ev e) = eng_volume e"
  "eng_shuffle (emit_event ev e) = eng_shuffle e"
  "eng_repeat (emit_event ev e) = eng_repeat e"
  "eng_output_desc (emit_event ev e) = eng_output_desc e"
  "eng_sinks (emit_event ev e) = eng_sinks e"
  "eng_failed_sinks (emit_event ev e) = eng_failed_sinks e"
  "eng_decoder (emit_event ev e) = eng_decoder e"
  "eng_track_bytes_decoded (emit_event ev e) = eng_track_bytes_decoded e"
  "eng_track_pcm_timeline_bytes (emit_event ev e) = eng_track_pcm_timeline_bytes e"
  "eng_network_bytes_sent_total (emit_event ev e) = eng_network_bytes_sent_total e"
  "eng_output_health (emit_event ev e) = eng_output_health e"
  "eng_last_error (emit_event ev e) = eng_last_error e"
  "eng_last_checkpoint (emit_event ev e) = eng_last_checkpoint e"
  "eng_command_origin (emit_event ev e) = eng_command_origin e"
  "eng_timeline_origin (emit_event ev e) = eng_timeline_origin e"
  "eng_detached (emit_event ev e) = eng_detached e"
  "eng_released (emit_event ev e) = eng_released e"
  by (simp_all add: emit_event_def)

lemma stop_decoder_frame [simp]:
  "eng_format (stop_decoder e) = eng_format e"
  "eng_state (stop_decoder e) = eng_state e"
  "eng_queue (stop_decoder e) = eng_queue e"
  "eng_queue_index (stop_decoder e) = eng_queue_index e"
  "eng_play_order (stop_decoder e) = eng_play_order e"
  "eng_play_order_pos (stop_decoder e) = eng_play_order_pos e"
  "eng_current_track (stop_decoder e) = eng_current_track e"
  "eng_shuffle (stop_decoder e) = eng_shuffle e"
  "eng_repeat (stop_decoder e) = eng_repeat e"
  "eng_volume (stop_decoder e) = eng_volume e"
  "eng_sinks (stop_decoder e) = eng_sinks e"
  "eng_failed_sinks (stop_decoder e) = eng_failed_sinks e"
  "eng_track_bytes_decoded (stop_decoder e) = eng_track_bytes_decoded e"
  "eng_track_pcm_timeline_bytes (stop_decoder e) = eng_track_pcm_timeline_bytes e"
  "eng_playing_started_at (stop_decoder e) = eng_playing_started_at e"
  "eng_base_position_ms (stop_decoder e) = eng_base_position_ms e"
  "eng_command_origin (stop_decoder e) = eng_command_origin e"
  "eng_timeline_origin (stop_decoder e) = eng_timeline_origin e"
  "eng_events (stop_decoder e) = eng_events e"
  "eng_decoder (stop_decoder e) = None"
  "eng_released (stop_decoder e) = eng_released e"
  "eng_detached (stop_decoder e) = eng_detached e"
  by (simp_all add: stop_decoder_def)

lemma length_sinks_after [simp]: "length (sinks_after f ss) = length ss"
  by (simp add: sinks_after_def)

lemma sinks_after_Nil_iff [simp]: "sinks_after f ss = [] \<longleftrightarrow> ss = []"
  by (simp add: sinks_after_def)

section \<open>Invariants\<close>

text \<open>
  The queue cursor: the play order is a permutation of the queue's indices, the cursor is inside
  it and points at the queue index.
\<close>

definition cursor_ok :: "'s Engine \<Rightarrow> bool" where
  "cursor_ok e \<longleftrightarrow>
     mset (eng_play_order e) = mset [0..<length (eng_queue e)] \<and>
     (eng_queue e \<noteq> [] \<longrightarrow>
        eng_play_order_pos e < length (eng_play_order e) \<and>
        eng_play_order e ! eng_play_order_pos e = eng_queue_index e)"

definition base_inv :: "'s Engine \<Rightarrow> bool" where
  "base_inv e \<longleftrightarrow>
     cursor_ok e \<and> eng_volume e \<le> 100 \<and>
     length (eng_failed_sinks e) \<le> MAX_FAILED_SINK_SNAPSHOTS \<and>
     eng_track_pcm_timeline_bytes e \<le> eng_track_bytes_decoded e"

text \<open>
  Liveness of the audio path: in every state that polls for audio there are sinks, a decoder and a
  current track; playing states have a start time; \<open>Playing\<close> is backed by the evidence threshold.
\<close>

definition live_inv :: "'s Engine \<Rightarrow> bool" where
  "live_inv e \<longleftrightarrow>
     eng_state e \<noteq> Buffering \<and> eng_state e \<noteq> Stopping \<and>
     (run_polls_audio e \<longrightarrow>
        eng_sinks e \<noteq> [] \<and> eng_decoder e \<noteq> None \<and> eng_current_track e \<noteq> None) \<and>
     (lifecycle_is_playing (eng_state e) \<longrightarrow> eng_playing_started_at e \<noteq> None) \<and>
     (eng_state e = Playing \<longrightarrow>
        unat (bytes_for_duration_ms (eng_format e) PLAYING_EVIDENCE_THRESHOLD_MS)
          \<le> eng_track_pcm_timeline_bytes e)"

definition engine_inv :: "'s Engine \<Rightarrow> bool" where
  "engine_inv e \<longleftrightarrow> base_inv e \<and> live_inv e"

lemmas inv_defs = engine_inv_def base_inv_def live_inv_def cursor_ok_def run_polls_audio_def

lemma cursor_okD:
  assumes "cursor_ok e"
  shows "length (eng_play_order e) = length (eng_queue e)"
    and "i < length (eng_queue e) \<Longrightarrow> eng_play_order e ! i < length (eng_queue e)"
    and "set (eng_play_order e) = {0..<length (eng_queue e)}"
    and "distinct (eng_play_order e)"
proof -
  have m: "mset (eng_play_order e) = mset [0..<length (eng_queue e)]"
    using assms by (simp add: cursor_ok_def)
  show l: "length (eng_play_order e) = length (eng_queue e)"
    and s: "set (eng_play_order e) = {0..<length (eng_queue e)}"
    and "distinct (eng_play_order e)"
    using mset_upt_perm [OF m] by auto
  show "eng_play_order e ! i < length (eng_queue e)" if "i < length (eng_queue e)"
  proof -
    have "eng_play_order e ! i \<in> set (eng_play_order e)" using that l by simp
    then show ?thesis using s by auto
  qed
qed

text \<open>Moving the cursor inside the play order never panics and re-establishes coherence.\<close>

lemma select_current_ok:
  assumes "mset (eng_play_order e) = mset [0..<length (eng_queue e)]"
    and "eng_play_order_pos e < length (eng_queue e)"
  shows "\<exists>t. select_current e =
      Inr (e\<lparr>eng_queue_index := eng_play_order e ! eng_play_order_pos e\<rparr>, t) \<and>
      t = eng_queue e ! (eng_play_order e ! eng_play_order_pos e)"
proof -
  have l: "length (eng_play_order e) = length (eng_queue e)"
    and s: "set (eng_play_order e) = {0..<length (eng_queue e)}"
    using mset_upt_perm [OF assms(1)] by auto
  have "eng_play_order e ! eng_play_order_pos e \<in> set (eng_play_order e)"
    using assms(2) l by simp
  then have "eng_play_order e ! eng_play_order_pos e < length (eng_queue e)"
    using s by auto
  then show ?thesis using assms(2) l by (simp add: select_current_def nth_opt_in)
qed

section \<open>The play order\<close>

lemma recompute_play_order_frame [simp]:
  "eng_queue (recompute_play_order E i e) = eng_queue e"
  "eng_queue_index (recompute_play_order E i e) = eng_queue_index e"
  "eng_state (recompute_play_order E i e) = eng_state e"
  "eng_current_track (recompute_play_order E i e) = eng_current_track e"
  "eng_sinks (recompute_play_order E i e) = eng_sinks e"
  "eng_decoder (recompute_play_order E i e) = eng_decoder e"
  "eng_volume (recompute_play_order E i e) = eng_volume e"
  "eng_failed_sinks (recompute_play_order E i e) = eng_failed_sinks e"
  "eng_track_bytes_decoded (recompute_play_order E i e) = eng_track_bytes_decoded e"
  "eng_track_pcm_timeline_bytes (recompute_play_order E i e) = eng_track_pcm_timeline_bytes e"
  "eng_playing_started_at (recompute_play_order E i e) = eng_playing_started_at e"
  "eng_format (recompute_play_order E i e) = eng_format e"
  "eng_shuffle (recompute_play_order E i e) = eng_shuffle e"
  "eng_command_origin (recompute_play_order E i e) = eng_command_origin e"
  "eng_timeline_origin (recompute_play_order E i e) = eng_timeline_origin e"
  "eng_repeat (recompute_play_order E i e) = eng_repeat e"
  "eng_events (recompute_play_order E i e) = eng_events e"
  "eng_released (recompute_play_order E i e) = eng_released e"
  "eng_detached (recompute_play_order E i e) = eng_detached e"
  by (simp_all add: recompute_play_order_def Let_def)

lemma new_cycle_frame [simp]:
  "eng_queue (recompute_play_order_new_cycle E i e) = eng_queue e"
  "eng_queue_index (recompute_play_order_new_cycle E i e) = eng_queue_index e"
  "eng_state (recompute_play_order_new_cycle E i e) = eng_state e"
  "eng_current_track (recompute_play_order_new_cycle E i e) = eng_current_track e"
  "eng_sinks (recompute_play_order_new_cycle E i e) = eng_sinks e"
  "eng_decoder (recompute_play_order_new_cycle E i e) = eng_decoder e"
  "eng_volume (recompute_play_order_new_cycle E i e) = eng_volume e"
  "eng_failed_sinks (recompute_play_order_new_cycle E i e) = eng_failed_sinks e"
  "eng_track_bytes_decoded (recompute_play_order_new_cycle E i e) = eng_track_bytes_decoded e"
  "eng_track_pcm_timeline_bytes (recompute_play_order_new_cycle E i e) = eng_track_pcm_timeline_bytes e"
  "eng_playing_started_at (recompute_play_order_new_cycle E i e) = eng_playing_started_at e"
  "eng_format (recompute_play_order_new_cycle E i e) = eng_format e"
  "eng_shuffle (recompute_play_order_new_cycle E i e) = eng_shuffle e"
  "eng_command_origin (recompute_play_order_new_cycle E i e) = eng_command_origin e"
  "eng_timeline_origin (recompute_play_order_new_cycle E i e) = eng_timeline_origin e"
  "eng_repeat (recompute_play_order_new_cycle E i e) = eng_repeat e"
  "eng_events (recompute_play_order_new_cycle E i e) = eng_events e"
  "eng_released (recompute_play_order_new_cycle E i e) = eng_released e"
  "eng_detached (recompute_play_order_new_cycle E i e) = eng_detached e"
  by (simp_all add: recompute_play_order_new_cycle_def Let_def)

lemma recompute_play_order_cursor:
  assumes "rng_ok E" and "eng_queue e \<noteq> [] \<longrightarrow> i < length (eng_queue e) \<and> eng_queue_index e = i"
  shows "cursor_ok (recompute_play_order E i e)"
proof (cases "eng_queue e = [] \<or> \<not> eng_shuffle e")
  case True
  with assms(2) show ?thesis
    by (auto simp: recompute_play_order_def Let_def cursor_ok_def)
next
  case False
  define order where "order = env_shuffle E [0..<length (eng_queue e)]"
  have m: "mset order = mset [0..<length (eng_queue e)]"
    using assms(1) by (simp add: rng_ok_def order_def)
  note perm = mset_upt_perm [OF m]
  have "i \<in> set order" using perm(2) False assms(2) by simp
  then obtain p where p: "position (\<lambda>x. x = i) order = Some p"
    by (cases "position (\<lambda>x. x = i) order") auto
  have pl: "p < length order" "order ! p = i" using position_SomeD [OF p] by auto
  have "eng_play_order (recompute_play_order E i e) = list_swap order 0 p"
    "eng_play_order_pos (recompute_play_order E i e) = 0"
    using False p by (simp_all add: recompute_play_order_def Let_def order_def)
  moreover have "mset (list_swap order 0 p) = mset order"
    using pl perm(3) False by simp
  ultimately show ?thesis
    using pl m perm(3) False assms(2) by (simp add: cursor_ok_def list_swap_0)
qed

lemma new_cycle_order:
  assumes "rng_ok E" and "eng_queue e \<noteq> []"
  shows "mset (eng_play_order (recompute_play_order_new_cycle E i e)) = mset [0..<length (eng_queue e)]"
    and "eng_play_order_pos (recompute_play_order_new_cycle E i e) = 0"
proof -
  define n where "n = length (eng_queue e)"
  define order where "order = env_shuffle E [0..<n]"
  have m: "mset order = mset [0..<n]" using assms(1) by (simp add: rng_ok_def order_def)
  have n: "0 < n" using assms(2) by (simp add: n_def)
  note perm = mset_upt_perm [OF m]
  have g: "env_gen_range E n < n" if "1 < n" using assms(1) that by (simp add: rng_ok_def)
  show "eng_play_order_pos (recompute_play_order_new_cycle E i e) = 0"
    by (simp add: recompute_play_order_new_cycle_def Let_def)
  have "mset (if 1 < n \<and> nth_opt order 0 = Some i then list_swap order 0 (env_gen_range E n) else order)
      = mset order"
    using g perm(3) n by simp
  then show "mset (eng_play_order (recompute_play_order_new_cycle E i e)) = mset [0..<length (eng_queue e)]"
    using m n by (auto simp: recompute_play_order_new_cycle_def Let_def simp flip: n_def order_def)
qed

section \<open>Preservation\<close>

lemma emit_event_inv [simp]:
  "base_inv (emit_event ev e) = base_inv e"
  "live_inv (emit_event ev e) = live_inv e"
  "engine_inv (emit_event ev e) = engine_inv e"
  "cursor_ok (emit_event ev e) = cursor_ok e"
  by (simp_all add: inv_defs)

lemma prepared_sinks_Nil: "prepared_sinks A fmt [] = []"
  by (simp add: prepared_sinks_def)

text \<open>
  Starting a track establishes the whole invariant from its queue half alone: whatever state the
  audio path was in, it is rebuilt or torn down.
\<close>

lemma start_playback_inv [michi_inv]:
  assumes "cursor_ok e" and "eng_volume e \<le> 100"
    and "eng_track_pcm_timeline_bytes e \<le> eng_track_bytes_decoded e"
    and "start_playback_internal A E t p e = (r, e')"
  shows "engine_inv e'"
  using assms
  by (auto simp: start_playback_internal_def Let_def inv_defs
      split: if_splits prod.splits sum.splits)

lemma start_playback_frame:
  assumes "start_playback_internal A E t p e = (r, e')"
  shows "eng_queue e' = eng_queue e" "eng_queue_index e' = eng_queue_index e"
    "eng_play_order e' = eng_play_order e" "eng_play_order_pos e' = eng_play_order_pos e"
    "eng_volume e' = eng_volume e" "eng_shuffle e' = eng_shuffle e" "eng_repeat e' = eng_repeat e"
    "eng_command_origin e' = eng_command_origin e" "eng_timeline_origin e' = eng_timeline_origin e"
    "eng_format e' = eng_format e"
  using assms
  by (auto simp: start_playback_internal_def Let_def split: if_splits prod.splits sum.splits)

lemma fail_playback_inv [michi_inv]: "base_inv e \<Longrightarrow> engine_inv (fail_playback A er e)"
  by (auto simp: fail_playback_def Let_def inv_defs)

lemma start_or_fail_inv [michi_inv]:
  assumes "cursor_ok e" and "eng_volume e \<le> 100"
    and "eng_track_pcm_timeline_bytes e \<le> eng_track_bytes_decoded e"
  shows "engine_inv (start_or_fail A E t e)"
proof (cases "start_playback_internal A E t 0 e")
  case (Pair r e')
  with start_playback_inv [OF assms Pair] show ?thesis
    by (cases r) (auto simp: start_or_fail_def engine_inv_def dest: fail_playback_inv)
qed

lemma cleanup_playback_inv [michi_inv]:
  assumes "base_inv e"
  shows "base_inv (snd (cleanup_playback A e))"
  using assms by (auto simp: cleanup_playback_def Let_def inv_defs)

lemma cleanup_playback_frame [simp]:
  "eng_queue (snd (cleanup_playback A e)) = eng_queue e"
  "eng_queue_index (snd (cleanup_playback A e)) = eng_queue_index e"
  "eng_play_order (snd (cleanup_playback A e)) = eng_play_order e"
  "eng_play_order_pos (snd (cleanup_playback A e)) = eng_play_order_pos e"
  "eng_volume (snd (cleanup_playback A e)) = eng_volume e"
  "eng_current_track (snd (cleanup_playback A e)) = eng_current_track e"
  "eng_decoder (snd (cleanup_playback A e)) = None"
  "eng_playing_started_at (snd (cleanup_playback A e)) = None"
  "eng_failed_sinks (snd (cleanup_playback A e)) = eng_failed_sinks e"
  "eng_track_bytes_decoded (snd (cleanup_playback A e)) = eng_track_bytes_decoded e"
  "eng_track_pcm_timeline_bytes (snd (cleanup_playback A e)) = eng_track_pcm_timeline_bytes e"
  "eng_format (snd (cleanup_playback A e)) = eng_format e"
  "eng_command_origin (snd (cleanup_playback A e)) = eng_command_origin e"
  "eng_timeline_origin (snd (cleanup_playback A e)) = eng_timeline_origin e"
  "eng_repeat (snd (cleanup_playback A e)) = eng_repeat e"
  "eng_shuffle (snd (cleanup_playback A e)) = eng_shuffle e"
  "eng_events (snd (cleanup_playback A e)) = eng_events e"
  "eng_released (snd (cleanup_playback A e)) = eng_released e"
  "eng_detached (snd (cleanup_playback A e)) = eng_detached e"
  "eng_base_position_ms (snd (cleanup_playback A e)) = eng_base_position_ms e"
  "eng_sinks (snd (cleanup_playback A e)) = sinks_after (as_stop A) (eng_sinks e)"
  by (simp_all add: cleanup_playback_def Let_def)

text \<open>Advancing the cursor inside the order, and starting what it selects.\<close>

lemma select_then:
  assumes "mset (eng_play_order e) = mset [0..<length (eng_queue e)]"
    and "eng_play_order_pos e < length (eng_queue e)"
  obtains e' t where "select_current e = Inr (e', t)" "cursor_ok e'"
    "e' = e\<lparr>eng_queue_index := eng_play_order e ! eng_play_order_pos e\<rparr>"
    "t = eng_queue e ! (eng_play_order e ! eng_play_order_pos e)"
  using select_current_ok [OF assms] mset_upt_perm [OF assms(1)] assms
  by (fastforce simp: cursor_ok_def)

lemma handle_eof_ok [michi_inv]:
  assumes rng: "rng_ok E" and inv: "base_inv e"
  shows "\<exists>e'. handle_eof A E e = Inr e' \<and> engine_inv e'"
proof -
  define e1 where "e1 = emit_event (EvEnded (current_track_id e)) (stop_decoder e)"
  have b: "base_inv e1" using inv by (simp add: e1_def inv_defs)
  have "cursor_ok e1" using b by (simp add: base_inv_def)
  note cur = cursor_okD [OF this]
  have q: "eng_queue e1 \<noteq> [] \<Longrightarrow> eng_play_order_pos e1 < length (eng_queue e1)"
    using b cur(1) by (simp add: inv_defs)
  have end_q: "engine_inv (end_of_queue e1)"
    using b by (auto simp: end_of_queue_def inv_defs)
  have sel: "\<exists>e'. (case select_current e2 of Inl p \<Rightarrow> Inl p
        | Inr (e3, t) \<Rightarrow> Inr (start_or_fail A E t e3)) = Inr e' \<and> engine_inv e'"
    if "mset (eng_play_order e2) = mset [0..<length (eng_queue e2)]"
      "eng_play_order_pos e2 < length (eng_queue e2)"
      "eng_volume e2 \<le> 100" "eng_track_pcm_timeline_bytes e2 \<le> eng_track_bytes_decoded e2" for e2
    using that by (elim select_then) (auto intro!: start_or_fail_inv)
  show ?thesis
  proof (cases "eng_repeat e1")
    case RepeatOff
    then show ?thesis
      using sel [of "e1\<lparr>eng_play_order_pos := eng_play_order_pos e1 + 1\<rparr>"] end_q b cur(1)
      by (auto simp: handle_eof_def e1_def [symmetric] inv_defs)
  next
    case RepeatAll
    show ?thesis
    proof (cases "eng_queue e1 = []")
      case True
      then show ?thesis using RepeatAll end_q by (simp add: handle_eof_def flip: e1_def)
    next
      case False
      define e2 where "e2 = (if length (eng_play_order e1) \<le> eng_play_order_pos e1 + 1 then
          (if eng_shuffle e1 then recompute_play_order_new_cycle E (eng_queue_index e1) e1
           else e1\<lparr>eng_play_order_pos := 0\<rparr>)
          else e1\<lparr>eng_play_order_pos := eng_play_order_pos e1 + 1\<rparr>)"
      have "\<exists>e'. (case select_current e2 of Inl p \<Rightarrow> Inl p
        | Inr (e3, t) \<Rightarrow> Inr (start_or_fail A E t e3)) = Inr e' \<and> engine_inv e'"
        using False b cur(1) new_cycle_order [OF rng False]
        by (intro sel) (auto simp: e2_def inv_defs)
      then show ?thesis
        using RepeatAll False by (simp add: handle_eof_def e2_def flip: e1_def)
    qed
  next
    case RepeatOne
    have "engine_inv (start_or_fail A E t e1)" for t
      using b by (intro start_or_fail_inv) (simp_all add: base_inv_def)
    with RepeatOne end_q show ?thesis
      by (cases "eng_current_track e1") (simp_all add: handle_eof_def flip: e1_def)
  qed
qed

lemma record_failed_sink_length:
  "length (eng_failed_sinks e) \<le> MAX_FAILED_SINK_SNAPSHOTS \<Longrightarrow>
   length (eng_failed_sinks (record_failed_sink snap e)) \<le> MAX_FAILED_SINK_SNAPSHOTS"
  by (auto simp: record_failed_sink_def)

lemma fail_sink_frame [simp]:
  "eng_queue (detach_sink s (record_failed_sink sn e)) = eng_queue e"
  "eng_queue_index (detach_sink s (record_failed_sink sn e)) = eng_queue_index e"
  "eng_play_order (detach_sink s (record_failed_sink sn e)) = eng_play_order e"
  "eng_play_order_pos (detach_sink s (record_failed_sink sn e)) = eng_play_order_pos e"
  "eng_volume (detach_sink s (record_failed_sink sn e)) = eng_volume e"
  "eng_state (detach_sink s (record_failed_sink sn e)) = eng_state e"
  "eng_current_track (detach_sink s (record_failed_sink sn e)) = eng_current_track e"
  "eng_decoder (detach_sink s (record_failed_sink sn e)) = eng_decoder e"
  "eng_playing_started_at (detach_sink s (record_failed_sink sn e)) = eng_playing_started_at e"
  "eng_track_bytes_decoded (detach_sink s (record_failed_sink sn e)) = eng_track_bytes_decoded e"
  "eng_track_pcm_timeline_bytes (detach_sink s (record_failed_sink sn e)) = eng_track_pcm_timeline_bytes e"
  "eng_format (detach_sink s (record_failed_sink sn e)) = eng_format e"
  "eng_command_origin (detach_sink s (record_failed_sink sn e)) = eng_command_origin e"
  "eng_timeline_origin (detach_sink s (record_failed_sink sn e)) = eng_timeline_origin e"
  "eng_events (detach_sink s (record_failed_sink sn e)) = eng_events e"
  "eng_failed_sinks (detach_sink s (record_failed_sink sn e)) = eng_failed_sinks (record_failed_sink sn e)"
  "eng_network_bytes_sent_total (detach_sink s (record_failed_sink sn e)) = eng_network_bytes_sent_total e"
  by (simp_all add: detach_sink_def record_failed_sink_def)

lemma collect_writes_frame:
  assumes "collect_writes A rs e = (d, ss, e')"
  shows "eng_queue e' = eng_queue e \<and> eng_queue_index e' = eng_queue_index e \<and>
    eng_play_order e' = eng_play_order e \<and> eng_play_order_pos e' = eng_play_order_pos e \<and>
    eng_volume e' = eng_volume e \<and> eng_state e' = eng_state e \<and>
    eng_current_track e' = eng_current_track e \<and> eng_decoder e' = eng_decoder e \<and>
    eng_playing_started_at e' = eng_playing_started_at e \<and>
    eng_track_bytes_decoded e' = eng_track_bytes_decoded e \<and>
    eng_track_pcm_timeline_bytes e' = eng_track_pcm_timeline_bytes e \<and>
    eng_format e' = eng_format e \<and> eng_command_origin e' = eng_command_origin e \<and>
    eng_timeline_origin e' = eng_timeline_origin e \<and> eng_events e' = eng_events e \<and>
    eng_network_bytes_sent_total e' = eng_network_bytes_sent_total e"
  using assms
proof (induction A rs e arbitrary: d ss e' rule: collect_writes.induct)
  case (2 A written s rs e)
  then show ?case by (auto split: prod.splits)
qed simp_all

lemma collect_writes_failed_bound:
  assumes "collect_writes A rs e = (d, ss, e')"
    and "length (eng_failed_sinks e) \<le> MAX_FAILED_SINK_SNAPSHOTS"
  shows "length (eng_failed_sinks e') \<le> MAX_FAILED_SINK_SNAPSHOTS"
  using assms
proof (induction A rs e arbitrary: d ss e' rule: collect_writes.induct)
  case (2 A written s rs e)
  then show ?case by (auto split: prod.splits)
qed (simp_all add: record_failed_sink_length)

lemma promote_lifecycle_inv [michi_inv]:
  assumes "base_inv e" and "eng_state e = Preparing \<or> lifecycle_is_playing (eng_state e)"
    and "eng_sinks e \<noteq> []" "eng_decoder e \<noteq> None" "eng_current_track e \<noteq> None"
    and "lifecycle_is_playing (eng_state e) \<longrightarrow> eng_playing_started_at e \<noteq> None"
    and "eng_state e = Playing \<longrightarrow>
        unat (bytes_for_duration_ms (eng_format e) PLAYING_EVIDENCE_THRESHOLD_MS)
          \<le> eng_track_pcm_timeline_bytes e"
  shows "engine_inv (promote_lifecycle E e)"
  using assms
  by (auto simp: promote_lifecycle_def Let_def inv_defs lifecycle_is_playing_iff split: option.splits)

lemma maybe_checkpoint_inv [michi_inv]: "engine_inv e \<Longrightarrow> engine_inv (maybe_checkpoint E e)"
  by (auto simp: maybe_checkpoint_def inv_defs)

lemma all_sinks_failed_inv [michi_inv]: "base_inv e \<Longrightarrow> engine_inv (all_sinks_failed e)"
  by (auto simp: all_sinks_failed_def Let_def inv_defs)

lemma decoder_error_inv [michi_inv]: "base_inv e \<Longrightarrow> engine_inv (decoder_error er e)"
  by (auto simp: decoder_error_def Let_def inv_defs)

end
