(* ===== verification/Engine_Invariant.thy ===== *)
theory Engine_Invariant
  imports Engine_Properties
begin

text \<open>
  Every command and every audio step of the playback engine keeps the invariant of
  \<open>Engine_Properties\<close> and never indexes out of range, so both hold in every reachable state.
\<close>

section \<open>Audio\<close>

lemma deliver_chunk_inv [michi_inv]:
  assumes "engine_inv e" and "run_polls_audio e"
  shows "engine_inv (deliver_chunk A E chunk e)"
proof -
  define e1 where "e1 = e\<lparr>eng_track_bytes_decoded := eng_track_bytes_decoded e + length chunk\<rparr>"
  obtain d ss e2 where c: "collect_writes A (map (\<lambda>s. as_write_pcm A s chunk) (eng_sinks e)) e1 = (d, ss, e2)"
    by (metis prod_cases3)
  note fr = collect_writes_frame [OF c]
  have fb: "length (eng_failed_sinks e2) \<le> MAX_FAILED_SINK_SNAPSHOTS"
    using collect_writes_failed_bound [OF c] assms(1) by (simp add: e1_def inv_defs)
  have b: "base_inv e2" using fr fb assms(1) by (auto simp: inv_defs e1_def)
  show ?thesis
  proof (cases "ss = []")
    case True
    then show ?thesis
      using c b by (simp add: deliver_chunk_def e1_def all_sinks_failed_inv)
  next
    case False
    define h where "h = (if length ss < length (eng_sinks e)
        then emit_event (EvOutputChanged ''partial'') (e2\<lparr>eng_output_health := ''partial''\<rparr>) else e2)"
    define e3 where "e3 = h\<lparr>eng_sinks := ss, eng_network_bytes_sent_total :=
        eng_network_bytes_sent_total h + d\<rparr>"
    have st: "eng_state e3 = eng_state e" "eng_sinks e3 = ss" "eng_decoder e3 = eng_decoder e"
      "eng_current_track e3 = eng_current_track e" "eng_format e3 = eng_format e"
      "eng_playing_started_at e3 = eng_playing_started_at e"
      "eng_track_bytes_decoded e3 = eng_track_bytes_decoded e + length chunk"
      "eng_track_pcm_timeline_bytes e3 = eng_track_pcm_timeline_bytes e"
      using fr by (simp_all add: e3_def h_def e1_def)
    have b3: "base_inv e3" using b by (simp add: e3_def h_def inv_defs)
    have i3: "engine_inv e3"
      using b3 st False assms by (auto simp: engine_inv_def live_inv_def run_polls_audio_def)
    have "engine_inv (promote_lifecycle E (e3\<lparr>eng_track_pcm_timeline_bytes :=
        eng_track_pcm_timeline_bytes e3 + length chunk\<rparr>))"
      using b3 st False assms
      by (intro promote_lifecycle_inv) (auto simp: inv_defs)
    moreover have "deliver_chunk A E chunk e =
        (if d > 0 then maybe_checkpoint E (promote_lifecycle E (e3\<lparr>eng_track_pcm_timeline_bytes :=
           eng_track_pcm_timeline_bytes e3 + length chunk\<rparr>)) else e3)"
      using c [unfolded e1_def] False by (simp add: deliver_chunk_def Let_def e3_def h_def)
    ultimately show ?thesis using i3 by (simp add: maybe_checkpoint_inv)
  qed
qed

lemma process_audio_chunk_ok [michi_inv]:
  assumes "rng_ok E" and inv: "engine_inv e" and pol: "run_polls_audio e"
  shows "\<exists>e'. process_audio_chunk A E n e = Inr e' \<and> engine_inv e'"
proof -
  obtain d where d: "eng_decoder e = Some d"
    using inv pol by (auto simp: engine_inv_def live_inv_def)
  have b: "base_inv (e\<lparr>eng_decoder := Some d'\<rparr>)" for d'
    using inv by (simp add: inv_defs)
  have i: "engine_inv (e\<lparr>eng_decoder := Some d'\<rparr>)" for d'
    using inv by (auto simp: inv_defs)
  have p: "run_polls_audio (e\<lparr>eng_decoder := Some d'\<rparr>)" for d'
    using pol by (simp add: run_polls_audio_def)
  show ?thesis
    using d handle_eof_ok [OF assms(1) b] deliver_chunk_inv [OF i p] decoder_error_inv [OF b]
    by (cases "read_pcm (env_read E) n d") (auto simp: process_audio_chunk_def split: sum.splits)
qed

section \<open>Commands\<close>

lemma set_timeline_origin_inv [simp]:
  "engine_inv (set_timeline_origin e) = engine_inv e"
  "base_inv (set_timeline_origin e) = base_inv e"
  "live_inv (set_timeline_origin e) = live_inv e"
  by (simp_all add: set_timeline_origin_def inv_defs)

lemma set_timeline_origin_frame [simp]:
  "eng_queue (set_timeline_origin e) = eng_queue e"
  "eng_queue_index (set_timeline_origin e) = eng_queue_index e"
  "eng_play_order (set_timeline_origin e) = eng_play_order e"
  "eng_play_order_pos (set_timeline_origin e) = eng_play_order_pos e"
  "eng_state (set_timeline_origin e) = eng_state e"
  "eng_sinks (set_timeline_origin e) = eng_sinks e"
  "eng_current_track (set_timeline_origin e) = eng_current_track e"
  "eng_base_position_ms (set_timeline_origin e) = eng_base_position_ms e"
  "eng_playing_started_at (set_timeline_origin e) = eng_playing_started_at e"
  "eng_command_origin (set_timeline_origin e) = eng_command_origin e"
  "eng_events (set_timeline_origin e) = eng_events e"
  "eng_format (set_timeline_origin e) = eng_format e"
  "eng_volume (set_timeline_origin e) = eng_volume e"
  "eng_failed_sinks (set_timeline_origin e) = eng_failed_sinks e"
  "eng_track_bytes_decoded (set_timeline_origin e) = eng_track_bytes_decoded e"
  "eng_track_pcm_timeline_bytes (set_timeline_origin e) = eng_track_pcm_timeline_bytes e"
  "eng_decoder (set_timeline_origin e) = eng_decoder e"
  "eng_generation_id (set_timeline_origin e) = eng_generation_id e"
  "eng_detached (set_timeline_origin e) = eng_detached e"
  "eng_released (set_timeline_origin e) = eng_released e"
  "eng_shuffle (set_timeline_origin e) = eng_shuffle e"
  "eng_repeat (set_timeline_origin e) = eng_repeat e"
  by (simp_all add: set_timeline_origin_def)

lemma start_playback_from_inv:
  assumes "base_inv e" shows "engine_inv (snd (start_playback_internal A E t p e))"
  using assms start_playback_inv [of e A E t p] by (cases "start_playback_internal A E t p e") (auto simp: base_inv_def)

lemma cmd_play_inv [michi_inv]:
  assumes "engine_inv e" shows "engine_inv (snd (cmd_play A E t ss od p e))"
proof -
  define c where "c = snd (cleanup_playback A (set_timeline_origin e))"
  have "base_inv c"
    using assms unfolding c_def by (intro cleanup_playback_inv) (simp add: engine_inv_def)
  then have "base_inv (c\<lparr>eng_released := r, eng_sinks := ss, eng_output_desc := Some od\<rparr>)" for r
    by (simp add: inv_defs)
  then show ?thesis
    using assms by (simp add: cmd_play_def Let_def start_playback_from_inv flip: c_def)
qed

lemma cmd_load_track_inv [michi_inv]:
  assumes "engine_inv e" shows "engine_inv (snd (cmd_load_track A t p e))"
proof -
  have "base_inv (snd (cleanup_playback A (set_timeline_origin e)))"
    using assms by (intro cleanup_playback_inv) (simp add: engine_inv_def)
  then show ?thesis by (simp add: cmd_load_track_def Let_def inv_defs)
qed

lemma cmd_jump_to_index_inv [michi_inv]:
  assumes "engine_inv e" shows "engine_inv (snd (cmd_jump_to_index A E i e))"
proof (cases "i < length (eng_queue e)")
  case False
  then show ?thesis using assms by (simp add: cmd_jump_to_index_def Let_def nth_opt_def)
next
  case True
  have cur: "cursor_ok e" using assms by (simp add: inv_defs)
  then have "i \<in> set (eng_play_order e)" using cursor_okD(3) True by fastforce
  then obtain p where p: "position (\<lambda>x. x = i) (eng_play_order e) = Some p"
    by (cases "position (\<lambda>x. x = i) (eng_play_order e)") auto
  define e1 where "e1 = (set_timeline_origin e)\<lparr>eng_queue_index := i, eng_play_order_pos := p\<rparr>"
  have i1: "engine_inv e1"
    using assms position_SomeD [OF p] by (auto simp: e1_def set_timeline_origin_def inv_defs)
  then have b1: "base_inv e1" by (simp add: engine_inv_def)
  have c: "cmd_jump_to_index A E i e =
     (if (lifecycle_is_playing (eng_state e1) \<or> eng_state e1 = Preparing) \<and> eng_sinks e1 \<noteq> []
              then start_playback_internal A E (eng_queue e ! i) 0 e1
              else
                (let e2 = e1\<lparr>eng_generation_id := eng_generation_id e1 + 1,
                             eng_track_bytes_decoded := 0,
                             eng_track_pcm_timeline_bytes := 0,
                             eng_current_track := Some (eng_queue e ! i),
                             eng_base_position_ms := 0\<rparr>
                 in (Inr (),
                     emit_event (EvTrackChanged (current_track_id e2) (eng_queue_index e2)) e2)))"
    using True p by (simp add: cmd_jump_to_index_def Let_def nth_opt_def e1_def)
  show ?thesis
  proof (cases "(lifecycle_is_playing (eng_state e1) \<or> eng_state e1 = Preparing) \<and> eng_sinks e1 \<noteq> []")
    case True
    then show ?thesis using c start_playback_from_inv [OF b1] by simp
  next
    case False
    then show ?thesis using c i1 by (auto simp: Let_def inv_defs)
  qed
qed

lemma cmd_pause_inv [michi_inv]:
  assumes "engine_inv e" shows "engine_inv (snd (cmd_pause A E e))"
  using assms by (simp add: cmd_pause_def Let_def inv_defs)

lemma cmd_resume_inv [michi_inv]:
  assumes "engine_inv e" shows "engine_inv (snd (cmd_resume A E e))"
proof -
  define e0 where "e0 = set_timeline_origin e"
  have b: "base_inv e0" "engine_inv e0" using assms by (simp_all add: e0_def engine_inv_def)
  have b1: "base_inv (e0\<lparr>eng_sinks := ss\<rparr>)" "base_inv (e0\<lparr>eng_sinks := ss, eng_output_health := h\<rparr>)" for ss h
    using b by (simp_all add: inv_defs)
  show ?thesis
    using b b1 by (auto simp: cmd_resume_def Let_def start_playback_from_inv
        simp flip: e0_def split: option.splits)
qed

lemma cmd_seek_inv [michi_inv]:
  assumes "engine_inv e" shows "engine_inv (snd (cmd_seek E p e))"
  using assms
  by (auto simp: cmd_seek_def Let_def inv_defs set_timeline_origin_def lifecycle_is_playing_iff
      split: option.splits prod.splits sum.splits)

lemma cmd_stop_inv [michi_inv]:
  assumes "engine_inv e" shows "engine_inv (snd (cmd_stop A e))"
proof -
  have "base_inv (e\<lparr>eng_timeline_origin := LocalOrigin\<rparr>)" using assms by (simp add: inv_defs)
  from cleanup_playback_inv [OF this, of A] show ?thesis
    by (cases "cleanup_playback A (e\<lparr>eng_timeline_origin := LocalOrigin\<rparr>)")
      (simp add: cmd_stop_def Let_def inv_defs)
qed

lemma cmd_set_volume_inv [michi_inv]:
  assumes "engine_inv e" shows "engine_inv (snd (cmd_set_volume A v e))"
  using assms by (auto simp: cmd_set_volume_def Let_def inv_defs)

lemma cmd_set_repeat_inv [michi_inv]:
  assumes "engine_inv e" shows "engine_inv (snd (cmd_set_repeat r e))"
  using assms by (simp add: cmd_set_repeat_def Let_def inv_defs)

lemma recompute_play_order_inv:
  assumes "rng_ok E" and "live_inv e" and "eng_volume e \<le> 100"
    and "length (eng_failed_sinks e) \<le> MAX_FAILED_SINK_SNAPSHOTS"
    and "eng_track_pcm_timeline_bytes e \<le> eng_track_bytes_decoded e"
    and "eng_queue e \<noteq> [] \<longrightarrow> i < length (eng_queue e) \<and> eng_queue_index e = i"
  shows "engine_inv (recompute_play_order E i e)"
  using assms recompute_play_order_cursor [OF assms(1) assms(6)]
  by (auto simp: engine_inv_def base_inv_def live_inv_def run_polls_audio_def)

lemma cmd_set_shuffle_inv [michi_inv]:
  assumes "rng_ok E" and "engine_inv e" shows "engine_inv (snd (cmd_set_shuffle E s e))"
proof -
  have "cursor_ok e" using assms(2) by (simp add: inv_defs)
  then have "eng_queue e \<noteq> [] \<longrightarrow> eng_queue_index e < length (eng_queue e)"
    using cursor_okD(1,2) [of e] by (metis cursor_ok_def)
  then have "engine_inv (recompute_play_order E (eng_queue_index e) (e\<lparr>eng_shuffle := s\<rparr>))"
    using assms by (intro recompute_play_order_inv) (auto simp: inv_defs)
  then show ?thesis by (simp add: cmd_set_shuffle_def Let_def)
qed

lemma cmd_set_queue_inv [michi_inv]:
  assumes "rng_ok E" and "engine_inv e" shows "engine_inv (snd (cmd_set_queue E ts i c e))"
proof -
  define r where "r = (case c of Some target \<Rightarrow>
        (case position (\<lambda>t. trk_id t = target) ts of Some p \<Rightarrow> p | None \<Rightarrow> i) | None \<Rightarrow> i)"
  define e1 where "e1 = e\<lparr>eng_queue := ts, eng_queue_index := min r (length ts - 1)\<rparr>"
  have lt: "min r (length ts - 1) < length ts" if "ts \<noteq> []"
    using that by (cases ts) auto
  have li: "live_inv e1" using assms(2) by (simp add: e1_def engine_inv_def live_inv_def run_polls_audio_def)
  have i2: "engine_inv (recompute_play_order E (min r (length ts - 1)) e1)"
    using assms li lt by (intro recompute_play_order_inv) (simp_all add: engine_inv_def base_inv_def e1_def)
  have "engine_inv (recompute_play_order E (min r (length ts - 1)) e1
      \<lparr>eng_current_track := x\<rparr>)" if "eng_current_track e1 = None" for x
    using i2 that by (auto simp: engine_inv_def base_inv_def live_inv_def cursor_ok_def run_polls_audio_def)
  then show ?thesis
    using i2 by (auto simp: cmd_set_queue_def Let_def e1_def simp flip: r_def)
qed

text \<open>The shared tail of \<open>Next\<close> and \<open>Previous\<close>.\<close>

lemma switch_track_inv [michi_inv]:
  assumes "base_inv e" and "eng_sinks e = [] \<longrightarrow> live_inv e"
  shows "engine_inv (snd (switch_track A E t e))"
  using assms start_playback_from_inv [OF assms(1), of A E t 0]
  by (auto simp: switch_track_def Let_def inv_defs)

lemma switch_selected_ok [michi_inv]:
  assumes "mset (eng_play_order e) = mset [0..<length (eng_queue e)]"
    and "eng_play_order_pos e < length (eng_queue e)"
    and "eng_volume e \<le> 100" "length (eng_failed_sinks e) \<le> MAX_FAILED_SINK_SNAPSHOTS"
    and "eng_track_pcm_timeline_bytes e \<le> eng_track_bytes_decoded e" and "live_inv e"
  shows "\<exists>r e'. switch_selected A E e = Inr (r, e') \<and> engine_inv e'"
proof -
  obtain e1 t where s: "select_current e = Inr (e1, t)" "cursor_ok e1"
    and e1: "e1 = e\<lparr>eng_queue_index := eng_play_order e ! eng_play_order_pos e\<rparr>"
    using select_then [OF assms(1,2)] by metis
  have "engine_inv (snd (switch_track A E t e1))"
    using s(2) assms by (intro switch_track_inv) (auto simp: e1 base_inv_def live_inv_def run_polls_audio_def)
  then show ?thesis using s(1)
    by (cases "switch_track A E t e1") (simp add: switch_selected_def)
qed

lemma cmd_next_ok [michi_inv]:
  assumes "rng_ok E" and inv: "engine_inv e"
  shows "\<exists>r e'. cmd_next A E e = Inr (r, e') \<and> engine_inv e'"
proof -
  have cur: "cursor_ok e" and li: "live_inv e"
    and b: "eng_volume e \<le> 100" "length (eng_failed_sinks e) \<le> MAX_FAILED_SINK_SNAPSHOTS"
      "eng_track_pcm_timeline_bytes e \<le> eng_track_bytes_decoded e"
    using inv by (simp_all add: engine_inv_def base_inv_def)
  have m: "mset (eng_play_order e) = mset [0..<length (eng_queue e)]"
    using cur by (simp add: cursor_ok_def)
  have live: "live_inv (e\<lparr>eng_play_order_pos := p\<rparr>)"
    "live_inv (recompute_play_order_new_cycle E (eng_queue_index e) e)" for p
    using li by (simp_all add: live_inv_def run_polls_audio_def)
  consider (adv) "eng_queue e \<noteq> []" "eng_play_order_pos e + 1 < length (eng_play_order e)"
    | (wrap) "\<not> (eng_queue e \<noteq> [] \<and> eng_play_order_pos e + 1 < length (eng_play_order e))"
        "eng_repeat e = RepeatAll" "eng_queue e \<noteq> []"
    | (ended) "\<not> (eng_queue e \<noteq> [] \<and> eng_play_order_pos e + 1 < length (eng_play_order e))"
        "\<not> (eng_repeat e = RepeatAll \<and> eng_queue e \<noteq> [])"
    by blast
  then show ?thesis
  proof cases
    case adv
    have "\<exists>r e'. switch_selected A E (e\<lparr>eng_play_order_pos := eng_play_order_pos e + 1\<rparr>) = Inr (r, e')
        \<and> engine_inv e'"
      using adv m b live cursor_okD(1) [OF cur] by (intro switch_selected_ok) simp_all
    then show ?thesis using adv by (simp add: cmd_next_def)
  next
    case wrap
    have "\<exists>r e'. switch_selected A E (if eng_shuffle e
          then recompute_play_order_new_cycle E (eng_queue_index e) e
          else e\<lparr>eng_play_order_pos := 0\<rparr>) = Inr (r, e') \<and> engine_inv e'"
      using wrap(3) m b live new_cycle_order [OF assms(1) wrap(3)]
      by (intro switch_selected_ok) (simp_all split: if_splits)
    then show ?thesis using wrap by (simp only: cmd_next_def if_False) simp
  next
    case ended
    have "base_inv (snd (cleanup_playback A e))"
      using inv by (intro cleanup_playback_inv) (simp add: engine_inv_def)
    then have "engine_inv ((snd (cleanup_playback A e))\<lparr>eng_state := Ended\<rparr>)"
      by (simp add: inv_defs)
    then show ?thesis using ended by (auto simp: cmd_next_def Let_def)
  qed
qed

lemma restart_current_inv [michi_inv]:
  assumes "engine_inv e" shows "engine_inv (snd (restart_current A E e))"
proof -
  have b: "base_inv e" using assms by (simp add: engine_inv_def)
  have "engine_inv (e\<lparr>eng_base_position_ms := 0, eng_playing_started_at := None\<rparr>)" if "eng_sinks e = []"
    using assms that by (auto simp: inv_defs)
  then show ?thesis
    using assms start_playback_from_inv [OF b]
    by (auto simp: restart_current_def split: option.splits)
qed

lemma cmd_previous_ok [michi_inv]:
  assumes inv: "engine_inv e"
  shows "\<exists>r e'. cmd_previous A E e = Inr (r, e') \<and> engine_inv e'"
proof -
  have rst: "\<exists>r e'. Inr (restart_current A E e) = (Inr (r, e') :: Panic + _) \<and> engine_inv e'"
    using restart_current_inv [OF inv, of A E] by (cases "restart_current A E e") simp
  have cur: "cursor_ok e" and li: "live_inv e"
    and b: "eng_volume e \<le> 100" "length (eng_failed_sinks e) \<le> MAX_FAILED_SINK_SNAPSHOTS"
      "eng_track_pcm_timeline_bytes e \<le> eng_track_bytes_decoded e"
    using inv by (simp_all add: engine_inv_def base_inv_def)
  have "\<exists>r e'. switch_selected A E (e\<lparr>eng_play_order_pos := eng_play_order_pos e - 1\<rparr>) = Inr (r, e')
      \<and> engine_inv e'" if "eng_queue e \<noteq> []"
    using that b li cursor_okD(1) [OF cur] cur
    by (intro switch_selected_ok) (auto simp: cursor_ok_def live_inv_def run_polls_audio_def)
  with rst show ?thesis by (auto simp: cmd_previous_def)
qed

section \<open>Dispatch, steps and reachable states\<close>

lemma cleanup_inv [michi_inv]: "engine_inv e \<Longrightarrow> engine_inv (cleanup A e)"
  using cleanup_playback_inv [of e A] by (simp add: cleanup_def Let_def inv_defs)

lemma answer_ok: "engine_inv (snd r) \<Longrightarrow> \<exists>rep e' go. answer r = Inr (rep, e', go) \<and> engine_inv e'"
  by (auto simp: answer_def)

lemma answer_or_panic_ok:
  "\<exists>r e'. x = Inr (r, e') \<and> engine_inv e' \<Longrightarrow>
   \<exists>rep e' go. answer_or_panic x = Inr (rep, e', go) \<and> engine_inv e'"
  by (auto simp: answer_or_panic_def answer_def)

lemmas cmd_inv = cmd_play_inv cmd_load_track_inv cmd_jump_to_index_inv cmd_pause_inv
  cmd_resume_inv cmd_seek_inv cmd_stop_inv cmd_set_volume_inv cmd_set_repeat_inv

lemmas cmd_rng_inv = cmd_set_shuffle_inv cmd_set_queue_inv

lemma handle_command_inner_ok:
  assumes "rng_ok E" and "engine_inv e"
  shows "\<exists>rep e' go. handle_command_inner A E cmd e = Inr (rep, e', go) \<and> engine_inv e'"
proof (cases cmd)
  case CmdNext
  then show ?thesis using answer_or_panic_ok [OF cmd_next_ok [OF assms]] by simp
next
  case CmdPrevious
  then show ?thesis using answer_or_panic_ok [OF cmd_previous_ok [OF assms(2)]] by simp
next
  case CmdGetSnapshot
  then show ?thesis using assms by auto
next
  case CmdShutdown
  then show ?thesis using cleanup_inv [OF assms(2)] by auto
qed (auto simp: answer_def cmd_inv [OF assms(2)] cmd_rng_inv [OF assms])

theorem handle_command_ok:
  assumes "rng_ok E" and "engine_inv e"
  shows "\<exists>rep e' go. handle_command A E cmd e = Inr (rep, e', go) \<and> engine_inv e'"
proof -
  have "engine_inv (e\<lparr>eng_command_origin := Some (cmd_origin cmd)\<rparr>)"
    using assms(2) by (simp add: inv_defs)
  then obtain rep e1 go where h: "handle_command_inner A E cmd
      (e\<lparr>eng_command_origin := Some (cmd_origin cmd)\<rparr>) = Inr (rep, e1, go)" and "engine_inv e1"
    using handle_command_inner_ok [OF assms(1)] by blast
  then have "engine_inv (e1\<lparr>eng_command_origin := None\<rparr>)" by (simp add: inv_defs)
  with h show ?thesis by (simp add: handle_command_def)
qed

lemma engine_step_inv:
  assumes "engine_step A e e'" and "engine_inv e"
  shows "engine_inv e'"
  using assms
proof (cases rule: engine_step.cases)
  case (command E cmd reply go)
  then show ?thesis using handle_command_ok [of E e A cmd] assms(2) by simp
next
  case (audio E)
  then show ?thesis using process_audio_chunk_ok [of E e A "chunk_size e"] assms(2) by simp
next
  case (stderr d line)
  then show ?thesis using assms(2) by (auto simp: inv_defs)
next
  case closed
  then show ?thesis using assms(2) by (simp add: cleanup_inv)
qed

lemma engine_reachable_inv: "engine_reachable A e \<Longrightarrow> engine_inv e"
proof (induction rule: engine_reachable.induct)
  case (start fmt now)
  show ?case by (simp add: new_with_events_def inv_defs)
next
  case (step e e')
  then show ?case using engine_step_inv by blast
qed

end
