(* ===== verification/Receiver_Sink.thy ===== *)
theory Receiver_Sink
  imports Engine_Invariant
begin

text \<open>
  Output sinks: \<^verbatim>\<open>crates/michi-api/src/output/receiver_sink.rs\<close> (the production implementation of
  the \<open>AudioSink\<close> trait) and \<^verbatim>\<open>crates/michi-api/src/output/mod.rs\<close> (\<open>resolve_output\<close>, which turns
  a selection into a list of sinks). The receiver session manager the sink calls is a parameter: a
  record of its operations on a state of its own, held in the sink's \<open>session_manager\<close> field. The
  locale \<open>audio_sink\<close> states what the engine relies on from any sink and is interpreted on
  \<open>ReceiverAudioSink\<close>.
\<close>

section \<open>The trait's contract\<close>

text \<open>
  The identifiers of every sink the engine was ever given: attached, handed to a background stop,
  or stopped and dropped.
\<close>

definition owned :: "'s AudioSink \<Rightarrow> 's Engine \<Rightarrow> string multiset" where
  "owned A e = mset (map (as_id A) (eng_sinks e)) + mset (map (as_id A) (eng_detached e))
     + mset (map (as_id A) (eng_released e))"

fun cmd_sinks :: "'s EngineCommand \<Rightarrow> 's list" where
  "cmd_sinks (CmdPlay _ ss _ _ _) = ss"
| "cmd_sinks _ = []"

locale audio_sink =
  fixes A :: "'s AudioSink"
  assumes prepare_id: "as_id A (snd (as_prepare A s fmt)) = as_id A s"
    and write_id: "as_id A (snd (as_write_pcm A s bytes)) = as_id A s"
    and pause_id: "as_id A (snd (as_pause A s)) = as_id A s"
    and resume_id: "as_id A (snd (as_resume A s)) = as_id A s"
    and set_volume_id: "as_id A (snd (as_set_volume A s v)) = as_id A s"
    and stop_id: "as_id A (snd (as_stop A s)) = as_id A s"
    and snapshot_id: "ss_sink_id (as_snapshot A s) = as_id A s"
begin

lemmas sink_ids = prepare_id write_id pause_id resume_id set_volume_id stop_id

lemma sinks_after_ids:
  "(\<And>s. as_id A (snd (f s)) = as_id A s) \<Longrightarrow> map (as_id A) (sinks_after f ss) = map (as_id A) ss"
  by (simp add: sinks_after_def)

lemma prepared_split:
  "mset (map (as_id A) (prepared_sinks A fmt ss)) + mset (map (as_id A) (unprepared_sinks A fmt ss))
     = mset (map (as_id A) ss)"
  by (induction ss) (auto simp: prepared_sinks_def unprepared_sinks_def prepare_id)

lemma collect_writes_ids:
  assumes "collect_writes A rs e = (d, ss, e')"
  shows "mset (map (as_id A) ss) + mset (map (as_id A) (eng_detached e'))
    = mset (map (\<lambda>r. as_id A (snd r)) rs) + mset (map (as_id A) (eng_detached e))
    \<and> eng_released e' = eng_released e"
  using assms
proof (induction A rs e arbitrary: d ss e' rule: collect_writes.induct)
  case (2 A written s rs e)
  then show ?case by (auto split: prod.splits)
qed (auto simp: detach_sink_def record_failed_sink_def)

lemma owned_emit [simp]: "owned A (emit_event ev e) = owned A e"
  by (simp add: owned_def)

lemma owned_cong:
  "eng_sinks e' = eng_sinks e \<Longrightarrow> eng_detached e' = eng_detached e \<Longrightarrow>
   eng_released e' = eng_released e \<Longrightarrow> owned A e' = owned A e"
  by (simp add: owned_def)

lemma owned_start: "owned A (snd (start_playback_internal A E t p e)) = owned A e"
proof (cases "eng_sinks e = []")
  case True
  then show ?thesis by (simp add: start_playback_internal_def Let_def owned_def)
next
  case False
  note split = prepared_split [of "eng_format e" "eng_sinks e", symmetric]
  show ?thesis
  proof (cases "prepared_sinks A (eng_format e) (eng_sinks e) = []")
    case True
    then show ?thesis
      using False split by (simp add: start_playback_internal_def Let_def owned_def)
  next
    case ne: False
    then show ?thesis
      using False split sinks_after_ids [of "as_stop A", OF stop_id]
      by (cases "decoder_start E (decoder_new (trk_file_path t) (eng_format e)) p")
        (auto simp: start_playback_internal_def Let_def owned_def split: sum.splits simp flip: mset_map)
  qed
qed

lemma owned_cleanup: "owned A (snd (cleanup_playback A e)) = owned A e"
  using sinks_after_ids [of "as_stop A", OF stop_id] by (simp add: owned_def flip: mset_map)

lemma owned_fail: "owned A (fail_playback A er e) = owned A e"
  using sinks_after_ids [of "as_stop A", OF stop_id]
  by (simp add: fail_playback_def owned_def Let_def stop_decoder_def flip: mset_map)

lemma owned_start_or_fail: "owned A (start_or_fail A E t e) = owned A e"
  using owned_start [of E t 0 e]
  by (cases "start_playback_internal A E t 0 e") (auto simp: start_or_fail_def owned_fail split: sum.splits)

lemma owned_end_of_queue: "owned A (end_of_queue e) = owned A e"
  by (simp add: end_of_queue_def owned_def)

lemma owned_select: "select_current e = Inr (e', t) \<Longrightarrow> owned A e' = owned A e"
  by (auto simp: select_current_def owned_def split: option.splits)

lemma owned_new_cycle: "owned A (recompute_play_order_new_cycle E i e) = owned A e"
  by (simp add: owned_def)

lemma owned_upd [simp]:
  "owned A (e\<lparr>eng_play_order_pos := n\<rparr>) = owned A e"
  "owned A (e\<lparr>eng_decoder := d\<rparr>) = owned A e"
  "owned A (e\<lparr>eng_state := st\<rparr>) = owned A e"
  "owned A (e\<lparr>eng_command_origin := co\<rparr>) = owned A e"
  "owned A (stop_decoder e) = owned A e"
  "owned A (set_timeline_origin e) = owned A e"
  by (simp_all add: owned_def)

lemma owned_handle_eof:
  assumes "handle_eof A E e = Inr e'" shows "owned A e' = owned A e"
  using assms
  by (auto simp: handle_eof_def Let_def owned_start_or_fail owned_end_of_queue owned_new_cycle
      dest!: owned_select split: RepeatMode.splits option.splits if_splits sum.splits prod.splits)

lemma owned_promote [simp]: "owned A (promote_lifecycle E e) = owned A e"
  by (simp add: promote_lifecycle_def Let_def owned_def)

lemma owned_checkpoint [simp]: "owned A (maybe_checkpoint E e) = owned A e"
  by (simp add: maybe_checkpoint_def owned_def)

lemma owned_deliver: "owned A (deliver_chunk A E chunk e) = owned A e"
proof -
  obtain d ss e2 where c: "collect_writes A (map (\<lambda>s. as_write_pcm A s chunk) (eng_sinks e))
      (e\<lparr>eng_track_bytes_decoded := eng_track_bytes_decoded e + length chunk\<rparr>) = (d, ss, e2)"
    by (metis prod_cases3)
  have m: "mset (map (as_id A) ss) + mset (map (as_id A) (eng_detached e2)) =
      mset (map (as_id A) (eng_sinks e)) + mset (map (as_id A) (eng_detached e))"
    "eng_released e2 = eng_released e"
    using collect_writes_ids [OF c] by (simp_all add: write_id comp_def)
  show ?thesis
    using c m by (simp add: deliver_chunk_def Let_def all_sinks_failed_def)
      (auto simp: owned_def stop_decoder_def)
qed

lemma owned_audio:
  assumes "process_audio_chunk A E n e = Inr e'" shows "owned A e' = owned A e"
  using assms
  by (auto simp: process_audio_chunk_def owned_deliver decoder_error_def Let_def
      dest!: owned_handle_eof split: option.splits prod.splits sum.splits if_splits)
    (simp_all add: owned_def stop_decoder_def)

lemma owned_switch:
  assumes "switch_selected A E e = Inr (r, e')" shows "owned A e' = owned A e"
proof -
  obtain e1 t where s: "select_current e = Inr (e1, t)" "switch_track A E t e1 = (r, e')"
    using assms by (auto simp: switch_selected_def split: sum.splits prod.splits)
  have "owned A (snd (switch_track A E t e1)) = owned A e1"
    by (simp add: switch_track_def Let_def owned_start) (simp add: owned_def)
  with s owned_select show ?thesis by fastforce
qed

lemma owned_restart: "owned A (snd (restart_current A E e)) = owned A e"
  by (simp add: restart_current_def owned_start split: option.splits) (simp add: owned_def)

lemma owned_next: "cmd_next A E e = Inr (r, e') \<Longrightarrow> owned A e' = owned A e"
  by (auto simp: cmd_next_def Let_def owned_cleanup owned_new_cycle dest!: owned_switch split: if_splits)

lemma owned_previous: "cmd_previous A E e = Inr (r, e') \<Longrightarrow> owned A e' = owned A e"
  using owned_restart [of E e]
  by (auto simp: cmd_previous_def dest!: owned_switch split: if_splits)

lemma owned_play:
  "owned A (snd (cmd_play A E t ss od p e)) = owned A e + mset (map (as_id A) ss)"
  using sinks_after_ids [of "as_stop A", OF stop_id]
  by (auto simp: cmd_play_def Let_def owned_start) (simp add: owned_def flip: mset_map)

lemma owned_commands:
  "owned A (snd (cmd_load_track A t p e)) = owned A e"
  "owned A (snd (cmd_jump_to_index A E i e)) = owned A e"
  "owned A (snd (cmd_pause A E e)) = owned A e"
  "owned A (snd (cmd_resume A E e)) = owned A e"
  "owned A (snd (cmd_seek E p e)) = owned A e"
  "owned A (snd (cmd_stop A e)) = owned A e"
  "owned A (snd (cmd_set_volume A v e)) = owned A e"
  "owned A (snd (cmd_set_shuffle E b e)) = owned A e"
  "owned A (snd (cmd_set_repeat rep e)) = owned A e"
  "owned A (snd (cmd_set_queue E ts i c e)) = owned A e"
  "owned A (cleanup A e) = owned A e"
proof -
  note after = sinks_after_ids [of "as_pause A", OF pause_id]
    sinks_after_ids [of "as_resume A", OF resume_id] sinks_after_ids [of "as_stop A", OF stop_id]
    sinks_after_ids [of "\<lambda>s. as_set_volume A s w" for w, OF set_volume_id]
  show "owned A (snd (cmd_load_track A t p e)) = owned A e"
    using after by (simp add: cmd_load_track_def Let_def) (simp add: owned_def flip: mset_map)
  show "owned A (snd (cmd_jump_to_index A E i e)) = owned A e"
    by (simp add: cmd_jump_to_index_def Let_def owned_start split: option.splits)
      (simp add: owned_def)
  show "owned A (snd (cmd_pause A E e)) = owned A e"
    using after by (simp add: cmd_pause_def Let_def) (simp add: owned_def flip: mset_map)
  show "owned A (snd (cmd_resume A E e)) = owned A e"
    using after by (simp add: cmd_resume_def Let_def owned_start split: option.splits)
      (simp add: owned_def flip: mset_map)
  show "owned A (snd (cmd_seek E p e)) = owned A e"
    by (auto simp: cmd_seek_def Let_def split: option.splits prod.splits sum.splits)
      (simp_all add: owned_def)
  show "owned A (snd (cmd_stop A e)) = owned A e"
    using after owned_cleanup [of "e\<lparr>eng_timeline_origin := LocalOrigin\<rparr>"]
    by (cases "cleanup_playback A (e\<lparr>eng_timeline_origin := LocalOrigin\<rparr>)")
      (simp add: cmd_stop_def Let_def owned_def)
  show "owned A (snd (cmd_set_volume A v e)) = owned A e"
    using after by (simp add: cmd_set_volume_def Let_def) (simp add: owned_def flip: mset_map)
  show "owned A (snd (cmd_set_shuffle E b e)) = owned A e"
    by (simp add: cmd_set_shuffle_def Let_def) (simp add: owned_def)
  show "owned A (snd (cmd_set_repeat rep e)) = owned A e"
    by (simp add: cmd_set_repeat_def Let_def) (simp add: owned_def)
  show "owned A (snd (cmd_set_queue E ts i c e)) = owned A e"
    by (simp add: cmd_set_queue_def Let_def) (simp add: owned_def)
  show "owned A (cleanup A e) = owned A e"
    using after by (simp add: cleanup_def Let_def owned_def flip: mset_map)
qed

lemma owned_command:
  assumes "handle_command A E cmd e = Inr (reply, e', go)"
  shows "owned A e' = owned A e + mset (map (as_id A) (cmd_sinks cmd))"
proof -
  have "owned A e' = owned A e + mset (map (as_id A) (cmd_sinks cmd))"
    if "handle_command_inner A E cmd e = Inr (reply, e', go)" for e e'
    using that
    by (cases cmd) (auto simp: answer_def answer_or_panic_def owned_commands owned_play
        dest!: owned_next owned_previous split: sum.splits)
  then show ?thesis
    using assms by (fastforce simp: handle_command_def split: sum.splits prod.splits)
qed

end

section \<open>ReceiverAudioSink\<close>

text \<open>
  The operations of \<open>ReceiverSessionManager\<close> that the sink calls; each returns its result and the
  manager's next state. An error is its message. The two calls that the engine bounds by a timeout
  may not return in time.
\<close>

record StartRequest =
  sr_session_id :: uuid
  sr_codec :: string
  sr_sample_rate :: u32
  sr_bit_depth :: u32
  sr_channels :: u32
  sr_stream_port :: u16
  sr_buffer_ms :: u64
  sr_volume :: u32

record 'm SessionManager =
  sm_paired :: "'m \<Rightarrow> string \<Rightarrow> bool option"
    \<comment> \<open>the registry entry's \<open>paired\<close> flag, if there is an entry\<close>
  sm_name :: "'m \<Rightarrow> string \<Rightarrow> string"
  sm_active :: "'m \<Rightarrow> string \<Rightarrow> bool"
  sm_new_uuid :: "'m \<Rightarrow> uuid"
  sm_start_session :: "'m \<Rightarrow> string \<Rightarrow> StartRequest \<Rightarrow> (string + unit) timed \<times> 'm"
  sm_write_pcm :: "'m \<Rightarrow> string \<Rightarrow> u8 list \<Rightarrow> (string + nat) timed \<times> 'm"
  sm_patch_session :: "'m \<Rightarrow> string \<Rightarrow> bool \<Rightarrow> (string + unit) \<times> 'm"
  sm_set_volume :: "'m \<Rightarrow> string \<Rightarrow> u32 \<Rightarrow> (string + unit) \<times> 'm"
  sm_stop_session :: "'m \<Rightarrow> string \<Rightarrow> (string + unit) \<times> 'm"

record 'm ReceiverAudioSink =
  rs_receiver_id :: string
  rs_session_manager :: 'm
  rs_state :: SinkState
  rs_bytes_received :: nat
  rs_bytes_sent_to_transport :: nat
  rs_last_error :: "string option"
  rs_volume :: u8
  rs_muted :: bool

definition new_with_config :: "string \<Rightarrow> 'm \<Rightarrow> u8 \<Rightarrow> bool \<Rightarrow> 'm ReceiverAudioSink" where
  "new_with_config receiver_id session_manager volume muted =
     \<lparr>rs_receiver_id = receiver_id, rs_session_manager = session_manager, rs_state = SinkPreparing,
      rs_bytes_received = 0, rs_bytes_sent_to_transport = 0, rs_last_error = None,
      rs_volume = volume, rs_muted = muted\<rparr>"

definition new_receiver_sink :: "string \<Rightarrow> 'm \<Rightarrow> 'm ReceiverAudioSink" where
  "new_receiver_sink receiver_id session_manager =
     new_with_config receiver_id session_manager 80 False"

definition rs_prepare ::
  "'m SessionManager \<Rightarrow> 'm ReceiverAudioSink \<Rightarrow> PcmFormat \<Rightarrow> unit outcome timed \<times> 'm ReceiverAudioSink"
where
  "rs_prepare M s fmt =
     (case sm_paired M (rs_session_manager s) (rs_receiver_id s) of
        None \<Rightarrow> (Done (Inl (ReceiverNotPaired (rs_receiver_id s))), s)
      | Some False \<Rightarrow>
          (Done (Inl (ReceiverNotPaired (rs_receiver_id s))),
           s\<lparr>rs_state := SinkFailed, rs_last_error := Some ''receiver is not paired''\<rparr>)
      | Some True \<Rightarrow>
          (if sm_active M (rs_session_manager s) (rs_receiver_id s)
           then (Done (Inr ()), s\<lparr>rs_state := SinkReady, rs_last_error := None\<rparr>)
           else
             (case sm_start_session M (rs_session_manager s) (rs_receiver_id s)
                     \<lparr>sr_session_id = sm_new_uuid M (rs_session_manager s), sr_codec = ''pcm_s16le'',
                      sr_sample_rate = pcm_sample_rate fmt, sr_bit_depth = ucast (pcm_bit_depth fmt),
                      sr_channels = ucast (pcm_channels fmt), sr_stream_port = 0,
                      sr_buffer_ms = 200, sr_volume = ucast (rs_volume s)\<rparr> of
                (TimedOut, m) \<Rightarrow> (TimedOut, s\<lparr>rs_session_manager := m\<rparr>)
              | (Done (Inr _), m) \<Rightarrow>
                  (Done (Inr ()),
                   s\<lparr>rs_session_manager := m, rs_state := SinkReady, rs_last_error := None\<rparr>)
              | (Done (Inl e), m) \<Rightarrow>
                  (Done (Inl (PlaybackFailed (''failed to start receiver session for '' @
                                rs_receiver_id s @ '': '' @ e))),
                   s\<lparr>rs_session_manager := m, rs_state := SinkFailed, rs_last_error := Some e\<rparr>))))"

definition rs_write_pcm ::
  "'m SessionManager \<Rightarrow> 'm ReceiverAudioSink \<Rightarrow> u8 list \<Rightarrow> nat outcome timed \<times> 'm ReceiverAudioSink"
where
  "rs_write_pcm M s0 bytes =
     (let s = s0\<lparr>rs_bytes_received := rs_bytes_received s0 + length bytes\<rparr> in
      if rs_muted s then (Done (Inr 0), s\<lparr>rs_state := SinkReady\<rparr>)
      else
        (case sm_write_pcm M (rs_session_manager s) (rs_receiver_id s) bytes of
           (TimedOut, m) \<Rightarrow> (TimedOut, s\<lparr>rs_session_manager := m\<rparr>)
         | (Done (Inr written), m) \<Rightarrow>
             (Done (Inr written),
              s\<lparr>rs_session_manager := m,
                rs_bytes_sent_to_transport := rs_bytes_sent_to_transport s + written,
                rs_state := SinkAudioFlowing, rs_last_error := None\<rparr>)
         | (Done (Inl e), m) \<Rightarrow>
             (Done (Inl (PlaybackFailed e)),
              s\<lparr>rs_session_manager := m, rs_state := SinkFailed, rs_last_error := Some e\<rparr>)))"

text \<open>\<open>pause\<close> and \<open>resume\<close> differ in the flag they patch, the state they reach and a word.\<close>

definition rs_patch ::
  "'m SessionManager \<Rightarrow> bool \<Rightarrow> SinkState \<Rightarrow> string \<Rightarrow> 'm ReceiverAudioSink \<Rightarrow>
   unit outcome \<times> 'm ReceiverAudioSink"
where
  "rs_patch M paused reached word s =
     (case sm_patch_session M (rs_session_manager s) (rs_receiver_id s) paused of
        (Inr _, m) \<Rightarrow> (Inr (), s\<lparr>rs_session_manager := m, rs_state := reached\<rparr>)
      | (Inl e, m) \<Rightarrow>
          (Inl (PlaybackFailed (''failed to '' @ word @ '' remote receiver session for '' @
                  rs_receiver_id s @ '': '' @ e)),
           s\<lparr>rs_session_manager := m, rs_last_error := Some e\<rparr>))"

definition rs_pause where
  "rs_pause M s = rs_patch M True SinkPaused ''pause'' s"

definition rs_resume where
  "rs_resume M s = rs_patch M False SinkAudioFlowing ''resume'' s"

definition rs_set_volume ::
  "'m SessionManager \<Rightarrow> 'm ReceiverAudioSink \<Rightarrow> u8 \<Rightarrow> unit outcome \<times> 'm ReceiverAudioSink"
where
  "rs_set_volume M s0 volume =
     (let s = s0\<lparr>rs_volume := volume\<rparr> in
      case sm_set_volume M (rs_session_manager s) (rs_receiver_id s) (ucast volume) of
        (Inr _, m) \<Rightarrow> (Inr (), s\<lparr>rs_session_manager := m\<rparr>)
      | (Inl e, m) \<Rightarrow>
          (Inl (PlaybackFailed (''failed to set volume on receiver '' @ rs_receiver_id s @ '': '' @ e)),
           s\<lparr>rs_session_manager := m\<rparr>))"

definition rs_health :: "'m SessionManager \<Rightarrow> 'm ReceiverAudioSink \<Rightarrow> unit outcome" where
  "rs_health M s =
     (if sm_paired M (rs_session_manager s) (rs_receiver_id s) \<noteq> Some True
      then Inl (ReceiverNotPaired (rs_receiver_id s))
      else if (rs_state s = SinkAudioFlowing \<or> rs_state s = SinkPaused) \<and>
              \<not> sm_active M (rs_session_manager s) (rs_receiver_id s)
      then Inl (PlaybackFailed (''receiver '' @ rs_receiver_id s @ '' lost active session''))
      else Inr ())"

definition rs_stop ::
  "'m SessionManager \<Rightarrow> 'm ReceiverAudioSink \<Rightarrow> unit outcome \<times> 'm ReceiverAudioSink"
where
  "rs_stop M s =
     (case sm_stop_session M (rs_session_manager s) (rs_receiver_id s) of
        (Inr _, m) \<Rightarrow> (Inr (), s\<lparr>rs_session_manager := m, rs_state := SinkStopped\<rparr>)
      | (Inl e, m) \<Rightarrow>
          (Inl (PlaybackFailed (''failed to stop session on receiver '' @ rs_receiver_id s @ '': '' @ e)),
           s\<lparr>rs_session_manager := m, rs_state := SinkStopped\<rparr>))"

definition rs_snapshot :: "'m ReceiverAudioSink \<Rightarrow> SinkSnapshot" where
  "rs_snapshot s =
     \<lparr>ss_sink_id = rs_receiver_id s, ss_kind = ReceiverKind, ss_state = rs_state s,
      ss_bytes_received = rs_bytes_received s,
      ss_bytes_sent_to_transport = rs_bytes_sent_to_transport s,
      ss_muted = rs_muted s, ss_last_error = rs_last_error s\<rparr>"

definition receiver_sink :: "'m SessionManager \<Rightarrow> 'm ReceiverAudioSink AudioSink" where
  "receiver_sink M =
     \<lparr>as_id = rs_receiver_id, as_kind = (\<lambda>_. ReceiverKind), as_prepare = rs_prepare M,
      as_write_pcm = rs_write_pcm M, as_pause = rs_pause M, as_resume = rs_resume M,
      as_set_volume = rs_set_volume M, as_health = rs_health M, as_stop = rs_stop M,
      as_snapshot = rs_snapshot\<rparr>"

lemmas rs_defs = rs_prepare_def rs_write_pcm_def rs_patch_def rs_pause_def rs_resume_def
  rs_set_volume_def rs_stop_def rs_snapshot_def

lemma rs_prepare_frame:
  "rs_receiver_id (snd (rs_prepare M s fmt)) = rs_receiver_id s"
  "rs_muted (snd (rs_prepare M s fmt)) = rs_muted s"
  by (auto simp: rs_prepare_def split: option.splits bool.splits prod.splits timed.splits sum.splits)

lemma rs_write_frame:
  "rs_receiver_id (snd (rs_write_pcm M s bs)) = rs_receiver_id s"
  "rs_bytes_received (snd (rs_write_pcm M s bs)) = rs_bytes_received s + length bs"
  by (auto simp: rs_write_pcm_def Let_def split: prod.splits timed.splits sum.splits)

lemma rs_patch_frame:
  "rs_receiver_id (snd (rs_patch M b st w s)) = rs_receiver_id s"
  by (auto simp: rs_patch_def split: prod.splits sum.splits)

lemma rs_stop_frame:
  "rs_receiver_id (snd (rs_stop M s)) = rs_receiver_id s"
  "rs_state (snd (rs_stop M s)) = SinkStopped"
  by (auto simp: rs_stop_def split: prod.splits sum.splits)

interpretation receiver: audio_sink "receiver_sink M" for M
proof
  fix s :: "'a ReceiverAudioSink" and fmt bytes v
  show "as_id (receiver_sink M) (snd (as_prepare (receiver_sink M) s fmt)) = as_id (receiver_sink M) s"
    and "as_id (receiver_sink M) (snd (as_write_pcm (receiver_sink M) s bytes)) = as_id (receiver_sink M) s"
    and "as_id (receiver_sink M) (snd (as_pause (receiver_sink M) s)) = as_id (receiver_sink M) s"
    and "as_id (receiver_sink M) (snd (as_resume (receiver_sink M) s)) = as_id (receiver_sink M) s"
    and "as_id (receiver_sink M) (snd (as_stop (receiver_sink M) s)) = as_id (receiver_sink M) s"
    and "ss_sink_id (as_snapshot (receiver_sink M) s) = as_id (receiver_sink M) s"
    by (simp_all add: receiver_sink_def rs_prepare_frame rs_write_frame rs_patch_frame rs_stop_frame
        rs_pause_def rs_resume_def rs_snapshot_def)
  show "as_id (receiver_sink M) (snd (as_set_volume (receiver_sink M) s v)) = as_id (receiver_sink M) s"
    by (auto simp: receiver_sink_def rs_set_volume_def Let_def split: prod.splits sum.splits)
qed

section \<open>Resolving an output selection\<close>

datatype PlaybackOutputSelection = SelReceiver string | SelRoomGroup uuid | SelChain uuid

record RoomGroupRow =
  rg_id :: uuid
  rg_name :: string
  rg_receiver_ids :: "string list"
  rg_volumes :: "string \<rightharpoonup> u32"

record ChainLink =
  cl_receiver_id :: string
  cl_volume :: int
  cl_muted :: bool

record 's ResolvedOutputPlan =
  plan_sinks :: "'s list"
  plan_description :: PlaybackOutputDescription

text \<open>What the handler reads: the room-group table, one chain with its links, and the registry.\<close>

record 'm OutputEnv =
  oe_groups :: "string + RoomGroupRow list"
  oe_chain :: "uuid \<Rightarrow> string + (string \<times> ChainLink list) option"
  oe_manager :: 'm

definition paired_in :: "'m SessionManager \<Rightarrow> 'm OutputEnv \<Rightarrow> string \<Rightarrow> bool" where
  "paired_in M O' r = (sm_paired M (oe_manager O') r = Some True)"

definition group_sinks ::
  "'m SessionManager \<Rightarrow> 'm OutputEnv \<Rightarrow> RoomGroupRow \<Rightarrow> 'm ReceiverAudioSink list" where
  "group_sinks M O' g =
     map (\<lambda>r. new_with_config r (oe_manager O')
            (ucast (case rg_volumes g r of Some v \<Rightarrow> v | None \<Rightarrow> 80)) False)
       (filter (paired_in M O') (rg_receiver_ids g))"

definition chain_sinks ::
  "'m SessionManager \<Rightarrow> 'm OutputEnv \<Rightarrow> ChainLink list \<Rightarrow> 'm ReceiverAudioSink list" where
  "chain_sinks M O' links =
     map (\<lambda>l. new_with_config (cl_receiver_id l) (oe_manager O')
            (word_of_int (max 0 (min 100 (cl_volume l)))) (cl_muted l))
       (filter (\<lambda>l. paired_in M O' (cl_receiver_id l)) links)"

fun resolve_output ::
  "'m SessionManager \<Rightarrow> PlaybackOutputSelection \<Rightarrow> 'm OutputEnv \<Rightarrow>
   'm ReceiverAudioSink ResolvedOutputPlan outcome"
where
  "resolve_output M (SelReceiver rid) O' =
     (if \<not> paired_in M O' rid then Inl (ReceiverNotPaired rid)
      else Inr \<lparr>plan_sinks = [new_receiver_sink rid (oe_manager O')],
                plan_description =
                  \<lparr>out_target_id = rid, out_target_name = sm_name M (oe_manager O') rid,
                   out_kind = ''receiver'', out_receiver_count = 1\<rparr>\<rparr>)"
| "resolve_output M (SelRoomGroup gid) O' =
     (case oe_groups O' of
        Inl e \<Rightarrow> Inl (DatabaseError e)
      | Inr groups \<Rightarrow>
          (case List.find (\<lambda>g. rg_id g = gid) groups of
             None \<Rightarrow> Inl (OutputNotFound gid)
           | Some g \<Rightarrow>
               if rg_receiver_ids g = []
               then Inl (OutputUnavailable ''room group has no configured receivers'')
               else
                 (let sinks = group_sinks M O' g in
                  if sinks = []
                  then Inl (OutputUnavailable
                         ''none of the receivers in the room group are paired or available'')
                  else Inr \<lparr>plan_sinks = sinks,
                            plan_description =
                              \<lparr>out_target_id = rg_id g, out_target_name = rg_name g,
                               out_kind = ''room_group'', out_receiver_count = length sinks\<rparr>\<rparr>)))"
| "resolve_output M (SelChain cid) O' =
     (case oe_chain O' cid of
        Inl e \<Rightarrow> Inl (DatabaseError e)
      | Inr None \<Rightarrow> Inl (OutputNotFound cid)
      | Inr (Some (name, links)) \<Rightarrow>
          (if links = [] then Inl (OutputUnavailable ''playback chain has no links configured'')
           else
             (let sinks = chain_sinks M O' links in
              if sinks = []
              then Inl (OutputUnavailable ''none of the receivers in the chain are paired or available'')
              else Inr \<lparr>plan_sinks = sinks,
                        plan_description =
                          \<lparr>out_target_id = cid, out_target_name = name, out_kind = ''chain'',
                           out_receiver_count = length sinks\<rparr>\<rparr>)))"

text \<open>A plan is never empty, counts its sinks and only names paired receivers.\<close>

lemma resolve_output_sound:
  assumes "resolve_output M sel O' = Inr plan"
  shows "plan_sinks plan \<noteq> [] \<and> out_receiver_count (plan_description plan) = length (plan_sinks plan) \<and>
    (\<forall>s \<in> set (plan_sinks plan). paired_in M O' (rs_receiver_id s) \<and> rs_state s = SinkPreparing)"
  using assms
  by (cases sel)
    (auto simp: Let_def new_receiver_sink_def new_with_config_def group_sinks_def chain_sinks_def
      split: if_splits sum.splits option.splits)

lemma clamp_u8: "(word_of_int (max 0 (min 100 (v :: int))) :: u8) \<le> 100"
proof -
  define c where "c = max 0 (min 100 v)"
  have "0 \<le> c" "c \<le> 100" by (auto simp: c_def)
  then have "uint (word_of_int c :: u8) = c"
    by (simp add: uint_word_of_int take_bit_int_eq_self)
  with \<open>c \<le> 100\<close> show ?thesis by (simp add: word_le_def flip: c_def)
qed

lemma chain_sinks_volume:
  "s \<in> set (chain_sinks M O' links) \<Longrightarrow> rs_volume s \<le> 100"
  by (auto simp: chain_sinks_def new_with_config_def clamp_u8)

end
