(* ===== verification/Engine_Events.thy ===== *)
theory Engine_Events
  imports Receiver_Sink
begin

text \<open>
  The origin of the playback engine's events: between two states of a handler only events with the
  origin in force are sent. Proved for every command and for the audio step.
\<close>

section \<open>Event origins\<close>

text \<open>
  \<open>emits e e'\<close>: from \<open>e\<close> to \<open>e'\<close> only events with the origin in force at \<open>e\<close> are sent, and that
  origin stays in force.
\<close>

definition emits :: "'s Engine \<Rightarrow> 's Engine \<Rightarrow> bool" where
  "emits e e' \<longleftrightarrow>
     eng_command_origin e' = eng_command_origin e \<and>
     (eng_command_origin e = None \<longrightarrow> eng_timeline_origin e' = eng_timeline_origin e) \<and>
     (\<exists>evs. eng_events e' = eng_events e @ evs \<and> (\<forall>ev \<in> set evs. te_origin ev = event_origin e))"

lemma emits_quiet:
  assumes "eng_events e' = eng_events e" "eng_command_origin e' = eng_command_origin e"
    and "eng_command_origin e = None \<longrightarrow> eng_timeline_origin e' = eng_timeline_origin e"
  shows "emits e e'"
  using assms by (simp add: emits_def)

lemma emits_event_origin: "emits e e' \<Longrightarrow> event_origin e' = event_origin e"
  by (auto simp: emits_def event_origin_def split: option.splits)

lemma emits_trans:
  assumes ab: "emits a b" and bc: "emits b c"
  shows "emits a c"
proof -
  obtain xs where xs: "eng_events b = eng_events a @ xs" "\<forall>ev \<in> set xs. te_origin ev = event_origin a"
    using ab by (auto simp: emits_def)
  obtain ys where ys: "eng_events c = eng_events b @ ys" "\<forall>ev \<in> set ys. te_origin ev = event_origin b"
    using bc by (auto simp: emits_def)
  have "eng_events c = eng_events a @ (xs @ ys)" using xs ys by simp
  moreover have "\<forall>ev \<in> set (xs @ ys). te_origin ev = event_origin a"
    using xs ys emits_event_origin [OF ab] by auto
  ultimately show ?thesis
    using ab bc by (auto simp: emits_def)
qed

lemma emits_refl [simp]: "emits e e"
  by (simp add: emits_def)

lemma emits_emit: "emits e0 e \<Longrightarrow> emits e0 (emit_event ev e)"
proof (erule emits_trans)
  show "emits e (emit_event ev e)"
    by (simp add: emits_def) (simp add: emit_event_def)
qed

lemma emits_start: "emits e (snd (start_playback_internal A E t p e))"
  by (auto simp: start_playback_internal_def Let_def
      intro!: emits_emit emits_quiet split: prod.splits sum.splits)

lemma emits_after_start: "emits e0 e \<Longrightarrow> emits e0 (snd (start_playback_internal A E t p e))"
  by (erule emits_trans) (rule emits_start)

lemma emits_fail_playback: "emits e (fail_playback A er e)"
  by (auto simp: fail_playback_def Let_def intro!: emits_emit emits_quiet)

lemma emits_start_or_fail: "emits e0 e \<Longrightarrow> emits e0 (start_or_fail A E t e)"
  using emits_after_start [of e0 e A E t 0] emits_trans [OF _ emits_fail_playback]
  by (cases "start_playback_internal A E t 0 e") (auto simp: start_or_fail_def split: sum.splits)

lemma emits_select:
  assumes "select_current e = Inr (e', t)" shows "emits e e'"
  using assms by (auto simp: select_current_def intro!: emits_quiet split: option.splits)

lemma emits_handle_eof:
  assumes "handle_eof A E e = Inr e'" shows "emits e e'"
proof -
  define e1 where "e1 = emit_event (EvEnded (current_track_id e)) (stop_decoder e)"
  have 1: "emits e e1" by (auto simp: e1_def intro!: emits_emit emits_quiet)
  have pos: "emits e (e1\<lparr>eng_play_order_pos := n\<rparr>)" for n
    by (rule emits_trans [OF 1]) (simp add: emits_quiet)
  have cyc: "emits e (recompute_play_order_new_cycle E i e1)" for i
    by (rule emits_trans [OF 1]) (simp add: emits_quiet)
  have fin: "emits e (end_of_queue e1)"
    by (auto simp: end_of_queue_def intro!: emits_emit emits_trans [OF 1] emits_quiet)
  have sel: "emits e (start_or_fail A E t e3)" if "select_current e2 = Inr (e3, t)" "emits e e2" for e2 e3 t
    using that emits_select emits_trans emits_start_or_fail by blast
  show ?thesis
    using assms fin emits_start_or_fail [OF 1] sel [OF _ pos] sel [OF _ cyc]
    by (auto simp: handle_eof_def simp flip: e1_def
        split: RepeatMode.splits option.splits if_splits sum.splits)
qed

lemma emits_deliver: "emits e (deliver_chunk A E chunk e)"
proof -
  obtain d ss e2 where c: "collect_writes A (map (\<lambda>s. as_write_pcm A s chunk) (eng_sinks e))
      (e\<lparr>eng_track_bytes_decoded := eng_track_bytes_decoded e + length chunk\<rparr>) = (d, ss, e2)"
    by (metis prod_cases3)
  have 2: "emits e e2" using collect_writes_frame [OF c] by (auto intro!: emits_quiet)
  have upd: "emits e x \<Longrightarrow> emits e (x\<lparr>eng_sinks := ss, eng_network_bytes_sent_total := m\<rparr>)"
    "emits e x \<Longrightarrow> emits e (x\<lparr>eng_sinks := ss, eng_network_bytes_sent_total := m,
        eng_track_pcm_timeline_bytes := k\<rparr>)"
    "emits e x \<Longrightarrow> emits e (x\<lparr>eng_output_health := h\<rparr>)"
    "emits e x \<Longrightarrow> emits e (x\<lparr>eng_sinks := ss\<rparr>)" for x m k h
    by (erule emits_trans, simp add: emits_quiet)+
  have pr: "emits e x \<Longrightarrow> emits e (promote_lifecycle E x)" for x
    by (auto simp: promote_lifecycle_def Let_def intro!: emits_emit elim!: emits_trans intro: emits_quiet)
  have ck: "emits e x \<Longrightarrow> emits e (maybe_checkpoint E x)" for x
    by (auto simp: maybe_checkpoint_def intro!: emits_emit elim!: emits_trans intro: emits_quiet)
  have al: "emits e (all_sinks_failed e2)"
    using 2 by (auto simp: all_sinks_failed_def Let_def intro!: emits_emit elim!: emits_trans intro: emits_quiet)
  show ?thesis
    using c 2 al by (auto simp: deliver_chunk_def Let_def intro!: ck pr upd emits_emit)
qed

lemma emits_audio:
  assumes "process_audio_chunk A E n e = Inr e'" shows "emits e e'"
proof -
  have d: "emits e (e\<lparr>eng_decoder := x\<rparr>)" for x by (simp add: emits_quiet)
  have er: "emits e (decoder_error x (e\<lparr>eng_decoder := y\<rparr>))" for x y
    by (auto simp: decoder_error_def Let_def intro!: emits_emit emits_quiet)
  show ?thesis
    using assms er emits_handle_eof [THEN emits_trans [OF d]] emits_trans [OF d emits_deliver]
    by (auto simp: process_audio_chunk_def intro: emits_quiet
        split: option.splits prod.splits sum.splits if_splits)
qed

lemma emits_upd:
  assumes "emits e0 e" and "eng_events e' = eng_events e"
    and "eng_command_origin e' = eng_command_origin e"
    and "eng_command_origin e = None \<longrightarrow> eng_timeline_origin e' = eng_timeline_origin e"
  shows "emits e0 e'"
  using assms(1) emits_quiet [OF assms(2-4)] by (rule emits_trans)

lemma emits_switch:
  assumes "switch_selected A E e = Inr (r, e')" shows "emits e e'"
proof -
  obtain e1 t where s: "select_current e = Inr (e1, t)" "switch_track A E t e1 = (r, e')"
    using assms by (auto simp: switch_selected_def split: sum.splits prod.splits)
  have "emits e1 (snd (switch_track A E t e1))"
    by (auto simp: switch_track_def Let_def emits_start intro!: emits_emit emits_quiet)
  with s emits_select emits_trans show ?thesis by (metis snd_conv)
qed

lemma emits_restart: "emits e (snd (restart_current A E e))"
  by (auto simp: restart_current_def emits_start intro!: emits_quiet split: option.splits)

lemma emits_next: "cmd_next A E e = Inr (r, e') \<Longrightarrow> emits e e'"
  by (auto simp: cmd_next_def Let_def intro!: emits_emit emits_quiet
      dest!: emits_switch elim!: emits_trans [rotated] split: if_splits)

lemma emits_previous: "cmd_previous A E e = Inr (r, e') \<Longrightarrow> emits e e'"
  using emits_restart [of e A E]
  by (auto simp: cmd_previous_def intro!: emits_quiet
      dest!: emits_switch elim!: emits_trans [rotated] split: if_splits)

lemma emits_commands:
  assumes "eng_command_origin e \<noteq> None"
  shows "emits e (snd (cmd_play A E t ss od p e))"
    and "emits e (snd (cmd_load_track A t p e))"
    and "emits e (snd (cmd_jump_to_index A E i e))"
    and "emits e (snd (cmd_pause A E e))"
    and "emits e (snd (cmd_resume A E e))"
    and "emits e (snd (cmd_seek E p e))"
    and "emits e (snd (cmd_stop A e))"
    and "emits e (snd (cmd_set_volume A v e))"
    and "emits e (snd (cmd_set_shuffle E b e))"
    and "emits e (snd (cmd_set_repeat rep e))"
    and "emits e (snd (cmd_set_queue E ts i c e))"
    and "emits e (cleanup A e)"
proof -
  have start: "emits e (snd (start_playback_internal A E t p x))"
    if "eng_events x = eng_events e" "eng_command_origin x = eng_command_origin e" for x t p
    by (rule emits_after_start) (use that assms in \<open>auto intro!: emits_quiet\<close>)
  show "emits e (snd (cmd_play A E t ss od p e))"
    using assms by (auto simp: cmd_play_def Let_def intro!: start emits_quiet)
  show "emits e (snd (cmd_load_track A t p e))"
    using assms by (auto simp: cmd_load_track_def Let_def intro!: emits_emit emits_quiet)
  show "emits e (snd (cmd_jump_to_index A E i e))"
    using assms by (auto simp: cmd_jump_to_index_def Let_def intro!: start emits_emit emits_quiet
        split: option.splits)
  show "emits e (snd (cmd_pause A E e))"
    using assms by (auto simp: cmd_pause_def Let_def intro!: emits_emit emits_quiet)
  show "emits e (snd (cmd_resume A E e))"
    using assms by (auto simp: cmd_resume_def Let_def intro!: start emits_quiet split: option.splits)
  show "emits e (snd (cmd_seek E p e))"
    using assms by (auto simp: cmd_seek_def Let_def intro!: emits_emit emits_quiet
        split: option.splits prod.splits sum.splits)
  show "emits e (snd (cmd_stop A e))"
    using assms cleanup_playback_frame [of A "e\<lparr>eng_timeline_origin := LocalOrigin\<rparr>"]
    by (cases "cleanup_playback A (e\<lparr>eng_timeline_origin := LocalOrigin\<rparr>)")
      (auto simp: cmd_stop_def Let_def intro!: emits_emit emits_quiet)
  show "emits e (snd (cmd_set_volume A v e))"
  proof -
    have "emits e (emit_event (EvVolumeChanged (min v 100)) (e\<lparr>eng_volume := min v 100\<rparr>))"
      by (intro emits_emit emits_quiet) simp_all
    from emits_upd [OF this] show ?thesis by (simp add: cmd_set_volume_def Let_def)
  qed
  show "emits e (snd (cmd_set_shuffle E b e))"
    by (auto simp: cmd_set_shuffle_def Let_def intro!: emits_emit emits_quiet)
  show "emits e (snd (cmd_set_repeat rep e))"
    by (auto simp: cmd_set_repeat_def Let_def intro!: emits_emit emits_quiet)
  show "emits e (snd (cmd_set_queue E ts i c e))"
    by (auto simp: cmd_set_queue_def Let_def intro!: emits_emit emits_quiet)
  show "emits e (cleanup A e)"
    by (auto simp: cleanup_def Let_def intro!: emits_quiet)
qed

lemma emits_command_inner:
  assumes "handle_command_inner A E cmd e = Inr (reply, e', go)" and "eng_command_origin e \<noteq> None"
  shows "emits e e'"
  using assms
  by (cases cmd) (auto simp: answer_def answer_or_panic_def emits_commands
      dest!: emits_next emits_previous split: sum.splits)

end
