(* ===== verification/Engine_Theorems.thy ===== *)
theory Engine_Theorems
  imports Engine_Events
begin

text \<open>
  What the playback engine promises: the invariant in every reachable state, no panic, shuffled
  cycles that never replay the track that just finished, \<open>Next\<close> that walks the play order, events
  with the origin of their command, a pause that freezes the timeline, sinks that are never lost.
  The witnesses run the engine with production receiver sinks over a session manager that accepts
  every call.
\<close>

section \<open>Runs of commands\<close>

fun run_commands ::
  "'s AudioSink \<Rightarrow> EngineEnv \<Rightarrow> 's EngineCommand list \<Rightarrow> 's Engine \<Rightarrow> 's Engine option" where
  "run_commands A E [] e = Some e"
| "run_commands A E (cmd # cmds) e =
     (case handle_command A E cmd e of
        Inl _ \<Rightarrow> None
      | Inr (_, e', _) \<Rightarrow> run_commands A E cmds e')"

lemma run_commands_reachable:
  assumes "rng_ok E" and "engine_reachable A e" and "run_commands A E cmds e = Some e'"
  shows "engine_reachable A e'"
  using assms(2,3)
proof (induction cmds arbitrary: e)
  case (Cons cmd cmds)
  from Cons.prems(2) obtain r e1 go where h: "handle_command A E cmd e = Inr (r, e1, go)"
    and run: "run_commands A E cmds e1 = Some e'"
    by (auto split: sum.splits prod.splits)
  have "engine_reachable A e1"
    using Cons.prems(1) engine_step.command [OF assms(1) h] by (rule engine_reachable.step)
  then show ?case using run by (rule Cons.IH)
qed simp

section \<open>A concrete host, session manager and queue\<close>

definition demo_manager :: "unit SessionManager" where
  "demo_manager =
     \<lparr>sm_paired = (\<lambda>_ _. Some True), sm_name = (\<lambda>_ _. ''kitchen''), sm_active = (\<lambda>_ _. False),
      sm_new_uuid = (\<lambda>_. ''s1''), sm_start_session = (\<lambda>m _ _. (Done (Inr ()), m)),
      sm_write_pcm = (\<lambda>m _ bs. (Done (Inr (length bs)), m)),
      sm_patch_session = (\<lambda>m _ _. (Inr (), m)), sm_set_volume = (\<lambda>m _ _. (Inr (), m)),
      sm_stop_session = (\<lambda>m _. (Inr (), m))\<rparr>"

definition demo_env :: EngineEnv where
  "demo_env =
     \<lparr>env_path_exists = (\<lambda>_. True), env_canonicalize = Inr, env_is_file = (\<lambda>_. True),
      env_to_str = Some, env_spawn = (\<lambda>_. Inr True), env_now = 5000000000, env_now_start = 0,
      env_utc = 0, env_shuffle = (\<lambda>xs. xs), env_gen_range = (\<lambda>_. 1), env_read = Inr [1, 2, 3, 4]\<rparr>"

definition demo_track :: "string \<Rightarrow> Track" where
  "demo_track i =
     \<lparr>trk_id = i, trk_title = None, trk_artist = None, trk_album = None, trk_album_artist = None,
      trk_duration_ms = Some 1000, trk_file_path = ''/music/'' @ i, trk_format = Flac,
      trk_sample_rate = None, trk_bit_depth = None, trk_channels = None, trk_artwork_id = None,
      trk_genre = None, trk_year = None, trk_track_number = None, trk_disc_number = None,
      trk_content_hash = None, trk_file_size = None, trk_file_mtime_ns = None, trk_starred = False,
      trk_rating = 0, trk_starred_at = None, trk_replaygain_track_gain = None,
      trk_replaygain_track_peak = None, trk_created_at = 0, trk_updated_at = 0\<rparr>"

definition demo_queue :: "Track list" where
  "demo_queue = [demo_track ''a'', demo_track ''b'', demo_track ''c'']"

definition demo_output :: PlaybackOutputDescription where
  "demo_output = \<lparr>out_target_id = ''r1'', out_target_name = ''kitchen'', out_kind = ''receiver'',
     out_receiver_count = 1\<rparr>"

text \<open>The queue loaded, then its first track started at two seconds on one receiver.\<close>

definition demo_loaded :: "unit ReceiverAudioSink Engine" where
  "demo_loaded =
     the (run_commands (receiver_sink demo_manager) demo_env
            [CmdSetQueue demo_queue 0 None LocalOrigin] (new_with_events default_pcm_format 0))"

definition demo_engine :: "unit ReceiverAudioSink Engine" where
  "demo_engine =
     the (run_commands (receiver_sink demo_manager) demo_env
            [CmdPlay (demo_track ''a'') [new_receiver_sink ''r1'' ()] demo_output 2000 LocalOrigin]
            demo_loaded)"

lemmas demo_defs = demo_manager_def demo_env_def demo_track_def demo_queue_def demo_output_def

lemma demo_rng: "rng_ok demo_env"
  by (simp add: rng_ok_def demo_env_def)

lemma demo_loaded_state:
  "eng_queue demo_loaded = demo_queue" "eng_queue_index demo_loaded = 0"
  "eng_play_order demo_loaded = [0, 1, 2]" "eng_play_order_pos demo_loaded = 0"
  "eng_shuffle demo_loaded = False" "eng_sinks demo_loaded = []"
  "eng_repeat demo_loaded = RepeatOff" "eng_state demo_loaded = Idle"
  "eng_format demo_loaded = default_pcm_format" "eng_command_origin demo_loaded = None"
  "eng_detached demo_loaded = []" "eng_released demo_loaded = []"
  by (simp_all add: demo_loaded_def handle_command_def answer_def cmd_set_queue_def Let_def
      recompute_play_order_def new_with_events_def demo_queue_def numeral_eq_Suc)

lemma demo_loaded_reachable: "engine_reachable (receiver_sink demo_manager) demo_loaded"
proof -
  have "run_commands (receiver_sink demo_manager) demo_env
      [CmdSetQueue demo_queue 0 None LocalOrigin] (new_with_events default_pcm_format 0)
      = Some demo_loaded"
    by (simp add: demo_loaded_def handle_command_def answer_def)
  then show ?thesis by (rule run_commands_reachable [OF demo_rng engine_reachable.start])
qed

text \<open>A start that succeeds: what it leaves behind.\<close>

lemma start_playback_success:
  assumes "prepared_sinks A (eng_format e) (eng_sinks e) \<noteq> []"
    and "decoder_start E (decoder_new (trk_file_path t) (eng_format e)) p = (Inr (), d)"
    and "start_playback_internal A E t p e = (r, e')"
  shows "r = Inr ()" "eng_state e' = Preparing" "eng_current_track e' = Some t"
    "eng_base_position_ms e' = p" "eng_playing_started_at e' = None" "eng_decoder e' = Some d"
    "eng_sinks e' = prepared_sinks A (eng_format e) (eng_sinks e)"
    "eng_generation_id e' = eng_generation_id e + 1"
proof -
  have "eng_sinks e \<noteq> []" using assms(1) by (auto simp: prepared_sinks_def)
  with assms show "r = Inr ()" "eng_state e' = Preparing" "eng_current_track e' = Some t"
    "eng_base_position_ms e' = p" "eng_playing_started_at e' = None" "eng_decoder e' = Some d"
    "eng_sinks e' = prepared_sinks A (eng_format e) (eng_sinks e)"
    "eng_generation_id e' = eng_generation_id e + 1"
    by (auto simp: start_playback_internal_def Let_def)
qed

lemma demo_prepared:
  "prepared_sinks (receiver_sink demo_manager) fmt [s] = [s\<lparr>rs_state := SinkReady, rs_last_error := None\<rparr>]"
  by (simp add: prepared_sinks_def receiver_sink_def rs_prepare_def demo_manager_def)

lemma demo_decoder:
  "\<exists>d. decoder_start demo_env (decoder_new path fmt) p = (Inr (), d)"
  by (simp add: decoder_start_def demo_env_def decoder_new_def decoder_stop_def)

lemma demo_engine_run:
  "run_commands (receiver_sink demo_manager) demo_env
     [CmdPlay (demo_track ''a'') [new_receiver_sink ''r1'' ()] demo_output 2000 LocalOrigin] demo_loaded
     = Some demo_engine"
  by (simp add: demo_engine_def handle_command_def answer_def)

lemma demo_reachable: "engine_reachable (receiver_sink demo_manager) demo_engine"
  using run_commands_reachable [OF demo_rng demo_loaded_reachable demo_engine_run] .

lemma demo_engine_state:
  "eng_state demo_engine = Preparing" "eng_base_position_ms demo_engine = 2000"
  "eng_current_track demo_engine = Some (demo_track ''a'')"
  "length (eng_sinks demo_engine) = 1" "eng_queue demo_engine = demo_queue"
  "eng_play_order demo_engine = [0, 1, 2]" "eng_play_order_pos demo_engine = 0"
  "eng_shuffle demo_engine = False" "eng_repeat demo_engine = RepeatOff"
  "eng_format demo_engine = default_pcm_format" "eng_playing_started_at demo_engine = None"
  "eng_decoder demo_engine \<noteq> None"
proof -
  let ?A = "receiver_sink demo_manager" and ?t = "demo_track ''a''" and ?s = "new_receiver_sink ''r1'' ()"
  define c where "c = snd (cleanup_playback ?A (set_timeline_origin
      (demo_loaded\<lparr>eng_command_origin := Some LocalOrigin\<rparr>)))"
  define e1 where "e1 = c\<lparr>eng_released := eng_released c @ eng_sinks c, eng_sinks := [?s],
      eng_output_desc := Some demo_output\<rparr>"
  obtain r e2 where s: "start_playback_internal ?A demo_env ?t 2000 e1 = (r, e2)"
    by (cases "start_playback_internal ?A demo_env ?t 2000 e1")
  have e: "demo_engine = e2\<lparr>eng_command_origin := None\<rparr>"
    using s [unfolded e1_def c_def]
    by (simp add: demo_engine_def handle_command_def answer_def cmd_play_def Let_def)
  have e1: "eng_sinks e1 = [?s]" "eng_format e1 = default_pcm_format" "eng_queue e1 = demo_queue"
    "eng_play_order e1 = [0, 1, 2]" "eng_play_order_pos e1 = 0" "eng_shuffle e1 = False"
    "eng_repeat e1 = RepeatOff"
    by (simp_all add: e1_def c_def demo_loaded_state)
  obtain d where d: "decoder_start demo_env (decoder_new (trk_file_path ?t) (eng_format e1)) 2000 = (Inr (), d)"
    using demo_decoder by blast
  have p: "prepared_sinks ?A (eng_format e1) (eng_sinks e1) = [?s\<lparr>rs_state := SinkReady, rs_last_error := None\<rparr>]"
    by (simp add: e1 demo_prepared)
  then have "prepared_sinks ?A (eng_format e1) (eng_sinks e1) \<noteq> []" by simp
  note ok = start_playback_success [OF this d s]
  show "eng_state demo_engine = Preparing" "eng_base_position_ms demo_engine = 2000"
    "eng_current_track demo_engine = Some (demo_track ''a'')"
    "length (eng_sinks demo_engine) = 1" "eng_queue demo_engine = demo_queue"
    "eng_play_order demo_engine = [0, 1, 2]" "eng_play_order_pos demo_engine = 0"
    "eng_shuffle demo_engine = False" "eng_repeat demo_engine = RepeatOff"
    "eng_format demo_engine = default_pcm_format" "eng_playing_started_at demo_engine = None"
    "eng_decoder demo_engine \<noteq> None"
    using ok p start_playback_frame [OF s] by (simp_all add: e e1)
qed

section \<open>Invariants of every reachable state\<close>

text \<open>
  C1. In every state the engine can reach, by any sequence of commands, audio steps and decoder
  messages, the play order is a permutation of the queue's positions, the cursor is inside it and
  points at the current queue index, the volume is at most 100 and at most 32 failed sinks are kept.
\<close>

theorem reachable_queue_cursor:
  assumes "engine_reachable A e"
  shows "mset (eng_play_order e) = mset [0..<length (eng_queue e)] \<and>
    (eng_queue e \<noteq> [] \<longrightarrow> eng_play_order_pos e < length (eng_queue e) \<and>
       eng_play_order e ! eng_play_order_pos e = eng_queue_index e \<and>
       eng_queue_index e < length (eng_queue e)) \<and>
    eng_volume e \<le> 100 \<and> length (eng_failed_sinks e) \<le> MAX_FAILED_SINK_SNAPSHOTS"
proof -
  have inv: "engine_inv e" using assms by (rule engine_reachable_inv)
  then have c: "cursor_ok e" by (simp add: engine_inv_def base_inv_def)
  have "eng_queue e \<noteq> [] \<longrightarrow> eng_play_order_pos e < length (eng_queue e) \<and>
      eng_play_order e ! eng_play_order_pos e = eng_queue_index e \<and>
      eng_queue_index e < length (eng_queue e)"
    using c cursor_okD(1,2) [OF c] by (metis cursor_ok_def)
  with inv show ?thesis by (simp add: inv_defs)
qed

theorem reachable_queue_cursor_witness:
  "engine_reachable (receiver_sink demo_manager) demo_engine \<and> eng_queue demo_engine = demo_queue \<and>
   eng_queue_index demo_engine < 3"
  using reachable_queue_cursor [OF demo_reachable] demo_reachable
  by (simp add: demo_engine_state demo_queue_def)





section \<open>The play order\<close>

text \<open>
  When a shuffled queue of at least two tracks wraps around, the new cycle plays every track
  exactly once and does not start with the track that just finished.
\<close>

theorem new_cycle_never_repeats:
  assumes rng: "rng_ok E" and sh: "eng_shuffle e" and two: "1 < length (eng_queue e)"
  shows "mset (eng_play_order (recompute_play_order_new_cycle E i e)) = mset [0..<length (eng_queue e)] \<and>
    eng_play_order (recompute_play_order_new_cycle E i e) ! 0 \<noteq> i"
proof
  define n where "n = length (eng_queue e)"
  define order where "order = env_shuffle E [0..<n]"
  have ne: "eng_queue e \<noteq> []" using two by auto
  show "mset (eng_play_order (recompute_play_order_new_cycle E i e)) = mset [0..<length (eng_queue e)]"
    using new_cycle_order(1) [OF rng ne] .
  have m: "mset order = mset [0..<n]" using rng by (simp add: rng_ok_def order_def)
  note perm = mset_upt_perm [OF m]
  have g: "1 \<le> env_gen_range E n" "env_gen_range E n < n" using rng two by (simp_all add: rng_ok_def n_def)
  have eq: "eng_play_order (recompute_play_order_new_cycle E i e) =
      (if order ! 0 = i then list_swap order 0 (env_gen_range E n) else order)"
    using sh two perm(3) by (auto simp: recompute_play_order_new_cycle_def Let_def n_def order_def)
  show "eng_play_order (recompute_play_order_new_cycle E i e) ! 0 \<noteq> i"
  proof (cases "order ! 0 = i")
    case True
    have "order ! env_gen_range E n \<noteq> order ! 0"
      using perm(1,3) g two ne nth_eq_iff_index_eq [of order "env_gen_range E n" 0] by (simp add: n_def)
    then show ?thesis using eq True g perm(3) by (simp add: list_swap_0)
  qed (simp add: eq)
qed

theorem new_cycle_never_repeats_witness:
  "rng_ok demo_env \<and> eng_shuffle (demo_loaded\<lparr>eng_shuffle := True\<rparr>) \<and>
   eng_play_order (recompute_play_order_new_cycle demo_env 0 (demo_loaded\<lparr>eng_shuffle := True\<rparr>)) ! 0 \<noteq> 0"
  using new_cycle_never_repeats [OF demo_rng, of "demo_loaded\<lparr>eng_shuffle := True\<rparr>" 0] demo_rng
  by (simp add: demo_loaded_state demo_queue_def)

lemma switch_track_frame:
  assumes "switch_track A E t e = (r, e')"
  shows "eng_queue e' = eng_queue e" "eng_queue_index e' = eng_queue_index e"
    "eng_play_order e' = eng_play_order e" "eng_play_order_pos e' = eng_play_order_pos e"
    "eng_shuffle e' = eng_shuffle e" "eng_repeat e' = eng_repeat e"
  using assms by (auto simp: switch_track_def Let_def dest: start_playback_frame split: if_splits)

lemma cmd_next_moves:
  assumes rng: "rng_ok E" and inv: "engine_inv e" and q: "eng_queue e \<noteq> []"
    and rep: "eng_repeat e = RepeatAll" and sh: "\<not> eng_shuffle e"
    and nx: "cmd_next A E e = Inr (r, e')"
  shows "eng_queue e' = eng_queue e" "eng_play_order e' = eng_play_order e"
    "eng_repeat e' = RepeatAll" "\<not> eng_shuffle e'"
    "eng_play_order_pos e' = (eng_play_order_pos e + 1) mod length (eng_queue e)"
    "eng_queue_index e' = eng_play_order e ! eng_play_order_pos e'"
proof -
  have cur: "cursor_ok e" using inv by (simp add: inv_defs)
  have len: "length (eng_play_order e) = length (eng_queue e)" by (rule cursor_okD(1) [OF cur])
  have pos: "eng_play_order_pos e < length (eng_queue e)" using cur q len by (simp add: cursor_ok_def)
  define p where "p = (eng_play_order_pos e + 1) mod length (eng_queue e)"
  have p: "p = (if eng_play_order_pos e + 1 < length (eng_play_order e) then eng_play_order_pos e + 1 else 0)"
    using pos len by (auto simp: p_def mod_if)
  have sw: "switch_selected A E (e\<lparr>eng_play_order_pos := p\<rparr>) = Inr (r, e')"
    using nx q rep sh p by (auto simp: cmd_next_def split: if_splits)
  have "p < length (eng_queue e)" using q by (simp add: p_def)
  then obtain e1 t where s: "select_current (e\<lparr>eng_play_order_pos := p\<rparr>) = Inr (e1, t)"
    and e1: "e1 = e\<lparr>eng_play_order_pos := p, eng_queue_index := eng_play_order e ! p\<rparr>"
    using select_then [of "e\<lparr>eng_play_order_pos := p\<rparr>"] cur by (auto simp: cursor_ok_def)
  have st: "switch_track A E t e1 = (r, e')" using sw s by (simp add: switch_selected_def)
  show "eng_queue e' = eng_queue e" "eng_play_order e' = eng_play_order e"
    "eng_repeat e' = RepeatAll" "\<not> eng_shuffle e'"
    "eng_play_order_pos e' = (eng_play_order_pos e + 1) mod length (eng_queue e)"
    "eng_queue_index e' = eng_play_order e ! eng_play_order_pos e'"
    using switch_track_frame [OF st] rep sh by (simp_all add: e1 p_def)
qed

text \<open>
  With repeat-all and no shuffle, pressing \<open>Next\<close> any number of times is always answered and
  moves the cursor cyclically through the play order, whatever the outputs do.
\<close>

theorem next_cycles_through_queue:
  assumes "engine_inv e" and "rng_ok E" and "eng_queue e \<noteq> []"
    and "eng_repeat e = RepeatAll" and "\<not> eng_shuffle e"
  shows "\<exists>e'. run_commands A E (replicate k (CmdNext o')) e = Some e' \<and>
    eng_play_order_pos e' = (eng_play_order_pos e + k) mod length (eng_queue e) \<and>
    eng_queue_index e' = eng_play_order e ! ((eng_play_order_pos e + k) mod length (eng_queue e))"
  using assms
proof (induction k arbitrary: e)
  case 0
  have c: "cursor_ok e" using 0 by (simp add: inv_defs)
  with 0 cursor_okD(1) [OF c] show ?case by (simp add: cursor_ok_def)
next
  case (Suc k)
  define e0 where "e0 = e\<lparr>eng_command_origin := Some o'\<rparr>"
  have i0: "engine_inv e0" using Suc.prems by (simp add: e0_def inv_defs)
  obtain r e1 where n: "cmd_next A E e0 = Inr (r, e1)" and i1: "engine_inv e1"
    using cmd_next_ok [OF Suc.prems(2) i0] by blast
  define e2 where "e2 = e1\<lparr>eng_command_origin := None\<rparr>"
  have h: "handle_command A E (CmdNext o') e = Inr (Answer r, e2, True)"
    using n by (simp add: handle_command_def answer_or_panic_def answer_def e2_def flip: e0_def)
  note mv = cmd_next_moves [OF Suc.prems(2) i0 _ _ _ n, unfolded e0_def, simplified, OF Suc.prems(3-5)]
  have i2: "engine_inv e2" using i1 by (simp add: e2_def inv_defs)
  have "\<exists>e'. run_commands A E (replicate k (CmdNext o')) e2 = Some e' \<and>
      eng_play_order_pos e' = (eng_play_order_pos e2 + k) mod length (eng_queue e2) \<and>
      eng_queue_index e' = eng_play_order e2 ! ((eng_play_order_pos e2 + k) mod length (eng_queue e2))"
    using Suc.prems mv by (intro Suc.IH i2) (simp_all add: e2_def)
  moreover have "(eng_play_order_pos e2 + k) mod length (eng_queue e2)
      = (eng_play_order_pos e + Suc k) mod length (eng_queue e)"
    using mv by (simp add: e2_def mod_add_left_eq)
  ultimately show ?case using h mv by (simp add: e2_def)
qed

theorem next_cycles_through_queue_witness:
  "\<exists>e'. run_commands (receiver_sink demo_manager) demo_env (replicate 4 (CmdNext LocalOrigin))
     (demo_engine\<lparr>eng_repeat := RepeatAll\<rparr>) = Some e' \<and> eng_queue_index e' = 1"
proof -
  have "engine_inv (demo_engine\<lparr>eng_repeat := RepeatAll\<rparr>)"
    using engine_reachable_inv [OF demo_reachable] by (simp add: inv_defs)
  from next_cycles_through_queue [OF this demo_rng, of "receiver_sink demo_manager" 4 LocalOrigin]
  show ?thesis by (auto simp: demo_engine_state demo_queue_def)
qed

section \<open>Events, timeline, volume and sinks\<close>

text \<open>Between two steps of the loop no command is being handled.\<close>

lemma reachable_no_command_origin:
  assumes "engine_reachable A e" shows "eng_command_origin e = None"
  using assms
proof (induction rule: engine_reachable.induct)
  case (start fmt now)
  show ?case by (simp add: new_with_events_def)
next
  case (step e e')
  from step(2) show ?case
  proof (cases rule: engine_step.cases)
    case (command E cmd reply go)
    then show ?thesis by (auto simp: handle_command_def split: sum.splits prod.splits)
  next
    case (audio E)
    then show ?thesis using emits_audio step.IH unfolding emits_def by metis
  next
    case (stderr d line)
    then show ?thesis using step.IH by simp
  next
    case closed
    then show ?thesis using step.IH by (simp add: cleanup_def Let_def)
  qed
qed

text \<open>
  Every event that handling a command sends carries the origin of that command, and every event
  an audio step of a reachable state sends carries the origin of the current timeline.
\<close>

theorem events_carry_origin:
  assumes "engine_reachable A e"
  shows "(handle_command A E cmd e = Inr (reply, e1, go) \<longrightarrow>
      (\<exists>evs. eng_events e1 = eng_events e @ evs \<and> (\<forall>ev \<in> set evs. te_origin ev = cmd_origin cmd))) \<and>
    (process_audio_chunk A E n e = Inr e2 \<longrightarrow>
      (\<exists>evs. eng_events e2 = eng_events e @ evs \<and> (\<forall>ev \<in> set evs. te_origin ev = eng_timeline_origin e)))"
proof (intro conjI impI)
  assume h: "handle_command A E cmd e = Inr (reply, e1, go)"
  define e0 where "e0 = e\<lparr>eng_command_origin := Some (cmd_origin cmd)\<rparr>"
  obtain e' where i: "handle_command_inner A E cmd e0 = Inr (reply, e', go)"
    and e1: "e1 = e'\<lparr>eng_command_origin := None\<rparr>"
    using h by (auto simp: handle_command_def e0_def split: sum.splits prod.splits)
  have "emits e0 e'" using emits_command_inner [OF i] by (simp add: e0_def)
  then show "\<exists>evs. eng_events e1 = eng_events e @ evs \<and> (\<forall>ev \<in> set evs. te_origin ev = cmd_origin cmd)"
    by (simp add: emits_def e0_def e1 event_origin_def)
next
  assume "process_audio_chunk A E n e = Inr e2"
  from emits_audio [OF this] reachable_no_command_origin [OF assms]
  show "\<exists>evs. eng_events e2 = eng_events e @ evs \<and> (\<forall>ev \<in> set evs. te_origin ev = eng_timeline_origin e)"
    by (simp add: emits_def event_origin_def)
qed

theorem events_carry_origin_witness:
  "\<exists>reply e1 go evs. handle_command (receiver_sink demo_manager) demo_env
      (CmdPause (RemoteOrigin ''phone'' ''ev1'' None None None None)) demo_engine = Inr (reply, e1, go) \<and>
    eng_events e1 = eng_events demo_engine @ evs \<and>
    (\<forall>ev \<in> set evs. te_origin ev = RemoteOrigin ''phone'' ''ev1'' None None None None)"
proof -
  obtain reply e1 go where h: "handle_command (receiver_sink demo_manager) demo_env
      (CmdPause (RemoteOrigin ''phone'' ''ev1'' None None None None)) demo_engine = Inr (reply, e1, go)"
    using handle_command_ok [OF demo_rng engine_reachable_inv [OF demo_reachable]] by blast
  then show ?thesis
    using events_carry_origin [OF demo_reachable, of demo_env _ reply e1 go 0 demo_engine] by fastforce
qed

lemma start_playback_ok_state:
  assumes "start_playback_internal A E t p e = (Inr (), e')"
  shows "eng_state e' = Preparing" "eng_decoder e' \<noteq> None" "eng_base_position_ms e' = p"
    "eng_playing_started_at e' = None"
  using assms by (auto simp: start_playback_internal_def Let_def split: if_splits prod.splits sum.splits)

lemma cmd_resume_paused:
  assumes "eng_state e = Paused" and "cmd_resume A E e = (Inr (), e')"
  shows "\<exists>t x. start_playback_internal A E t (eng_base_position_ms e) x = (Inr (), e')"
  using assms by (auto simp: cmd_resume_def Let_def split: if_splits option.splits)

text \<open>
  A pause freezes the timeline: whatever the clock shows later, the position stays the one at
  the pause; a resume that succeeds starts the decoder again from that position.
\<close>

theorem pause_then_resume_position:
  assumes "handle_command A E (CmdPause o') e = Inr (r, e1, go)"
  shows "eng_state e1 = Paused \<and>
    (\<forall>now. calculate_current_position_ms now e1 = calculate_current_position_ms (env_now E) e) \<and>
    (handle_command A E2 (CmdResume o2) e1 = Inr (Answer (Inr ()), e2, go2) \<longrightarrow>
       eng_state e2 = Preparing \<and> eng_decoder e2 \<noteq> None \<and>
       (\<forall>now. calculate_current_position_ms now e2 = calculate_current_position_ms (env_now E) e))"
proof -
  define p where "p = calculate_current_position_ms (env_now E) e"
  have e1: "eng_state e1 = Paused" "eng_base_position_ms e1 = p" "eng_playing_started_at e1 = None"
    using assms by (auto simp: handle_command_def answer_def cmd_pause_def Let_def p_def
        set_timeline_origin_def calculate_current_position_ms_def split: option.splits)
  have "eng_state e2 = Preparing \<and> eng_decoder e2 \<noteq> None \<and> eng_base_position_ms e2 = p \<and>
      eng_playing_started_at e2 = None"
    if h: "handle_command A E2 (CmdResume o2) e1 = Inr (Answer (Inr ()), e2, go2)"
  proof -
    define e0 where "e0 = e1\<lparr>eng_command_origin := Some o2\<rparr>"
    obtain e3 where c: "cmd_resume A E2 e0 = (Inr (), e3)" and e2: "e2 = e3\<lparr>eng_command_origin := None\<rparr>"
      using h by (cases "cmd_resume A E2 e0") (auto simp: handle_command_def answer_def simp flip: e0_def)
    have "eng_state e0 = Paused" "eng_base_position_ms e0 = p" using e1 by (simp_all add: e0_def)
    with cmd_resume_paused [OF _ c] obtain t x where "start_playback_internal A E2 t p x = (Inr (), e3)"
      by auto
    from start_playback_ok_state [OF this] show ?thesis by (simp add: e2)
  qed
  then show ?thesis using e1 by (auto simp: calculate_current_position_ms_def p_def)
qed

theorem pause_then_resume_position_witness:
  "\<exists>r e1 go. handle_command (receiver_sink demo_manager) demo_env (CmdPause LocalOrigin) demo_engine
      = Inr (r, e1, go) \<and> (\<forall>now. calculate_current_position_ms now e1 = 2000)"
proof -
  obtain r e1 go where h: "handle_command (receiver_sink demo_manager) demo_env
      (CmdPause LocalOrigin) demo_engine = Inr (r, e1, go)"
    using handle_command_ok [OF demo_rng engine_reachable_inv [OF demo_reachable]] by blast
  have "calculate_current_position_ms (env_now demo_env) demo_engine = 2000"
    by (simp add: calculate_current_position_ms_def demo_engine_state)
  with pause_then_resume_position [OF h] h show ?thesis by auto
qed

lemma sink_errors_all:
  "length (sink_errors f ss) = length ss \<longleftrightarrow> (\<forall>s \<in> set ss. is_err (fst (f s)))"
proof -
  have le: "length (sink_errors f ss) \<le> length ss" for ss
    by (induction ss) (auto simp: sink_errors_def List.map_filter_simps split: sum.splits)
  show ?thesis
  proof (induction ss)
    case (Cons s ss)
    then show ?case using le [of ss]
      by (cases "fst (f s)") (auto simp: sink_errors_def List.map_filter_simps)
  qed (simp add: sink_errors_def List.map_filter_simps)
qed

text \<open>
  Setting the volume clamps it to 100, applies the clamped value to every sink, and fails, with
  \<open>AllOutputsFailed\<close>, exactly when there are sinks and all of them refuse.
\<close>

theorem set_volume_outcome:
  "\<exists>r e'. handle_command A E (CmdSetVolume v o') e = Inr (Answer r, e', True) \<and>
    eng_volume e' = min v 100 \<and>
    eng_sinks e' = map (\<lambda>s. snd (as_set_volume A s (min v 100))) (eng_sinks e) \<and>
    r = (if eng_sinks e \<noteq> [] \<and> (\<forall>s \<in> set (eng_sinks e). is_err (fst (as_set_volume A s (min v 100))))
         then Inl AllOutputsFailed else Inr ())"
  using sink_errors_all [of "\<lambda>s. as_set_volume A s (min v 100)" "eng_sinks e"]
  by (auto simp: handle_command_def answer_def cmd_set_volume_def Let_def sinks_after_def
      simp del: not_is_err)

theorem set_volume_outcome_witness:
  "\<exists>r e'. handle_command (receiver_sink demo_manager) demo_env (CmdSetVolume 250 LocalOrigin) demo_engine
     = Inr (Answer r, e', True) \<and> eng_volume e' = 100"
  using set_volume_outcome [of "receiver_sink demo_manager" demo_env 250 LocalOrigin demo_engine] by auto

text \<open>
  No receiver sink is ever lost: after any command the sinks the engine holds, those handed to a
  background stop and those it stopped and dropped are together the ones it had before and the ones
  the command brought; an audio step changes nothing about that total.
\<close>

theorem receiver_sinks_never_lost:
  "(handle_command (receiver_sink M) E cmd e = Inr (reply, e1, go) \<longrightarrow>
     owned (receiver_sink M) e1 =
       owned (receiver_sink M) e + mset (map rs_receiver_id (cmd_sinks cmd))) \<and>
   (process_audio_chunk (receiver_sink M) E n e = Inr e2 \<longrightarrow>
     owned (receiver_sink M) e2 = owned (receiver_sink M) e)"
proof (intro conjI impI)
  assume "handle_command (receiver_sink M) E cmd e = Inr (reply, e1, go)"
  from receiver.owned_command [OF this]
  show "owned (receiver_sink M) e1 =
      owned (receiver_sink M) e + mset (map rs_receiver_id (cmd_sinks cmd))"
    by (simp add: receiver_sink_def)
qed (rule receiver.owned_audio)

theorem receiver_sinks_never_lost_witness:
  "\<exists>reply e1 go. handle_command (receiver_sink demo_manager) demo_env
      (CmdPlay (demo_track ''b'') [new_receiver_sink ''r2'' ()] demo_output 0 LocalOrigin) demo_engine
      = Inr (reply, e1, go) \<and>
    owned (receiver_sink demo_manager) e1 = owned (receiver_sink demo_manager) demo_engine + {#''r2''#}"
proof -
  obtain reply e1 go where h: "handle_command (receiver_sink demo_manager) demo_env
      (CmdPlay (demo_track ''b'') [new_receiver_sink ''r2'' ()] demo_output 0 LocalOrigin) demo_engine
      = Inr (reply, e1, go)"
    using handle_command_ok [OF demo_rng engine_reachable_inv [OF demo_reachable]] by blast
  with receiver_sinks_never_lost show ?thesis
    by (fastforce simp: new_receiver_sink_def new_with_config_def)
qed

end
