(* ===== verification/Playback_Projection.thy ===== *)
theory Playback_Projection
  imports Engine_Commands Sync_State
begin

text \<open>
  The projection of engine events into the shared playback state, the sync bus and the persisted
  session: \<^verbatim>\<open>crates/michi-api/src/playback_projection.rs\<close>, with the session and configuration
  queries it calls from \<^verbatim>\<open>crates/michi-db/src/lib.rs\<close>. The state of the coordinator includes the
  database tables it touches and the messages it put on the bus; clock readings, fresh UUIDs and
  database failures of one call are arguments.
\<close>

section \<open>Data\<close>

datatype ProjectionFailureKind =
  FkEngineSnapshot | FkSessionLoad | FkSessionPersist | FkLagReconciliation | FkShutdownFlush

record PlaybackProjectionHealth =
  ph_healthy :: bool
  ph_consecutive_failures :: u64
  ph_last_success_at :: "utc option"
  ph_last_error_at :: "utc option"
  ph_last_error :: "string option"
  ph_last_error_kind :: "ProjectionFailureKind option"
  ph_failures_total :: u64
  ph_lag_events_total :: u64
  ph_lag_recoveries_total :: u64
  ph_lag_recovery_failures_total :: u64

definition default_health :: PlaybackProjectionHealth where
  "default_health =
     \<lparr>ph_healthy = True, ph_consecutive_failures = 0, ph_last_success_at = None,
      ph_last_error_at = None, ph_last_error = None, ph_last_error_kind = None,
      ph_failures_total = 0, ph_lag_events_total = 0, ph_lag_recoveries_total = 0,
      ph_lag_recovery_failures_total = 0\<rparr>"

record PersistentPlaybackProjection =
  pp_current_track_id :: "uuid option"
  pp_current_index :: int
  pp_position_ms :: u64
  pp_playing :: bool
  pp_volume :: rat
  pp_shuffle :: bool
  pp_repeat_mode :: string

datatype ReconcileOutcome = NoPersistentSessionNeeded | AlreadyConverged | Persisted

datatype ProjectionError = SessionLoad string | SessionPersist string

record PeerCursor =
  pc_epoch :: u64
  pc_boot_id :: "uuid option"
  pc_sequence :: u64

text \<open>The tables: sessions with their \<open>updated_at\<close>, and the key-value configuration.\<close>

record ProjectionDb =
  db_sessions :: "(PlaybackSessionDb \<times> utc) list"
  db_config :: "string \<rightharpoonup> string"

record PlaybackProjectionCoordinator =
  co_db :: ProjectionDb
  co_state :: PlaybackState
    \<comment> \<open>\<open>legacy_playback_state\<close>\<close>
  co_sent :: "SyncMessage list"
    \<comment> \<open>what was sent on \<open>sync_tx\<close>, oldest first\<close>
  co_server_id :: string
  co_server_epoch :: u64
  co_boot_id :: uuid
  co_local_sequence :: u64
  co_local_lamport :: u64
  co_peer_vectors :: "string \<rightharpoonup> PeerCursor"
  co_processed_events :: "uuid list"
  co_health :: PlaybackProjectionHealth
  co_last_projection :: "PersistentPlaybackProjection option"

record ProjectionEnv =
  pe_utc :: utc
  pe_uuid :: uuid
  pe_session_ids :: "uuid \<times> uuid"
  pe_load_error :: "string option"
  pe_create_error :: "string option"
  pe_persist_error :: "string option"
  pe_config_get_ok :: "string \<Rightarrow> bool"
  pe_config_set_ok :: "string \<Rightarrow> bool"
  pe_now_secs :: u64

section \<open>Database\<close>

definition get_server_config :: "ProjectionEnv \<Rightarrow> ProjectionDb \<Rightarrow> string \<Rightarrow> unit + string option" where
  "get_server_config E db key = (if pe_config_get_ok E key then Inr (db_config db key) else Inl ())"

definition set_server_config :: "ProjectionEnv \<Rightarrow> string \<Rightarrow> string \<Rightarrow> ProjectionDb \<Rightarrow> ProjectionDb" where
  "set_server_config E key val db =
     (if pe_config_set_ok E key then db\<lparr>db_config := (db_config db)(key \<mapsto> val)\<rparr> else db)"

fun latest_session :: "(PlaybackSessionDb \<times> utc) list \<Rightarrow> (PlaybackSessionDb \<times> utc) option" where
  "latest_session [] = None"
| "latest_session (r # rs) =
     (case latest_session rs of
        None \<Rightarrow> Some r
      | Some r' \<Rightarrow> Some (if snd r < snd r' then r' else r))"

definition default_session :: "ProjectionEnv \<Rightarrow> PlaybackSessionDb" where
  "default_session E =
     \<lparr>sess_id = fst (pe_session_ids E), sess_device_id = snd (pe_session_ids E),
      sess_queue_id = None, sess_queue_state_json = ''{}'', sess_current_index = 0,
      sess_current_track_id = None, sess_position_ms = 0, sess_playing = False,
      sess_repeat_mode = ''off'', sess_shuffle = False, sess_volume = 4 / 5,
      sess_source = ''local'', sess_resume_policy = ''keep_position'', sess_restored = False\<rparr>"

definition get_or_create_latest_playback_session ::
  "ProjectionEnv \<Rightarrow> ProjectionDb \<Rightarrow> (string + PlaybackSessionDb) \<times> ProjectionDb" where
  "get_or_create_latest_playback_session E db =
     (case pe_load_error E of
        Some er \<Rightarrow> (Inl er, db)
      | None \<Rightarrow>
          (case latest_session (db_sessions db) of
             Some (s, _) \<Rightarrow> (Inr s, db)
           | None \<Rightarrow>
               (case pe_create_error E of
                  Some er \<Rightarrow> (Inl er, db)
                | None \<Rightarrow>
                    (Inr (default_session E),
                     db\<lparr>db_sessions := db_sessions db @ [(default_session E, pe_utc E)]\<rparr>))))"

definition update_playback_session ::
  "ProjectionEnv \<Rightarrow> PlaybackSessionDb \<Rightarrow> ProjectionDb \<Rightarrow> (string + unit) \<times> ProjectionDb" where
  "update_playback_session E s db =
     (case pe_persist_error E of
        Some er \<Rightarrow> (Inl er, db)
      | None \<Rightarrow>
          (Inr (), db\<lparr>db_sessions :=
             map (\<lambda>(r, u). if sess_id r = sess_id s
                            then (s\<lparr>sess_device_id := sess_device_id r\<rparr>, pe_utc E) else (r, u))
               (db_sessions db)\<rparr>))"

section \<open>Construction\<close>

definition new_with_epoch_boot_and_lamport ::
  "ProjectionDb \<Rightarrow> PlaybackState \<Rightarrow> string \<Rightarrow> u64 \<Rightarrow> uuid \<Rightarrow> u64 \<Rightarrow> PlaybackProjectionCoordinator" where
  "new_with_epoch_boot_and_lamport db st server_id epoch boot lamport =
     \<lparr>co_db = db, co_state = st, co_sent = [], co_server_id = server_id, co_server_epoch = epoch,
      co_boot_id = boot, co_local_sequence = 0, co_local_lamport = lamport,
      co_peer_vectors = Map.empty, co_processed_events = [], co_health = default_health,
      co_last_projection = None\<rparr>"

definition new_with_epoch_and_boot where
  "new_with_epoch_and_boot db st server_id epoch boot =
     new_with_epoch_boot_and_lamport db st server_id epoch boot 0"

definition parse_or_zero :: "string \<Rightarrow> u64" where
  "parse_or_zero s = (case parse_u64 s of Some v \<Rightarrow> v | None \<Rightarrow> 0)"

definition next_db_epoch :: "ProjectionEnv \<Rightarrow> ProjectionDb \<Rightarrow> u64" where
  "next_db_epoch E db =
     (case get_server_config E db ''sync_server_epoch'' of
        Inr (Some val) \<Rightarrow> max (sat_add (parse_or_zero val) 1) (pe_now_secs E)
      | _ \<Rightarrow> pe_now_secs E)"

definition next_db_lamport :: "ProjectionEnv \<Rightarrow> ProjectionDb \<Rightarrow> u64" where
  "next_db_lamport E db =
     (case get_server_config E db ''sync_server_lamport'' of
        Inr (Some val) \<Rightarrow> sat_add (parse_or_zero val) 10000
      | _ \<Rightarrow> 10000)"

definition new_with_db_epoch ::
  "ProjectionEnv \<Rightarrow> ProjectionDb \<Rightarrow> PlaybackState \<Rightarrow> string \<Rightarrow> PlaybackProjectionCoordinator" where
  "new_with_db_epoch E db st server_id =
     (let epoch = next_db_epoch E db;
          db1 = set_server_config E ''sync_server_epoch'' (show_nat (unat epoch)) db;
          lamport = next_db_lamport E db1;
          db2 = set_server_config E ''sync_server_lamport'' (show_nat (unat lamport)) db1
      in new_with_epoch_boot_and_lamport db2 st server_id epoch (pe_uuid E) lamport)"

definition initialize_db_state ::
  "ProjectionEnv \<Rightarrow> PlaybackProjectionCoordinator \<Rightarrow> PlaybackProjectionCoordinator" where
  "initialize_db_state E c =
     (let c1 = (case get_server_config E (co_db c) ''sync_server_epoch'' of
                  Inl _ \<Rightarrow> c
                | Inr val \<Rightarrow>
                    (let next_ep = (case val of
                            Some v \<Rightarrow> max (sat_add (parse_or_zero v) 1) (pe_now_secs E)
                          | None \<Rightarrow> pe_now_secs E)
                     in c\<lparr>co_db := set_server_config E ''sync_server_epoch''
                                     (show_nat (unat next_ep)) (co_db c),
                          co_server_epoch := next_ep\<rparr>));
          current_lamp = co_local_lamport c1;
          next_lamp = (case get_server_config E (co_db c1) ''sync_server_lamport'' of
                  Inr (Some v) \<Rightarrow> sat_add (max (parse_or_zero v) current_lamp) 10000
                | _ \<Rightarrow> sat_add current_lamp 10000)
      in c1\<lparr>co_db := set_server_config E ''sync_server_lamport''
                       (show_nat (unat next_lamp)) (co_db c1),
            co_local_lamport := next_lamp\<rparr>)"

section \<open>Clocks\<close>

text \<open>\<open>fetch_add(1) + 1\<close>\<close>

definition next_local_sequence ::
  "PlaybackProjectionCoordinator \<Rightarrow> u64 \<times> PlaybackProjectionCoordinator" where
  "next_local_sequence c =
     (let s = co_local_sequence c + 1 in (s, c\<lparr>co_local_sequence := s\<rparr>))"

text \<open>
  The compare-and-exchange loop: \<open>cur\<close> is what the thread last read, \<open>seen\<close> the values that its
  failed attempts found in the cell. The attempt that succeeds does so on the value it last saw, so
  the update is atomic there.
\<close>

fun lamport_cas :: "(u64 \<Rightarrow> u64) \<Rightarrow> u64 \<Rightarrow> u64 list \<Rightarrow> u64 \<times> u64" where
  "lamport_cas f cur [] = (cur, f cur)"
| "lamport_cas f cur (actual # seen) = lamport_cas f actual seen"

lemma lamport_cas_atomic:
  "lamport_cas f cur seen = (last (cur # seen), f (last (cur # seen)))"
  by (induction seen arbitrary: cur) auto

definition next_lamport ::
  "PlaybackProjectionCoordinator \<Rightarrow> u64 \<times> PlaybackProjectionCoordinator" where
  "next_lamport c =
     (let t = snd (lamport_cas (\<lambda>x. sat_add x 1) (co_local_lamport c) [])
      in (t, c\<lparr>co_local_lamport := t\<rparr>))"

definition observe_lamport ::
  "u64 \<Rightarrow> PlaybackProjectionCoordinator \<Rightarrow> u64 \<times> PlaybackProjectionCoordinator" where
  "observe_lamport remote c =
     (if - 1 - 100000 \<le> remote then (co_local_lamport c, c)
      else
        (let t = snd (lamport_cas (\<lambda>x. sat_add (max x remote) 1) (co_local_lamport c) [])
         in (t, c\<lparr>co_local_lamport := t\<rparr>)))"

section \<open>Peers and processed events\<close>

definition is_stale_peer_state ::
  "string \<Rightarrow> u64 option \<Rightarrow> uuid option \<Rightarrow> u64 \<Rightarrow> PlaybackProjectionCoordinator \<Rightarrow> bool" where
  "is_stale_peer_state peer epoch boot sequence c =
     (case co_peer_vectors c peer of
        None \<Rightarrow> False
      | Some cursor \<Rightarrow>
          (let ep = or0 epoch in
           if ep < pc_epoch cursor then True
           else if pc_epoch cursor < ep then False
           else if boot \<noteq> None \<and> pc_boot_id cursor \<noteq> None \<and> boot \<noteq> pc_boot_id cursor then False
           else sequence \<le> pc_sequence cursor))"

definition record_peer_state ::
  "string \<Rightarrow> u64 option \<Rightarrow> uuid option \<Rightarrow> u64 \<Rightarrow> PlaybackProjectionCoordinator \<Rightarrow>
   PlaybackProjectionCoordinator" where
  "record_peer_state peer epoch boot sequence c =
     c\<lparr>co_peer_vectors := (co_peer_vectors c)(peer \<mapsto>
         \<lparr>pc_epoch = or0 epoch, pc_boot_id = boot, pc_sequence = sequence\<rparr>)\<rparr>"

definition is_event_processed :: "uuid \<Rightarrow> PlaybackProjectionCoordinator \<Rightarrow> bool" where
  "is_event_processed ev c = (ev \<in> set (co_processed_events c))"

definition record_processed_event ::
  "uuid \<Rightarrow> PlaybackProjectionCoordinator \<Rightarrow> PlaybackProjectionCoordinator" where
  "record_processed_event ev c =
     (let evs = (if 10000 < length (co_processed_events c) then [] else co_processed_events c)
      in c\<lparr>co_processed_events := List.insert ev evs\<rparr>)"

section \<open>Health\<close>

definition record_success ::
  "ProjectionEnv \<Rightarrow> PlaybackProjectionCoordinator \<Rightarrow> PlaybackProjectionCoordinator" where
  "record_success E c =
     c\<lparr>co_health := (co_health c)\<lparr>ph_healthy := True, ph_consecutive_failures := 0,
         ph_last_success_at := Some (pe_utc E), ph_last_error := None,
         ph_last_error_kind := None\<rparr>\<rparr>"

definition record_failure ::
  "ProjectionEnv \<Rightarrow> ProjectionFailureKind \<Rightarrow> string \<Rightarrow> PlaybackProjectionCoordinator \<Rightarrow>
   PlaybackProjectionCoordinator" where
  "record_failure E kind msg c =
     (let h = co_health c
      in c\<lparr>co_health := h\<lparr>ph_healthy := False,
             ph_consecutive_failures := sat_add (ph_consecutive_failures h) 1,
             ph_last_error_at := Some (pe_utc E), ph_last_error := Some msg,
             ph_last_error_kind := Some kind,
             ph_failures_total := sat_add (ph_failures_total h) 1\<rparr>\<rparr>)"

section \<open>Projection\<close>

definition projection_of :: "PlaybackSessionDb \<Rightarrow> PersistentPlaybackProjection" where
  "projection_of s =
     \<lparr>pp_current_track_id = sess_current_track_id s, pp_current_index = sess_current_index s,
      pp_position_ms = sess_position_ms s, pp_playing = sess_playing s,
      pp_volume = sess_volume s, pp_shuffle = sess_shuffle s, pp_repeat_mode = sess_repeat_mode s\<rparr>"

definition persist_if_changed ::
  "ProjectionEnv \<Rightarrow> PlaybackSessionDb \<Rightarrow> PlaybackProjectionCoordinator \<Rightarrow>
   (ProjectionError + bool) \<times> PlaybackProjectionCoordinator" where
  "persist_if_changed E s c =
     (if co_last_projection c \<noteq> Some (projection_of s) then
        (case update_playback_session E s (co_db c) of
           (Inr _, db) \<Rightarrow>
             (Inr True, record_success E (c\<lparr>co_db := db, co_last_projection := Some (projection_of s)\<rparr>))
         | (Inl er, db) \<Rightarrow>
             (Inl (SessionPersist er),
              record_failure E FkSessionPersist (''update_playback_session failed: '' @ er)
                (c\<lparr>co_db := db\<rparr>)))
      else (Inr False, c))"

text \<open>\<open>as f64 / 100.0\<close> on the engine's volume\<close>

definition volume_fraction :: "u8 \<Rightarrow> rat" where
  "volume_fraction v = rat_of_nat (unat v) / 100"

definition projected_position :: "EngineSnapshot \<Rightarrow> u64" where
  "projected_position snap =
     (if snap_lifecycle snap = Stopped \<or> snap_lifecycle snap = Ended then 0 else snap_position_ms snap)"

text \<open>
  The provenance an origin gives the projected state: a remote origin is passed through, a local one
  is stamped with this server's identity and clocks. The flag says whether it is local.
\<close>

definition stamp ::
  "ProjectionEnv \<Rightarrow> CommandOrigin \<Rightarrow> PlaybackState \<Rightarrow> PlaybackProjectionCoordinator \<Rightarrow>
   PlaybackState \<times> bool \<times> PlaybackProjectionCoordinator" where
  "stamp E o' ps c =
     (case o' of
        RemoteOrigin dev ev sq ep boot lamp \<Rightarrow>
          (ps\<lparr>ps_device_id := Some dev, ps_event_id := Some ev, ps_sequence := sq, ps_epoch := ep,
              ps_boot_id := boot, ps_lamport := lamp\<rparr>, False, c)
      | LocalOrigin \<Rightarrow>
          (case next_local_sequence c of (sq, c1) \<Rightarrow>
           case next_lamport c1 of (lamp, c2) \<Rightarrow>
             (ps\<lparr>ps_device_id := Some (co_server_id c2), ps_event_id := Some (pe_uuid E),
                 ps_sequence := Some sq, ps_epoch := Some (co_server_epoch c2),
                 ps_boot_id := Some (co_boot_id c2), ps_lamport := Some lamp\<rparr>, True, c2)))"

text \<open>
  The in-memory projection that \<open>handle_event\<close> and \<open>reconcile_from_snapshot\<close> share: update the
  shared state, and put it on the bus when it originated here.
\<close>

definition project_state ::
  "ProjectionEnv \<Rightarrow> CommandOrigin \<Rightarrow> utc \<Rightarrow> EngineSnapshot \<Rightarrow> PlaybackProjectionCoordinator \<Rightarrow>
   PlaybackProjectionCoordinator" where
  "project_state E o' updated snap c =
     (case stamp E o' (co_state c) c of (ps, is_local, c1) \<Rightarrow>
        (let out = ps\<lparr>ps_track_id := snap_track_id snap, ps_position_ms := projected_position snap,
                     ps_playing := lifecycle_is_playing (snap_lifecycle snap),
                     ps_volume := volume_fraction (snap_volume snap),
                     ps_shuffle := snap_shuffle snap,
                     ps_repeat := repeat_as_str (snap_repeat snap), ps_updated_at := updated\<rparr>;
             c2 = c1\<lparr>co_state := out\<rparr>
         in if is_local then c2\<lparr>co_sent := co_sent c2 @ [sync_message_of_state out]\<rparr> else c2))"

definition opt_or :: "'a option \<Rightarrow> 'a option \<Rightarrow> 'a option" where
  "opt_or x y = (case x of Some v \<Rightarrow> Some v | None \<Rightarrow> y)"

definition with_settings :: "EngineSnapshot \<Rightarrow> PlaybackSessionDb \<Rightarrow> PlaybackSessionDb" where
  "with_settings snap s =
     s\<lparr>sess_volume := volume_fraction (snap_volume snap), sess_shuffle := snap_shuffle snap,
       sess_repeat_mode := repeat_as_str (snap_repeat snap)\<rparr>"

text \<open>\<open>index as i32\<close> keeps the low 32 bits, read as signed.\<close>

definition as_i32 :: "nat \<Rightarrow> int" where
  "as_i32 n = sint (word_of_nat n :: 32 word)"

fun session_after_event ::
  "EngineEvent \<Rightarrow> EngineSnapshot \<Rightarrow> PlaybackSessionDb \<Rightarrow> PlaybackSessionDb" where
  "session_after_event (EvLifecycleChanged l tid) snap s =
     with_settings snap (s\<lparr>sess_current_track_id := opt_or tid (snap_track_id snap),
        sess_position_ms := (if l = Stopped \<or> l = Ended then 0
                             else if lifecycle_is_playing l then snap_position_ms snap
                             else sess_position_ms s),
        sess_playing := lifecycle_is_playing l\<rparr>)"
| "session_after_event (EvPaused tid pos) snap s =
     with_settings snap (s\<lparr>sess_current_track_id := opt_or tid (snap_track_id snap),
        sess_position_ms := pos, sess_playing := False\<rparr>)"
| "session_after_event EvStopped snap s = s\<lparr>sess_position_ms := 0, sess_playing := False\<rparr>"
| "session_after_event (EvEnded _) snap s = s\<lparr>sess_position_ms := 0, sess_playing := False\<rparr>"
| "session_after_event (EvFailed _) snap s = s\<lparr>sess_playing := False\<rparr>"
| "session_after_event (EvSeeked _ pos) snap s = s\<lparr>sess_position_ms := pos\<rparr>"
| "session_after_event (EvPositionCheckpoint _ pos) snap s =
     (if lifecycle_is_playing (snap_lifecycle snap)
      then s\<lparr>sess_position_ms := pos, sess_playing := True\<rparr> else s)"
| "session_after_event (EvTrackChanged tid index) snap s =
     s\<lparr>sess_current_track_id := tid, sess_current_index := as_i32 index,
       sess_position_ms := (if lifecycle_is_playing (snap_lifecycle snap) then snap_position_ms snap
                            else sess_position_ms s)\<rparr>"
| "session_after_event (EvVolumeChanged v) snap s = s\<lparr>sess_volume := volume_fraction v\<rparr>"
| "session_after_event (EvShuffleChanged b) snap s = s\<lparr>sess_shuffle := b\<rparr>"
| "session_after_event (EvRepeatChanged r) snap s = s\<lparr>sess_repeat_mode := repeat_as_str r\<rparr>"
| "session_after_event (EvQueueChanged _) snap s = s"
| "session_after_event (EvOutputChanged _) snap s = s"

definition handle_event ::
  "ProjectionEnv \<Rightarrow> TrackedEngineEvent \<Rightarrow> EngineSnapshot \<Rightarrow> PlaybackProjectionCoordinator \<Rightarrow>
   PlaybackProjectionCoordinator" where
  "handle_event E ev snap c0 =
     (let c = project_state E (te_origin ev) (pe_utc E) snap c0 in
      case get_or_create_latest_playback_session E (co_db c) of
        (Inl er, db) \<Rightarrow>
          record_failure E FkSessionLoad
            (''get_or_create_latest_playback_session failed: '' @ er) (c\<lparr>co_db := db\<rparr>)
      | (Inr s, db) \<Rightarrow>
          snd (persist_if_changed E (session_after_event (te_event ev) snap s) (c\<lparr>co_db := db\<rparr>)))"

definition session_of_snapshot :: "EngineSnapshot \<Rightarrow> u64 \<Rightarrow> bool \<Rightarrow> PlaybackSessionDb \<Rightarrow> PlaybackSessionDb" where
  "session_of_snapshot snap pos playing s =
     with_settings snap (s\<lparr>sess_current_track_id := snap_track_id snap, sess_position_ms := pos,
       sess_playing := playing\<rparr>)"

definition reconcile_from_snapshot ::
  "ProjectionEnv \<Rightarrow> EngineSnapshot \<Rightarrow> PlaybackProjectionCoordinator \<Rightarrow>
   (ProjectionError + ReconcileOutcome) \<times> PlaybackProjectionCoordinator" where
  "reconcile_from_snapshot E snap c0 =
     (let c = project_state E (snap_timeline_origin snap) (snap_updated_at snap) snap c0;
          playing = lifecycle_is_playing (snap_lifecycle snap)
      in if snap_track_id snap = None \<and> \<not> playing then (Inr NoPersistentSessionNeeded, c)
         else
           (case get_or_create_latest_playback_session E (co_db c) of
              (Inr s, db) \<Rightarrow>
                (case persist_if_changed E
                        (session_of_snapshot snap (projected_position snap) playing s)
                        (c\<lparr>co_db := db\<rparr>) of
                   (Inr True, c') \<Rightarrow> (Inr Persisted, c')
                 | (Inr False, c') \<Rightarrow> (Inr AlreadyConverged, c')
                 | (Inl er, c') \<Rightarrow> (Inl er, c'))
            | (Inl er, db) \<Rightarrow>
                (Inl (SessionLoad er),
                 record_failure E FkSessionLoad
                   (''reconciliation get_or_create_latest_playback_session failed: '' @ er)
                   (c\<lparr>co_db := db\<rparr>))))"

definition flush_shutdown ::
  "ProjectionEnv \<Rightarrow> EngineSnapshot outcome \<Rightarrow> PlaybackProjectionCoordinator \<Rightarrow>
   PlaybackProjectionCoordinator" where
  "flush_shutdown E snapshot c =
     (let c1 = (case snapshot of
            Inl er \<Rightarrow> record_failure E FkShutdownFlush
                        (''flush_shutdown engine snapshot failed: '' @ error_to_string er) c
          | Inr snap \<Rightarrow>
              (case get_or_create_latest_playback_session E (co_db c) of
                 (Inl er, db) \<Rightarrow>
                   record_failure E FkShutdownFlush
                     (''flush_shutdown get_or_create_latest_playback_session failed: '' @ er)
                     (c\<lparr>co_db := db\<rparr>)
               | (Inr s, db) \<Rightarrow>
                   (case update_playback_session E
                           (session_of_snapshot snap (snap_position_ms snap) False s) db of
                      (Inl er, db') \<Rightarrow>
                        record_failure E FkShutdownFlush
                          (''flush_shutdown session update failed: '' @ er) (c\<lparr>co_db := db'\<rparr>)
                    | (Inr _, db') \<Rightarrow> record_success E (c\<lparr>co_db := db'\<rparr>))))
      in c1\<lparr>co_db := set_server_config E ''sync_server_lamport''
                       (show_nat (unat (co_local_lamport c1))) (co_db c1)\<rparr>)"

section \<open>The task\<close>

datatype EventResult = EventOk TrackedEngineEvent | EventLagged

text \<open>
  One iteration of the loop of \<open>spawn\<close>: an event or a lag of the broadcast channel, with the outcome
  of the engine's snapshot. A closed channel and the shutdown token leave the loop.
\<close>

definition projection_step ::
  "ProjectionEnv \<Rightarrow> EventResult \<Rightarrow> EngineSnapshot outcome \<Rightarrow> PlaybackProjectionCoordinator \<Rightarrow>
   PlaybackProjectionCoordinator" where
  "projection_step E ev snapshot c =
     (case ev of
        EventOk e \<Rightarrow>
          (case snapshot of
             Inr snap \<Rightarrow> handle_event E e snap c
           | Inl er \<Rightarrow> record_failure E FkEngineSnapshot (''snapshot failed: '' @ error_to_string er) c)
      | EventLagged \<Rightarrow>
          (let c1 = c\<lparr>co_health := (co_health c)\<lparr>ph_lag_events_total :=
                        sat_add (ph_lag_events_total (co_health c)) 1\<rparr>\<rparr>
           in case snapshot of
                Inr snap \<Rightarrow>
                  (case reconcile_from_snapshot E snap c1 of
                     (Inr _, c2) \<Rightarrow> c2\<lparr>co_health := (co_health c2)\<lparr>ph_lag_recoveries_total :=
                                       sat_add (ph_lag_recoveries_total (co_health c2)) 1\<rparr>\<rparr>
                   | (Inl _, c2) \<Rightarrow> c2\<lparr>co_health := (co_health c2)\<lparr>ph_lag_recovery_failures_total :=
                                       sat_add (ph_lag_recovery_failures_total (co_health c2)) 1\<rparr>\<rparr>)
              | Inl er \<Rightarrow>
                  (let c2 = c1\<lparr>co_health := (co_health c1)\<lparr>ph_lag_recovery_failures_total :=
                                sat_add (ph_lag_recovery_failures_total (co_health c1)) 1\<rparr>\<rparr>
                   in record_failure E FkLagReconciliation
                        (''reconciliation snapshot failed: '' @ error_to_string er) c2)))"

end
