(* ===== verification/Projection_Theorems.thy ===== *)
theory Projection_Theorems
  imports Playback_Projection
begin

text \<open>
  What the projection promises: events that came from a peer are never echoed, local ones are
  broadcast exactly once with strictly increasing clocks, clocks survive an orderly restart, and a
  reconciliation leaves the persisted session equal to the engine's snapshot.
\<close>

section \<open>Frame lemmas\<close>

lemma record_frame [simp]:
  "co_sent (record_failure E k m c) = co_sent c" "co_sent (record_success E c) = co_sent c"
  "co_state (record_failure E k m c) = co_state c" "co_state (record_success E c) = co_state c"
  "co_server_id (record_failure E k m c) = co_server_id c" "co_server_id (record_success E c) = co_server_id c"
  "co_server_epoch (record_failure E k m c) = co_server_epoch c"
  "co_server_epoch (record_success E c) = co_server_epoch c"
  "co_local_sequence (record_failure E k m c) = co_local_sequence c"
  "co_local_sequence (record_success E c) = co_local_sequence c"
  "co_local_lamport (record_failure E k m c) = co_local_lamport c"
  "co_local_lamport (record_success E c) = co_local_lamport c"
  "co_db (record_failure E k m c) = co_db c" "co_db (record_success E c) = co_db c"
  "co_last_projection (record_failure E k m c) = co_last_projection c"
  "co_last_projection (record_success E c) = co_last_projection c"
  "co_boot_id (record_failure E k m c) = co_boot_id c" "co_boot_id (record_success E c) = co_boot_id c"
  by (simp_all add: record_failure_def record_success_def Let_def)

text \<open>The clock fields and the bus; everything that follows a projection leaves them alone.\<close>

definition same_clocks :: "PlaybackProjectionCoordinator \<Rightarrow> PlaybackProjectionCoordinator \<Rightarrow> bool" where
  "same_clocks c c' \<longleftrightarrow>
     co_sent c' = co_sent c \<and> co_state c' = co_state c \<and> co_server_id c' = co_server_id c \<and>
     co_server_epoch c' = co_server_epoch c \<and> co_local_sequence c' = co_local_sequence c \<and>
     co_local_lamport c' = co_local_lamport c"

lemma same_clocks_persist: "same_clocks c (snd (persist_if_changed E s c))"
  by (auto simp: persist_if_changed_def same_clocks_def split: prod.splits sum.splits)

lemma same_clocks_upd:
  "same_clocks c (c\<lparr>co_db := db\<rparr>)" "same_clocks c (c\<lparr>co_health := h\<rparr>)"
  "same_clocks c (record_failure E k m c)"
  by (simp_all add: same_clocks_def)

lemma same_clocks_trans: "same_clocks a b \<Longrightarrow> same_clocks b c \<Longrightarrow> same_clocks a c"
  by (simp add: same_clocks_def)

lemma same_clocks_handle_event:
  "same_clocks (project_state E (te_origin ev) (pe_utc E) snap c) (handle_event E ev snap c)"
proof -
  define c1 where "c1 = project_state E (te_origin ev) (pe_utc E) snap c"
  have "same_clocks c1 (snd (persist_if_changed E s (c1\<lparr>co_db := db\<rparr>)))" for s db
    using same_clocks_trans [OF same_clocks_upd(1) same_clocks_persist] .
  moreover have "same_clocks c1 (record_failure E k m (c1\<lparr>co_db := db\<rparr>))" for k m db
    using same_clocks_trans [OF same_clocks_upd(1) same_clocks_upd(3)] .
  ultimately show ?thesis
    by (auto simp: handle_event_def Let_def simp flip: c1_def split: prod.splits sum.splits)
qed


section \<open>Messages and clocks\<close>





lemma project_state_remote:
  assumes "origin \<noteq> LocalOrigin"
  shows "co_sent (project_state E origin u snap c) = co_sent c"
    "co_local_sequence (project_state E origin u snap c) = co_local_sequence c"
    "co_local_lamport (project_state E origin u snap c) = co_local_lamport c"
    "co_server_id (project_state E origin u snap c) = co_server_id c"
    "co_server_epoch (project_state E origin u snap c) = co_server_epoch c"
  using assms by (cases origin; simp add: project_state_def stamp_def Let_def)+

lemma project_state_local:
  assumes "c' = project_state E LocalOrigin u snap c"
  shows "co_sent c' = co_sent c @ [sync_message_of_state (co_state c')]"
    "co_local_sequence c' = co_local_sequence c + 1"
    "co_local_lamport c' = sat_add (co_local_lamport c) 1"
    "co_server_id c' = co_server_id c" "co_server_epoch c' = co_server_epoch c"
    "ps_lamport (co_state c') = Some (sat_add (co_local_lamport c) 1)"
    "ps_sequence (co_state c') = Some (co_local_sequence c + 1)"
    "ps_epoch (co_state c') = Some (co_server_epoch c)"
    "ps_device_id (co_state c') = Some (co_server_id c)"
  by (simp_all add: assms project_state_def stamp_def next_local_sequence_def next_lamport_def Let_def)




section \<open>Runs of one incarnation\<close>


lemma same_clocks_refl [simp]: "same_clocks c c"
  by (simp add: same_clocks_def)






lemma same_clocks_flush: "same_clocks c (flush_shutdown E snapshot c)"
  by (auto simp: flush_shutdown_def Let_def same_clocks_def split: sum.splits prod.splits)



section \<open>Properties\<close>


definition demo_snapshot :: EngineSnapshot where
  "demo_snapshot =
     \<lparr>snap_lifecycle = Playing, snap_generation_id = 1, snap_track_id = Some ''t1'',
      snap_current_track = None, snap_position_ms = 1500, snap_duration_ms = None, snap_volume = 80,
      snap_shuffle = False, snap_repeat = RepeatOff, snap_output = None, snap_sinks = [],
      snap_failed_sinks = [], snap_track_bytes_decoded = 0, snap_track_pcm_timeline_bytes = 0,
      snap_network_bytes_sent_total = 0, snap_bytes_decoded = 0, snap_bytes_delivered = 0,
      snap_output_health = ''healthy'', snap_last_error = None, snap_updated_at = 7,
      snap_timeline_origin = LocalOrigin\<rparr>"

definition demo_penv :: ProjectionEnv where
  "demo_penv =
     \<lparr>pe_utc = 10, pe_uuid = ''e1'', pe_session_ids = (''s1'', ''d1''), pe_load_error = None,
      pe_create_error = None, pe_persist_error = None, pe_config_get_ok = (\<lambda>_. True),
      pe_config_set_ok = (\<lambda>_. True), pe_now_secs = 1000\<rparr>"

definition demo_coordinator :: PlaybackProjectionCoordinator where
  "demo_coordinator =
     new_with_epoch_boot_and_lamport \<lparr>db_sessions = [], db_config = Map.empty\<rparr>
       (default_playback_state 0) ''srv'' 1 ''boot'' 10000"


text \<open>
  Echo suppression: an event that originated on a peer puts nothing on the bus and does not tick
  the clocks; an event that originated here puts exactly one message there, the projected state.
\<close>

theorem echo_suppression:
  "(te_origin ev \<noteq> LocalOrigin \<longrightarrow>
      co_sent (handle_event E ev snap c) = co_sent c \<and>
      co_local_lamport (handle_event E ev snap c) = co_local_lamport c \<and>
      co_local_sequence (handle_event E ev snap c) = co_local_sequence c) \<and>
   (te_origin ev = LocalOrigin \<longrightarrow>
      co_sent (handle_event E ev snap c)
        = co_sent c @ [sync_message_of_state (co_state (handle_event E ev snap c))] \<and>
      co_local_lamport (handle_event E ev snap c) = sat_add (co_local_lamport c) 1)"
  using same_clocks_handle_event [of E ev snap c] project_state_remote [of "te_origin ev" E "pe_utc E" snap c]
    project_state_local [OF refl, of E "pe_utc E" snap c]
  by (auto simp: same_clocks_def)

theorem echo_suppression_witness:
  "co_sent (handle_event demo_penv \<lparr>te_event = EvStopped,
      te_origin = RemoteOrigin ''peer'' ''x'' None None None None\<rparr> demo_snapshot demo_coordinator) = []"
  using echo_suppression [of "\<lparr>te_event = EvStopped, te_origin = RemoteOrigin ''peer'' ''x'' None None None None\<rparr>"
      demo_penv demo_snapshot demo_coordinator]
  by (simp add: demo_coordinator_def new_with_epoch_boot_and_lamport_def)

text \<open>
  Observing a peer's clock moves the local clock past both, unless the value is within 100000 of
  the largest \<open>u64\<close>, in which case it is rejected and nothing changes; the clock never moves back.
\<close>

theorem observe_lamport_exceeds:
  "(- 1 - 100000 \<le> remote \<longrightarrow> observe_lamport remote c = (co_local_lamport c, c)) \<and>
   (remote < - 1 - 100000 \<and> co_local_lamport c \<noteq> - 1 \<longrightarrow>
      remote < fst (observe_lamport remote c) \<and>
      co_local_lamport c < fst (observe_lamport remote c) \<and>
      co_local_lamport (snd (observe_lamport remote c)) = fst (observe_lamport remote c))"
proof (intro conjI impI)
  show "- 1 - 100000 \<le> remote \<Longrightarrow> observe_lamport remote c = (co_local_lamport c, c)"
    by (simp add: observe_lamport_def)
  assume a: "remote < - 1 - 100000 \<and> co_local_lamport c \<noteq> - 1"
  define m where "m = max (co_local_lamport c) remote"
  have "remote \<noteq> - 1" using a by auto
  then have "m \<noteq> - 1" using a by (auto simp: m_def max_def)
  then have "m < sat_add m 1" by (rule sat_add_strict) simp
  moreover have "co_local_lamport c \<le> m" "remote \<le> m" by (simp_all add: m_def)
  moreover have o: "observe_lamport remote c = (sat_add m 1, c\<lparr>co_local_lamport := sat_add m 1\<rparr>)"
    using a by (auto simp: observe_lamport_def Let_def m_def dest: leD)
  ultimately show "remote < fst (observe_lamport remote c)"
    "co_local_lamport c < fst (observe_lamport remote c)"
    "co_local_lamport (snd (observe_lamport remote c)) = fst (observe_lamport remote c)"
    by auto
qed

theorem observe_lamport_exceeds_witness:
  "42000 < fst (observe_lamport 42000 demo_coordinator)"
  using observe_lamport_exceeds [of 42000 demo_coordinator]
  by (simp add: demo_coordinator_def new_with_epoch_boot_and_lamport_def)

section \<open>Restarts\<close>

lemma parse_or_zero_show [simp]: "parse_or_zero (show_nat (unat x)) = x"
  by (simp add: parse_or_zero_def parse_show_u64)

lemma flush_config:
  assumes "pe_config_set_ok E ''sync_server_lamport''"
  shows "db_config (co_db (flush_shutdown E snapshot c)) ''sync_server_lamport''
      = Some (show_nat (unat (co_local_lamport c)))"
  using assms same_clocks_flush [of c E snapshot]
  by (simp add: flush_shutdown_def Let_def set_server_config_def same_clocks_def)

text \<open>
  After an orderly shutdown a restart continues beyond everything sent before: the new clock is
  the old one plus a reserved block of 10000.
\<close>

theorem restart_lamport_continues:
  assumes "pe_config_set_ok E ''sync_server_lamport''" and "pe_config_get_ok E2 ''sync_server_lamport''"
    and "co_local_lamport c \<noteq> - 1"
  shows "co_local_lamport c < co_local_lamport (new_with_db_epoch E2 (co_db (flush_shutdown E snapshot c)) st sid)"
proof -
  define db where "db = co_db (flush_shutdown E snapshot c)"
  have "db_config (set_server_config E2 ''sync_server_epoch'' v db) ''sync_server_lamport''
      = Some (show_nat (unat (co_local_lamport c)))" for v
    using flush_config [OF assms(1)] by (simp add: set_server_config_def db_def)
  then have "co_local_lamport (new_with_db_epoch E2 db st sid) = sat_add (co_local_lamport c) 10000"
    using assms(2) by (simp add: new_with_db_epoch_def Let_def next_db_lamport_def
        get_server_config_def new_with_epoch_boot_and_lamport_def)
  moreover have "co_local_lamport c < sat_add (co_local_lamport c) 10000"
    using assms(3) by (intro sat_add_strict) simp_all
  ultimately show ?thesis by (simp add: db_def)
qed

theorem restart_lamport_continues_witness:
  "10000 < co_local_lamport (new_with_db_epoch demo_penv
     (co_db (flush_shutdown demo_penv (Inr demo_snapshot) demo_coordinator)) (default_playback_state 0) ''srv'')"
  using restart_lamport_continues [of demo_penv demo_penv demo_coordinator "Inr demo_snapshot"]
  by (simp add: demo_penv_def demo_coordinator_def new_with_epoch_boot_and_lamport_def)

text \<open>
  A crash is different: the reservation of 10000 is written once, at start-up, so a server whose
  clock moved further than that (by its own events or by observing a peer) restarts behind what it
  already sent.
\<close>

lemma crash_lamport_regresses:
  fixes boot_lamport :: u64
  assumes "db_config (co_db c) ''sync_server_lamport'' = Some (show_nat (unat boot_lamport))"
    and "pe_config_get_ok E ''sync_server_lamport''"
    and "unat boot_lamport + 10000 < unat (co_local_lamport c)"
  shows "co_local_lamport (new_with_db_epoch E (co_db c) st sid) < co_local_lamport c"
proof -
  have "db_config (set_server_config E ''sync_server_epoch'' v (co_db c)) ''sync_server_lamport''
      = Some (show_nat (unat boot_lamport))" for v
    using assms(1) by (simp add: set_server_config_def)
  then have "co_local_lamport (new_with_db_epoch E (co_db c) st sid) = sat_add boot_lamport 10000"
    using assms(2) by (simp add: new_with_db_epoch_def Let_def next_db_lamport_def
        get_server_config_def new_with_epoch_boot_and_lamport_def)
  moreover have "unat (sat_add boot_lamport 10000) \<le> unat boot_lamport + 10000"
    by (simp add: unat_sat_add)
  ultimately show ?thesis using assms(3) by (simp add: word_less_nat_alt)
qed

section \<open>The persisted session\<close>

text \<open>Rows have distinct identifiers, and the clock is past every row's last update.\<close>

definition db_ok :: "ProjectionEnv \<Rightarrow> ProjectionDb \<Rightarrow> bool" where
  "db_ok E db \<longleftrightarrow> distinct (map (sess_id \<circ> fst) (db_sessions db)) \<and>
     (\<forall>r \<in> set (db_sessions db). snd r < pe_utc E)"

text \<open>What was last written is what the latest session holds.\<close>

definition last_projection_ok :: "PlaybackProjectionCoordinator \<Rightarrow> bool" where
  "last_projection_ok c \<longleftrightarrow>
     (\<forall>p. co_last_projection c = Some p \<longrightarrow>
        (\<exists>s u. latest_session (db_sessions (co_db c)) = Some (s, u) \<and> projection_of s = p))"

lemma latest_session_mem: "latest_session rs = Some r \<Longrightarrow> r \<in> set rs"
  by (induction rs arbitrary: r) (auto split: option.splits if_splits)

lemma latest_session_None [simp]: "latest_session rs = None \<longleftrightarrow> rs = []"
  by (cases rs) (auto split: option.splits)

lemma latest_session_unique_max:
  assumes "r \<in> set rs" and "\<forall>r' \<in> set rs. r' \<noteq> r \<longrightarrow> snd r' < snd r"
  shows "latest_session rs = Some r"
  using assms
proof (induction rs)
  case (Cons x xs)
  show ?case
  proof (cases "latest_session xs")
    case None
    then show ?thesis using Cons.prems by auto
  next
    case (Some y)
    then have y: "y \<in> set xs" by (rule latest_session_mem)
    show ?thesis
    proof (cases "r \<in> set xs")
      case True
      then have "latest_session xs = Some r" using Cons by simp
      then show ?thesis using Cons.prems by (cases "x = r") auto
    next
      case False
      then have "x = r" "y \<noteq> r" using Cons.prems(1) y by auto
      moreover have "snd y < snd r" using Cons.prems(2) y \<open>y \<noteq> r\<close> by simp
      ultimately show ?thesis using Some by simp
    qed
  qed
qed simp

lemma latest_after_update:
  assumes "distinct (map (sess_id \<circ> fst) (db_sessions db))" and "(r, u) \<in> set (db_sessions db)"
    and "\<forall>x \<in> set (db_sessions db). sess_id (fst x) \<noteq> sess_id r \<longrightarrow> snd x < pe_utc E"
    and "sess_id s = sess_id r" and "update_playback_session E s db = (Inr x, db')"
  shows "\<exists>s'. latest_session (db_sessions db') = Some (s', pe_utc E) \<and> projection_of s' = projection_of s"
proof -
  define f where "f = (\<lambda>(r, u). if sess_id r = sess_id s
      then (s\<lparr>sess_device_id := sess_device_id r\<rparr>, pe_utc E) else (r, u))"
  have db': "db_sessions db' = map f (db_sessions db)"
    using assms(5) by (auto simp: update_playback_session_def f_def split: option.splits)
  have f: "f (r, u) = (s\<lparr>sess_device_id := sess_device_id r\<rparr>, pe_utc E)" using assms(4) by (simp add: f_def)
  have other: "snd (f x) < pe_utc E" if "x \<in> set (db_sessions db)" "f x \<noteq> f (r, u)" for x
  proof -
    have "sess_id (fst x) \<noteq> sess_id s"
    proof
      assume "sess_id (fst x) = sess_id s"
      with that(1) assms(1,2,4) have "x = (r, u)" by (auto simp: distinct_map inj_on_def)
      with that(2) show False by simp
    qed
    then show ?thesis using that(1) assms(3,4) by (auto simp: f_def split: prod.splits)
  qed
  have "f (r, u) \<in> set (map f (db_sessions db))" using assms(2) by (metis image_eqI list.set_map)
  moreover have "\<forall>y \<in> set (map f (db_sessions db)). y \<noteq> f (r, u) \<longrightarrow> snd y < snd (f (r, u))"
    using other f by auto
  ultimately have "latest_session (map f (db_sessions db)) = Some (f (r, u))"
    by (rule latest_session_unique_max)
  then show ?thesis using db' f by (simp add: projection_of_def)
qed

lemma session_write:
  assumes ok: "db_ok E db" and get: "get_or_create_latest_playback_session E db = (Inr s0, db1)"
    and "sess_id s = sess_id s0" and "update_playback_session E s db1 = (Inr x, db2)"
  shows "\<exists>s'. latest_session (db_sessions db2) = Some (s', pe_utc E) \<and> projection_of s' = projection_of s"
proof (cases "latest_session (db_sessions db)")
  case None
  then have "db_sessions db1 = [(s0, pe_utc E)]"
    using get by (auto simp: get_or_create_latest_playback_session_def split: option.splits)
  with assms(3,4) show ?thesis by (intro latest_after_update [where r = s0 and u = "pe_utc E"]) auto
next
  case (Some a)
  then obtain u where a: "a = (s0, u)" "db1 = db"
    using get by (cases a) (auto simp: get_or_create_latest_playback_session_def split: option.splits)
  have "(s0, u) \<in> set (db_sessions db)" using latest_session_mem [OF Some] a by simp
  with ok a assms(3,4) show ?thesis
    by (intro latest_after_update [where r = s0 and u = u]) (auto simp: db_ok_def)
qed

lemma session_ids [simp]:
  "sess_id (session_of_snapshot snap p b s) = sess_id s" "sess_id (with_settings snap s) = sess_id s"
  by (simp_all add: session_of_snapshot_def with_settings_def)

lemma session_after_event_id [simp]: "sess_id (session_after_event ev snap s) = sess_id s"
  by (cases ev) simp_all

lemma project_state_db [simp]:
  "co_db (project_state E o' u snap c) = co_db c"
  "co_last_projection (project_state E o' u snap c) = co_last_projection c"
  by (cases o'; simp add: project_state_def stamp_def next_local_sequence_def next_lamport_def Let_def)+

text \<open>Writing a session derived from the latest one, or finding it already written.\<close>

lemma persist_latest:
  assumes "db_ok E db" and "last_projection_ok (c\<lparr>co_db := db\<rparr>)"
    and "get_or_create_latest_playback_session E db = (Inr s0, db1)" and "sess_id s = sess_id s0"
    and "persist_if_changed E s (c\<lparr>co_db := db1\<rparr>) = (Inr b, c')"
  shows "\<exists>s' u. latest_session (db_sessions (co_db c')) = Some (s', u) \<and> projection_of s' = projection_of s"
    and "last_projection_ok c'"
proof -
  have main: "(\<exists>s' u. latest_session (db_sessions (co_db c')) = Some (s', u) \<and> projection_of s' = projection_of s)
      \<and> co_last_projection c' = Some (projection_of s)"
  proof (cases "co_last_projection c = Some (projection_of s)")
    case True
    then obtain s' u where l: "latest_session (db_sessions db) = Some (s', u)" "projection_of s' = projection_of s"
      using assms(2) by (auto simp: last_projection_ok_def)
    then have "db1 = db"
      using assms(3) by (auto simp: get_or_create_latest_playback_session_def split: option.splits)
    then show ?thesis using True l assms(5) by (auto simp: persist_if_changed_def)
  next
    case False
    then obtain x db2 where up: "update_playback_session E s db1 = (Inr x, db2)"
      and "co_db c' = db2" "co_last_projection c' = Some (projection_of s)"
      using assms(5) by (auto simp: persist_if_changed_def split: prod.splits sum.splits)
    then show ?thesis using session_write [OF assms(1,3,4) up] by auto
  qed
  then show "\<exists>s' u. latest_session (db_sessions (co_db c')) = Some (s', u) \<and> projection_of s' = projection_of s"
    and "last_projection_ok c'"
    by (auto simp: last_projection_ok_def)
qed

text \<open>
  A reconciliation that reports success leaves the persisted session equal to the engine's
  snapshot (track, position, playing, volume, shuffle, repeat), whether it wrote or found it already
  converged; and it keeps the deduplication cache truthful.
\<close>

theorem reconcile_converges:
  assumes "db_ok E (co_db c)" and "last_projection_ok c"
    and "reconcile_from_snapshot E snap c = (Inr r, c')" and "r \<noteq> NoPersistentSessionNeeded"
  shows "last_projection_ok c' \<and>
    (\<exists>s u. latest_session (db_sessions (co_db c')) = Some (s, u) \<and>
       sess_current_track_id s = snap_track_id snap \<and>
       sess_position_ms s = projected_position snap \<and>
       sess_playing s = lifecycle_is_playing (snap_lifecycle snap) \<and>
       sess_volume s = volume_fraction (snap_volume snap) \<and> sess_shuffle s = snap_shuffle snap \<and>
       sess_repeat_mode s = repeat_as_str (snap_repeat snap))"
proof -
  define c1 where "c1 = project_state E (snap_timeline_origin snap) (snap_updated_at snap) snap c"
  have c1: "co_db c1 = co_db c" "co_last_projection c1 = co_last_projection c" by (simp_all add: c1_def)
  let ?s = "session_of_snapshot snap (projected_position snap) (lifecycle_is_playing (snap_lifecycle snap))"
  obtain s0 db1 b where g: "get_or_create_latest_playback_session E (co_db c) = (Inr s0, db1)"
    and p: "persist_if_changed E (?s s0) (c1\<lparr>co_db := db1\<rparr>) = (Inr b, c')"
    using assms(3,4) by (auto simp: reconcile_from_snapshot_def Let_def c1 simp flip: c1_def
        split: if_splits prod.splits sum.splits bool.splits)
  have l: "last_projection_ok (c1\<lparr>co_db := co_db c\<rparr>)"
    using assms(2) by (simp add: last_projection_ok_def c1)
  note w = persist_latest [OF assms(1) l g _ p, simplified]
  obtain s' u where s': "latest_session (db_sessions (co_db c')) = Some (s', u)"
    "projection_of s' = projection_of (?s s0)"
    using w(1) by blast
  have "sess_current_track_id s' = snap_track_id snap \<and>
      sess_position_ms s' = projected_position snap \<and>
      sess_playing s' = lifecycle_is_playing (snap_lifecycle snap) \<and>
      sess_volume s' = volume_fraction (snap_volume snap) \<and> sess_shuffle s' = snap_shuffle snap \<and>
      sess_repeat_mode s' = repeat_as_str (snap_repeat snap)"
    using s'(2) by (simp add: projection_of_def session_of_snapshot_def with_settings_def)
  with s'(1) w(2) show ?thesis by blast
qed

theorem reconcile_converges_witness:
  "\<exists>c' s u. reconcile_from_snapshot demo_penv demo_snapshot demo_coordinator = (Inr Persisted, c') \<and>
     latest_session (db_sessions (co_db c')) = Some (s, u) \<and> sess_position_ms s = 1500"
proof -
  have ok: "db_ok demo_penv (co_db demo_coordinator)" "last_projection_ok demo_coordinator"
    by (simp_all add: db_ok_def last_projection_ok_def demo_coordinator_def
        new_with_epoch_boot_and_lamport_def)
  have "fst (reconcile_from_snapshot demo_penv demo_snapshot demo_coordinator) = Inr Persisted"
    by (simp add: reconcile_from_snapshot_def Let_def demo_snapshot_def demo_coordinator_def
        new_with_epoch_boot_and_lamport_def get_or_create_latest_playback_session_def
        persist_if_changed_def update_playback_session_def demo_penv_def)
  then obtain c' where r: "reconcile_from_snapshot demo_penv demo_snapshot demo_coordinator = (Inr Persisted, c')"
    by (cases "reconcile_from_snapshot demo_penv demo_snapshot demo_coordinator") auto
  have "projected_position demo_snapshot = 1500" by (simp add: projected_position_def demo_snapshot_def)
  with reconcile_converges [OF ok r] r show ?thesis by auto
qed

section \<open>Peers\<close>

text \<open>
  Once a peer's state is recorded, the same or an older one of that incarnation is stale and a
  later sequence number or a later epoch is not; other peers are not affected.
\<close>

theorem peer_cursor_monotone:
  "is_stale_peer_state p e b sq (record_peer_state p e b sq c) \<and>
   (sq' \<le> sq \<longrightarrow> is_stale_peer_state p e b sq' (record_peer_state p e b sq c)) \<and>
   (sq < sq' \<longrightarrow> \<not> is_stale_peer_state p e b sq' (record_peer_state p e b sq c)) \<and>
   (or0 e < or0 e' \<longrightarrow> \<not> is_stale_peer_state p e' b' sq' (record_peer_state p e b sq c)) \<and>
   (or0 e' < or0 e \<longrightarrow> is_stale_peer_state p e' b' sq' (record_peer_state p e b sq c)) \<and>
   (q \<noteq> p \<longrightarrow> is_stale_peer_state q e' b' sq' (record_peer_state p e b sq c)
                = is_stale_peer_state q e' b' sq' c)"
  by (auto simp: is_stale_peer_state_def record_peer_state_def Let_def)

theorem peer_cursor_monotone_witness:
  "is_stale_peer_state ''p'' (Some 1) None 5 (record_peer_state ''p'' (Some 1) None 7 demo_coordinator) \<and>
   \<not> is_stale_peer_state ''p'' (Some 1) None 8 (record_peer_state ''p'' (Some 1) None 7 demo_coordinator)"
  using peer_cursor_monotone [of "''p''" "Some 1" None 7 demo_coordinator 5]
    peer_cursor_monotone [of "''p''" "Some 1" None 7 demo_coordinator 8]
  by simp

end
