(* ===== verification/Sync_Remote.thy ===== *)
theory Sync_Remote
  imports Projection_Theorems Engine_Events
begin

text \<open>
  The WebSocket side of playback sync, \<^verbatim>\<open>crates/michi-api/src/sync_ws.rs\<close>: the admission of a
  connection, \<open>apply_remote_playback_state\<close>, the filter on what a connection sends, and the handling
  of a hand-off request, with \<open>initiate_handoff\<close> of \<^verbatim>\<open>crates/michi-sync/src/lib.rs\<close>. The host
  state joins the engine's task and the projection coordinator; the track table is a lookup.
\<close>

section \<open>Admission\<close>

datatype ip_addr = V4 u8 u8 u8 u8 | V6 "u16 list"

text \<open>
  The standard library's tests: loopback 127/8, private 10/8, 172.16/12 and 192.168/16, link-local
  169.254/16; for IPv6 loopback \<open>::1\<close>, link-local \<open>fe80::/10\<close> and unique-local \<open>fc00::/7\<close>.
\<close>

fun is_local_or_private_ip :: "ip_addr \<Rightarrow> bool" where
  "is_local_or_private_ip (V4 a b c d) \<longleftrightarrow>
     a = 127 \<or>
     (a = 10 \<or> (a = 172 \<and> 16 \<le> b \<and> b \<le> 31) \<or> (a = 192 \<and> b = 168)) \<or>
     (a = 169 \<and> b = 254) \<or>
     a = 10 \<or> (a = 172 \<and> 16 \<le> b \<and> b \<le> 31) \<or> (a = 192 \<and> b = 168)"
| "is_local_or_private_ip (V6 segs) \<longleftrightarrow>
     segs = [0, 0, 0, 0, 0, 0, 0, 1] \<or>
     (case segs of [] \<Rightarrow> False
      | s # _ \<Rightarrow> s div 64 = 0xFE80 div 64 \<or> s div 512 = 0xFC00 div 512)"

datatype Admission = RejectUnavailable string | RejectForbidden string | Upgrade

definition sync_handler :: "bool \<Rightarrow> bool \<Rightarrow> bool \<Rightarrow> ip_addr option \<Rightarrow> Admission" where
  "sync_handler sync_disabled has_sync_token remote_sync client_ip =
     (if sync_disabled then RejectUnavailable ''sync module is disabled''
      else if \<not> has_sync_token then RejectUnavailable ''sync module runtime unavailable''
      else if \<not> remote_sync then
        (case client_ip of
           Some ip \<Rightarrow>
             (if \<not> is_local_or_private_ip ip
              then RejectForbidden ''Remote sync is disabled on this server'' else Upgrade)
         | None \<Rightarrow> RejectForbidden ''Remote sync is disabled and client IP cannot be verified'')
      else Upgrade)"

section \<open>Applying a remote state\<close>

record UiSyncState =
  ui_track_id :: "uuid option"
  ui_position_ms :: u64
  ui_playing :: bool
  ui_volume :: rat

record 's SyncHost =
  sh_engine :: "'s engine_task"
  sh_coord :: PlaybackProjectionCoordinator
  sh_playback_disabled :: bool
  sh_ui :: "UiSyncState list"

record SyncEnv =
  se_engine :: EngineEnv
  se_uuid :: uuid
  se_db_track :: "uuid \<Rightarrow> string + Track option"
  se_music_paths :: "string list"
  se_utc :: utc

definition state_of_message :: "StateMessage \<Rightarrow> PlaybackState" where
  "state_of_message m =
     \<lparr>ps_track_id = sm_track_id m, ps_position_ms = sm_position_ms m, ps_playing = sm_playing m,
      ps_volume = sm_volume m, ps_updated_at = sm_updated_at m, ps_playlist_id = sm_playlist_id m,
      ps_queue_position = sm_queue_position m, ps_device_id = sm_origin_device_id m,
      ps_shuffle = False, ps_repeat = ''off'', ps_event_id = sm_event_id m,
      ps_sequence = sm_sequence m, ps_epoch = sm_epoch m, ps_boot_id = sm_boot_id m,
      ps_lamport = sm_lamport m\<rparr>"

definition incoming_state :: "StateMessage \<Rightarrow> PlaybackState" where
  "incoming_state m = (state_of_message m)\<lparr>ps_playlist_id := None, ps_queue_position := None\<rparr>"

text \<open>\<open>(volume * 100.0).round().clamp(0.0, 100.0) as u8\<close>\<close>

definition vol_u8 :: "rat \<Rightarrow> u8" where
  "vol_u8 v = word_of_int (max 0 (min 100 \<lfloor>v * 100 + 1 / 2\<rfloor>))"

definition remote_origin_of :: "uuid \<Rightarrow> StateMessage \<Rightarrow> CommandOrigin" where
  "remote_origin_of fresh m =
     RemoteOrigin (case sm_origin_device_id m of Some d \<Rightarrow> d | None \<Rightarrow> ''remote_peer'')
       (case sm_event_id m of Some e \<Rightarrow> e | None \<Rightarrow> fresh)
       (sm_sequence m) (sm_epoch m) (sm_boot_id m) (sm_lamport m)"

text \<open>
  The engine commands that carry out an accepted state, and whether all of them succeeded; a step is
  skipped once one before it failed. The hand-off takes the same steps.
\<close>

definition ok_task :: "unit outcome \<times> 's engine_task \<Rightarrow> bool \<times> 's engine_task" where
  "ok_task r = (is_ok (fst r), snd r)"

definition apply_track ::
  "'s AudioSink \<Rightarrow> SyncEnv \<Rightarrow> CommandOrigin \<Rightarrow> uuid \<Rightarrow> u64 \<Rightarrow> 's engine_task \<Rightarrow> bool \<times> 's engine_task" where
  "apply_track A S origin tid pos task =
     (case get_track (se_engine S) (se_db_track S) (se_music_paths S) tid of
        Inr track \<Rightarrow> ok_task (handle_load_track A (se_engine S) track pos origin task)
      | Inl _ \<Rightarrow> (False, task))"

definition apply_transport ::
  "'s AudioSink \<Rightarrow> SyncEnv \<Rightarrow> CommandOrigin \<Rightarrow> bool \<Rightarrow> bool \<times> 's engine_task \<Rightarrow> bool \<times> 's engine_task" where
  "apply_transport A S origin playing r =
     (if fst r then
        ok_task (if playing then handle_resume A (se_engine S) origin (snd r)
                 else handle_pause A (se_engine S) origin (snd r))
      else r)"

definition apply_volume ::
  "'s AudioSink \<Rightarrow> SyncEnv \<Rightarrow> CommandOrigin \<Rightarrow> rat \<Rightarrow> bool \<times> 's engine_task \<Rightarrow> bool \<times> 's engine_task" where
  "apply_volume A S origin volume r =
     (if fst r then ok_task (handle_set_volume A (se_engine S) (vol_u8 volume) origin (snd r)) else r)"

definition apply_to_engine ::
  "'s AudioSink \<Rightarrow> SyncEnv \<Rightarrow> CommandOrigin \<Rightarrow> StateMessage \<Rightarrow> 's engine_task \<Rightarrow> bool \<times> 's engine_task"
where
  "apply_to_engine A S origin m task =
     apply_volume A S origin (sm_volume m)
       (apply_transport A S origin (sm_playing m)
          (case sm_track_id m of
             Some tid \<Rightarrow> apply_track A S origin tid (sm_position_ms m) task
           | None \<Rightarrow> ok_task (handle_seek A (se_engine S) (sm_position_ms m) origin task)))"

definition commit_remote :: "StateMessage \<Rightarrow> PlaybackProjectionCoordinator \<Rightarrow> PlaybackProjectionCoordinator" where
  "commit_remote m c =
     (let c1 = (case sm_event_id m of Some e \<Rightarrow> record_processed_event e c | None \<Rightarrow> c)
      in case (sm_origin_device_id m, sm_sequence m) of
           (Some origin, Some sq) \<Rightarrow> record_peer_state origin (sm_epoch m) (sm_boot_id m) sq c1
         | _ \<Rightarrow> c1)"

definition observe_message :: "StateMessage \<Rightarrow> PlaybackProjectionCoordinator \<Rightarrow> PlaybackProjectionCoordinator" where
  "observe_message m c = (case sm_lamport m of Some l \<Rightarrow> snd (observe_lamport l c) | None \<Rightarrow> c)"

definition is_duplicate :: "StateMessage \<Rightarrow> PlaybackProjectionCoordinator \<Rightarrow> bool" where
  "is_duplicate m c = (case sm_event_id m of Some e \<Rightarrow> is_event_processed e c | None \<Rightarrow> False)"

definition is_out_of_order :: "StateMessage \<Rightarrow> PlaybackProjectionCoordinator \<Rightarrow> bool" where
  "is_out_of_order m c =
     (case (sm_origin_device_id m, sm_sequence m) of
        (Some origin, Some sq) \<Rightarrow> is_stale_peer_state origin (sm_epoch m) (sm_boot_id m) sq c
      | _ \<Rightarrow> False)"

definition apply_remote_playback_state ::
  "'s AudioSink \<Rightarrow> SyncEnv \<Rightarrow> StateMessage \<Rightarrow> 's SyncHost \<Rightarrow> bool \<times> 's SyncHost" where
  "apply_remote_playback_state A S m h =
     (let sid = co_server_id (sh_coord h) in
      if sh_playback_disabled h then (False, h)
      else if sm_origin_device_id m = Some sid then (False, h)
      else
        (let c = observe_message m (sh_coord h); h1 = h\<lparr>sh_coord := c\<rparr> in
         if is_duplicate m c then (False, h1)
         else if is_out_of_order m c then (False, h1)
         else if has_precedence_over (co_state c) (incoming_state m) then
           (False,
            if ps_device_id (co_state c) = Some sid
            then h1\<lparr>sh_coord := c\<lparr>co_sent := co_sent c @ [sync_message_of_state (co_state c)]\<rparr>\<rparr>
            else h1)
         else
           (case apply_to_engine A S (remote_origin_of (se_uuid S) m) m (sh_engine h1) of
              (True, task) \<Rightarrow>
                (True, h1\<lparr>sh_engine := task, sh_coord := commit_remote m c,
                          sh_ui := sh_ui h1 @ [\<lparr>ui_track_id = sm_track_id m,
                            ui_position_ms = sm_position_ms m, ui_playing = sm_playing m,
                            ui_volume = sm_volume m\<rparr>]\<rparr>)
            | (False, task) \<Rightarrow> (False, h1\<lparr>sh_engine := task\<rparr>))))"

section \<open>What a connection sends\<close>

text \<open>
  The sender keeps the last state it sent and skips a state that the last one has precedence over,
  or that equals it. The result says whether the message is sent.
\<close>

definition sender_filter :: "PlaybackState option \<Rightarrow> SyncMessage \<Rightarrow> bool \<times> PlaybackState option" where
  "sender_filter last_sent msg =
     (case msg of
        StateMsg m \<Rightarrow>
          (let st = state_of_message m in
           case last_sent of
             Some l \<Rightarrow> (if has_precedence_over l st \<or> l = st then (False, last_sent) else (True, Some st))
           | None \<Rightarrow> (True, Some st))
      | _ \<Rightarrow> (True, last_sent))"

fun sender_run :: "PlaybackState option \<Rightarrow> SyncMessage list \<Rightarrow> SyncMessage list" where
  "sender_run l [] = []"
| "sender_run l (m # ms) =
     (case sender_filter l m of (b, l') \<Rightarrow> if b then m # sender_run l' ms else sender_run l' ms)"

section \<open>Hand-off\<close>

definition initiate_handoff :: "utc \<Rightarrow> ProjectionDb \<Rightarrow> string + SessionData" where
  "initiate_handoff now db =
     (case latest_session (db_sessions db) of
        None \<Rightarrow> Inr \<lparr>sd_track_id = None, sd_position_ms = 0, sd_playing = False, sd_volume = 4 / 5,
                     sd_playlist_id = None, sd_queue_position = None, sd_transferred_at = now\<rparr>
      | Some (s, _) \<Rightarrow>
          (if 2 ^ 63 \<le> unat (sess_position_ms s) then Inl ''negative playback position''
           else Inr \<lparr>sd_track_id = sess_current_track_id s, sd_position_ms = sess_position_ms s,
                     sd_playing = sess_playing s, sd_volume = sess_volume s, sd_playlist_id = None,
                     sd_queue_position = None, sd_transferred_at = now\<rparr>))"

definition abs_diff :: "u64 \<Rightarrow> u64 \<Rightarrow> int" where
  "abs_diff a b = \<bar>sint (ucast a :: 64 word) - sint (ucast b :: 64 word)\<bar>"

definition snapshot_matches :: "SessionData \<Rightarrow> EngineSnapshot \<Rightarrow> bool" where
  "snapshot_matches s snap \<longleftrightarrow>
     snap_track_id snap = sd_track_id s \<and>
     (if sd_track_id s = None then \<not> lifecycle_is_playing (snap_lifecycle snap)
      else lifecycle_is_playing (snap_lifecycle snap) = sd_playing s) \<and>
     \<bar>rat_of_nat (unat (snap_volume snap)) / 100 - sd_volume s\<bar> \<le> 1 / 20 \<and>
     (if sd_track_id s = None then True
      else if sd_playing s then abs_diff (snap_position_ms snap) (sd_position_ms s) \<le> 3000
      else abs_diff (snap_position_ms snap) (sd_position_ms s) \<le> 1000)"

definition takeover ::
  "'s AudioSink \<Rightarrow> SyncEnv \<Rightarrow> SessionData \<Rightarrow> 's engine_task \<Rightarrow> bool \<times> 's engine_task" where
  "takeover A S s task =
     (let r1 = (case sd_track_id s of
                  Some tid \<Rightarrow>
                    apply_transport A S LocalOrigin (sd_playing s)
                      (apply_track A S LocalOrigin tid (sd_position_ms s) task)
                | None \<Rightarrow> ok_task (handle_stop A (se_engine S) LocalOrigin task));
          r2 = apply_volume A S LocalOrigin (sd_volume s) r1
      in if fst r2 then
           (case handle_snapshot A (se_engine S) (snd r2) of
              Inr snap \<Rightarrow> (snapshot_matches s snap, snd r2)
            | Inl _ \<Rightarrow> (False, snd r2))
         else r2)"

definition handle_handoff_request ::
  "'s AudioSink \<Rightarrow> SyncEnv \<Rightarrow> 's SyncHost \<Rightarrow> 's SyncHost" where
  "handle_handoff_request A S h =
     (if sh_playback_disabled h then h
      else
        (case initiate_handoff (se_utc S) (co_db (sh_coord h)) of
           Inl _ \<Rightarrow> h
         | Inr session \<Rightarrow>
             (case takeover A S session (sh_engine h) of
                (True, task) \<Rightarrow>
                  h\<lparr>sh_engine := task,
                    sh_coord := (sh_coord h)\<lparr>co_sent := co_sent (sh_coord h) @ [HandoffAccept session]\<rparr>\<rparr>
              | (False, task) \<Rightarrow> h\<lparr>sh_engine := task\<rparr>)))"

text \<open>The receive loop's dispatch on a decoded message.\<close>

definition receive_message ::
  "'s AudioSink \<Rightarrow> SyncEnv \<Rightarrow> SyncMessage \<Rightarrow> 's SyncHost \<Rightarrow> 's SyncHost" where
  "receive_message A S msg h =
     (case msg of
        StateMsg m \<Rightarrow> snd (apply_remote_playback_state A S m h)
      | HandoffRequest _ _ \<Rightarrow> handle_handoff_request A S h
      | _ \<Rightarrow> h)"

end
