(* ===== verification/Sync_Upload.thy ===== *)
theory Sync_Upload
  imports Core_Model
begin

text \<open>
  Chunked uploads: \<open>SyncManager\<close> of \<^verbatim>\<open>crates/michi-sync/src/lib.rs\<close>. The state joins the tables
  \<open>sync_uploads\<close>, \<open>sync_upload_chunks\<close> and \<open>synced_files\<close>, the files of the upload directory, the
  in-memory session cache and the running lease heartbeats. SHA-256 is a parameter. Finalization is
  a sequence of atomic statements: what other tasks do at each of its await points, clock readings,
  fresh tokens and the failure of a statement are arguments, so the theorems about it hold under
  every interleaving.
\<close>

section \<open>Data\<close>

datatype UploadStatus = StUploading | StFinalizing | StCompleted | StFailed | StCancelled

fun status_as_db_str :: "UploadStatus \<Rightarrow> string" where
  "status_as_db_str StUploading = ''uploading''"
| "status_as_db_str StFinalizing = ''finalizing''"
| "status_as_db_str StCompleted = ''completed''"
| "status_as_db_str StFailed = ''failed''"
| "status_as_db_str StCancelled = ''cancelled''"

definition status_from_db :: "string \<Rightarrow> UploadStatus option" where
  "status_from_db s =
     (if s = ''uploading'' then Some StUploading
      else if s = ''finalizing'' then Some StFinalizing
      else if s = ''completed'' then Some StCompleted
      else if s = ''failed'' then Some StFailed
      else if s = ''cancelled'' then Some StCancelled
      else None)"

datatype UploadFailureClass = Recoverable | Terminal

fun class_as_db_str :: "UploadFailureClass \<Rightarrow> string" where
  "class_as_db_str Recoverable = ''recoverable''"
| "class_as_db_str Terminal = ''terminal''"

definition class_from_db :: "string \<Rightarrow> UploadFailureClass option" where
  "class_from_db s =
     (if s = ''recoverable'' then Some Recoverable
      else if s = ''terminal'' then Some Terminal else None)"

datatype UploadFailureCode =
    FcHashMismatch | FcSizeMismatch | FcMissingChunk | FcArtifactMissing
  | FcInvalidPersistedState | FcIoTemporary | FcDatabaseTemporary

fun code_as_db_str :: "UploadFailureCode \<Rightarrow> string" where
  "code_as_db_str FcHashMismatch = ''hash_mismatch''"
| "code_as_db_str FcSizeMismatch = ''size_mismatch''"
| "code_as_db_str FcMissingChunk = ''missing_chunk''"
| "code_as_db_str FcArtifactMissing = ''artifact_missing''"
| "code_as_db_str FcInvalidPersistedState = ''invalid_persisted_state''"
| "code_as_db_str FcIoTemporary = ''io_temporary''"
| "code_as_db_str FcDatabaseTemporary = ''database_temporary''"

definition code_from_db :: "string \<Rightarrow> UploadFailureCode option" where
  "code_from_db s =
     (if s = ''hash_mismatch'' \<or> s = ''HASH_MISMATCH'' then Some FcHashMismatch
      else if s = ''size_mismatch'' \<or> s = ''SIZE_MISMATCH'' then Some FcSizeMismatch
      else if s = ''missing_chunk'' \<or> s = ''MISSING_CHUNK'' then Some FcMissingChunk
      else if s = ''artifact_missing'' \<or> s = ''ARTIFACT_MISSING'' then Some FcArtifactMissing
      else if s = ''invalid_persisted_state'' \<or> s = ''INVALID_PERSISTED_STATE''
      then Some FcInvalidPersistedState
      else if s = ''io_temporary'' \<or> s = ''IO_TEMPORARY'' then Some FcIoTemporary
      else if s = ''database_temporary'' \<or> s = ''DATABASE_TEMPORARY'' then Some FcDatabaseTemporary
      else None)"

interpretation status_codec: text_codec status_as_db_str status_from_db
proof
  fix x show "status_from_db (status_as_db_str x) = Some x"
    by (cases x) (simp_all add: status_from_db_def)
qed

interpretation class_codec: text_codec class_as_db_str class_from_db
proof
  fix x show "class_from_db (class_as_db_str x) = Some x"
    by (cases x) (simp_all add: class_from_db_def)
qed

interpretation code_codec: text_codec code_as_db_str code_from_db
proof
  fix x show "code_from_db (code_as_db_str x) = Some x"
    by (cases x) (simp_all add: code_from_db_def)
qed

datatype SyncError =
    FileNotFound string
  | SessionNotFound uuid
  | FinalizationOwnershipLost uuid
  | FinalizationLeaseExpired uuid
  | FinalizationLeaseActive uuid "string option" "utc option"
  | TerminalUploadFailure uuid UploadFailureCode
  | RecoverableUploadFailure uuid UploadFailureCode
  | ChunkConflict nat string
  | InvalidChunkParameter string
  | UploadAlreadyCompleted uuid
  | UploadCancelled uuid
  | HashMismatch string string
  | UploadFailed string
  | InvalidPersistedState string
  | SyncDatabaseError string
  | SyncIoError string
  | SyncPanicked
    \<comment> \<open>not an error value of the source: the task panicked (\<open>unwrap\<close>, division by zero)\<close>

text \<open>A timestamp column: RFC 3339 text, or text that does not parse.\<close>

datatype rfc3339 = Rfc utc | NotRfc string

record UploadInit =
  ui_filename :: string
  ui_original_path :: string
  ui_file_size :: int
  ui_expected_hash :: string
  ui_uploaded_by :: string

record UploadChunk =
  ch_file_id :: uuid
  ch_chunk_index :: nat
  ch_total_chunks :: nat
  ch_data :: "u8 list"
  ch_chunk_hash :: string

record UploadProgress =
  up_file_id :: uuid
  up_uploaded_chunks :: nat
  up_total_chunks :: nat
  up_percentage :: rat
  up_status :: UploadStatus
  up_completed :: bool
  up_error :: "string option"

record SyncRuntimeConfig =
  rc_chunk_size :: nat
  rc_finalize_lease_duration :: int
  rc_upload_dir :: string
  rc_process_epoch :: uuid

record UploadMeta =
  um_filename :: string
  um_original_path :: string
  um_file_size :: int
  um_expected_hash :: string
  um_uploaded_by :: string
  um_total_chunks :: nat
  um_chunk_size :: nat
  um_status :: UploadStatus
  um_finalize_token :: "string option"
  um_finalize_owner_epoch :: "string option"
  um_finalize_started_at :: "rfc3339 option"
  um_finalize_attempts :: int
  um_finalize_lease_until :: "rfc3339 option"
  um_failure_class :: "UploadFailureClass option"
  um_failure_code :: "string option"
  um_last_error :: "string option"
  um_received_chunks :: "nat set"

record SyncUploadRow =
  ur_filename :: string
  ur_original_path :: string
  ur_file_size :: int
  ur_expected_hash :: string
  ur_uploaded_by :: string
  ur_total_chunks :: nat
  ur_chunk_size :: nat
  ur_status :: string
  ur_finalize_token :: "string option"
  ur_finalize_owner_epoch :: "string option"
  ur_finalize_started_at :: "rfc3339 option"
  ur_finalize_attempts :: int
  ur_finalize_lease_until :: "rfc3339 option"
  ur_failure_class :: "string option"
  ur_failure_code :: "string option"
  ur_last_error :: "string option"

record SyncedFile =
  sf_id :: uuid
  sf_filename :: string
  sf_original_path :: string
  sf_server_path :: string
  sf_file_hash :: string
  sf_file_size :: int
  sf_uploaded_by :: string
  sf_checksum_verified :: bool

record UploadState =
  us_rows :: "uuid \<rightharpoonup> SyncUploadRow"
  us_chunks :: "((uuid \<times> nat) \<times> string \<times> nat) list"
  us_synced :: "SyncedFile list"
  us_files :: "string \<rightharpoonup> u8 list"
    \<comment> \<open>file name inside the upload directory to content\<close>
  us_mem :: "uuid \<rightharpoonup> UploadMeta"
  us_heartbeats :: "(uuid \<times> string) list"
    \<comment> \<open>running lease heartbeats, by upload and token\<close>

type_synonym 'a step = "UploadState \<Rightarrow> (SyncError + 'a) \<times> UploadState"

definition then_do :: "(SyncError + 'a) \<times> UploadState \<Rightarrow> ('a \<Rightarrow> 'b step) \<Rightarrow> (SyncError + 'b) \<times> UploadState" where
  "then_do r f = (case r of (Inl e, st) \<Rightarrow> (Inl e, st) | (Inr x, st) \<Rightarrow> f x st)"

lemma then_do_simps [simp]:
  "then_do (Inl e, st) f = (Inl e, st)" "then_do (Inr x, st) f = f x st"
  by (simp_all add: then_do_def)

definition upd_mem :: "uuid \<Rightarrow> (UploadMeta \<Rightarrow> UploadMeta) \<Rightarrow> UploadState \<Rightarrow> UploadState" where
  "upd_mem i f st =
     (case us_mem st i of
        Some m \<Rightarrow> st\<lparr>us_mem := (us_mem st)(i \<mapsto> f m)\<rparr>
      | None \<Rightarrow> st)"

definition is_ascii_hexdigit :: "char \<Rightarrow> bool" where
  "is_ascii_hexdigit c =
     (let n = of_char c :: nat in
      48 \<le> n \<and> n \<le> 57 \<or> 97 \<le> n \<and> n \<le> 102 \<or> 65 \<le> n \<and> n \<le> 70)"

definition is_valid_sha256_hex :: "string \<Rightarrow> bool" where
  "is_valid_sha256_hex h \<longleftrightarrow> length h = 64 \<and> list_all is_ascii_hexdigit h"

definition div_ceil :: "nat \<Rightarrow> nat \<Rightarrow> nat" where
  "div_ceil a b = (if a mod b = 0 then a div b else a div b + 1)"

section \<open>Starting an upload\<close>

definition new_row :: "SyncRuntimeConfig \<Rightarrow> UploadInit \<Rightarrow> nat \<Rightarrow> SyncUploadRow" where
  "new_row cfg u n =
     \<lparr>ur_filename = ui_filename u, ur_original_path = ui_original_path u,
      ur_file_size = ui_file_size u, ur_expected_hash = ui_expected_hash u,
      ur_uploaded_by = ui_uploaded_by u, ur_total_chunks = n,
      ur_chunk_size = rc_chunk_size cfg, ur_status = ''uploading'', ur_finalize_token = None,
      ur_finalize_owner_epoch = None, ur_finalize_started_at = None, ur_finalize_attempts = 0,
      ur_finalize_lease_until = None, ur_failure_class = None, ur_failure_code = None,
      ur_last_error = None\<rparr>"

definition new_meta :: "SyncRuntimeConfig \<Rightarrow> UploadInit \<Rightarrow> nat \<Rightarrow> UploadMeta" where
  "new_meta cfg u n =
     \<lparr>um_filename = ui_filename u, um_original_path = ui_original_path u,
      um_file_size = ui_file_size u, um_expected_hash = ui_expected_hash u,
      um_uploaded_by = ui_uploaded_by u, um_total_chunks = n,
      um_chunk_size = rc_chunk_size cfg, um_status = StUploading, um_finalize_token = None,
      um_finalize_owner_epoch = None, um_finalize_started_at = None, um_finalize_attempts = 0,
      um_finalize_lease_until = None, um_failure_class = None, um_failure_code = None,
      um_last_error = None, um_received_chunks = {}\<rparr>"

definition init_upload :: "SyncRuntimeConfig \<Rightarrow> uuid \<Rightarrow> UploadInit \<Rightarrow> uuid step" where
  "init_upload cfg file_id u st =
     (if ui_file_size u \<le> 0
      then (Inl (InvalidChunkParameter ''file_size must be positive and greater than 0''), st)
      else if \<not> is_valid_sha256_hex (ui_expected_hash u)
      then (Inl (InvalidChunkParameter
                   ''expected_hash must be a 64-character hexadecimal SHA-256 string''), st)
      else if rc_chunk_size cfg = 0 then (Inl SyncPanicked, st)
      else
        (let chunks = div_ceil (nat (ui_file_size u)) (rc_chunk_size cfg) in
         if 2 ^ 32 \<le> chunks
         then (Inl (InvalidChunkParameter
                      ''upload requires more chunks than protocol can represent''), st)
         else
           (Inr file_id,
            st\<lparr>us_rows := (us_rows st)(file_id \<mapsto> new_row cfg u chunks),
               us_mem := (us_mem st)(file_id \<mapsto> new_meta cfg u chunks)\<rparr>)))"

section \<open>Sessions\<close>

definition received_in_db :: "uuid \<Rightarrow> UploadState \<Rightarrow> nat set" where
  "received_in_db i st = set (map (snd \<circ> fst) (filter (\<lambda>c. fst (fst c) = i) (us_chunks st)))"

definition load_session_from_db_internal :: "uuid \<Rightarrow> UploadState \<Rightarrow> SyncError + UploadMeta" where
  "load_session_from_db_internal i st =
     (case us_rows st i of
        None \<Rightarrow> Inl (SessionNotFound i)
      | Some r \<Rightarrow>
          (case status_from_db (ur_status r) of
             None \<Rightarrow> Inl (InvalidPersistedState (''unknown upload status in database: '' @ ur_status r))
           | Some status \<Rightarrow>
               Inr \<lparr>um_filename = ur_filename r, um_original_path = ur_original_path r,
                    um_file_size = ur_file_size r, um_expected_hash = ur_expected_hash r,
                    um_uploaded_by = ur_uploaded_by r, um_total_chunks = ur_total_chunks r,
                    um_chunk_size = ur_chunk_size r, um_status = status,
                    um_finalize_token = ur_finalize_token r,
                    um_finalize_owner_epoch = ur_finalize_owner_epoch r,
                    um_finalize_started_at = ur_finalize_started_at r,
                    um_finalize_attempts = ur_finalize_attempts r,
                    um_finalize_lease_until = ur_finalize_lease_until r,
                    um_failure_class = Option.bind (ur_failure_class r) class_from_db,
                    um_failure_code = ur_failure_code r, um_last_error = ur_last_error r,
                    um_received_chunks = received_in_db i st\<rparr>))"

definition get_or_load_session :: "uuid \<Rightarrow> UploadMeta step" where
  "get_or_load_session i st =
     (case us_mem st i of
        Some m \<Rightarrow> (Inr m, st)
      | None \<Rightarrow>
          (case load_session_from_db_internal i st of
             Inl e \<Rightarrow> (Inl e, st)
           | Inr m \<Rightarrow> (Inr m, st\<lparr>us_mem := (us_mem st)(i \<mapsto> m)\<rparr>)))"

definition reload_session_from_db :: "uuid \<Rightarrow> UploadState \<Rightarrow> UploadState" where
  "reload_session_from_db i st =
     (case load_session_from_db_internal i st of
        Inl _ \<Rightarrow> st
      | Inr m \<Rightarrow> st\<lparr>us_mem := (us_mem st)(i \<mapsto> m)\<rparr>)"

section \<open>Leases\<close>

definition owns_row :: "SyncRuntimeConfig \<Rightarrow> string \<Rightarrow> SyncUploadRow \<Rightarrow> bool" where
  "owns_row cfg token r \<longleftrightarrow>
     ur_status r = ''finalizing'' \<and> ur_finalize_token r = Some token \<and>
     ur_finalize_owner_epoch r = Some (rc_process_epoch cfg)"

definition assert_finalization_owner :: "SyncRuntimeConfig \<Rightarrow> utc \<Rightarrow> uuid \<Rightarrow> string \<Rightarrow> unit step" where
  "assert_finalization_owner cfg now i token st =
     (case us_rows st i of
        None \<Rightarrow> (Inl (SessionNotFound i), st)
      | Some r \<Rightarrow>
          (if \<not> owns_row cfg token r then (Inl (FinalizationOwnershipLost i), st)
           else
             (case ur_finalize_lease_until r of
                Some (Rfc l) \<Rightarrow>
                  (if l \<le> now then (Inl (FinalizationLeaseExpired i), st) else (Inr (), st))
              | _ \<Rightarrow> (Inr (), st))))"

definition renew_finalization_lease :: "SyncRuntimeConfig \<Rightarrow> utc \<Rightarrow> uuid \<Rightarrow> string \<Rightarrow> unit step" where
  "renew_finalization_lease cfg now i token st =
     (let lease = Some (Rfc (now + rc_finalize_lease_duration cfg)) in
      case us_rows st i of
        Some r \<Rightarrow>
          (if owns_row cfg token r
           then (Inr (), upd_mem i (\<lambda>m. m\<lparr>um_finalize_lease_until := lease\<rparr>)
                   (st\<lparr>us_rows := (us_rows st)(i \<mapsto> r\<lparr>ur_finalize_lease_until := lease\<rparr>)\<rparr>))
           else (Inl (FinalizationOwnershipLost i), st))
      | None \<Rightarrow> (Inl (FinalizationOwnershipLost i), st))"

definition mark_upload_failed_as_owner ::
  "SyncRuntimeConfig \<Rightarrow> uuid \<Rightarrow> string \<Rightarrow> UploadFailureClass \<Rightarrow> string \<Rightarrow> string \<Rightarrow> unit step" where
  "mark_upload_failed_as_owner cfg i token fclass fcode reason st =
     (case us_rows st i of
        Some r \<Rightarrow>
          (if owns_row cfg token r then
             (Inr (), upd_mem i (\<lambda>m. m\<lparr>um_status := StFailed, um_failure_class := Some fclass,
                 um_failure_code := Some fcode, um_last_error := Some reason,
                 um_finalize_token := None, um_finalize_owner_epoch := None,
                 um_finalize_lease_until := None\<rparr>)
               (st\<lparr>us_rows := (us_rows st)(i \<mapsto> r\<lparr>ur_status := ''failed'',
                  ur_failure_class := Some (class_as_db_str fclass), ur_failure_code := Some fcode,
                  ur_last_error := Some reason, ur_finalize_token := None,
                  ur_finalize_owner_epoch := None, ur_finalize_lease_until := None\<rparr>)\<rparr>))
           else (Inl (FinalizationOwnershipLost i), reload_session_from_db i st))
      | None \<Rightarrow> (Inl (FinalizationOwnershipLost i), reload_session_from_db i st))"

definition mark_upload_failed_unowned ::
  "uuid \<Rightarrow> UploadFailureClass \<Rightarrow> string \<Rightarrow> string \<Rightarrow> unit step" where
  "mark_upload_failed_unowned i fclass fcode reason st =
     (case us_rows st i of
        Some r \<Rightarrow>
          (if ur_status r = ''uploading'' \<or> ur_status r = ''failed'' then
             (Inr (), upd_mem i (\<lambda>m. m\<lparr>um_status := StFailed, um_failure_class := Some fclass,
                 um_failure_code := Some fcode, um_last_error := Some reason\<rparr>)
               (st\<lparr>us_rows := (us_rows st)(i \<mapsto> r\<lparr>ur_status := ''failed'',
                  ur_failure_class := Some (class_as_db_str fclass), ur_failure_code := Some fcode,
                  ur_last_error := Some reason\<rparr>)\<rparr>))
           else (Inr (), st))
      | None \<Rightarrow> (Inr (), st))"

definition mark_upload_completed :: "SyncRuntimeConfig \<Rightarrow> uuid \<Rightarrow> string \<Rightarrow> unit step" where
  "mark_upload_completed cfg i token st =
     (case us_rows st i of
        Some r \<Rightarrow>
          (if owns_row cfg token r then
             (Inr (), upd_mem i (\<lambda>m. m\<lparr>um_status := StCompleted, um_finalize_token := None,
                 um_finalize_owner_epoch := None, um_finalize_started_at := None,
                 um_finalize_lease_until := None, um_failure_class := None,
                 um_failure_code := None, um_last_error := None\<rparr>)
               (st\<lparr>us_rows := (us_rows st)(i \<mapsto> r\<lparr>ur_status := ''completed'',
                  ur_finalize_token := None, ur_finalize_owner_epoch := None,
                  ur_finalize_started_at := None, ur_finalize_lease_until := None,
                  ur_failure_class := None, ur_failure_code := None, ur_last_error := None\<rparr>)\<rparr>))
           else (Inl (FinalizationOwnershipLost i), reload_session_from_db i st))
      | None \<Rightarrow> (Inl (FinalizationOwnershipLost i), reload_session_from_db i st))"

section \<open>Registration\<close>

definition register_uploaded_file :: "SyncedFile \<Rightarrow> UploadState \<Rightarrow> UploadState" where
  "register_uploaded_file f st =
     (if list_ex (\<lambda>g. sf_file_hash g = sf_file_hash f \<and> sf_server_path g = sf_server_path f) (us_synced st)
      then st else st\<lparr>us_synced := us_synced st @ [f]\<rparr>)"

definition check_file_exists :: "string \<Rightarrow> UploadState \<Rightarrow> SyncedFile option" where
  "check_file_exists h st =
     List.find (\<lambda>f. sf_file_hash f = h \<and> sf_checksum_verified f) (us_synced st)"

end
