(* ===== verification/Sync_Finalize.thy ===== *)
theory Sync_Finalize
  imports Sync_Upload Rust_Strings
begin

text \<open>
  Finalization, chunk upload and crash recovery of \<open>SyncManager\<close>
  (\<^verbatim>\<open>crates/michi-sync/src/lib.rs\<close>). Every statement that awaits the database or the disk is a
  numbered point: before it other tasks may change the state arbitrarily (\<open>fe_other\<close>, the running
  heartbeat among them), it reads the clock, and it may fail. The point numbers only name the
  statements of one call, in program order.
\<close>

record FinalizeEnv =
  fe_now :: "nat \<Rightarrow> utc"
  fe_uuid :: "nat \<Rightarrow> uuid"
  fe_fail :: "nat \<Rightarrow> SyncError option"
  fe_other :: "nat \<Rightarrow> UploadState \<Rightarrow> UploadState"
  fe_heartbeat :: "SyncError option"
    \<comment> \<open>the error the heartbeat task ended with, if it ended before it was cancelled\<close>

definition at_point :: "FinalizeEnv \<Rightarrow> nat \<Rightarrow> 'a step \<Rightarrow> 'a step" where
  "at_point env n f st =
     (let st = fe_other env n st in
      case fe_fail env n of Some e \<Rightarrow> (Inl e, st) | None \<Rightarrow> f st)"

definition part_name :: "uuid \<Rightarrow> string" where
  "part_name i = i @ ''.part''"

definition server_path_of :: "SyncRuntimeConfig \<Rightarrow> uuid \<Rightarrow> string" where
  "server_path_of cfg i = rc_upload_dir cfg @ ''/'' @ i"

definition show_int :: "int \<Rightarrow> string" where
  "show_int k = (if k < 0 then ''-'' @ show_nat (nat (- k)) else show_nat (nat k))"

text \<open>\<open>{path:?}\<close> for a path with no character that needs an escape.\<close>

definition quoted :: "string \<Rightarrow> string" where
  "quoted s = [CHR 0x22] @ s @ [CHR 0x22]"

section \<open>Acquiring the finalization lease\<close>

definition lease_from :: "SyncRuntimeConfig \<Rightarrow> utc \<Rightarrow> rfc3339" where
  "lease_from cfg now = Rfc (now + rc_finalize_lease_duration cfg)"

definition may_acquire :: "SyncUploadRow \<Rightarrow> bool" where
  "may_acquire r \<longleftrightarrow>
     ur_status r = ''uploading'' \<or>
     ur_status r = ''failed'' \<and>
       (ur_failure_class r = None \<or> ur_failure_class r = Some ''recoverable'')"

definition claim_row :: "SyncRuntimeConfig \<Rightarrow> utc \<Rightarrow> string \<Rightarrow> SyncUploadRow \<Rightarrow> SyncUploadRow" where
  "claim_row cfg now token r =
     r\<lparr>ur_finalize_token := Some token,
       ur_finalize_owner_epoch := Some (rc_process_epoch cfg),
       ur_finalize_started_at := Some (Rfc now),
       ur_finalize_lease_until := Some (lease_from cfg now),
       ur_finalize_attempts := ur_finalize_attempts r + 1\<rparr>"

text \<open>The first \<open>UPDATE\<close>: whether it changed the row.\<close>

definition try_acquire :: "SyncRuntimeConfig \<Rightarrow> utc \<Rightarrow> string \<Rightarrow> uuid \<Rightarrow> bool step" where
  "try_acquire cfg now token i st =
     (case us_rows st i of
        Some r \<Rightarrow>
          (if may_acquire r
           then (Inr True, st\<lparr>us_rows := (us_rows st)(i \<mapsto>
                   (claim_row cfg now token r)\<lparr>ur_status := ''finalizing'', ur_last_error := None\<rparr>)\<rparr>)
           else (Inr False, st))
      | None \<Rightarrow> (Inr False, st))"

definition is_from_previous_process :: "SyncRuntimeConfig \<Rightarrow> SyncUploadRow \<Rightarrow> bool" where
  "is_from_previous_process cfg r \<longleftrightarrow> ur_finalize_owner_epoch r \<noteq> Some (rc_process_epoch cfg)"

definition is_stale :: "SyncRuntimeConfig \<Rightarrow> utc \<Rightarrow> SyncUploadRow \<Rightarrow> bool" where
  "is_stale cfg now r \<longleftrightarrow>
     is_from_previous_process cfg r \<or>
     (case ur_finalize_lease_until r of
        Some (Rfc l) \<Rightarrow> l \<le> now
      | Some (NotRfc _) \<Rightarrow> True
      | None \<Rightarrow>
          (case ur_finalize_started_at r of
             Some (Rfc s) \<Rightarrow> rc_finalize_lease_duration cfg \<le> max 0 (now - s)
           | Some (NotRfc _) \<Rightarrow> True
           | None \<Rightarrow> True))"

text \<open>The takeover \<open>UPDATE\<close>: a compare-and-swap against the row read before.\<close>

definition takeover_cas ::
  "SyncRuntimeConfig \<Rightarrow> utc \<Rightarrow> string \<Rightarrow> uuid \<Rightarrow> SyncUploadRow \<Rightarrow> bool step" where
  "takeover_cas cfg now token i seen st =
     (case us_rows st i of
        Some r \<Rightarrow>
          (if ur_status r = ''finalizing'' \<and>
              (if is_from_previous_process cfg seen then is_from_previous_process cfg r
               else ur_finalize_token r = ur_finalize_token seen \<and>
                    ur_finalize_lease_until r = ur_finalize_lease_until seen)
           then (Inr True, st\<lparr>us_rows := (us_rows st)(i \<mapsto> claim_row cfg now token r)\<rparr>)
           else (Inr False, st))
      | None \<Rightarrow> (Inr False, st))"

definition note_completed :: "uuid \<Rightarrow> UploadState \<Rightarrow> UploadState" where
  "note_completed i = upd_mem i (\<lambda>m. m\<lparr>um_status := StCompleted\<rparr>)"

text \<open>
  Up to \<open>k\<close> polls of the status column while another worker holds the lease; \<open>True\<close> when one of
  them saw \<open>completed\<close>.
\<close>

fun poll_completed :: "FinalizeEnv \<Rightarrow> uuid \<Rightarrow> nat \<Rightarrow> nat \<Rightarrow> bool step" where
  "poll_completed env i n 0 st = (Inr False, st)"
| "poll_completed env i n (Suc k) st =
     then_do (at_point env n (\<lambda>st. (Inr (map_option ur_status (us_rows st i)), st)) st)
       (\<lambda>s st. if s = Some ''completed'' then (Inr True, note_completed i st)
               else poll_completed env i (n + 1) k st)"

definition lease_dt :: "SyncUploadRow \<Rightarrow> utc option" where
  "lease_dt r = (case ur_finalize_lease_until r of Some (Rfc l) \<Rightarrow> Some l | _ \<Rightarrow> None)"

text \<open>
  What the code does when the first \<open>UPDATE\<close> changed nothing. \<open>None\<close> is the early \<open>Ok\<close>: the upload
  was completed by someone else; \<open>Some token\<close> is a successful takeover.
\<close>

definition acquire_contended :: "SyncRuntimeConfig \<Rightarrow> FinalizeEnv \<Rightarrow> uuid \<Rightarrow> string option step" where
  "acquire_contended cfg env i st =
     then_do (at_point env 3 (\<lambda>st. (Inr (us_rows st i), st)) st) (\<lambda>row st.
       case row of
         None \<Rightarrow> (Inl (SessionNotFound i), st)
       | Some r \<Rightarrow>
           (case status_from_db (ur_status r) of
              None \<Rightarrow> (Inl (InvalidPersistedState (''unknown upload status in database: '' @ ur_status r)), st)
            | Some StCompleted \<Rightarrow> (Inr None, note_completed i st)
            | Some StFinalizing \<Rightarrow>
                (if is_stale cfg (fe_now env 3) r then
                   then_do (at_point env 24 (takeover_cas cfg (fe_now env 24) (fe_uuid env 24) i r) st)
                     (\<lambda>won st. if won then (Inr (Some (fe_uuid env 24)), st)
                               else (Inl (FinalizationOwnershipLost i), st))
                 else
                   then_do (poll_completed env i 4 20 st)
                     (\<lambda>finished st. if finished then (Inr None, st)
                       else (Inl (FinalizationLeaseActive i (ur_finalize_owner_epoch r) (lease_dt r)), st)))
            | Some s \<Rightarrow>
                (if s = StFailed \<and> ur_failure_class r = Some ''terminal''
                 then (Inl (TerminalUploadFailure i FcInvalidPersistedState), st)
                 else (Inl (UploadFailed (''cannot finalize upload in status '' @ ur_status r)), st))))"

definition acquire_finalization :: "SyncRuntimeConfig \<Rightarrow> FinalizeEnv \<Rightarrow> uuid \<Rightarrow> string option step" where
  "acquire_finalization cfg env i st =
     then_do (at_point env 2 (try_acquire cfg (fe_now env 1) (fe_uuid env 1) i) st)
       (\<lambda>won st. if won then (Inr (Some (fe_uuid env 1)), st) else acquire_contended cfg env i st)"

section \<open>Verifying and promoting the file\<close>

definition spawn_heartbeat :: "uuid \<Rightarrow> string \<Rightarrow> UploadState \<Rightarrow> UploadState" where
  "spawn_heartbeat i token st = st\<lparr>us_heartbeats := (i, token) # us_heartbeats st\<rparr>"

definition stop_heartbeat :: "uuid \<Rightarrow> string \<Rightarrow> UploadState \<Rightarrow> UploadState" where
  "stop_heartbeat i token st = st\<lparr>us_heartbeats := remove1 (i, token) (us_heartbeats st)\<rparr>"

definition note_acquired :: "SyncRuntimeConfig \<Rightarrow> FinalizeEnv \<Rightarrow> uuid \<Rightarrow> string \<Rightarrow> UploadState \<Rightarrow> UploadState" where
  "note_acquired cfg env i token =
     upd_mem i (\<lambda>m. m\<lparr>um_status := StFinalizing, um_finalize_token := Some token,
       um_finalize_owner_epoch := Some (rc_process_epoch cfg),
       um_finalize_lease_until := Some (lease_from cfg (fe_now env 1))\<rparr>)"

text \<open>Stop the heartbeat, record a terminal failure (its own errors are ignored), return the error.\<close>

definition fail_terminal ::
  "SyncRuntimeConfig \<Rightarrow> FinalizeEnv \<Rightarrow> uuid \<Rightarrow> string \<Rightarrow> UploadFailureCode \<Rightarrow> string \<Rightarrow> SyncError \<Rightarrow> 'a step" where
  "fail_terminal cfg env i token code msg e st =
     (Inl e, snd (at_point env 36 (mark_upload_failed_as_owner cfg i token Terminal (code_as_db_str code) msg)
        (stop_heartbeat i token st)))"

text \<open>A step whose error stops the heartbeat before it is returned.\<close>

definition or_stop :: "uuid \<Rightarrow> string \<Rightarrow> (SyncError + 'a) \<times> UploadState \<Rightarrow> (SyncError + 'a) \<times> UploadState" where
  "or_stop i token r =
     (case r of (Inl e, st) \<Rightarrow> (Inl e, stop_heartbeat i token st) | (Inr x, st) \<Rightarrow> (Inr x, st))"

definition missing_chunk :: "UploadMeta \<Rightarrow> nat set \<Rightarrow> nat option" where
  "missing_chunk m received = List.find (\<lambda>k. k \<notin> received) [0..<um_total_chunks m]"

text \<open>\<open>metadata(path).await.is_ok()\<close>: an I/O error counts as absence.\<close>

definition metadata_ok :: "FinalizeEnv \<Rightarrow> nat \<Rightarrow> string \<Rightarrow> UploadState \<Rightarrow> bool" where
  "metadata_ok env n name st \<longleftrightarrow> fe_fail env n = None \<and> us_files st name \<noteq> None"

definition open_target :: "FinalizeEnv \<Rightarrow> uuid \<Rightarrow> UploadState \<Rightarrow> string option \<times> UploadState" where
  "open_target env i st =
     (let st = fe_other env 27 st in
      if metadata_ok env 27 (part_name i) st then (Some (part_name i), st)
      else
        (let st = fe_other env 28 st in
         if metadata_ok env 28 i st then (Some i, st) else (None, st)))"

definition not_found :: "string \<Rightarrow> SyncError" where
  "not_found name = SyncIoError (''No such file or directory: '' @ name)"

definition read_file :: "string \<Rightarrow> u8 list step" where
  "read_file name st =
     (case us_files st name of Some d \<Rightarrow> (Inr d, st) | None \<Rightarrow> (Inl (not_found name), st))"

definition rename_file :: "string \<Rightarrow> string \<Rightarrow> unit step" where
  "rename_file from to st =
     (case us_files st from of
        Some d \<Rightarrow> (Inr (), st\<lparr>us_files := (us_files st)(from := None, to \<mapsto> d)\<rparr>)
      | None \<Rightarrow> (Inl (not_found from), st))"

definition uploaded_file :: "SyncRuntimeConfig \<Rightarrow> FinalizeEnv \<Rightarrow> uuid \<Rightarrow> UploadMeta \<Rightarrow> SyncedFile" where
  "uploaded_file cfg env i m =
     \<lparr>sf_id = fe_uuid env 34, sf_filename = um_filename m, sf_original_path = um_original_path m,
      sf_server_path = server_path_of cfg i, sf_file_hash = um_expected_hash m,
      sf_file_size = um_file_size m, sf_uploaded_by = um_uploaded_by m,
      sf_checksum_verified = True\<rparr>"

text \<open>The heartbeat is stopped before the completion marker; a lost lease it reports is final.\<close>

definition complete_owned :: "SyncRuntimeConfig \<Rightarrow> FinalizeEnv \<Rightarrow> uuid \<Rightarrow> string \<Rightarrow> unit step" where
  "complete_owned cfg env i token st =
     (let st = stop_heartbeat i token st in
      case fe_heartbeat env of
        Some (FinalizationOwnershipLost x) \<Rightarrow> (Inl (FinalizationOwnershipLost x), st)
      | _ \<Rightarrow> at_point env 35 (mark_upload_completed cfg i token) st)"

text \<open>From the fence before the rename to the completion marker.\<close>

definition promote_and_complete ::
  "SyncRuntimeConfig \<Rightarrow> FinalizeEnv \<Rightarrow> uuid \<Rightarrow> UploadMeta \<Rightarrow> string \<Rightarrow> string \<Rightarrow> unit step" where
  "promote_and_complete cfg env i m token target st =
     then_do (or_stop i token
         (at_point env 31 (assert_finalization_owner cfg (fe_now env 31) i token) st)) (\<lambda>_ st.
     then_do (if target = part_name i
              then or_stop i token (at_point env 32 (rename_file target i) st) else (Inr (), st)) (\<lambda>_ st.
     then_do (or_stop i token
         (at_point env 33 (assert_finalization_owner cfg (fe_now env 33) i token) st)) (\<lambda>_ st.
     then_do (or_stop i token
         (at_point env 34 (\<lambda>st. (Inr (), register_uploaded_file (uploaded_file cfg env i m) st)) st)) (\<lambda>_ st.
     complete_owned cfg env i token st))))"

text \<open>
  The checks on the staged file. The query of its size returns early on an error without stopping
  the heartbeat, and so does the query of the chunks below, as in the source.
\<close>

definition verify_content ::
  "SyncRuntimeConfig \<Rightarrow> (u8 list \<Rightarrow> string) \<Rightarrow> FinalizeEnv \<Rightarrow> uuid \<Rightarrow> UploadMeta \<Rightarrow> string \<Rightarrow> string \<Rightarrow> unit step" where
  "verify_content cfg sha256 env i m token target st =
     then_do (at_point env 29 (read_file target) st) (\<lambda>d st.
     (let actual_size = int (length d) in
      if actual_size \<noteq> um_file_size m then
        fail_terminal cfg env i token FcSizeMismatch
          (''file size mismatch: expected '' @ show_int (um_file_size m) @ '', got '' @ show_int actual_size)
          (TerminalUploadFailure i FcSizeMismatch) st
      else
     then_do (or_stop i token (at_point env 30 (read_file target) st)) (\<lambda>d st.
     (let computed_hash = sha256 d in
      if computed_hash \<noteq> um_expected_hash m then
        fail_terminal cfg env i token FcHashMismatch
          (''hash mismatch: expected '' @ um_expected_hash m @ '', got '' @ computed_hash)
          (HashMismatch (um_expected_hash m) computed_hash) st
      else (Inr (), st)))))"

definition verify_artifact ::
  "SyncRuntimeConfig \<Rightarrow> (u8 list \<Rightarrow> string) \<Rightarrow> FinalizeEnv \<Rightarrow> uuid \<Rightarrow> UploadMeta \<Rightarrow> string \<Rightarrow> string step" where
  "verify_artifact cfg sha256 env i m token st =
     (case open_target env i st of
        (None, st) \<Rightarrow>
          (let msg = ''neither staging file '' @ quoted (server_path_of cfg (part_name i))
                     @ '' nor final file '' @ quoted (server_path_of cfg i) @ '' exists on disk'' in
           fail_terminal cfg env i token FcArtifactMissing msg (FileNotFound msg) st)
      | (Some target, st) \<Rightarrow>
          then_do (verify_content cfg sha256 env i m token target st) (\<lambda>_ st. (Inr target, st)))"

definition verify_file ::
  "SyncRuntimeConfig \<Rightarrow> (u8 list \<Rightarrow> string) \<Rightarrow> FinalizeEnv \<Rightarrow> uuid \<Rightarrow> UploadMeta \<Rightarrow> string \<Rightarrow> string step" where
  "verify_file cfg sha256 env i m token st =
     then_do (at_point env 26 (\<lambda>st. (Inr (received_in_db i st), st)) st) (\<lambda>received st.
     (case missing_chunk m received of
        Some k \<Rightarrow>
          fail_terminal cfg env i token FcMissingChunk
            (''cannot finalize: missing chunk index '' @ show_nat k @ '' in persistent storage'')
            (TerminalUploadFailure i FcMissingChunk) st
      | None \<Rightarrow> verify_artifact cfg sha256 env i m token st))"

definition finalize_owned ::
  "SyncRuntimeConfig \<Rightarrow> (u8 list \<Rightarrow> string) \<Rightarrow> FinalizeEnv \<Rightarrow> uuid \<Rightarrow> UploadMeta \<Rightarrow> string \<Rightarrow> unit step" where
  "finalize_owned cfg sha256 env i m token st =
     (let st = spawn_heartbeat i token (note_acquired cfg env i token (fe_other env 25 st)) in
      then_do (verify_file cfg sha256 env i m token st)
        (\<lambda>target st. promote_and_complete cfg env i m token target st))"

definition verify_and_finalize_upload ::
  "SyncRuntimeConfig \<Rightarrow> (u8 list \<Rightarrow> string) \<Rightarrow> FinalizeEnv \<Rightarrow> uuid \<Rightarrow> unit step" where
  "verify_and_finalize_upload cfg sha256 env i st =
     then_do (at_point env 0 (get_or_load_session i) st) (\<lambda>m st.
       (let st = (if um_status m = StCompleted then fe_other env 1 st else st) in
        if um_status m = StCompleted \<and> metadata_ok env 1 i st then (Inr (), st)
        else if um_status m = StCancelled then (Inl (UploadCancelled i), st)
        else
          then_do (acquire_finalization cfg env i st) (\<lambda>owner st.
            case owner of
              None \<Rightarrow> (Inr (), st)
            | Some token \<Rightarrow> finalize_owned cfg sha256 env i m token st)))"

section \<open>Receiving a chunk\<close>

definition expected_chunk_size :: "UploadMeta \<Rightarrow> nat \<Rightarrow> nat" where
  "expected_chunk_size m k =
     (if k = um_total_chunks m - 1 then
        (let rem = nat (um_file_size m mod 2 ^ 64) mod um_chunk_size m in
         if rem = 0 then um_chunk_size m else rem)
      else um_chunk_size m)"

text \<open>A write at an offset: bytes before it that the file does not have are zero.\<close>

definition write_at :: "nat \<Rightarrow> u8 list \<Rightarrow> u8 list \<Rightarrow> u8 list" where
  "write_at off d f =
     take off f @ replicate (off - length f) 0 @ d @ drop (off + length d) f"

definition write_part :: "string \<Rightarrow> nat \<Rightarrow> u8 list \<Rightarrow> unit step" where
  "write_part name off d st =
     (Inr (), st\<lparr>us_files := (us_files st)(name \<mapsto>
        write_at off d (case us_files st name of Some f \<Rightarrow> f | None \<Rightarrow> []))\<rparr>)"

definition insert_chunk_or_ignore :: "uuid \<Rightarrow> nat \<Rightarrow> string \<Rightarrow> nat \<Rightarrow> unit step" where
  "insert_chunk_or_ignore i k h n st =
     (Inr (), if map_of (us_chunks st) (i, k) \<noteq> None then st
              else st\<lparr>us_chunks := us_chunks st @ [((i, k), h, n)]\<rparr>)"

definition all_received :: "UploadMeta \<Rightarrow> bool" where
  "all_received m \<longleftrightarrow>
     0 < um_total_chunks m \<and> list_all (\<lambda>k. k \<in> um_received_chunks m) [0..<um_total_chunks m]"

definition progress_of :: "uuid \<Rightarrow> nat \<Rightarrow> nat \<Rightarrow> UploadMeta \<Rightarrow> UploadProgress" where
  "progress_of i k n m =
     \<lparr>up_file_id = i, up_uploaded_chunks = k, up_total_chunks = n,
      up_percentage = of_nat k / of_nat n * 100, up_status = um_status m,
      up_completed = (um_status m = StCompleted), up_error = um_last_error m\<rparr>"

definition meta_progress :: "uuid \<Rightarrow> UploadMeta \<Rightarrow> UploadProgress" where
  "meta_progress i m = progress_of i (card (um_received_chunks m)) (max (um_total_chunks m) 1) m"

text \<open>The checks on the chunk alone, and those against the session.\<close>

definition validate_chunk :: "(u8 list \<Rightarrow> string) \<Rightarrow> UploadChunk \<Rightarrow> SyncError + unit" where
  "validate_chunk sha256 c =
     (if ch_data c = [] then Inl (InvalidChunkParameter ''chunk data cannot be empty'')
      else if ch_total_chunks c = 0
      then Inl (InvalidChunkParameter ''total_chunks must be greater than 0'')
      else if \<not> is_valid_sha256_hex (ch_chunk_hash c)
      then Inl (InvalidChunkParameter ''chunk_hash must be a 64-character hexadecimal SHA-256 string'')
      else if sha256 (ch_data c) \<noteq> ch_chunk_hash c
      then Inl (HashMismatch (ch_chunk_hash c) (sha256 (ch_data c)))
      else Inr ())"

definition validate_against_session :: "UploadMeta \<Rightarrow> UploadChunk \<Rightarrow> SyncError + unit" where
  "validate_against_session m c =
     (if um_status m = StCompleted then Inl (UploadAlreadyCompleted (ch_file_id c))
      else if um_status m = StCancelled then Inl (UploadCancelled (ch_file_id c))
      else if ch_total_chunks c \<noteq> um_total_chunks m
      then Inl (ChunkConflict (ch_chunk_index c)
             (''request total_chunks '' @ show_nat (ch_total_chunks c) @
              '' != session total_chunks '' @ show_nat (um_total_chunks m)))
      else if um_total_chunks m \<le> ch_chunk_index c
      then Inl (InvalidChunkParameter
             (''chunk_index '' @ show_nat (ch_chunk_index c) @ '' >= total_chunks '' @
              show_nat (um_total_chunks m)))
      else if ch_chunk_index c = um_total_chunks m - 1 \<and> um_chunk_size m = 0 then Inl SyncPanicked
      else if length (ch_data c) \<noteq> expected_chunk_size m (ch_chunk_index c)
      then Inl (InvalidChunkParameter
             (''invalid chunk size on index '' @ show_nat (ch_chunk_index c) @ '': expected '' @
              show_nat (expected_chunk_size m (ch_chunk_index c)) @ '' bytes, got '' @
              show_nat (length (ch_data c)) @ '' bytes''))
      else Inr ())"

text \<open>A retransmission of a chunk that is already recorded.\<close>

definition existing_chunk ::
  "SyncRuntimeConfig \<Rightarrow> (u8 list \<Rightarrow> string) \<Rightarrow> FinalizeEnv \<Rightarrow> FinalizeEnv \<Rightarrow> UploadChunk \<Rightarrow> string \<times> nat
     \<Rightarrow> UploadProgress step" where
  "existing_chunk cfg sha256 env fin c row st =
     (let i = ch_file_id c in
      if row = (ch_chunk_hash c, length (ch_data c)) then
        then_do (at_point env 2 (get_or_load_session i) st) (\<lambda>cur st.
          if um_status cur = StCompleted then
            (Inr ((meta_progress i cur)\<lparr>up_percentage := 100, up_error := None\<rparr>), st)
          else if all_received cur then
            (let (res, st) = verify_and_finalize_upload cfg sha256 fin i st in
             then_do (at_point env 3 (get_or_load_session i) st) (\<lambda>refreshed st.
               case res of
                 Inl e \<Rightarrow> (if um_status refreshed \<noteq> StCompleted then (Inl e, st)
                            else (Inr (meta_progress i refreshed), st))
               | Inr _ \<Rightarrow> (Inr (meta_progress i refreshed), st)))
          else (Inr ((meta_progress i cur)\<lparr>up_completed := False\<rparr>), st))
      else
        (Inl (ChunkConflict (ch_chunk_index c)
           (''chunk '' @ show_nat (ch_chunk_index c) @
            '' already exists with different hash or size (existing hash: '' @ fst row @
            '', request hash: '' @ ch_chunk_hash c @ '')'')), st))"

definition store_chunk ::
  "SyncRuntimeConfig \<Rightarrow> (u8 list \<Rightarrow> string) \<Rightarrow> FinalizeEnv \<Rightarrow> FinalizeEnv \<Rightarrow> UploadChunk \<Rightarrow> UploadMeta
     \<Rightarrow> UploadProgress step" where
  "store_chunk cfg sha256 env fin c m st =
     (let i = ch_file_id c; off = ch_chunk_index c * um_chunk_size m in
      if 2 ^ 64 \<le> off
      then (Inl (InvalidChunkParameter ''arithmetic overflow calculating chunk offset''), st)
      else
        then_do (at_point env 4 (write_part (part_name i) off (ch_data c)) st) (\<lambda>_ st.
        then_do (at_point env 5 (insert_chunk_or_ignore i (ch_chunk_index c) (ch_chunk_hash c)
                   (length (ch_data c))) st) (\<lambda>_ st.
        (let st = upd_mem i (\<lambda>m. m\<lparr>um_received_chunks := insert (ch_chunk_index c) (um_received_chunks m)\<rparr>)
                    (fe_other env 6 st);
             st = fe_other env 7 st in
         case us_mem st i of
           None \<Rightarrow> (Inl SyncPanicked, st)
         | Some cur \<Rightarrow>
             then_do (if all_received cur then verify_and_finalize_upload cfg sha256 fin i st
                      else (Inr (), st)) (\<lambda>_ st.
               (let (loaded, st) = at_point env 8 (get_or_load_session i) st;
                    refreshed = (case loaded of Inr r \<Rightarrow> r | Inl _ \<Rightarrow> m) in
                (Inr (progress_of i (card (um_received_chunks cur)) (max (um_total_chunks cur) 1) refreshed),
                 st)))))))"

definition upload_chunk ::
  "SyncRuntimeConfig \<Rightarrow> (u8 list \<Rightarrow> string) \<Rightarrow> FinalizeEnv \<Rightarrow> FinalizeEnv \<Rightarrow> UploadChunk
     \<Rightarrow> UploadProgress step" where
  "upload_chunk cfg sha256 env fin c st =
     (case validate_chunk sha256 c of
        Inl e \<Rightarrow> (Inl e, st)
      | Inr _ \<Rightarrow>
          then_do (at_point env 0 (get_or_load_session (ch_file_id c)) st) (\<lambda>m st.
            case validate_against_session m c of
              Inl e \<Rightarrow> (Inl e, st)
            | Inr _ \<Rightarrow>
                then_do (at_point env 1 (\<lambda>st. (Inr (map_of (us_chunks st) (ch_file_id c, ch_chunk_index c)), st)) st)
                  (\<lambda>row st.
                     case row of
                       Some r \<Rightarrow> existing_chunk cfg sha256 env fin c r st
                     | None \<Rightarrow> store_chunk cfg sha256 env fin c m st)))"

section \<open>Progress and crash recovery\<close>

definition get_upload_progress :: "uuid \<Rightarrow> UploadProgress option step" where
  "get_upload_progress i st =
     (case get_or_load_session i st of
        (Inr m, st) \<Rightarrow> (Inr (Some (meta_progress i m)), st)
      | (Inl (SessionNotFound _), st) \<Rightarrow> (Inr None, st)
      | (Inl e, st) \<Rightarrow> (Inl e, st))"

record SyncRecoveryReport =
  rr_candidates :: nat
  rr_completed :: nat
  rr_deferred :: nat
  rr_terminal_failures :: nat
  rr_transient_failures :: nat
  rr_invalid_rows :: nat

definition is_recovery_candidate :: "SyncUploadRow \<Rightarrow> bool" where
  "is_recovery_candidate r \<longleftrightarrow>
     ur_status r = ''finalizing'' \<or>
     ur_status r = ''failed'' \<and>
       (ur_failure_class r = None \<or> ur_failure_class r = Some ''recoverable'')"

fun count_outcome :: "SyncError + unit \<Rightarrow> SyncRecoveryReport \<Rightarrow> SyncRecoveryReport" where
  "count_outcome (Inr _) rep = rep\<lparr>rr_completed := rr_completed rep + 1\<rparr>"
| "count_outcome (Inl (FinalizationLeaseActive _ _ _)) rep = rep\<lparr>rr_deferred := rr_deferred rep + 1\<rparr>"
| "count_outcome (Inl (TerminalUploadFailure _ _)) rep =
     rep\<lparr>rr_terminal_failures := rr_terminal_failures rep + 1\<rparr>"
| "count_outcome (Inl (HashMismatch _ _)) rep =
     rep\<lparr>rr_terminal_failures := rr_terminal_failures rep + 1\<rparr>"
| "count_outcome (Inl (FileNotFound _)) rep =
     rep\<lparr>rr_terminal_failures := rr_terminal_failures rep + 1\<rparr>"
| "count_outcome (Inl _) rep = rep\<lparr>rr_transient_failures := rr_transient_failures rep + 1\<rparr>"

text \<open>
  The loop over the candidate ids. \<open>parse_uuid\<close> is the uuid crate's parser; \<open>envs\<close> gives each
  candidate's finalization its own environment.
\<close>

fun recover_rows ::
  "SyncRuntimeConfig \<Rightarrow> (u8 list \<Rightarrow> string) \<Rightarrow> (string \<Rightarrow> uuid option) \<Rightarrow> (string \<Rightarrow> FinalizeEnv)
     \<Rightarrow> string list \<Rightarrow> SyncRecoveryReport \<Rightarrow> UploadState \<Rightarrow> SyncRecoveryReport \<times> UploadState" where
  "recover_rows cfg sha256 parse_uuid envs [] rep st = (rep, st)"
| "recover_rows cfg sha256 parse_uuid envs (s # ss) rep st =
     (case parse_uuid s of
        None \<Rightarrow> recover_rows cfg sha256 parse_uuid envs ss
                  (rep\<lparr>rr_invalid_rows := rr_invalid_rows rep + 1\<rparr>) st
      | Some i \<Rightarrow>
          (let (res, st) = verify_and_finalize_upload cfg sha256 (envs s) i st in
           recover_rows cfg sha256 parse_uuid envs ss (count_outcome res rep) st))"

definition recover_incomplete_uploads ::
  "SyncRuntimeConfig \<Rightarrow> (u8 list \<Rightarrow> string) \<Rightarrow> (string \<Rightarrow> uuid option) \<Rightarrow> (string \<Rightarrow> FinalizeEnv)
     \<Rightarrow> string list \<Rightarrow> UploadState \<Rightarrow> SyncRecoveryReport \<times> UploadState" where
  "recover_incomplete_uploads cfg sha256 parse_uuid envs keys st =
     (let cands = filter (\<lambda>s. case us_rows st s of Some r \<Rightarrow> is_recovery_candidate r | None \<Rightarrow> False) keys in
      recover_rows cfg sha256 parse_uuid envs cands
        \<lparr>rr_candidates = length cands, rr_completed = 0, rr_deferred = 0, rr_terminal_failures = 0,
         rr_transient_failures = 0, rr_invalid_rows = 0\<rparr> st)"

end
