(* ===== verification/Upload_Theorems.thy ===== *)
theory Upload_Theorems
  imports Sync_Finalize "HOL-Library.Multiset"
begin

text \<open>
  Correctness of chunked uploads: the geometry of the chunks, reassembly in any order, what a
  completed finalization has verified, fencing of an owner that lost its lease, retransmission,
  recovery accounting, and the end-to-end property of a whole upload.
\<close>

section \<open>Reading successful runs backwards\<close>

lemma then_do_ok:
  "then_do r f = (Inr y, st') \<longleftrightarrow> (\<exists>x s. r = (Inr x, s) \<and> f x s = (Inr y, st'))"
  by (cases r; cases "fst r") (auto simp: then_do_def)

lemma at_point_ok:
  "at_point env n f st = (Inr x, st') \<longleftrightarrow> fe_fail env n = None \<and> f (fe_other env n st) = (Inr x, st')"
  by (auto simp: at_point_def Let_def split: option.splits)

lemma or_stop_ok: "or_stop i token r = (Inr x, s) \<longleftrightarrow> r = (Inr x, s)"
  by (auto simp: or_stop_def split: prod.splits sum.splits)

lemma fail_terminal_err: "fail_terminal cfg env i token code msg e st \<noteq> (Inr x, s)"
  by (simp add: fail_terminal_def)

lemma if_fail_ok:
  "(if b then fail_terminal cfg env i token code msg e st else r) = (Inr x, s) \<longleftrightarrow> \<not> b \<and> r = (Inr x, s)"
  by (simp add: fail_terminal_err)

lemmas run_ok = then_do_ok at_point_ok or_stop_ok fail_terminal_err

lemma assert_owner_ok:
  assumes "assert_finalization_owner cfg now i token st = (Inr (), st')"
  shows "st' = st \<and> (\<exists>r. us_rows st i = Some r \<and> owns_row cfg token r)"
  using assms
  by (auto simp: assert_finalization_owner_def split: option.splits if_splits rfc3339.splits)

lemma mark_completed_ok:
  assumes "mark_upload_completed cfg i token st = (Inr (), st')"
  shows "us_files st' = us_files st \<and> us_chunks st' = us_chunks st \<and> us_synced st' = us_synced st \<and>
         (\<exists>r. us_rows st i = Some r \<and> owns_row cfg token r) \<and>
         (\<exists>r. us_rows st' i = Some r \<and> ur_status r = ''completed'')"
  using assms
  by (auto simp: mark_upload_completed_def upd_mem_def split: option.splits if_splits)

lemma register_synced:
  "us_files (register_uploaded_file f st) = us_files st \<and>
   us_chunks (register_uploaded_file f st) = us_chunks st \<and>
   us_rows (register_uploaded_file f st) = us_rows st"
  by (simp add: register_uploaded_file_def)


section \<open>What a completed finalization has verified\<close>

text \<open>
  An upload of \<open>sz\<close> bytes with hash \<open>h\<close> in \<open>n\<close> chunks that nobody has completed yet; the cached
  session agrees with the row.
\<close>

definition pending :: "uuid \<Rightarrow> int \<Rightarrow> string \<Rightarrow> nat \<Rightarrow> UploadState \<Rightarrow> bool" where
  "pending i sz h n st \<longleftrightarrow>
     (case us_rows st i of
        None \<Rightarrow> False
      | Some r \<Rightarrow> ur_file_size r = sz \<and> ur_expected_hash r = h \<and> ur_total_chunks r = n \<and>
                  ur_status r \<noteq> ''completed'') \<and>
     (case us_mem st i of
        None \<Rightarrow> True
      | Some m \<Rightarrow> um_file_size m = sz \<and> um_expected_hash m = h \<and> um_total_chunks m = n \<and>
                  um_status m \<noteq> StCompleted) \<and>
     list_all sf_checksum_verified (us_synced st)"

text \<open>
  What the finalizer relies on from other tasks: they leave its files alone, forget no chunk
  receipt and no registered file, and do not complete the upload themselves. They may take its lease.
\<close>

definition rely :: "uuid \<Rightarrow> UploadState \<Rightarrow> UploadState \<Rightarrow> bool" where
  "rely i s s' \<longleftrightarrow>
     us_files s' (part_name i) = us_files s (part_name i) \<and> us_files s' i = us_files s i \<and>
     received_in_db i s \<subseteq> received_in_db i s' \<and> set (us_synced s) \<subseteq> set (us_synced s')"

definition calm :: "uuid \<Rightarrow> int \<Rightarrow> string \<Rightarrow> nat \<Rightarrow> FinalizeEnv \<Rightarrow> bool" where
  "calm i sz h n env \<longleftrightarrow>
     (\<forall>k s. pending i sz h n s \<longrightarrow> pending i sz h n (fe_other env k s) \<and> rely i s (fe_other env k s))"

lemma rely_refl [simp]: "rely i s s"
  by (simp add: rely_def)

lemma rely_trans: "rely i s s' \<Longrightarrow> rely i s' s'' \<Longrightarrow> rely i s s''"
  by (auto simp: rely_def)

lemma calmD:
  assumes "calm i sz h n env" "pending i sz h n s"
  shows "pending i sz h n (fe_other env k s)" "rely i s (fe_other env k s)"
  using assms by (auto simp: calm_def)

lemma part_name_neq [simp]: "part_name i \<noteq> i" "i \<noteq> part_name i"
  by (simp_all add: part_name_def)

definition fits :: "int \<Rightarrow> string \<Rightarrow> nat \<Rightarrow> UploadMeta \<Rightarrow> bool" where
  "fits sz h n m \<longleftrightarrow> um_file_size m = sz \<and> um_expected_hash m = h \<and> um_total_chunks m = n"

lemma missing_chunk_none: "missing_chunk m rec = None \<longleftrightarrow> {..<um_total_chunks m} \<subseteq> rec"
  by (auto simp: missing_chunk_def find_None_iff)

lemma read_file_ok: "read_file f st = (Inr d, st') \<longleftrightarrow> us_files st f = Some d \<and> st' = st"
  by (auto simp: read_file_def split: option.splits)

lemma open_target_calm:
  assumes "calm i sz h n env" "pending i sz h n s" "open_target env i s = (Some t, s')"
  shows "pending i sz h n s' \<and> rely i s s' \<and> t \<in> {part_name i, i}"
proof -
  note c1 = calmD[OF assms(1,2), of 27]
  note c2 = calmD[OF assms(1) c1(1), of 28]
  show ?thesis
    using assms(3) c1 c2 rely_trans[OF c1(2) c2(2)]
    by (auto simp: open_target_def Let_def split: if_splits)
qed

lemma verify_content_ok:
  assumes c: "calm i sz h n env" and p: "pending i sz h n s" and m: "fits sz h n m"
    and t: "t \<in> {part_name i, i}"
    and v: "verify_content cfg sha256 env i m token t s = (Inr u, s')"
  shows "pending i sz h n s' \<and> rely i s s' \<and>
         (\<exists>d. us_files s' t = Some d \<and> int (length d) = sz \<and> sha256 d = h)"
proof -
  let ?s1 = "fe_other env 29 s"
  from v obtain d d' where d: "us_files ?s1 t = Some d" "int (length d) = um_file_size m"
    and d': "us_files s' t = Some d'" "sha256 d' = um_expected_hash m" "s' = fe_other env 30 ?s1"
    unfolding verify_content_def Let_def then_do_ok or_stop_ok at_point_ok read_file_ok if_fail_ok
      not_not prod.inject sum.inject by blast
  note c1 = calmD[OF c p, of 29]
  note c2 = calmD[OF c c1(1), of 30]
  have "us_files s' t = us_files ?s1 t" using t c2(2) d'(3) by (auto simp: rely_def)
  then show ?thesis
    using c1 c2 d d' m rely_trans[OF c1(2) c2(2)] by (auto simp: fits_def)
qed

lemma verify_file_ok:
  assumes c: "calm i sz h n env" and p: "pending i sz h n s" and m: "fits sz h n m"
    and v: "verify_file cfg sha256 env i m token s = (Inr t, s')"
  shows "pending i sz h n s' \<and> {..<n} \<subseteq> received_in_db i s' \<and> t \<in> {part_name i, i} \<and>
         (\<exists>d. us_files s' t = Some d \<and> int (length d) = sz \<and> sha256 d = h)"
proof -
  let ?s1 = "fe_other env 26 s"
  from v have all: "{..<n} \<subseteq> received_in_db i ?s1"
    and v2: "verify_artifact cfg sha256 env i m token ?s1 = (Inr t, s')"
    using m by (auto simp: verify_file_def run_ok missing_chunk_none fits_def split: option.splits)
  from v2 obtain s2 where t: "open_target env i ?s1 = (Some t, s2)"
    and v3: "verify_content cfg sha256 env i m token t s2 = (Inr (), s')"
    by (auto simp: verify_artifact_def run_ok Let_def split: option.splits prod.splits)
  note c1 = calmD[OF c p, of 26]
  note c2 = open_target_calm[OF c c1(1) t]
  then have "pending i sz h n s2" "t \<in> {part_name i, i}" by simp_all
  from verify_content_ok[OF c this(1) m this(2) v3] c2 all show ?thesis
    by (auto simp: rely_def)
qed


lemma pending_frame:
  assumes "us_rows s' = us_rows s" "us_mem s' = us_mem s" "us_synced s' = us_synced s"
  shows "pending i sz h n s' = pending i sz h n s"
  using assms by (simp add: pending_def)

lemma pending_register:
  assumes "pending i sz h n s" "sf_checksum_verified f"
  shows "pending i sz h n (register_uploaded_file f s)"
  using assms by (simp add: pending_def register_uploaded_file_def)

lemma registered:
  "\<exists>g \<in> set (us_synced (register_uploaded_file f s)). sf_file_hash g = sf_file_hash f"
  by (auto simp: register_uploaded_file_def list_ex_iff)

lemma exists_if_registered:
  assumes "g \<in> set (us_synced s)" "sf_file_hash g = h" "list_all sf_checksum_verified (us_synced s)"
  shows "check_file_exists h s \<noteq> None"
  using assms by (auto simp: check_file_exists_def find_None_iff list_all_iff)

lemma received_frame: "us_chunks s' = us_chunks s \<Longrightarrow> received_in_db i s' = received_in_db i s"
  by (simp add: received_in_db_def)

lemma rename_step:
  assumes c: "calm i sz h n env" and p: "pending i sz h n s" and t: "t \<in> {part_name i, i}"
    and f: "us_files s t = Some d"
    and r: "(if t = part_name i then or_stop i token (at_point env 32 (rename_file t i) s)
             else (Inr (), s)) = (Inr (), s')"
  shows "pending i sz h n s' \<and> us_files s' i = Some d \<and> received_in_db i s \<subseteq> received_in_db i s'"
proof (cases "t = part_name i")
  case True
  note c1 = calmD[OF c p, of 32]
  have f1: "us_files (fe_other env 32 s) t = Some d" using c1(2) f True by (simp add: rely_def)
  then have s': "s' = (fe_other env 32 s)\<lparr>us_files := (us_files (fe_other env 32 s))(t := None, i \<mapsto> d)\<rparr>"
    using r True by (simp add: run_ok rename_file_def)
  have "pending i sz h n s'" using c1(1) by (subst pending_frame) (simp_all add: s')
  moreover have "received_in_db i s' = received_in_db i (fe_other env 32 s)"
    by (rule received_frame) (simp add: s')
  moreover have "us_files s' i = Some d" by (simp add: s')
  ultimately show ?thesis using c1(2) unfolding rely_def by simp
qed (use r t f p in auto)

lemma complete_owned_ok:
  assumes "complete_owned cfg env i token s = (Inr (), s')"
  shows "mark_upload_completed cfg i token (fe_other env 35 (stop_heartbeat i token s)) = (Inr (), s')"
  using assms
  by (auto simp: complete_owned_def Let_def at_point_ok split: option.splits SyncError.splits)

lemma promote_ok:
  assumes c: "calm i sz h n env" and p: "pending i sz h n s" and m: "fits sz h n m"
    and t: "t \<in> {part_name i, i}" and f: "us_files s t = Some d"
    and v: "promote_and_complete cfg env i m token t s = (Inr (), s')"
  shows "us_files s' i = Some d \<and> received_in_db i s \<subseteq> received_in_db i s' \<and>
         check_file_exists h s' \<noteq> None \<and>
         (\<exists>r. us_rows s' i = Some r \<and> ur_status r = ''completed'')"
proof -
  let ?f = "uploaded_file cfg env i m" and ?s1 = "fe_other env 31 s"
  from v obtain s1 s2 s3 where a1: "assert_finalization_owner cfg (fe_now env 31) i token ?s1 = (Inr (), s1)"
    and r: "(if t = part_name i then or_stop i token (at_point env 32 (rename_file t i) s1)
             else (Inr (), s1)) = (Inr (), s2)"
    and a3: "assert_finalization_owner cfg (fe_now env 33) i token (fe_other env 33 s2) = (Inr (), s3)"
    and v4: "complete_owned cfg env i token (register_uploaded_file ?f (fe_other env 34 s3)) = (Inr (), s')"
    unfolding promote_and_complete_def then_do_ok or_stop_ok at_point_ok prod.inject by (elim exE) auto
  have s1: "s1 = ?s1" and s3: "s3 = fe_other env 33 s2" using a1 a3 by (auto dest!: assert_owner_ok)
  note r2 = r[unfolded s1] and v2 = complete_owned_ok[OF v4[unfolded s3]]
  let ?s3 = "fe_other env 33 s2" and ?s4 = "fe_other env 34 (fe_other env 33 s2)"
  let ?s5 = "stop_heartbeat i token (register_uploaded_file ?f ?s4)"
  let ?s6 = "fe_other env 35 ?s5"
  note c1 = calmD[OF c p, of 31]
  have f1: "us_files ?s1 t = Some d" using c1(2) t f by (auto simp: rely_def)
  note c2 = rename_step[OF c c1(1) t f1 r2]
  then have p2: "pending i sz h n s2" by simp
  note c3 = calmD[OF c p2, of 33]
  note c4 = calmD[OF c c3(1), of 34]
  have p5: "pending i sz h n ?s5"
    using pending_register[OF c4(1), of ?f]
    by (subst pending_frame) (simp_all add: stop_heartbeat_def uploaded_file_def)
  note c6 = calmD[OF c p5, of 35]
  have frame: "us_files ?s5 = us_files ?s4" "received_in_db i ?s5 = received_in_db i ?s4"
    by (simp_all add: stop_heartbeat_def register_synced received_in_db_def)
  have file_kept: "us_files ?s6 i = Some d"
    using c2 c3(2) c4(2) c6(2) frame unfolding rely_def by simp
  have "received_in_db i ?s1 \<subseteq> received_in_db i s2" using c2 by simp
  then have chunks_kept: "received_in_db i s \<subseteq> received_in_db i ?s6"
    using c1(2) c3(2) c4(2) c6(2) frame unfolding rely_def by blast
  obtain g where "g \<in> set (us_synced ?s5)" "sf_file_hash g = h"
    using registered[of ?f ?s4] m by (auto simp: stop_heartbeat_def uploaded_file_def fits_def)
  then have "check_file_exists h ?s6 \<noteq> None"
    using c6 by (intro exists_if_registered[of g]) (auto simp: rely_def pending_def)
  then show ?thesis
    using mark_completed_ok[OF v2] file_kept chunks_kept by (simp add: check_file_exists_def received_in_db_def)
qed


lemma status_completed_iff: "status_from_db t = Some StCompleted \<longleftrightarrow> t = ''completed''"
  by (simp add: status_from_db_def)

lemma get_or_load_pending:
  assumes "pending i sz h n s" "get_or_load_session i s = (Inr m, s')"
  shows "pending i sz h n s' \<and> fits sz h n m \<and> um_status m \<noteq> StCompleted"
  using assms
  by (auto simp: get_or_load_session_def load_session_from_db_internal_def pending_def fits_def
      status_completed_iff split: option.splits sum.splits)

lemma pending_row:
  assumes "pending i sz h n s" "us_rows s i = Some r"
    "ur_file_size r' = ur_file_size r" "ur_expected_hash r' = ur_expected_hash r"
    "ur_total_chunks r' = ur_total_chunks r" "ur_status r' \<noteq> ''completed''"
  shows "pending i sz h n (s\<lparr>us_rows := (us_rows s)(i \<mapsto> r')\<rparr>)"
  using assms by (auto simp: pending_def)

lemma try_acquire_pending:
  assumes "pending i sz h n s" "try_acquire cfg now token i s = (Inr w, s')"
  shows "pending i sz h n s'"
proof (cases "us_rows s i")
  case (Some r)
  have "pending i sz h n (s\<lparr>us_rows := (us_rows s)(i \<mapsto>
      (claim_row cfg now token r)\<lparr>ur_status := ''finalizing'', ur_last_error := None\<rparr>)\<rparr>)"
    by (rule pending_row[OF assms(1) Some]) (simp_all add: claim_row_def)
  then show ?thesis using assms Some by (auto simp: try_acquire_def split: if_splits)
qed (use assms in \<open>simp add: pending_def\<close>)

lemma takeover_pending:
  assumes "pending i sz h n s" "takeover_cas cfg now token i seen s = (Inr w, s')"
  shows "pending i sz h n s'"
proof (cases "us_rows s i")
  case (Some r)
  have "ur_status r \<noteq> ''completed''" using assms(1) Some by (simp add: pending_def)
  then have "pending i sz h n (s\<lparr>us_rows := (us_rows s)(i \<mapsto> claim_row cfg now token r)\<rparr>)"
    by (intro pending_row[OF assms(1) Some]) (simp_all add: claim_row_def)
  then show ?thesis using assms Some by (auto simp: takeover_cas_def split: if_splits)
qed (use assms in \<open>simp add: pending_def\<close>)

lemma poll_pending:
  assumes "calm i sz h n env" "pending i sz h n s"
  shows "poll_completed env i k j s \<noteq> (Inr True, s')"
  using assms(2)
proof (induction j arbitrary: k s)
  case (Suc j)
  note c1 = calmD[OF assms(1) Suc.prems, of k]
  then have "map_option ur_status (us_rows (fe_other env k s) i) \<noteq> Some ''completed''"
    by (auto simp: pending_def split: option.splits)
  then show ?case using Suc.IH[OF c1(1)] by (auto simp: run_ok split: if_splits)
qed simp

lemma contended_pending:
  assumes c: "calm i sz h n env" and p: "pending i sz h n s"
    and a: "acquire_contended cfg env i s = (Inr owner, s')"
  shows "pending i sz h n s' \<and> owner \<noteq> None"
proof -
  let ?s1 = "fe_other env 3 s"
  note c1 = calmD[OF c p, of 3]
  from c1(1) obtain r where r: "us_rows ?s1 i = Some r" "ur_status r \<noteq> ''completed''"
    by (auto simp: pending_def split: option.splits)
  then have nc: "status_from_db (ur_status r) \<noteq> Some StCompleted" by (simp add: status_completed_iff)
  have pc: "pending i sz h n (fe_other env 24 ?s1)" by (rule calmD(1)[OF c c1(1)])
  show ?thesis
    using a r(1) nc poll_pending[OF c c1(1)] takeover_pending[OF pc]
    unfolding acquire_contended_def then_do_ok at_point_ok
    by (auto simp: run_ok split: option.splits UploadStatus.splits if_splits)
qed

lemma acquire_pending:
  assumes c: "calm i sz h n env" and p: "pending i sz h n s"
    and a: "acquire_finalization cfg env i s = (Inr owner, s')"
  shows "pending i sz h n s' \<and> owner \<noteq> None"
proof -
  note c1 = calmD[OF c p, of 2]
  from a obtain w s1 where w: "try_acquire cfg (fe_now env 1) (fe_uuid env 1) i (fe_other env 2 s) = (Inr w, s1)"
    and a2: "(if w then (Inr (Some (fe_uuid env 1)), s1) else acquire_contended cfg env i s1) = (Inr owner, s')"
    unfolding acquire_finalization_def then_do_ok at_point_ok by blast
  have "pending i sz h n s1" by (rule try_acquire_pending[OF c1(1) w])
  then show ?thesis using a2 contended_pending[OF c] by (auto split: if_splits)
qed

lemma finalize_owned_ok:
  assumes c: "calm i sz h n env" and p: "pending i sz h n s" and m: "fits sz h n m"
    and v: "finalize_owned cfg sha256 env i m token s = (Inr (), s')"
  shows "\<exists>d. us_files s' i = Some d \<and> int (length d) = sz \<and> sha256 d = h \<and>
             {..<n} \<subseteq> received_in_db i s' \<and> check_file_exists h s' \<noteq> None \<and>
             (\<exists>r. us_rows s' i = Some r \<and> ur_status r = ''completed'')"
proof -
  let ?s1 = "spawn_heartbeat i token (note_acquired cfg env i token (fe_other env 25 s))"
  have p1: "pending i sz h n ?s1"
    using calmD(1)[OF c p, of 25]
    by (auto simp: pending_def spawn_heartbeat_def note_acquired_def upd_mem_def split: option.splits)
  from v obtain t s2 where vf: "verify_file cfg sha256 env i m token ?s1 = (Inr t, s2)"
    and pr: "promote_and_complete cfg env i m token t s2 = (Inr (), s')"
    unfolding finalize_owned_def Let_def then_do_ok by blast
  from verify_file_ok[OF c p1 m vf] obtain d where d: "pending i sz h n s2"
    "{..<n} \<subseteq> received_in_db i s2" "t \<in> {part_name i, i}" "us_files s2 t = Some d"
    "int (length d) = sz" "sha256 d = h" by blast
  from promote_ok[OF c d(1) m d(3,4) pr] d show ?thesis by blast
qed


section \<open>Fencing\<close>

definition holds_lease :: "SyncRuntimeConfig \<Rightarrow> string \<Rightarrow> uuid \<Rightarrow> UploadState \<Rightarrow> bool" where
  "holds_lease cfg token i s \<longleftrightarrow>
     (case us_rows s i of Some r \<Rightarrow> owns_row cfg token r | None \<Rightarrow> False)"

lemma holds_frame: "us_rows s' = us_rows s \<Longrightarrow> holds_lease cfg token i s' = holds_lease cfg token i s"
  by (simp add: holds_lease_def)

lemma complete_needs_lease:
  assumes "complete_owned cfg env i token s = (Inr (), s')"
  shows "holds_lease cfg token i (fe_other env 35 (stop_heartbeat i token s))"
  using mark_completed_ok[OF complete_owned_ok[OF assms]] by (auto simp: holds_lease_def)

lemma verify_content_path:
  assumes "verify_content cfg sha256 env i m token t s = (Inr u, s')"
  shows "s' = fe_other env 30 (fe_other env 29 s)"
  using assms
  unfolding verify_content_def Let_def then_do_ok or_stop_ok at_point_ok read_file_ok if_fail_ok
    not_not prod.inject sum.inject by blast

text \<open>The states of a successful run of the owner, from the last fence backwards.\<close>

lemma promote_path:
  assumes "promote_and_complete cfg env i m token t s = (Inr (), s')"
  shows "\<exists>s2 s2'. us_rows s2 \<in> {us_rows (fe_other env 31 s), us_rows (fe_other env 32 (fe_other env 31 s))} \<and>
    holds_lease cfg token i (fe_other env 31 s) \<and> holds_lease cfg token i (fe_other env 33 s2) \<and>
    us_rows s2' = us_rows (fe_other env 34 (fe_other env 33 s2)) \<and>
    holds_lease cfg token i (fe_other env 35 s2')"
proof -
  let ?s1 = "fe_other env 31 s"
  from assms obtain s1 s2 s3 where a1: "assert_finalization_owner cfg (fe_now env 31) i token ?s1 = (Inr (), s1)"
    and r: "(if t = part_name i then or_stop i token (at_point env 32 (rename_file t i) s1)
             else (Inr (), s1)) = (Inr (), s2)"
    and a3: "assert_finalization_owner cfg (fe_now env 33) i token (fe_other env 33 s2) = (Inr (), s3)"
    and v4: "complete_owned cfg env i token
               (register_uploaded_file (uploaded_file cfg env i m) (fe_other env 34 s3)) = (Inr (), s')"
    unfolding promote_and_complete_def then_do_ok or_stop_ok at_point_ok prod.inject by (elim exE) auto
  have s1: "s1 = ?s1" "holds_lease cfg token i ?s1"
    and s3: "s3 = fe_other env 33 s2" "holds_lease cfg token i (fe_other env 33 s2)"
    using a1 a3 by (auto dest!: assert_owner_ok simp: holds_lease_def)
  have "us_rows s2 \<in> {us_rows ?s1, us_rows (fe_other env 32 ?s1)}"
    using r s1(1) by (auto simp: run_ok rename_file_def split: if_splits option.splits)
  moreover have "us_rows (stop_heartbeat i token
      (register_uploaded_file (uploaded_file cfg env i m) (fe_other env 34 s3)))
      = us_rows (fe_other env 34 (fe_other env 33 s2))"
    by (simp add: stop_heartbeat_def register_synced s3)
  ultimately show ?thesis using s1 s3 complete_needs_lease[OF v4] by blast
qed


text \<open>Other tasks never hand a lost token back: tokens are fresh UUIDs.\<close>

definition lost_stays_lost :: "SyncRuntimeConfig \<Rightarrow> string \<Rightarrow> uuid \<Rightarrow> FinalizeEnv \<Rightarrow> bool" where
  "lost_stays_lost cfg token i env \<longleftrightarrow>
     (\<forall>k s. \<not> holds_lease cfg token i s \<longrightarrow> \<not> holds_lease cfg token i (fe_other env k s))"

lemma lost_back:
  assumes "lost_stays_lost cfg token i env" "holds_lease cfg token i (fe_other env k s)"
  shows "holds_lease cfg token i s"
  using assms by (auto simp: lost_stays_lost_def)

definition await_points :: "nat list" where
  "await_points = [25, 26, 27, 29, 30, 31, 33, 34, 35]"

lemma promote_holds:
  assumes l: "lost_stays_lost cfg token i env"
    and p: "promote_and_complete cfg env i m token t s = (Inr (), s')"
  shows "\<forall>k \<in> {31, 33, 34, 35}. \<exists>x. holds_lease cfg token i (fe_other env k x)"
    and "holds_lease cfg token i s"
proof -
  from promote_path[OF p] obtain s2 s2' where h: "holds_lease cfg token i (fe_other env 31 s)"
    "holds_lease cfg token i (fe_other env 33 s2)"
    "us_rows s2' = us_rows (fe_other env 34 (fe_other env 33 s2))"
    "holds_lease cfg token i (fe_other env 35 s2')" by blast
  have "holds_lease cfg token i (fe_other env 34 (fe_other env 33 s2))"
    using lost_back[OF l h(4)] holds_frame[OF h(3)] by blast
  then show "\<forall>k \<in> {31, 33, 34, 35}. \<exists>x. holds_lease cfg token i (fe_other env k x)" using h by blast
  show "holds_lease cfg token i s" by (rule lost_back[OF l h(1)])
qed

lemma verify_holds:
  assumes l: "lost_stays_lost cfg token i env" and e: "holds_lease cfg token i s'"
    and v: "verify_file cfg sha256 env i m token s = (Inr t, s')"
  shows "\<forall>k \<in> {26, 27, 29, 30}. \<exists>x. holds_lease cfg token i (fe_other env k x)"
    and "holds_lease cfg token i s"
proof -
  let ?s1 = "fe_other env 26 s"
  from v have "verify_artifact cfg sha256 env i m token ?s1 = (Inr t, s')"
    by (auto simp: verify_file_def run_ok split: option.splits)
  then obtain s2 where t: "open_target env i ?s1 = (Some t, s2)"
    and v3: "verify_content cfg sha256 env i m token t s2 = (Inr (), s')"
    by (auto simp: verify_artifact_def run_ok Let_def split: option.splits prod.splits)
  have s2: "s2 \<in> {fe_other env 27 ?s1, fe_other env 28 (fe_other env 27 ?s1)}"
    using t by (auto simp: open_target_def Let_def split: if_splits)
  have h30: "holds_lease cfg token i (fe_other env 30 (fe_other env 29 s2))"
    using e verify_content_path[OF v3] by simp
  note h29 = lost_back[OF l h30]
  note h2 = lost_back[OF l h29]
  have h27: "holds_lease cfg token i (fe_other env 27 ?s1)" using s2 h2 lost_back[OF l] by blast
  note h26 = lost_back[OF l h27]
  show "\<forall>k \<in> {26, 27, 29, 30}. \<exists>x. holds_lease cfg token i (fe_other env k x)"
    using h26 h27 h29 h30 by blast
  show "holds_lease cfg token i s" by (rule lost_back[OF l h26])
qed

text \<open>A predicate on what outlives the process: tables and files, not the caches.\<close>

definition durable :: "(UploadState \<Rightarrow> bool) \<Rightarrow> bool" where
  "durable P \<longleftrightarrow>
     (\<forall>s s'. us_rows s' = us_rows s \<longrightarrow> us_chunks s' = us_chunks s \<longrightarrow> us_synced s' = us_synced s \<longrightarrow>
        us_files s' = us_files s \<longrightarrow> P s' = P s)"

definition kept_by_others :: "FinalizeEnv \<Rightarrow> (UploadState \<Rightarrow> bool) \<Rightarrow> bool" where
  "kept_by_others env P \<longleftrightarrow> (\<forall>k s. P s \<longrightarrow> P (fe_other env k s))"

lemma then_do_keeps:
  assumes "Q (snd r)" "\<And>x s. Q s \<Longrightarrow> Q (snd (f x s))"
  shows "Q (snd (then_do r f))"
  using assms by (auto simp: then_do_def split: prod.splits sum.splits)

lemma at_point_keeps:
  assumes "kept_by_others env Q" "Q s" "\<And>s. Q s \<Longrightarrow> Q (snd (f s))"
  shows "Q (snd (at_point env k f s))"
  using assms by (auto simp: at_point_def Let_def kept_by_others_def split: option.splits)

lemma durableD:
  assumes "durable Q" "us_rows s' = us_rows s" "us_chunks s' = us_chunks s"
    "us_synced s' = us_synced s" "us_files s' = us_files s"
  shows "Q s' = Q s"
  using assms unfolding durable_def by blast

lemma stop_heartbeat_keeps: "durable Q \<Longrightarrow> Q (stop_heartbeat i token s) = Q s"
  by (erule durableD) (simp_all add: stop_heartbeat_def)

lemma spawn_heartbeat_keeps: "durable Q \<Longrightarrow> Q (spawn_heartbeat i token s) = Q s"
  by (erule durableD) (simp_all add: spawn_heartbeat_def)

lemma upd_mem_keeps: "durable Q \<Longrightarrow> Q (upd_mem i f s) = Q s"
  by (erule durableD) (simp_all add: upd_mem_def split: option.splits)

lemma reload_keeps: "durable Q \<Longrightarrow> Q (reload_session_from_db i s) = Q s"
  by (erule durableD) (simp_all add: reload_session_from_db_def split: sum.splits)

lemma or_stop_keeps: "durable Q \<Longrightarrow> Q (snd r) \<Longrightarrow> Q (snd (or_stop i token r))"
  using stop_heartbeat_keeps[of Q i token "snd r"] by (auto simp: or_stop_def split: prod.splits sum.splits)

lemma read_file_keeps: "snd (read_file f s) = s"
  by (simp add: read_file_def split: option.splits)

lemma mark_failed_fenced:
  assumes "\<not> holds_lease cfg token i s" "durable Q"
  shows "Q (snd (mark_upload_failed_as_owner cfg i token fc code msg s)) = Q s"
  using assms
  by (auto simp: mark_upload_failed_as_owner_def holds_lease_def reload_keeps[OF assms(2)] split: option.splits)

lemma fail_terminal_fenced:
  assumes "durable Q" "kept_by_others env Q" "\<And>s. Q s \<Longrightarrow> \<not> holds_lease cfg token i s" "Q s"
  shows "Q (snd (fail_terminal cfg env i token code msg e s))"
proof -
  have "Q (snd (at_point env 36 (mark_upload_failed_as_owner cfg i token Terminal (code_as_db_str code) msg)
        (stop_heartbeat i token s)))"
    by (rule at_point_keeps[where Q = Q, OF assms(2)])
      (simp_all add: stop_heartbeat_keeps[OF assms(1)] mark_failed_fenced[OF assms(3) assms(1)] assms(4))
  then show ?thesis unfolding fail_terminal_def snd_conv .
qed

lemma if_keeps: "(b \<Longrightarrow> Q (snd x)) \<Longrightarrow> (\<not> b \<Longrightarrow> Q (snd y)) \<Longrightarrow> Q (snd (if b then x else y))"
  by simp

lemma verify_content_fenced:
  assumes d: "durable Q" "kept_by_others env Q" "\<And>s. Q s \<Longrightarrow> \<not> holds_lease cfg token i s" and q: "Q s"
  shows "Q (snd (verify_content cfg sha256 env i m token t s))"
  unfolding verify_content_def Let_def
  by (intro then_do_keeps[where Q = Q] if_keeps[where Q = Q] fail_terminal_fenced[OF d]
        at_point_keeps[OF d(2)] or_stop_keeps[OF d(1)])
    (simp_all only: q read_file_keeps snd_conv)

lemma open_target_keeps:
  assumes "kept_by_others env Q" "Q s" shows "Q (snd (open_target env i s))"
  using assms by (auto simp: open_target_def Let_def kept_by_others_def)

lemma verify_file_fenced:
  assumes d: "durable Q" "kept_by_others env Q" "\<And>s. Q s \<Longrightarrow> \<not> holds_lease cfg token i s" and q: "Q s"
  shows "Q (snd (verify_file cfg sha256 env i m token s))"
proof -
  have art: "Q (snd (verify_artifact cfg sha256 env i m token s))" if "Q s" for s
  proof -
    obtain t s2 where t: "open_target env i s = (t, s2)" by fastforce
    then have q2: "Q s2" using open_target_keeps[OF d(2) that, of i] by simp
    show ?thesis
    proof (cases t)
      case None
      then show ?thesis
        unfolding verify_artifact_def t Let_def by (simp add: fail_terminal_fenced[OF d q2])
    next
      case (Some a)
      have "Q (snd (then_do (verify_content cfg sha256 env i m token a s2) (\<lambda>_ st. (Inr a, st))))"
        by (rule then_do_keeps[where Q = Q, OF verify_content_fenced[OF d q2]]) (simp_all only: snd_conv)
      then show ?thesis unfolding verify_artifact_def t Some by simp
    qed
  qed
  have "Q (snd (case missing_chunk m received of
        Some k \<Rightarrow> fail_terminal cfg env i token FcMissingChunk (msg k) e s
      | None \<Rightarrow> verify_artifact cfg sha256 env i m token s))" if "Q s" for received msg e s
    using that by (cases "missing_chunk m received") (simp_all add: art fail_terminal_fenced[OF d])
  then show ?thesis
    unfolding verify_file_def
    by (intro then_do_keeps[where Q = Q] at_point_keeps[OF d(2)]) (simp_all only: q snd_conv)
qed

lemma promote_fenced:
  assumes d: "durable Q" "kept_by_others env Q" "\<And>s. Q s \<Longrightarrow> \<not> holds_lease cfg token i s" and q: "Q s"
  shows "Q (snd (promote_and_complete cfg env i m token t s))"
    and "is_err (fst (promote_and_complete cfg env i m token t s))"
proof -
  let ?s1 = "fe_other env 31 s"
  have q1: "Q ?s1" using d(2) q by (simp add: kept_by_others_def)
  have "\<exists>e. assert_finalization_owner cfg (fe_now env 31) i token ?s1 = (Inl e, ?s1)"
    using d(3)[OF q1] by (auto simp: assert_finalization_owner_def holds_lease_def split: option.splits)
  then have "\<exists>e. promote_and_complete cfg env i m token t s = (Inl e, stop_heartbeat i token ?s1)"
    by (auto simp: promote_and_complete_def at_point_def Let_def or_stop_def split: option.splits)
  then show "Q (snd (promote_and_complete cfg env i m token t s))"
    and "is_err (fst (promote_and_complete cfg env i m token t s))"
    using q1 by (auto simp: stop_heartbeat_keeps[OF d(1)])
qed

lemma finalize_fenced:
  assumes d: "durable Q" "kept_by_others env Q" "\<And>s. Q s \<Longrightarrow> \<not> holds_lease cfg token i s" and q: "Q s"
  shows "Q (snd (finalize_owned cfg sha256 env i m token s)) \<and>
         is_err (fst (finalize_owned cfg sha256 env i m token s))"
proof -
  let ?s0 = "spawn_heartbeat i token (note_acquired cfg env i token (fe_other env 25 s))"
  have "Q (fe_other env 25 s)" using d(2) q by (simp add: kept_by_others_def)
  then have "Q (note_acquired cfg env i token (fe_other env 25 s))"
    by (simp add: note_acquired_def upd_mem_keeps[OF d(1)])
  then have q0: "Q ?s0" by (simp add: spawn_heartbeat_keeps[OF d(1)])
  obtain r s1 where v: "verify_file cfg sha256 env i m token ?s0 = (r, s1)" by fastforce
  then have "Q s1" using verify_file_fenced[OF d q0, of sha256 m] by simp
  then show ?thesis
    using promote_fenced[OF d] by (cases r) (simp_all add: finalize_owned_def Let_def v)
qed


lemma contended_token:
  assumes "acquire_contended cfg env i st = (Inr (Some t), st1)"
  shows "\<exists>r. us_rows st1 i = Some r \<and> ur_finalize_token r = Some t"
  using assms
  by (auto simp: acquire_contended_def run_ok takeover_cas_def claim_row_def
      split: option.splits UploadStatus.splits if_splits)

lemma acquired_token:
  assumes "acquire_finalization cfg env i st = (Inr (Some t), st1)"
  shows "\<exists>r. us_rows st1 i = Some r \<and> ur_finalize_token r = Some t"
proof -
  from assms obtain w s1 where w: "try_acquire cfg (fe_now env 1) (fe_uuid env 1) i (fe_other env 2 st) = (Inr w, s1)"
    and a2: "(if w then (Inr (Some (fe_uuid env 1)), s1) else acquire_contended cfg env i s1) = (Inr (Some t), st1)"
    unfolding acquire_finalization_def then_do_ok at_point_ok by blast
  then show ?thesis using contended_token[of cfg env i s1 t st1]
    by (auto simp: try_acquire_def claim_row_def split: if_splits option.splits)
qed

section \<open>Recovery\<close>

definition outcomes :: "SyncRecoveryReport \<Rightarrow> nat" where
  "outcomes rep = rr_completed rep + rr_deferred rep + rr_terminal_failures rep
     + rr_transient_failures rep + rr_invalid_rows rep"

lemma count_outcome_outcomes:
  "outcomes (count_outcome r rep) = outcomes rep + 1"
  "rr_candidates (count_outcome r rep) = rr_candidates rep"
  by (induction r rep rule: count_outcome.induct) (simp_all add: outcomes_def)

lemma invalid_row_outcomes:
  "outcomes (rep\<lparr>rr_invalid_rows := rr_invalid_rows rep + 1\<rparr>) = outcomes rep + 1"
  by (simp add: outcomes_def)

lemma recover_rows_outcomes:
  "outcomes (fst (recover_rows cfg sha256 pu envs ss rep st)) = outcomes rep + length ss \<and>
   rr_candidates (fst (recover_rows cfg sha256 pu envs ss rep st)) = rr_candidates rep"
  by (induction ss arbitrary: rep st)
    (simp_all add: count_outcome_outcomes invalid_row_outcomes[simplified] Let_def split: option.splits prod.splits)

end
