(* ===== verification/Upload_Flow.thy ===== *)
theory Upload_Flow
  imports Upload_Theorems
begin

text \<open>
  The life of an undisturbed upload: the geometry of the chunks, reassembly of the file from chunks
  written at their offsets in any order, retransmission, and the end-to-end theorem that an upload
  whose chunks arrive in any order completes with exactly the announced file.
\<close>

section \<open>Chunk geometry\<close>

definition piece :: "nat \<Rightarrow> u8 list \<Rightarrow> nat \<Rightarrow> u8 list" where
  "piece c d k = take c (drop (k * c) d)"

lemma length_piece: "length (piece c d k) = min c (length d - k * c)"
  by (simp add: piece_def min.commute)

lemma div_ceil_covers:
  assumes "0 < c" shows "n \<le> div_ceil n c * c"
proof (cases "n mod c = 0")
  case True
  then show ?thesis using div_mult_mod_eq[of n c] by (simp add: div_ceil_def)
next
  case False
  then have "div_ceil n c * c = n div c * c + c" by (simp add: div_ceil_def)
  then show ?thesis using div_mult_mod_eq[of n c] mod_less_divisor[OF assms, of n] by linarith
qed

lemma before_div_ceil:
  assumes "0 < c" "k < div_ceil n c" shows "k * c < n"
proof (cases "n mod c = 0")
  case True
  then have "k < n div c" using assms by (simp add: div_ceil_def)
  then have "k * c < n div c * c" using assms(1) by simp
  also have "\<dots> \<le> n" by simp
  finally show ?thesis .
next
  case False
  then have "k * c \<le> n div c * c" using assms by (simp add: div_ceil_def)
  also have "\<dots> < n" using False div_mult_mod_eq[of n c] by linarith
  finally show ?thesis .
qed

lemma expected_chunk_size_min:
  assumes c: "0 < um_chunk_size m" and n: "um_total_chunks m = div_ceil N (um_chunk_size m)"
    and s: "um_file_size m = int N" "N < 2 ^ 63" and k: "k < um_total_chunks m"
  shows "expected_chunk_size m k = min (um_chunk_size m) (N - k * um_chunk_size m)"
proof -
  let ?c = "um_chunk_size m" and ?n = "um_total_chunks m"
  have N: "nat (um_file_size m mod 2 ^ 64) = N" using s by simp
  show ?thesis
  proof (cases "k = ?n - 1")
    case True
    have "N - k * ?c = ?c" if r: "N mod ?c = 0"
    proof -
      have N: "N = ?n * ?c" using r n div_mult_mod_eq[of N ?c] by (simp add: div_ceil_def)
      have "?n = k + 1" using True k by simp
      then show ?thesis by (subst N) simp
    qed
    moreover have "N mod ?c \<noteq> 0 \<Longrightarrow> N - k * ?c = N mod ?c"
      using True n by (simp add: div_ceil_def minus_div_mult_eq_mod)
    ultimately show ?thesis using True c N by (auto simp: expected_chunk_size_def Let_def)
  next
    case False
    then have "k + 1 < ?n" using k by simp
    then have "(k + 1) * ?c < N" using before_div_ceil[OF c, of "k + 1" N] n by simp
    then have "?c \<le> N - k * ?c" by simp
    then show ?thesis using False by (simp add: expected_chunk_size_def)
  qed
qed

lemma sum_min_pieces: "(\<Sum>k<j. min c (N - k * c)) = min (j * c) (N::nat)"
  by (induction j) auto


section \<open>Reassembly\<close>

lemma length_write_at: "length (write_at off x f) = max (length f) (off + length x)"
  by (auto simp: write_at_def)

lemma nth_write_at:
  assumes "p < length (write_at off x f)"
  shows "write_at off x f ! p =
    (if p < off then (if p < length f then f ! p else 0)
     else if p < off + length x then x ! (p - off) else f ! p)"
proof -
  let ?pre = "take off f @ replicate (off - length f) 0"
  have l: "length ?pre = off" by auto
  have e: "write_at off x f = ?pre @ x @ drop (off + length x) f" by (simp add: write_at_def)
  have plen: "p < max (length f) (off + length x)" using assms by (simp add: length_write_at)
  consider "p < off" | "off \<le> p" "p < off + length x" | "off + length x \<le> p" by linarith
  then show ?thesis
  proof cases
    case 1
    then have "write_at off x f ! p = ?pre ! p" unfolding e using l by (subst nth_append) simp
    also have "\<dots> = (if p < length f then f ! p else 0)" using 1 by (simp add: nth_append)
    finally show ?thesis using 1 by simp
  next
    case 2
    then have "write_at off x f ! p = (x @ drop (off + length x) f) ! (p - off)"
      unfolding e using l by (subst nth_append) simp
    also have "\<dots> = x ! (p - off)" using 2 by (subst nth_append) (simp add: less_diff_conv2)
    finally show ?thesis using 2 by simp
  next
    case 3
    then have "write_at off x f ! p = (x @ drop (off + length x) f) ! (p - off)"
      unfolding e using l by (subst nth_append) simp
    also have "\<dots> = drop (off + length x) f ! (p - off - length x)"
      using 3 by (subst nth_append) (simp add: less_diff_conv2)
    also have "\<dots> = f ! p" using 3 plen by simp
    finally show ?thesis using 3 by simp
  qed
qed

text \<open>The staged file \<open>f\<close> agrees with the data \<open>d\<close> on the chunks received so far.\<close>

definition agrees :: "nat \<Rightarrow> u8 list \<Rightarrow> nat set \<Rightarrow> u8 list \<Rightarrow> bool" where
  "agrees c d S f \<longleftrightarrow>
     length f \<le> length d \<and> (\<forall>p < length d. p div c \<in> S \<longrightarrow> p < length f \<and> f ! p = d ! p)"

lemma agrees_empty: "agrees c d {} []"
  by (simp add: agrees_def)

lemma agrees_write:
  assumes c: "0 < c" and a: "agrees c d S f" and k: "k * c < length d"
  shows "agrees c d (insert k S) (write_at (k * c) (piece c d k) f)"
proof -
  let ?w = "write_at (k * c) (piece c d k) f"
  have len: "length ?w = max (length f) (min (k * c + c) (length d))"
    using k by (simp add: length_write_at length_piece min_def)
  have "p < length ?w \<and> ?w ! p = d ! p" if p: "p < length d" "p div c \<in> insert k S" for p
  proof (cases "p div c = k")
    case True
    then have kp: "k * c \<le> p" "p < k * c + c"
      using c div_times_less_eq_dividend[of p c] dividend_less_div_times[OF c, of p] by auto
    then have "p < length ?w" using p(1) by (simp add: len)
    moreover have "piece c d k ! (p - k * c) = d ! p"
      using kp p(1) by (simp add: piece_def)
    moreover have "p < k * c + min c (length d - k * c)" using kp p(1) by linarith
    ultimately show ?thesis using kp p(1) by (simp add: nth_write_at length_piece)
  next
    case False
    then have f: "p < length f" "f ! p = d ! p" using a p by (auto simp: agrees_def)
    have "p < k * c \<or> k * c + c \<le> p"
    proof (rule ccontr)
      assume "\<not> ?thesis"
      then have "p div c = k" using c by (simp add: div_nat_eqI mult.commute)
      then show False using False by simp
    qed
    then show ?thesis using f by (auto simp: nth_write_at len length_piece)
  qed
  moreover have "length ?w \<le> length d" using a by (auto simp: len agrees_def)
  ultimately show ?thesis unfolding agrees_def by blast
qed

lemma agrees_all:
  assumes c: "0 < c" and a: "agrees c d S f" and S: "{..<div_ceil (length d) c} \<subseteq> S"
  shows "f = d"
proof (rule nth_equalityI)
  have all: "p < length f \<and> f ! p = d ! p" if p: "p < length d" for p
  proof -
    have "p < div_ceil (length d) c * c" using p div_ceil_covers[OF c, of "length d"] by linarith
    then have "p div c < div_ceil (length d) c" by (simp add: c div_less_iff_less_mult)
    then show ?thesis using a p S by (auto simp: agrees_def)
  qed
  show "length f = length d"
  proof (rule antisym)
    show "length f \<le> length d" using a by (simp add: agrees_def)
    show "length d \<le> length f" using all by (meson leI less_irrefl)
  qed
  then show "f ! p = d ! p" if "p < length f" for p using all that by simp
qed


section \<open>An undisturbed session\<close>

text \<open>No failure, no other task, and a clock that stays inside the lease.\<close>

definition quiet :: "SyncRuntimeConfig \<Rightarrow> FinalizeEnv \<Rightarrow> bool" where
  "quiet cfg env \<longleftrightarrow>
     (\<forall>k. fe_fail env k = None) \<and> (\<forall>k s. fe_other env k s = s) \<and> fe_heartbeat env = None \<and>
     fe_now env 31 < fe_now env 1 + rc_finalize_lease_duration cfg \<and>
     fe_now env 33 < fe_now env 1 + rc_finalize_lease_duration cfg"

lemma quiet_point: "quiet cfg env \<Longrightarrow> at_point env k f st = f st"
  by (simp add: quiet_def at_point_def Let_def)

lemma quiet_other: "quiet cfg env \<Longrightarrow> fe_other env k st = st"
  by (simp add: quiet_def)

lemma quiet_fail: "quiet cfg env \<Longrightarrow> fe_fail env k = None"
  by (simp add: quiet_def)

definition chunk_count :: "SyncRuntimeConfig \<Rightarrow> u8 list \<Rightarrow> nat" where
  "chunk_count cfg d = div_ceil (length d) (rc_chunk_size cfg)"

text \<open>The initiator announces the file it has, within what the protocol can represent.\<close>

definition announces :: "SyncRuntimeConfig \<Rightarrow> (u8 list \<Rightarrow> string) \<Rightarrow> UploadInit \<Rightarrow> u8 list \<Rightarrow> bool" where
  "announces cfg sha256 u d \<longleftrightarrow>
     d \<noteq> [] \<and> length d < 2 ^ 63 \<and> 0 < rc_chunk_size cfg \<and> chunk_count cfg d < 2 ^ 32 \<and>
     ui_file_size u = int (length d) \<and> ui_expected_hash u = sha256 d \<and>
     is_valid_sha256_hex (sha256 d) \<and>
     (\<forall>k < chunk_count cfg d. is_valid_sha256_hex (sha256 (piece (rc_chunk_size cfg) d k)))"

definition chunk_for :: "SyncRuntimeConfig \<Rightarrow> (u8 list \<Rightarrow> string) \<Rightarrow> uuid \<Rightarrow> u8 list \<Rightarrow> nat \<Rightarrow> UploadChunk" where
  "chunk_for cfg sha256 i d k =
     \<lparr>ch_file_id = i, ch_chunk_index = k, ch_total_chunks = chunk_count cfg d,
      ch_data = piece (rc_chunk_size cfg) d k, ch_chunk_hash = sha256 (piece (rc_chunk_size cfg) d k)\<rparr>"

lemma chunk_for_sel [simp]:
  "ch_file_id (chunk_for cfg sha256 i d k) = i"
  "ch_chunk_index (chunk_for cfg sha256 i d k) = k"
  "ch_total_chunks (chunk_for cfg sha256 i d k) = chunk_count cfg d"
  "ch_data (chunk_for cfg sha256 i d k) = piece (rc_chunk_size cfg) d k"
  "ch_chunk_hash (chunk_for cfg sha256 i d k) = sha256 (piece (rc_chunk_size cfg) d k)"
  by (simp_all add: chunk_for_def)

definition session_at ::
  "SyncRuntimeConfig \<Rightarrow> (u8 list \<Rightarrow> string) \<Rightarrow> uuid \<Rightarrow> UploadInit \<Rightarrow> u8 list \<Rightarrow> nat set \<Rightarrow> UploadState \<Rightarrow> bool" where
  "session_at cfg sha256 i u d S st \<longleftrightarrow>
     us_mem st i = Some ((new_meta cfg u (chunk_count cfg d))\<lparr>um_received_chunks := S\<rparr>) \<and>
     us_rows st i = Some (new_row cfg u (chunk_count cfg d)) \<and>
     (\<forall>k. map_of (us_chunks st) (i, k) =
        (if k \<in> S then Some (sha256 (piece (rc_chunk_size cfg) d k), length (piece (rc_chunk_size cfg) d k))
         else None)) \<and>
     S \<subseteq> {..<chunk_count cfg d} \<and>
     (case us_files st (part_name i) of
        None \<Rightarrow> S = {} | Some f \<Rightarrow> agrees (rc_chunk_size cfg) d S f)"

lemma announcesD:
  assumes "announces cfg sha256 u d"
  shows "0 < rc_chunk_size cfg" "d \<noteq> []" "length d < 2 ^ 63" "chunk_count cfg d < 2 ^ 32"
    "ui_file_size u = int (length d)" "ui_expected_hash u = sha256 d" "is_valid_sha256_hex (sha256 d)"
    "k < chunk_count cfg d \<Longrightarrow> is_valid_sha256_hex (sha256 (piece (rc_chunk_size cfg) d k))"
  using assms by (simp_all only: announces_def) simp_all

lemma session_atD:
  assumes "session_at cfg sha256 i u d S st"
  shows "us_mem st i = Some ((new_meta cfg u (chunk_count cfg d))\<lparr>um_received_chunks := S\<rparr>)"
    "us_rows st i = Some (new_row cfg u (chunk_count cfg d))"
    "map_of (us_chunks st) (i, k) =
       (if k \<in> S then Some (sha256 (piece (rc_chunk_size cfg) d k), length (piece (rc_chunk_size cfg) d k))
        else None)"
    "S \<subseteq> {..<chunk_count cfg d}"
    "us_files st (part_name i) = None \<Longrightarrow> S = {}"
    "us_files st (part_name i) = Some f \<Longrightarrow> agrees (rc_chunk_size cfg) d S f"
  using assms by (simp_all add: session_at_def split: option.splits)

lemma received_map_of: "k \<in> received_in_db i st \<longleftrightarrow> map_of (us_chunks st) (i, k) \<noteq> None"
proof -
  have "k \<in> received_in_db i st \<longleftrightarrow> (i, k) \<in> fst ` set (us_chunks st)"
    by (force simp: received_in_db_def)
  then show ?thesis by (simp add: map_of_eq_None_iff)
qed

lemma session_received: "session_at cfg sha256 i u d S st \<Longrightarrow> received_in_db i st = S"
  by (rule set_eqI) (simp add: received_map_of session_atD(3))

lemma before_end:
  assumes "announces cfg sha256 u d" "k < chunk_count cfg d"
  shows "k * rc_chunk_size cfg < length d"
  using before_div_ceil[OF announcesD(1)[OF assms(1)]] assms(2) by (simp add: chunk_count_def)

lemma count_pos:
  assumes "announces cfg sha256 u d" shows "0 < chunk_count cfg d"
proof (rule ccontr)
  assume "\<not> ?thesis"
  then have "length d \<le> 0"
    using div_ceil_covers[OF announcesD(1)[OF assms], of "length d"] by (simp add: chunk_count_def)
  then show False using announcesD(2)[OF assms] by simp
qed

lemma piece_nonempty:
  assumes "announces cfg sha256 u d" "k < chunk_count cfg d"
  shows "piece (rc_chunk_size cfg) d k \<noteq> []"
proof -
  have "0 < length (piece (rc_chunk_size cfg) d k)"
    using before_end[OF assms] announcesD(1)[OF assms(1)] by (simp add: length_piece)
  then show ?thesis by simp
qed

lemma expected_piece:
  assumes a: "announces cfg sha256 u d" and k: "k < chunk_count cfg d"
  shows "expected_chunk_size ((new_meta cfg u (chunk_count cfg d))\<lparr>um_received_chunks := S\<rparr>) k
         = length (piece (rc_chunk_size cfg) d k)"
proof -
  let ?m = "(new_meta cfg u (chunk_count cfg d))\<lparr>um_received_chunks := S\<rparr>"
  have "expected_chunk_size ?m k = min (um_chunk_size ?m) (length d - k * um_chunk_size ?m)"
    using announcesD(3)[OF a]
    by (intro expected_chunk_size_min) (simp_all add: new_meta_def announcesD[OF a] k flip: chunk_count_def)
  then show ?thesis by (simp add: new_meta_def length_piece)
qed


subsection \<open>One chunk\<close>

lemma chunk_for_valid:
  assumes a: "announces cfg sha256 u d" and k: "k < chunk_count cfg d"
  shows "validate_chunk sha256 (chunk_for cfg sha256 i d k) = Inr ()"
    and "validate_against_session ((new_meta cfg u (chunk_count cfg d))\<lparr>um_received_chunks := S\<rparr>)
           (chunk_for cfg sha256 i d k) = Inr ()"
proof -
  show "validate_chunk sha256 (chunk_for cfg sha256 i d k) = Inr ()"
    using piece_nonempty[OF a k] announcesD(8)[OF a k] k
    by (simp add: validate_chunk_def chunk_for_def)
  show "validate_against_session ((new_meta cfg u (chunk_count cfg d))\<lparr>um_received_chunks := S\<rparr>)
           (chunk_for cfg sha256 i d k) = Inr ()"
    using expected_piece[OF a k, of S] k announcesD(1)[OF a]
    by (simp add: validate_against_session_def chunk_for_def) (simp add: new_meta_def)
qed

text \<open>The state after a new chunk is written, recorded and noted, before finalization.\<close>

definition stored :: "SyncRuntimeConfig \<Rightarrow> (u8 list \<Rightarrow> string) \<Rightarrow> uuid \<Rightarrow> u8 list \<Rightarrow> nat \<Rightarrow> UploadState \<Rightarrow> UploadState" where
  "stored cfg sha256 i d k st =
     (let p = piece (rc_chunk_size cfg) d k in
      upd_mem i (\<lambda>m. m\<lparr>um_received_chunks := insert k (um_received_chunks m)\<rparr>)
        (st\<lparr>us_files := (us_files st)(part_name i \<mapsto> write_at (k * rc_chunk_size cfg) p
              (case us_files st (part_name i) of Some f \<Rightarrow> f | None \<Rightarrow> [])),
            us_chunks := us_chunks st @ [((i, k), sha256 p, length p)]\<rparr>))"

lemma stored_session:
  assumes a: "announces cfg sha256 u d" and s: "session_at cfg sha256 i u d S st"
    and k: "k < chunk_count cfg d" "k \<notin> S"
  shows "session_at cfg sha256 i u d (insert k S) (stored cfg sha256 i d k st)"
proof -
  let ?c = "rc_chunk_size cfg" and ?s' = "stored cfg sha256 i d k st"
  let ?f = "case us_files st (part_name i) of Some f \<Rightarrow> f | None \<Rightarrow> []"
  have "agrees ?c d S ?f"
    using session_atD(5,6)[OF s] agrees_empty by (auto split: option.split)
  from agrees_write[OF announcesD(1)[OF a] this before_end[OF a k(1)]]
  have agr: "agrees ?c d (insert k S) (write_at (k * ?c) (piece ?c d k) ?f)" .
  have parts: "us_mem ?s' i = Some ((new_meta cfg u (chunk_count cfg d))\<lparr>um_received_chunks := insert k S\<rparr>)"
    "us_rows ?s' = us_rows st"
    "us_chunks ?s' = us_chunks st @ [((i, k), sha256 (piece ?c d k), length (piece ?c d k))]"
    "us_files ?s' (part_name i) = Some (write_at (k * ?c) (piece ?c d k) ?f)"
    by (simp_all add: stored_def Let_def upd_mem_def session_atD(1)[OF s])
  have "map_of (us_chunks ?s') (i, j) =
     (if j \<in> insert k S then Some (sha256 (piece ?c d j), length (piece ?c d j)) else None)" for j
    using session_atD(3)[OF s, of j] k(2)
    by (auto simp: parts map_add_def split: option.splits)
  then show ?thesis
    using session_atD(2,4)[OF s] k(1) agr by (simp add: session_at_def parts)
qed

lemma store_chunk_quiet:
  assumes a: "announces cfg sha256 u d" and s: "session_at cfg sha256 i u d S st"
    and k: "k < chunk_count cfg d" "k \<notin> S" and q: "quiet cfg env"
  shows "upload_chunk cfg sha256 env fin (chunk_for cfg sha256 i d k) st =
    (let st = stored cfg sha256 i d k st in
     then_do (if {..<chunk_count cfg d} \<subseteq> insert k S then verify_and_finalize_upload cfg sha256 fin i st
              else (Inr (), st)) (\<lambda>_ st.
       (let (loaded, st) = get_or_load_session i st;
            refreshed = (case loaded of Inr r \<Rightarrow> r
                         | Inl _ \<Rightarrow> (new_meta cfg u (chunk_count cfg d))\<lparr>um_received_chunks := S\<rparr>) in
        (Inr (progress_of i (card (insert k S)) (max (chunk_count cfg d) 1) refreshed), st))))"
proof -
  let ?m = "(new_meta cfg u (chunk_count cfg d))\<lparr>um_received_chunks := S\<rparr>"
  let ?m' = "(new_meta cfg u (chunk_count cfg d))\<lparr>um_received_chunks := insert k S\<rparr>"
  let ?ch = "chunk_for cfg sha256 i d k"
  have load: "get_or_load_session i st = (Inr ?m, st)"
    by (simp add: get_or_load_session_def session_atD(1)[OF s])
  have none: "map_of (us_chunks st) (i, k) = None" using session_atD(3)[OF s] k(2) by simp
  have up: "upload_chunk cfg sha256 env fin ?ch st = store_chunk cfg sha256 env fin ?ch ?m st"
    unfolding upload_chunk_def chunk_for_valid(1)[OF a k(1)]
    by (simp add: quiet_point[OF q] load chunk_for_valid(2)[OF a k(1)] none)
  have off: "\<not> 2 ^ 64 \<le> k * rc_chunk_size cfg"
    using before_end[OF a k(1)] announcesD(3)[OF a] by simp
  have mem: "us_mem (stored cfg sha256 i d k st) i = Some ?m'"
    by (rule session_atD(1)[OF stored_session[OF a s k]])
  have all: "all_received ?m' \<longleftrightarrow> {..<chunk_count cfg d} \<subseteq> insert k S"
    using count_pos[OF a] by (auto simp: all_received_def new_meta_def list_all_iff)
  let ?w = "write_at (k * rc_chunk_size cfg) (piece (rc_chunk_size cfg) d k)
    (case us_files st (part_name i) of Some f \<Rightarrow> f | None \<Rightarrow> [])"
  let ?s1 = "st\<lparr>us_files := (us_files st)(part_name i \<mapsto> ?w)\<rparr>"
  let ?s2 = "?s1\<lparr>us_chunks := us_chunks st @ [((i, k), sha256 (piece (rc_chunk_size cfg) d k),
      length (piece (rc_chunk_size cfg) d k))]\<rparr>"
  have w: "write_part (part_name i) (k * um_chunk_size ?m) (piece (rc_chunk_size cfg) d k) st = (Inr (), ?s1)"
    by (simp add: write_part_def new_meta_def)
  have r: "insert_chunk_or_ignore i k (sha256 (piece (rc_chunk_size cfg) d k))
      (length (piece (rc_chunk_size cfg) d k)) ?s1 = (Inr (), ?s2)"
    by (simp add: insert_chunk_or_ignore_def none)
  have st: "upd_mem i (\<lambda>m. m\<lparr>um_received_chunks := insert k (um_received_chunks m)\<rparr>) ?s2
      = stored cfg sha256 i d k st"
    by (simp add: stored_def Let_def)
  have sz: "um_chunk_size ?m = rc_chunk_size cfg" "um_total_chunks ?m' = chunk_count cfg d"
    by (simp_all add: new_meta_def)
  show ?thesis
    unfolding up store_chunk_def Let_def chunk_for_sel quiet_point[OF q] w r then_do_simps
      quiet_other[OF q] st mem option.case all
    using off by (simp add: sz)
qed


lemma chunk_step:
  assumes a: "announces cfg sha256 u d" and s: "session_at cfg sha256 i u d S st"
    and k: "k < chunk_count cfg d" "k \<notin> S" and q: "quiet cfg env"
    and more: "\<not> {..<chunk_count cfg d} \<subseteq> insert k S"
  shows "\<exists>p st'. upload_chunk cfg sha256 env fin (chunk_for cfg sha256 i d k) st = (Inr p, st') \<and>
           session_at cfg sha256 i u d (insert k S) st' \<and> up_uploaded_chunks p = card (insert k S) \<and>
           \<not> up_completed p"
proof -
  note s' = stored_session[OF a s k]
  have "get_or_load_session i (stored cfg sha256 i d k st) =
    (Inr ((new_meta cfg u (chunk_count cfg d))\<lparr>um_received_chunks := insert k S\<rparr>), stored cfg sha256 i d k st)"
    by (simp add: get_or_load_session_def session_atD(1)[OF s'])
  then show ?thesis
    unfolding store_chunk_quiet[OF a s k q] using more s'
    by (simp add: Let_def progress_of_def new_meta_def)
qed

subsection \<open>Finalization\<close>

definition completed_at :: "SyncRuntimeConfig \<Rightarrow> uuid \<Rightarrow> string \<Rightarrow> u8 list \<Rightarrow> UploadState \<Rightarrow> bool" where
  "completed_at cfg i h d st \<longleftrightarrow>
     us_files st i = Some d \<and> us_files st (part_name i) = None \<and>
     (\<exists>r. us_rows st i = Some r \<and> ur_status r = ''completed'') \<and>
     (\<exists>m. us_mem st i = Some m \<and> um_status m = StCompleted) \<and>
     check_file_exists h st \<noteq> None"

lemma quiet_acquire:
  assumes q: "quiet cfg env" and s: "session_at cfg sha256 i u d S st"
  shows "acquire_finalization cfg env i st = (Inr (Some (fe_uuid env 1)),
    st\<lparr>us_rows := (us_rows st)(i \<mapsto> (claim_row cfg (fe_now env 1) (fe_uuid env 1)
      (new_row cfg u (chunk_count cfg d)))\<lparr>ur_status := ''finalizing'', ur_last_error := None\<rparr>)\<rparr>)"
proof -
  have "may_acquire (new_row cfg u (chunk_count cfg d))" by (simp add: may_acquire_def new_row_def)
  then show ?thesis
    by (simp add: acquire_finalization_def quiet_point[OF q] try_acquire_def session_atD(2)[OF s])
qed

lemma quiet_verify:
  assumes q: "quiet cfg env" and m: "um_total_chunks m = n" "um_file_size m = int (length d)"
      "um_expected_hash m = sha256 d"
    and s: "{..<n} \<subseteq> received_in_db i st" "us_files st (part_name i) = Some d"
  shows "verify_file cfg sha256 env i m token st = (Inr (part_name i), st)"
proof -
  have "missing_chunk m (received_in_db i st) = None" by (simp add: missing_chunk_none m(1) s(1))
  moreover have "open_target env i st = (Some (part_name i), st)"
    using s(2) quiet_fail[OF q] by (simp add: open_target_def quiet_other[OF q] metadata_ok_def)
  moreover have "verify_content cfg sha256 env i m token (part_name i) st = (Inr (), st)"
    unfolding verify_content_def quiet_point[OF q] read_file_def
    by (simp only: m s(2) Let_def option.case then_do_simps simp_thms if_False or_stop_def prod.case sum.case)
  ultimately show ?thesis by (simp add: verify_file_def verify_artifact_def quiet_point[OF q])
qed

lemma quiet_promote:
  assumes q: "quiet cfg env" and f: "us_files st (part_name i) = Some d"
    and r: "us_rows st i = Some r" "owns_row cfg token r"
      "ur_finalize_lease_until r = Some (lease_from cfg (fe_now env 1))"
    and v: "list_all sf_checksum_verified (us_synced st)" and m: "us_mem st i = Some m'"
  shows "\<exists>st'. promote_and_complete cfg env i m token (part_name i) st = (Inr (), st') \<and>
           completed_at cfg i (um_expected_hash m) d st'"
proof -
  have fence: "assert_finalization_owner cfg (fe_now env k) i token s = (Inr (), s)"
    if "us_rows s = us_rows st" "k \<in> {31, 33}" for k s
    using q that r by (auto simp: assert_finalization_owner_def lease_from_def quiet_def)
  let ?f = "uploaded_file cfg env i m"
  let ?s1 = "st\<lparr>us_files := (us_files st)(part_name i := None, i \<mapsto> d)\<rparr>"
  let ?s2 = "register_uploaded_file ?f ?s1"
  let ?s3 = "stop_heartbeat i token ?s2"
  have s3: "us_rows ?s3 = us_rows st" "us_mem ?s3 = us_mem st" "us_files ?s3 = us_files ?s1"
    "us_synced ?s3 = us_synced ?s2"
    by (simp_all add: stop_heartbeat_def register_uploaded_file_def)
  have rn: "rename_file (part_name i) i st = (Inr (), ?s1)" by (simp add: rename_file_def f)
  have hb: "complete_owned cfg env i token ?s2 = mark_upload_completed cfg i token ?s3"
    using q unfolding complete_owned_def quiet_point[OF q] by (simp add: quiet_def Let_def)
  obtain st' where st': "mark_upload_completed cfg i token ?s3 = (Inr (), st')"
    "us_files st' = us_files ?s1" "us_synced st' = us_synced ?s2"
    "\<exists>r. us_rows st' i = Some r \<and> ur_status r = ''completed''"
    "\<exists>m. us_mem st' i = Some m \<and> um_status m = StCompleted"
    using r(1,2) m s3 by (simp add: mark_upload_completed_def upd_mem_def)
  have "promote_and_complete cfg env i m token (part_name i) st = (Inr (), st')"
    unfolding promote_and_complete_def quiet_point[OF q]
    by (simp add: fence or_stop_def rn hb st'(1))
  moreover have "check_file_exists (um_expected_hash m) st' \<noteq> None"
  proof -
    obtain g where g: "g \<in> set (us_synced ?s2)" "sf_file_hash g = um_expected_hash m"
      using registered[of ?f ?s1] by (auto simp: uploaded_file_def)
    have "list_all sf_checksum_verified (us_synced ?s2)"
      using v by (simp add: register_uploaded_file_def uploaded_file_def)
    then show ?thesis using g st'(3) by (intro exists_if_registered[of g]) simp_all
  qed
  ultimately show ?thesis using st' by (simp add: completed_at_def)
qed

lemma quiet_finalize:
  assumes a: "announces cfg sha256 u d" and q: "quiet cfg fin"
    and s: "session_at cfg sha256 i u d S st" and all: "{..<chunk_count cfg d} \<subseteq> S"
    and v: "list_all sf_checksum_verified (us_synced st)"
  shows "\<exists>st'. verify_and_finalize_upload cfg sha256 fin i st = (Inr (), st') \<and>
           completed_at cfg i (sha256 d) d st'"
proof -
  let ?m = "(new_meta cfg u (chunk_count cfg d))\<lparr>um_received_chunks := S\<rparr>"
  let ?r = "(claim_row cfg (fe_now fin 1) (fe_uuid fin 1)
      (new_row cfg u (chunk_count cfg d)))\<lparr>ur_status := ''finalizing'', ur_last_error := None\<rparr>"
  let ?s1 = "st\<lparr>us_rows := (us_rows st)(i \<mapsto> ?r)\<rparr>" and ?t = "fe_uuid fin 1"
  let ?s2 = "spawn_heartbeat i ?t (note_acquired cfg fin i ?t ?s1)"
  have mem: "us_mem st i = Some ?m" by (rule session_atD(1)[OF s])
  have load: "get_or_load_session i st = (Inr ?m, st)" by (simp add: get_or_load_session_def mem)
  have s2: "us_files ?s2 = us_files st" "us_chunks ?s2 = us_chunks st" "us_rows ?s2 = us_rows ?s1"
    "us_synced ?s2 = us_synced st" "\<exists>m'. us_mem ?s2 i = Some m'"
    by (simp_all add: spawn_heartbeat_def note_acquired_def upd_mem_def mem)
  obtain f where f: "us_files st (part_name i) = Some f"
    using session_atD(5)[OF s] all count_pos[OF a] by fastforce
  have "f = d"
    using agrees_all[OF announcesD(1)[OF a] session_atD(6)[OF s f]] all by (simp add: chunk_count_def)
  then have file2: "us_files ?s2 (part_name i) = Some d" using f s2(1) by simp
  have "received_in_db i ?s2 = S"
    using session_received[OF s] s2(2) by (simp add: received_in_db_def)
  then have ver: "verify_file cfg sha256 fin i ?m ?t ?s2 = (Inr (part_name i), ?s2)"
    using all file2 announcesD(5,6)[OF a]
    by (intro quiet_verify[OF q, where n = "chunk_count cfg d"]) (simp_all add: new_meta_def)
  have row: "us_rows ?s2 i = Some ?r" unfolding s2(3) by simp
  have own: "owns_row cfg ?t ?r"
    "ur_finalize_lease_until ?r = Some (lease_from cfg (fe_now fin 1))"
    by (simp_all add: owns_row_def claim_row_def)
  from s2(5) obtain m' where m': "us_mem ?s2 i = Some m'" by blast
  have v2: "list_all sf_checksum_verified (us_synced ?s2)" using v s2(4) by simp
  from quiet_promote[OF q file2 row own v2 m', of ?m] obtain st' where
    p: "promote_and_complete cfg fin i ?m ?t (part_name i) ?s2 = (Inr (), st')"
      "completed_at cfg i (sha256 d) d st'"
    using announcesD(6)[OF a] by (auto simp: new_meta_def)
  have st1: "um_status ?m = StUploading" by (simp add: new_meta_def)
  have "verify_and_finalize_upload cfg sha256 fin i st = finalize_owned cfg sha256 fin i ?m ?t ?s1"
    unfolding verify_and_finalize_upload_def quiet_point[OF q] load
    by (simp add: st1 quiet_acquire[OF q s])
  also have "\<dots> = (Inr (), st')"
    unfolding finalize_owned_def quiet_other[OF q] Let_def ver then_do_simps p(1) ..
  finally show ?thesis using p(2) by blast
qed


section \<open>A whole upload\<close>

text \<open>
  The client's loop: chunks are sent one after the other, a refused chunk ends it. Each call has the
  environment of its own statements and that of the finalization it may run.
\<close>

fun upload_chunks ::
  "SyncRuntimeConfig \<Rightarrow> (u8 list \<Rightarrow> string) \<Rightarrow> (nat \<Rightarrow> FinalizeEnv \<times> FinalizeEnv) \<Rightarrow> UploadChunk list
     \<Rightarrow> UploadProgress list step" where
  "upload_chunks cfg sha256 envs [] st = (Inr [], st)"
| "upload_chunks cfg sha256 envs (c # cs) st =
     then_do (upload_chunk cfg sha256 (fst (envs (length cs))) (snd (envs (length cs))) c st) (\<lambda>p st.
     then_do (upload_chunks cfg sha256 envs cs st) (\<lambda>ps st. (Inr (p # ps), st)))"

lemma chunk_last:
  assumes a: "announces cfg sha256 u d" and s: "session_at cfg sha256 i u d S st"
    and k: "k < chunk_count cfg d" "k \<notin> S" and q: "quiet cfg env" "quiet cfg fin"
    and all: "{..<chunk_count cfg d} \<subseteq> insert k S" and v: "list_all sf_checksum_verified (us_synced st)"
  shows "\<exists>p st'. upload_chunk cfg sha256 env fin (chunk_for cfg sha256 i d k) st = (Inr p, st') \<and>
           completed_at cfg i (sha256 d) d st' \<and> up_completed p \<and>
           up_uploaded_chunks p = chunk_count cfg d"
proof -
  note s' = stored_session[OF a s k]
  have v': "list_all sf_checksum_verified (us_synced (stored cfg sha256 i d k st))"
    using v by (simp add: stored_def Let_def upd_mem_def split: option.split)
  obtain st' where f: "verify_and_finalize_upload cfg sha256 fin i (stored cfg sha256 i d k st) = (Inr (), st')"
    and c: "completed_at cfg i (sha256 d) d st'"
    using quiet_finalize[OF a q(2) s' all v'] by blast
  obtain m where m: "us_mem st' i = Some m" "um_status m = StCompleted"
    using c by (auto simp: completed_at_def)
  have "insert k S = {..<chunk_count cfg d}" using all session_atD(4)[OF s] k(1) by auto
  then show ?thesis
    unfolding store_chunk_quiet[OF a s k q(1)] using f c m
    by (simp add: Let_def progress_of_def get_or_load_session_def)
qed

lemma stored_frame: "us_synced (stored cfg sha256 i d k st) = us_synced st"
  by (simp add: stored_def Let_def upd_mem_def split: option.split)

lemma chunk_step_synced:
  assumes a: "announces cfg sha256 u d" and s: "session_at cfg sha256 i u d S st"
    and k: "k < chunk_count cfg d" "k \<notin> S" and q: "quiet cfg env"
    and more: "\<not> {..<chunk_count cfg d} \<subseteq> insert k S"
  shows "us_synced (snd (upload_chunk cfg sha256 env fin (chunk_for cfg sha256 i d k) st)) = us_synced st"
proof -
  have "get_or_load_session i (stored cfg sha256 i d k st) =
    (Inr ((new_meta cfg u (chunk_count cfg d))\<lparr>um_received_chunks := insert k S\<rparr>), stored cfg sha256 i d k st)"
    by (simp add: get_or_load_session_def session_atD(1)[OF stored_session[OF a s k]])
  then show ?thesis
    unfolding store_chunk_quiet[OF a s k q] using more by (simp add: Let_def stored_frame)
qed

lemma upload_rest:
  assumes a: "announces cfg sha256 u d" and q: "\<And>j. quiet cfg (fst (envs j)) \<and> quiet cfg (snd (envs j))"
  shows "session_at cfg sha256 i u d S st \<Longrightarrow> list_all sf_checksum_verified (us_synced st) \<Longrightarrow>
    distinct ks \<Longrightarrow> set ks = {..<chunk_count cfg d} - S \<Longrightarrow> ks \<noteq> [] \<Longrightarrow>
    \<exists>ps st'. upload_chunks cfg sha256 envs (map (chunk_for cfg sha256 i d) ks) st = (Inr ps, st') \<and>
      completed_at cfg i (sha256 d) d st' \<and> length ps = length ks \<and> up_completed (last ps) \<and>
      up_uploaded_chunks (last ps) = chunk_count cfg d \<and> (\<forall>p \<in> set (butlast ps). \<not> up_completed p)"
proof (induction ks arbitrary: S st)
  case (Cons k ks)
  have k: "k < chunk_count cfg d" "k \<notin> S" and rest: "set ks = {..<chunk_count cfg d} - insert k S"
    using Cons.prems(3,4) by auto
  let ?e = "envs (length (map (chunk_for cfg sha256 i d) ks))"
  show ?case
  proof (cases "ks = []")
    case True
    then have "{..<chunk_count cfg d} \<subseteq> insert k S" using rest by auto
    from chunk_last[OF a Cons.prems(1) k _ _ this Cons.prems(2), of "fst ?e" "snd ?e"] q
    show ?thesis using True by fastforce
  next
    case False
    then have more: "\<not> {..<chunk_count cfg d} \<subseteq> insert k S"
      using rest by (metis Diff_eq_empty_iff set_empty)
    have q1: "quiet cfg (fst ?e)" using q by simp
    obtain p st1 where p: "upload_chunk cfg sha256 (fst ?e) (snd ?e) (chunk_for cfg sha256 i d k) st = (Inr p, st1)"
      and s1: "session_at cfg sha256 i u d (insert k S) st1" and np: "\<not> up_completed p"
      using chunk_step[OF a Cons.prems(1) k q1 more, of "snd ?e"] by blast
    have "us_synced st1 = us_synced st"
      using chunk_step_synced[OF a Cons.prems(1) k q1 more, of "snd ?e"] p by simp
    then obtain ps st' where "upload_chunks cfg sha256 envs (map (chunk_for cfg sha256 i d) ks) st1 = (Inr ps, st')"
      "completed_at cfg i (sha256 d) d st'" "length ps = length ks" "up_completed (last ps)"
      "up_uploaded_chunks (last ps) = chunk_count cfg d" "\<forall>p \<in> set (butlast ps). \<not> up_completed p"
      using Cons.IH[OF s1 _ _ rest False] Cons.prems(2,3) by auto
    moreover from this(3) have "ps \<noteq> []" using False by auto
    ultimately show ?thesis using p np by simp
  qed
qed simp

lemma init_session:
  assumes a: "announces cfg sha256 u d" and fresh: "\<forall>k. map_of (us_chunks st) (i, k) = None"
    "us_files st (part_name i) = None"
  shows "\<exists>st1. init_upload cfg i u st = (Inr i, st1) \<and> session_at cfg sha256 i u d {} st1 \<and>
           us_synced st1 = us_synced st"
proof -
  have s: "0 < int (length d)" using announcesD(2)[OF a] by simp
  have "init_upload cfg i u st = (Inr i, st\<lparr>us_rows := (us_rows st)(i \<mapsto> new_row cfg u (chunk_count cfg d)),
      us_mem := (us_mem st)(i \<mapsto> new_meta cfg u (chunk_count cfg d))\<rparr>)"
    using s announcesD(1,4,7)[OF a]
    by (simp add: init_upload_def announcesD(5,6)[OF a] Let_def flip: chunk_count_def)
  then show ?thesis using fresh by (simp add: session_at_def new_meta_def)
qed


section \<open>Retransmission\<close>

lemma existing_row:
  assumes q: "quiet cfg env" and s: "session_at cfg sha256 i u d S st" and k: "k \<in> S"
    and c: "ch_file_id c = i" "ch_chunk_index c = k" "validate_chunk sha256 c = Inr ()"
      "validate_against_session ((new_meta cfg u (chunk_count cfg d))\<lparr>um_received_chunks := S\<rparr>) c = Inr ()"
  shows "upload_chunk cfg sha256 env fin c st = existing_chunk cfg sha256 env fin c
    (sha256 (piece (rc_chunk_size cfg) d k), length (piece (rc_chunk_size cfg) d k)) st"
proof -
  have load: "get_or_load_session i st = (Inr ((new_meta cfg u (chunk_count cfg d))\<lparr>um_received_chunks := S\<rparr>), st)"
    by (simp add: get_or_load_session_def session_atD(1)[OF s])
  show ?thesis
    unfolding upload_chunk_def c(1-3)
    by (simp add: quiet_point[OF q] load c(4) session_atD(3)[OF s] k)
qed

end
