(* ===== verification/Upload_Properties.thy ===== *)
theory Upload_Properties
  imports Upload_Flow
begin

text \<open>
  The properties of chunked uploads, each with a concrete run: a five-byte file in chunks of two,
  a clock that stands still, and a stand-in hash that looks at the first byte only.
\<close>

section \<open>A concrete upload\<close>

definition demo_cfg :: "string \<Rightarrow> SyncRuntimeConfig" where
  "demo_cfg epoch = \<lparr>rc_chunk_size = 2, rc_finalize_lease_duration = 30, rc_upload_dir = ''/up'',
     rc_process_epoch = epoch\<rparr>"

definition demo_sha :: "u8 list \<Rightarrow> string" where
  "demo_sha d = replicate 63 (CHR ''0'') @ [if d \<noteq> [] \<and> hd d = 7 then CHR ''7'' else CHR ''f'']"

definition demo_file :: "u8 list" where
  "demo_file = [7, 1, 2, 9, 3]"

definition demo_init :: UploadInit where
  "demo_init = \<lparr>ui_filename = ''a.flac'', ui_original_path = ''/m/a.flac'', ui_file_size = 5,
     ui_expected_hash = demo_sha demo_file, ui_uploaded_by = ''phone''\<rparr>"

definition demo_calls :: "string \<Rightarrow> FinalizeEnv" where
  "demo_calls token = \<lparr>fe_now = (\<lambda>_. 0), fe_uuid = (\<lambda>_. token), fe_fail = (\<lambda>_. None), fe_other = (\<lambda>_ s. s),
     fe_heartbeat = None\<rparr>"

definition no_uploads :: UploadState where
  "no_uploads = \<lparr>us_rows = Map.empty, us_chunks = [], us_synced = [], us_files = Map.empty,
     us_mem = Map.empty, us_heartbeats = []\<rparr>"

lemma demo_sha_hex: "is_valid_sha256_hex (demo_sha x)"
  by (simp add: is_valid_sha256_hex_def demo_sha_def is_ascii_hexdigit_def Let_def list_all_iff)

lemma demo_count: "chunk_count (demo_cfg e) demo_file = 3"
  by (simp add: chunk_count_def demo_cfg_def demo_file_def div_ceil_def)

lemma demo_announces: "announces (demo_cfg e) demo_sha demo_init demo_file"
  unfolding announces_def demo_count
  by (simp add: demo_sha_hex) (simp add: demo_cfg_def demo_file_def demo_init_def)

lemma demo_quiet: "quiet (demo_cfg e) (demo_calls t)"
  by (simp add: quiet_def demo_cfg_def demo_calls_def)

lemma demo_calm: "calm i sz h n (demo_calls t)"
  by (simp add: calm_def demo_calls_def)

text \<open>All three chunks staged, not yet finalized.\<close>

definition demo_staged :: UploadState where
  "demo_staged = stored (demo_cfg ''E'') demo_sha ''u'' demo_file 0
     (stored (demo_cfg ''E'') demo_sha ''u'' demo_file 1
       (stored (demo_cfg ''E'') demo_sha ''u'' demo_file 2
         (snd (init_upload (demo_cfg ''E'') ''u'' demo_init no_uploads))))"

lemma demo_started:
  "session_at (demo_cfg ''E'') demo_sha ''u'' demo_init demo_file {}
     (snd (init_upload (demo_cfg ''E'') ''u'' demo_init no_uploads))"
proof -
  have "\<forall>k. map_of (us_chunks no_uploads) (''u'', k) = None" "us_files no_uploads (part_name ''u'') = None"
    by (simp_all add: no_uploads_def)
  from init_session[OF demo_announces this, of "''E''"] show ?thesis by auto
qed

lemma demo_staged_session:
  "session_at (demo_cfg ''E'') demo_sha ''u'' demo_init demo_file {0, 1, 2} demo_staged"
  unfolding demo_staged_def
  by (intro stored_session[OF demo_announces] demo_started) (simp_all add: demo_count)


lemma demo_staged_synced: "us_synced demo_staged = []"
  by (simp add: demo_staged_def stored_frame init_upload_def no_uploads_def demo_init_def demo_cfg_def
      demo_sha_hex Let_def div_ceil_def)

lemma demo_pending: "pending ''u'' 5 (demo_sha demo_file) 3 demo_staged"
  using session_atD(1,2)[OF demo_staged_session] demo_staged_synced
  by (simp add: pending_def demo_count new_row_def new_meta_def demo_init_def)

section \<open>Completion\<close>

text \<open>
  C5 (Any order): an initiator that announces a file and sends each chunk once, in any order, over
  a server that is not disturbed, is never refused; every answer but the last says the upload is not
  complete, the last says it is, and then the stored file is exactly the announced one, the staging
  file is gone and the file is registered under its hash.
\<close>

theorem upload_in_any_order_completes:
  assumes a: "announces cfg sha256 u d"
    and q: "\<And>j. quiet cfg (fst (envs j)) \<and> quiet cfg (snd (envs j))"
    and fresh: "\<forall>k. map_of (us_chunks st) (i, k) = None" "us_files st (part_name i) = None"
    and v: "list_all sf_checksum_verified (us_synced st)"
    and ks: "distinct ks" "set ks = {..<chunk_count cfg d}"
  shows "\<exists>ps st'. then_do (init_upload cfg i u st)
           (\<lambda>j. upload_chunks cfg sha256 envs (map (chunk_for cfg sha256 j d) ks)) = (Inr ps, st') \<and>
         completed_at cfg i (sha256 d) d st' \<and> length ps = chunk_count cfg d \<and>
         up_completed (last ps) \<and> up_uploaded_chunks (last ps) = chunk_count cfg d \<and>
         list_all (\<lambda>p. \<not> up_completed p) (butlast ps)"
proof -
  obtain st1 where i: "init_upload cfg i u st = (Inr i, st1)" "session_at cfg sha256 i u d {} st1"
    "us_synced st1 = us_synced st"
    using init_session[OF a fresh] by blast
  have "ks \<noteq> []" using ks(2) count_pos[OF a] by fastforce
  moreover have "length ks = chunk_count cfg d" using distinct_card[OF ks(1)] ks(2) by simp
  ultimately show ?thesis
    using upload_rest[OF a q i(2) _ ks(1)] i(1,3) v ks(2) by (simp add: list_all_iff)
qed

theorem upload_in_any_order_completes_witness:
  "\<exists>ps st'. then_do (init_upload (demo_cfg ''E'') ''u'' demo_init no_uploads)
      (\<lambda>j. upload_chunks (demo_cfg ''E'') demo_sha (\<lambda>_. (demo_calls ''s'', demo_calls ''t''))
        (map (chunk_for (demo_cfg ''E'') demo_sha j demo_file) [2, 0, 1])) = (Inr ps, st') \<and>
      us_files st' ''u'' = Some [7, 1, 2, 9, 3]"
proof -
  have ks: "distinct [2, 0, 1 :: nat]" "set [2, 0, 1 :: nat] = {..<chunk_count (demo_cfg ''E'') demo_file}"
    by (auto simp: demo_count)
  have "\<forall>k. map_of (us_chunks no_uploads) (''u'', k) = None" "us_files no_uploads (part_name ''u'') = None"
    "list_all sf_checksum_verified (us_synced no_uploads)"
    by (simp_all add: no_uploads_def)
  from upload_in_any_order_completes[OF demo_announces _ this ks,
      where envs = "\<lambda>_. (demo_calls ''s'', demo_calls ''t'')"]
  show ?thesis using demo_quiet by (fastforce simp: completed_at_def demo_file_def)
qed

text \<open>
  C4 (Verified completion): when \<open>verify_and_finalize_upload\<close> returns \<open>Ok\<close> for an upload nobody had
  completed, then whatever other tasks did at its await points within the rely condition (taking
  leases, renewing them, uploading other files), the final file exists, has the announced size and
  SHA-256, every chunk has a receipt, a verified row for the hash is registered, and the upload row
  is completed.
\<close>

theorem completed_upload_is_verified:
  assumes c: "calm i sz h n env" and p: "pending i sz h n st"
    and v: "verify_and_finalize_upload cfg sha256 env i st = (Inr (), st')"
  shows "\<exists>d. us_files st' i = Some d \<and> int (length d) = sz \<and> sha256 d = h \<and>
             {..<n} \<subseteq> received_in_db i st' \<and> check_file_exists h st' \<noteq> None \<and>
             (\<exists>r. us_rows st' i = Some r \<and> ur_status r = ''completed'')"
proof -
  note c0 = calmD[OF c p, of 0]
  from v obtain m s1 where g: "get_or_load_session i (fe_other env 0 st) = (Inr m, s1)"
    and rest: "(let st = (if um_status m = StCompleted then fe_other env 1 s1 else s1) in
        if um_status m = StCompleted \<and> metadata_ok env 1 i st then (Inr (), st)
        else if um_status m = StCancelled then (Inl (UploadCancelled i), st)
        else
          then_do (acquire_finalization cfg env i st) (\<lambda>owner st.
            case owner of
              None \<Rightarrow> (Inr (), st)
            | Some token \<Rightarrow> finalize_owned cfg sha256 env i m token st)) = (Inr (), st')"
    unfolding verify_and_finalize_upload_def then_do_ok at_point_ok by blast
  note m = get_or_load_pending[OF c0(1) g]
  from rest m obtain owner s2 where a: "acquire_finalization cfg env i s1 = (Inr owner, s2)"
    and f: "(case owner of None \<Rightarrow> (Inr (), s2)
             | Some token \<Rightarrow> finalize_owned cfg sha256 env i m token s2) = (Inr (), st')"
    by (auto simp: then_do_ok split: if_splits)
  from m have "pending i sz h n s1" by simp
  from acquire_pending[OF c this a] f obtain token where "pending i sz h n s2"
    "finalize_owned cfg sha256 env i m token s2 = (Inr (), st')"
    by (auto split: option.splits)
  from finalize_owned_ok[OF c this(1) _ this(2)] m show ?thesis by blast
qed

theorem completed_upload_is_verified_witness:
  "\<exists>st' d. verify_and_finalize_upload (demo_cfg ''E'') demo_sha (demo_calls ''t'') ''u'' demo_staged = (Inr (), st') \<and>
     us_files st' ''u'' = Some d \<and> int (length d) = 5 \<and> {..<3} \<subseteq> received_in_db ''u'' st'"
proof -
  have "{..<chunk_count (demo_cfg ''E'') demo_file} \<subseteq> {0, 1, 2}" by (auto simp: demo_count)
  moreover have "list_all sf_checksum_verified (us_synced demo_staged)" by (simp add: demo_staged_synced)
  ultimately obtain st' where
    "verify_and_finalize_upload (demo_cfg ''E'') demo_sha (demo_calls ''t'') ''u'' demo_staged = (Inr (), st')"
    using quiet_finalize[OF demo_announces demo_quiet demo_staged_session] by blast
  with completed_upload_is_verified[OF demo_calm demo_pending this] show ?thesis by blast
qed

section \<open>Fencing\<close>

text \<open>
  C6 (Lease theft): when another task takes the finalization lease at any await point that a
  successful run passes (and the lost token never comes back), the finalizer returns an error,
  however far it had got: it never reports success for an upload it no longer owns.
\<close>

theorem stolen_lease_never_completes:
  assumes l: "lost_stays_lost cfg token i env"
    and k: "k \<in> set await_points" and theft: "\<And>s. \<not> holds_lease cfg token i (fe_other env k s)"
  shows "is_err (fst (finalize_owned cfg sha256 env i m token st))"
proof (rule ccontr)
  let ?s0 = "note_acquired cfg env i token (fe_other env 25 st)"
  assume "\<not> ?thesis"
  then obtain s' where "finalize_owned cfg sha256 env i m token st = (Inr (), s')"
    by (cases "finalize_owned cfg sha256 env i m token st"; cases "fst (finalize_owned cfg sha256 env i m token st)") auto
  then obtain t s2 where vf: "verify_file cfg sha256 env i m token (spawn_heartbeat i token ?s0) = (Inr t, s2)"
    and pr: "promote_and_complete cfg env i m token t s2 = (Inr (), s')"
    unfolding finalize_owned_def Let_def then_do_ok by blast
  note h1 = promote_holds[OF l pr]
  note h2 = verify_holds[OF l h1(2) vf]
  have "us_rows (spawn_heartbeat i token ?s0) = us_rows (fe_other env 25 st)"
    by (simp add: spawn_heartbeat_def note_acquired_def upd_mem_def split: option.splits)
  then have "holds_lease cfg token i (fe_other env 25 st)" using h2(2) holds_frame by blast
  then show False using h1(1) h2(1) k theft by (auto simp: await_points_def)
qed


text \<open>A thief that replaces the token while the owner is hashing the file.\<close>

definition demo_theft :: FinalizeEnv where
  "demo_theft = (demo_calls ''t'')\<lparr>fe_other := (\<lambda>k s. if k = 30 then
     s\<lparr>us_rows := (us_rows s)(''u'' := map_option (\<lambda>r. r\<lparr>ur_finalize_token := Some ''thief''\<rparr>)
        (us_rows s ''u''))\<rparr> else s)\<rparr>"

theorem stolen_lease_never_completes_witness:
  "is_err (fst (finalize_owned (demo_cfg ''E'') demo_sha demo_theft ''u''
     ((new_meta (demo_cfg ''E'') demo_init 3)\<lparr>um_received_chunks := {0, 1, 2}\<rparr>) ''t'' demo_staged))"
proof (rule stolen_lease_never_completes[where k = 30])
  show "lost_stays_lost (demo_cfg ''E'') ''t'' ''u'' demo_theft"
    by (simp add: lost_stays_lost_def demo_theft_def holds_lease_def owns_row_def split: option.split)
  show "\<not> holds_lease (demo_cfg ''E'') ''t'' ''u'' (fe_other demo_theft 30 s)" for s
    by (simp add: demo_theft_def holds_lease_def owns_row_def split: option.split)
qed (simp add: await_points_def)

text \<open>
  Takeover: once another finalizer (of this or another process) has acquired the upload under
  a fresh token, the previous owner's verification returns an error and changes nothing durable by
  itself: every property of the tables and files that the other tasks keep still holds when it ends.
\<close>

theorem takeover_fences_previous_owner:
  assumes a: "acquire_finalization cfg' env' i st = (Inr (Some t'), st1)" and t: "token \<noteq> t'"
    and l: "lost_stays_lost cfg token i env"
    and P: "durable P" "kept_by_others env P" "P st1"
  shows "is_err (fst (finalize_owned cfg sha256 env i m token st1)) \<and>
         P (snd (finalize_owned cfg sha256 env i m token st1))"
proof -
  let ?Q = "\<lambda>s. P s \<and> \<not> holds_lease cfg token i s"
  have dur: "durable ?Q"
    unfolding durable_def using durableD[OF P(1)] holds_frame by blast
  have keep: "kept_by_others env ?Q"
    using P(2) l unfolding kept_by_others_def lost_stays_lost_def by blast
  have "?Q st1" using P(3) acquired_token[OF a] t by (auto simp: holds_lease_def owns_row_def)
  from finalize_fenced[OF dur keep _ this] show ?thesis by blast
qed

text \<open>Process \<open>E\<close> acquires and dies; process \<open>F\<close> takes over.\<close>

definition demo_acquired :: UploadState where
  "demo_acquired = snd (acquire_finalization (demo_cfg ''E'') (demo_calls ''old'') ''u'' demo_staged)"

definition demo_taken :: UploadState where
  "demo_taken = snd (acquire_finalization (demo_cfg ''F'') (demo_calls ''new'') ''u'' demo_acquired)"

lemma demo_takeover:
  "acquire_finalization (demo_cfg ''F'') (demo_calls ''new'') ''u'' demo_acquired = (Inr (Some ''new''), demo_taken)"
  and demo_taken_durable: "us_files demo_taken ''u'' = None" "us_synced demo_taken = []"
proof -
  let ?r = "(claim_row (demo_cfg ''E'') 0 ''old'' (new_row (demo_cfg ''E'') demo_init 3))
    \<lparr>ur_status := ''finalizing'', ur_last_error := None\<rparr>"
  have a: "demo_acquired = demo_staged\<lparr>us_rows := (us_rows demo_staged)(''u'' \<mapsto> ?r)\<rparr>"
    unfolding demo_acquired_def quiet_acquire[OF demo_quiet demo_staged_session] demo_count
    by (simp add: demo_calls_def)
  have row: "us_rows demo_acquired ''u'' = Some ?r" unfolding a by simp
  have r: "ur_status ?r = ''finalizing''" "is_from_previous_process (demo_cfg ''F'') ?r"
    by (simp_all add: is_from_previous_process_def claim_row_def demo_cfg_def)
  have st: "status_from_db ''finalizing'' = Some StFinalizing" by (simp add: status_from_db_def)
  have w: "takeover_cas (demo_cfg ''F'') 0 ''new'' ''u'' ?r demo_acquired =
      (Inr True, demo_acquired\<lparr>us_rows := (us_rows demo_acquired)(''u'' \<mapsto> claim_row (demo_cfg ''F'') 0 ''new'' ?r)\<rparr>)"
    unfolding takeover_cas_def row by (simp add: r)
  have n: "try_acquire (demo_cfg ''F'') 0 ''new'' ''u'' demo_acquired = (Inr False, demo_acquired)"
    unfolding try_acquire_def row by (simp add: may_acquire_def)
  have "acquire_finalization (demo_cfg ''F'') (demo_calls ''new'') ''u'' demo_acquired =
     (Inr (Some ''new''), demo_acquired\<lparr>us_rows := (us_rows demo_acquired)(''u'' \<mapsto> claim_row (demo_cfg ''F'') 0 ''new'' ?r)\<rparr>)"
    unfolding acquire_finalization_def acquire_contended_def quiet_point[OF demo_quiet] row then_do_simps
    using n r(2) by (simp add: demo_calls_def row st is_stale_def w)
  moreover have "us_files demo_staged ''u'' = None"
    by (simp add: demo_staged_def stored_def Let_def upd_mem_def init_upload_def no_uploads_def demo_init_def
        demo_cfg_def demo_sha_hex div_ceil_def part_name_def split: option.split)
  ultimately show "acquire_finalization (demo_cfg ''F'') (demo_calls ''new'') ''u'' demo_acquired = (Inr (Some ''new''), demo_taken)"
    "us_files demo_taken ''u'' = None" "us_synced demo_taken = []"
    by (simp_all add: demo_taken_def a demo_staged_synced)
qed

theorem takeover_fences_previous_owner_witness:
  "is_err (fst (finalize_owned (demo_cfg ''E'') demo_sha (demo_calls ''old'') ''u''
       (new_meta (demo_cfg ''E'') demo_init 3) ''old'' demo_taken)) \<and>
   us_files (snd (finalize_owned (demo_cfg ''E'') demo_sha (demo_calls ''old'') ''u''
       (new_meta (demo_cfg ''E'') demo_init 3) ''old'' demo_taken)) ''u'' = None"
proof -
  let ?P = "\<lambda>s. us_files s ''u'' = None"
  have "durable ?P" by (simp add: durable_def)
  moreover have "kept_by_others (demo_calls ''old'') ?P" "lost_stays_lost (demo_cfg ''E'') ''old'' ''u'' (demo_calls ''old'')"
    by (simp_all add: kept_by_others_def lost_stays_lost_def demo_calls_def)
  ultimately show ?thesis
    using takeover_fences_previous_owner[OF demo_takeover, of "''old''" "demo_cfg ''E''" "demo_calls ''old''" ?P]
      demo_taken_durable(1) by blast
qed

section \<open>Retransmission and recovery\<close>



text \<open>
  Recovery accounting: the startup scan accounts for every candidate row exactly once, whatever
  happens to the individual uploads: completed, deferred, terminal, transient and invalid rows add
  up to the number of candidates.
\<close>

theorem recovery_report_adds_up:
  "outcomes (fst (recover_incomplete_uploads cfg sha256 pu envs keys st)) =
   rr_candidates (fst (recover_incomplete_uploads cfg sha256 pu envs keys st))"
  by (simp add: recover_incomplete_uploads_def recover_rows_outcomes Let_def)
    (simp add: outcomes_def)


section \<open>Chunk geometry\<close>

text \<open>
  Chunk geometry: the session an accepted \<open>init_upload\<close> creates has at least one chunk, every
  expected chunk size is between one byte and the chunk size, and the sizes add up to the file size.
\<close>

theorem chunk_sizes_cover_file:
  assumes i: "init_upload cfg i u st = (Inr j, st')" and max: "ui_file_size u < 2 ^ 63"
  shows "\<exists>m. us_mem st' j = Some m \<and> 0 < um_total_chunks m \<and>
           (\<Sum>k < um_total_chunks m. expected_chunk_size m k) = nat (ui_file_size u) \<and>
           expected_chunk_size m ` {..<um_total_chunks m} \<subseteq> {1..rc_chunk_size cfg}"
proof -
  let ?N = "nat (ui_file_size u)" and ?c = "rc_chunk_size cfg"
  let ?m = "new_meta cfg u (div_ceil ?N ?c)"
  have pos: "0 < ui_file_size u" "0 < ?c" and mem: "us_mem st' j = Some ?m"
    using i by (auto simp: init_upload_def Let_def split: if_splits)
  have N: "ui_file_size u = int ?N" using pos(1) by simp
  from max have "?N < 2 ^ 63" by simp
  then have e: "expected_chunk_size ?m k = min ?c (?N - k * ?c)" if "k < div_ceil ?N ?c" for k
    using expected_chunk_size_min[of ?m ?N k] pos that N by (simp add: new_meta_def)
  have sz: "um_total_chunks ?m = div_ceil ?N ?c" by (simp add: new_meta_def)
  have cover: "?N \<le> div_ceil ?N ?c * ?c" by (rule div_ceil_covers[OF pos(2)])
  then have "0 < um_total_chunks ?m" using pos(1) sz by (cases "div_ceil ?N ?c") simp_all
  moreover have "(\<Sum>k < um_total_chunks ?m. expected_chunk_size ?m k) = ?N"
    using e sum_min_pieces[of ?c ?N "div_ceil ?N ?c"] cover by (simp add: sz)
  moreover have "expected_chunk_size ?m k \<in> {1..?c}" if "k < um_total_chunks ?m" for k
    using e[of k] that before_div_ceil[OF pos(2), of k ?N] pos(2) by (simp add: sz)
  ultimately show ?thesis using mem by blast
qed

theorem chunk_sizes_cover_file_witness:
  "\<exists>st' m. init_upload (demo_cfg ''E'') ''u'' demo_init no_uploads = (Inr ''u'', st') \<and>
     us_mem st' ''u'' = Some m \<and> (\<Sum>k < um_total_chunks m. expected_chunk_size m k) = 5"
proof -
  have "\<forall>k. map_of (us_chunks no_uploads) (''u'', k) = None" "us_files no_uploads (part_name ''u'') = None"
    by (simp_all add: no_uploads_def)
  from init_session[OF demo_announces this, of "''E''"] obtain st' where
    i: "init_upload (demo_cfg ''E'') ''u'' demo_init no_uploads = (Inr ''u'', st')" by blast
  from chunk_sizes_cover_file[OF i] show ?thesis using i by (auto simp: demo_init_def)
qed

section \<open>Observations on the code\<close>

text \<open>
  A hash in upper case is accepted by \<open>init_upload\<close>, but the hash computed from the file is written
  in lower case, so no file can complete that upload.
\<close>

lemma unmatched_hash_accepted:
  assumes "0 < ui_file_size u" "is_valid_sha256_hex (ui_expected_hash u)" "0 < rc_chunk_size cfg"
    "div_ceil (nat (ui_file_size u)) (rc_chunk_size cfg) < 2 ^ 32"
  shows "fst (init_upload cfg i u st) = Inr i"
  using assms by (simp add: init_upload_def Let_def)

lemma unmatched_hash_never_completes:
  assumes "calm i sz h n env" "pending i sz h n st" "fits sz h n m" "\<And>x. sha256 x \<noteq> h"
  shows "is_err (fst (finalize_owned cfg sha256 env i m token st))"
proof (rule ccontr)
  assume "\<not> ?thesis"
  then obtain st' where "finalize_owned cfg sha256 env i m token st = (Inr (), st')"
    by (cases "finalize_owned cfg sha256 env i m token st";
        cases "fst (finalize_owned cfg sha256 env i m token st)") auto
  from finalize_owned_ok[OF assms(1-3) this] assms(4) show False by blast
qed

text \<open>
  The early return on a failed chunk query leaves the heartbeat running: it keeps renewing the lease
  of an upload nobody is finalizing.
\<close>

lemma failed_chunk_query_leaks_heartbeat:
  assumes "fe_fail env 26 = Some e" "\<And>s. fe_other env 26 s = s"
  shows "fst (finalize_owned cfg sha256 env i m token st) = Inl e \<and>
         (i, token) \<in> set (us_heartbeats (snd (finalize_owned cfg sha256 env i m token st)))"
  by (simp add: finalize_owned_def verify_file_def at_point_def assms Let_def spawn_heartbeat_def)

end
