(* ===== verification/Rtp_Transport.thy ===== *)
theory Rtp_Transport
  imports Rust_Strings
begin

text \<open>
  \<open>michi-receivers/src/transport.rs\<close>: the RTP/UDP transport that carries PCM to a receiver. The
  UDP socket, the clocks, \<open>Uuid::new_v4\<close> and \<open>rand::random\<close> are parameters (\<open>RtpEnv\<close>); what the
  socket accepted is the list of packets a call returns, each with the earliest instant at which
  the pacing lets it leave.
\<close>

unbundle bit_operations_syntax

section \<open>Data\<close>

record TransportStreamConfig =
  tc_codec :: string
  tc_sample_rate :: u32
  tc_bit_depth :: u32
  tc_channels :: u8
  tc_packet_ms :: u32

definition receiver_v1_lite_default :: TransportStreamConfig where
  "receiver_v1_lite_default =
     \<lparr>tc_codec = ''pcm_s16le'', tc_sample_rate = 48000, tc_bit_depth = 16, tc_channels = 2,
      tc_packet_ms = 10\<rparr>"

record TransportSessionHandle =
  th_session_id :: string
  th_remote_port :: "u16 option"

datatype TransportError =
    AlreadyActive
  | NoSession
  | Unreachable string
  | CapabilityMismatch string
  | TransportProtocol string
  | TransportOther string

text \<open>A bound socket: what \<open>local_addr\<close> answers for its port, and the peer it is connected to.\<close>

record UdpSocket =
  so_local_port :: "u16 option"
  so_peer :: string

record RtpReceiverTransport =
  rt_target_addr :: string
  rt_socket :: "UdpSocket option"
  rt_config :: "TransportStreamConfig option"
  rt_handle :: "TransportSessionHandle option"
  rt_sequence_number :: u16
  rt_timestamp :: u32
  rt_ssrc :: u32
  rt_payload_type :: u8
  rt_pending_pcm :: "u8 list"
  rt_next_packet_deadline :: "instant option"
  rt_packets_sent :: u64
  rt_bytes_sent :: u64
  rt_last_packet_at :: "utc option"
  rt_send_errors :: u64

text \<open>
  The environment of one call: what binding and connecting answer, the drawn values, and for the
  \<open>k\<close>-th packet of the call the clock readings and the answer of \<open>send\<close>.
\<close>

record RtpEnv =
  re_bind :: "string + u16 option"
  re_connect :: "string \<Rightarrow> string + unit"
  re_uuid :: string
  re_seq :: u16
  re_timestamp :: u32
  re_now :: "nat \<Rightarrow> instant"
  re_utc :: "nat \<Rightarrow> utc"
  re_send :: "nat \<Rightarrow> u8 list \<Rightarrow> string + nat"

type_synonym sent_packet = "instant \<times> u8 list"

definition new_rtp_transport :: "string \<Rightarrow> u32 \<Rightarrow> RtpReceiverTransport" where
  "new_rtp_transport target ssrc =
     \<lparr>rt_target_addr = target, rt_socket = None, rt_config = None, rt_handle = None,
      rt_sequence_number = 0, rt_timestamp = 0, rt_ssrc = ssrc, rt_payload_type = 97,
      rt_pending_pcm = [], rt_next_packet_deadline = None, rt_packets_sent = 0,
      rt_bytes_sent = 0, rt_last_packet_at = None, rt_send_errors = 0\<rparr>"

definition rt_local_port :: "RtpReceiverTransport \<Rightarrow> u16 option" where
  "rt_local_port t = Option.bind (rt_socket t) so_local_port"

section \<open>The packet\<close>

definition be16 :: "u16 \<Rightarrow> u8 list" where
  "be16 w = [ucast (drop_bit 8 w), ucast w]"

definition be32 :: "u32 \<Rightarrow> u8 list" where
  "be32 w = [ucast (drop_bit 24 w), ucast (drop_bit 16 w), ucast (drop_bit 8 w), ucast w]"

definition le16 :: "16 word \<Rightarrow> u8 list" where
  "le16 w = [ucast w, ucast (drop_bit 8 w)]"

definition build_rtp_packet :: "u8 \<Rightarrow> u16 \<Rightarrow> u32 \<Rightarrow> u32 \<Rightarrow> bool \<Rightarrow> u8 list \<Rightarrow> u8 list" where
  "build_rtp_packet pt sn ts ssrc marker payload =
     0x80 # (if marker then 0x80 OR (pt AND 0x7F) else pt AND 0x7F) #
     be16 sn @ be32 ts @ be32 ssrc @ payload"

text \<open>The fixed header of RFC 3550, section 5.1, read back: version 2, no padding, no extension,
  no contributing sources.\<close>

record RtpHeader =
  rh_marker :: bool
  rh_payload_type :: u8
  rh_sequence :: u16
  rh_timestamp :: u32
  rh_ssrc :: u32

definition of_be16 :: "u8 \<Rightarrow> u8 \<Rightarrow> u16" where
  "of_be16 a b = push_bit 8 (ucast a) OR ucast b"

definition of_be32 :: "u8 \<Rightarrow> u8 \<Rightarrow> u8 \<Rightarrow> u8 \<Rightarrow> u32" where
  "of_be32 a b c d =
     push_bit 24 (ucast a) OR (push_bit 16 (ucast b) OR (push_bit 8 (ucast c) OR ucast d))"

fun parse_rtp :: "u8 list \<Rightarrow> (RtpHeader \<times> u8 list) option" where
  "parse_rtp (v # m # s1 # s2 # t1 # t2 # t3 # t4 # c1 # c2 # c3 # c4 # payload) =
     (if v = 0x80
      then Some (\<lparr>rh_marker = bit m 7, rh_payload_type = m AND 0x7F,
                  rh_sequence = of_be16 s1 s2, rh_timestamp = of_be32 t1 t2 t3 t4,
                  rh_ssrc = of_be32 c1 c2 c3 c4\<rparr>, payload)
      else None)"
| "parse_rtp _ = None"

lemma be16_inverse: "of_be16 (ucast (drop_bit 8 w)) (ucast w) = w"
  by (rule bit_word_eqI)
    (auto simp: of_be16_def bit_simps not_less)

lemma be32_inverse:
  "of_be32 (ucast (drop_bit 24 w)) (ucast (drop_bit 16 w)) (ucast (drop_bit 8 w)) (ucast w) = w"
proof (rule bit_word_eqI)
  fix n assume n: "n < LENGTH(32)"
  consider "n < 8" | "8 \<le> n" "n < 16" | "16 \<le> n" "n < 24" | "24 \<le> n" by linarith
  then show "bit (of_be32 (ucast (drop_bit 24 w)) (ucast (drop_bit 16 w)) (ucast (drop_bit 8 w))
      (ucast w)) n = bit w n"
    using n by cases (auto simp: of_be32_def bit_simps)
qed

lemma marker_bits:
  fixes pt :: u8
  shows "bit (0x80 OR (pt AND 0x7F)) 7" "\<not> bit (pt AND 0x7F) 7"
    "(0x80 OR (pt AND 0x7F)) AND 0x7F = pt AND 0x7F" "pt AND 0x7F AND 0x7F = pt AND 0x7F"
proof -
  have m: "(0x7F :: u8) = mask 7" by (simp add: mask_eq_exp_minus_1)
  have e: "(0x80 :: u8) = push_bit 7 1" by (simp add: push_bit_eq_mult)
  show "bit (0x80 OR (pt AND 0x7F)) 7" unfolding e m by (simp add: bit_simps)
  show "\<not> bit (pt AND 0x7F) 7" unfolding m by (simp add: bit_simps)
  have low: "\<not> bit (0x80 :: u8) n" if "n < 7" for n
    unfolding e by (subst bit_push_bit_iff) (use that in auto)
  show "(0x80 OR (pt AND 0x7F)) AND 0x7F = pt AND 0x7F"
    unfolding m
  proof (rule bit_word_eqI)
    fix n assume n: "n < LENGTH(8)"
    show "bit ((0x80 OR (pt AND mask 7)) AND mask 7) n = bit (pt AND mask 7) n"
      using low [of n] by (cases "n < 7") (simp_all only: bit_and_iff bit_or_iff bit_mask_iff, auto)
  qed
  show "pt AND 0x7F AND 0x7F = pt AND 0x7F"
    by (simp add: and.assoc)
qed

text \<open>The write loop of \<open>write_pcm\<close>: one round per whole 1920-byte chunk. \<open>k\<close> counts the rounds,
  \<open>out\<close> the packets handed to the socket.\<close>

definition rtp_chunk_size :: nat where
  "rtp_chunk_size = 1920"

definition packet_duration :: nat where
  "packet_duration = from_millis 10"

definition rebase_deadline :: "instant \<Rightarrow> instant option \<Rightarrow> instant" where
  "rebase_deadline now d =
     (case d of Some d \<Rightarrow> if now > d \<and> now - d > from_millis 100 then now else d
      | None \<Rightarrow> now)"

definition next_packet :: "RtpReceiverTransport \<Rightarrow> u8 list" where
  "next_packet t =
     build_rtp_packet (rt_payload_type t) (rt_sequence_number t) (rt_timestamp t) (rt_ssrc t) False
       (take rtp_chunk_size (rt_pending_pcm t))"

definition count_sent :: "utc \<Rightarrow> RtpReceiverTransport \<Rightarrow> RtpReceiverTransport" where
  "count_sent stamp t =
     t\<lparr>rt_packets_sent := rt_packets_sent t + 1,
       rt_bytes_sent := rt_bytes_sent t + of_nat rtp_chunk_size,
       rt_last_packet_at := Some stamp\<rparr>"

definition advance_packet :: "instant \<Rightarrow> RtpReceiverTransport \<Rightarrow> RtpReceiverTransport" where
  "advance_packet deadline t =
     t\<lparr>rt_next_packet_deadline := Some (deadline + packet_duration),
       rt_sequence_number := rt_sequence_number t + 1,
       rt_timestamp := rt_timestamp t + 480\<rparr>"

function write_loop ::
  "RtpEnv \<Rightarrow> nat \<Rightarrow> RtpReceiverTransport \<Rightarrow> sent_packet list
   \<Rightarrow> (TransportError + nat) \<times> RtpReceiverTransport \<times> sent_packet list" where
  "write_loop E k t out =
     (if length (rt_pending_pcm t) < rtp_chunk_size then (Inr (k * rtp_chunk_size), t, out)
      else
        let packet = next_packet t;
            t = t\<lparr>rt_pending_pcm := drop rtp_chunk_size (rt_pending_pcm t)\<rparr>;
            now = re_now E k;
            deadline = rebase_deadline now (rt_next_packet_deadline t)
        in case re_send E k packet of
             Inl e \<Rightarrow> (Inl (TransportOther e), t\<lparr>rt_send_errors := rt_send_errors t + 1\<rparr>, out)
           | Inr _ \<Rightarrow>
               write_loop E (Suc k) (advance_packet deadline (count_sent (re_utc E k) t))
                 (out @ [(max deadline now, packet)]))"
  by pat_completeness auto
termination
  by (relation "measure (\<lambda>(E, k, t, out). length (rt_pending_pcm t))")
    (auto simp: advance_packet_def count_sent_def rtp_chunk_size_def)

declare write_loop.simps [simp del]

definition write_pcm ::
  "RtpEnv \<Rightarrow> u8 list \<Rightarrow> RtpReceiverTransport
   \<Rightarrow> (TransportError + nat) \<times> RtpReceiverTransport \<times> sent_packet list" where
  "write_pcm E pcm t =
     (case rt_socket t of
        None \<Rightarrow> (Inl NoSession, t, [])
      | Some _ \<Rightarrow> write_loop E 0 (t\<lparr>rt_pending_pcm := rt_pending_pcm t @ pcm\<rparr>) [])"

definition send_frame ::
  "RtpEnv \<Rightarrow> 16 word list \<Rightarrow> bool \<Rightarrow> RtpReceiverTransport
   \<Rightarrow> (TransportError + unit) \<times> RtpReceiverTransport \<times> sent_packet list" where
  "send_frame E samples marker t =
     (case rt_socket t of
        None \<Rightarrow> (Inl NoSession, t, [])
      | Some _ \<Rightarrow>
          let raw = concat (map le16 samples);
              packet = build_rtp_packet (rt_payload_type t) (rt_sequence_number t)
                         (rt_timestamp t) (rt_ssrc t) marker raw
          in case re_send E 0 packet of
               Inl e \<Rightarrow> (Inl (TransportOther e), t, [])
             | Inr _ \<Rightarrow>
                 (Inr (),
                  t\<lparr>rt_sequence_number := rt_sequence_number t + 1,
                    rt_timestamp := rt_timestamp t + of_nat (length samples div 2)\<rparr>,
                  [(re_now E 0, packet)]))"

section \<open>Start, pause, resume, stop\<close>

definition canonical_config :: "TransportStreamConfig \<Rightarrow> bool" where
  "canonical_config c \<longleftrightarrow>
     \<not> (tc_codec c \<noteq> ''pcm_s16le'' \<or> tc_sample_rate c \<noteq> 48000 \<or> tc_bit_depth c \<noteq> 16
        \<or> tc_channels c \<noteq> 2 \<or> tc_packet_ms c \<noteq> 10)"

definition config_mismatch_text :: "TransportStreamConfig \<Rightarrow> string" where
  "config_mismatch_text c =
     ''unsupported receiver-v1-lite config: codec='' @ tc_codec c
     @ '', sr='' @ show_nat (unat (tc_sample_rate c)) @ '', bd='' @ show_nat (unat (tc_bit_depth c))
     @ '', ch='' @ show_nat (unat (tc_channels c))
     @ '', packet_ms='' @ show_nat (unat (tc_packet_ms c))"

text \<open>\<open>target_addr.rsplit_once(':')\<close> and the parsed port.\<close>

definition rsplit_once :: "char \<Rightarrow> string \<Rightarrow> (string \<times> string) option" where
  "rsplit_once d s = map_option (\<lambda>(b, a). (rev a, rev b)) (split_once d (rev s))"

definition parse_u16 :: "string \<Rightarrow> u16 option" where
  "parse_u16 s = map_option of_nat (parse_unsigned (2 ^ 16) s)"

definition remote_port_of :: "string \<Rightarrow> u16 option" where
  "remote_port_of addr = Option.bind (rsplit_once (CHR '':'') addr) (\<lambda>(_, p). parse_u16 p)"

definition rt_start ::
  "RtpEnv \<Rightarrow> TransportStreamConfig \<Rightarrow> RtpReceiverTransport
   \<Rightarrow> (TransportError + TransportSessionHandle) \<times> RtpReceiverTransport" where
  "rt_start E cfg t =
     (if rt_handle t \<noteq> None then (Inl AlreadyActive, t)
      else if \<not> canonical_config cfg then (Inl (CapabilityMismatch (config_mismatch_text cfg)), t)
      else case re_bind E of
        Inl e \<Rightarrow> (Inl (Unreachable e), t)
      | Inr local \<Rightarrow>
          (case re_connect E (rt_target_addr t) of
             Inl e \<Rightarrow> (Inl (Unreachable e), t)
           | Inr _ \<Rightarrow>
               let handle = \<lparr>th_session_id = re_uuid E,
                             th_remote_port = remote_port_of (rt_target_addr t)\<rparr>
               in (Inr handle,
                   t\<lparr>rt_socket := Some \<lparr>so_local_port = local, so_peer = rt_target_addr t\<rparr>,
                     rt_config := Some cfg, rt_handle := Some handle,
                     rt_sequence_number := re_seq E, rt_timestamp := re_timestamp E,
                     rt_pending_pcm := [], rt_next_packet_deadline := Some (re_now E 0),
                     rt_packets_sent := 0, rt_bytes_sent := 0, rt_send_errors := 0,
                     rt_last_packet_at := None\<rparr>)))"

definition rt_pause ::
  "instant \<Rightarrow> RtpReceiverTransport \<Rightarrow> (TransportError + unit) \<times> RtpReceiverTransport" where
  "rt_pause now t =
     (if rt_handle t = None then (Inl NoSession, t)
      else (Inr (), t\<lparr>rt_next_packet_deadline := Some now\<rparr>))"

definition rt_resume ::
  "instant \<Rightarrow> RtpReceiverTransport \<Rightarrow> (TransportError + unit) \<times> RtpReceiverTransport" where
  "rt_resume now t =
     (if rt_handle t = None then (Inl NoSession, t)
      else (Inr (), t\<lparr>rt_next_packet_deadline := Some now\<rparr>))"

definition rt_set_volume ::
  "u8 \<Rightarrow> RtpReceiverTransport \<Rightarrow> (TransportError + unit) \<times> RtpReceiverTransport" where
  "rt_set_volume v t = (if rt_handle t = None then (Inl NoSession, t) else (Inr (), t))"

definition rt_health :: "RtpReceiverTransport \<Rightarrow> TransportError + unit" where
  "rt_health t = (if rt_handle t = None \<or> rt_socket t = None then Inl NoSession else Inr ())"

definition rt_stop ::
  "RtpReceiverTransport \<Rightarrow> (TransportError + unit) \<times> RtpReceiverTransport" where
  "rt_stop t =
     (Inr (), t\<lparr>rt_socket := None, rt_handle := None, rt_config := None, rt_pending_pcm := []\<rparr>)"

section \<open>A run of writes\<close>

fun write_seq ::
  "(RtpEnv \<times> u8 list) list \<Rightarrow> RtpReceiverTransport
   \<Rightarrow> (TransportError + nat) list \<times> RtpReceiverTransport \<times> sent_packet list" where
  "write_seq [] t = ([], t, [])"
| "write_seq ((E, pcm) # ws) t =
     (let (r, t1, out1) = write_pcm E pcm t; (rs, t2, out2) = write_seq ws t1
      in (r # rs, t2, out1 @ out2))"

definition sends_ok :: "RtpEnv \<Rightarrow> bool" where
  "sends_ok E \<longleftrightarrow> (\<forall>k p. is_ok (re_send E k p))"

text \<open>The reference packetizer: a byte string cut into 1920-byte payloads, numbered from a sequence
  number and a timestamp that both wrap.\<close>

function packetize :: "u8 \<Rightarrow> u32 \<Rightarrow> u16 \<Rightarrow> u32 \<Rightarrow> u8 list \<Rightarrow> u8 list list" where
  "packetize pt ssrc sn ts bs =
     (if length bs < rtp_chunk_size then []
      else build_rtp_packet pt sn ts ssrc False (take rtp_chunk_size bs)
           # packetize pt ssrc (sn + 1) (ts + 480) (drop rtp_chunk_size bs))"
  by pat_completeness auto
termination
  by (relation "measure (\<lambda>(pt, ssrc, sn, ts, bs). length bs)") (auto simp: rtp_chunk_size_def)

declare packetize.simps [simp del]

function remainder :: "'a list \<Rightarrow> 'a list" where
  "remainder bs = (if length bs < rtp_chunk_size then bs else remainder (drop rtp_chunk_size bs))"
  by pat_completeness auto
termination
  by (relation "measure length") (auto simp: rtp_chunk_size_def)

declare remainder.simps [simp del]

lemma length_remainder: "length (remainder bs) < rtp_chunk_size"
  by (induction bs rule: remainder.induct) (subst remainder.simps, auto)

lemma remainder_append: "remainder (xs @ ys) = remainder (remainder xs @ ys)"
proof (induction xs rule: remainder.induct)
  case (1 xs)
  show ?case
  proof (cases "length xs < rtp_chunk_size")
    case True
    then show ?thesis by (simp add: remainder.simps [of xs])
  next
    case False
    with 1 show ?thesis
      by (simp add: remainder.simps [of xs] remainder.simps [of "xs @ ys"])
  qed
qed

lemma packetize_append:
  "packetize pt ssrc sn ts (xs @ ys) =
   packetize pt ssrc sn ts xs
   @ packetize pt ssrc (sn + of_nat (length (packetize pt ssrc sn ts xs)))
       (ts + of_nat (480 * length (packetize pt ssrc sn ts xs))) (remainder xs @ ys)"
proof (induction xs arbitrary: sn ts rule: remainder.induct)
  case (1 xs)
  show ?case
  proof (cases "length xs < rtp_chunk_size")
    case True
    then show ?thesis by (simp add: remainder.simps [of xs] packetize.simps [of _ _ _ _ xs])
  next
    case False
    then show ?thesis
      using 1 [OF False, of "sn + 1" "ts + 480"]
      by (simp add: remainder.simps [of xs] packetize.simps [of _ _ _ _ xs]
          packetize.simps [of _ _ _ _ "xs @ ys"] algebra_simps)
  qed
qed

lemma drop_header [simp]: "drop 12 (build_rtp_packet pt sn ts ssrc m payload) = payload"
  by (simp add: build_rtp_packet_def be16_def be32_def)

lemma packetize_payloads:
  "concat (map (drop 12) (packetize pt ssrc sn ts bs)) @ remainder bs = bs"
proof (induction bs arbitrary: sn ts rule: remainder.induct)
  case (1 bs)
  then show ?case
    by (cases "length bs < rtp_chunk_size")
      (simp_all add: packetize.simps [of _ _ _ _ bs] remainder.simps [of bs])
qed

text \<open>What a write leaves unchanged.\<close>

definition same_stream :: "RtpReceiverTransport \<Rightarrow> RtpReceiverTransport \<Rightarrow> bool" where
  "same_stream t t' \<longleftrightarrow> rt_socket t' = rt_socket t \<and> rt_handle t' = rt_handle t \<and>
     rt_config t' = rt_config t \<and> rt_target_addr t' = rt_target_addr t \<and>
     rt_payload_type t' = rt_payload_type t \<and> rt_ssrc t' = rt_ssrc t"

lemma same_stream_trans: "same_stream a b \<Longrightarrow> same_stream b c \<Longrightarrow> same_stream a c"
  by (simp add: same_stream_def)

lemma write_loop_ok:
  assumes "sends_ok E"
  shows "\<exists>t' out'. write_loop E k t out =
      (Inr ((k + length out') * rtp_chunk_size), t', out @ out') \<and>
    map snd out' = packetize (rt_payload_type t) (rt_ssrc t) (rt_sequence_number t)
      (rt_timestamp t) (rt_pending_pcm t) \<and>
    rt_pending_pcm t' = remainder (rt_pending_pcm t) \<and>
    rt_sequence_number t' = rt_sequence_number t + of_nat (length out') \<and>
    rt_timestamp t' = rt_timestamp t + of_nat (480 * length out') \<and> same_stream t t'"
proof (induction "rt_pending_pcm t" arbitrary: k t out rule: remainder.induct)
  case (1 t)
  show ?case
  proof (cases "length (rt_pending_pcm t) < rtp_chunk_size")
    case True
    then show ?thesis
      by (simp add: write_loop.simps [of E k t] packetize.simps [of _ _ _ _ "rt_pending_pcm t"]
          remainder.simps [of "rt_pending_pcm t"] same_stream_def)
  next
    case False
    define p where "p = next_packet t"
    define d where "d = rebase_deadline (re_now E k) (rt_next_packet_deadline t)"
    define t1 where "t1 = advance_packet d (count_sent (re_utc E k)
      (t\<lparr>rt_pending_pcm := drop rtp_chunk_size (rt_pending_pcm t)\<rparr>))"
    have pend: "drop rtp_chunk_size (rt_pending_pcm t) = rt_pending_pcm t1"
      by (simp add: t1_def advance_packet_def count_sent_def)
    obtain n where n: "re_send E k p = Inr n"
      using assms by (auto simp: sends_ok_def is_ok_iff)
    have loop: "write_loop E k t out = write_loop E (Suc k) t1 (out @ [(max d (re_now E k), p)])"
      using False n by (simp add: write_loop.simps [of E k t] Let_def p_def t1_def d_def)
    have fields: "rt_sequence_number t1 = rt_sequence_number t + 1"
      "rt_timestamp t1 = rt_timestamp t + 480" "rt_payload_type t1 = rt_payload_type t"
      "rt_ssrc t1 = rt_ssrc t" and same: "same_stream t t1"
      by (simp_all add: t1_def advance_packet_def count_sent_def same_stream_def)
    from 1 [OF False pend, of "Suc k" "out @ [(max d (re_now E k), p)]"] obtain t' out' where
      ih: "write_loop E (Suc k) t1 (out @ [(max d (re_now E k), p)]) =
          (Inr ((Suc k + length out') * rtp_chunk_size), t', (out @ [(max d (re_now E k), p)]) @ out')"
        "map snd out' = packetize (rt_payload_type t1) (rt_ssrc t1) (rt_sequence_number t1)
          (rt_timestamp t1) (rt_pending_pcm t1)"
        "rt_pending_pcm t' = remainder (rt_pending_pcm t1)"
        "rt_sequence_number t' = rt_sequence_number t1 + of_nat (length out')"
        "rt_timestamp t' = rt_timestamp t1 + of_nat (480 * length out')" "same_stream t1 t'"
      by blast
    show ?thesis
    proof (intro exI conjI)
      show "write_loop E k t out = (Inr ((k + length ((max d (re_now E k), p) # out')) * rtp_chunk_size),
          t', out @ ((max d (re_now E k), p) # out'))"
        unfolding loop ih(1) by simp
      show "map snd ((max d (re_now E k), p) # out') = packetize (rt_payload_type t) (rt_ssrc t)
          (rt_sequence_number t) (rt_timestamp t) (rt_pending_pcm t)"
        using False by (simp add: ih(2) fields packetize.simps [of _ _ _ _ "rt_pending_pcm t"] p_def
            next_packet_def pend)
      show "rt_pending_pcm t' = remainder (rt_pending_pcm t)"
        using False by (simp add: ih(3) remainder.simps [of "rt_pending_pcm t"] pend)
      show "same_stream t t'" by (rule same_stream_trans [OF same ih(6)])
    qed (simp_all add: ih(4,5) fields algebra_simps)
  qed
qed

lemma write_seq_ok:
  assumes "rt_socket t \<noteq> None" and "length (rt_pending_pcm t) < rtp_chunk_size"
    and "\<forall>w \<in> set ws. sends_ok (fst w)"
  shows "\<exists>rs t' out. write_seq ws t = (rs, t', out) \<and> list_all is_ok rs \<and>
    map snd out = packetize (rt_payload_type t) (rt_ssrc t) (rt_sequence_number t)
      (rt_timestamp t) (rt_pending_pcm t @ concat (map snd ws)) \<and>
    rt_pending_pcm t' = remainder (rt_pending_pcm t @ concat (map snd ws)) \<and>
    rt_sequence_number t' = rt_sequence_number t + of_nat (length out) \<and>
    rt_timestamp t' = rt_timestamp t + of_nat (480 * length out) \<and> same_stream t t'"
  using assms
proof (induction ws arbitrary: t)
  case Nil
  then show ?case
    by (simp add: packetize.simps [of _ _ _ _ "rt_pending_pcm t"]
        remainder.simps [of "rt_pending_pcm t"] same_stream_def)
next
  case (Cons w ws)
  obtain E pcm where w: "w = (E, pcm)" by (cases w)
  have ok: "sends_ok E" using Cons.prems(3) w by simp
  let ?t0 = "t\<lparr>rt_pending_pcm := rt_pending_pcm t @ pcm\<rparr>"
  from write_loop_ok [OF ok, of 0 ?t0 "[]"] obtain t1 out1 where
    l: "write_loop E 0 ?t0 [] = (Inr (length out1 * rtp_chunk_size), t1, out1)"
      "map snd out1 = packetize (rt_payload_type t) (rt_ssrc t) (rt_sequence_number t)
         (rt_timestamp t) (rt_pending_pcm t @ pcm)"
      "rt_pending_pcm t1 = remainder (rt_pending_pcm t @ pcm)"
      "rt_sequence_number t1 = rt_sequence_number t + of_nat (length out1)"
      "rt_timestamp t1 = rt_timestamp t + of_nat (480 * length out1)" "same_stream t t1"
    by (auto simp: same_stream_def)
  have w1: "write_pcm E pcm t = (Inr (length out1 * rtp_chunk_size), t1, out1)"
    using Cons.prems(1) l(1) by (auto simp: write_pcm_def)
  have "rt_socket t1 \<noteq> None" using l(6) Cons.prems(1) by (simp add: same_stream_def)
  moreover have "length (rt_pending_pcm t1) < rtp_chunk_size"
    by (simp add: l(3) length_remainder)
  moreover have "\<forall>w \<in> set ws. sends_ok (fst w)" using Cons.prems(3) by simp
  ultimately have "\<exists>rs t' out. write_seq ws t1 = (rs, t', out) \<and> list_all is_ok rs \<and>
    map snd out = packetize (rt_payload_type t1) (rt_ssrc t1) (rt_sequence_number t1)
      (rt_timestamp t1) (rt_pending_pcm t1 @ concat (map snd ws)) \<and>
    rt_pending_pcm t' = remainder (rt_pending_pcm t1 @ concat (map snd ws)) \<and>
    rt_sequence_number t' = rt_sequence_number t1 + of_nat (length out) \<and>
    rt_timestamp t' = rt_timestamp t1 + of_nat (480 * length out) \<and> same_stream t1 t'"
    by (rule Cons.IH)
  then obtain rs t' out where
    ih: "write_seq ws t1 = (rs, t', out)" "list_all is_ok rs"
      "map snd out = packetize (rt_payload_type t1) (rt_ssrc t1) (rt_sequence_number t1)
         (rt_timestamp t1) (rt_pending_pcm t1 @ concat (map snd ws))"
      "rt_pending_pcm t' = remainder (rt_pending_pcm t1 @ concat (map snd ws))"
      "rt_sequence_number t' = rt_sequence_number t1 + of_nat (length out)"
      "rt_timestamp t' = rt_timestamp t1 + of_nat (480 * length out)" "same_stream t1 t'"
    by blast
  have len: "length (packetize (rt_payload_type t) (rt_ssrc t) (rt_sequence_number t)
      (rt_timestamp t) (rt_pending_pcm t @ pcm)) = length out1"
    using l(2) by (metis length_map)
  have same: "rt_payload_type t1 = rt_payload_type t" "rt_ssrc t1 = rt_ssrc t"
    using l(6) by (simp_all add: same_stream_def)
  have "map snd (out1 @ out) = packetize (rt_payload_type t) (rt_ssrc t) (rt_sequence_number t)
      (rt_timestamp t) ((rt_pending_pcm t @ pcm) @ concat (map snd ws))"
    by (subst packetize_append) (simp only: len map_append l ih same)
  moreover have "rt_pending_pcm t' = remainder ((rt_pending_pcm t @ pcm) @ concat (map snd ws))"
    by (subst remainder_append) (simp only: l ih)
  ultimately show ?case
    using ih(2,5,6) l(4,5) same_stream_trans [OF l(6) ih(7)]
    by (simp add: w w1 ih(1) algebra_simps)
qed

end
