(* ===== verification/Rtp_Theorems.thy ===== *)
theory Rtp_Theorems
  imports Rtp_Transport
begin

text \<open>
  Properties of the RTP transport: the header reads back, a run of writes carries exactly the
  bytes it was given whatever their division into writes, and the pacing bounds how many packets
  leave in any window of time.
\<close>

section \<open>Pacing\<close>

text \<open>
  \<open>paced out nd\<close>: each packet of \<open>out\<close> has a deadline, at most 100 ms before its departure,
  deadlines are at least one packet duration apart, and \<open>nd\<close> is the deadline of the next one.
\<close>

definition paced :: "sent_packet list \<Rightarrow> instant option \<Rightarrow> bool" where
  "paced out nd \<longleftrightarrow> (\<exists>ds. length ds = length out \<and>
     (\<forall>i < length out. ds ! i \<le> fst (out ! i) \<and> fst (out ! i) \<le> ds ! i + from_millis 100) \<and>
     (\<forall>j < length out. \<forall>i \<le> j. ds ! i + (j - i) * packet_duration \<le> ds ! j) \<and>
     (\<forall>i < length out. \<exists>n. nd = Some n \<and> ds ! i + (length out - i) * packet_duration \<le> n))"

lemma rebase_bounds:
  assumes "d = rebase_deadline now nd"
  shows "max d now \<le> d + from_millis 100" and "nd = Some n \<Longrightarrow> n \<le> d"
  using assms by (auto simp: rebase_deadline_def split: option.splits if_splits)

lemma paced_step:
  assumes p: "paced out nd" and d: "d = rebase_deadline now nd"
  shows "paced (out @ [(max d now, pkt)]) (Some (d + packet_duration))"
proof -
  from p obtain ds where ds: "length ds = length out"
    "\<forall>i < length out. ds ! i \<le> fst (out ! i) \<and> fst (out ! i) \<le> ds ! i + from_millis 100"
    "\<forall>j < length out. \<forall>i \<le> j. ds ! i + (j - i) * packet_duration \<le> ds ! j"
    "\<forall>i < length out. \<exists>n. nd = Some n \<and> ds ! i + (length out - i) * packet_duration \<le> n"
    unfolding paced_def by blast
  have last: "ds ! i + (length out - i) * packet_duration \<le> d" if "i < length out" for i
    using ds(4) that rebase_bounds(2) [OF d] by (meson order_trans)
  have next_ok: "ds ! i + (Suc (length out) - i) * packet_duration \<le> d + packet_duration"
    if "i < length out" for i
    using last [OF that] that by (simp add: Suc_diff_le)
  have dep: "max d now \<le> d + from_millis 100" by (rule rebase_bounds(1) [OF d])
  show ?thesis
    unfolding paced_def
  proof (intro exI [of _ "ds @ [d]"] conjI allI impI)
    fix i assume "i < length (out @ [(max d now, pkt)])"
    then show "(ds @ [d]) ! i \<le> fst ((out @ [(max d now, pkt)]) ! i)"
      "fst ((out @ [(max d now, pkt)]) ! i) \<le> (ds @ [d]) ! i + from_millis 100"
      "\<exists>n. Some (d + packet_duration) = Some n \<and>
        (ds @ [d]) ! i + (length (out @ [(max d now, pkt)]) - i) * packet_duration \<le> n"
      using ds(1,2) next_ok [of i] dep by (auto simp: nth_append less_Suc_eq)
  next
    fix i j assume "j < length (out @ [(max d now, pkt)])" "i \<le> j"
    then show "(ds @ [d]) ! i + (j - i) * packet_duration \<le> (ds @ [d]) ! j"
      using ds(1,3) last by (auto simp: nth_append less_Suc_eq)
  qed (simp add: ds(1))
qed

lemma write_loop_paced:
  assumes "write_loop E k t out = (r, t', out')" and "paced out (rt_next_packet_deadline t)"
  shows "paced out' (rt_next_packet_deadline t')"
  using assms
proof (induction E k t out arbitrary: r t' out' rule: write_loop.induct)
  case (1 E k t out)
  show ?case
  proof (cases "length (rt_pending_pcm t) < rtp_chunk_size")
    case True
    then show ?thesis using 1(2,3) by (simp add: write_loop.simps [of E k t])
  next
    case False
    let ?d = "rebase_deadline (re_now E k) (rt_next_packet_deadline t)"
    let ?t = "t\<lparr>rt_pending_pcm := drop rtp_chunk_size (rt_pending_pcm t)\<rparr>"
    show ?thesis
    proof (cases "re_send E k (next_packet t)")
      case (Inl e)
      then show ?thesis using 1(2,3) False by (auto simp: write_loop.simps [of E k t] Let_def)
    next
      case (Inr n)
      have "paced (out @ [(max ?d (re_now E k), next_packet t)])
          (rt_next_packet_deadline (advance_packet ?d (count_sent (re_utc E k) ?t)))"
        using paced_step [OF 1(3) refl] by (simp add: advance_packet_def)
      moreover have "write_loop E (Suc k) (advance_packet ?d (count_sent (re_utc E k) ?t))
          (out @ [(max ?d (re_now E k), next_packet t)]) = (r, t', out')"
        using 1(2) False Inr by (simp add: write_loop.simps [of E k t] Let_def)
      ultimately show ?thesis
        using 1(1) [OF False refl refl refl, of ?d n r t' out'] Inr by simp
    qed
  qed
qed

lemma write_loop_prefix:
  "write_loop E k t (out0 @ out) =
     (let (r, t', out') = write_loop E k t out in (r, t', out0 @ out'))"
proof (induction E k t out rule: write_loop.induct)
  case (1 E k t out)
  show ?case
  proof (cases "length (rt_pending_pcm t) < rtp_chunk_size")
    case True
    then show ?thesis by (simp add: write_loop.simps [of E k t])
  next
    case False
    show ?thesis
    proof (cases "re_send E k (next_packet t)")
      case (Inl e)
      then show ?thesis using False by (simp add: write_loop.simps [of E k t] Let_def)
    next
      case (Inr n)
      from 1 [OF False refl refl refl refl Inr] False Inr show ?thesis
        by (simp add: write_loop.simps [of E k t] Let_def)
    qed
  qed
qed

lemma write_pcm_paced:
  assumes "write_pcm E pcm t = (r, t', out)" and "paced out0 (rt_next_packet_deadline t)"
  shows "paced (out0 @ out) (rt_next_packet_deadline t')"
proof (cases "rt_socket t")
  case None
  then show ?thesis using assms by (simp add: write_pcm_def)
next
  case (Some s)
  let ?t = "t\<lparr>rt_pending_pcm := rt_pending_pcm t @ pcm\<rparr>"
  have w: "write_loop E 0 ?t [] = (r, t', out)"
    using assms(1) Some by (simp add: write_pcm_def)
  have "write_loop E 0 ?t (out0 @ []) = (r, t', out0 @ out)"
    unfolding write_loop_prefix [of E 0 ?t out0 "[]"] w by simp
  then show ?thesis using write_loop_paced [of E 0 ?t "out0 @ []"] assms(2) by simp
qed

lemma write_seq_paced:
  assumes "write_seq ws t = (rs, t', out)" and "paced out0 (rt_next_packet_deadline t)"
  shows "paced (out0 @ out) (rt_next_packet_deadline t')"
  using assms
proof (induction ws arbitrary: t out0 rs out t')
  case Nil
  then show ?case by simp
next
  case (Cons w ws)
  obtain E pcm where w: "w = (E, pcm)" by (cases w)
  obtain r t1 out1 where w1: "write_pcm E pcm t = (r, t1, out1)" by (metis prod_cases3)
  obtain rs2 t2 out2 where w2: "write_seq ws t1 = (rs2, t2, out2)" by (metis prod_cases3)
  from Cons.prems(1) have "t2 = t'" "out = out1 @ out2" by (auto simp: w w1 w2)
  with Cons.IH [OF w2 write_pcm_paced [OF w1 Cons.prems(2)]] show ?case by simp
qed

lemma paced_Nil: "paced [] nd"
  by (simp add: paced_def)

lemma paced_window:
  assumes "paced out nd" and "i < j" and "j < length out"
  shows "(j - i) * packet_duration + fst (out ! i) \<le> fst (out ! j) + from_millis 100"
proof -
  obtain ds where
    a: "\<forall>i < length out. ds ! i \<le> fst (out ! i) \<and> fst (out ! i) \<le> ds ! i + from_millis 100"
    and b: "\<forall>j < length out. \<forall>i \<le> j. ds ! i + (j - i) * packet_duration \<le> ds ! j"
    using assms(1) unfolding paced_def by (elim exE conjE) (rule that, assumption+)
  have i: "i < length out" using assms(2,3) by (rule less_trans)
  have "x + f \<le> g + c" if "f \<le> d + c" "e \<le> g" "d + x \<le> e" for x f g c d e :: nat
    using that by linarith
  then show ?thesis
    using a [rule_format, OF i] a [rule_format, OF assms(3)]
      b [rule_format, OF assms(3) less_imp_le [OF assms(2)]]
    by blast
qed

section \<open>A failed send\<close>

text \<open>The chunk of a failed send has left the buffer, and the next packet carries the same
  sequence number and timestamp: the receiver cannot tell that 10 ms are missing.\<close>

lemma failed_send_loses_chunk:
  assumes "rt_socket t = Some s" and "rtp_chunk_size \<le> length (rt_pending_pcm t @ pcm)"
    and "re_send E 0 (next_packet (t\<lparr>rt_pending_pcm := rt_pending_pcm t @ pcm\<rparr>)) = Inl e"
  shows "write_pcm E pcm t =
    (Inl (TransportOther e),
     t\<lparr>rt_pending_pcm := drop rtp_chunk_size (rt_pending_pcm t @ pcm),
       rt_send_errors := rt_send_errors t + 1\<rparr>, [])"
  using assms by (simp add: write_pcm_def write_loop.simps not_less Let_def)

section \<open>Properties\<close>

text \<open>C16 (RTP header round trip). Reading the packet that \<open>build_rtp_packet\<close> writes gives back the
  marker, the seven payload type bits, the sequence number, the timestamp and the source of the
  stream in network byte order, and the payload.\<close>

theorem rtp_packet_roundtrip:
  "parse_rtp (build_rtp_packet pt sn ts ssrc marker payload) =
     Some (\<lparr>rh_marker = marker, rh_payload_type = pt AND 0x7F, rh_sequence = sn,
            rh_timestamp = ts, rh_ssrc = ssrc\<rparr>, payload)"
  using marker_bits [of pt]
  by (cases marker) (simp_all add: build_rtp_packet_def be16_def be32_def be16_inverse be32_inverse)

text \<open>C17 (PCM stream). When the socket accepts every packet, any run of writes on an open transport
  succeeds; the packets sent are exactly those of cutting the buffered bytes followed by all the
  written bytes into 1920-byte payloads, with sequence numbers that count up by one and timestamps
  by 480 (both wrapping), whatever the division into writes; the payloads followed by what stays
  buffered are the bytes put in, and less than one payload stays buffered.\<close>

theorem pcm_stream_lossless:
  assumes "rt_socket t \<noteq> None" and "length (rt_pending_pcm t) < rtp_chunk_size"
    and "\<forall>w \<in> set ws. sends_ok (fst w)"
  shows "\<exists>rs t' out. write_seq ws t = (rs, t', out) \<and> list_all is_ok rs \<and>
    map snd out = packetize (rt_payload_type t) (rt_ssrc t) (rt_sequence_number t)
      (rt_timestamp t) (rt_pending_pcm t @ concat (map snd ws)) \<and>
    concat (map (\<lambda>(_, packet). drop 12 packet) out) @ rt_pending_pcm t' =
      rt_pending_pcm t @ concat (map snd ws) \<and>
    length (rt_pending_pcm t') < rtp_chunk_size \<and>
    rt_sequence_number t' = rt_sequence_number t + of_nat (length out) \<and>
    rt_timestamp t' = rt_timestamp t + of_nat (480 * length out)"
proof -
  have pl: "map (\<lambda>(_, packet). drop 12 packet) out = map (drop 12) (map snd out)"
    for out :: "sent_packet list"
    by (simp add: case_prod_beta')
  from write_seq_ok [OF assms] obtain rs t' out where w: "write_seq ws t = (rs, t', out)"
    "list_all is_ok rs"
    "map snd out = packetize (rt_payload_type t) (rt_ssrc t) (rt_sequence_number t)
      (rt_timestamp t) (rt_pending_pcm t @ concat (map snd ws))"
    "rt_pending_pcm t' = remainder (rt_pending_pcm t @ concat (map snd ws))"
    "rt_sequence_number t' = rt_sequence_number t + of_nat (length out)"
    "rt_timestamp t' = rt_timestamp t + of_nat (480 * length out)"
    by blast
  have "concat (map (\<lambda>(_, packet). drop 12 packet) out) @ rt_pending_pcm t' =
      rt_pending_pcm t @ concat (map snd ws)"
    unfolding pl w(3,4) by (rule packetize_payloads)
  moreover have "length (rt_pending_pcm t') < rtp_chunk_size"
    unfolding w(4) by (rule length_remainder)
  ultimately show ?thesis using w(1,2,3,5,6) by blast
qed

definition demo_rtp_env :: RtpEnv where
  "demo_rtp_env =
     \<lparr>re_bind = Inr (Some 40000), re_connect = \<lambda>_. Inr (), re_uuid = ''rtp-1'',
      re_seq = 65535, re_timestamp = 4294967295, re_now = \<lambda>k. 500000000, re_utc = \<lambda>_. 0,
      re_send = \<lambda>_ p. Inr (length p)\<rparr>"

definition demo_transport :: RtpReceiverTransport where
  "demo_transport =
     snd (rt_start demo_rtp_env receiver_v1_lite_default (new_rtp_transport ''10.0.0.9:50004'' 7))"

lemma demo_transport_fields:
  "rt_socket demo_transport \<noteq> None" "rt_pending_pcm demo_transport = []"
  by (simp_all add: demo_transport_def rt_start_def canonical_config_def demo_rtp_env_def
      receiver_v1_lite_default_def new_rtp_transport_def Let_def)

lemma demo_sends_ok: "sends_ok demo_rtp_env"
  by (simp add: sends_ok_def demo_rtp_env_def)

theorem pcm_stream_lossless_witness:
  "\<exists>rs t' out. write_seq [(demo_rtp_env, replicate 1000 1), (demo_rtp_env, replicate 2840 2)]
      demo_transport = (rs, t', out) \<and> list_all is_ok rs \<and>
    concat (map (\<lambda>(_, packet). drop 12 packet) out) @ rt_pending_pcm t' =
      replicate 1000 1 @ replicate 2840 2"
proof -
  let ?ws = "[(demo_rtp_env, replicate 1000 1), (demo_rtp_env, replicate 2840 2)]"
  have cat: "concat (map snd ?ws) = replicate 1000 1 @ replicate 2840 2"
    by (simp only: list.map concat.simps snd_conv append_Nil2)
  have ok: "\<forall>w \<in> set ?ws. sends_ok (fst w)"
    by (simp only: list.set ball_simps fst_conv demo_sends_ok)
  have len: "length (rt_pending_pcm demo_transport) < rtp_chunk_size"
    unfolding demo_transport_fields by (simp add: rtp_chunk_size_def)
  show ?thesis
    using pcm_stream_lossless [of demo_transport ?ws, OF demo_transport_fields(1) len ok]
    unfolding cat demo_transport_fields append_Nil by blast
qed

text \<open>C18 (pacing). Over any run of writes, failed sends included, two packets that are \<open>n\<close> apart in
  the stream leave at least \<open>n * 10 ms - 100 ms\<close> apart, whatever the clock readings: the transport
  never bursts by more than ten packets, even after a stall.\<close>

theorem packets_are_paced:
  assumes "i < j" and "j < length (snd (snd (write_seq ws t)))"
  shows "(j - i) * packet_duration + fst (snd (snd (write_seq ws t)) ! i)
    \<le> fst (snd (snd (write_seq ws t)) ! j) + from_millis 100"
proof -
  obtain rs t' out where "write_seq ws t = (rs, t', out)" by (metis prod_cases3)
  with assms write_seq_paced [OF this paced_Nil] show ?thesis
    using paced_window by fastforce
qed

lemma length_packetize: "length (packetize pt ssrc sn ts bs) = length bs div rtp_chunk_size"
proof (induction bs arbitrary: sn ts rule: remainder.induct)
  case (1 bs)
  have pos: "0 < rtp_chunk_size" by (simp add: rtp_chunk_size_def)
  show ?case
  proof (cases "length bs < rtp_chunk_size")
    case True
    then show ?thesis by (simp add: packetize.simps [of _ _ _ _ bs])
  next
    case False
    with 1 show ?thesis
      by (simp add: packetize.simps [of _ _ _ _ bs] le_div_geq [OF pos])
  qed
qed

lemma demo_two_packets:
  "length (snd (snd (write_seq [(demo_rtp_env, replicate 3840 1)] demo_transport))) = 2"
proof -
  let ?ws = "[(demo_rtp_env, replicate 3840 1)]"
  have ok: "\<forall>w \<in> set ?ws. sends_ok (fst w)"
    by (simp only: list.set ball_simps fst_conv demo_sends_ok)
  have len: "length (rt_pending_pcm demo_transport) < rtp_chunk_size"
    unfolding demo_transport_fields by (simp add: rtp_chunk_size_def)
  have cat: "concat (map snd ?ws) = replicate 3840 1"
    by (simp only: list.map concat.simps snd_conv append_Nil2)
  obtain rs t' out where w: "write_seq ?ws demo_transport = (rs, t', out)"
    and m: "map snd out = packetize (rt_payload_type demo_transport) (rt_ssrc demo_transport)
      (rt_sequence_number demo_transport) (rt_timestamp demo_transport) (replicate 3840 1)"
    using write_seq_ok [of demo_transport ?ws, OF demo_transport_fields(1) len ok]
    unfolding cat demo_transport_fields append_Nil by blast
  have "length out = 3840 div rtp_chunk_size"
    using arg_cong [OF m, of length] unfolding length_map length_packetize length_replicate .
  then show ?thesis by (simp only: w snd_conv) (simp add: rtp_chunk_size_def)
qed

theorem packets_are_paced_witness:
  "(1 - 0) * packet_duration
      + fst (snd (snd (write_seq [(demo_rtp_env, replicate 3840 1)] demo_transport)) ! 0)
    \<le> fst (snd (snd (write_seq [(demo_rtp_env, replicate 3840 1)] demo_transport)) ! 1)
      + from_millis 100"
proof (rule packets_are_paced)
  show "0 < (1 :: nat)" by (rule zero_less_one)
  show "1 < length (snd (snd (write_seq [(demo_rtp_env, replicate 3840 1)] demo_transport)))"
    unfolding demo_two_packets by simp
qed

end
