(* ===== verification/Receiver_Models.thy ===== *)
theory Receiver_Models
  imports Rtp_Transport "HOL-Library.AList"
begin

text \<open>
  \<open>michi-receivers/src/models.rs\<close>, the capability checks of \<open>session_manager.rs\<close> and the error
  classification of \<open>session_supervisor.rs\<close>: what a receiver announces about itself, the registry
  entry kept of it, when it qualifies for streaming, the strict check of a session answer, and what
  a failed heartbeat means. JSON numbers are kept as \<open>serde_json\<close> keeps them: unsigned, negative
  or floating.
\<close>

section \<open>JSON values\<close>

datatype json =
    JNull
  | JBool bool
  | JUInt u64
  | JNeg int
  | JFloat rat
  | JStr string
  | JArr "json list"
  | JObj "(string \<times> json) list"

fun json_get :: "string \<Rightarrow> json \<Rightarrow> json option" where
  "json_get k (JObj kvs) = map_of kvs k"
| "json_get k _ = None"

fun as_array :: "json \<Rightarrow> json list option" where
  "as_array (JArr xs) = Some xs"
| "as_array _ = None"

fun as_str :: "json \<Rightarrow> string option" where
  "as_str (JStr s) = Some s"
| "as_str _ = None"

fun as_u64 :: "json \<Rightarrow> u64 option" where
  "as_u64 (JUInt n) = Some n"
| "as_u64 _ = None"

fun as_bool :: "json \<Rightarrow> bool option" where
  "as_bool (JBool b) = Some b"
| "as_bool _ = None"

definition get_array :: "string \<Rightarrow> json \<Rightarrow> json list option" where
  "get_array k j = Option.bind (json_get k j) as_array"

definition strings_of :: "json list \<Rightarrow> string list" where
  "strings_of = List.map_filter as_str"

definition u32s_of :: "json list \<Rightarrow> u32 list" where
  "u32s_of = List.map_filter (\<lambda>x. map_option ucast (as_u64 x))"

definition u8s_of :: "json list \<Rightarrow> u8 list" where
  "u8s_of = List.map_filter (\<lambda>x. map_option ucast (as_u64 x))"

section \<open>Receiver information and registry entries\<close>

text \<open>The fields of \<open>michi_identity\<close>'s \<open>DeviceMembershipDto\<close> that the roster reads.\<close>

record DeviceMembership =
  dm_device_michi_id :: string
  dm_roles :: "string list"

record ReceiverInfo =
  ri_service :: "string option"
  ri_name :: "string option"
  ri_device_id :: "string option"
  ri_server_id :: "string option"
  ri_id :: "string option"
  ri_version :: "string option"
  ri_api_version :: "string option"
  ri_firmware :: "string option"
  ri_device_type :: "string option"
  ri_roles :: "string list option"
  ri_identity_scheme :: "string option"
  ri_michi_id :: "string option"
  ri_public_key :: "string option"
  ri_auth :: "json option"
  ri_output :: "json option"
  ri_audio :: "json option"
  ri_supported_codecs :: "string list option"
  ri_features :: "json option"

definition get_codecs :: "ReceiverInfo \<Rightarrow> string list" where
  "get_codecs i =
     (case ri_supported_codecs i of
        Some (c # cs) \<Rightarrow> c # cs
      | _ \<Rightarrow>
          (case Option.bind (ri_audio i) (get_array ''codecs'') of
             Some xs \<Rightarrow> strings_of xs
           | None \<Rightarrow> []))"

datatype ReceiverPresence = PresenceUnknown | Offline | VerifiedOnline | ProvisionalMdns | Degraded

datatype ReceiverQualification =
    QualUnknown
  | Qualified
  | NeedsCapabilityRefresh
  | UnsupportedTransport
  | UnsupportedCodec
  | UnsupportedAudioProfile
  | MissingCredential
  | IdentityMismatch

record ReceiverRegistryEntry =
  en_receiver_id :: string
  en_michi_id :: "string option"
  en_name :: string
  en_device_type :: string
  en_base_url :: string
  en_paired :: bool
  en_token :: "string option"
  en_presence :: ReceiverPresence
  en_last_seen :: "utc option"
  en_capabilities :: "string list"
  en_capabilities_verified_at :: "utc option"
  en_capabilities_stale :: bool
  en_authority_supported :: bool
  en_owner_michi_id :: "string option"
  en_owner_name :: "string option"
  en_active_session_id :: "string option"
  en_max_sample_rate :: u32
  en_max_bit_depth :: u32
  en_supported_transports :: "string list"
  en_supported_codecs :: "string list"
  en_supported_sample_rates :: "u32 list"
  en_supported_bit_depths :: "u32 list"
  en_supported_channels :: "u8 list"
  en_maximum_safe_volume :: "u32 option"
  en_qualification :: ReceiverQualification
  en_michi_home_id :: "string option"
  en_server_membership :: "DeviceMembership option"
  en_authenticated :: bool
  en_revoked :: bool

definition default_entry :: ReceiverRegistryEntry where
  "default_entry =
     \<lparr>en_receiver_id = [], en_michi_id = None, en_name = [], en_device_type = ''standard'',
      en_base_url = [], en_paired = False, en_token = None, en_presence = PresenceUnknown,
      en_last_seen = None, en_capabilities = [], en_capabilities_verified_at = None,
      en_capabilities_stale = True, en_authority_supported = False, en_owner_michi_id = None,
      en_owner_name = None, en_active_session_id = None, en_max_sample_rate = 0,
      en_max_bit_depth = 0, en_supported_transports = [], en_supported_codecs = [],
      en_supported_sample_rates = [], en_supported_bit_depths = [], en_supported_channels = [],
      en_maximum_safe_volume = None, en_qualification = QualUnknown, en_michi_home_id = None,
      en_server_membership = None, en_authenticated = False, en_revoked = False\<rparr>"

definition entry_michi_id :: "ReceiverRegistryEntry \<Rightarrow> string" where
  "entry_michi_id e = (case en_michi_id e of Some m \<Rightarrow> m | None \<Rightarrow> en_receiver_id e)"

definition is_online :: "ReceiverRegistryEntry \<Rightarrow> bool" where
  "is_online e \<longleftrightarrow> en_presence e = VerifiedOnline"

definition missing_credential :: "ReceiverRegistryEntry \<Rightarrow> bool" where
  "missing_credential e \<longleftrightarrow>
     en_paired e \<and> (case en_token e of Some t \<Rightarrow> trim t = [] | None \<Rightarrow> True)"

definition unsupported_profile :: "ReceiverRegistryEntry \<Rightarrow> bool" where
  "unsupported_profile e \<longleftrightarrow>
     \<not> List.member (en_supported_sample_rates e) 48000
     \<or> \<not> List.member (en_supported_bit_depths e) 16
     \<or> \<not> List.member (en_supported_channels e) 2
     \<or> en_max_sample_rate e < 48000 \<or> en_max_bit_depth e < 16"

definition compute_qualification :: "ReceiverRegistryEntry \<Rightarrow> ReceiverQualification" where
  "compute_qualification e =
     (if en_qualification e = IdentityMismatch then IdentityMismatch
      else if missing_credential e then MissingCredential
      else if en_capabilities_stale e \<or> en_capabilities_verified_at e = None
        then NeedsCapabilityRefresh
      else if \<not> List.member (en_supported_transports e) ''rtp_udp'' then UnsupportedTransport
      else if \<not> List.member (en_supported_codecs e) ''pcm_s16le'' then UnsupportedCodec
      else if unsupported_profile e then UnsupportedAudioProfile
      else Qualified)"

text \<open>The registry is a \<open>HashMap\<close>; it is kept here as its list of entries in iteration order.\<close>

type_synonym registry = "(string \<times> ReceiverRegistryEntry) list"

fun find_entry :: "(ReceiverRegistryEntry \<Rightarrow> bool) \<Rightarrow> registry \<Rightarrow> ReceiverRegistryEntry option" where
  "find_entry P [] = None"
| "find_entry P ((k, e) # r) = (if P e then Some e else find_entry P r)"

definition reg_add :: "ReceiverRegistryEntry \<Rightarrow> registry \<Rightarrow> registry" where
  "reg_add e r = AList.update (en_receiver_id e) e r"

definition get_by_michi_id :: "string \<Rightarrow> registry \<Rightarrow> ReceiverRegistryEntry option" where
  "get_by_michi_id m r = find_entry (\<lambda>e. en_michi_id e = Some m \<or> en_receiver_id e = m) r"

definition reg_get :: "registry \<Rightarrow> string \<Rightarrow> ReceiverRegistryEntry option" where
  "reg_get r i = (case map_of r i of Some e \<Rightarrow> Some e | None \<Rightarrow> get_by_michi_id i r)"

text \<open>\<open>get_mut\<close> followed by an update of what it found: the entry under the key, or else the first
  one in iteration order with that \<open>michi_id\<close>.\<close>

fun update_first ::
  "(ReceiverRegistryEntry \<Rightarrow> bool) \<Rightarrow> (ReceiverRegistryEntry \<Rightarrow> ReceiverRegistryEntry)
   \<Rightarrow> registry \<Rightarrow> registry" where
  "update_first P f [] = []"
| "update_first P f ((k, e) # r) = (if P e then (k, f e) # r else (k, e) # update_first P f r)"

definition reg_update ::
  "string \<Rightarrow> (ReceiverRegistryEntry \<Rightarrow> ReceiverRegistryEntry) \<Rightarrow> registry \<Rightarrow> registry" where
  "reg_update i f r =
     (if map_of r i \<noteq> None then map (\<lambda>(k, e). if k = i then (k, f e) else (k, e)) r
      else update_first (\<lambda>e. en_michi_id e = Some i) f r)"

definition reg_remove :: "string \<Rightarrow> registry \<Rightarrow> registry" where
  "reg_remove i r = AList.delete i r"

definition list_online :: "registry \<Rightarrow> ReceiverRegistryEntry list" where
  "list_online r = filter (\<lambda>e. en_presence e = VerifiedOnline) (map snd r)"

section \<open>Capabilities\<close>

text \<open>\<open>max().unwrap_or(d)\<close>; the callers have checked that the list is not empty.\<close>

definition max_or :: "'a::len word \<Rightarrow> 'a word list \<Rightarrow> 'a word" where
  "max_or d xs = (case xs of [] \<Rightarrow> d | y # ys \<Rightarrow> fold max ys y)"

definition set_sample_rates :: "u32 list \<Rightarrow> ReceiverRegistryEntry \<Rightarrow> ReceiverRegistryEntry" where
  "set_sample_rates rates e =
     (if rates = [] then e
      else e\<lparr>en_max_sample_rate := max_or 48000 rates, en_supported_sample_rates := rates\<rparr>)"

definition set_bit_depths :: "u32 list \<Rightarrow> ReceiverRegistryEntry \<Rightarrow> ReceiverRegistryEntry" where
  "set_bit_depths depths e =
     (if depths = [] then e
      else e\<lparr>en_max_bit_depth := max_or 16 depths, en_supported_bit_depths := depths\<rparr>)"

definition on_array ::
  "string \<Rightarrow> (json list \<Rightarrow> ReceiverRegistryEntry \<Rightarrow> ReceiverRegistryEntry) \<Rightarrow> json
   \<Rightarrow> ReceiverRegistryEntry \<Rightarrow> ReceiverRegistryEntry" where
  "on_array k f j e = (case get_array k j of Some xs \<Rightarrow> f xs e | None \<Rightarrow> e)"

definition apply_audio :: "json \<Rightarrow> ReceiverRegistryEntry \<Rightarrow> ReceiverRegistryEntry" where
  "apply_audio audio e =
     (let e = on_array ''transports'' (\<lambda>xs e. e\<lparr>en_supported_transports := strings_of xs\<rparr>) audio e;
          e = on_array ''sample_rates'' (\<lambda>xs. set_sample_rates (u32s_of xs)) audio e;
          e = on_array ''bit_depths'' (\<lambda>xs. set_bit_depths (u32s_of xs)) audio e;
          e = on_array ''channels'' (\<lambda>xs e. e\<lparr>en_supported_channels := u8s_of xs\<rparr>) audio e
      in on_array ''codecs'' (\<lambda>xs e. e\<lparr>en_supported_codecs := strings_of xs\<rparr>) audio e)"

definition fill_defaults :: "ReceiverRegistryEntry \<Rightarrow> ReceiverRegistryEntry" where
  "fill_defaults e =
     (let e = (if en_max_sample_rate e = 0
               then e\<lparr>en_max_sample_rate := 48000, en_supported_sample_rates := [44100, 48000]\<rparr>
               else e);
          e = (if en_max_bit_depth e = 0
               then e\<lparr>en_max_bit_depth := 16, en_supported_bit_depths := [16]\<rparr> else e);
          e = (if en_supported_channels e = [] then e\<lparr>en_supported_channels := [2]\<rparr> else e);
          e = (if en_supported_codecs e = [] then e\<lparr>en_supported_codecs := [''pcm_s16le'']\<rparr> else e)
      in if en_supported_transports e = [] then e\<lparr>en_supported_transports := [''rtp_udp'']\<rparr> else e)"

definition authority_feature :: "json \<Rightarrow> bool" where
  "authority_feature feats =
     (let v = (case json_get ''authority_v1'' feats of Some v \<Rightarrow> Some v
               | None \<Rightarrow> json_get ''perch_v1'' feats)
      in (case Option.bind v as_bool of Some b \<Rightarrow> b | None \<Rightarrow> False))"

definition update_entry_capabilities ::
  "ReceiverInfo \<Rightarrow> ReceiverRegistryEntry \<Rightarrow> ReceiverRegistryEntry" where
  "update_entry_capabilities info e =
     (let e = (case ri_audio info of
                 Some audio \<Rightarrow> apply_audio audio e
               | None \<Rightarrow> (case ri_supported_codecs info of
                            Some cs \<Rightarrow> e\<lparr>en_supported_codecs := cs\<rparr> | None \<Rightarrow> e));
          e = fill_defaults e
      in (case ri_features info of
            Some feats \<Rightarrow> e\<lparr>en_authority_supported := authority_feature feats\<rparr>
          | None \<Rightarrow> e))"

definition non_empty :: "'a list option \<Rightarrow> 'a list option" where
  "non_empty x = (case x of Some [] \<Rightarrow> None | _ \<Rightarrow> x)"

definition missing_spec :: "string \<Rightarrow> string" where
  "missing_spec k = ''CONTRACT_VIOLATION: receiver capabilities missing valid audio.'' @ k"

definition require_list ::
  "string \<Rightarrow> string \<Rightarrow> (json list \<Rightarrow> 'a list) \<Rightarrow> 'a \<Rightarrow> json \<Rightarrow> string + unit" where
  "require_list k unsupported conv wanted audio =
     (case non_empty (map_option conv (get_array k audio)) of
        None \<Rightarrow> Inl (missing_spec k)
      | Some xs \<Rightarrow> if List.member xs wanted then Inr () else Inl unsupported)"

definition and_then :: "string + unit \<Rightarrow> (string + unit) \<Rightarrow> string + unit" where
  "and_then a b = (case a of Inl e \<Rightarrow> Inl e | Inr _ \<Rightarrow> b)"

definition validate_audio :: "json \<Rightarrow> string + unit" where
  "validate_audio audio =
     and_then (require_list ''transports''
       ''CONTRACT_VIOLATION: receiver audio does not support required 'rtp_udp' transport''
       strings_of ''rtp_udp'' audio)
     (and_then (require_list ''sample_rates''
       ''CONTRACT_VIOLATION: receiver audio does not support required 48000 Hz sample rate''
       u32s_of 48000 audio)
     (and_then (require_list ''bit_depths''
       ''CONTRACT_VIOLATION: receiver audio does not support required 16-bit depth''
       u32s_of 16 audio)
     (and_then (require_list ''channels''
       ''CONTRACT_VIOLATION: receiver audio does not support required 2 channels (stereo)''
       u8s_of 2 audio)
     (require_list ''codecs''
       ''CONTRACT_VIOLATION: receiver audio does not support required 'pcm_s16le' codec''
       strings_of ''pcm_s16le'' audio))))"

definition validate_audio_capabilities :: "ReceiverInfo \<Rightarrow> string + unit" where
  "validate_audio_capabilities info =
     (case ri_audio info of
        None \<Rightarrow> Inl ''CONTRACT_VIOLATION: receiver missing canonical 'audio' specification''
      | Some audio \<Rightarrow> validate_audio audio)"

section \<open>The strict check of a session answer\<close>

record EffectiveSessionWire =
  ef_transport :: string
  ef_codec :: string
  ef_sample_rate :: u32
  ef_bit_depth :: u32
  ef_channels :: u32
  ef_packet_ms :: u32
  ef_buffer_ms :: u32
  ef_payload_type :: u8
  ef_ssrc :: u32
  ef_stream_port :: u16
  ef_volume :: u32

record SessionStartResponse =
  ss_session_id :: string
  ss_session_token :: string
  ss_lease_seconds :: u64
  ss_effective :: EffectiveSessionWire

text \<open>\<open>NegotiatedReceiverSession\<close> repeats the fields of the answer.\<close>

record NegotiatedReceiverSession = EffectiveSessionWire +
  ng_session_id :: string
  ng_session_token :: string
  ng_lease_seconds :: u64

definition is_base64url_char :: "char \<Rightarrow> bool" where
  "is_base64url_char c \<longleftrightarrow>
     (let n = of_char c :: nat
      in (48 \<le> n \<and> n \<le> 57) \<or> (65 \<le> n \<and> n \<le> 90) \<or> (97 \<le> n \<and> n \<le> 122)
         \<or> c = CHR ''-'' \<or> c = CHR ''_'')"

definition contract_got :: "string \<Rightarrow> string \<Rightarrow> string" where
  "contract_got what got = ''CONTRACT_VIOLATION: '' @ what @ '', got '' @ got"

definition quoted :: "string \<Rightarrow> string" where
  "quoted s = [CHR 0x27] @ s @ [CHR 0x27]"

definition show_word :: "'a::len word \<Rightarrow> string" where
  "show_word w = show_nat (unat w)"

definition validate_envelope :: "(string \<Rightarrow> bool) \<Rightarrow> SessionStartResponse \<Rightarrow> string option" where
  "validate_envelope uuid_ok r =
     (if \<not> uuid_ok (ss_session_id r)
        then Some (contract_got ''session_id must be a valid UUID v4'' (quoted (ss_session_id r)))
      else if ss_lease_seconds r \<noteq> 30
        then Some (contract_got ''lease_seconds must be exactly 30'' (show_word (ss_lease_seconds r)))
      else if length (ss_session_token r) \<noteq> 43
           \<or> \<not> list_all is_base64url_char (ss_session_token r)
        then Some ''CONTRACT_VIOLATION: session_token must be 43 base64url characters''
      else None)"

definition validate_format :: "EffectiveSessionWire \<Rightarrow> string option" where
  "validate_format f =
     (if ef_transport f \<noteq> ''rtp_udp''
        then Some (contract_got (''effective transport must be '' @ quoted ''rtp_udp'') (quoted (ef_transport f)))
      else if ef_codec f \<noteq> ''pcm_s16le''
        then Some (contract_got (''effective codec must be '' @ quoted ''pcm_s16le'') (quoted (ef_codec f)))
      else if ef_sample_rate f \<noteq> 48000
        then Some (contract_got ''effective sample_rate must be 48000'' (show_word (ef_sample_rate f)))
      else if ef_bit_depth f \<noteq> 16
        then Some (contract_got ''effective bit_depth must be 16'' (show_word (ef_bit_depth f)))
      else if ef_channels f \<noteq> 2
        then Some (contract_got ''effective channels must be 2'' (show_word (ef_channels f)))
      else if ef_packet_ms f \<noteq> 10
        then Some (contract_got ''effective packet_ms must be 10'' (show_word (ef_packet_ms f)))
      else None)"

definition validate_limits :: "EffectiveSessionWire \<Rightarrow> string option" where
  "validate_limits f =
     (if \<not> (50 \<le> ef_buffer_ms f \<and> ef_buffer_ms f \<le> 500)
        then Some (contract_got ''effective buffer_ms must be 50..=500'' (show_word (ef_buffer_ms f)))
      else if ef_payload_type f \<noteq> 97
        then Some (contract_got ''effective payload_type must be 97'' (show_word (ef_payload_type f)))
      else if ef_ssrc f = 0 then Some ''CONTRACT_VIOLATION: effective ssrc must be non-zero''
      else if \<not> (49152 \<le> ef_stream_port f)
        then Some (contract_got ''effective stream_port must be 49152..=65535''
                     (show_word (ef_stream_port f)))
      else if ef_volume f > 100
        then Some (contract_got ''effective volume must be <= 100'' (show_word (ef_volume f)))
      else None)"

definition negotiated_of :: "SessionStartResponse \<Rightarrow> NegotiatedReceiverSession" where
  "negotiated_of r =
     EffectiveSessionWire.extend (ss_effective r)
       \<lparr>ng_session_id = ss_session_id r, ng_session_token = ss_session_token r,
        ng_lease_seconds = ss_lease_seconds r\<rparr>"

definition validate_strict ::
  "(string \<Rightarrow> bool) \<Rightarrow> SessionStartResponse \<Rightarrow> string + NegotiatedReceiverSession" where
  "validate_strict uuid_ok r =
     (case validate_envelope uuid_ok r of Some e \<Rightarrow> Inl e
      | None \<Rightarrow>
     (case validate_format (ss_effective r) of Some e \<Rightarrow> Inl e
      | None \<Rightarrow>
     (case validate_limits (ss_effective r) of Some e \<Rightarrow> Inl e
      | None \<Rightarrow> Inr (negotiated_of r))))"

end
