(* ===== verification/Receiver_Client.thy ===== *)
theory Receiver_Client
  imports Receiver_Models
begin

text \<open>
  \<open>michi-receivers/src/client.rs\<close> (authentication, heartbeat and session requests),
  \<open>session_supervisor.rs\<close> and the authority client and gate. The network is a parameter: for each
  kind of request the environment \<open>ReceiverNet\<close> answers with what \<open>reqwest\<close> and \<open>serde_json\<close>
  deliver. A second request of the same kind in one call is answered as attempt 1. The signature
  and verification functions of the \<open>michi_identity\<close> crate are parameters too.
\<close>

section \<open>Errors\<close>

datatype ReceiverClientError =
    CeUnauthorized
  | CeSessionNotFound
  | CeSessionConflict
  | CeAuthorityRevoked
  | CeTimeout
  | CeOffline string
  | CeProtocol string
  | CeHttp u16 string

datatype SessionLossReason =
    LossAuthorityRevoked
  | LossUnauthorized
  | LossSessionNotFound
  | LossSessionConflict
  | ConsecutiveTimeouts u32
  | LeaseExpired
  | LossOther string

datatype HeartbeatDisposition =
    HbContinue
  | RetryTransient u32
  | SessionLost SessionLossReason

fun contains :: "string \<Rightarrow> string \<Rightarrow> bool" where
  "contains [] p = (p = [])"
| "contains (c # s) p = (starts_with (c # s) p \<or> contains s p)"

definition from_response_parts :: "u16 \<Rightarrow> string \<Rightarrow> ReceiverClientError" where
  "from_response_parts status body =
     (let lower = to_lowercase body in
      if status = 401 \<or> contains lower ''unauthorized'' then CeUnauthorized
      else if status = 404 \<or> contains lower ''sessionnotfound'' \<or> contains lower ''not found''
        then CeSessionNotFound
      else if status = 409 \<or> contains lower ''conflict'' \<or> contains lower ''sessionconflict''
        then CeSessionConflict
      else if status = 403 \<or> contains lower ''authority_revoked'' \<or> contains lower ''revoked''
           \<or> contains lower ''forbidden'' then CeAuthorityRevoked
      else if status = 408 \<or> contains lower ''timeout'' \<or> contains lower ''timed out'' then CeTimeout
      else CeHttp status body)"

fun is_transient :: "ReceiverClientError \<Rightarrow> bool" where
  "is_transient CeTimeout = True"
| "is_transient (CeOffline _) = True"
| "is_transient (CeHttp _ _) = True"
| "is_transient _ = False"

definition classify_transient :: "u32 \<Rightarrow> nat \<Rightarrow> nat \<Rightarrow> HeartbeatDisposition" where
  "classify_transient failures since_success lease =
     (if since_success \<ge> lease then SessionLost LeaseExpired
      else if failures \<ge> 3 then SessionLost (ConsecutiveTimeouts failures)
      else RetryTransient failures)"

fun classify_heartbeat_error_typed ::
  "ReceiverClientError \<Rightarrow> u32 \<Rightarrow> nat \<Rightarrow> nat \<Rightarrow> HeartbeatDisposition" where
  "classify_heartbeat_error_typed CeUnauthorized _ _ _ = SessionLost LossUnauthorized"
| "classify_heartbeat_error_typed CeAuthorityRevoked _ _ _ = SessionLost LossAuthorityRevoked"
| "classify_heartbeat_error_typed CeSessionNotFound _ _ _ = SessionLost LossSessionNotFound"
| "classify_heartbeat_error_typed CeSessionConflict _ _ _ = SessionLost LossSessionConflict"
| "classify_heartbeat_error_typed (CeProtocol m) _ _ _ = SessionLost (LossOther m)"
| "classify_heartbeat_error_typed CeTimeout n t l = classify_transient n t l"
| "classify_heartbeat_error_typed (CeOffline _) n t l = classify_transient n t l"
| "classify_heartbeat_error_typed (CeHttp _ _) n t l = classify_transient n t l"

definition classify_heartbeat_error :: "string \<Rightarrow> u32 \<Rightarrow> nat \<Rightarrow> nat \<Rightarrow> HeartbeatDisposition" where
  "classify_heartbeat_error s = classify_heartbeat_error_typed (from_response_parts 0 s)"

record ReceiverProtocolError =
  pe_http_status :: u16
  pe_code :: string
  pe_message :: string
  pe_details :: json

definition show_protocol_error :: "ReceiverProtocolError \<Rightarrow> string" where
  "show_protocol_error e =
     ''ReceiverProtocolError(status='' @ show_word (pe_http_status e) @ '', code='' @ pe_code e
     @ '', message='' @ pe_message e @ '')''"

section \<open>Requests and answers\<close>

record AuthorityGrant =
  ag_authority_instance_id :: string
  ag_lease_epoch :: u64
  ag_grant_token :: string
  ag_activation_expires_at :: utc

record AuthorityStamp =
  as_authority_instance_id :: string
  as_lease_epoch :: u64

datatype AuthorityError =
    Occupied "string option" "string option"
  | AuthUnauthorized string
  | EpochMismatch u64 u64
  | GrantExpired
  | Unsupported
  | TakeoverRequiresExplicit
  | AuthHttp string
  | AuthProtocol string

record SessionStartBody =
  sb_codec :: string
  sb_sample_rate :: u32
  sb_bit_depth :: u32
  sb_channels :: u32
  sb_buffer_ms :: u64
  sb_ssrc :: u32
  sb_volume :: u32

datatype ReceiverBody =
    BodyNone
  | BodyHeartbeat string u64 u64
  | BodyStart SessionStartBody "AuthorityGrant option"
  | BodyVolume u32
  | BodyPaused bool

record ReceiverRequest =
  rq_url :: string
  rq_bearer :: "string option"
  rq_session :: "string option"
  rq_body :: ReceiverBody

text \<open>What \<open>reqwest\<close> delivers: no answer (with the error text, and whether it was a timeout), or a
  status, the body as text, and the body decoded as the type the caller wants.\<close>

datatype 'a http_answer =
    SendFailed bool string
  | Answer u16 string "string + 'a"

definition is_success :: "u16 \<Rightarrow> bool" where
  "is_success status \<longleftrightarrow> 200 \<le> status \<and> status < 300"

record AuthChallenge =
  ac_challenge_id :: string
  ac_server_michi_id :: string
  ac_challenge_nonce :: string

record AuthSession =
  au_session_token :: string
  au_server_membership :: DeviceMembership

record HomeRevocation =
  hr_version :: u32
  hr_home_id :: string
  hr_revoked_device :: string
  hr_revoked_at :: string
  hr_reason :: string
  hr_signature :: string

record HomeAuthContext =
  hc_root_public_key :: string
  hc_home_id :: string
  hc_client_membership :: DeviceMembership
  hc_revocations :: "HomeRevocation list"

record HeartbeatResponse =
  hb_status :: "string option"
  hb_session_id :: "string option"
  hb_lease_seconds :: "u64 option"

record VolumeResponse =
  vr_status :: "string option"
  vr_volume :: "u32 option"

record ReceiverNet =
  nt_status_text :: "u16 \<Rightarrow> string"
  nt_uuid_ok :: "string \<Rightarrow> bool"
  nt_ssrc :: "nat \<Rightarrow> u32"
  nt_now_ms :: u64
  nt_start :: "nat \<Rightarrow> ReceiverRequest \<Rightarrow> SessionStartResponse http_answer"
  nt_beat :: "nat \<Rightarrow> ReceiverRequest \<Rightarrow> HeartbeatResponse http_answer"
  nt_volume :: "ReceiverRequest \<Rightarrow> VolumeResponse http_answer"
  nt_pause :: "ReceiverRequest \<Rightarrow> unit http_answer"
  nt_stop :: "ReceiverRequest \<Rightarrow> unit http_answer"
  nt_info :: "nat \<Rightarrow> string \<Rightarrow> ReceiverInfo http_answer"
  nt_challenge :: "string \<Rightarrow> string \<Rightarrow> AuthChallenge http_answer"
    \<comment> \<open>base URL and home id\<close>
  nt_session :: "string \<Rightarrow> AuthChallenge \<Rightarrow> string \<Rightarrow> AuthSession http_answer"
    \<comment> \<open>base URL, challenge and client signature\<close>
  nt_json :: "string \<Rightarrow> json option"
    \<comment> \<open>a body read as a JSON value\<close>
  nt_sign :: "string \<Rightarrow> AuthChallenge \<Rightarrow> string"
  nt_verify :: "AuthSession \<Rightarrow> HomeAuthContext \<Rightarrow> string \<Rightarrow> string + unit"
    \<comment> \<open>\<open>verify_server_auth_session\<close>\<close>
  nt_authority_info :: "string \<Rightarrow> string option \<Rightarrow> AuthorityError + unit"
  nt_authority_claim :: "string \<Rightarrow> string option \<Rightarrow> AuthorityError + AuthorityGrant"
  nt_url_parse :: "string \<Rightarrow> string + string option"
    \<comment> \<open>\<open>Url::parse\<close> and the host of the result\<close>

section \<open>The client\<close>

record ReceiverClient =
  rc_base_url :: string
  rc_token :: "string option"
  rc_active_session_id :: "string option"
  rc_active_session_token :: "string option"
  rc_heartbeat_sequence :: u64
  rc_has_identity :: bool

definition trim_end_slashes :: "string \<Rightarrow> string" where
  "trim_end_slashes s = rev (dropWhile (\<lambda>c. c = CHR ''/'') (rev s))"

definition new_client :: "bool \<Rightarrow> string \<Rightarrow> ReceiverClient" where
  "new_client has_identity base_url =
     \<lparr>rc_base_url = trim_end_slashes base_url, rc_token = None, rc_active_session_id = None,
      rc_active_session_token = None, rc_heartbeat_sequence = 0, rc_has_identity = has_identity\<rparr>"

definition client_get_info :: "ReceiverNet \<Rightarrow> nat \<Rightarrow> ReceiverClient \<Rightarrow> string + ReceiverInfo" where
  "client_get_info N k c =
     (case nt_info N k (rc_base_url c @ ''/api/v1/server/info'') of
        SendFailed _ e \<Rightarrow> Inl (''info request failed: '' @ e)
      | Answer status _ parsed \<Rightarrow>
          (if \<not> is_success status
           then Inl (''info request failed with status '' @ nt_status_text N status)
           else case parsed of Inl e \<Rightarrow> Inl (''info parse failed: '' @ e) | Inr i \<Rightarrow> Inr i))"

text \<open>The error of an unsuccessful authentication answer: the \<open>error\<close> object of its JSON body where
  there is one, the defaults otherwise.\<close>

definition str_field :: "string \<Rightarrow> string \<Rightarrow> json \<Rightarrow> string" where
  "str_field k d j = (case Option.bind (json_get k j) as_str of Some s \<Rightarrow> s | None \<Rightarrow> d)"

definition rejected_answer ::
  "string \<Rightarrow> string \<Rightarrow> string \<Rightarrow> u16 \<Rightarrow> json option \<Rightarrow> ReceiverProtocolError" where
  "rejected_answer code rejected failed status body =
     (case Option.bind body (json_get ''error'') of
        Some obj \<Rightarrow>
          \<lparr>pe_http_status = status, pe_code = str_field ''code'' code obj,
           pe_message = str_field ''message'' rejected obj,
           pe_details = (case json_get ''details'' obj of Some d \<Rightarrow> d | None \<Rightarrow> JNull)\<rparr>
      | None \<Rightarrow>
          \<lparr>pe_http_status = status, pe_code = code, pe_message = failed, pe_details = JNull\<rparr>)"

definition typed_answer ::
  "ReceiverNet \<Rightarrow> string \<Rightarrow> string \<Rightarrow> string \<Rightarrow> 'a http_answer \<Rightarrow> ReceiverProtocolError + 'a" where
  "typed_answer N call code rejected ans =
     (case ans of
        SendFailed _ e \<Rightarrow>
          Inl \<lparr>pe_http_status = 503, pe_code = ''NETWORK_ERROR'',
               pe_message = call @ '' request failed: '' @ e, pe_details = JNull\<rparr>
      | Answer status body parsed \<Rightarrow>
          (if \<not> is_success status
           then Inl (rejected_answer code rejected
                       (call @ '' failed with status '' @ nt_status_text N status)
                       status (nt_json N body))
           else case parsed of
             Inl e \<Rightarrow>
               Inl \<lparr>pe_http_status = 500, pe_code = ''DECODE_ERROR'',
                    pe_message = call @ '' parse failed: '' @ e, pe_details = JNull\<rparr>
           | Inr a \<Rightarrow> Inr a))"

definition auth_challenge ::
  "ReceiverNet \<Rightarrow> string \<Rightarrow> ReceiverClient \<Rightarrow> ReceiverProtocolError + AuthChallenge" where
  "auth_challenge N home_id c =
     typed_answer N ''auth_challenge'' ''AUTH_CHALLENGE_FAILED'' ''auth challenge rejected''
       (nt_challenge N (rc_base_url c) home_id)"

definition auth_session ::
  "ReceiverNet \<Rightarrow> AuthChallenge \<Rightarrow> string \<Rightarrow> ReceiverClient \<Rightarrow> ReceiverProtocolError + AuthSession" where
  "auth_session N ch sig c =
     typed_answer N ''auth_session'' ''AUTH_SESSION_FAILED'' ''auth session rejected''
       (nt_session N (rc_base_url c) ch sig)"

definition client_authenticate ::
  "ReceiverNet \<Rightarrow> HomeAuthContext \<Rightarrow> ReceiverClient \<Rightarrow> ReceiverClientError + AuthSession" where
  "client_authenticate N ctx c =
     (if \<not> rc_has_identity c then Inl (CeProtocol ''IdentityManager not configured on client'')
      else case auth_challenge N (hc_home_id ctx) c of
        Inl e \<Rightarrow> Inl (CeProtocol (''auth_challenge failed: '' @ show_protocol_error e))
      | Inr ch \<Rightarrow>
      (case auth_session N ch (nt_sign N (hc_home_id ctx) ch) c of
         Inl e \<Rightarrow> Inl (CeProtocol (''auth_session failed: '' @ show_protocol_error e))
       | Inr sess \<Rightarrow>
       (case nt_verify N sess ctx (ac_challenge_id ch) of
          Inl e \<Rightarrow>
            Inl (CeProtocol (''server mutual authentication verification failed: '' @ e))
        | Inr _ \<Rightarrow> Inr sess)))"

text \<open>\<open>apply_session_headers\<close>.\<close>

definition session_request :: "ReceiverClient \<Rightarrow> string \<Rightarrow> ReceiverBody \<Rightarrow> ReceiverRequest" where
  "session_request c path body =
     \<lparr>rq_url = rc_base_url c @ path, rq_bearer = rc_token c,
      rq_session = rc_active_session_token c, rq_body = body\<rparr>"

definition client_heartbeat ::
  "ReceiverNet \<Rightarrow> nat \<Rightarrow> ReceiverClient \<Rightarrow> (ReceiverClientError + HeartbeatResponse) \<times> ReceiverClient" where
  "client_heartbeat N k c =
     (case rc_active_session_id c of
        None \<Rightarrow> (Inl (CeProtocol ''NoActiveSession: cannot heartbeat without active session''), c)
      | Some sid \<Rightarrow>
          let sn = rc_heartbeat_sequence c + 1;
              c = c\<lparr>rc_heartbeat_sequence := sn\<rparr>
          in ((case nt_beat N k (session_request c ''/api/v1/receiver-lite/heartbeat''
                                   (BodyHeartbeat sid sn (nt_now_ms N))) of
                 SendFailed timeout e \<Rightarrow> Inl (if timeout then CeTimeout else CeOffline e)
               | Answer status body parsed \<Rightarrow>
                   (if \<not> is_success status then Inl (from_response_parts status body)
                    else case parsed of
                      Inl e \<Rightarrow> Inl (CeProtocol (''heartbeat parse failed: '' @ e))
                    | Inr r \<Rightarrow> Inr r)), c))"

definition start_request ::
  "ReceiverNet \<Rightarrow> nat \<Rightarrow> ReceiverClient \<Rightarrow> SessionStartBody \<Rightarrow> AuthorityGrant option \<Rightarrow> ReceiverRequest" where
  "start_request N k c body authority =
     \<lparr>rq_url = rc_base_url c @ ''/api/v1/receiver-lite/session'', rq_bearer = rc_token c,
      rq_session = None,
      rq_body = BodyStart (body\<lparr>sb_ssrc := max (nt_ssrc N k) 1\<rparr>) authority\<rparr>"

definition client_session_start ::
  "ReceiverNet \<Rightarrow> nat \<Rightarrow> SessionStartBody \<Rightarrow> AuthorityGrant option \<Rightarrow> ReceiverClient
   \<Rightarrow> (string + NegotiatedReceiverSession) \<times> ReceiverClient" where
  "client_session_start N k body authority c =
     (if sb_volume body > 100
      then (Inl (''volume '' @ show_word (sb_volume body) @ '' exceeds maximum of 100''), c)
      else case nt_start N k (start_request N k c body authority) of
        SendFailed _ e \<Rightarrow> (Inl (''session_start request failed: '' @ e), c)
      | Answer status _ parsed \<Rightarrow>
          (if status \<noteq> 201
           then (Inl (''session_start failed: expected HTTP 201 Created, got ''
                      @ nt_status_text N status), c)
           else case parsed of
             Inl e \<Rightarrow> (Inl (''session_start parse failed: '' @ e), c)
           | Inr raw \<Rightarrow>
               (case validate_strict (nt_uuid_ok N) raw of
                  Inl e \<Rightarrow> (Inl e, c)
                | Inr neg \<Rightarrow>
                    (Inr neg,
                     c\<lparr>rc_active_session_id := Some (ng_session_id neg),
                       rc_active_session_token := Some (ng_session_token neg),
                       rc_heartbeat_sequence := 0\<rparr>))))"

definition client_set_volume ::
  "ReceiverNet \<Rightarrow> u32 \<Rightarrow> ReceiverClient \<Rightarrow> string + VolumeResponse" where
  "client_set_volume N v c =
     (if rc_active_session_id c = None
        then Inl ''NoActiveSession: cannot set volume without active session''
      else if v > 100 then Inl (''volume '' @ show_word v @ '' exceeds maximum of 100'')
      else case nt_volume N (session_request c ''/api/v1/receiver-lite/session'' (BodyVolume v)) of
        SendFailed _ e \<Rightarrow> Inl (''set_volume request failed: '' @ e)
      | Answer status _ parsed \<Rightarrow>
          (if \<not> is_success status
           then Inl (''set_volume failed with status '' @ nt_status_text N status)
           else case parsed of
             Inl e \<Rightarrow> Inl (''set_volume parse failed: '' @ e) | Inr r \<Rightarrow> Inr r))"

definition client_session_pause ::
  "ReceiverNet \<Rightarrow> bool \<Rightarrow> ReceiverClient \<Rightarrow> string + unit" where
  "client_session_pause N paused c =
     (if rc_active_session_id c = None
        then Inl ''NoActiveSession: cannot pause/resume session when no session is active''
      else case nt_pause N (session_request c ''/api/v1/receiver-lite/session'' (BodyPaused paused)) of
        SendFailed _ e \<Rightarrow> Inl (''session_pause request failed: '' @ e)
      | Answer status _ _ \<Rightarrow>
          (if is_success status then Inr ()
           else Inl (''session_pause failed with status '' @ nt_status_text N status)))"

definition client_session_stop ::
  "ReceiverNet \<Rightarrow> ReceiverClient \<Rightarrow> (string + unit) \<times> ReceiverClient" where
  "client_session_stop N c =
     (if rc_active_session_id c = None
        then (Inl ''NoActiveSession: cannot stop session when no session is active'', c)
      else case nt_stop N (session_request c ''/api/v1/receiver-lite/session'' BodyNone) of
        SendFailed _ e \<Rightarrow> (Inl (''session_stop request failed: '' @ e), c)
      | Answer status _ _ \<Rightarrow>
          (if status \<noteq> 204 \<and> status \<noteq> 200 \<and> \<not> is_success status
           then (Inl (''session_stop failed with status '' @ nt_status_text N status), c)
           else (Inr (), c\<lparr>rc_active_session_id := None, rc_active_session_token := None,
                          rc_heartbeat_sequence := 0\<rparr>)))"

end
