(* ===== verification/Receiver_Sessions.thy ===== *)
theory Receiver_Sessions
  imports Receiver_Client
begin

text \<open>
  \<open>michi-receivers/src/session_manager.rs\<close> and \<open>authority_gate.rs\<close>: the session manager of the
  receivers. An operation that talks to the network is split where it awaits the answer: a
  \<open>_begin\<close> part that reads and writes the manager's maps, the request, and a \<open>_finish\<close> or
  \<open>_commit\<close> part; the operation itself is their composition, and other operations may come between
  the parts. Writes to the database are not modelled, except that persisting a revocation may fail.
\<close>

section \<open>State\<close>

datatype TrustState = Ready | RecoveryRequired | TrustDegraded

fun show_trust :: "TrustState \<Rightarrow> string" where
  "show_trust Ready = ''ready''"
| "show_trust RecoveryRequired = ''recovery_required''"
| "show_trust TrustDegraded = ''degraded''"

datatype ReceiverActiveSessionState = Active | Closing | SessionFailed

record ReceiverActiveSession =
  av_receiver_id :: string
  av_playback_session_id :: string
  av_receiver_session_id :: string
  av_session_token :: "string option"
  av_device_token :: "string option"
  av_stream_port :: u16
  av_lease_seconds :: u64
  av_heartbeat_sequence :: u64
  av_codec :: string
  av_sample_rate :: u32
  av_bit_depth :: u32
  av_channels :: u32
  av_payload_type :: u8
  av_ssrc :: u32
  av_state :: ReceiverActiveSessionState
  av_created_at :: utc
  av_last_heartbeat :: utc

text \<open>A supervisor handle is the number of its task; \<open>mg_cancelled\<close> holds the tasks whose
  cancellation token has fired.\<close>

record Manager =
  mg_registry :: registry
  mg_has_identity :: bool
  mg_active_sessions :: "string \<rightharpoonup> ReceiverActiveSession"
  mg_active_transports :: "string \<rightharpoonup> RtpReceiverTransport"
  mg_heartbeat_handles :: "string \<rightharpoonup> nat"
  mg_next_task :: nat
  mg_cancelled :: "nat list"
  mg_active_grants :: "string \<rightharpoonup> AuthorityGrant"
  mg_home :: "(string \<times> string) option"
    \<comment> \<open>home id and root public key of \<open>HomeRootAuthority\<close>\<close>
  mg_membership :: "DeviceMembership option"
  mg_revocations :: "HomeRevocation list"
  mg_single_flight_auth :: "string list"
  mg_trust_state :: TrustState

definition new_manager :: "bool \<Rightarrow> Manager" where
  "new_manager has_identity =
     \<lparr>mg_registry = [], mg_has_identity = has_identity, mg_active_sessions = Map.empty,
      mg_active_transports = Map.empty, mg_heartbeat_handles = Map.empty, mg_next_task = 0,
      mg_cancelled = [], mg_active_grants = Map.empty, mg_home = None, mg_membership = None,
      mg_revocations = [], mg_single_flight_auth = [], mg_trust_state = Ready\<rparr>"

definition set_home_authority :: "string \<times> string \<Rightarrow> DeviceMembership \<Rightarrow> Manager \<Rightarrow> Manager" where
  "set_home_authority a mem m = m\<lparr>mg_home := Some a, mg_membership := Some mem\<rparr>"

definition home_context :: "Manager \<Rightarrow> HomeAuthContext option" where
  "home_context m =
     (case (mg_home m, mg_membership m) of
        (Some (hid, pk), Some mem) \<Rightarrow>
          Some \<lparr>hc_root_public_key = pk, hc_home_id = hid, hc_client_membership = mem,
                hc_revocations = mg_revocations m\<rparr>
      | _ \<Rightarrow> None)"

definition set_trust_state :: "TrustState \<Rightarrow> Manager \<Rightarrow> Manager" where
  "set_trust_state t m = m\<lparr>mg_trust_state := t\<rparr>"

abbreviation entry_of :: "Manager \<Rightarrow> string \<Rightarrow> ReceiverRegistryEntry option" where
  "entry_of m rid \<equiv> reg_get (mg_registry m) rid"

definition upd_registry :: "(registry \<Rightarrow> registry) \<Rightarrow> Manager \<Rightarrow> Manager" where
  "upd_registry f m = m\<lparr>mg_registry := f (mg_registry m)\<rparr>"

definition not_found :: "string \<Rightarrow> string" where
  "not_found rid = ''receiver not found: '' @ rid"

definition session_client ::
  "Manager \<Rightarrow> ReceiverRegistryEntry \<Rightarrow> ReceiverActiveSession \<Rightarrow> ReceiverClient" where
  "session_client m e s =
     (new_client (mg_has_identity m) (en_base_url e))
       \<lparr>rc_token := en_token e, rc_active_session_id := Some (av_receiver_session_id s),
        rc_active_session_token := av_session_token s\<rparr>"

section \<open>Authenticating a receiver\<close>

definition revoke_entry :: "ReceiverRegistryEntry \<Rightarrow> ReceiverRegistryEntry" where
  "revoke_entry e =
     e\<lparr>en_revoked := True, en_paired := False, en_authenticated := False, en_token := None\<rparr>"

definition auth_guard ::
  "Manager \<Rightarrow> string \<Rightarrow> (ReceiverClientError + HomeAuthContext \<times> ReceiverRegistryEntry) \<times> Manager" where
  "auth_guard m rid =
     (if mg_trust_state m \<noteq> Ready
        then (Inl (CeProtocol (''TRUST_RECOVERY_REQUIRED: home trust state is ''
                @ show_trust (mg_trust_state m)
                @ ''; receiver authentication is blocked until trust domain is restored'')), m)
      else case entry_of m rid of
        None \<Rightarrow> (Inl (CeOffline (not_found rid)), m)
      | Some e \<Rightarrow>
          (if en_revoked e
             then (Inl (CeProtocol (''receiver '' @ rid @ '' is revoked in this home'')), m)
           else case home_context m of
             None \<Rightarrow> (Inl (CeProtocol ''HomeRootAuthority context not configured''), m)
           | Some ctx \<Rightarrow>
               (let target = (case en_michi_id e of Some mid \<Rightarrow> mid | None \<Rightarrow> rid) in
                if list_ex (\<lambda>r. hr_revoked_device r = target) (hc_revocations ctx)
                then (Inl (CeProtocol (''device '' @ target @ '' is revoked'')),
                      upd_registry (reg_update rid revoke_entry) m)
                else (Inr (ctx, e), m))))"

definition flight_enter :: "string \<Rightarrow> Manager \<Rightarrow> Manager" where
  "flight_enter rid m = m\<lparr>mg_single_flight_auth := rid # mg_single_flight_auth m\<rparr>"

definition flight_leave :: "string \<Rightarrow> Manager \<Rightarrow> Manager" where
  "flight_leave rid m = m\<lparr>mg_single_flight_auth := removeAll rid (mg_single_flight_auth m)\<rparr>"

text \<open>Up to the first request: the single-flight entry is left again when a guard refuses.\<close>

definition auth_begin ::
  "Manager \<Rightarrow> string \<Rightarrow> (ReceiverClientError + HomeAuthContext \<times> ReceiverRegistryEntry) \<times> Manager" where
  "auth_begin m rid =
     (if List.member (mg_single_flight_auth m) rid
      then (Inl (CeProtocol (''authentication already in-flight for '' @ rid)), m)
      else case auth_guard (flight_enter rid m) rid of
        (Inl e, m) \<Rightarrow> (Inl e, flight_leave rid m)
      | (Inr x, m) \<Rightarrow> (Inr x, m))"

definition auth_remote ::
  "ReceiverNet \<Rightarrow> bool \<Rightarrow> HomeAuthContext \<Rightarrow> ReceiverRegistryEntry
   \<Rightarrow> ReceiverClientError + AuthSession \<times> ReceiverInfo" where
  "auth_remote N has_identity ctx e =
     (let c = new_client has_identity (en_base_url e) in
      case client_authenticate N ctx c of
        Inl err \<Rightarrow> Inl err
      | Inr sess \<Rightarrow>
          (case client_get_info N 0 c of
             Inl err \<Rightarrow> Inl (CeProtocol (''failed to get receiver info: '' @ err))
           | Inr info \<Rightarrow> Inr (sess, info)))"

definition authenticated_entry ::
  "utc \<Rightarrow> HomeAuthContext \<Rightarrow> AuthSession \<Rightarrow> ReceiverInfo \<Rightarrow> ReceiverRegistryEntry
   \<Rightarrow> ReceiverRegistryEntry" where
  "authenticated_entry now ctx sess info e =
     (let e = e\<lparr>en_token := Some (au_session_token sess), en_paired := True,
                en_authenticated := True, en_michi_home_id := Some (hc_home_id ctx),
                en_server_membership := Some (au_server_membership sess),
                en_last_seen := Some now, en_presence := VerifiedOnline\<rparr>;
          e = (case ri_michi_id info of Some mid \<Rightarrow> e\<lparr>en_michi_id := Some mid\<rparr> | None \<Rightarrow> e);
          e = (case ri_name info of Some n \<Rightarrow> e\<lparr>en_name := n\<rparr> | None \<Rightarrow> e);
          e = update_entry_capabilities info e
      in e\<lparr>en_qualification := compute_qualification e\<rparr>)"

definition auth_finish ::
  "utc \<Rightarrow> string \<Rightarrow> HomeAuthContext \<Rightarrow> ReceiverClientError + AuthSession \<times> ReceiverInfo
   \<Rightarrow> Manager \<Rightarrow> (ReceiverClientError + ReceiverInfo) \<times> Manager" where
  "auth_finish now rid ctx r m =
     (case r of
        Inl e \<Rightarrow> (Inl e, flight_leave rid m)
      | Inr (sess, info) \<Rightarrow>
          (Inr info,
           flight_leave rid
             (upd_registry (reg_update rid (authenticated_entry now ctx sess info)) m)))"

definition authenticate_receiver ::
  "ReceiverNet \<Rightarrow> utc \<Rightarrow> string \<Rightarrow> Manager \<Rightarrow> (ReceiverClientError + ReceiverInfo) \<times> Manager" where
  "authenticate_receiver N now rid m =
     (case auth_begin m rid of
        (Inl e, m) \<Rightarrow> (Inl e, m)
      | (Inr (ctx, e), m) \<Rightarrow>
          auth_finish now rid ctx (auth_remote N (mg_has_identity m) ctx e) m)"

section \<open>Authority\<close>

definition ensure_claim ::
  "ReceiverNet \<Rightarrow> ReceiverRegistryEntry \<Rightarrow> Manager \<Rightarrow> (AuthorityError + AuthorityGrant option) \<times> Manager"
where
  "ensure_claim N e m =
     (case nt_url_parse N (en_base_url e) of
        Inl err \<Rightarrow> (Inl (AuthProtocol (''invalid base_url: '' @ err)), m)
      | Inr _ \<Rightarrow>
          (if \<not> en_authority_supported e \<and> en_capabilities_verified_at e \<noteq> None
           then (Inr None, m)
           else case nt_authority_info N (en_base_url e) (en_token e) of
             Inl Unsupported \<Rightarrow> (Inr None, m)
           | Inl err \<Rightarrow> (Inl err, m)
           | Inr _ \<Rightarrow>
               (case nt_authority_claim N (en_base_url e) (en_token e) of
                  Inl err \<Rightarrow> (Inl err, m)
                | Inr g \<Rightarrow>
                    (Inr (Some g),
                     m\<lparr>mg_active_grants := (mg_active_grants m)(en_receiver_id e \<mapsto> g)\<rparr>))))"

definition invalidate_grant :: "string \<Rightarrow> Manager \<Rightarrow> Manager" where
  "invalidate_grant rid m = m\<lparr>mg_active_grants := (mg_active_grants m)(rid := None)\<rparr>"

text \<open>The remote release is sent for its effect only; its answer is ignored.\<close>

definition release_grant :: "ReceiverRegistryEntry \<Rightarrow> Manager \<Rightarrow> Manager" where
  "release_grant e m = invalidate_grant (en_receiver_id e) m"

section \<open>Starting a session\<close>

text \<open>The derived \<open>Debug\<close> of a vector of numbers and of strings.\<close>

fun comma_join :: "string list \<Rightarrow> string" where
  "comma_join [] = []"
| "comma_join [x] = x"
| "comma_join (x # y # ys) = x @ '', '' @ comma_join (y # ys)"

definition debug_vec :: "('a \<Rightarrow> string) \<Rightarrow> 'a list \<Rightarrow> string" where
  "debug_vec f xs = ''['' @ comma_join (map f xs) @ '']''"

definition debug_char :: "char \<Rightarrow> string" where
  "debug_char c =
     (if c = CHR 0x22 \<or> c = CHR 0x5C then [CHR 0x5C, c]
      else if c = CHR 0x0A then [CHR 0x5C, CHR ''n'']
      else if c = CHR 0x0D then [CHR 0x5C, CHR ''r'']
      else if c = CHR 0x09 then [CHR 0x5C, CHR ''t'']
      else [c])"

definition debug_str :: "string \<Rightarrow> string" where
  "debug_str s = [CHR 0x22] @ concat (map debug_char s) @ [CHR 0x22]"

definition rate_refusal :: "ReceiverRegistryEntry \<Rightarrow> u32 \<Rightarrow> string option" where
  "rate_refusal e rate =
     (if en_supported_sample_rates e \<noteq> [] \<and> \<not> List.member (en_supported_sample_rates e) rate
        then Some (''requested sample rate '' @ show_word rate @ '' is not in receiver supported rates ''
                   @ debug_vec show_word (en_supported_sample_rates e))
      else if rate > en_max_sample_rate e
        then Some (''requested sample rate '' @ show_word rate @ '' exceeds receiver maximum ''
                   @ show_word (en_max_sample_rate e))
      else None)"

definition depth_refusal :: "ReceiverRegistryEntry \<Rightarrow> u32 \<Rightarrow> string option" where
  "depth_refusal e depth =
     (if en_supported_bit_depths e \<noteq> [] \<and> \<not> List.member (en_supported_bit_depths e) depth
        then Some (''requested bit depth '' @ show_word depth @ '' is not in receiver supported depths ''
                   @ debug_vec show_word (en_supported_bit_depths e))
      else if depth > en_max_bit_depth e
        then Some (''requested bit depth '' @ show_word depth @ '' exceeds receiver maximum ''
                   @ show_word (en_max_bit_depth e))
      else None)"

definition channels_refusal :: "ReceiverRegistryEntry \<Rightarrow> u32 \<Rightarrow> string option" where
  "channels_refusal e channels =
     (if en_supported_channels e \<noteq> [] \<and> \<not> List.member (en_supported_channels e) (ucast channels)
        then Some (''requested channel count '' @ show_word channels
                   @ '' is not in receiver supported channels ''
                   @ debug_vec show_word (en_supported_channels e))
      else None)"

definition codec_refusal :: "ReceiverRegistryEntry \<Rightarrow> string \<Rightarrow> string option" where
  "codec_refusal e codec =
     (if en_supported_codecs e \<noteq> [] \<and> \<not> List.member (en_supported_codecs e) codec
        then Some (''requested codec '' @ codec @ '' is not supported by receiver (supported: ''
                   @ debug_vec debug_str (en_supported_codecs e) @ '')'')
      else None)"

fun first_some :: "'a option list \<Rightarrow> 'a option" where
  "first_some [] = None"
| "first_some (Some x # _) = Some x"
| "first_some (None # xs) = first_some xs"

definition negotiation_refusal :: "ReceiverRegistryEntry \<Rightarrow> SessionStartBody \<Rightarrow> string option" where
  "negotiation_refusal e b =
     first_some [rate_refusal e (sb_sample_rate b), depth_refusal e (sb_bit_depth b),
                 channels_refusal e (sb_channels b), codec_refusal e (sb_codec b)]"

text \<open>Reading the registry and negotiating capabilities.\<close>

definition start_begin :: "Manager \<Rightarrow> string \<Rightarrow> SessionStartBody \<Rightarrow> string + ReceiverRegistryEntry" where
  "start_begin m rid b =
     (case entry_of m rid of
        None \<Rightarrow> Inl (not_found rid)
      | Some e \<Rightarrow>
          (if en_revoked e then Inl (''receiver '' @ rid @ '' is revoked'')
           else case negotiation_refusal e b of Some err \<Rightarrow> Inl err | None \<Rightarrow> Inr e))"

definition claim_for_start ::
  "ReceiverNet \<Rightarrow> (AuthorityError \<Rightarrow> string) \<Rightarrow> ReceiverRegistryEntry \<Rightarrow> AuthorityGrant option
   \<Rightarrow> Manager \<Rightarrow> (string + AuthorityGrant option) \<times> Manager" where
  "claim_for_start N show_err e authority m =
     (if authority \<noteq> None \<or> \<not> en_authority_supported e then (Inr authority, m)
      else case ensure_claim N e m of
        (Inr g, m) \<Rightarrow> (Inr g, m)
      | (Inl Unsupported, m) \<Rightarrow> (Inr None, m)
      | (Inl err, m) \<Rightarrow>
          (Inl (''PERCH_AUTHORITY_FAILED: authority claim failed ('' @ show_err err @ '')''), m))"

definition is_unauthorized_text :: "string \<Rightarrow> bool" where
  "is_unauthorized_text e \<longleftrightarrow> contains e ''401'' \<or> contains (to_lowercase e) ''unauthorized''"

text \<open>The session request, repeated once with a fresh token when it was refused as unauthorized.\<close>

definition start_remote ::
  "ReceiverNet \<Rightarrow> utc \<Rightarrow> string \<Rightarrow> SessionStartBody \<Rightarrow> ReceiverRegistryEntry \<Rightarrow> AuthorityGrant option
   \<Rightarrow> Manager \<Rightarrow> (string + NegotiatedReceiverSession \<times> ReceiverClient) \<times> Manager" where
  "start_remote N now rid b e grant m =
     (let c = (new_client (mg_has_identity m) (en_base_url e))\<lparr>rc_token := en_token e\<rparr> in
      case client_session_start N 0 b grant c of
        (Inr neg, c) \<Rightarrow> (Inr (neg, c), m)
      | (Inl err, c) \<Rightarrow>
          (if is_unauthorized_text err then
             (case authenticate_receiver N now rid m of
                (Inl _, m) \<Rightarrow> (Inl err, m)
              | (Inr _, m) \<Rightarrow>
                  (let c = c\<lparr>rc_token := Option.bind (entry_of m rid) en_token\<rparr> in
                   case client_session_start N 1 b grant c of
                     (Inr neg, c) \<Rightarrow> (Inr (neg, c), m)
                   | (Inl err, _) \<Rightarrow> (Inl err, m)))
           else (Inl err, m)))"

definition target_addr :: "string \<Rightarrow> u16 \<Rightarrow> string" where
  "target_addr host port =
     (if CHR '':'' \<in> set host \<and> \<not> starts_with host ''[''
      then ''['' @ host @ '']:'' @ show_word port
      else host @ '':'' @ show_word port)"

definition transport_config :: "NegotiatedReceiverSession \<Rightarrow> TransportStreamConfig" where
  "transport_config neg =
     \<lparr>tc_codec = ef_codec neg, tc_sample_rate = ef_sample_rate neg, tc_bit_depth = ef_bit_depth neg,
      tc_channels = ucast (ef_channels neg), tc_packet_ms = ef_packet_ms neg\<rparr>"

definition session_of ::
  "utc \<Rightarrow> string \<Rightarrow> string \<Rightarrow> string option \<Rightarrow> NegotiatedReceiverSession \<Rightarrow> ReceiverActiveSession" where
  "session_of now rid playback_id token neg =
     \<lparr>av_receiver_id = rid, av_playback_session_id = playback_id,
      av_receiver_session_id = ng_session_id neg, av_session_token = Some (ng_session_token neg),
      av_device_token = token, av_stream_port = ef_stream_port neg,
      av_lease_seconds = ng_lease_seconds neg, av_heartbeat_sequence = 0,
      av_codec = ef_codec neg, av_sample_rate = ef_sample_rate neg,
      av_bit_depth = ef_bit_depth neg, av_channels = ef_channels neg,
      av_payload_type = ef_payload_type neg, av_ssrc = ef_ssrc neg, av_state = Active,
      av_created_at = now, av_last_heartbeat = now\<rparr>"

definition cancel_handle :: "string \<Rightarrow> Manager \<Rightarrow> Manager" where
  "cancel_handle rid m =
     (case mg_heartbeat_handles m rid of
        None \<Rightarrow> m
      | Some h \<Rightarrow> m\<lparr>mg_heartbeat_handles := (mg_heartbeat_handles m)(rid := None),
                    mg_cancelled := h # mg_cancelled m\<rparr>)"

definition spawn_heartbeat_task :: "string \<Rightarrow> Manager \<Rightarrow> Manager" where
  "spawn_heartbeat_task rid m =
     (let m = cancel_handle rid m in
      m\<lparr>mg_heartbeat_handles := (mg_heartbeat_handles m)(rid \<mapsto> mg_next_task m),
        mg_next_task := Suc (mg_next_task m)\<rparr>)"

definition start_transport ::
  "ReceiverNet \<Rightarrow> RtpEnv \<Rightarrow> ReceiverRegistryEntry \<Rightarrow> NegotiatedReceiverSession
   \<Rightarrow> string + (TransportError + unit) \<times> RtpReceiverTransport \<times> string" where
  "start_transport N R e neg =
     (case nt_url_parse N (en_base_url e) of
        Inl err \<Rightarrow> Inl (''Invalid receiver base_url '' @ quoted (en_base_url e) @ '': '' @ err)
      | Inr None \<Rightarrow> Inl (''Invalid receiver endpoint host in '' @ quoted (en_base_url e))
      | Inr (Some host) \<Rightarrow>
          (let addr = target_addr host (ef_stream_port neg);
               (r, t) = rt_start R (transport_config neg) (new_rtp_transport addr (ef_ssrc neg))
           in Inr (map_sum id (\<lambda>_. ()) r, t, addr)))"

fun show_transport_error :: "TransportError \<Rightarrow> string" where
  "show_transport_error AlreadyActive = ''transport session already active''"
| "show_transport_error NoSession = ''no active transport session''"
| "show_transport_error (Unreachable e) = ''endpoint unreachable: '' @ e"
| "show_transport_error (CapabilityMismatch e) = ''capability mismatch: '' @ e"
| "show_transport_error (TransportProtocol e) = ''protocol error: '' @ e"
| "show_transport_error (TransportOther e) = ''transport error: '' @ e"

text \<open>After the receiver has answered: the transport, the maps, the supervisor.\<close>

definition store_session ::
  "utc \<Rightarrow> string \<Rightarrow> ReceiverActiveSession \<Rightarrow> RtpReceiverTransport \<Rightarrow> Manager \<Rightarrow> Manager" where
  "store_session now rid s t m =
     (let m = m\<lparr>mg_active_sessions := (mg_active_sessions m)(rid \<mapsto> s),
                mg_active_transports := (mg_active_transports m)(rid \<mapsto> t)\<rparr>;
          m = upd_registry (reg_update rid
                (\<lambda>e. e\<lparr>en_active_session_id := Some (av_receiver_session_id s),
                       en_last_seen := Some now\<rparr>)) m
      in spawn_heartbeat_task rid m)"

definition start_commit ::
  "ReceiverNet \<Rightarrow> RtpEnv \<Rightarrow> utc \<Rightarrow> string \<Rightarrow> string \<Rightarrow> ReceiverRegistryEntry
   \<Rightarrow> NegotiatedReceiverSession \<Rightarrow> Manager \<Rightarrow> (string + NegotiatedReceiverSession) \<times> Manager" where
  "start_commit N R now rid playback_id e neg m =
     (case start_transport N R e neg of
        Inl err \<Rightarrow> (Inl err, m)
      | Inr (Inl err, _, addr) \<Rightarrow>
          (Inl (''failed to initialize audio transport to '' @ addr @ '': ''
                @ show_transport_error err), m)
      | Inr (Inr _, t, _) \<Rightarrow>
          (Inr neg, store_session now rid (session_of now rid playback_id (en_token e) neg) t m))"

definition start_session_with_authority ::
  "ReceiverNet \<Rightarrow> RtpEnv \<Rightarrow> (AuthorityError \<Rightarrow> string) \<Rightarrow> utc \<Rightarrow> string \<Rightarrow> string \<Rightarrow> SessionStartBody
   \<Rightarrow> AuthorityGrant option \<Rightarrow> Manager \<Rightarrow> (string + NegotiatedReceiverSession) \<times> Manager" where
  "start_session_with_authority N R show_err now rid playback_id b authority m =
     (case start_begin m rid b of
        Inl err \<Rightarrow> (Inl err, m)
      | Inr e \<Rightarrow>
          (case claim_for_start N show_err e authority m of
             (Inl err, m) \<Rightarrow> (Inl err, m)
           | (Inr grant, m) \<Rightarrow>
               (case start_remote N now rid b e grant m of
                  (Inl err, m) \<Rightarrow> (Inl err, m)
                | (Inr (neg, _), m) \<Rightarrow> start_commit N R now rid playback_id e neg m)))"

definition start_session ::
  "ReceiverNet \<Rightarrow> RtpEnv \<Rightarrow> (AuthorityError \<Rightarrow> string) \<Rightarrow> utc \<Rightarrow> string \<Rightarrow> string \<Rightarrow> SessionStartBody
   \<Rightarrow> Manager \<Rightarrow> (string + NegotiatedReceiverSession) \<times> Manager" where
  "start_session N R show_err now rid playback_id b =
     start_session_with_authority N R show_err now rid playback_id b None"

section \<open>Heartbeats and loss\<close>

definition beat_begin ::
  "Manager \<Rightarrow> string \<Rightarrow> ReceiverClientError + ReceiverRegistryEntry \<times> ReceiverActiveSession" where
  "beat_begin m rid =
     (case entry_of m rid of
        None \<Rightarrow> Inl (CeOffline (not_found rid))
      | Some e \<Rightarrow>
          (case mg_active_sessions m rid of
             None \<Rightarrow> Inl (CeProtocol ''NoActiveSession: cannot heartbeat without active session'')
           | Some s \<Rightarrow> Inr (e, s)))"

definition beat_remote ::
  "ReceiverNet \<Rightarrow> utc \<Rightarrow> string \<Rightarrow> ReceiverRegistryEntry \<Rightarrow> ReceiverActiveSession \<Rightarrow> Manager
   \<Rightarrow> (ReceiverClientError + HeartbeatResponse) \<times> Manager" where
  "beat_remote N now rid e s m =
     (let c = (session_client m e s)\<lparr>rc_heartbeat_sequence := av_heartbeat_sequence s\<rparr> in
      case client_heartbeat N 0 c of
        (Inl CeUnauthorized, c) \<Rightarrow>
          (case authenticate_receiver N now rid m of
             (Inl _, m) \<Rightarrow> (Inl CeUnauthorized, m)
           | (Inr _, m) \<Rightarrow>
               (fst (client_heartbeat N 1 (c\<lparr>rc_token := Option.bind (entry_of m rid) en_token\<rparr>)), m))
      | (r, _) \<Rightarrow> (r, m))"

definition beat_finish :: "utc \<Rightarrow> string \<Rightarrow> Manager \<Rightarrow> Manager" where
  "beat_finish now rid m =
     (let m = (case mg_active_sessions m rid of
                 Some s \<Rightarrow> m\<lparr>mg_active_sessions := (mg_active_sessions m)(rid \<mapsto>
                   s\<lparr>av_heartbeat_sequence := av_heartbeat_sequence s + 1, av_last_heartbeat := now\<rparr>)\<rparr>
               | None \<Rightarrow> m)
      in upd_registry (reg_update rid (\<lambda>e. e\<lparr>en_last_seen := Some now\<rparr>)) m)"

definition heartbeat ::
  "ReceiverNet \<Rightarrow> utc \<Rightarrow> string \<Rightarrow> Manager \<Rightarrow> (ReceiverClientError + HeartbeatResponse) \<times> Manager" where
  "heartbeat N now rid m =
     (case beat_begin m rid of
        Inl err \<Rightarrow> (Inl err, m)
      | Inr (e, s) \<Rightarrow>
          (case beat_remote N now rid e s m of
             (Inl err, m) \<Rightarrow> (Inl err, m)
           | (Inr r, m) \<Rightarrow> (Inr r, beat_finish now rid m)))"

text \<open>One tick of the supervisor: the outcome of \<open>heartbeat\<close> and what the task does about it.\<close>

record Supervisor =
  sv_failures :: u32
  sv_last_success :: instant

definition supervise_tick ::
  "nat \<Rightarrow> instant \<Rightarrow> ReceiverClientError + HeartbeatResponse \<Rightarrow> Supervisor
   \<Rightarrow> SessionLossReason option \<times> Supervisor" where
  "supervise_tick lease now r sv =
     (case r of
        Inr _ \<Rightarrow> (None, sv\<lparr>sv_failures := 0, sv_last_success := now\<rparr>)
      | Inl e \<Rightarrow>
          (let n = sv_failures sv + 1 in
           (case classify_heartbeat_error_typed e n (elapsed now (sv_last_success sv)) lease of
              SessionLost reason \<Rightarrow> Some reason
            | _ \<Rightarrow> None, sv\<lparr>sv_failures := n\<rparr>)))"

text \<open>The task's loop over the ticks: it ends with the first loss.\<close>

fun supervise ::
  "nat \<Rightarrow> (instant \<times> (ReceiverClientError + HeartbeatResponse)) list \<Rightarrow> Supervisor
   \<Rightarrow> SessionLossReason option" where
  "supervise lease [] sv = None"
| "supervise lease ((now, r) # ticks) sv =
     (case supervise_tick lease now r sv of
        (Some reason, _) \<Rightarrow> Some reason
      | (None, sv) \<Rightarrow> supervise lease ticks sv)"

definition heartbeat_interval_secs :: "u64 \<Rightarrow> u64" where
  "heartbeat_interval_secs lease = max 1 (min (lease div 6) 4)"

definition handle_session_lost :: "string \<Rightarrow> Manager \<Rightarrow> Manager" where
  "handle_session_lost rid m =
     (let m = m\<lparr>mg_active_sessions := (mg_active_sessions m)(rid := None),
                mg_active_transports := (mg_active_transports m)(rid := None)\<rparr>;
          m = upd_registry (reg_update rid (\<lambda>e. e\<lparr>en_active_session_id := None\<rparr>)) m
      in invalidate_grant rid (cancel_handle rid m))"

section \<open>Operations on an active session\<close>

definition patch_session ::
  "ReceiverNet \<Rightarrow> string \<Rightarrow> bool \<Rightarrow> Manager \<Rightarrow> string + unit" where
  "patch_session N rid paused m =
     (case mg_active_sessions m rid of
        None \<Rightarrow> Inl (''NoActiveSession: receiver '' @ rid @ '' has no active session to patch'')
      | Some s \<Rightarrow>
          (case entry_of m rid of
             None \<Rightarrow> Inl (''ReceiverNotFound: receiver '' @ rid @ '' not in registry'')
           | Some e \<Rightarrow> client_session_pause N paused (session_client m e s)))"

definition mgr_set_volume ::
  "ReceiverNet \<Rightarrow> string \<Rightarrow> u32 \<Rightarrow> Manager \<Rightarrow> string + VolumeResponse" where
  "mgr_set_volume N rid v m =
     (case entry_of m rid of
        None \<Rightarrow> Inl (not_found rid)
      | Some e \<Rightarrow>
          (case mg_active_sessions m rid of
             None \<Rightarrow> Inl ''NoActiveSession: cannot set volume without active session''
           | Some s \<Rightarrow> client_set_volume N v (session_client m e s)))"

definition mgr_get_info :: "ReceiverNet \<Rightarrow> string \<Rightarrow> Manager \<Rightarrow> string + ReceiverInfo" where
  "mgr_get_info N rid m =
     (case entry_of m rid of
        None \<Rightarrow> Inl (not_found rid)
      | Some e \<Rightarrow> client_get_info N 0 (new_client (mg_has_identity m) (en_base_url e)))"

definition mgr_write_pcm ::
  "RtpEnv \<Rightarrow> (TransportError \<Rightarrow> string) \<Rightarrow> string \<Rightarrow> u8 list \<Rightarrow> Manager
   \<Rightarrow> (string + nat) \<times> Manager \<times> sent_packet list" where
  "mgr_write_pcm R show_err rid pcm m =
     (case mg_active_transports m rid of
        None \<Rightarrow> (Inl (''NoActiveTransport for receiver '' @ rid), m, [])
      | Some t \<Rightarrow>
          (let (r, t, out) = write_pcm R pcm t
           in (map_sum (\<lambda>e. ''write_pcm failed: '' @ show_err e) id r,
               m\<lparr>mg_active_transports := (mg_active_transports m)(rid \<mapsto> t)\<rparr>, out)))"

definition get_rtp_local_port :: "string \<Rightarrow> Manager \<Rightarrow> u16 option" where
  "get_rtp_local_port rid m = Option.bind (mg_active_transports m rid) rt_local_port"

section \<open>Stopping\<close>

definition set_session_state ::
  "string \<Rightarrow> ReceiverActiveSessionState \<Rightarrow> Manager \<Rightarrow> Manager" where
  "set_session_state rid st m =
     m\<lparr>mg_active_sessions := (case mg_active_sessions m rid of
         None \<Rightarrow> mg_active_sessions m
       | Some s \<Rightarrow> (mg_active_sessions m)(rid \<mapsto> s\<lparr>av_state := st\<rparr>))\<rparr>"

definition pause_transport :: "instant \<Rightarrow> string \<Rightarrow> Manager \<Rightarrow> Manager" where
  "pause_transport clk rid m =
     m\<lparr>mg_active_transports := (case mg_active_transports m rid of
         None \<Rightarrow> mg_active_transports m
       | Some t \<Rightarrow> (mg_active_transports m)(rid \<mapsto> snd (rt_pause clk t)))\<rparr>"

definition stop_begin ::
  "instant \<Rightarrow> string \<Rightarrow> Manager
   \<Rightarrow> (string + ReceiverRegistryEntry \<times> ReceiverActiveSession) \<times> Manager" where
  "stop_begin clk rid m =
     (case mg_active_sessions m rid of
        None \<Rightarrow> (Inl ''NoActiveSession: cannot stop receiver session when none is active'', m)
      | Some s \<Rightarrow>
          (let m = cancel_handle rid (pause_transport clk rid (set_session_state rid Closing m))
           in case entry_of m rid of
                None \<Rightarrow> (Inl (not_found rid), m)
              | Some e \<Rightarrow> (Inr (e, s\<lparr>av_state := Closing\<rparr>), m)))"

definition stop_finish ::
  "ReceiverNet \<Rightarrow> utc \<Rightarrow> string \<Rightarrow> ReceiverRegistryEntry \<Rightarrow> ReceiverActiveSession \<Rightarrow> Manager
   \<Rightarrow> (string + unit) \<times> Manager" where
  "stop_finish N now rid e s m =
     (case fst (client_session_stop N (session_client m e s)) of
        Inl err \<Rightarrow> (Inl err, set_session_state rid SessionFailed m)
      | Inr _ \<Rightarrow>
          (let m = m\<lparr>mg_active_transports := (mg_active_transports m)(rid := None),
                     mg_active_sessions := (mg_active_sessions m)(rid := None)\<rparr>;
               m = upd_registry (reg_update rid
                     (\<lambda>e. e\<lparr>en_active_session_id := None, en_last_seen := Some now\<rparr>)) m
           in (Inr (), release_grant e m)))"

definition stop_session ::
  "ReceiverNet \<Rightarrow> utc \<Rightarrow> instant \<Rightarrow> string \<Rightarrow> Manager \<Rightarrow> (string + unit) \<times> Manager" where
  "stop_session N now clk rid m =
     (case stop_begin clk rid m of
        (Inl err, m) \<Rightarrow> (Inl err, m)
      | (Inr (e, s), m) \<Rightarrow> stop_finish N now rid e s m)"

section \<open>Revocation\<close>

definition is_device :: "string \<Rightarrow> ReceiverRegistryEntry \<Rightarrow> bool" where
  "is_device mid e \<longleftrightarrow> en_receiver_id e = mid \<or> en_michi_id e = Some mid"

text \<open>The receivers the revocation is queued for: key, identity, endpoint.\<close>

definition revocation_targets :: "string \<Rightarrow> registry \<Rightarrow> (string \<times> string \<times> string) list" where
  "revocation_targets mid r =
     map (\<lambda>(i, e). (i, case en_michi_id e of Some x \<Rightarrow> x | None \<Rightarrow> i, en_base_url e))
       (filter (\<lambda>(i, e). en_base_url e \<noteq> [] \<and> i \<noteq> mid \<and> en_michi_id e \<noteq> Some mid) r)"

definition revoke_registry :: "string \<Rightarrow> registry \<Rightarrow> registry" where
  "revoke_registry mid =
     map (\<lambda>(i, e). (i, if is_device mid e then (revoke_entry e)\<lparr>en_presence := Offline\<rparr> else e))"

definition record_revocation :: "HomeRevocation \<Rightarrow> string \<Rightarrow> Manager \<Rightarrow> Manager" where
  "record_revocation r mid m =
     m\<lparr>mg_revocations := filter (\<lambda>x. hr_revoked_device x \<noteq> mid) (mg_revocations m) @ [r],
       mg_registry := revoke_registry mid (mg_registry m)\<rparr>"

definition receivers_to_stop :: "string \<Rightarrow> registry \<Rightarrow> string list" where
  "receivers_to_stop mid r = map fst (filter (\<lambda>(_, e). is_device mid e) r)"

definition stop_all :: "ReceiverNet \<Rightarrow> utc \<Rightarrow> instant \<Rightarrow> string list \<Rightarrow> Manager \<Rightarrow> Manager" where
  "stop_all N now clk rids m = fold (\<lambda>rid m. snd (stop_session N now clk rid m)) rids m"

text \<open>\<open>issue\<close> signs the revocation, \<open>persist\<close> is the answer of the database where there is one.\<close>

definition revoke_device ::
  "ReceiverNet \<Rightarrow> (string \<Rightarrow> HomeRevocation) \<Rightarrow> ((string \<times> string \<times> string) list \<Rightarrow> string + unit)
   \<Rightarrow> utc \<Rightarrow> instant \<Rightarrow> string \<Rightarrow> Manager \<Rightarrow> (string + HomeRevocation) \<times> Manager" where
  "revoke_device N issue persist now clk mid m =
     (case mg_home m of
        None \<Rightarrow> (Inl ''HomeRootAuthority not configured'', m)
      | Some (hid, _) \<Rightarrow>
          (case persist (revocation_targets mid (mg_registry m)) of
             Inl e \<Rightarrow> (Inl (''Failed to persist revocation to database: '' @ e), m)
           | Inr _ \<Rightarrow>
               (Inr (issue hid),
                stop_all N now clk (receivers_to_stop mid (mg_registry m))
                  (record_revocation (issue hid) mid m))))"

definition mark_revoked :: "HomeRevocation list \<Rightarrow> registry \<Rightarrow> registry" where
  "mark_revoked revs =
     map (\<lambda>(i, e). (i, if list_ex (\<lambda>r. hr_revoked_device r = entry_michi_id e) revs
                       then revoke_entry e else e))"

text \<open>The loading loop stops at the first revocation whose signature does not verify, keeping those
  it has already taken over.\<close>

fun take_persisted ::
  "(HomeRevocation \<Rightarrow> string + unit) \<Rightarrow> HomeRevocation list \<Rightarrow> HomeRevocation list \<Rightarrow> nat
   \<Rightarrow> (string + nat) \<times> HomeRevocation list" where
  "take_persisted verify [] revs n = (Inr n, revs)"
| "take_persisted verify (p # ps) revs n =
     (case verify p of
        Inl e \<Rightarrow>
          (Inl (''CRITICAL: Persisted revocation for device '' @ hr_revoked_device p
                @ '' has invalid cryptographic signature: '' @ e), revs)
      | Inr _ \<Rightarrow>
          (if list_ex (\<lambda>r. hr_revoked_device r = hr_revoked_device p) revs
           then take_persisted verify ps revs n
           else take_persisted verify ps (revs @ [p]) (Suc n)))"

definition load_persisted_revocations ::
  "bool \<Rightarrow> (string \<Rightarrow> string + HomeRevocation list) \<Rightarrow> (string \<Rightarrow> string \<Rightarrow> HomeRevocation \<Rightarrow> string + unit)
   \<Rightarrow> Manager \<Rightarrow> (string + nat) \<times> Manager" where
  "load_persisted_revocations has_pool db verify m =
     (if \<not> has_pool then (Inr 0, m)
      else case mg_home m of
        None \<Rightarrow> (Inr 0, m)
      | Some (hid, pk) \<Rightarrow>
          (case db hid of
             Inl e \<Rightarrow> (Inl (''Failed to read home_revocations from DB: '' @ e),
                       set_trust_state RecoveryRequired m)
           | Inr persisted \<Rightarrow>
               (case take_persisted (verify pk hid) persisted (mg_revocations m) 0 of
                  (Inl e, revs) \<Rightarrow>
                    (Inl e, set_trust_state RecoveryRequired (m\<lparr>mg_revocations := revs\<rparr>))
                | (Inr n, revs) \<Rightarrow>
                    (Inr n, set_trust_state Ready
                       (m\<lparr>mg_revocations := revs,
                          mg_registry := mark_revoked revs (mg_registry m)\<rparr>)))))"

end
