(* ===== verification/Receiver_Outbox.thy ===== *)
theory Receiver_Outbox
  imports Receiver_Sessions
begin

text \<open>
  The durable side of revocations: the tables \<open>home_revocations\<close> and \<open>revocation_outbox\<close> of
  \<open>michi-db/src/lib.rs\<close>, \<open>flush_revocation_outbox\<close> and the home roster of \<open>session_manager.rs\<close>, and
  \<open>push_revocation\<close> of \<open>client.rs\<close>. The RFC 3339 texts of a row that statements compare are kept as
  the instants they denote: with a UTC offset their order as texts is the order of the instants.
\<close>

section \<open>Tables\<close>

record HomeRevocationRow =
  rw_id :: string
  rw_home_id :: string
  rw_revoked_device :: string
  rw_revoked_at :: string
  rw_reason :: string
  rw_version :: int
  rw_signature :: string
  rw_signed_payload :: string
  rw_created_at :: utc

record OutboxRow =
  ob_id :: string
  ob_revocation_id :: string
  ob_home_id :: string
  ob_receiver_id :: string
  ob_receiver_michi_id :: string
  ob_target_endpoint :: string
  ob_status :: string
  ob_attempt_count :: int
  ob_last_attempt_at :: "utc option"
  ob_next_attempt_at :: "utc option"
  ob_last_error :: "string option"
  ob_acknowledged_at :: "utc option"
  ob_created_at :: utc

record OutboxDb =
  od_revocations :: "HomeRevocationRow list"
  od_outbox :: "OutboxRow list"

section \<open>Statements\<close>

definition same_revocation :: "HomeRevocationRow \<Rightarrow> HomeRevocationRow \<Rightarrow> bool" where
  "same_revocation r x \<longleftrightarrow> rw_home_id x = rw_home_id r \<and> rw_revoked_device x = rw_revoked_device r"

definition reissue :: "HomeRevocationRow \<Rightarrow> HomeRevocationRow \<Rightarrow> HomeRevocationRow" where
  "reissue r x =
     x\<lparr>rw_revoked_at := rw_revoked_at r, rw_reason := rw_reason r, rw_version := rw_version r,
       rw_signature := rw_signature r, rw_signed_payload := rw_signed_payload r\<rparr>"

definition show_int :: "int \<Rightarrow> string" where
  "show_int v = (if v < 0 then CHR ''-'' # show_nat (nat (- v)) else show_nat (nat v))"

text \<open>The id under which the revocation is kept, and the table.\<close>

definition upsert_revocation ::
  "HomeRevocationRow \<Rightarrow> HomeRevocationRow list \<Rightarrow> string + string \<times> HomeRevocationRow list" where
  "upsert_revocation r rows =
     (case List.find (same_revocation r) rows of
        Some old \<Rightarrow>
          (if rw_version r < rw_version old
             then Inl (''invalid data: Non-monotonic revocation version: candidate version ''
                       @ show_int (rw_version r) @ '' < existing version ''
                       @ show_int (rw_version old))
           else if rw_version r = rw_version old \<and> rw_signature r = rw_signature old
             then Inr (rw_id old, rows)
           else Inr (rw_id old, map (\<lambda>x. if rw_id x = rw_id old then reissue r x else x) rows))
      | None \<Rightarrow> Inr (rw_id r, rows @ [r]))"

definition new_outbox_row ::
  "utc \<Rightarrow> string \<Rightarrow> string \<Rightarrow> string \<Rightarrow> string \<times> string \<times> string \<Rightarrow> OutboxRow" where
  "new_outbox_row now oid rev_id home t =
     \<lparr>ob_id = oid, ob_revocation_id = rev_id, ob_home_id = home, ob_receiver_id = fst t,
      ob_receiver_michi_id = fst (snd t), ob_target_endpoint = snd (snd t),
      ob_status = ''pending'', ob_attempt_count = 0, ob_last_attempt_at = None,
      ob_next_attempt_at = Some now, ob_last_error = None, ob_acknowledged_at = None,
      ob_created_at = now\<rparr>"

definition for_target :: "string \<Rightarrow> string \<Rightarrow> OutboxRow \<Rightarrow> bool" where
  "for_target rev_id rid x \<longleftrightarrow> ob_revocation_id x = rev_id \<and> ob_receiver_id x = rid"

definition enqueue ::
  "utc \<Rightarrow> string \<Rightarrow> string \<Rightarrow> string \<times> string \<times> string \<times> string \<Rightarrow> OutboxRow list \<Rightarrow> OutboxRow list"
where
  "enqueue now rev_id home = (\<lambda>(oid, t) rows.
     if list_ex (for_target rev_id (fst t)) rows
     then map (\<lambda>x. if for_target rev_id (fst t) x
                   then x\<lparr>ob_target_endpoint := snd (snd t), ob_status := ''pending'',
                          ob_next_attempt_at := Some now\<rparr>
                   else x) rows
     else rows @ [new_outbox_row now oid rev_id home t])"

text \<open>\<open>ids\<close> are the drawn outbox ids, in the order of the targets.\<close>

definition persist_home_revocation ::
  "utc \<Rightarrow> string list \<Rightarrow> HomeRevocationRow \<Rightarrow> (string \<times> string \<times> string) list \<Rightarrow> OutboxDb
   \<Rightarrow> string + OutboxDb" where
  "persist_home_revocation now ids r targets db =
     (case upsert_revocation r (od_revocations db) of
        Inl e \<Rightarrow> Inl e
      | Inr (rev_id, rows) \<Rightarrow>
          Inr \<lparr>od_revocations = rows,
               od_outbox = fold (enqueue now rev_id (rw_home_id r)) (zip ids targets) (od_outbox db)\<rparr>)"

definition list_home_revocations :: "string \<Rightarrow> OutboxDb \<Rightarrow> HomeRevocationRow list" where
  "list_home_revocations home db = filter (\<lambda>r. rw_home_id r = home) (od_revocations db)"

definition get_home_revocation :: "string \<Rightarrow> OutboxDb \<Rightarrow> HomeRevocationRow option" where
  "get_home_revocation i db = List.find (\<lambda>r. rw_id r = i) (od_revocations db)"

definition list_revocation_outbox :: "string \<Rightarrow> OutboxDb \<Rightarrow> OutboxRow list" where
  "list_revocation_outbox home db =
     rev (sort_key ob_created_at (filter (\<lambda>x. ob_home_id x = home) (od_outbox db)))"

definition claimable :: "OutboxRow \<Rightarrow> bool" where
  "claimable x \<longleftrightarrow> ob_status x = ''pending'' \<or> ob_status x = ''failed''"

definition is_due :: "utc \<Rightarrow> OutboxRow \<Rightarrow> bool" where
  "is_due now x \<longleftrightarrow>
     claimable x \<and> (case ob_next_attempt_at x of None \<Rightarrow> True | Some t \<Rightarrow> t \<le> now)"

definition list_due :: "utc \<Rightarrow> OutboxDb \<Rightarrow> OutboxRow list" where
  "list_due now db =
     sort_key ob_attempt_count (sort_key ob_created_at (filter (is_due now) (od_outbox db)))"

definition upd_rows ::
  "(OutboxRow \<Rightarrow> bool) \<Rightarrow> (OutboxRow \<Rightarrow> OutboxRow) \<Rightarrow> OutboxDb \<Rightarrow> OutboxDb" where
  "upd_rows P f db = db\<lparr>od_outbox := map (\<lambda>x. if P x then f x else x) (od_outbox db)\<rparr>"

definition mark_delivering :: "utc \<Rightarrow> string \<Rightarrow> OutboxDb \<Rightarrow> bool \<times> OutboxDb" where
  "mark_delivering now i db =
     (list_ex (\<lambda>x. ob_id x = i \<and> claimable x) (od_outbox db),
      upd_rows (\<lambda>x. ob_id x = i \<and> claimable x)
        (\<lambda>x. x\<lparr>ob_status := ''delivering'', ob_last_attempt_at := Some now\<rparr>) db)"

definition mark_acknowledged :: "utc \<Rightarrow> string \<Rightarrow> OutboxDb \<Rightarrow> OutboxDb" where
  "mark_acknowledged now i =
     upd_rows (\<lambda>x. ob_id x = i)
       (\<lambda>x. x\<lparr>ob_status := ''acknowledged'', ob_acknowledged_at := Some now,
              ob_last_attempt_at := Some now, ob_last_error := None\<rparr>)"

definition mark_attempt_failed :: "utc \<Rightarrow> string \<Rightarrow> string \<Rightarrow> utc \<Rightarrow> OutboxDb \<Rightarrow> OutboxDb" where
  "mark_attempt_failed now i err next_at =
     upd_rows (\<lambda>x. ob_id x = i)
       (\<lambda>x. x\<lparr>ob_status := ''failed'', ob_attempt_count := ob_attempt_count x + 1,
              ob_last_attempt_at := Some now, ob_next_attempt_at := Some next_at,
              ob_last_error := Some err\<rparr>)"

definition retryable :: "string option \<Rightarrow> OutboxRow \<Rightarrow> bool" where
  "retryable rev_id x \<longleftrightarrow>
     ob_status x \<noteq> ''acknowledged''
     \<and> (case rev_id of None \<Rightarrow> True | Some r \<Rightarrow> ob_revocation_id x = r)"

definition reset_outbox_for_retry :: "utc \<Rightarrow> string option \<Rightarrow> OutboxDb \<Rightarrow> nat \<times> OutboxDb" where
  "reset_outbox_for_retry now rev_id db =
     (length (filter (retryable rev_id) (od_outbox db)),
      upd_rows (retryable rev_id)
        (\<lambda>x. x\<lparr>ob_status := ''pending'', ob_next_attempt_at := Some now\<rparr>) db)"

section \<open>Pushing a revocation\<close>

fun show_client_error :: "ReceiverClientError \<Rightarrow> string" where
  "show_client_error CeUnauthorized = ''receiver unauthorized''"
| "show_client_error CeSessionNotFound = ''receiver session not found''"
| "show_client_error CeSessionConflict = ''receiver session conflict''"
| "show_client_error CeAuthorityRevoked = ''authority revoked''"
| "show_client_error CeTimeout = ''request timed out''"
| "show_client_error (CeOffline e) = ''receiver offline: '' @ e"
| "show_client_error (CeProtocol e) = ''protocol violation: '' @ e"
| "show_client_error (CeHttp s body) = ''http status '' @ show_word s @ '': '' @ body"

definition push_revocation ::
  "(string \<Rightarrow> string option \<Rightarrow> HomeRevocation \<Rightarrow> unit http_answer) \<Rightarrow> HomeRevocation
   \<Rightarrow> ReceiverClient \<Rightarrow> ReceiverClientError + unit" where
  "push_revocation post r c =
     (case post (rc_base_url c @ ''/api/v1/home/revocations'') (rc_token c) r of
        SendFailed timeout e \<Rightarrow> Inl (if timeout then CeTimeout else CeOffline e)
      | Answer status body _ \<Rightarrow>
          (if is_success status then Inr () else Inl (from_response_parts status body)))"

section \<open>Flushing the outbox\<close>

text \<open>What a flush meets: the clock, the errors of the database statements, the signature check, and
  the answers of the receivers.\<close>

record FlushEnv =
  fe_now :: utc
  fe_list_err :: "string option"
  fe_claim_err :: "string \<Rightarrow> string option"
  fe_lookup_err :: "string \<Rightarrow> string option"
  fe_mark_ok :: "string \<Rightarrow> bool"
  fe_verify :: "HomeRevocation \<Rightarrow> string \<Rightarrow> string \<Rightarrow> string + unit"
  fe_post :: "string \<Rightarrow> string option \<Rightarrow> HomeRevocation \<Rightarrow> unit http_answer"

text \<open>The outbox of a running manager: the tables, the ids in delivery, and the revocations that
  receivers have accepted, each with the id of its row and the base URL it went to.\<close>

record OutboxState =
  os_db :: OutboxDb
  os_flight :: "string list"
  os_accepted :: "(string \<times> string \<times> HomeRevocation) list"

definition upd_db :: "(OutboxDb \<Rightarrow> OutboxDb) \<Rightarrow> OutboxState \<Rightarrow> OutboxState" where
  "upd_db f s = s\<lparr>os_db := f (os_db s)\<rparr>"

definition leave_flight :: "string \<Rightarrow> OutboxState \<Rightarrow> OutboxState" where
  "leave_flight i s = s\<lparr>os_flight := removeAll i (os_flight s)\<rparr>"

definition claim_item :: "FlushEnv \<Rightarrow> OutboxRow \<Rightarrow> OutboxState \<Rightarrow> bool \<times> OutboxState" where
  "claim_item F item s =
     (if List.member (os_flight s) (ob_id item) then (False, s)
      else
        let s1 = s\<lparr>os_flight := ob_id item # os_flight s\<rparr> in
        case fe_claim_err F (ob_id item) of
          Some _ \<Rightarrow> (False, leave_flight (ob_id item) s1)
        | None \<Rightarrow>
            (case mark_delivering (fe_now F) (ob_id item) (os_db s1) of
               (True, db) \<Rightarrow> (True, s1\<lparr>os_db := db\<rparr>)
             | (False, _) \<Rightarrow> (False, leave_flight (ob_id item) s1)))"

definition after_secs :: "utc \<Rightarrow> nat \<Rightarrow> utc" where
  "after_secs now secs = now + int (from_secs secs)"

definition dto_of :: "HomeRevocationRow \<Rightarrow> HomeRevocation" where
  "dto_of r =
     \<lparr>hr_version = word_of_int (rw_version r), hr_home_id = rw_home_id r,
      hr_revoked_device = rw_revoked_device r, hr_revoked_at = rw_revoked_at r,
      hr_reason = rw_reason r, hr_signature = rw_signature r\<rparr>"

text \<open>The registry entry of the target of a row; the identity it announces must be the row's.\<close>

definition target_entry :: "registry \<Rightarrow> OutboxRow \<Rightarrow> ReceiverRegistryEntry option" where
  "target_entry r item =
     (case reg_get r (ob_receiver_id item) of
        Some e \<Rightarrow> Some e
      | None \<Rightarrow> find_entry (\<lambda>e. en_michi_id e = Some (ob_receiver_michi_id item)) r)"

definition resolve_endpoint :: "registry \<Rightarrow> OutboxRow \<Rightarrow> string + string" where
  "resolve_endpoint r item =
     (case target_entry r item of
        None \<Rightarrow> Inr (ob_target_endpoint item)
      | Some e \<Rightarrow>
          (case en_michi_id e of
             Some mid \<Rightarrow>
               (if mid \<noteq> ob_receiver_michi_id item
                then Inl (''Registry identity mismatch for target '' @ ob_receiver_id item
                          @ '': expected '' @ ob_receiver_michi_id item @ '', found '' @ mid)
                else Inr (if en_base_url e \<noteq> [] then en_base_url e else ob_target_endpoint item))
           | None \<Rightarrow>
               Inr (if en_base_url e \<noteq> [] then en_base_url e else ob_target_endpoint item)))"

definition verified ::
  "FlushEnv \<Rightarrow> string option \<Rightarrow> string option \<Rightarrow> HomeRevocation \<Rightarrow> string + unit" where
  "verified F root_pk home r =
     (case (root_pk, home) of
        (Some pk, Some h) \<Rightarrow> fe_verify F r pk h
      | _ \<Rightarrow> Inr ())"

text \<open>Up to the request: the endpoint and the revocation, or the error and the delay in seconds until
  the next attempt.\<close>

definition prepare_item ::
  "FlushEnv \<Rightarrow> registry \<Rightarrow> string option \<Rightarrow> string option \<Rightarrow> OutboxRow \<Rightarrow> OutboxDb
   \<Rightarrow> string \<times> nat + string \<times> HomeRevocation" where
  "prepare_item F reg root_pk home item db =
     (case fe_lookup_err F (ob_id item) of
        Some e \<Rightarrow>
          Inl (''Database error looking up revocation '' @ ob_revocation_id item @ '': '' @ e, 60)
      | None \<Rightarrow>
     (case get_home_revocation (ob_revocation_id item) db of
        None \<Rightarrow>
          Inl (''Referenced revocation '' @ ob_revocation_id item
               @ '' not found in home_revocations'', 24 * 3600)
      | Some r \<Rightarrow>
          (if rw_home_id r \<noteq> ob_home_id item
             then Inl (''Home ID mismatch: outbox home '' @ ob_home_id item
                       @ '' != revocation home '' @ rw_home_id r, 24 * 3600)
           else case verified F root_pk home (dto_of r) of
             Inl e \<Rightarrow> Inl (''Refusing to push unverified revocation signature: '' @ e, 24 * 3600)
           | Inr _ \<Rightarrow>
               (case resolve_endpoint reg item of
                  Inl e \<Rightarrow> Inl (e, 300)
                | Inr endpoint \<Rightarrow> Inr (endpoint, dto_of r)))))"

definition backoff_secs :: "int \<Rightarrow> nat" where
  "backoff_secs attempts = min (2 ^ min (unat (word_of_int attempts :: u32)) 6 * 5) 300"

definition settle_failed :: "FlushEnv \<Rightarrow> OutboxRow \<Rightarrow> string \<Rightarrow> nat \<Rightarrow> OutboxState \<Rightarrow> OutboxState" where
  "settle_failed F item err delay s =
     leave_flight (ob_id item)
       (if fe_mark_ok F (ob_id item)
        then upd_db (mark_attempt_failed (fe_now F) (ob_id item) err (after_secs (fe_now F) delay)) s
        else s)"

definition settle_accepted ::
  "FlushEnv \<Rightarrow> OutboxRow \<Rightarrow> string \<Rightarrow> HomeRevocation \<Rightarrow> OutboxState \<Rightarrow> OutboxState" where
  "settle_accepted F item endpoint r s =
     (let s = s\<lparr>os_accepted := os_accepted s @ [(ob_id item, endpoint, r)]\<rparr> in
      leave_flight (ob_id item)
        (if fe_mark_ok F (ob_id item) then upd_db (mark_acknowledged (fe_now F) (ob_id item)) s
         else s))"

definition deliver_item ::
  "FlushEnv \<Rightarrow> Manager \<Rightarrow> OutboxRow \<Rightarrow> OutboxState \<Rightarrow> OutboxState" where
  "deliver_item F m item s =
     (case prepare_item F (mg_registry m) (map_option snd (mg_home m)) (map_option fst (mg_home m))
             item (os_db s) of
        Inl (err, delay) \<Rightarrow> settle_failed F item err delay s
      | Inr (endpoint, r) \<Rightarrow>
          (case push_revocation (fe_post F) r (new_client (mg_has_identity m) endpoint) of
             Inr _ \<Rightarrow> settle_accepted F item endpoint r s
           | Inl e \<Rightarrow>
               settle_failed F item (show_client_error e) (backoff_secs (ob_attempt_count item)) s))"

definition flush_item :: "FlushEnv \<Rightarrow> Manager \<Rightarrow> OutboxRow \<Rightarrow> OutboxState \<Rightarrow> OutboxState" where
  "flush_item F m item s =
     (case claim_item F item s of
        (False, s) \<Rightarrow> s
      | (True, s) \<Rightarrow> deliver_item F m item s)"

definition flush_revocation_outbox :: "FlushEnv \<Rightarrow> Manager \<Rightarrow> OutboxState \<Rightarrow> OutboxState" where
  "flush_revocation_outbox F m s =
     (if mg_trust_state m \<noteq> Ready \<or> fe_list_err F \<noteq> None then s
      else fold (flush_item F m) (list_due (fe_now F) (os_db s)) s)"

text \<open>A retry resets the rows and flushes them in a task of its own; the manager may have changed
  by then.\<close>

definition retry_outbox_delivery ::
  "utc \<Rightarrow> string option \<Rightarrow> OutboxState \<Rightarrow> nat \<times> OutboxState" where
  "retry_outbox_delivery now rev_id s =
     (case reset_outbox_for_retry now rev_id (os_db s) of (n, db) \<Rightarrow> (n, s\<lparr>os_db := db\<rparr>))"

section \<open>Revoking a device, with its rows\<close>

definition revocation_row :: "string \<Rightarrow> string \<Rightarrow> utc \<Rightarrow> HomeRevocation \<Rightarrow> HomeRevocationRow" where
  "revocation_row i payload now r =
     \<lparr>rw_id = i, rw_home_id = hr_home_id r, rw_revoked_device = hr_revoked_device r,
      rw_revoked_at = hr_revoked_at r, rw_reason = hr_reason r, rw_version = 1,
      rw_signature = hr_signature r, rw_signed_payload = payload, rw_created_at = now\<rparr>"

text \<open>\<open>revoke_device\<close> over the database: the row id and the outbox ids are drawn, \<open>payload\<close> is the
  base64 text of the canonical bytes.\<close>

definition revoke_device_durably ::
  "ReceiverNet \<Rightarrow> (string \<Rightarrow> HomeRevocation) \<Rightarrow> string \<Rightarrow> string \<Rightarrow> string list \<Rightarrow> utc \<Rightarrow> instant \<Rightarrow> string
   \<Rightarrow> Manager \<times> OutboxDb \<Rightarrow> (string + HomeRevocation) \<times> Manager \<times> OutboxDb" where
  "revoke_device_durably N issue row_id payload ids now clk mid = (\<lambda>(m, db).
     (let persisted = (\<lambda>targets. case mg_home m of
              None \<Rightarrow> Inr db
            | Some (hid, _) \<Rightarrow>
                persist_home_revocation now ids
                  (revocation_row row_id payload now (issue hid)) targets db);
          (r, m') = revoke_device N issue (\<lambda>ts. map_sum id (\<lambda>_. ()) (persisted ts)) now clk mid m
      in (r, m', case r of Inl _ \<Rightarrow> db
                 | Inr _ \<Rightarrow> (case persisted (revocation_targets mid (mg_registry m)) of
                              Inr db' \<Rightarrow> db' | Inl _ \<Rightarrow> db))))"

section \<open>The home roster\<close>

record HomeRosterDevice =
  rd_device_michi_id :: string
  rd_name :: string
  rd_device_type :: string
  rd_base_url :: "string option"
  rd_roles :: "string list"
  rd_authenticated :: bool
  rd_revoked :: bool
  rd_online :: bool
  rd_last_seen :: "utc option"
  rd_outbox_status :: "string option"
  rd_last_revocation_ack :: "utc option"
  rd_last_revocation_error :: "string option"

definition server_device :: "utc \<Rightarrow> DeviceMembership \<Rightarrow> HomeRosterDevice" where
  "server_device now mem =
     \<lparr>rd_device_michi_id = dm_device_michi_id mem, rd_name = ''Michi Micro Server'',
      rd_device_type = ''server'', rd_base_url = None, rd_roles = dm_roles mem,
      rd_authenticated = True, rd_revoked = False, rd_online = True, rd_last_seen = Some now,
      rd_outbox_status = None, rd_last_revocation_ack = None, rd_last_revocation_error = None\<rparr>"

definition roster_device :: "OutboxRow list \<Rightarrow> ReceiverRegistryEntry \<Rightarrow> HomeRosterDevice" where
  "roster_device rows e =
     (let ob = List.find (\<lambda>x. ob_receiver_id x = en_receiver_id e
                              \<or> ob_receiver_michi_id x = entry_michi_id e) rows
      in \<lparr>rd_device_michi_id = entry_michi_id e, rd_name = en_name e,
          rd_device_type = en_device_type e, rd_base_url = Some (en_base_url e),
          rd_roles = (case en_server_membership e of Some mem \<Rightarrow> dm_roles mem
                      | None \<Rightarrow> [''audio_receiver'']),
          rd_authenticated = en_authenticated e, rd_revoked = en_revoked e,
          rd_online = is_online e, rd_last_seen = en_last_seen e,
          rd_outbox_status = map_option ob_status ob,
          rd_last_revocation_ack = Option.bind ob ob_acknowledged_at,
          rd_last_revocation_error = Option.bind ob ob_last_error\<rparr>)"

text \<open>\<open>db = None\<close> is a manager without a pool, or an outbox that cannot be read.\<close>

definition get_home_roster :: "utc \<Rightarrow> OutboxDb option \<Rightarrow> Manager \<Rightarrow> HomeRosterDevice list" where
  "get_home_roster now db m =
     (case mg_membership m of Some mem \<Rightarrow> [server_device now mem] | None \<Rightarrow> [])
     @ map (roster_device (case (db, mg_home m) of
                             (Some d, Some (hid, _)) \<Rightarrow> list_revocation_outbox hid d
                           | _ \<Rightarrow> []))
         (map snd (mg_registry m))"

end
