(* ===== verification/Receiver_Invariant.thy ===== *)
theory Receiver_Invariant
  imports Receiver_Sessions
begin

text \<open>
  The session manager under interleaving: a step relation over the manager and the operations in
  flight, whose steps are the parts between two network answers, and the facts every reachable
  state satisfies.
\<close>

section \<open>Registry facts\<close>

lemma map_of_map_snd:
  "map_of (map (\<lambda>(k, v). (k, f k v)) r) i = map_option (f i) (map_of r i)"
  by (induction r) auto

lemma map_of_map_at:
  "map_of (map (\<lambda>(k, e). if k = i then (k, f e) else (k, e)) r) j =
     (if j = i then map_option f (map_of r i) else map_of r j)"
  by (induction r) auto

lemma map_of_reg_update:
  "map_of r i \<noteq> None \<Longrightarrow>
   map_of (reg_update i f r) j = (if j = i then map_option f (map_of r i) else map_of r j)"
  unfolding reg_update_def by (simp add: map_of_map_at)

lemma map_of_update_first:
  "map_of (update_first P f r) i = map_of r i \<or>
   (\<exists>e. map_of r i = Some e \<and> P e \<and> map_of (update_first P f r) i = Some (f e))"
  by (induction r) (auto split: if_splits)

lemma reg_update_lookup:
  "map_of r i = Some e \<Longrightarrow>
   \<exists>e'. map_of (reg_update j f r) i = Some e' \<and> (e' = e \<or> e' = f e)"
proof (cases "map_of r j = None")
  case True
  assume e: "map_of r i = Some e"
  have "reg_update j f r = update_first (\<lambda>e. en_michi_id e = Some j) f r"
    using True by (simp add: reg_update_def)
  with map_of_update_first [of "\<lambda>e. en_michi_id e = Some j" f r i] e show ?thesis by auto
next
  case False
  assume e: "map_of r i = Some e"
  then show ?thesis
    using map_of_reg_update [OF False, of f i] by (cases "i = j") auto
qed

lemma reg_get_key: "map_of r i = Some e \<Longrightarrow> reg_get r i = Some e"
  by (simp add: reg_get_def)

section \<open>The step relation\<close>

datatype PendingOp =
    PStart string SessionStartBody ReceiverRegistryEntry
  | PAuth string HomeAuthContext
  | PStop string ReceiverRegistryEntry ReceiverActiveSession
  | PBeat string

text \<open>Labels: an entry added to the registry from outside (discovery or pairing), or a step of the
  manager.\<close>

datatype ReceiverEvent = RegistryAdd ReceiverRegistryEntry | ManagerStep

type_synonym receiver_world = "Manager \<times> PendingOp list"

inductive receiver_step :: "ReceiverEvent \<Rightarrow> receiver_world \<Rightarrow> receiver_world \<Rightarrow> bool" where
  registry_add:
    "receiver_step (RegistryAdd e) (m, P) (upd_registry (reg_add e) m, P)"
| start_begins:
    "start_begin m rid b = Inr e \<Longrightarrow> receiver_step ManagerStep (m, P) (m, PStart rid b e # P)"
| start_claims:
    "PStart rid b e \<in> set P \<Longrightarrow> claim_for_start N f e g m = (r, m') \<Longrightarrow>
     receiver_step ManagerStep (m, P) (m', P)"
| start_fails:
    "PStart rid b e \<in> set P \<Longrightarrow>
     receiver_step ManagerStep (m, P) (m, remove1 (PStart rid b e) P)"
| start_commits:
    "PStart rid b e \<in> set P \<Longrightarrow> validate_strict uuid_ok raw = Inr neg \<Longrightarrow>
     start_commit N R now rid playback_id e neg m = (r, m') \<Longrightarrow>
     receiver_step ManagerStep (m, P) (m', remove1 (PStart rid b e) P)"
| auth_begins:
    "auth_begin m rid = (Inr (ctx, e), m') \<Longrightarrow>
     receiver_step ManagerStep (m, P) (m', PAuth rid ctx # P)"
| auth_refused:
    "auth_begin m rid = (Inl err, m') \<Longrightarrow> receiver_step ManagerStep (m, P) (m', P)"
| auth_finishes:
    "PAuth rid ctx \<in> set P \<Longrightarrow> auth_finish now rid ctx answer m = (r, m') \<Longrightarrow>
     receiver_step ManagerStep (m, P) (m', remove1 (PAuth rid ctx) P)"
| beat_begins:
    "beat_begin m rid = Inr (e, s) \<Longrightarrow> receiver_step ManagerStep (m, P) (m, PBeat rid # P)"
| beat_finishes:
    "PBeat rid \<in> set P \<Longrightarrow>
     receiver_step ManagerStep (m, P) (beat_finish now rid m, remove1 (PBeat rid) P)"
| session_lost:
    "receiver_step ManagerStep (m, P) (handle_session_lost rid m, P)"
| stop_begins:
    "stop_begin clk rid m = (Inr (e, s), m') \<Longrightarrow>
     receiver_step ManagerStep (m, P) (m', PStop rid e s # P)"
| stop_refused:
    "stop_begin clk rid m = (Inl err, m') \<Longrightarrow> receiver_step ManagerStep (m, P) (m', P)"
| stop_finishes:
    "PStop rid e s \<in> set P \<Longrightarrow> stop_finish N now rid e s m = (r, m') \<Longrightarrow>
     receiver_step ManagerStep (m, P) (m', remove1 (PStop rid e s) P)"
| writes:
    "mgr_write_pcm R f rid pcm m = (r, m', out) \<Longrightarrow> receiver_step ManagerStep (m, P) (m', P)"
| revokes:
    "receiver_step ManagerStep (m, P) (record_revocation rv mid m, P)"
| trust_changes:
    "receiver_step ManagerStep (m, P) (set_trust_state st m, P)"
| loads_revocations:
    "load_persisted_revocations has_pool db verify m = (r, m') \<Longrightarrow>
     receiver_step ManagerStep (m, P) (m', P)"

text \<open>Runs whose outside additions to the registry satisfy \<open>A\<close>.\<close>

definition receiver_run ::
  "(ReceiverRegistryEntry \<Rightarrow> bool) \<Rightarrow> receiver_world \<Rightarrow> receiver_world \<Rightarrow> bool" where
  "receiver_run A =
     (\<lambda>w w'. \<exists>ev. receiver_step ev w w' \<and> (\<forall>e. ev = RegistryAdd e \<longrightarrow> A e))\<^sup>*\<^sup>*"

section \<open>Sessions and transports\<close>

definition tied :: "ReceiverActiveSession \<Rightarrow> RtpReceiverTransport \<Rightarrow> bool" where
  "tied s t \<longleftrightarrow> rt_handle t \<noteq> None \<and> rt_socket t \<noteq> None \<and> rt_ssrc t = av_ssrc s \<and>
     rt_payload_type t = av_payload_type s \<and>
     (\<exists>c. rt_config t = Some c \<and> canonical_config c)"

fun agree :: "ReceiverActiveSession option \<Rightarrow> RtpReceiverTransport option \<Rightarrow> bool" where
  "agree None None = True"
| "agree (Some s) (Some t) = tied s t"
| "agree _ _ = False"

definition sessions_tied :: "Manager \<Rightarrow> bool" where
  "sessions_tied m \<longleftrightarrow>
     (\<forall>rid. agree (mg_active_sessions m rid) (mg_active_transports m rid))"

lemma sessions_tied_frame:
  "mg_active_sessions m' = mg_active_sessions m \<Longrightarrow>
   mg_active_transports m' = mg_active_transports m \<Longrightarrow> sessions_tied m \<Longrightarrow> sessions_tied m'"
  by (simp add: sessions_tied_def)

lemma sessions_tied_upd:
  assumes "sessions_tied m"
    and "mg_active_sessions m' = (mg_active_sessions m)(rid := s)"
    and "mg_active_transports m' = (mg_active_transports m)(rid := t)"
    and "agree s t"
  shows "sessions_tied m'"
  using assms by (simp add: sessions_tied_def)

lemma frame_helpers [michi_frame]:
  "mg_active_sessions (upd_registry f m) = mg_active_sessions m"
  "mg_active_transports (upd_registry f m) = mg_active_transports m"
  "mg_active_sessions (flight_enter rid m) = mg_active_sessions m"
  "mg_active_transports (flight_enter rid m) = mg_active_transports m"
  "mg_active_sessions (flight_leave rid m) = mg_active_sessions m"
  "mg_active_transports (flight_leave rid m) = mg_active_transports m"
  "mg_active_sessions (cancel_handle rid m) = mg_active_sessions m"
  "mg_active_transports (cancel_handle rid m) = mg_active_transports m"
  "mg_active_sessions (spawn_heartbeat_task rid m) = mg_active_sessions m"
  "mg_active_transports (spawn_heartbeat_task rid m) = mg_active_transports m"
  "mg_active_sessions (invalidate_grant rid m) = mg_active_sessions m"
  "mg_active_transports (invalidate_grant rid m) = mg_active_transports m"
  "mg_active_sessions (release_grant e m) = mg_active_sessions m"
  "mg_active_transports (release_grant e m) = mg_active_transports m"
  "mg_active_sessions (set_trust_state st m) = mg_active_sessions m"
  "mg_active_transports (set_trust_state st m) = mg_active_transports m"
  "mg_active_sessions (record_revocation rv mid m) = mg_active_sessions m"
  "mg_active_transports (record_revocation rv mid m) = mg_active_transports m"
  by (simp_all add: upd_registry_def flight_enter_def flight_leave_def cancel_handle_def
      spawn_heartbeat_task_def Let_def invalidate_grant_def release_grant_def set_trust_state_def
      record_revocation_def split: option.splits)

lemma auth_begin_frame:
  assumes "auth_begin m rid = (r, m')"
  shows "mg_active_sessions m' = mg_active_sessions m"
    "mg_active_transports m' = mg_active_transports m"
  using assms
  by (auto simp: auth_begin_def auth_guard_def Let_def michi_frame
      split: if_splits prod.splits sum.splits option.splits)

lemma auth_finish_frame:
  assumes "auth_finish now rid ctx a m = (r, m')"
  shows "mg_active_sessions m' = mg_active_sessions m"
    "mg_active_transports m' = mg_active_transports m"
  using assms by (auto simp: auth_finish_def michi_frame split: sum.splits prod.splits)

lemma claim_frame:
  assumes "claim_for_start N f e g m = (r, m')"
  shows "mg_active_sessions m' = mg_active_sessions m"
    "mg_active_transports m' = mg_active_transports m" "mg_registry m' = mg_registry m"
  using assms
  by (auto simp: claim_for_start_def ensure_claim_def
      split: if_splits sum.splits AuthorityError.splits prod.splits option.splits)

lemma load_frame:
  assumes "load_persisted_revocations p db v m = (r, m')"
  shows "mg_active_sessions m' = mg_active_sessions m"
    "mg_active_transports m' = mg_active_transports m"
  using assms
  by (auto simp: load_persisted_revocations_def set_trust_state_def
      split: if_splits sum.splits prod.splits option.splits)

lemma rt_start_ok_fields:
  assumes "rt_start R c (new_rtp_transport a ssrc) = (Inr h, t)"
  shows "rt_handle t \<noteq> None" "rt_socket t \<noteq> None" "rt_ssrc t = ssrc" "rt_payload_type t = 97"
    "rt_config t = Some c" "canonical_config c"
  using assms
  by (auto simp: rt_start_def new_rtp_transport_def Let_def split: if_splits sum.splits)

lemma validate_strict_ok:
  assumes "validate_strict ok raw = Inr neg"
  shows "neg = negotiated_of raw" "validate_format (ss_effective raw) = None"
    "validate_limits (ss_effective raw) = None" "validate_envelope ok raw = None"
  using assms by (auto simp: validate_strict_def split: option.splits)

lemma negotiated_fields:
  "ef_codec (negotiated_of r) = ef_codec (ss_effective r)"
  "ef_sample_rate (negotiated_of r) = ef_sample_rate (ss_effective r)"
  "ef_bit_depth (negotiated_of r) = ef_bit_depth (ss_effective r)"
  "ef_channels (negotiated_of r) = ef_channels (ss_effective r)"
  "ef_packet_ms (negotiated_of r) = ef_packet_ms (ss_effective r)"
  "ef_payload_type (negotiated_of r) = ef_payload_type (ss_effective r)"
  "ef_ssrc (negotiated_of r) = ef_ssrc (ss_effective r)"
  "ef_stream_port (negotiated_of r) = ef_stream_port (ss_effective r)"
  by (simp_all add: negotiated_of_def EffectiveSessionWire.defs)

lemma validated_config_canonical:
  assumes "validate_strict ok raw = Inr neg"
  shows "canonical_config (transport_config neg)"
  using validate_strict_ok(2) [OF assms]
  unfolding validate_strict_ok(1) [OF assms]
  by (auto simp: validate_format_def canonical_config_def transport_config_def negotiated_fields
      split: if_splits)

lemma validated_payload_type:
  assumes "validate_strict ok raw = Inr neg"
  shows "ef_payload_type neg = 97"
  using validate_strict_ok(3) [OF assms]
  unfolding validate_strict_ok(1) [OF assms]
  by (auto simp: validate_limits_def negotiated_fields split: if_splits)

lemma store_session_maps:
  "mg_active_sessions (store_session now rid s t m) = (mg_active_sessions m)(rid \<mapsto> s)"
  "mg_active_transports (store_session now rid s t m) = (mg_active_transports m)(rid \<mapsto> t)"
  by (simp_all add: store_session_def Let_def michi_frame)

lemma start_commit_cases:
  assumes "start_commit N R now rid pid e neg m = (r, m')"
  obtains (failed) err where "r = Inl err" "m' = m"
  | (started) t h host where "r = Inr neg"
      "nt_url_parse N (en_base_url e) = Inr (Some host)"
      "rt_start R (transport_config neg)
        (new_rtp_transport (target_addr host (ef_stream_port neg)) (ef_ssrc neg)) = (Inr h, t)"
      "m' = store_session now rid (session_of now rid pid (en_token e) neg) t m"
proof (cases "nt_url_parse N (en_base_url e)")
  case (Inl err)
  then show ?thesis using assms failed by (auto simp: start_commit_def start_transport_def)
next
  case (Inr ho)
  show ?thesis
  proof (cases ho)
    case None
    then show ?thesis using Inr assms failed by (auto simp: start_commit_def start_transport_def)
  next
    case (Some host)
    obtain x t where x: "rt_start R (transport_config neg)
        (new_rtp_transport (target_addr host (ef_stream_port neg)) (ef_ssrc neg)) = (x, t)"
      by (metis surj_pair)
    show ?thesis
    proof (cases x)
      case (Inl err)
      then show ?thesis using Inr Some x assms failed
        by (auto simp: start_commit_def start_transport_def)
    next
      case (Inr h)
      then show ?thesis using \<open>nt_url_parse N (en_base_url e) = Inr ho\<close> Some x assms started
        by (auto simp: start_commit_def start_transport_def)
    qed
  qed
qed

lemma start_commit_tied:
  assumes "start_commit N R now rid pid e neg m = (r, m')" and "sessions_tied m"
    and v: "validate_strict ok raw = Inr neg"
  shows "sessions_tied m'"
  using assms(1)
proof (cases rule: start_commit_cases)
  case failed
  then show ?thesis using assms(2) by simp
next
  case (started t h host)
  have "tied (session_of now rid pid (en_token e) neg) t"
    using rt_start_ok_fields [OF started(3)] validated_payload_type [OF v]
    by (auto simp: tied_def session_of_def)
  then show ?thesis
    unfolding started(4)
    by (intro sessions_tied_upd [OF assms(2) store_session_maps]) simp
qed

lemma tied_session_fields:
  "tied s t \<Longrightarrow> tied (s\<lparr>av_state := st\<rparr>) t"
  "tied s t \<Longrightarrow> tied (s\<lparr>av_heartbeat_sequence := n, av_last_heartbeat := now\<rparr>) t"
  by (simp_all add: tied_def)

lemma agree_Some_iff: "agree (Some s) x \<longleftrightarrow> (\<exists>t. x = Some t \<and> tied s t)"
  by (cases x) auto

lemma agree_Some_right: "agree x (Some t) \<longleftrightarrow> (\<exists>s. x = Some s \<and> tied s t)"
  by (cases x) auto

lemma set_session_state_tied: "sessions_tied m \<Longrightarrow> sessions_tied (set_session_state rid st m)"
  unfolding sessions_tied_def
  by (auto simp: set_session_state_def agree_Some_iff tied_session_fields split: option.splits)
    (metis agree_Some_iff tied_session_fields(1))

lemma tied_rt_pause: "tied s t \<Longrightarrow> tied s (snd (rt_pause clk t))"
  by (simp add: tied_def rt_pause_def)

lemma pause_transport_tied: "sessions_tied m \<Longrightarrow> sessions_tied (pause_transport clk rid m)"
  unfolding sessions_tied_def
  by (auto simp: pause_transport_def agree_Some_right split: option.splits)
    (metis agree_Some_right tied_rt_pause)

lemma beat_finish_tied:
  assumes "sessions_tied m"
  shows "sessions_tied (beat_finish now rid m)"
proof (cases "mg_active_sessions m rid")
  case None
  then show ?thesis using assms
    by (simp add: beat_finish_def sessions_tied_def michi_frame)
next
  case (Some s)
  have "agree (Some s) (mg_active_transports m rid)"
    using assms Some by (metis sessions_tied_def)
  then show ?thesis
    by (intro sessions_tied_upd [OF assms, of _ rid
          "Some (s\<lparr>av_heartbeat_sequence := av_heartbeat_sequence s + 1, av_last_heartbeat := now\<rparr>)"
          "mg_active_transports m rid"])
      (auto simp: beat_finish_def Some Let_def michi_frame agree_Some_iff tied_session_fields)
qed

lemma write_loop_same:
  "write_loop E k t out = (r, t', out') \<Longrightarrow>
   rt_handle t' = rt_handle t \<and> rt_socket t' = rt_socket t \<and> rt_ssrc t' = rt_ssrc t \<and>
   rt_payload_type t' = rt_payload_type t \<and> rt_config t' = rt_config t"
proof (induction E k t out arbitrary: r t' out' rule: write_loop.induct)
  case (1 E k t out)
  show ?case
  proof (cases "length (rt_pending_pcm t) < rtp_chunk_size")
    case True
    then show ?thesis using 1(2) by (simp add: write_loop.simps [of E k t])
  next
    case False
    then show ?thesis
    proof (cases "re_send E k (next_packet t)")
      case (Inl e)
      with False show ?thesis using 1(2) by (auto simp: write_loop.simps [of E k t] Let_def)
    next
      case (Inr n)
      with False 1(2) have "write_loop E (Suc k)
          (advance_packet (rebase_deadline (re_now E k) (rt_next_packet_deadline t))
            (count_sent (re_utc E k) (t\<lparr>rt_pending_pcm := drop rtp_chunk_size (rt_pending_pcm t)\<rparr>)))
          (out @ [(max (rebase_deadline (re_now E k) (rt_next_packet_deadline t)) (re_now E k),
                   next_packet t)]) = (r, t', out')"
        by (simp add: write_loop.simps [of E k t] Let_def)
      from 1(1) [OF False refl refl refl refl, of n r t' out'] this Inr show ?thesis
        by (simp add: advance_packet_def count_sent_def)
    qed
  qed
qed

lemma write_pcm_tied:
  assumes "write_pcm R pcm t = (r, t', out)" and "tied s t"
  shows "tied s t'"
proof -
  obtain so where "rt_socket t = Some so" using assms(2) by (auto simp: tied_def)
  with assms(1) have "write_loop R 0 (t\<lparr>rt_pending_pcm := rt_pending_pcm t @ pcm\<rparr>) [] = (r, t', out)"
    by (simp add: write_pcm_def)
  from write_loop_same [OF this] assms(2) show ?thesis by (simp add: tied_def)
qed

lemma mgr_write_tied:
  assumes "mgr_write_pcm R f rid pcm m = (r, m', out)" and "sessions_tied m"
  shows "sessions_tied m'"
proof (cases "mg_active_transports m rid")
  case None
  then show ?thesis using assms by (simp add: mgr_write_pcm_def)
next
  case (Some t)
  obtain r1 t1 o1 where w: "write_pcm R pcm t = (r1, t1, o1)" by (metis prod_cases3)
  have "agree (mg_active_sessions m rid) (Some t)" using assms(2) Some by (metis sessions_tied_def)
  then obtain s where s: "mg_active_sessions m rid = Some s" "tied s t"
    by (auto simp: agree_Some_right)
  have m': "m' = m\<lparr>mg_active_transports := (mg_active_transports m)(rid \<mapsto> t1)\<rparr>"
    using assms(1) by (auto simp: mgr_write_pcm_def Some w)
  have "tied s t1" by (rule write_pcm_tied [OF w s(2)])
  then show ?thesis
    by (intro sessions_tied_upd [OF assms(2), of m' rid "Some s" "Some t1"])
      (auto simp: m' s(1))
qed

lemma clear_receiver_tied:
  "sessions_tied m \<Longrightarrow> mg_active_sessions m' = (mg_active_sessions m)(rid := None) \<Longrightarrow>
   mg_active_transports m' = (mg_active_transports m)(rid := None) \<Longrightarrow> sessions_tied m'"
  by (rule sessions_tied_upd) auto

lemma lost_maps:
  "mg_active_sessions (handle_session_lost rid m) = (mg_active_sessions m)(rid := None)"
  "mg_active_transports (handle_session_lost rid m) = (mg_active_transports m)(rid := None)"
  by (simp_all add: handle_session_lost_def Let_def michi_frame)

lemma stop_begin_tied:
  assumes "stop_begin clk rid m = (r, m')" and "sessions_tied m"
  shows "sessions_tied m'"
proof (cases "mg_active_sessions m rid")
  case None
  then show ?thesis using assms by (simp add: stop_begin_def)
next
  case (Some s)
  have "m' = cancel_handle rid (pause_transport clk rid (set_session_state rid Closing m))"
    using assms(1) by (auto simp: stop_begin_def Some Let_def split: option.splits)
  moreover have "sessions_tied (pause_transport clk rid (set_session_state rid Closing m))"
    by (intro pause_transport_tied set_session_state_tied assms(2))
  ultimately show ?thesis by (simp add: sessions_tied_def michi_frame)
qed

lemma stop_finish_tied:
  assumes "stop_finish N now rid e s m = (r, m')" and "sessions_tied m"
  shows "sessions_tied m'"
proof (cases "fst (client_session_stop N (session_client m e s))")
  case (Inl err)
  then show ?thesis using assms by (auto simp: stop_finish_def intro: set_session_state_tied)
next
  case (Inr u)
  with assms(1) show ?thesis
    by (intro clear_receiver_tied [OF assms(2), of m' rid])
      (auto simp: stop_finish_def Let_def michi_frame)
qed

lemma receiver_step_tied:
  assumes "receiver_step ev w w'" and "sessions_tied (fst w)"
  shows "sessions_tied (fst w')"
  using assms
proof (cases rule: receiver_step.cases)
  case (session_lost m P rid)
  then show ?thesis using assms(2) clear_receiver_tied [OF _ lost_maps] by simp
qed (auto simp: michi_frame intro: sessions_tied_frame start_commit_tied beat_finish_tied
    mgr_write_tied stop_begin_tied stop_finish_tied
    sessions_tied_frame [OF claim_frame(1,2)] sessions_tied_frame [OF auth_begin_frame]
    sessions_tied_frame [OF auth_finish_frame] sessions_tied_frame [OF load_frame])

lemma receiver_run_tied:
  "receiver_run A w w' \<Longrightarrow> sessions_tied (fst w) \<Longrightarrow> sessions_tied (fst w')"
  unfolding receiver_run_def
  by (induction rule: rtranclp_induct) (auto dest: receiver_step_tied)

section \<open>Revoked entries stay revoked\<close>

definition revoked_key :: "string \<Rightarrow> Manager \<Rightarrow> bool" where
  "revoked_key rid m \<longleftrightarrow> (\<exists>e. map_of (mg_registry m) rid = Some e \<and> en_revoked e)"

lemma revoked_key_frame:
  "mg_registry m' = mg_registry m \<Longrightarrow> revoked_key rid m \<Longrightarrow> revoked_key rid m'"
  by (simp add: revoked_key_def)

lemma revoked_key_update:
  assumes "revoked_key rid m" and "\<And>e. en_revoked e \<Longrightarrow> en_revoked (f e)"
  shows "revoked_key rid (upd_registry (reg_update j f) m)"
proof -
  from assms(1) obtain e where e: "map_of (mg_registry m) rid = Some e" "en_revoked e"
    by (auto simp: revoked_key_def)
  from reg_update_lookup [OF e(1), of j f] e(2) assms(2) show ?thesis
    by (auto simp: revoked_key_def upd_registry_def)
qed

lemma registry_frames [michi_frame]:
  "mg_registry (flight_enter rid m) = mg_registry m"
  "mg_registry (flight_leave rid m) = mg_registry m"
  "mg_registry (cancel_handle rid m) = mg_registry m"
  "mg_registry (spawn_heartbeat_task rid m) = mg_registry m"
  "mg_registry (invalidate_grant rid m) = mg_registry m"
  "mg_registry (release_grant e m) = mg_registry m"
  "mg_registry (set_trust_state st m) = mg_registry m"
  "mg_registry (set_session_state rid ss m) = mg_registry m"
  "mg_registry (pause_transport clk rid m) = mg_registry m"
  by (simp_all add: flight_enter_def flight_leave_def cancel_handle_def
      spawn_heartbeat_task_def Let_def invalidate_grant_def release_grant_def set_trust_state_def
      set_session_state_def pause_transport_def split: option.splits)

lemma fold_if_revoked:
  "en_revoked (apply_audio j e) = en_revoked e"
  by (simp add: apply_audio_def on_array_def set_sample_rates_def set_bit_depths_def Let_def
      split: option.splits)

lemma capabilities_keep_revoked: "en_revoked (update_entry_capabilities info e) = en_revoked e"
  by (simp add: update_entry_capabilities_def fill_defaults_def Let_def fold_if_revoked
      split: option.splits)

lemma authenticated_keeps_revoked:
  "en_revoked (authenticated_entry now ctx sess info e) = en_revoked e"
  by (simp add: authenticated_entry_def Let_def capabilities_keep_revoked split: option.splits)

lemma auth_begin_revoked:
  assumes "auth_begin m rid = (r, m')" and k: "revoked_key i m"
  shows "revoked_key i m'"
proof -
  have "revoked_key i (upd_registry (reg_update rid revoke_entry) (flight_enter rid m))"
    by (intro revoked_key_update) (auto intro: revoked_key_frame [OF _ k] simp: michi_frame revoke_entry_def)
  then show ?thesis
    using assms
    by (auto simp: auth_begin_def auth_guard_def Let_def
        split: if_splits prod.splits sum.splits option.splits
        intro: revoked_key_frame [OF _ k] revoked_key_frame simp: michi_frame)
qed

lemma auth_finish_revoked:
  assumes "auth_finish now rid ctx a m = (r, m')" and k: "revoked_key i m"
  shows "revoked_key i m'"
proof (cases a)
  case (Inl e)
  then show ?thesis using assms by (auto simp: auth_finish_def michi_frame intro: revoked_key_frame)
next
  case (Inr x)
  obtain sess info where x: "x = (sess, info)" by (metis surj_pair)
  have "revoked_key i (upd_registry (reg_update rid (authenticated_entry now ctx sess info)) m)"
    by (intro revoked_key_update k) (simp add: authenticated_keeps_revoked)
  then show ?thesis
    using assms(1) Inr x by (auto simp: auth_finish_def michi_frame intro: revoked_key_frame)
qed

lemma start_commit_revoked:
  assumes "start_commit N R now rid pid e neg m = (r, m')" and k: "revoked_key i m"
  shows "revoked_key i m'"
  using assms(1)
proof (cases rule: start_commit_cases)
  case failed
  then show ?thesis using k by simp
next
  case (started t h host)
  show ?thesis
    unfolding started(4) store_session_def Let_def
    by (rule revoked_key_frame [of _ "upd_registry _ _"], rule registry_frames(4),
        rule revoked_key_update, rule revoked_key_frame [OF _ k]) simp_all
qed

lemma stop_begin_revoked:
  assumes "stop_begin clk rid m = (r, m')" and k: "revoked_key i m"
  shows "revoked_key i m'"
  using assms
  by (auto simp: stop_begin_def Let_def michi_frame split: option.splits intro: revoked_key_frame [OF _ k])

lemma stop_finish_revoked:
  assumes "stop_finish N now rid e s m = (r, m')" and k: "revoked_key i m"
  shows "revoked_key i m'"
proof (cases "fst (client_session_stop N (session_client m e s))")
  case (Inl err)
  then show ?thesis
    using assms(1) by (auto simp: stop_finish_def michi_frame intro: revoked_key_frame [OF _ k])
next
  case (Inr u)
  have "revoked_key i (upd_registry (reg_update rid
      (\<lambda>e. e\<lparr>en_active_session_id := None, en_last_seen := Some now\<rparr>))
      (m\<lparr>mg_active_transports := (mg_active_transports m)(rid := None),
         mg_active_sessions := (mg_active_sessions m)(rid := None)\<rparr>))"
    by (intro revoked_key_update) (auto intro: revoked_key_frame [OF _ k])
  with assms(1) Inr show ?thesis
    by (auto simp: stop_finish_def Let_def michi_frame intro: revoked_key_frame)
qed

lemma lost_revoked:
  assumes k: "revoked_key i m"
  shows "revoked_key i (handle_session_lost rid m)"
  unfolding handle_session_lost_def Let_def
  by (rule revoked_key_frame [of _ "upd_registry _ _"], simp add: michi_frame,
      rule revoked_key_update, rule revoked_key_frame [OF _ k]) simp_all

lemma beat_finish_revoked:
  assumes k: "revoked_key i m"
  shows "revoked_key i (beat_finish now rid m)"
  unfolding beat_finish_def Let_def
  by (rule revoked_key_update) (auto intro: revoked_key_frame [OF _ k] split: option.split)

lemma revoked_key_map:
  assumes "revoked_key i m" and "mg_registry m' = map (\<lambda>(k, e). (k, f e)) (mg_registry m)"
    and "\<And>e. en_revoked e \<Longrightarrow> en_revoked (f e)"
  shows "revoked_key i m'"
proof -
  from assms(1) obtain e where "map_of (mg_registry m) i = Some e" "en_revoked e"
    by (auto simp: revoked_key_def)
  then have "map_of (mg_registry m') i = Some (f e)" "en_revoked (f e)"
    unfolding assms(2) by (simp_all add: map_of_map_snd [of "\<lambda>_. f"] assms(3))
  then show ?thesis by (simp add: revoked_key_def)
qed

lemma record_revocation_revoked:
  assumes k: "revoked_key i m"
  shows "revoked_key i (record_revocation rv mid m)"
  by (rule revoked_key_map [OF k,
        of _ "\<lambda>e. if is_device mid e then (revoke_entry e)\<lparr>en_presence := Offline\<rparr> else e"])
    (simp_all add: record_revocation_def revoke_registry_def revoke_entry_def)

lemma load_revoked:
  assumes "load_persisted_revocations p db v m = (r, m')" and k: "revoked_key i m"
  shows "revoked_key i m'"
proof -
  have "revoked_key i (set_trust_state Ready
      (m\<lparr>mg_revocations := revs, mg_registry := mark_revoked revs (mg_registry m)\<rparr>))" for revs
    by (rule revoked_key_map [OF k, of _ "\<lambda>e. if list_ex (\<lambda>r. hr_revoked_device r = entry_michi_id e)
          revs then revoke_entry e else e"])
      (simp_all add: mark_revoked_def revoke_entry_def michi_frame)
  with assms show ?thesis
    by (auto simp: load_persisted_revocations_def michi_frame
        split: if_splits sum.splits prod.splits option.splits
        intro: revoked_key_frame revoked_key_frame [OF _ k])
qed

lemma mgr_write_registry:
  "mgr_write_pcm R f rid pcm m = (r, m', out) \<Longrightarrow> mg_registry m' = mg_registry m"
  by (auto simp: mgr_write_pcm_def split: option.splits prod.splits)

lemma receiver_step_revoked:
  assumes "receiver_step ev w w'" and "revoked_key rid (fst w)"
    and "\<And>e. ev = RegistryAdd e \<Longrightarrow> en_receiver_id e \<noteq> rid"
  shows "revoked_key rid (fst w')"
  using assms
proof (cases rule: receiver_step.cases)
  case (registry_add e m P)
  then show ?thesis
    using assms(2,3) by (auto simp: revoked_key_def upd_registry_def reg_add_def update_conv')
qed (auto intro: auth_begin_revoked auth_finish_revoked start_commit_revoked stop_begin_revoked
    stop_finish_revoked lost_revoked beat_finish_revoked record_revocation_revoked load_revoked
    revoked_key_frame [OF claim_frame(3)] revoked_key_frame [OF mgr_write_registry]
    revoked_key_frame simp: michi_frame)

lemma receiver_run_revoked:
  assumes "receiver_run (\<lambda>e. en_receiver_id e \<noteq> rid) w w'" and "revoked_key rid (fst w)"
  shows "revoked_key rid (fst w')"
  using assms unfolding receiver_run_def
  by (induction rule: rtranclp_induct) (auto dest: receiver_step_revoked)

lemma revoked_key_refuses:
  assumes "revoked_key rid m"
  shows "start_begin m rid b = Inl (''receiver '' @ rid @ '' is revoked'')"
    and "is_err (fst (auth_begin m rid))"
proof -
  from assms obtain e where e: "entry_of m rid = Some e" "en_revoked e"
    by (auto simp: revoked_key_def reg_get_key)
  show "start_begin m rid b = Inl (''receiver '' @ rid @ '' is revoked'')"
    unfolding start_begin_def e(1) by (simp only: option.case e(2) if_True)
  have "entry_of (flight_enter rid m) rid = Some e" using e(1) by (simp add: michi_frame)
  then show "is_err (fst (auth_begin m rid))"
    using e(2) by (auto simp: auth_begin_def auth_guard_def michi_frame split: prod.splits sum.splits)
qed

section \<open>Revoking a device\<close>

lemma stop_session_revoked:
  "revoked_key i m \<Longrightarrow> revoked_key i (snd (stop_session N now clk rid m))"
proof -
  assume k: "revoked_key i m"
  obtain r1 m1 where b: "stop_begin clk rid m = (r1, m1)" by (metis surj_pair)
  have k1: "revoked_key i m1" by (rule stop_begin_revoked [OF b k])
  show ?thesis
  proof (cases r1)
    case (Inl err)
    then show ?thesis using k1 by (simp add: stop_session_def b)
  next
    case (Inr x)
    obtain e s where x: "x = (e, s)" by (metis surj_pair)
    obtain r2 m2 where f: "stop_finish N now rid e s m1 = (r2, m2)" by (metis surj_pair)
    show ?thesis
      using stop_finish_revoked [OF f k1] by (simp add: stop_session_def b Inr x f)
  qed
qed

lemma stop_all_revoked: "revoked_key i m \<Longrightarrow> revoked_key i (stop_all N now clk rids m)"
  unfolding stop_all_def
  by (induction rids arbitrary: m) (simp_all add: stop_session_revoked)

lemma revoke_device_revokes:
  assumes "revoke_device N issue persist now clk mid m = (Inr rv, m')"
    and "map_of (mg_registry m) rid = Some e" and "is_device mid e"
  shows "revoked_key rid m'"
proof -
  obtain hid pk where h: "mg_home m = Some (hid, pk)"
    using assms(1) by (auto simp: revoke_device_def split: option.splits)
  have m': "m' = stop_all N now clk (receivers_to_stop mid (mg_registry m))
      (record_revocation (issue hid) mid m)"
    using assms(1) by (auto simp: revoke_device_def h split: sum.splits)
  have "revoked_key rid (record_revocation (issue hid) mid m)"
    using assms(2,3)
    by (simp add: revoked_key_def record_revocation_def revoke_registry_def map_of_map_snd
        revoke_entry_def)
  then show ?thesis unfolding m' by (rule stop_all_revoked)
qed

end
