(* ===== verification/Outbox_Theorems.thy ===== *)
theory Outbox_Theorems
  imports Receiver_Outbox Receiver_Invariant
begin

text \<open>
  What the outbox promises: one flush settles every due row on its own, whatever the others do, and
  a revocation reaches the receivers it was queued for.
\<close>

section \<open>Rows one by one\<close>

text \<open>The reference: what a flush makes of one row, given the tables it started from, and what it
  gets accepted for it.\<close>

definition row_answer ::
  "FlushEnv \<Rightarrow> Manager \<Rightarrow> OutboxDb \<Rightarrow> OutboxRow \<Rightarrow> string \<times> nat + string \<times> HomeRevocation" where
  "row_answer F m db x =
     (case prepare_item F (mg_registry m) (map_option snd (mg_home m)) (map_option fst (mg_home m))
             x db of
        Inl e \<Rightarrow> Inl e
      | Inr (endpoint, r) \<Rightarrow>
          (case push_revocation (fe_post F) r (new_client (mg_has_identity m) endpoint) of
             Inr _ \<Rightarrow> Inr (endpoint, r)
           | Inl e \<Rightarrow> Inl (show_client_error e, backoff_secs (ob_attempt_count x))))"

definition settled_row :: "FlushEnv \<Rightarrow> Manager \<Rightarrow> OutboxDb \<Rightarrow> OutboxRow \<Rightarrow> OutboxRow" where
  "settled_row F m db x =
     (case row_answer F m db x of
        Inr _ \<Rightarrow>
          x\<lparr>ob_status := ''acknowledged'', ob_acknowledged_at := Some (fe_now F),
            ob_last_attempt_at := Some (fe_now F), ob_last_error := None\<rparr>
      | Inl (err, delay) \<Rightarrow>
          x\<lparr>ob_status := ''failed'', ob_attempt_count := ob_attempt_count x + 1,
            ob_last_attempt_at := Some (fe_now F),
            ob_next_attempt_at := Some (after_secs (fe_now F) delay), ob_last_error := Some err\<rparr>)"

definition row_accepts :: "FlushEnv \<Rightarrow> Manager \<Rightarrow> OutboxDb \<Rightarrow> OutboxRow \<Rightarrow> (string \<times> string \<times> HomeRevocation) list"
where
  "row_accepts F m db x =
     (case row_answer F m db x of Inr (endpoint, r) \<Rightarrow> [(ob_id x, endpoint, r)] | Inl _ \<Rightarrow> [])"

text \<open>A flush whose statements succeed.\<close>

definition statements_ok :: "FlushEnv \<Rightarrow> bool" where
  "statements_ok F \<longleftrightarrow>
     fe_list_err F = None \<and> (\<forall>i. fe_claim_err F i = None) \<and> (\<forall>i. fe_lookup_err F i = None)
     \<and> (\<forall>i. fe_mark_ok F i)"

lemma prepare_item_revocations:
  assumes "od_revocations db' = od_revocations db"
  shows "prepare_item F reg pk h x db' = prepare_item F reg pk h x db"
proof -
  have "get_home_revocation i db' = get_home_revocation i db" for i
    unfolding get_home_revocation_def assms ..
  then show ?thesis unfolding prepare_item_def by (simp only:)
qed

lemma row_answer_revocations:
  "od_revocations db' = od_revocations db \<Longrightarrow> row_answer F m db' x = row_answer F m db x"
  unfolding row_answer_def by (simp only: prepare_item_revocations [of db' db])

lemma settled_row_revocations:
  "od_revocations db' = od_revocations db \<Longrightarrow> settled_row F m db' x = settled_row F m db x"
  unfolding settled_row_def by (simp only: row_answer_revocations [of db' db])

lemma row_accepts_revocations:
  "od_revocations db' = od_revocations db \<Longrightarrow> row_accepts F m db' x = row_accepts F m db x"
  unfolding row_accepts_def by (simp only: row_answer_revocations [of db' db])

lemma settled_row_id [simp]: "ob_id (settled_row F m db x) = ob_id x"
  by (simp add: settled_row_def split: sum.splits prod.splits)

lemma upd_rows_frame [simp]: "od_revocations (upd_rows P f db) = od_revocations db"
  by (simp add: upd_rows_def)

lemma upd_rows_twice:
  assumes "\<And>x. Q (f x) \<Longrightarrow> P x" and "\<And>x. P x \<Longrightarrow> Q (f x)" and "\<And>x. Q x \<Longrightarrow> \<not> P x \<Longrightarrow> x \<notin> set (od_outbox db)"
  shows "od_outbox (upd_rows Q g (upd_rows P f db)) =
    map (\<lambda>x. if P x then g (f x) else x) (od_outbox db)"
  using assms by (auto simp: upd_rows_def)

text \<open>One row: claimed, delivered, settled.\<close>

lemma claim_due:
  assumes "statements_ok F" and "x \<in> set (od_outbox (os_db s))" and "claimable x"
    and "ob_id x \<notin> set (os_flight s)"
  shows "claim_item F x s = (True,
    s\<lparr>os_flight := ob_id x # os_flight s, os_db := snd (mark_delivering (fe_now F) (ob_id x) (os_db s))\<rparr>)"
proof -
  have "list_ex (\<lambda>y. ob_id y = ob_id x \<and> claimable y) (od_outbox (os_db s))"
    using assms(2,3) by (auto simp: list_ex_iff)
  then show ?thesis
    using assms(1,4) by (simp add: claim_item_def statements_ok_def mark_delivering_def)
qed

lemma same_row:
  "distinct (map ob_id xs) \<Longrightarrow> x \<in> set xs \<Longrightarrow> y \<in> set xs \<Longrightarrow> ob_id y = ob_id x \<longleftrightarrow> y = x"
  by (auto simp: distinct_map dest: inj_onD)

lemma flush_item_due:
  assumes ok: "statements_ok F" and x: "x \<in> set (od_outbox (os_db s))" and c: "claimable x"
    and fl: "ob_id x \<notin> set (os_flight s)" and d: "distinct (map ob_id (od_outbox (os_db s)))"
  shows "flush_item F m x s =
    s\<lparr>os_db := (os_db s)\<lparr>od_outbox :=
         map (\<lambda>y. if y = x then settled_row F m (os_db s) x else y) (od_outbox (os_db s))\<rparr>,
      os_accepted := os_accepted s @ row_accepts F m (os_db s) x\<rparr>"
proof -
  define db1 where "db1 = snd (mark_delivering (fe_now F) (ob_id x) (os_db s))"
  define s1 where "s1 = s\<lparr>os_flight := ob_id x # os_flight s, os_db := db1\<rparr>"
  have cl: "claim_item F x s = (True, s1)"
    unfolding s1_def db1_def by (rule claim_due [OF ok x c fl])
  have revs: "od_revocations db1 = od_revocations (os_db s)"
    by (simp add: db1_def mark_delivering_def)
  have ob: "od_outbox db1 = map (\<lambda>y. if y = x
      then x\<lparr>ob_status := ''delivering'', ob_last_attempt_at := Some (fe_now F)\<rparr> else y)
      (od_outbox (os_db s))"
    using same_row [OF d x] c by (auto simp: db1_def mark_delivering_def upd_rows_def)
  have one: "od_outbox (upd_rows (\<lambda>y. ob_id y = ob_id x) g db1) =
      map (\<lambda>y. if y = x then g (x\<lparr>ob_status := ''delivering'',
                                ob_last_attempt_at := Some (fe_now F)\<rparr>) else y)
        (od_outbox (os_db s))" for g
    using same_row [OF d x] by (auto simp: upd_rows_def ob)
  have fl': "removeAll (ob_id x) (ob_id x # os_flight s) = os_flight s"
    using fl by simp
  have upd: "upd_rows (\<lambda>y. ob_id y = ob_id x) g db1 = (os_db s)\<lparr>od_outbox :=
      map (\<lambda>y. if y = x then g (x\<lparr>ob_status := ''delivering'',
                                ob_last_attempt_at := Some (fe_now F)\<rparr>) else y)
        (od_outbox (os_db s))\<rparr>" for g
    using one [of g] revs by (simp add: upd_rows_def)
  have mark: "fe_mark_ok F i" for i using ok by (simp add: statements_ok_def)
  have pr: "prepare_item F r pk h x db1 = prepare_item F r pk h x (os_db s)" for r pk h
    by (rule prepare_item_revocations [OF revs])
  have flush: "flush_item F m x s = deliver_item F m x s1"
    by (simp add: flush_item_def cl)
  show ?thesis
  proof (cases "row_answer F m (os_db s) x")
    case (Inl e)
    obtain err delay where e: "e = (err, delay)" by (cases e)
    have "deliver_item F m x s1 = settle_failed F x err delay s1"
      using Inl by (auto simp: deliver_item_def row_answer_def pr s1_def e split: sum.splits)
    then show ?thesis
      using Inl unfolding flush
      by (simp add: settle_failed_def mark upd_db_def mark_attempt_failed_def s1_def upd fl
          leave_flight_def settled_row_def row_accepts_def e)
  next
    case (Inr p)
    obtain ep r where p: "p = (ep, r)" by (cases p)
    have "deliver_item F m x s1 = settle_accepted F x ep r s1"
      using Inr by (auto simp: deliver_item_def row_answer_def pr s1_def p split: sum.splits)
    then show ?thesis
      using Inr unfolding flush
      by (simp add: settle_accepted_def mark upd_db_def mark_acknowledged_def s1_def upd fl
          leave_flight_def settled_row_def row_accepts_def p)
  qed
qed

section \<open>The whole flush\<close>

lemma flush_items:
  assumes "statements_ok F" and "distinct (map ob_id (od_outbox db))"
    and "os_db s = db\<lparr>od_outbox := map (\<lambda>y. if y \<in> D then settled_row F m db y else y) (od_outbox db)\<rparr>"
    and "set items \<subseteq> set (od_outbox db)" and "set items \<inter> D = {}" and "distinct items"
    and "\<forall>x \<in> set items. claimable x" and "os_flight s = []"
  shows "fold (flush_item F m) items s =
    s\<lparr>os_db := db\<lparr>od_outbox := map (\<lambda>y. if y \<in> D \<union> set items then settled_row F m db y else y)
                     (od_outbox db)\<rparr>,
      os_accepted := os_accepted s @ concat (map (row_accepts F m db) items)\<rparr>"
  using assms(3-)
proof (induction items arbitrary: s D)
  case Nil
  then show ?case by simp
next
  case (Cons x items)
  let ?ob = "\<lambda>D. map (\<lambda>y. if y \<in> D then settled_row F m db y else y) (od_outbox db)"
  have revs: "od_revocations (os_db s) = od_revocations db" using Cons.prems(1) by simp
  have mem: "x \<in> set (od_outbox (os_db s))" using Cons.prems(1-3) by auto
  have ids: "map ob_id (od_outbox (os_db s)) = map ob_id (od_outbox db)"
    by (simp add: Cons.prems(1))
  have "distinct (map ob_id (od_outbox (os_db s)))"
    using assms(2) unfolding ids .
  then have step: "flush_item F m x s =
      s\<lparr>os_db := (os_db s)\<lparr>od_outbox :=
         map (\<lambda>y. if y = x then settled_row F m (os_db s) x else y) (od_outbox (os_db s))\<rparr>,
        os_accepted := os_accepted s @ row_accepts F m (os_db s) x\<rparr>"
    using assms(1) mem Cons.prems by (intro flush_item_due) auto
  have x: "x \<in> set (od_outbox db)" "x \<notin> D" using Cons.prems(2,3) by auto
  have only: "settled_row F m db y = x \<Longrightarrow> y \<in> set (od_outbox db) \<Longrightarrow> y = x" for y
    using same_row [OF assms(2) x(1), of y] by (metis settled_row_id)
  have same: "settled_row F m (os_db s) x = settled_row F m db x"
    by (rule settled_row_revocations [OF revs])
  have point: "(if (if y \<in> D then settled_row F m db y else y) = x then settled_row F m db x
      else if y \<in> D then settled_row F m db y else y)
    = (if y \<in> insert x D then settled_row F m db y else y)" if "y \<in> set (od_outbox db)" for y
    using x(2) only [OF _ that] by auto
  have rows: "od_outbox (os_db s) = ?ob D" unfolding Cons.prems(1) by simp
  have ob: "map (\<lambda>y. if y = x then settled_row F m (os_db s) x else y) (od_outbox (os_db s))
      = ?ob (insert x D)"
    unfolding rows same map_map by (rule map_cong [OF refl]) (simp only: o_def point)
  define s1 where "s1 = flush_item F m x s"
  have s1: "s1 = s\<lparr>os_db := db\<lparr>od_outbox := ?ob (insert x D)\<rparr>,
      os_accepted := os_accepted s @ row_accepts F m db x\<rparr>"
    unfolding s1_def step ob row_accepts_revocations [OF revs] unfolding Cons.prems(1) by simp
  have "fold (flush_item F m) items s1 =
      s1\<lparr>os_db := db\<lparr>od_outbox := ?ob (insert x D \<union> set items)\<rparr>,
        os_accepted := os_accepted s1 @ concat (map (row_accepts F m db) items)\<rparr>"
  proof (rule Cons.IH)
    show "os_db s1 = db\<lparr>od_outbox := ?ob (insert x D)\<rparr>" unfolding s1 by simp
    show "os_flight s1 = []" unfolding s1 using Cons.prems(6) by simp
    show "set items \<inter> insert x D = {}" using Cons.prems(3,4) by auto
  qed (use Cons.prems in auto)
  moreover have "insert x D \<union> set items = D \<union> set (x # items)" by auto
  ultimately show ?case
    unfolding fold_simps(2) s1_def [symmetric] by (simp add: s1)
qed

lemma set_list_due: "set (list_due now db) = {x \<in> set (od_outbox db). is_due now x}"
  by (simp add: list_due_def)

lemma distinct_list_due: "distinct (map ob_id (od_outbox db)) \<Longrightarrow> distinct (list_due now db)"
  by (simp add: list_due_def distinct_map)

lemma flush_is_rowwise:
  assumes ok: "statements_ok F" and "mg_trust_state m = Ready" and "os_flight s = []"
    and d: "distinct (map ob_id (od_outbox (os_db s)))"
  shows "flush_revocation_outbox F m s =
    s\<lparr>os_db := (os_db s)\<lparr>od_outbox := map (\<lambda>x. if is_due (fe_now F) x
                                       then settled_row F m (os_db s) x else x) (od_outbox (os_db s))\<rparr>,
      os_accepted := os_accepted s
        @ concat (map (row_accepts F m (os_db s)) (list_due (fe_now F) (os_db s)))\<rparr>"
proof -
  let ?due = "list_due (fe_now F) (os_db s)"
  have c: "\<forall>x \<in> set ?due. claimable x" by (auto simp: set_list_due is_due_def)
  have "fold (flush_item F m) ?due s =
    s\<lparr>os_db := (os_db s)\<lparr>od_outbox := map (\<lambda>y. if y \<in> {} \<union> set ?due
                                       then settled_row F m (os_db s) y else y) (od_outbox (os_db s))\<rparr>,
      os_accepted := os_accepted s @ concat (map (row_accepts F m (os_db s)) ?due)\<rparr>"
    using ok d assms(3) c
    by (intro flush_items) (auto simp: set_list_due distinct_list_due map_idI)
  moreover have "map (\<lambda>y. if y \<in> {} \<union> set ?due then settled_row F m (os_db s) y else y)
      (od_outbox (os_db s))
    = map (\<lambda>x. if is_due (fe_now F) x then settled_row F m (os_db s) x else x) (od_outbox (os_db s))"
    by (simp add: set_list_due)
  ultimately show ?thesis
    using ok assms(2) by (simp add: flush_revocation_outbox_def statements_ok_def)
qed

end
