(* ===== verification/Receiver_Theorems.thy ===== *)
theory Receiver_Theorems
  imports Receiver_Invariant
begin

text \<open>
  Properties of the receiver sessions: from the announced capabilities to a running transport, the
  agreement of sessions and transports under interleaving, revocation, and the heartbeat
  supervisor; and what the model shows of the error paths.
\<close>

section \<open>Capabilities\<close>

lemma fold_max_ge: "(y :: 'a::len word) \<le> fold max ys y" "x \<in> set ys \<Longrightarrow> x \<le> fold max ys y"
proof (induction ys arbitrary: y)
  case Nil
  { case 1 show ?case by simp next case 2 then show ?case by simp }
next
  case (Cons z ys)
  have a: "y \<le> fold max (z # ys) y" for y :: "'a word"
    using Cons.IH(1) [of "max z y"] by (auto intro: order_trans [of y "max z y"])
  { case 1 show ?case by (rule a)
  next
    case 2
    then show ?case
      using Cons.IH(1) [of "max z y"] Cons.IH(2) [of "max z y"]
      by (auto intro: order_trans [of z "max z y"]) }
qed

lemma max_or_ge: "x \<in> set xs \<Longrightarrow> x \<le> max_or d xs"
  by (cases xs) (auto simp: max_or_def fold_max_ge)

lemma require_list_ok:
  "require_list k u conv x audio = Inr () \<Longrightarrow>
   \<exists>js. get_array k audio = Some js \<and> x \<in> set (conv js)"
  by (auto simp: require_list_def non_empty_def List.member_iff split: option.splits list.splits if_splits)

lemma and_then_ok: "and_then a b = Inr u \<longleftrightarrow> a = Inr () \<and> b = Inr u"
  by (cases a) (auto simp: and_then_def)

definition streams_canonical :: "ReceiverRegistryEntry \<Rightarrow> bool" where
  "streams_canonical e \<longleftrightarrow>
     List.member (en_supported_transports e) ''rtp_udp''
     \<and> List.member (en_supported_codecs e) ''pcm_s16le'' \<and> \<not> unsupported_profile e"

lemma set_sample_rates_ok:
  "x \<in> set rates \<Longrightarrow> en_supported_sample_rates (set_sample_rates rates e) = rates"
  "x \<in> set rates \<Longrightarrow> en_max_sample_rate (set_sample_rates rates e) = max_or 48000 rates"
  by (auto simp: set_sample_rates_def)

lemma set_bit_depths_ok:
  "x \<in> set ds \<Longrightarrow> en_supported_bit_depths (set_bit_depths ds e) = ds"
  "x \<in> set ds \<Longrightarrow> en_max_bit_depth (set_bit_depths ds e) = max_or 16 ds"
  by (auto simp: set_bit_depths_def)

lemma set_caps_frames:
  "en_supported_transports (set_sample_rates r e) = en_supported_transports e"
  "en_supported_transports (set_bit_depths d e) = en_supported_transports e"
  "en_supported_sample_rates (set_bit_depths d e) = en_supported_sample_rates e"
  "en_max_sample_rate (set_bit_depths d e) = en_max_sample_rate e"
  by (simp_all add: set_sample_rates_def set_bit_depths_def)

lemma validated_audio_streams:
  assumes "validate_audio audio = Inr ()"
  shows "streams_canonical (apply_audio audio e)"
proof -
  note p = assms [unfolded validate_audio_def and_then_ok]
  obtain ts where ts: "get_array ''transports'' audio = Some ts" "''rtp_udp'' \<in> set (strings_of ts)"
    using require_list_ok [OF conjunct1 [OF p]] by blast
  obtain rs where rs: "get_array ''sample_rates'' audio = Some rs" "48000 \<in> set (u32s_of rs)"
    using require_list_ok [OF conjunct1 [OF conjunct2 [OF p]]] by blast
  obtain ds where ds: "get_array ''bit_depths'' audio = Some ds" "16 \<in> set (u32s_of ds)"
    using require_list_ok [OF conjunct1 [OF conjunct2 [OF conjunct2 [OF p]]]] by blast
  obtain hs where hs: "get_array ''channels'' audio = Some hs" "2 \<in> set (u8s_of hs)"
    using require_list_ok [OF conjunct1 [OF conjunct2 [OF conjunct2 [OF conjunct2 [OF p]]]]] by blast
  obtain cs where cs: "get_array ''codecs'' audio = Some cs" "''pcm_s16le'' \<in> set (strings_of cs)"
    using require_list_ok [OF conjunct2 [OF conjunct2 [OF conjunct2 [OF conjunct2 [OF p]]]]] by blast
  let ?e1 = "e\<lparr>en_supported_transports := strings_of ts\<rparr>"
  let ?e2 = "set_bit_depths (u32s_of ds) (set_sample_rates (u32s_of rs) ?e1)"
  have e: "apply_audio audio e =
      ?e2\<lparr>en_supported_channels := u8s_of hs, en_supported_codecs := strings_of cs\<rparr>"
    unfolding apply_audio_def on_array_def Let_def ts(1) rs(1) ds(1) hs(1) cs(1) option.case by simp
  have "\<not> max_or 48000 (u32s_of rs) < 48000" "\<not> max_or 16 (u32s_of ds) < 16"
    using max_or_ge [OF rs(2)] max_or_ge [OF ds(2)] by (simp_all only: not_less)
  then show ?thesis
    unfolding streams_canonical_def unsupported_profile_def e
    using ts(2) rs(2) ds(2) hs(2) cs(2)
    by (simp add: List.member_iff set_caps_frames set_sample_rates_ok [OF rs(2)]
        set_bit_depths_ok [OF ds(2)])
qed

lemma fill_defaults_id:
  assumes "streams_canonical e"
  shows "fill_defaults e = e"
proof -
  have "en_supported_transports e \<noteq> []" "en_supported_codecs e \<noteq> []" "en_supported_channels e \<noteq> []"
    using assms by (auto simp: streams_canonical_def unsupported_profile_def List.member_iff)
  moreover have "\<not> en_max_sample_rate e < 48000" "\<not> en_max_bit_depth e < 16"
    using assms by (auto simp: streams_canonical_def unsupported_profile_def)
  then have "en_max_sample_rate e \<noteq> 0" "en_max_bit_depth e \<noteq> 0" by auto
  ultimately show ?thesis by (simp add: fill_defaults_def Let_def)
qed

lemma contract_valid_streams:
  assumes "validate_audio_capabilities info = Inr ()"
  shows "streams_canonical (update_entry_capabilities info e)"
proof -
  obtain audio where a: "ri_audio info = Some audio" "validate_audio audio = Inr ()"
    using assms by (auto simp: validate_audio_capabilities_def split: option.splits)
  note s = validated_audio_streams [OF a(2), of e]
  show ?thesis
    using s
    by (simp add: update_entry_capabilities_def a(1) fill_defaults_id [OF s] streams_canonical_def
        unsupported_profile_def Let_def split: option.split)
qed

lemma contract_valid_qualifies:
  assumes "validate_audio_capabilities info = Inr ()"
    and "e' = update_entry_capabilities info e"
    and "en_qualification e' \<noteq> IdentityMismatch" and "\<not> missing_credential e'"
    and "\<not> en_capabilities_stale e'" and "en_capabilities_verified_at e' \<noteq> None"
  shows "compute_qualification e' = Qualified"
  using contract_valid_streams [OF assms(1), of e] assms(2-)
  by (simp add: compute_qualification_def streams_canonical_def)

text \<open>The format the server streams.\<close>

definition canonical_body :: "SessionStartBody \<Rightarrow> bool" where
  "canonical_body b \<longleftrightarrow> sb_codec b = ''pcm_s16le'' \<and> sb_sample_rate b = 48000 \<and>
     sb_bit_depth b = 16 \<and> sb_channels b = 2 \<and> sb_volume b \<le> 100"

lemma canonical_not_refused:
  assumes "streams_canonical e" and "canonical_body b"
  shows "negotiation_refusal e b = None"
proof -
  have b: "sb_codec b = ''pcm_s16le''" "sb_sample_rate b = 48000" "sb_bit_depth b = 16"
    "sb_channels b = 2"
    using assms(2) by (auto simp: canonical_body_def)
  have u: "(ucast (2 :: u32) :: u8) = 2" by simp
  have "rate_refusal e 48000 = None" "depth_refusal e 16 = None" "channels_refusal e 2 = None"
    using assms(1)
    by (simp_all add: rate_refusal_def depth_refusal_def channels_refusal_def streams_canonical_def
        unsupported_profile_def u)
  moreover have "codec_refusal e ''pcm_s16le'' = None"
    using assms(1) unfolding codec_refusal_def streams_canonical_def by presburger
  ultimately show ?thesis unfolding negotiation_refusal_def b first_some.simps by simp
qed

section \<open>From capabilities to a running transport\<close>

lemma base_url_frames:
  "en_base_url (update_entry_capabilities info e) = en_base_url e"
  by (simp add: update_entry_capabilities_def fill_defaults_def apply_audio_def on_array_def
      set_sample_rates_def set_bit_depths_def Let_def split: option.splits)

lemma rt_start_succeeds:
  assumes "canonical_config c" and "re_bind R = Inr p" and "re_connect R a = Inr ()"
  shows "\<exists>h t. rt_start R c (new_rtp_transport a ssrc) = (Inr h, t) \<and> rt_target_addr t = a"
  using assms by (simp add: rt_start_def new_rtp_transport_def Let_def)

lemma client_start_succeeds:
  assumes "sb_volume b \<le> 100" and "nt_start N k (start_request N k c b g) = Answer 201 txt (Inr raw)"
    and "validate_strict (nt_uuid_ok N) raw = Inr neg"
  shows "\<exists>c'. client_session_start N k b g c = (Inr neg, c')"
  using assms by (simp add: client_session_start_def not_less)

lemma start_commit_succeeds:
  assumes v: "validate_strict ok raw = Inr neg"
    and url: "nt_url_parse N (en_base_url e) = Inr (Some host)"
    and sock: "re_bind R = Inr p" "re_connect R (target_addr host (ef_stream_port neg)) = Inr ()"
  shows "\<exists>t. start_commit N R now rid pid e neg m =
      (Inr neg, store_session now rid (session_of now rid pid (en_token e) neg) t m) \<and>
    tied (session_of now rid pid (en_token e) neg) t \<and>
    rt_target_addr t = target_addr host (ef_stream_port neg)"
proof -
  obtain h t where t: "rt_start R (transport_config neg)
      (new_rtp_transport (target_addr host (ef_stream_port neg)) (ef_ssrc neg)) = (Inr h, t)"
    "rt_target_addr t = target_addr host (ef_stream_port neg)"
    using rt_start_succeeds [OF validated_config_canonical [OF v] sock] by blast
  let ?s = "session_of now rid pid (en_token e) neg"
  have "start_commit N R now rid pid e neg m = (Inr neg, store_session now rid ?s t m)"
    by (simp add: start_commit_def start_transport_def url t(1))
  moreover have "tied ?s t"
    using rt_start_ok_fields [OF t(1)] validated_payload_type [OF v]
    by (auto simp: tied_def session_of_def)
  ultimately show ?thesis using t(2) by blast
qed

lemma start_session_succeeds:
  assumes e: "map_of (mg_registry m) rid = Some e"
    and "\<not> en_revoked e" and "streams_canonical e" and "\<not> en_authority_supported e"
    and b: "canonical_body b"
    and net: "\<And>req. nt_start N 0 req = Answer 201 txt (Inr raw)"
    and v: "validate_strict (nt_uuid_ok N) raw = Inr neg"
    and url: "nt_url_parse N (en_base_url e) = Inr (Some host)"
    and sock: "re_bind R = Inr p" "re_connect R (target_addr host (ef_stream_port neg)) = Inr ()"
  shows "\<exists>m' t. start_session N R f now rid pid b m = (Inr neg, m') \<and>
    m' = store_session now rid (session_of now rid pid (en_token e) neg) t m \<and>
    tied (session_of now rid pid (en_token e) neg) t \<and>
    rt_target_addr t = target_addr host (ef_stream_port neg)"
proof -
  have sb: "start_begin m rid b = Inr e"
    using reg_get_key [OF e] assms(2) canonical_not_refused [OF assms(3) b]
    by (simp add: start_begin_def)
  have cl: "claim_for_start N f e None m = (Inr None, m)"
    using assms(4) by (simp add: claim_for_start_def)
  have vol: "sb_volume b \<le> 100" using b by (simp add: canonical_body_def)
  let ?c = "(new_client (mg_has_identity m) (en_base_url e))\<lparr>rc_token := en_token e\<rparr>"
  obtain c' where "client_session_start N 0 b None ?c = (Inr neg, c')"
    using client_start_succeeds [OF vol net v] by blast
  then have rem: "start_remote N now rid b e None m = (Inr (neg, c'), m)"
    by (simp add: start_remote_def Let_def)
  from start_commit_succeeds [OF v url sock] obtain t where
    t: "start_commit N R now rid pid e neg m =
        (Inr neg, store_session now rid (session_of now rid pid (en_token e) neg) t m)"
      "tied (session_of now rid pid (en_token e) neg) t"
      "rt_target_addr t = target_addr host (ef_stream_port neg)"
    by blast
  have "start_session N R f now rid pid b m =
      (Inr neg, store_session now rid (session_of now rid pid (en_token e) neg) t m)"
    by (simp add: start_session_def start_session_with_authority_def sb cl rem t(1))
  then show ?thesis using t(2,3) by blast
qed

lemma store_session_handle: "mg_heartbeat_handles (store_session now rid s t m) rid \<noteq> None"
  by (simp add: store_session_def spawn_heartbeat_task_def Let_def)

section \<open>The heartbeat supervisor\<close>

definition trailing_failures ::
  "(instant \<times> (ReceiverClientError + HeartbeatResponse)) list \<Rightarrow> nat" where
  "trailing_failures ticks = length (takeWhile (\<lambda>(_, r). is_err r) (rev ticks))"

definition last_success_at ::
  "instant \<Rightarrow> (instant \<times> (ReceiverClientError + HeartbeatResponse)) list \<Rightarrow> instant" where
  "last_success_at t0 ticks =
     (case dropWhile (\<lambda>(_, r). is_err r) (rev ticks) of [] \<Rightarrow> t0 | (t, _) # _ \<Rightarrow> t)"

text \<open>What one more tick must satisfy for the session to survive it.\<close>

definition tick_survives ::
  "nat \<Rightarrow> instant \<Rightarrow> (instant \<times> (ReceiverClientError + HeartbeatResponse)) list
   \<Rightarrow> instant \<times> (ReceiverClientError + HeartbeatResponse) \<Rightarrow> bool" where
  "tick_survives lease t0 before tick =
     (case tick of (now, r) \<Rightarrow>
        (case r of
           Inr _ \<Rightarrow> True
         | Inl e \<Rightarrow> is_transient e \<and> elapsed now (last_success_at t0 before) < lease
                    \<and> trailing_failures before < 2))"

fun after_ticks ::
  "nat \<Rightarrow> (instant \<times> (ReceiverClientError + HeartbeatResponse)) list \<Rightarrow> Supervisor \<Rightarrow> Supervisor" where
  "after_ticks lease [] sv = sv"
| "after_ticks lease ((now, r) # ticks) sv =
     after_ticks lease ticks (snd (supervise_tick lease now r sv))"

lemma after_ticks_snoc:
  "after_ticks lease (ticks @ [(now, r)]) sv = snd (supervise_tick lease now r (after_ticks lease ticks sv))"
  by (induction lease ticks sv rule: after_ticks.induct) auto

lemma supervise_snoc:
  "supervise lease (ticks @ [(now, r)]) sv = None \<longleftrightarrow>
   supervise lease ticks sv = None \<and>
   fst (supervise_tick lease now r (after_ticks lease ticks sv)) = None"
proof (induction lease ticks sv rule: supervise.induct)
  case (1 lease sv)
  then show ?case by (auto split: prod.splits option.splits)
next
  case (2 lease t x ticks sv)
  show ?case
  proof (cases "supervise_tick lease t x sv")
    case (Pair loss sv')
    then show ?thesis using 2 [OF Pair [symmetric]] by (cases loss) auto
  qed
qed

lemma failure_count:
  assumes "n \<le> (2 :: nat)"
  shows "3 \<le> (of_nat n :: u32) + 1 \<longleftrightarrow> \<not> n < 2"
proof -
  consider "n = 0" | "n = 1" | "n = 2" using assms by linarith
  then show ?thesis by cases (simp_all add: word_le_nat_alt)
qed

lemma classify_survives:
  "fst (supervise_tick lease now (Inl e) sv) = None \<longleftrightarrow>
   is_transient e \<and> elapsed now (sv_last_success sv) < lease \<and> \<not> (3 \<le> sv_failures sv + 1)"
  by (cases e) (auto simp: supervise_tick_def Let_def classify_transient_def not_less)

lemma supervisor_state:
  assumes "supervise lease ticks \<lparr>sv_failures = 0, sv_last_success = t0\<rparr> = None"
  shows "trailing_failures ticks \<le> 2 \<and>
    after_ticks lease ticks \<lparr>sv_failures = 0, sv_last_success = t0\<rparr> =
      \<lparr>sv_failures = of_nat (trailing_failures ticks), sv_last_success = last_success_at t0 ticks\<rparr>"
  using assms
proof (induction ticks rule: rev_induct)
  case Nil
  then show ?case by (simp add: trailing_failures_def last_success_at_def)
next
  case (snoc x ticks)
  obtain now r where x: "x = (now, r)" by (metis surj_pair)
  note sn = snoc.prems [unfolded x supervise_snoc]
  note ih = snoc.IH [OF conjunct1 [OF sn]]
  show ?case
  proof (cases r)
    case (Inr a)
    then show ?thesis
      by (simp add: x after_ticks_snoc ih supervise_tick_def trailing_failures_def last_success_at_def)
  next
    case (Inl e)
    have "\<not> 3 \<le> (of_nat (trailing_failures ticks) :: u32) + 1"
      using conjunct2 [OF sn] ih by (simp add: Inl classify_survives)
    then have "trailing_failures ticks < 2"
      using failure_count [OF conjunct1 [OF ih]] by blast
    then show ?thesis
      using Inl by (simp add: x after_ticks_snoc ih supervise_tick_def Let_def trailing_failures_def
          last_success_at_def add.commute)
  qed
qed

lemma supervise_survives_iff:
  "supervise lease ticks \<lparr>sv_failures = 0, sv_last_success = t0\<rparr> = None \<longleftrightarrow>
   (\<forall>i < length ticks. tick_survives lease t0 (take i ticks) (ticks ! i))"
proof (induction ticks rule: rev_induct)
  case Nil
  then show ?case by simp
next
  case (snoc x ticks)
  obtain now r where x: "x = (now, r)" by (metis surj_pair)
  let ?sv = "\<lparr>sv_failures = 0, sv_last_success = t0\<rparr>"
  have step: "fst (supervise_tick lease now r (after_ticks lease ticks ?sv)) = None \<longleftrightarrow>
      tick_survives lease t0 ticks (now, r)" if alive: "supervise lease ticks ?sv = None"
  proof -
    note st = supervisor_state [OF alive]
    show ?thesis
    proof (cases r)
      case (Inr a)
      then show ?thesis by (simp add: supervise_tick_def tick_survives_def)
    next
      case (Inl e)
      have "\<not> (3 \<le> (of_nat (trailing_failures ticks) :: u32) + 1) \<longleftrightarrow> trailing_failures ticks < 2"
        using failure_count [OF conjunct1 [OF st]] by blast
      then show ?thesis
        by (simp add: Inl classify_survives conjunct2 [OF st] tick_survives_def)
    qed
  qed
  have "(\<forall>i < length (ticks @ [x]). tick_survives lease t0 (take i (ticks @ [x])) ((ticks @ [x]) ! i))
      \<longleftrightarrow> (\<forall>i < length ticks. tick_survives lease t0 (take i ticks) (ticks ! i))
          \<and> tick_survives lease t0 ticks x"
    by (auto simp: nth_append less_Suc_eq)
  then show ?case using snoc.IH step by (auto simp: x supervise_snoc)
qed

section \<open>Error paths\<close>

text \<open>A stop whose remote request fails keeps the transport: audio can still be written to it.\<close>

lemma failed_stop_keeps_transport:
  assumes "mg_active_sessions m rid = Some s" and "mg_active_transports m rid = Some t"
    and "entry_of m rid = Some e" and "\<And>req. nt_stop N req = SendFailed timeout err"
  shows "mg_active_transports (snd (stop_session N now clk rid m)) rid = Some (snd (rt_pause clk t))"
proof -
  let ?m1 = "cancel_handle rid (pause_transport clk rid (set_session_state rid Closing m))"
  have b: "stop_begin clk rid m = (Inr (e, s\<lparr>av_state := Closing\<rparr>), ?m1)"
    using assms(1,3) by (simp add: stop_begin_def Let_def michi_frame)
  have "\<exists>x. fst (client_session_stop N (session_client ?m1 e (s\<lparr>av_state := Closing\<rparr>))) = Inl x"
    by (simp add: client_session_stop_def session_client_def assms(4))
  then obtain x where "fst (client_session_stop N (session_client ?m1 e (s\<lparr>av_state := Closing\<rparr>)))
      = Inl x" ..
  then have "snd (stop_session N now clk rid m) = set_session_state rid SessionFailed ?m1"
    by (simp add: stop_session_def b stop_finish_def)
  then show ?thesis
    using assms(2) by (simp add: set_session_state_def michi_frame pause_transport_def)
qed

text \<open>\<open>revoke_device\<close> ignores the outcome of that stop.\<close>

lemma revoked_receiver_still_streams:
  assumes "mg_home m = Some (hid, pk)" and "persist (revocation_targets mid (mg_registry m)) = Inr ()"
    and "mg_registry m = [(rid, e)]" and "is_device mid e"
    and "mg_active_sessions m rid = Some s" and "mg_active_transports m rid = Some t"
    and "\<And>req. nt_stop N req = SendFailed timeout err"
  shows "\<exists>m' t'. revoke_device N issue persist now clk mid m = (Inr (issue hid), m') \<and>
    mg_active_transports m' rid = Some t' \<and> rt_socket t' = rt_socket t"
proof -
  let ?m1 = "record_revocation (issue hid) mid m"
  have "entry_of ?m1 rid \<noteq> None"
    using assms(3,4) by (simp add: record_revocation_def revoke_registry_def reg_get_def)
  then obtain e1 where e1: "entry_of ?m1 rid = Some e1" by blast
  have st: "mg_active_transports (snd (stop_session N now clk rid ?m1)) rid = Some (snd (rt_pause clk t))"
    by (rule failed_stop_keeps_transport [OF _ _ e1 assms(7)]) (simp_all add: michi_frame assms(5,6))
  have "receivers_to_stop mid (mg_registry m) = [rid]"
    using assms(3,4) by (simp add: receivers_to_stop_def)
  then have "revoke_device N issue persist now clk mid m =
      (Inr (issue hid), snd (stop_session N now clk rid ?m1))"
    by (simp add: revoke_device_def assms(1,2) stop_all_def)
  with st show ?thesis by (simp add: rt_pause_def)
qed

text \<open>An authentication that was in flight when the receiver was revoked gives it a token and the
  paired flag again.\<close>

lemma late_authentication_restores_token:
  assumes "map_of (mg_registry m) rid = Some e" and "en_revoked e"
  shows "\<exists>e'. map_of (mg_registry (snd (auth_finish now rid ctx (Inr (sess, info)) m))) rid = Some e'
    \<and> en_revoked e' \<and> en_token e' = Some (au_session_token sess) \<and> en_paired e'"
proof -
  have token: "en_token (update_entry_capabilities i x) = en_token x"
    "en_paired (update_entry_capabilities i x) = en_paired x" for i x
    by (simp_all add: update_entry_capabilities_def fill_defaults_def apply_audio_def on_array_def
        set_sample_rates_def set_bit_depths_def Let_def split: option.splits)
  let ?e = "authenticated_entry now ctx sess info e"
  have "en_token ?e = Some (au_session_token sess)" "en_paired ?e" "en_revoked ?e"
    using assms(2)
    by (simp_all add: authenticated_entry_def Let_def token capabilities_keep_revoked
        split: option.splits)
  then show ?thesis
    using assms(1)
    by (simp add: auth_finish_def michi_frame upd_registry_def map_of_reg_update)
qed

text \<open>A grant claimed for a start that the receiver then refuses stays in the table, unreleased.\<close>

lemma refused_start_keeps_grant:
  assumes "start_begin m rid b = Inr e" and "claim_for_start N f e None m = (Inr (Some g), m1)"
    and "start_remote N now rid b e (Some g) m1 = (Inl err, m2)"
  shows "start_session N R f now rid pid b m = (Inl err, m2)"
  using assms by (simp add: start_session_def start_session_with_authority_def)

text \<open>After a heartbeat was repeated with a fresh token the receiver has seen the sequence numbers
  \<open>n + 1\<close> and \<open>n + 2\<close>, the session remembers \<open>n + 1\<close>, and the next heartbeat sends \<open>n + 2\<close> again.\<close>

lemma heartbeat_requests:
  assumes "rc_active_session_id c = Some sid"
  shows "rc_heartbeat_sequence (snd (client_heartbeat N k c)) = rc_heartbeat_sequence c + 1"
    and "fst (client_heartbeat N k c) =
      (case nt_beat N k (session_request (c\<lparr>rc_heartbeat_sequence := rc_heartbeat_sequence c + 1\<rparr>)
          ''/api/v1/receiver-lite/heartbeat''
          (BodyHeartbeat sid (rc_heartbeat_sequence c + 1) (nt_now_ms N))) of
         SendFailed timeout e \<Rightarrow> Inl (if timeout then CeTimeout else CeOffline e)
       | Answer status body parsed \<Rightarrow>
           (if \<not> is_success status then Inl (from_response_parts status body)
            else case parsed of
              Inl e \<Rightarrow> Inl (CeProtocol (''heartbeat parse failed: '' @ e)) | Inr r \<Rightarrow> Inr r))"
  unfolding client_heartbeat_def assms option.case Let_def by (simp_all only: snd_conv fst_conv) simp

lemma session_remembers_one_beat:
  "mg_active_sessions m rid = Some s \<Longrightarrow>
   mg_active_sessions (beat_finish now rid m) rid =
     Some (s\<lparr>av_heartbeat_sequence := av_heartbeat_sequence s + 1, av_last_heartbeat := now\<rparr>)"
  by (simp add: beat_finish_def michi_frame)

text \<open>A receiver that announces nothing about its audio is given the canonical format.\<close>

lemma silent_receiver_gets_defaults:
  assumes "ri_audio info = None" and "ri_supported_codecs info = None"
  shows "streams_canonical (update_entry_capabilities info default_entry)"
proof -
  let ?e = "update_entry_capabilities info default_entry"
  have "en_supported_transports ?e = [''rtp_udp'']" "en_supported_codecs ?e = [''pcm_s16le'']"
    "en_supported_sample_rates ?e = [44100, 48000]" "en_supported_bit_depths ?e = [16]"
    "en_supported_channels ?e = [2]" "en_max_sample_rate ?e = 48000" "en_max_bit_depth ?e = 16"
    unfolding update_entry_capabilities_def assms option.case fill_defaults_def Let_def
    by (simp_all add: default_entry_def split: option.split)
  then show ?thesis
    unfolding streams_canonical_def unsupported_profile_def
    by (simp only: List.member_iff list.set insert_iff less_irrefl simp_thms)
qed

end
