(* ===== verification/Receiver_Properties.thy ===== *)
theory Receiver_Properties
  imports Receiver_Theorems
begin

text \<open>
  The properties of the receiver sessions, each with a witness on a small concrete manager: one
  receiver, a network that answers the session request with a valid session, and an open socket.
\<close>

section \<open>A concrete receiver\<close>

definition demo_audio :: json where
  "demo_audio = JObj
     [(''transports'', JArr [JStr ''rtp_udp'']), (''sample_rates'', JArr [JUInt 44100, JUInt 48000]),
      (''bit_depths'', JArr [JUInt 16]), (''channels'', JArr [JUInt 2]),
      (''codecs'', JArr [JStr ''pcm_s16le''])]"

definition demo_info :: ReceiverInfo where
  "demo_info =
     \<lparr>ri_service = None, ri_name = None, ri_device_id = None, ri_server_id = None, ri_id = None,
      ri_version = None, ri_api_version = None, ri_firmware = None, ri_device_type = None,
      ri_roles = None, ri_identity_scheme = None, ri_michi_id = None, ri_public_key = None,
      ri_auth = None, ri_output = None, ri_audio = Some demo_audio, ri_supported_codecs = None,
      ri_features = None\<rparr>"

definition demo_entry :: ReceiverRegistryEntry where
  "demo_entry = default_entry\<lparr>en_receiver_id := ''r1'', en_michi_id := Some ''mid1'',
     en_base_url := ''http://h'', en_paired := True, en_token := Some ''tok''\<rparr>"

definition demo_wire :: EffectiveSessionWire where
  "demo_wire =
     \<lparr>ef_transport = ''rtp_udp'', ef_codec = ''pcm_s16le'', ef_sample_rate = 48000,
      ef_bit_depth = 16, ef_channels = 2, ef_packet_ms = 10, ef_buffer_ms = 100,
      ef_payload_type = 97, ef_ssrc = 7, ef_stream_port = 50000, ef_volume = 40\<rparr>"

definition demo_answer :: SessionStartResponse where
  "demo_answer =
     \<lparr>ss_session_id = ''sid'', ss_session_token = replicate 43 (CHR ''A''), ss_lease_seconds = 30,
      ss_effective = demo_wire\<rparr>"

definition demo_net :: ReceiverNet where
  "demo_net =
     \<lparr>nt_status_text = \<lambda>_. ''status'', nt_uuid_ok = \<lambda>s. s \<noteq> [], nt_ssrc = \<lambda>_. 7, nt_now_ms = 0,
      nt_start = \<lambda>_ _. Answer 201 [] (Inr demo_answer),
      nt_beat = \<lambda>_ _. SendFailed True [], nt_volume = \<lambda>_. SendFailed True [],
      nt_pause = \<lambda>_. SendFailed True [], nt_stop = \<lambda>_. Answer 204 [] (Inr ()),
      nt_info = \<lambda>_ _. Answer 200 [] (Inr demo_info),
      nt_challenge = \<lambda>_ _. SendFailed True [], nt_session = \<lambda>_ _ _. SendFailed True [],
      nt_json = \<lambda>_. None, nt_sign = \<lambda>_ _. [], nt_verify = \<lambda>_ _ _. Inr (),
      nt_authority_info = \<lambda>_ _. Inl Unsupported, nt_authority_claim = \<lambda>_ _. Inl GrantExpired,
      nt_url_parse = \<lambda>_. Inr (Some ''h'')\<rparr>"

definition demo_manager :: Manager where
  "demo_manager =
     (new_manager True)\<lparr>mg_registry := [(''r1'', update_entry_capabilities demo_info demo_entry)],
       mg_home := Some (''home'', ''pk'')\<rparr>"

definition demo_body :: SessionStartBody where
  "demo_body =
     \<lparr>sb_codec = ''pcm_s16le'', sb_sample_rate = 48000, sb_bit_depth = 16, sb_channels = 2,
      sb_buffer_ms = 100, sb_ssrc = 0, sb_volume = 40\<rparr>"

definition demo_socket :: RtpEnv where
  "demo_socket =
     \<lparr>re_bind = Inr (Some 40000), re_connect = \<lambda>_. Inr (), re_uuid = ''t1'', re_seq = 0,
      re_timestamp = 0, re_now = \<lambda>_. 0, re_utc = \<lambda>_. 0, re_send = \<lambda>_ p. Inr (length p)\<rparr>"

lemma demo_caps_valid: "validate_audio_capabilities demo_info = Inr ()"
  by code_simp

lemma demo_answer_valid:
  "validate_strict (nt_uuid_ok demo_net) demo_answer = Inr (negotiated_of demo_answer)"
  by code_simp

lemma demo_entry_fields:
  "\<not> en_revoked demo_entry" "\<not> en_authority_supported demo_entry"
  by (simp_all add: demo_entry_def default_entry_def)

lemma demo_manager_entry:
  "map_of (mg_registry demo_manager) ''r1'' = Some (update_entry_capabilities demo_info demo_entry)"
  by (simp add: demo_manager_def new_manager_def)

lemma demo_body_canonical: "canonical_body demo_body"
  by (simp add: canonical_body_def demo_body_def)

section \<open>Properties\<close>

text \<open>C14 (from capabilities to audio). A receiver whose announced audio passes the contract check of
  pairing, whose registry entry was updated from that announcement, and which is neither revoked nor
  under an authority, is never refused by the capability negotiation; when it answers the session
  request with HTTP 201 and a session that passes the strict check, the start succeeds unless the
  socket cannot be opened, the transport is open, connected to the negotiated port, and carries the
  negotiated source and payload type, and a supervisor is registered.\<close>

theorem certified_receiver_starts:
  assumes "map_of (mg_registry m) rid = Some e" and "e = update_entry_capabilities info e0"
    and "validate_audio_capabilities info = Inr ()"
    and "\<not> en_revoked e" and "\<not> en_authority_supported e" and "canonical_body b"
    and "\<And>req. nt_start N 0 req = Answer 201 body_text (Inr raw)"
    and "validate_strict (nt_uuid_ok N) raw = Inr neg"
    and "nt_url_parse N (en_base_url e) = Inr (Some host)"
    and "re_bind R = Inr p" and "re_connect R (target_addr host (ef_stream_port neg)) = Inr ()"
  shows "\<exists>m' s t. start_session N R f now rid pid b m = (Inr neg, m') \<and>
    mg_active_sessions m' = (mg_active_sessions m)(rid \<mapsto> s) \<and>
    mg_active_transports m' = (mg_active_transports m)(rid \<mapsto> t) \<and>
    av_receiver_session_id s = ng_session_id neg \<and> av_state s = Active \<and> tied s t \<and>
    rt_target_addr t = target_addr host (ef_stream_port neg) \<and>
    mg_heartbeat_handles m' rid \<noteq> None"
proof -
  have sc: "streams_canonical e" unfolding assms(2) by (rule contract_valid_streams [OF assms(3)])
  obtain m' t where r: "start_session N R f now rid pid b m = (Inr neg, m')"
    and m': "m' = store_session now rid (session_of now rid pid (en_token e) neg) t m"
    and t: "tied (session_of now rid pid (en_token e) neg) t"
      "rt_target_addr t = target_addr host (ef_stream_port neg)"
    using start_session_succeeds [OF assms(1,4) sc assms(5-11)] by blast
  have "av_receiver_session_id (session_of now rid pid (en_token e) neg) = ng_session_id neg"
    "av_state (session_of now rid pid (en_token e) neg) = Active"
    by (simp_all add: session_of_def)
  with r t show ?thesis
    unfolding m'
    by (intro exI conjI) (assumption | rule store_session_maps store_session_handle)+
qed

lemma demo_not_revoked: "\<not> en_revoked (update_entry_capabilities demo_info demo_entry)"
  by (simp add: capabilities_keep_revoked demo_entry_fields)

lemma demo_no_authority: "\<not> en_authority_supported (update_entry_capabilities demo_info demo_entry)"
  by code_simp

theorem certified_receiver_starts_witness:
  "\<exists>m' s t. start_session demo_net demo_socket (\<lambda>_. []) 0 ''r1'' ''play'' demo_body demo_manager =
      (Inr (negotiated_of demo_answer), m') \<and>
    mg_active_sessions m' = (mg_active_sessions demo_manager)(''r1'' \<mapsto> s) \<and>
    mg_active_transports m' = (mg_active_transports demo_manager)(''r1'' \<mapsto> t) \<and>
    av_receiver_session_id s = ng_session_id (negotiated_of demo_answer) \<and> av_state s = Active \<and>
    tied s t \<and>
    rt_target_addr t = target_addr ''h'' (ef_stream_port (negotiated_of demo_answer)) \<and>
    mg_heartbeat_handles m' ''r1'' \<noteq> None"
  by (rule certified_receiver_starts [OF demo_manager_entry refl demo_caps_valid demo_not_revoked
        demo_no_authority demo_body_canonical _ demo_answer_valid, where body_text = "[]" and p = "Some 40000"])
    (simp_all only: demo_net_def demo_socket_def ReceiverNet.simps RtpEnv.simps)











text \<open>C13 (revocation). Once \<open>revoke_device\<close> has succeeded for a registered receiver, every later start
  of a session with it is refused and so is every later authentication, in every state the manager
  can reach, whatever operations were in flight, as long as no entry is added to the registry under
  the same key.\<close>

theorem revoked_receiver_is_refused:
  assumes "map_of (mg_registry m0) rid = Some e" and "is_device mid e"
    and "revoke_device N issue persist now clk mid m0 = (Inr rv, m1)"
    and "receiver_run (\<lambda>e. en_receiver_id e \<noteq> rid) (m1, P) (m, P')"
  shows "start_session N' R f now' rid pid b m = (Inl (''receiver '' @ rid @ '' is revoked''), m) \<and>
    is_err (fst (authenticate_receiver N' now' rid m))"
proof
  have "revoked_key rid m1" by (rule revoke_device_revokes [OF assms(3,1,2)])
  then have k: "revoked_key rid m" using receiver_run_revoked [OF assms(4)] by simp
  show "start_session N' R f now' rid pid b m = (Inl (''receiver '' @ rid @ '' is revoked''), m)"
    unfolding start_session_def start_session_with_authority_def revoked_key_refuses(1) [OF k] sum.case ..
  obtain err m2 where "auth_begin m rid = (Inl err, m2)"
    using revoked_key_refuses(2) [OF k] by (cases "auth_begin m rid") (auto simp: is_err_iff)
  then show "is_err (fst (authenticate_receiver N' now' rid m))"
    by (simp add: authenticate_receiver_def)
qed

definition demo_revocation :: "string \<Rightarrow> HomeRevocation" where
  "demo_revocation hid =
     \<lparr>hr_version = 1, hr_home_id = hid, hr_revoked_device = ''mid1'', hr_revoked_at = [],
      hr_reason = [], hr_signature = []\<rparr>"

lemma demo_is_device: "is_device ''mid1'' (update_entry_capabilities demo_info demo_entry)"
  by code_simp

lemma demo_revokes:
  "\<exists>rv m1. revoke_device demo_net demo_revocation (\<lambda>_. Inr ()) 0 0 ''mid1'' demo_manager = (Inr rv, m1)"
  by (simp add: revoke_device_def demo_manager_def)

theorem revoked_receiver_is_refused_witness:
  "\<exists>rv m1. revoke_device demo_net demo_revocation (\<lambda>_. Inr ()) 0 0 ''mid1'' demo_manager = (Inr rv, m1) \<and>
    start_session demo_net demo_socket (\<lambda>_. []) 0 ''r1'' ''play'' demo_body m1 =
      (Inl (''receiver '' @ ''r1'' @ '' is revoked''), m1) \<and>
    is_err (fst (authenticate_receiver demo_net 0 ''r1'' m1))"
proof -
  obtain rv m1 where r: "revoke_device demo_net demo_revocation (\<lambda>_. Inr ()) 0 0 ''mid1'' demo_manager
      = (Inr rv, m1)"
    using demo_revokes by blast
  have run: "receiver_run (\<lambda>e. en_receiver_id e \<noteq> ''r1'') (m1, []) (m1, [])"
    by (simp add: receiver_run_def)
  show ?thesis
    using r revoked_receiver_is_refused [OF demo_manager_entry demo_is_device r run] by blast
qed

text \<open>C15 (heartbeat supervisor). From the start of a session the supervisor keeps it alive through a
  sequence of heartbeats exactly when every failed one is transient (a timeout, an unreachable
  receiver, or an HTTP status of no special meaning), comes less than one lease after the last
  success, and follows at most one other failure without a success in between; so it reports the
  loss at the first other error, at the third failure in a row, or at the end of the lease.\<close>

theorem supervisor_keeps_session_iff:
  "supervise lease ticks \<lparr>sv_failures = 0, sv_last_success = t0\<rparr> = None \<longleftrightarrow>
   (\<forall>i < length ticks.
      (case snd (ticks ! i) of
         Inr _ \<Rightarrow> True
       | Inl e \<Rightarrow> is_transient e
           \<and> elapsed (fst (ticks ! i)) (last_success_at t0 (take i ticks)) < lease
           \<and> trailing_failures (take i ticks) < 2))"
  unfolding supervise_survives_iff tick_survives_def by (simp add: case_prod_beta)

definition demo_ticks :: "(instant \<times> (ReceiverClientError + HeartbeatResponse)) list" where
  "demo_ticks =
     [(from_secs 4, Inl CeTimeout),
      (from_secs 8, Inr \<lparr>hb_status = None, hb_session_id = None, hb_lease_seconds = None\<rparr>),
      (from_secs 12, Inl (CeHttp 500 [])), (from_secs 16, Inl CeTimeout)]"

lemma demo_ticks_fine:
  "\<forall>i < length demo_ticks.
     (case snd (demo_ticks ! i) of
        Inr _ \<Rightarrow> True
      | Inl e \<Rightarrow> is_transient e
          \<and> elapsed (fst (demo_ticks ! i)) (last_success_at 0 (take i demo_ticks)) < from_secs 30
          \<and> trailing_failures (take i demo_ticks) < 2)"
  by (simp add: demo_ticks_def less_Suc_eq trailing_failures_def last_success_at_def elapsed_def
      from_secs_def numeral_eq_Suc [of "num.Bit1 num.One"] nth_Cons')

theorem supervisor_keeps_session_iff_witness:
  "supervise (from_secs 30) demo_ticks \<lparr>sv_failures = 0, sv_last_success = 0\<rparr> = None"
  unfolding supervisor_keeps_session_iff by (rule demo_ticks_fine)

end
