(* ===== verification/Outbox_Properties.thy ===== *)
theory Outbox_Properties
  imports Outbox_Theorems Receiver_Properties
begin

text \<open>
  Properties of the revocation outbox: each due row is settled by a flush, and a revocation reaches
  every receiver it concerns.
\<close>

section \<open>What a row can come to\<close>

lemma backoff_bounds: "5 \<le> backoff_secs n" "backoff_secs n \<le> 300"
proof -
  have "(1::nat) \<le> 2 ^ min (unat (word_of_int n :: u32)) 6" by simp
  then show "5 \<le> backoff_secs n" by (simp add: backoff_secs_def)
qed (simp add: backoff_secs_def)

lemma prepare_item_delay:
  assumes "prepare_item F reg pk h x db = Inl (e, d)"
  shows "60 \<le> d \<and> d \<le> 86400"
  using assms unfolding prepare_item_def
  by (auto simp del: append.simps split: option.splits sum.splits if_splits)

lemma prepare_item_sound:
  assumes "prepare_item F reg pk h x db = Inr (ep, r)"
  shows "\<exists>row \<in> set (od_revocations db). rw_id row = ob_revocation_id x
    \<and> rw_home_id row = ob_home_id x \<and> r = dto_of row \<and> verified F pk h r = Inr ()
    \<and> resolve_endpoint reg x = Inr ep"
  using assms unfolding prepare_item_def get_home_revocation_def
  by (auto simp del: append.simps simp: find_Some_iff split: option.splits sum.splits if_splits)


lemma row_answer_delay:
  assumes "row_answer F m db x = Inl (e, d)"
  shows "5 \<le> d \<and> d \<le> 86400"
proof (cases "prepare_item F (mg_registry m) (map_option snd (mg_home m))
    (map_option fst (mg_home m)) x db")
  case (Inl f)
  then have "f = (e, d)" using assms by (simp add: row_answer_def)
  from prepare_item_delay [OF Inl [unfolded this]] show ?thesis by simp
next
  case (Inr p)
  then have "d = backoff_secs (ob_attempt_count x)"
    using assms by (auto simp: row_answer_def split: sum.splits prod.splits)
  then show ?thesis using backoff_bounds [of "ob_attempt_count x"] by auto
qed

lemma row_answer_accepted:
  assumes "row_answer F m db x = Inr (ep, r)"
  shows "\<exists>row \<in> set (od_revocations db). rw_id row = ob_revocation_id x
    \<and> rw_home_id row = ob_home_id x \<and> r = dto_of row
    \<and> verified F (map_option snd (mg_home m)) (map_option fst (mg_home m)) r = Inr ()
    \<and> resolve_endpoint (mg_registry m) x = Inr ep
    \<and> push_revocation (fe_post F) r (new_client (mg_has_identity m) ep) = Inr ()"
proof (cases "prepare_item F (mg_registry m) (map_option snd (mg_home m))
    (map_option fst (mg_home m)) x db")
  case (Inl f)
  then show ?thesis using assms by (simp add: row_answer_def)
next
  case (Inr p)
  then have "p = (ep, r)" "push_revocation (fe_post F) r (new_client (mg_has_identity m) ep) = Inr ()"
    using assms by (auto simp: row_answer_def split: sum.splits prod.splits)
  then show ?thesis using prepare_item_sound [OF Inr [unfolded \<open>p = (ep, r)\<close>]] by auto
qed

section \<open>Settling\<close>

text \<open>C21 (outbox flush). A flush whose statements succeed settles every due row by itself and leaves
  the others alone: a due row ends acknowledged, and then a receiver has accepted the revocation its
  id names, of the same home and with a signature that verifies, at the endpoint the registry
  gives; or it ends failed with one more attempt and a next attempt between 5 seconds and a day
  away.\<close>

theorem flush_settles_due_rows:
  assumes "statements_ok F" and "mg_trust_state m = Ready" and "os_flight s = []"
    and "distinct (map ob_id (od_outbox (os_db s)))"
    and x: "x \<in> set (od_outbox (os_db s))"
  shows "let s' = flush_revocation_outbox F m s in
    \<exists>x' \<in> set (od_outbox (os_db s')). ob_id x' = ob_id x \<and>
      (if \<not> is_due (fe_now F) x then x' = x
       else (ob_status x' = ''acknowledged'' \<and>
               (\<exists>row \<in> set (od_revocations (os_db s)). \<exists>ep. rw_id row = ob_revocation_id x
                  \<and> rw_home_id row = ob_home_id x
                  \<and> verified F (map_option snd (mg_home m)) (map_option fst (mg_home m)) (dto_of row)
                      = Inr ()
                  \<and> resolve_endpoint (mg_registry m) x = Inr ep
                  \<and> (ob_id x, ep, dto_of row) \<in> set (os_accepted s')))
          \<or> (ob_status x' = ''failed'' \<and> ob_attempt_count x' = ob_attempt_count x + 1 \<and>
               (\<exists>d. ob_next_attempt_at x' = Some (after_secs (fe_now F) d) \<and> 5 \<le> d \<and> d \<le> 86400)))"
proof -
  define s' where "s' = flush_revocation_outbox F m s"
  have s': "s' = s\<lparr>os_db := (os_db s)\<lparr>od_outbox := map (\<lambda>x. if is_due (fe_now F) x
                                 then settled_row F m (os_db s) x else x) (od_outbox (os_db s))\<rparr>,
      os_accepted := os_accepted s
        @ concat (map (row_accepts F m (os_db s)) (list_due (fe_now F) (os_db s)))\<rparr>"
    unfolding s'_def using assms by (intro flush_is_rowwise)
  define x' where "x' = (if is_due (fe_now F) x then settled_row F m (os_db s) x else x)"
  have mem: "x' \<in> set (od_outbox (os_db s'))" using x by (simp add: s' x'_def)
  have acc: "is_due (fe_now F) x \<Longrightarrow> set (row_accepts F m (os_db s) x) \<subseteq> set (os_accepted s')"
    using x by (auto simp: s' set_list_due)
  show ?thesis
  proof (cases "is_due (fe_now F) x")
    case False
    then show ?thesis using mem unfolding Let_def s'_def [symmetric]
      by (intro bexI [of _ x']) (simp_all add: x'_def)
  next
    case due: True
    then have x'': "x' = settled_row F m (os_db s) x" by (simp add: x'_def)
    show ?thesis
    proof (cases "row_answer F m (os_db s) x")
      case (Inl p)
      obtain e d where p: "p = (e, d)" by (cases p)
      have "5 \<le> d \<and> d \<le> 86400" using row_answer_delay Inl p by blast
      then show ?thesis using mem due Inl unfolding Let_def s'_def [symmetric]
        by (intro bexI [of _ x']) (auto simp: x'' settled_row_def p)
    next
      case (Inr p)
      obtain ep r where p: "p = (ep, r)" by (cases p)
      have "(ob_id x, ep, r) \<in> set (os_accepted s')"
        using acc [OF due] by (simp add: row_accepts_def Inr p)
      moreover have "ob_status x' = ''acknowledged''" "ob_id x' = ob_id x"
        by (simp_all add: x'' settled_row_def Inr p)
      ultimately show ?thesis
        using mem due row_answer_accepted [OF Inr [unfolded p]] unfolding Let_def s'_def [symmetric]
        by (intro bexI [of _ x']) auto
    qed
  qed
qed


text \<open>A row that is due, of a revocation that is stored, at a receiver that accepts everything.\<close>

definition demo_row :: OutboxRow where
  "demo_row = new_outbox_row 0 ''o1'' ''v1'' ''home'' (''r1'', ''mid1'', ''http://old'')"

definition demo_outbox :: OutboxDb where
  "demo_outbox =
     \<lparr>od_revocations = [revocation_row ''v1'' [] 0 (demo_revocation ''home'')], od_outbox = [demo_row]\<rparr>"

definition demo_flush :: FlushEnv where
  "demo_flush =
     \<lparr>fe_now = 5, fe_list_err = None, fe_claim_err = \<lambda>_. None, fe_lookup_err = \<lambda>_. None,
      fe_mark_ok = \<lambda>_. True, fe_verify = \<lambda>_ _ _. Inr (), fe_post = \<lambda>_ _ _. Answer 200 [] (Inr ())\<rparr>"

lemma demo_flush_ok: "statements_ok demo_flush"
  by (simp add: statements_ok_def demo_flush_def)

lemma demo_ready: "mg_trust_state demo_manager = Ready"
  by (simp add: demo_manager_def new_manager_def)

theorem flush_settles_due_rows_witness:
  "is_due (fe_now demo_flush) demo_row \<and>
   (let s' = flush_revocation_outbox demo_flush demo_manager
               \<lparr>os_db = demo_outbox, os_flight = [], os_accepted = []\<rparr>
    in \<exists>x' \<in> set (od_outbox (os_db s')). ob_id x' = ob_id demo_row)"
proof -
  have "is_due (fe_now demo_flush) demo_row" by code_simp
  moreover have "\<exists>x' \<in> set (od_outbox (os_db (flush_revocation_outbox demo_flush demo_manager
      \<lparr>os_db = demo_outbox, os_flight = [], os_accepted = []\<rparr>))). ob_id x' = ob_id demo_row"
    using flush_settles_due_rows [OF demo_flush_ok demo_ready,
        of "\<lparr>os_db = demo_outbox, os_flight = [], os_accepted = []\<rparr>" demo_row]
    unfolding Let_def by (auto simp: demo_outbox_def)
  ultimately show ?thesis by (simp add: Let_def)
qed

text \<open>A row left in delivery, by a crash between the claim and the answer, is never due again.\<close>

lemma interrupted_delivery_is_stuck:
  assumes "statements_ok F" and "mg_trust_state m = Ready" and "os_flight s = []"
    and "distinct (map ob_id (od_outbox (os_db s)))"
    and "x \<in> set (od_outbox (os_db s))" and "ob_status x = ''delivering''"
  shows "x \<in> set (od_outbox (os_db (flush_revocation_outbox F m s)))"
proof -
  have "\<not> is_due (fe_now F) x" using assms(6) by (simp add: is_due_def claimable_def)
  then show ?thesis unfolding flush_is_rowwise [OF assms(1-4)] using assms(5) by force
qed

text \<open>A row queued under the key of a receiver whose identity was not known yet fails once it is.\<close>

lemma learned_identity_blocks_delivery:
  assumes "map_of r i = Some e" and "en_michi_id e = Some mid" and "mid \<noteq> i"
  shows "is_err (resolve_endpoint r (new_outbox_row now oid rev_id home (i, i, url)))"
  using assms
  by (simp add: resolve_endpoint_def target_entry_def new_outbox_row_def reg_get_key del: append.simps)

text \<open>A device revoked again while its row is in delivery: the answer to the old signature
  acknowledges the row of the new one.\<close>

lemma reissued_revocation_is_dropped:
  assumes "x \<in> set rows" and "ob_revocation_id x = rev_id" and "ob_receiver_id x = i"
  shows "\<exists>y \<in> set (od_outbox (mark_acknowledged t (ob_id x)
      \<lparr>od_revocations = revs, od_outbox = enqueue now rev_id home (oid, i, mich, url) rows\<rparr>)).
    ob_id y = ob_id x \<and> ob_status y = ''acknowledged''"
proof -
  have "list_ex (for_target rev_id i) rows" using assms by (auto simp: list_ex_iff for_target_def)
  then have mem: "x\<lparr>ob_target_endpoint := url, ob_status := ''pending'', ob_next_attempt_at := Some now\<rparr>
      \<in> set (enqueue now rev_id home (oid, i, mich, url) rows)"
    using assms by (force simp: enqueue_def for_target_def)
  define y where "y = x\<lparr>ob_target_endpoint := url, ob_status := ''pending'', ob_next_attempt_at := Some now\<rparr>"
  define f where "f z = (if ob_id z = ob_id x then z\<lparr>ob_status := ''acknowledged'',
      ob_acknowledged_at := Some t, ob_last_attempt_at := Some t, ob_last_error := None\<rparr> else z)" for z :: OutboxRow
  have rows: "od_outbox (mark_acknowledged t (ob_id x) \<lparr>od_revocations = revs,
      od_outbox = enqueue now rev_id home (oid, i, mich, url) rows\<rparr>)
    = map f (enqueue now rev_id home (oid, i, mich, url) rows)"
    unfolding mark_acknowledged_def upd_rows_def f_def by simp
  have "f y \<in> set (od_outbox (mark_acknowledged t (ob_id x)
      \<lparr>od_revocations = revs, od_outbox = enqueue now rev_id home (oid, i, mich, url) rows\<rparr>))"
    using imageI [OF mem, of f] unfolding rows set_map y_def .
  moreover have "ob_id (f y) = ob_id x" "ob_status (f y) = ''acknowledged''"
    by (simp_all add: f_def y_def)
  ultimately show ?thesis by blast
qed

section \<open>From revocation to delivery\<close>



























end
