(* ===== verification/Pairing_Client.thy ===== *)
theory Pairing_Client
  imports Receiver_Sessions
begin

text \<open>
  The pairing calls of \<open>michi-receivers/src/client.rs\<close>: start, confirm, status, and the two-step
  recovery of a token, with the check of the receiver's identity before anything is signed.
\<close>

section \<open>Messages\<close>

record ErrorBody =
  eb_code :: string
  eb_message :: string

record PairStartResponse =
  sp_session_id :: "string option"
  sp_expires_at :: "string option"
  sp_server_michi_id :: "string option"
  sp_server_public_key :: "string option"
  sp_error :: "ErrorBody option"

record PairConfirmResponse =
  cp_token :: "string option"
  cp_expires_in :: "u64 option"
  cp_device_id :: "string option"
  cp_server_id :: "string option"
  cp_error :: "ErrorBody option"

record PairStatusResponse =
  st_session_id :: string
  st_status :: string

record PairRecoverStartResponse =
  rp_challenge_nonce :: string
  rp_server_michi_id :: string
  rp_server_public_key :: string

text \<open>
  The network and the cryptography of pairing: the answers to the five requests, the base64url
  decoder and the one of \<open>michi_identity\<close>, the identity derived from the bytes of a valid Ed25519 key
  (or the decoder's error), the signature of a challenge, RFC 3339. Repeated requests of the
  last kinds of one operation are numbered.
\<close>

record PairingNet =
  pn_net :: ReceiverNet
  pn_start :: "string \<Rightarrow> PairStartResponse http_answer"
  pn_confirm :: "string \<Rightarrow> string \<Rightarrow> string \<Rightarrow> PairConfirmResponse http_answer"
    \<comment> \<open>URL, session, PIN\<close>
  pn_status :: "nat \<Rightarrow> string \<Rightarrow> PairStatusResponse http_answer"
  pn_recover_start :: "nat \<Rightarrow> string \<Rightarrow> PairRecoverStartResponse http_answer"
  pn_recover :: "nat \<Rightarrow> string \<Rightarrow> string \<Rightarrow> string \<Rightarrow> PairConfirmResponse http_answer"
    \<comment> \<open>URL, nonce, signature\<close>
  pn_session_probe :: "nat \<Rightarrow> ReceiverRequest \<Rightarrow> json http_answer"
  pn_decode :: "string \<Rightarrow> string + u8 list"
  pn_decode_strict :: "string \<Rightarrow> string + u8 list"
  pn_derive :: "u8 list \<Rightarrow> string + string"
  pn_sign :: "u8 list \<Rightarrow> string"
  pn_rfc3339 :: "string \<Rightarrow> string + utc"

definition protocol_error :: "u16 \<Rightarrow> string \<Rightarrow> string \<Rightarrow> ReceiverProtocolError" where
  "protocol_error status code msg =
     \<lparr>pe_http_status = status, pe_code = code, pe_message = msg, pe_details = JNull\<rparr>"

definition no_identity :: ReceiverProtocolError where
  "no_identity =
     protocol_error 500 ''INTERNAL_ERROR'' ''IdentityManager not configured on ReceiverClient''"

section \<open>Start, confirm, status\<close>

definition pair_start :: "PairingNet \<Rightarrow> ReceiverClient \<Rightarrow> string + PairStartResponse" where
  "pair_start P c =
     (if \<not> rc_has_identity c then Inl ''IdentityManager not configured on ReceiverClient''
      else case pn_start P (rc_base_url c @ ''/api/v1/pair/start'') of
        SendFailed _ e \<Rightarrow> Inl (''pair_start request failed: '' @ e)
      | Answer status _ parsed \<Rightarrow>
          (if \<not> is_success status
           then Inl (''pair_start failed with status '' @ nt_status_text (pn_net P) status)
           else case parsed of Inl e \<Rightarrow> Inl (''pair_start parse failed: '' @ e) | Inr r \<Rightarrow> Inr r))"

definition pair_confirm ::
  "PairingNet \<Rightarrow> string \<Rightarrow> string \<Rightarrow> ReceiverClient
   \<Rightarrow> (ReceiverProtocolError + PairConfirmResponse) \<times> ReceiverClient" where
  "pair_confirm P session pin c =
     (if \<not> rc_has_identity c then (Inl no_identity, c)
      else case typed_answer (pn_net P) ''pair_confirm'' ''PAIRING_FAILED'' ''pair confirm rejected''
                  (pn_confirm P (rc_base_url c @ ''/api/v1/pair/confirm'') session pin) of
        Inl e \<Rightarrow> (Inl e, c)
      | Inr r \<Rightarrow>
          (Inr r, case cp_token r of Some t \<Rightarrow> c\<lparr>rc_token := Some t\<rparr> | None \<Rightarrow> c))"

definition pair_status ::
  "PairingNet \<Rightarrow> nat \<Rightarrow> string \<Rightarrow> ReceiverClient \<Rightarrow> ReceiverProtocolError + PairStatusResponse" where
  "pair_status P k session c =
     typed_answer (pn_net P) ''pair_status'' ''PAIR_STATUS_FAILED'' ''pair status check failed''
       (pn_status P k (rc_base_url c @ ''/api/v1/pair/status?session_id='' @ session))"

section \<open>Recovering a token\<close>

definition pair_recover_start ::
  "PairingNet \<Rightarrow> nat \<Rightarrow> ReceiverClient \<Rightarrow> ReceiverProtocolError + PairRecoverStartResponse" where
  "pair_recover_start P k c =
     (if \<not> rc_has_identity c then Inl no_identity
      else typed_answer (pn_net P) ''pair_recover_start'' ''PAIR_RECOVER_START_FAILED''
             ''pair recover start failed''
             (pn_recover_start P k (rc_base_url c @ ''/api/v1/pair/recover/start'')))"

text \<open>The identity that belongs to the announced key.\<close>

definition recover_identity :: "PairingNet \<Rightarrow> string \<Rightarrow> ReceiverProtocolError + string" where
  "recover_identity P key =
     (case pn_decode P key of
        Inl e \<Rightarrow>
          Inl (protocol_error 400 ''INVALID_SERVER_PUBLIC_KEY''
                 (''invalid base64url server_public_key: '' @ e))
      | Inr bytes \<Rightarrow>
          (if length bytes \<noteq> 32
           then Inl (protocol_error 400 ''INVALID_SERVER_PUBLIC_KEY''
                       ''server_public_key must be exactly 32 bytes'')
           else case pn_derive P bytes of
             Inl e \<Rightarrow>
               Inl (protocol_error 400 ''INVALID_SERVER_PUBLIC_KEY''
                      (''invalid Ed25519 server_public_key: '' @ e))
           | Inr d \<Rightarrow> Inr d))"

definition mismatch :: "string \<Rightarrow> string \<Rightarrow> string \<Rightarrow> string \<Rightarrow> ReceiverProtocolError" where
  "mismatch what got expected_text expected =
     protocol_error 400 ''IDENTITY_MISMATCH''
       (what @ '' '' @ quoted got @ '' does not match '' @ expected_text @ '' '' @ quoted expected)"

definition challenge_ok :: "PairingNet \<Rightarrow> string \<Rightarrow> ReceiverProtocolError + unit" where
  "challenge_ok P nonce =
     (case pn_decode P nonce of
        Inl e \<Rightarrow>
          Inl (protocol_error 400 ''INVALID_CHALLENGE'' (''invalid base64url challenge nonce: '' @ e))
      | Inr bytes \<Rightarrow>
          (if length bytes < 16
           then Inl (protocol_error 400 ''INVALID_CHALLENGE''
                       ''challenge_nonce must be at least 16 bytes'')
           else Inr ()))"

definition validate_recover_start_identity ::
  "PairingNet \<Rightarrow> PairRecoverStartResponse \<Rightarrow> string option \<Rightarrow> string option
   \<Rightarrow> ReceiverProtocolError + unit" where
  "validate_recover_start_identity P r expected_id expected_key =
     (case recover_identity P (rp_server_public_key r) of
        Inl e \<Rightarrow> Inl e
      | Inr derived \<Rightarrow>
          (if rp_server_michi_id r \<noteq> derived
             then Inl (mismatch ''server_michi_id'' (rp_server_michi_id r) ''derived identity'' derived)
           else if expected_id \<noteq> None \<and> expected_id \<noteq> Some (rp_server_michi_id r)
             then Inl (mismatch ''server_michi_id'' (rp_server_michi_id r) ''expected'' (the expected_id))
           else if expected_key \<noteq> None \<and> expected_key \<noteq> Some (rp_server_public_key r)
             then Inl (mismatch ''server_public_key'' (rp_server_public_key r) ''expected''
                         (the expected_key))
           else challenge_ok P (rp_challenge_nonce r)))"

text \<open>An unsuccessful answer without an error object has a code of its own here.\<close>

definition recover_answer ::
  "PairingNet \<Rightarrow> PairConfirmResponse http_answer \<Rightarrow> ReceiverProtocolError + PairConfirmResponse" where
  "recover_answer P ans =
     (case ans of
        Answer status body _ \<Rightarrow>
          (if \<not> is_success status \<and> Option.bind (nt_json (pn_net P) body) (json_get ''error'') = None
           then Inl (protocol_error status ''PAIR_RECOVER_FAILED''
                       (''pair_recover failed with status '' @ nt_status_text (pn_net P) status))
           else typed_answer (pn_net P) ''pair_recover'' ''PAIRING_FAILED'' ''pair recover rejected'' ans)
      | SendFailed _ _ \<Rightarrow>
          typed_answer (pn_net P) ''pair_recover'' ''PAIRING_FAILED'' ''pair recover rejected'' ans)"

definition present :: "string option \<Rightarrow> bool" where
  "present s \<longleftrightarrow> (case s of Some t \<Rightarrow> trim t \<noteq> [] | None \<Rightarrow> False)"

definition recover_violation :: "PairConfirmResponse \<Rightarrow> string option" where
  "recover_violation r =
     (if \<not> present (cp_token r) then Some ''recover response missing or empty token''
      else if cp_expires_in r = None then Some ''recover response missing expires_in''
      else if \<not> present (cp_device_id r) then Some ''recover response missing or empty device_id''
      else if \<not> present (cp_server_id r) then Some ''recover response missing or empty server_id''
      else None)"

definition pair_recover ::
  "PairingNet \<Rightarrow> nat \<Rightarrow> string \<Rightarrow> ReceiverClient
   \<Rightarrow> (ReceiverProtocolError + PairConfirmResponse) \<times> ReceiverClient" where
  "pair_recover P k nonce c =
     (if \<not> rc_has_identity c then (Inl no_identity, c)
      else case pn_decode P nonce of
        Inl e \<Rightarrow>
          (Inl (protocol_error 400 ''INVALID_CHALLENGE''
                  (''invalid base64url challenge nonce: '' @ e)), c)
      | Inr bytes \<Rightarrow>
          (case recover_answer P (pn_recover P k (rc_base_url c @ ''/api/v1/pair/recover'') nonce
                                    (pn_sign P bytes)) of
             Inl e \<Rightarrow> (Inl e, c)
           | Inr r \<Rightarrow>
               (case recover_violation r of
                  Some v \<Rightarrow> (Inl (protocol_error 500 ''CONTRACT_VIOLATION'' v), c)
                | None \<Rightarrow> (Inr r, c\<lparr>rc_token := cp_token r\<rparr>))))"

definition pair_recover_auto ::
  "PairingNet \<Rightarrow> nat \<Rightarrow> string option \<Rightarrow> string option \<Rightarrow> ReceiverClient
   \<Rightarrow> (ReceiverProtocolError + PairConfirmResponse) \<times> ReceiverClient" where
  "pair_recover_auto P k expected_id expected_key c =
     (case pair_recover_start P k c of
        Inl e \<Rightarrow> (Inl e, c)
      | Inr r \<Rightarrow>
          (case validate_recover_start_identity P r expected_id expected_key of
             Inl e \<Rightarrow> (Inl e, c)
           | Inr _ \<Rightarrow> pair_recover P k (rp_challenge_nonce r) c))"

text \<open>
  Whether the receiver accepts the current token: an active session or none means yes, unauthorized
  or forbidden means no.
\<close>

definition verify_token :: "PairingNet \<Rightarrow> nat \<Rightarrow> ReceiverClient \<Rightarrow> ReceiverProtocolError + bool" where
  "verify_token P k c =
     (case pn_session_probe P k (session_request c ''/api/v1/receiver-lite/session'' BodyNone) of
        SendFailed _ e \<Rightarrow>
          Inl (protocol_error 503 ''NETWORK_ERROR'' (''token verification request failed: '' @ e))
      | Answer status _ _ \<Rightarrow>
          (if status = 401 \<or> status = 403 then Inr False
           else if status = 200 \<or> status = 404 then Inr True
           else Inl (protocol_error status ''TOKEN_VERIFICATION_FAILED''
                       (''unexpected status '' @ show_word status
                        @ '' during token verification''))))"

end
