(* ===== verification/Scent_Store.thy ===== *)
theory Scent_Store
  imports Rust_Strings "HOL-Library.AList"
begin

text \<open>
  \<open>michi-connect/src/scent_store.rs\<close>: the presence of peers, from signed announcements and from mDNS
  candidates, with its expiry. Each operation returns the events it sends; the map of records is
  kept as its list of entries in iteration order. Socket addresses and URLs are their texts.
\<close>

section \<open>Records and events\<close>

definition scent_expiry_timeout :: nat where
  "scent_expiry_timeout = from_secs 90"

datatype ScentPresenceSource = WhiskerSigned | MdnsProvisional

record VerifiedServerInfo =
  vi_michi_id :: string
  vi_device_id :: string
  vi_name :: string
  vi_service :: string
  vi_roles :: "string list"

record ScentRecord =
  sr_michi_id :: string
  sr_device_id :: string
  sr_name :: string
  sr_service :: string
  sr_roles :: "string list"
  sr_verified :: bool
  sr_source :: ScentPresenceSource
  sr_endpoints :: "string list"
  sr_base_url :: "string option"
  sr_last_signed_seen :: "instant option"
  sr_last_mdns_seen :: "instant option"
  sr_server_info_verified_at :: "instant option"
  sr_online :: bool
  sr_michi_home_id :: "string option"
  sr_membership_fingerprint :: "string option"

datatype EffectivePresence = EffVerifiedOnline | EffProvisionalMdns | EffOffline

text \<open>\<open>duration_since\<close> of a later instant is zero.\<close>

definition seen_recently :: "instant option \<Rightarrow> instant \<Rightarrow> bool" where
  "seen_recently seen now =
     (case seen of Some t \<Rightarrow> now - t < scent_expiry_timeout | None \<Rightarrow> False)"

definition is_signed_fresh :: "ScentRecord \<Rightarrow> instant \<Rightarrow> bool" where
  "is_signed_fresh r now = seen_recently (sr_last_signed_seen r) now"

definition is_mdns_fresh :: "ScentRecord \<Rightarrow> instant \<Rightarrow> bool" where
  "is_mdns_fresh r now = seen_recently (sr_last_mdns_seen r) now"

definition effective_presence :: "ScentRecord \<Rightarrow> instant \<Rightarrow> EffectivePresence" where
  "effective_presence r now =
     (if is_signed_fresh r now then EffVerifiedOnline
      else if is_mdns_fresh r now then EffProvisionalMdns
      else EffOffline)"

datatype ScentEvent =
    Discovered ScentRecord
  | Updated ScentRecord
  | EndpointChanged string "string option" string ScentPresenceSource bool
    \<comment> \<open>Michi id, old and new URL, source, verified\<close>
  | PeerOffline string

type_synonym scent_store = "(string \<times> ScentRecord) list"

section \<open>Observations\<close>

definition add_endpoint :: "string option \<Rightarrow> string list \<Rightarrow> string list" where
  "add_endpoint src eps =
     (case src of Some s \<Rightarrow> (if List.member eps s then eps else eps @ [s]) | None \<Rightarrow> eps)"

definition signed_refresh ::
  "VerifiedServerInfo \<Rightarrow> string option \<Rightarrow> instant \<Rightarrow> string option \<Rightarrow> string option
   \<Rightarrow> ScentRecord \<Rightarrow> ScentRecord" where
  "signed_refresh i src now home fp r =
     r\<lparr>sr_last_signed_seen := Some now, sr_source := WhiskerSigned, sr_online := True,
       sr_verified := True, sr_device_id := vi_device_id i, sr_name := vi_name i,
       sr_service := vi_service i, sr_roles := vi_roles i, sr_michi_home_id := home,
       sr_membership_fingerprint := fp, sr_endpoints := add_endpoint src (sr_endpoints r)\<rparr>"

definition signed_record ::
  "VerifiedServerInfo \<Rightarrow> string option \<Rightarrow> instant \<Rightarrow> string option \<Rightarrow> string option \<Rightarrow> ScentRecord"
where
  "signed_record i src now home fp =
     \<lparr>sr_michi_id = vi_michi_id i, sr_device_id = vi_device_id i, sr_name = vi_name i,
      sr_service = vi_service i, sr_roles = vi_roles i, sr_verified = True,
      sr_source = WhiskerSigned, sr_endpoints = add_endpoint src [], sr_base_url = None,
      sr_last_signed_seen = Some now, sr_last_mdns_seen = None,
      sr_server_info_verified_at = None, sr_online = True, sr_michi_home_id = home,
      sr_membership_fingerprint = fp\<rparr>"

definition observe_signed_with_home ::
  "VerifiedServerInfo \<Rightarrow> string option \<Rightarrow> instant \<Rightarrow> string option \<Rightarrow> string option \<Rightarrow> scent_store
   \<Rightarrow> scent_store \<times> ScentEvent list" where
  "observe_signed_with_home i src now home fp st =
     (case map_of st (vi_michi_id i) of
        Some r \<Rightarrow>
          (let r' = signed_refresh i src now home fp r
           in (AList.update (vi_michi_id i) r' st,
               [if sr_online r then Updated r' else Discovered r']))
      | None \<Rightarrow>
          (let r' = signed_record i src now home fp
           in (AList.update (vi_michi_id i) r' st, [Discovered r'])))"

definition observe_signed ::
  "VerifiedServerInfo \<Rightarrow> string option \<Rightarrow> instant \<Rightarrow> scent_store \<Rightarrow> scent_store \<times> ScentEvent list"
where
  "observe_signed i src now = observe_signed_with_home i src now None None"

text \<open>Without a fresh signed announcement an mDNS candidate takes verification away and sets the
  description; the endpoint is taken over in both cases.\<close>

definition mdns_refresh ::
  "VerifiedServerInfo \<Rightarrow> string \<Rightarrow> string option \<Rightarrow> instant \<Rightarrow> ScentRecord \<Rightarrow> ScentRecord" where
  "mdns_refresh i url src now r =
     (let r = r\<lparr>sr_last_mdns_seen := Some now, sr_server_info_verified_at := Some now,
                sr_online := True\<rparr>;
          r = (if is_signed_fresh r now then r\<lparr>sr_source := WhiskerSigned, sr_verified := True\<rparr>
               else r\<lparr>sr_source := MdnsProvisional, sr_verified := False,
                      sr_device_id := vi_device_id i, sr_name := vi_name i,
                      sr_service := vi_service i, sr_roles := vi_roles i\<rparr>)
      in r\<lparr>sr_endpoints := add_endpoint src (sr_endpoints r), sr_base_url := Some url\<rparr>)"

definition mdns_record ::
  "VerifiedServerInfo \<Rightarrow> string \<Rightarrow> string option \<Rightarrow> instant \<Rightarrow> ScentRecord" where
  "mdns_record i url src now =
     \<lparr>sr_michi_id = vi_michi_id i, sr_device_id = vi_device_id i, sr_name = vi_name i,
      sr_service = vi_service i, sr_roles = vi_roles i, sr_verified = False,
      sr_source = MdnsProvisional, sr_endpoints = add_endpoint src [], sr_base_url = Some url,
      sr_last_signed_seen = None, sr_last_mdns_seen = Some now,
      sr_server_info_verified_at = Some now, sr_online = True, sr_michi_home_id = None,
      sr_membership_fingerprint = None\<rparr>"

definition observe_mdns_candidate ::
  "VerifiedServerInfo \<Rightarrow> string \<Rightarrow> string option \<Rightarrow> instant \<Rightarrow> scent_store
   \<Rightarrow> scent_store \<times> ScentEvent list" where
  "observe_mdns_candidate i url src now st =
     (case map_of st (vi_michi_id i) of
        Some r \<Rightarrow>
          (let r' = mdns_refresh i url src now r
           in (AList.update (vi_michi_id i) r' st,
               [if \<not> sr_online r then Discovered r'
                else if sr_base_url r \<noteq> Some url
                  then EndpointChanged (vi_michi_id i) (sr_base_url r) url (sr_source r') (sr_verified r')
                else Updated r']))
      | None \<Rightarrow>
          (let r' = mdns_record i url src now
           in (AList.update (vi_michi_id i) r' st, [Discovered r'])))"

definition update_base_url ::
  "string \<Rightarrow> string \<Rightarrow> string option \<Rightarrow> instant \<Rightarrow> scent_store \<Rightarrow> scent_store \<times> ScentEvent list" where
  "update_base_url mid url src now st =
     (case map_of st mid of
        None \<Rightarrow> (st, [])
      | Some r \<Rightarrow>
          (let r' = r\<lparr>sr_last_mdns_seen := Some now\<rparr>;
               r' = (if is_signed_fresh r' now then r'
                     else r'\<lparr>sr_source := MdnsProvisional, sr_verified := False\<rparr>);
               r' = r'\<lparr>sr_endpoints := add_endpoint src (sr_endpoints r'), sr_base_url := Some url\<rparr>
           in (AList.update mid r' st,
               if sr_base_url r \<noteq> Some url
               then [EndpointChanged mid (sr_base_url r) url (sr_source r') (sr_verified r')] else [])))"

definition mark_server_info_verified :: "string \<Rightarrow> instant \<Rightarrow> scent_store \<Rightarrow> scent_store" where
  "mark_server_info_verified mid now st =
     (case map_of st mid of
        None \<Rightarrow> st
      | Some r \<Rightarrow> AList.update mid (r\<lparr>sr_server_info_verified_at := Some now\<rparr>) st)"

section \<open>Expiry and queries\<close>

definition expire_record :: "instant \<Rightarrow> string \<times> ScentRecord \<Rightarrow> ScentRecord \<times> ScentEvent option" where
  "expire_record now = (\<lambda>(k, r).
     if \<not> sr_online r then (r, None)
     else case effective_presence r now of
       EffVerifiedOnline \<Rightarrow> (r, None)
     | EffProvisionalMdns \<Rightarrow>
         (if sr_source r \<noteq> MdnsProvisional \<or> sr_verified r
          then (let r' = r\<lparr>sr_source := MdnsProvisional, sr_verified := False, sr_online := True\<rparr>
                in (r', Some (Updated r')))
          else (r, None))
     | EffOffline \<Rightarrow> (r\<lparr>sr_online := False, sr_verified := False\<rparr>, Some (PeerOffline k)))"

definition scent_check_expirations :: "instant \<Rightarrow> scent_store \<Rightarrow> scent_store \<times> ScentEvent list" where
  "scent_check_expirations now st =
     (map (\<lambda>x. (fst x, fst (expire_record now x))) st,
      List.map_filter (\<lambda>x. snd (expire_record now x)) st)"

definition scent_get :: "scent_store \<Rightarrow> string \<Rightarrow> ScentRecord option" where
  "scent_get st mid = map_of st mid"

definition scent_list :: "scent_store \<Rightarrow> ScentRecord list" where
  "scent_list st = map snd st"

definition list_active_at :: "instant \<Rightarrow> scent_store \<Rightarrow> ScentRecord list" where
  "list_active_at now st = filter (\<lambda>r. effective_presence r now \<noteq> EffOffline) (scent_list st)"

definition list_signed_verified_at :: "instant \<Rightarrow> scent_store \<Rightarrow> ScentRecord list" where
  "list_signed_verified_at now st =
     filter (\<lambda>r. effective_presence r now = EffVerifiedOnline) (scent_list st)"

end
