(* ===== verification/Receiver_Pairing.thy ===== *)
theory Receiver_Pairing
  imports Pairing_Client Scent_Store
begin

text \<open>
  Pairing a receiver: \<open>start_pairing_ext\<close> and \<open>confirm_pairing\<close> of
  \<open>michi-receivers/src/session_manager.rs\<close> with the statements on the table
  \<open>receiver_pairing_journal\<close> of \<open>michi-db/src/lib.rs\<close>. A failed journal statement is ignored, as in
  the code. The clock readings of one operation are numbered.
\<close>

section \<open>State\<close>

record PendingReceiverPairing =
  pd_pairing_id :: string
  pd_base_url :: string
  pd_info :: ReceiverInfo
  pd_pair_session_id :: string
  pd_initiator_id :: string
  pd_created_at :: utc
  pd_expires_at :: utc
  pd_server_michi_id :: "string option"
  pd_server_public_key :: "string option"
  pd_expected_server_id :: string
  pd_expected_michi_id :: string
  pd_expected_public_key :: string

record PairingJournalEntry =
  pj_pairing_id :: string
  pj_receiver_id :: string
  pj_base_url :: string
  pj_michi_id :: string
  pj_remote_session_id :: "string option"
  pj_token_ciphertext :: "u8 list option"
  pj_token_nonce :: "u8 list option"
  pj_state :: string
  pj_error_reason :: "string option"
  pj_created_at :: utc
  pj_updated_at :: utc

record PairingState =
  ps_manager :: Manager
  ps_pending :: "string \<rightharpoonup> PendingReceiverPairing"
  ps_journal :: "PairingJournalEntry list"

record PairingEnv =
  pv_net :: PairingNet
  pv_clock :: "nat \<Rightarrow> utc"
  pv_uuid :: "string \<Rightarrow> string + unit"
    \<comment> \<open>\<open>Uuid::parse_str\<close>\<close>
  pv_pairing_id :: string
    \<comment> \<open>the UUID drawn for a new pairing\<close>
  pv_has_pool :: bool
  pv_has_store :: bool
  pv_journal_ok :: "string \<Rightarrow> bool"
    \<comment> \<open>whether the statement that writes this journal state succeeds\<close>
  pv_encrypt :: "string \<Rightarrow> string \<Rightarrow> string + u8 list \<times> u8 list"
    \<comment> \<open>receiver and token to ciphertext and nonce\<close>
  pv_scent :: "string \<Rightarrow> EffectivePresence option"
    \<comment> \<open>effective presence in the scent store, if there is a store and a record\<close>

section \<open>The journal\<close>

definition upd_journal ::
  "string \<Rightarrow> (PairingJournalEntry \<Rightarrow> PairingJournalEntry) \<Rightarrow> PairingJournalEntry list
   \<Rightarrow> PairingJournalEntry list" where
  "upd_journal pid f js = map (\<lambda>j. if pj_pairing_id j = pid then f j else j) js"

definition journal_start ::
  "utc \<Rightarrow> string \<Rightarrow> string \<Rightarrow> string \<Rightarrow> string \<Rightarrow> string option \<Rightarrow> PairingJournalEntry list
   \<Rightarrow> PairingJournalEntry list" where
  "journal_start now pid rid url mid session js =
     (if list_ex (\<lambda>j. pj_pairing_id j = pid) js
      then upd_journal pid (\<lambda>j. j\<lparr>pj_receiver_id := rid, pj_base_url := url, pj_michi_id := mid,
                                  pj_remote_session_id := session, pj_updated_at := now\<rparr>) js
      else js @ [\<lparr>pj_pairing_id = pid, pj_receiver_id = rid, pj_base_url = url, pj_michi_id = mid,
                  pj_remote_session_id = session, pj_token_ciphertext = None,
                  pj_token_nonce = None, pj_state = ''started'', pj_error_reason = None,
                  pj_created_at = now, pj_updated_at = now\<rparr>])"

definition journal_confirm_sent ::
  "utc \<Rightarrow> string \<Rightarrow> PairingJournalEntry list \<Rightarrow> PairingJournalEntry list" where
  "journal_confirm_sent now pid =
     upd_journal pid (\<lambda>j. j\<lparr>pj_state := ''confirm_sent'', pj_updated_at := now\<rparr>)"

definition journal_outcome_unknown ::
  "utc \<Rightarrow> string \<Rightarrow> string \<Rightarrow> PairingJournalEntry list \<Rightarrow> PairingJournalEntry list" where
  "journal_outcome_unknown now pid reason =
     upd_journal pid (\<lambda>j. j\<lparr>pj_state := ''remote_outcome_unknown'', pj_error_reason := Some reason,
                            pj_updated_at := now\<rparr>)"

definition journal_token_received ::
  "utc \<Rightarrow> string \<Rightarrow> u8 list \<Rightarrow> u8 list \<Rightarrow> PairingJournalEntry list \<Rightarrow> PairingJournalEntry list"
where
  "journal_token_received now pid ct nonce =
     upd_journal pid (\<lambda>j. j\<lparr>pj_state := ''token_received'', pj_token_ciphertext := Some ct,
                            pj_token_nonce := Some nonce, pj_updated_at := now\<rparr>)"

definition journal_completed ::
  "utc \<Rightarrow> string \<Rightarrow> PairingJournalEntry list \<Rightarrow> PairingJournalEntry list" where
  "journal_completed now pid =
     upd_journal pid (\<lambda>j. j\<lparr>pj_state := ''persisted'', pj_updated_at := now\<rparr>)"

definition journal_failed ::
  "utc \<Rightarrow> string \<Rightarrow> string \<Rightarrow> PairingJournalEntry list \<Rightarrow> PairingJournalEntry list" where
  "journal_failed now pid reason =
     upd_journal pid (\<lambda>j. j\<lparr>pj_state := ''failed'', pj_error_reason := Some reason,
                            pj_updated_at := now\<rparr>)"

definition journal_recovery_required ::
  "utc \<Rightarrow> string \<Rightarrow> string \<Rightarrow> PairingJournalEntry list \<Rightarrow> PairingJournalEntry list" where
  "journal_recovery_required now pid reason =
     upd_journal pid (\<lambda>j. j\<lparr>pj_state := ''recovery_required'', pj_error_reason := Some reason,
                            pj_updated_at := now\<rparr>)"

definition get_journal :: "string \<Rightarrow> PairingJournalEntry list \<Rightarrow> PairingJournalEntry option" where
  "get_journal pid js = List.find (\<lambda>j. pj_pairing_id j = pid) js"

definition unrecovered :: "PairingJournalEntry \<Rightarrow> bool" where
  "unrecovered j \<longleftrightarrow>
     pj_state j = ''confirm_sent'' \<or> pj_state j = ''remote_outcome_unknown''
     \<or> pj_state j = ''token_received'' \<or> pj_state j = ''recovery_required''"

definition list_unrecovered :: "PairingJournalEntry list \<Rightarrow> PairingJournalEntry list" where
  "list_unrecovered js = sort_key pj_created_at (filter unrecovered js)"

text \<open>A write of the manager to the journal: nothing happens without a pool, a failure is ignored.\<close>

definition jwrite ::
  "PairingEnv \<Rightarrow> string \<Rightarrow> (PairingJournalEntry list \<Rightarrow> PairingJournalEntry list)
   \<Rightarrow> PairingState \<Rightarrow> PairingState" where
  "jwrite V state f s =
     (if pv_has_pool V \<and> pv_journal_ok V state then s\<lparr>ps_journal := f (ps_journal s)\<rparr> else s)"

section \<open>The contract of a receiver\<close>

definition given :: "string option \<Rightarrow> string option" where
  "given s =
     (case s of Some t \<Rightarrow> (if trim t = [] then None else Some (trim t)) | None \<Rightarrow> None)"

definition violation :: "string \<Rightarrow> string" where
  "violation what = ''CONTRACT_VIOLATION: '' @ what"

definition required :: "string \<Rightarrow> string option \<Rightarrow> string + string" where
  "required what s = (case given s of Some t \<Rightarrow> Inr t | None \<Rightarrow> Inl (violation what))"

definition guard_that :: "bool \<Rightarrow> string \<Rightarrow> string + unit" where
  "guard_that b msg = (if b then Inr () else Inl msg)"

definition uuid_checked :: "PairingEnv \<Rightarrow> string \<Rightarrow> string + unit" where
  "uuid_checked V s =
     (case pv_uuid V s of
        Inl e \<Rightarrow> Inl (violation (''server_id must be a valid canonical UUID: '' @ e))
      | Inr _ \<Rightarrow> Inr ())"

text \<open>The identity of a public key; \<open>name\<close> and \<open>kind\<close> are the words of the error texts.\<close>

definition key_identity :: "PairingNet \<Rightarrow> string \<Rightarrow> string \<Rightarrow> string \<Rightarrow> string + string" where
  "key_identity P name kind key =
     (case pn_decode_strict P key of
        Inl e \<Rightarrow> Inl (violation (''invalid '' @ name @ '' base64url: '' @ e))
      | Inr bytes \<Rightarrow>
          (if length bytes \<noteq> 32 then Inl (violation (name @ '' must be exactly 32 bytes''))
           else case pn_derive P bytes of
             Inl e \<Rightarrow> Inl (violation (''invalid Ed25519 '' @ kind @ ''public key: '' @ e))
           | Inr d \<Rightarrow> Inr d))"

definition scheme_ok :: "ReceiverInfo \<Rightarrow> string + unit" where
  "scheme_ok info =
     (case required ''identity_scheme is required in receiver info'' (ri_identity_scheme info) of
        Inl e \<Rightarrow> Inl e
      | Inr x \<Rightarrow>
          guard_that (x = ''ed25519-blake3-v1'')
            (violation (''identity_scheme must be '' @ quoted ''ed25519-blake3-v1'' @ '', got ''
                        @ quoted x)))"

definition service_ok :: "ReceiverInfo \<Rightarrow> string + unit" where
  "service_ok info =
     (case required ''service is required in receiver info'' (ri_service info) of
        Inl e \<Rightarrow> Inl e
      | Inr x \<Rightarrow>
          guard_that (x = ''michi-stream-standard'' \<or> x = ''michi-stream-hifi'')
            (violation (''unsupported receiver service '' @ quoted x @ '', expected ''
                        @ quoted ''michi-stream-standard'' @ '' or '' @ quoted ''michi-stream-hifi'')))"

definition api_version_ok :: "ReceiverInfo \<Rightarrow> string + unit" where
  "api_version_ok info =
     (case required ''api_version is required in receiver info'' (ri_api_version info) of
        Inl e \<Rightarrow> Inl e
      | Inr x \<Rightarrow>
          guard_that (x = ''v1-lite'')
            (violation (''unsupported api_version '' @ quoted x @ '', expected '' @ quoted ''v1-lite'')))"

definition roles_ok :: "ReceiverInfo \<Rightarrow> string + unit" where
  "roles_ok info =
     (case ri_roles info of
        None \<Rightarrow> Inl (violation ''roles is required in receiver info'')
      | Some rs \<Rightarrow>
          guard_that (list_ex (\<lambda>r. trim r = ''audio_receiver'') rs)
            (violation (''roles must contain '' @ quoted ''audio_receiver'')))"

text \<open>Server id, Michi id and public key of a receiver that fulfils the whole contract.\<close>

definition contract_identity ::
  "PairingEnv \<Rightarrow> ReceiverInfo \<Rightarrow> string + string \<times> string \<times> string" where
  "contract_identity V info =
     (case required ''server_id is required and non-empty in receiver info'' (ri_server_id info) of
        Inl e \<Rightarrow> Inl e
      | Inr sid \<Rightarrow>
     (case uuid_checked V sid of
        Inl e \<Rightarrow> Inl e
      | Inr _ \<Rightarrow>
     (case required ''michi_id is required and non-empty in receiver info'' (ri_michi_id info) of
        Inl e \<Rightarrow> Inl e
      | Inr mid \<Rightarrow>
     (case required ''public_key is required and non-empty in receiver info'' (ri_public_key info) of
        Inl e \<Rightarrow> Inl e
      | Inr key \<Rightarrow>
     (case key_identity (pv_net V) ''public_key'' [] key of
        Inl e \<Rightarrow> Inl e
      | Inr derived \<Rightarrow>
     (case and_then
        (guard_that (mid = derived)
           (violation (''michi_id '' @ quoted mid @ '' does not match derived public_key identity ''
                       @ quoted derived)))
        (and_then (scheme_ok info) (and_then (service_ok info) (and_then (api_version_ok info)
          (and_then (roles_ok info) (validate_audio_capabilities info))))) of
        Inl e \<Rightarrow> Inl e
      | Inr _ \<Rightarrow> Inr (sid, mid, key)))))))"

definition pairable :: "registry \<Rightarrow> string \<Rightarrow> string \<Rightarrow> bool \<Rightarrow> string + unit" where
  "pairable r mid sid allow_re_pair =
     (case (case reg_get r mid of Some e \<Rightarrow> Some e | None \<Rightarrow> reg_get r sid) of
        None \<Rightarrow> Inr ()
      | Some e \<Rightarrow>
          (if en_qualification e = IdentityMismatch
             then Inl ''IDENTITY_MISMATCH: pairing blocked due to identity conflict''
           else guard_that (\<not> (en_paired e \<and> \<not> allow_re_pair))
                  ''ALREADY_PAIRED: receiver is already paired''))"

section \<open>Starting\<close>

definition start_session_id :: "PairStartResponse \<Rightarrow> string + string" where
  "start_session_id r =
     (case sp_session_id r of
        Some i \<Rightarrow> Inr i
      | None \<Rightarrow>
          (case sp_error r of
             Some e \<Rightarrow> Inl (''pair_start failed: '' @ eb_code e @ '': '' @ eb_message e)
           | None \<Rightarrow>
               Inl ''INVALID_RECEIVER_RESPONSE: session_id is required in pair_start response''))"

definition start_expiry :: "PairingNet \<Rightarrow> PairStartResponse \<Rightarrow> string + utc" where
  "start_expiry P r =
     (case sp_expires_at r of
        None \<Rightarrow> Inl ''INVALID_RECEIVER_RESPONSE: expires_at is required in pair_start response''
      | Some x \<Rightarrow>
          (case pn_rfc3339 P x of
             Inl e \<Rightarrow>
               Inl (''INVALID_RECEIVER_RESPONSE: invalid RFC3339 expires_at '' @ quoted x @ '': '' @ e)
           | Inr t \<Rightarrow> Inr t))"

text \<open>The answer to the start request names the identity the information announced.\<close>

definition start_identity :: "PairingNet \<Rightarrow> string \<Rightarrow> string \<Rightarrow> PairStartResponse \<Rightarrow> string + unit"
where
  "start_identity P mid key r =
     (case sp_server_michi_id r of
        None \<Rightarrow> Inl (violation ''server_michi_id is required in pair_start response'')
      | Some m \<Rightarrow>
     (case sp_server_public_key r of
        None \<Rightarrow> Inl (violation ''server_public_key is required in pair_start response'')
      | Some k \<Rightarrow>
          (if m \<noteq> mid
             then Inl (violation (''pair_start server_michi_id '' @ quoted m
                         @ '' does not match server/info michi_id '' @ quoted mid))
           else if k \<noteq> key
             then Inl (violation (''pair_start server_public_key '' @ quoted k
                         @ '' does not match server/info public_key '' @ quoted key))
           else case key_identity P ''pair_start server_public_key'' ''start '' k of
             Inl e \<Rightarrow> Inl e
           | Inr d \<Rightarrow>
               guard_that (m = d)
                 (violation (''pair_start server_michi_id '' @ quoted m
                    @ '' does not match derived identity '' @ quoted d)))))"

definition start_remote_pairing ::
  "PairingEnv \<Rightarrow> string \<Rightarrow> string \<Rightarrow> bool \<Rightarrow> Manager \<Rightarrow> string + PendingReceiverPairing" where
  "start_remote_pairing V base_url initiator allow_re_pair m =
     (let P = pv_net V; c = new_client (mg_has_identity m) base_url in
      case client_get_info (pn_net P) 0 c of
        Inl e \<Rightarrow> Inl e
      | Inr info \<Rightarrow>
     (case contract_identity V info of
        Inl e \<Rightarrow> Inl e
      | Inr (sid, mid, key) \<Rightarrow>
     (case pairable (mg_registry m) mid sid allow_re_pair of
        Inl e \<Rightarrow> Inl e
      | Inr _ \<Rightarrow>
     (case pair_start P c of
        Inl e \<Rightarrow> Inl e
      | Inr r \<Rightarrow>
     (case start_session_id r of
        Inl e \<Rightarrow> Inl e
      | Inr session \<Rightarrow>
     (case start_expiry P r of
        Inl e \<Rightarrow> Inl e
      | Inr expires \<Rightarrow>
     (case start_identity P mid key r of
        Inl e \<Rightarrow> Inl e
      | Inr _ \<Rightarrow>
          Inr \<lparr>pd_pairing_id = pv_pairing_id V, pd_base_url = trim_end_slashes base_url,
               pd_info = info, pd_pair_session_id = session, pd_initiator_id = initiator,
               pd_created_at = pv_clock V 0, pd_expires_at = expires,
               pd_server_michi_id = Some mid, pd_server_public_key = Some key,
               pd_expected_server_id = sid, pd_expected_michi_id = mid,
               pd_expected_public_key = key\<rparr>)))))))"

definition effective_device_id :: "PendingReceiverPairing \<Rightarrow> string" where
  "effective_device_id p =
     (if pd_expected_michi_id p \<noteq> [] then pd_expected_michi_id p else pd_expected_server_id p)"

definition start_pairing_ext ::
  "PairingEnv \<Rightarrow> string \<Rightarrow> string \<Rightarrow> bool \<Rightarrow> PairingState
   \<Rightarrow> (string + PendingReceiverPairing) \<times> PairingState" where
  "start_pairing_ext V base_url initiator allow_re_pair s =
     (case start_remote_pairing V base_url initiator allow_re_pair (ps_manager s) of
        Inl e \<Rightarrow> (Inl e, s)
      | Inr p \<Rightarrow>
          (let s = s\<lparr>ps_pending := (map_retain (\<lambda>_ v. pd_expires_at v > pv_clock V 0) (ps_pending s))
                                     (pd_pairing_id p \<mapsto> p)\<rparr>
           in (Inr p,
               jwrite V ''started''
                 (journal_start (pv_clock V 1) (pd_pairing_id p) (effective_device_id p)
                    (pd_base_url p) (pd_expected_michi_id p) (Some (pd_pair_session_id p))) s)))"

definition start_pairing ::
  "PairingEnv \<Rightarrow> string \<Rightarrow> string \<Rightarrow> PairingState
   \<Rightarrow> (string + PendingReceiverPairing) \<times> PairingState" where
  "start_pairing V base_url initiator = start_pairing_ext V base_url initiator False"

section \<open>Confirming\<close>

definition debug_opt_str :: "string option \<Rightarrow> string" where
  "debug_opt_str x = (case x of None \<Rightarrow> ''None'' | Some s \<Rightarrow> ''Some('' @ debug_str s @ '')'')"

definition id_changed :: "string \<Rightarrow> string \<Rightarrow> string \<Rightarrow> string \<Rightarrow> string" where
  "id_changed what moment expected got =
     ''IDENTITY_MISMATCH: receiver '' @ what @ '' changed '' @ moment @ '' (expected ''
     @ quoted expected @ '', got '' @ got @ '')''"

text \<open>The receiver still is the one the pairing was started with; \<open>check\<close> is the extra check of the
  server id before confirming.\<close>

definition pinned ::
  "(string \<Rightarrow> string + unit) \<Rightarrow> string \<Rightarrow> PendingReceiverPairing \<Rightarrow> ReceiverInfo \<Rightarrow> string + unit"
where
  "pinned check moment p info =
     (case ri_server_id info of
        None \<Rightarrow> Inl (violation ''server_id is required in receiver info'')
      | Some sid \<Rightarrow>
          and_then (check sid)
          (and_then (guard_that (sid = pd_expected_server_id p)
             (id_changed ''server_id'' moment (pd_expected_server_id p) (quoted sid)))
          (and_then (guard_that (ri_michi_id info = Some (pd_expected_michi_id p))
             (id_changed ''michi_id'' moment (pd_expected_michi_id p)
                (quoted (debug_opt_str (ri_michi_id info)))))
          (guard_that (ri_public_key info = Some (pd_expected_public_key p))
             (id_changed ''public_key'' moment (pd_expected_public_key p)
                (quoted (debug_opt_str (ri_public_key info))))))))"

definition pre_confirm_check ::
  "PairingEnv \<Rightarrow> PendingReceiverPairing \<Rightarrow> ReceiverClient \<Rightarrow> string + unit" where
  "pre_confirm_check V p c =
     (case client_get_info (pn_net (pv_net V)) 0 c of
        Inl e \<Rightarrow> Inl e
      | Inr info \<Rightarrow>
          and_then (pinned (uuid_checked V) ''before pair_confirm'' p info)
            (and_then (scheme_ok info) (validate_audio_capabilities info)))"

definition outcome_unclear :: "ReceiverProtocolError \<Rightarrow> bool" where
  "outcome_unclear e \<longleftrightarrow>
     pe_code e = ''NETWORK_ERROR'' \<or> List.member [502, 503, 504, 408] (pe_http_status e)"

definition maybe_confirmed :: "ReceiverProtocolError \<Rightarrow> bool" where
  "maybe_confirmed e \<longleftrightarrow>
     pe_code e = ''NETWORK_ERROR'' \<or> pe_code e = ''PAIRING_ALREADY_CONSUMED''
     \<or> pe_code e = ''CONFLICT'' \<or> pe_http_status e = 409"

definition is_terminal_code :: "string \<Rightarrow> bool" where
  "is_terminal_code code \<longleftrightarrow>
     List.member [''PAIRING_EXPIRED'', ''PAIRING_NOT_FOUND'', ''PAIRING_ALREADY_CONSUMED'',
                  ''CONFLICT'', ''PAIRING_ATTEMPTS_EXCEEDED''] code"

definition drops_pending :: "ReceiverProtocolError \<Rightarrow> bool" where
  "drops_pending e \<longleftrightarrow>
     pe_code e \<noteq> ''PAIRING_PIN_MISMATCH''
     \<and> (is_terminal_code (pe_code e) \<or> pe_http_status e = 408 \<or> pe_http_status e = 410)"

text \<open>The authenticated recovery, when the receiver says that the session was confirmed.\<close>

definition recover_confirmed ::
  "PairingNet \<Rightarrow> nat \<Rightarrow> PendingReceiverPairing \<Rightarrow> ReceiverClient
   \<Rightarrow> PairConfirmResponse option \<times> ReceiverClient" where
  "recover_confirmed P k p c =
     (case pair_status P k (pd_pair_session_id p) c of
        Inl _ \<Rightarrow> (None, c)
      | Inr st \<Rightarrow>
          (if st_status st = ''confirmed''
           then (case pair_recover_auto P k (Some (pd_expected_michi_id p))
                        (Some (pd_expected_public_key p)) c of
                   (Inl _, c) \<Rightarrow> (None, c)
                 | (Inr r, c) \<Rightarrow> (Some r, c))
           else (None, c)))"

definition pair_confirm_failed :: "string \<Rightarrow> string \<Rightarrow> string" where
  "pair_confirm_failed code msg = ''pair_confirm failed: '' @ code @ '': '' @ msg"

text \<open>What the exchange with the receiver comes to: the refusal and whether the pending pairing goes
  with it, or the client, which holds the token if the receiver gave one. The second component is
  the text for the journal when the outcome of the request is unclear.\<close>

datatype ConfirmOutcome = Refused string bool | Confirmed ReceiverClient

definition confirm_answered ::
  "PairingNet \<Rightarrow> PendingReceiverPairing \<Rightarrow> PairConfirmResponse \<Rightarrow> ReceiverClient \<Rightarrow> ConfirmOutcome"
where
  "confirm_answered P p r c =
     (case cp_error r of
        None \<Rightarrow> Confirmed c
      | Some e \<Rightarrow>
          (let (rec, c) = (if eb_code e = ''PAIRING_ALREADY_CONSUMED'' \<or> eb_code e = ''CONFLICT''
                           then recover_confirmed P 1 p c else (None, c))
           in if rec = None
              then Refused (pair_confirm_failed (eb_code e) (eb_message e)) (is_terminal_code (eb_code e))
              else Confirmed c))"

definition confirm_exchange ::
  "PairingNet \<Rightarrow> PendingReceiverPairing \<Rightarrow> string \<Rightarrow> ReceiverClient
   \<Rightarrow> ConfirmOutcome \<times> string option" where
  "confirm_exchange P p pin c =
     (case pair_confirm P (pd_pair_session_id p) pin c of
        (Inr r, c) \<Rightarrow> (confirm_answered P p r c, None)
      | (Inl e, c) \<Rightarrow>
          ((case (if maybe_confirmed e then recover_confirmed P 0 p c else (None, c)) of
              (Some r, c) \<Rightarrow> confirm_answered P p r c
            | (None, c) \<Rightarrow> Refused (pair_confirm_failed (pe_code e) (pe_message e)) (drops_pending e)),
           if outcome_unclear e then Some (pe_message e) else None))"

section \<open>The registry entry of a paired receiver\<close>

definition audio_list :: "string \<Rightarrow> (json list \<Rightarrow> 'a list) \<Rightarrow> json \<Rightarrow> string + 'a list" where
  "audio_list k conv audio =
     (case non_empty (map_option conv (get_array k audio)) of
        None \<Rightarrow> Inl (''receiver capabilities missing valid audio.'' @ k)
      | Some xs \<Rightarrow> Inr xs)"

text \<open>The entry with the lists of the audio specification.\<close>

definition audio_entry :: "json \<Rightarrow> ReceiverRegistryEntry \<Rightarrow> string + ReceiverRegistryEntry" where
  "audio_entry audio e =
     (case audio_list ''transports'' strings_of audio of
        Inl err \<Rightarrow> Inl err
      | Inr ts \<Rightarrow>
          (if \<not> List.member ts ''rtp_udp''
           then Inl (''receiver does not support required '' @ quoted ''rtp_udp'' @ '' audio transport'')
           else case audio_list ''sample_rates'' u32s_of audio of
             Inl err \<Rightarrow> Inl err
           | Inr rates \<Rightarrow>
          (case audio_list ''bit_depths'' u32s_of audio of
             Inl err \<Rightarrow> Inl err
           | Inr depths \<Rightarrow>
          (case audio_list ''channels'' u8s_of audio of
             Inl err \<Rightarrow> Inl err
           | Inr chans \<Rightarrow>
          (case audio_list ''codecs'' strings_of audio of
             Inl err \<Rightarrow> Inl err
           | Inr codecs \<Rightarrow>
               Inr (e\<lparr>en_max_sample_rate := max_or 48000 rates, en_max_bit_depth := max_or 16 depths,
                      en_supported_transports := ts, en_supported_codecs := codecs,
                      en_supported_sample_rates := rates, en_supported_bit_depths := depths,
                      en_supported_channels := chans\<rparr>))))))"

definition ota_feature :: "json \<Rightarrow> bool" where
  "ota_feature feats =
     (let v = (case Option.bind (json_get ''ota_update'' feats) as_bool of
                 Some b \<Rightarrow> Some b
               | None \<Rightarrow> Option.bind (json_get ''ota'' feats) as_bool)
      in v = Some True)"

definition paired_caps :: "ReceiverInfo \<Rightarrow> string list" where
  "paired_caps info =
     [''stream'', ''volume'', ''heartbeat'']
     @ (case ri_features info of
          Some feats \<Rightarrow> (if ota_feature feats then [''ota_update''] else [])
        | None \<Rightarrow> [])"

definition presence_of :: "EffectivePresence option \<Rightarrow> ReceiverPresence" where
  "presence_of x =
     (case x of
        Some EffVerifiedOnline \<Rightarrow> VerifiedOnline
      | Some EffProvisionalMdns \<Rightarrow> ProvisionalMdns
      | _ \<Rightarrow> Offline)"

definition or_else :: "'a option \<Rightarrow> 'a option \<Rightarrow> 'a option" where
  "or_else a b = (case a of Some x \<Rightarrow> Some x | None \<Rightarrow> b)"

definition unwrap_or :: "'a \<Rightarrow> 'a option \<Rightarrow> 'a" where
  "unwrap_or d a = (case a of Some x \<Rightarrow> x | None \<Rightarrow> d)"

definition paired_entry ::
  "PairingEnv \<Rightarrow> PendingReceiverPairing \<Rightarrow> string option \<Rightarrow> ReceiverInfo
   \<Rightarrow> string + ReceiverRegistryEntry" where
  "paired_entry V p token info =
     (case or_else (ri_michi_id info) (ri_server_id info) of
        None \<Rightarrow> Inl ''IDENTITY_MISMATCH: missing device identifier post-confirmation''
      | Some device_id \<Rightarrow>
     (case ri_audio info of
        None \<Rightarrow>
          Inl (''receiver failed capability negotiation: missing canonical ''
               @ quoted ''audio'' @ '' specification'')
      | Some audio \<Rightarrow>
          audio_entry audio
            (default_entry
               \<lparr>en_receiver_id := device_id, en_michi_id := ri_michi_id info,
                en_name := unwrap_or device_id (ri_name info),
                en_device_type := unwrap_or ''unknown'' (or_else (ri_device_type info) (ri_service info)),
                en_base_url := pd_base_url p, en_paired := True, en_token := token,
                en_presence := presence_of (pv_scent V (pd_expected_michi_id p)),
                en_last_seen := Some (pv_clock V 4), en_capabilities := paired_caps info,
                en_capabilities_verified_at := Some (pv_clock V 5), en_capabilities_stale := False,
                en_authority_supported :=
                  (case ri_features info of Some f \<Rightarrow> authority_feature f | None \<Rightarrow> False),
                en_maximum_safe_volume := Some 100, en_qualification := Qualified,
                en_authenticated := True\<rparr>)))"

definition paired_after_confirm ::
  "PairingEnv \<Rightarrow> PendingReceiverPairing \<Rightarrow> ReceiverClient \<Rightarrow> string + ReceiverRegistryEntry" where
  "paired_after_confirm V p c =
     (case client_get_info (pn_net (pv_net V)) 1 c of
        Inl e \<Rightarrow> Inl e
      | Inr info \<Rightarrow>
          (case pinned (\<lambda>_. Inr ()) ''post-confirmation'' p info of
             Inl e \<Rightarrow> Inl e
           | Inr _ \<Rightarrow> paired_entry V p (rc_token c) info))"

section \<open>The whole confirmation\<close>

definition drop_pending :: "string \<Rightarrow> PairingState \<Rightarrow> PairingState" where
  "drop_pending pid s = s\<lparr>ps_pending := (ps_pending s)(pid := None)\<rparr>"

definition token_journal ::
  "PairingEnv \<Rightarrow> PendingReceiverPairing \<Rightarrow> string \<Rightarrow> ReceiverClient \<Rightarrow> PairingState \<Rightarrow> PairingState"
where
  "token_journal V p pid c s =
     (case rc_token c of
        None \<Rightarrow> s
      | Some tok \<Rightarrow>
          (if \<not> (pv_has_pool V \<and> pv_has_store V) then s
           else case pv_encrypt V (effective_device_id p) tok of
             Inl _ \<Rightarrow> s
           | Inr (ct, nonce) \<Rightarrow>
               jwrite V ''token_received'' (journal_token_received (pv_clock V 3) pid ct nonce) s))"

text \<open>After the receiver has confirmed: the entry is added and the journal says persisted, or the
  journal says that recovery is required.\<close>

definition confirm_finish ::
  "PairingEnv \<Rightarrow> PendingReceiverPairing \<Rightarrow> string \<Rightarrow> ReceiverClient \<Rightarrow> PairingState
   \<Rightarrow> (string + string) \<times> PairingState" where
  "confirm_finish V p pid c s =
     (case paired_after_confirm V p c of
        Inl e \<Rightarrow>
          (Inl e, jwrite V ''recovery_required'' (journal_recovery_required (pv_clock V 6) pid e) s)
      | Inr entry \<Rightarrow>
          (let s = s\<lparr>ps_manager := upd_registry (reg_add entry) (ps_manager s)\<rparr>;
               s = jwrite V ''persisted'' (journal_completed (pv_clock V 6) pid) s
           in (Inr (en_receiver_id entry), drop_pending pid s)))"

definition confirm_pending ::
  "PairingEnv \<Rightarrow> PendingReceiverPairing \<Rightarrow> string \<Rightarrow> string \<Rightarrow> PairingState
   \<Rightarrow> (string + string) \<times> PairingState" where
  "confirm_pending V p pid pin s =
     (let c = new_client (mg_has_identity (ps_manager s)) (pd_base_url p) in
      case pre_confirm_check V p c of
        Inl e \<Rightarrow> (Inl e, s)
      | Inr _ \<Rightarrow>
          (let s = jwrite V ''confirm_sent'' (journal_confirm_sent (pv_clock V 1) pid) s;
               (outcome, unclear) = confirm_exchange (pv_net V) p pin c;
               s = (case unclear of
                      Some msg \<Rightarrow>
                        jwrite V ''remote_outcome_unknown''
                          (journal_outcome_unknown (pv_clock V 2) pid msg) s
                    | None \<Rightarrow> s)
           in case outcome of
                Refused e gone \<Rightarrow> (Inl e, if gone then drop_pending pid s else s)
              | Confirmed c \<Rightarrow> confirm_finish V p pid c (token_journal V p pid c s)))"

definition confirm_pairing ::
  "PairingEnv \<Rightarrow> string \<Rightarrow> string \<Rightarrow> PairingState \<Rightarrow> (string + string) \<times> PairingState" where
  "confirm_pairing V pid pin s =
     (case ps_pending s pid of
        None \<Rightarrow> (Inl ''pairing session not found or expired'', s)
      | Some p \<Rightarrow>
          (if pv_clock V 0 > pd_expires_at p
           then (Inl ''pairing session expired'', drop_pending pid s)
           else confirm_pending V p pid pin s))"

text \<open>\<open>discover_and_pair\<close>: starting in one environment and confirming in another, later one.\<close>

definition discover_and_pair ::
  "PairingEnv \<Rightarrow> PairingEnv \<Rightarrow> string \<Rightarrow> string \<Rightarrow> string \<Rightarrow> PairingState
   \<Rightarrow> (string + string) \<times> PairingState" where
  "discover_and_pair V W base_url initiator pin s =
     (case start_pairing V base_url initiator s of
        (Inl e, s) \<Rightarrow> (Inl e, s)
      | (Inr p, s) \<Rightarrow> confirm_pairing W (pd_pairing_id p) pin s)"

end
