(* ===== verification/Pairing_Recovery.thy ===== *)
theory Pairing_Recovery
  imports Receiver_Pairing Receiver_Outbox
begin

text \<open>
  The pairing handlers of \<open>michi-api/src/routes/v1/receivers.rs\<close> (start, confirm, discover), the
  storing of a paired receiver in the tables \<open>receivers\<close> and \<open>receiver_credentials\<close> of
  \<open>michi-db/src/lib.rs\<close>, \<open>authenticate_url\<close>, and \<open>reconcile_unrecovered_pairings\<close>, which finishes
  after a restart what a crash or a lost answer left open.
\<close>

section \<open>Tables\<close>

record PersistedReceiver =
  pr_id :: string
  pr_name :: string
  pr_device_type :: string
  pr_base_url :: string
  pr_paired :: bool
  pr_online :: bool
  pr_audio_capabilities :: string
  pr_last_seen :: "utc option"
  pr_paired_at :: "utc option"
  pr_created_at :: utc
  pr_updated_at :: utc
  pr_michi_id :: "string option"
  pr_capabilities_json :: "string option"
  pr_capabilities_observed_at :: "utc option"
  pr_authority_supported :: bool

record PersistedReceiverCredential =
  pc_receiver_id :: string
  pc_ciphertext :: "u8 list"
  pc_nonce :: "u8 list"
  pc_version :: int
  pc_created_at :: utc
  pc_updated_at :: utc

record ReceiverDb =
  rd_receivers :: "PersistedReceiver list"
  rd_credentials :: "PersistedReceiverCredential list"

definition get_receiver :: "string \<Rightarrow> ReceiverDb \<Rightarrow> PersistedReceiver option" where
  "get_receiver i db = List.find (\<lambda>r. pr_id r = i) (rd_receivers db)"

definition delete_receiver :: "string \<Rightarrow> ReceiverDb \<Rightarrow> bool \<times> ReceiverDb" where
  "delete_receiver i db =
     (list_ex (\<lambda>r. pr_id r = i) (rd_receivers db),
      db\<lparr>rd_receivers := filter (\<lambda>r. pr_id r \<noteq> i) (rd_receivers db)\<rparr>)"

text \<open>Missing capabilities are bound as an empty object; an existing row keeps its creation time.\<close>

definition upsert_receiver :: "PersistedReceiver \<Rightarrow> PersistedReceiver list \<Rightarrow> PersistedReceiver list"
where
  "upsert_receiver rec rows =
     (let rec = rec\<lparr>pr_capabilities_json :=
                      Some (case pr_capabilities_json rec of Some j \<Rightarrow> j | None \<Rightarrow> ''{}'')\<rparr> in
      if list_ex (\<lambda>r. pr_id r = pr_id rec) rows
      then map (\<lambda>r. if pr_id r = pr_id rec then rec\<lparr>pr_created_at := pr_created_at r\<rparr> else r) rows
      else rows @ [rec])"

definition save_credential ::
  "PersistedReceiverCredential \<Rightarrow> PersistedReceiverCredential list \<Rightarrow> PersistedReceiverCredential list"
where
  "save_credential cred rows =
     (if list_ex (\<lambda>r. pc_receiver_id r = pc_receiver_id cred) rows
      then map (\<lambda>r. if pc_receiver_id r = pc_receiver_id cred
                    then cred\<lparr>pc_created_at := pc_created_at r\<rparr> else r) rows
      else rows @ [cred])"

definition get_receiver_credential :: "string \<Rightarrow> ReceiverDb \<Rightarrow> PersistedReceiverCredential option"
where
  "get_receiver_credential i db = List.find (\<lambda>r. pc_receiver_id r = i) (rd_credentials db)"

definition delete_receiver_credential :: "string \<Rightarrow> ReceiverDb \<Rightarrow> bool \<times> ReceiverDb" where
  "delete_receiver_credential i db =
     (list_ex (\<lambda>r. pc_receiver_id r = i) (rd_credentials db),
      db\<lparr>rd_credentials := filter (\<lambda>r. pc_receiver_id r \<noteq> i) (rd_credentials db)\<rparr>)"

definition persist_paired_transaction ::
  "PersistedReceiver \<Rightarrow> PersistedReceiverCredential \<Rightarrow> ReceiverDb \<Rightarrow> ReceiverDb" where
  "persist_paired_transaction rec cred db =
     \<lparr>rd_receivers = upsert_receiver rec (rd_receivers db),
      rd_credentials = save_credential cred (rd_credentials db)\<rparr>"

section \<open>Storing a paired receiver\<close>

record ReceiverCapabilities =
  ca_device_type :: string
  ca_supported_codecs :: "string list"
  ca_max_sample_rate :: u32
  ca_max_bit_depth :: u32
  ca_supported_transports :: "string list"
  ca_supported_sample_rates :: "u32 list"
  ca_supported_bit_depths :: "u32 list"
  ca_supported_channels :: "u8 list"
  ca_features :: "string list"
  ca_authority_features :: "string list"

definition to_capabilities :: "ReceiverRegistryEntry \<Rightarrow> ReceiverCapabilities" where
  "to_capabilities e =
     \<lparr>ca_device_type = en_device_type e, ca_supported_codecs = en_supported_codecs e,
      ca_max_sample_rate = en_max_sample_rate e, ca_max_bit_depth = en_max_bit_depth e,
      ca_supported_transports = en_supported_transports e,
      ca_supported_sample_rates = en_supported_sample_rates e,
      ca_supported_bit_depths = en_supported_bit_depths e,
      ca_supported_channels = en_supported_channels e, ca_features = en_capabilities e,
      ca_authority_features = (if en_authority_supported e then [''authority-v1''] else [])\<rparr>"

text \<open>What the server adds to the environment of the manager: its credential store, its own
  statements (a lookup, the storing transaction by attempt, the journal), the JSON printer, the
  scent store and the clock it is read at.\<close>

record ServerEnv =
  sv_pairing :: PairingEnv
  sv_has_store :: bool
  sv_decrypt :: "string \<Rightarrow> u8 list \<Rightarrow> u8 list \<Rightarrow> string + string"
  sv_lookup_ok :: bool
  sv_tx_err :: "nat \<Rightarrow> string option"
    \<comment> \<open>the error of attempt 1, 2, 3, as \<open>Some(e)\<close> prints it; 0 is a single attempt\<close>
  sv_journal_ok :: "string \<Rightarrow> bool"
  sv_clock :: utc
  sv_caps_text :: "ReceiverCapabilities \<Rightarrow> string"
  sv_json_text :: "json \<Rightarrow> string"
  sv_scent :: scent_store
  sv_now :: instant

type_synonym server = "PairingState \<times> ReceiverDb"

definition server_journal ::
  "ServerEnv \<Rightarrow> string \<Rightarrow> (PairingJournalEntry list \<Rightarrow> PairingJournalEntry list) \<Rightarrow> server \<Rightarrow> server"
where
  "server_journal A state f x =
     (if sv_journal_ok A state then ((fst x)\<lparr>ps_journal := f (ps_journal (fst x))\<rparr>, snd x) else x)"

definition stored_receiver :: "ServerEnv \<Rightarrow> string \<Rightarrow> ReceiverRegistryEntry \<Rightarrow> PersistedReceiver"
where
  "stored_receiver A i e =
     \<lparr>pr_id = i, pr_name = en_name e, pr_device_type = en_device_type e,
      pr_base_url = en_base_url e, pr_paired = en_paired e,
      pr_online = (en_presence e = VerifiedOnline),
      pr_audio_capabilities = sv_caps_text A (to_capabilities e), pr_last_seen = en_last_seen e,
      pr_paired_at = Some (sv_clock A), pr_created_at = sv_clock A, pr_updated_at = sv_clock A,
      pr_michi_id = en_michi_id e, pr_capabilities_json = Some (sv_caps_text A (to_capabilities e)),
      pr_capabilities_observed_at = en_capabilities_verified_at e,
      pr_authority_supported = en_authority_supported e\<rparr>"

definition stored_credential ::
  "ServerEnv \<Rightarrow> string \<Rightarrow> u8 list \<times> u8 list \<Rightarrow> PersistedReceiverCredential" where
  "stored_credential A i c =
     \<lparr>pc_receiver_id = i, pc_ciphertext = fst c, pc_nonce = snd c, pc_version = 1,
      pc_created_at = sv_clock A, pc_updated_at = sv_clock A\<rparr>"

text \<open>At most three attempts; the first that succeeds stores both rows.\<close>

definition persist_paired_receiver :: "ServerEnv \<Rightarrow> string \<Rightarrow> server \<Rightarrow> (string + unit) \<times> server" where
  "persist_paired_receiver A i x =
     (case entry_of (ps_manager (fst x)) i of
        None \<Rightarrow> (Inl (''receiver '' @ i @ '' not found in registry''), x)
      | Some e \<Rightarrow>
     (case en_token e of
        None \<Rightarrow> (Inl ''receiver token missing for paired receiver'', x)
      | Some tok \<Rightarrow>
          (if \<not> sv_has_store A
           then (Inl ''CREDENTIAL_STORE_UNAVAILABLE: encryption key is unavailable'', x)
           else case pv_encrypt (sv_pairing A) i tok of
             Inl err \<Rightarrow> (Inl (''failed to encrypt token for '' @ i @ '': '' @ err), x)
           | Inr c \<Rightarrow>
               (if \<exists>k \<in> {1, 2, 3}. sv_tx_err A k = None
                then (Inr (), (fst x, persist_paired_transaction (stored_receiver A i e)
                                        (stored_credential A i c) (snd x)))
                else (Inl (''failed to persist receiver record and credential for '' @ i
                           @ '' after 3 attempts: '' @ the (sv_tx_err A 3)), x)))))"

section \<open>Handlers\<close>

record ApiError =
  ae_status :: u16
  ae_code :: string
  ae_message :: string

definition v1_error :: "u16 \<Rightarrow> string \<Rightarrow> string \<Rightarrow> ApiError" where
  "v1_error status code msg = \<lparr>ae_status = status, ae_code = code, ae_message = msg\<rparr>"

record PresenceStateFields =
  pf_presence :: string
  pf_online :: bool
  pf_verified :: bool
  pf_reachable :: bool

fun serialize_presence_state :: "ReceiverPresence \<Rightarrow> PresenceStateFields" where
  "serialize_presence_state VerifiedOnline =
     \<lparr>pf_presence = ''verified_online'', pf_online = True, pf_verified = True, pf_reachable = True\<rparr>"
| "serialize_presence_state ProvisionalMdns =
     \<lparr>pf_presence = ''provisional_mdns'', pf_online = False, pf_verified = False, pf_reachable = True\<rparr>"
| "serialize_presence_state Degraded =
     \<lparr>pf_presence = ''degraded'', pf_online = False, pf_verified = False, pf_reachable = True\<rparr>"
| "serialize_presence_state Offline =
     \<lparr>pf_presence = ''offline'', pf_online = False, pf_verified = False, pf_reachable = False\<rparr>"
| "serialize_presence_state PresenceUnknown =
     \<lparr>pf_presence = ''unknown'', pf_online = False, pf_verified = False, pf_reachable = False\<rparr>"

definition compute_effective_receiver_presence ::
  "ServerEnv \<Rightarrow> ReceiverRegistryEntry \<Rightarrow> ReceiverPresence" where
  "compute_effective_receiver_presence A e =
     (case or_else (Option.bind (en_michi_id e) (scent_get (sv_scent A)))
             (scent_get (sv_scent A) (en_receiver_id e)) of
        Some r \<Rightarrow> presence_of (Some (effective_presence r (sv_now A)))
      | None \<Rightarrow> en_presence e)"

record PairedAnswer =
  pa_receiver_id :: string
  pa_presence :: PresenceStateFields
  pa_qualification :: ReceiverQualification

definition paired_answer :: "ServerEnv \<Rightarrow> string \<Rightarrow> ReceiverRegistryEntry \<Rightarrow> PairedAnswer" where
  "paired_answer A i e =
     \<lparr>pa_receiver_id = i,
      pa_presence = serialize_presence_state (compute_effective_receiver_presence A e),
      pa_qualification = compute_qualification e\<rparr>"

definition six_digits :: "string \<Rightarrow> bool" where
  "six_digits p \<longleftrightarrow> length p = 6 \<and> list_all (\<lambda>c. digit_val c \<noteq> None) p"

definition no_credential_store :: ApiError where
  "no_credential_store =
     v1_error 503 ''CREDENTIAL_STORE_UNAVAILABLE'' ''Receiver credential store is unavailable''"

definition bad_pin :: ApiError where
  "bad_pin = v1_error 400 ''INVALID_REQUEST'' ''PIN must be exactly 6 numeric digits''"

text \<open>The handlers look the entry up again after storing it; \<open>gone\<close> is what other operations did in
  between.\<close>

definition receiver_pair_confirm_handler ::
  "ServerEnv \<Rightarrow> string option \<Rightarrow> string \<Rightarrow> (PairingState \<Rightarrow> PairingState) \<Rightarrow> server
   \<Rightarrow> (ApiError + PairedAnswer) \<times> server" where
  "receiver_pair_confirm_handler A pairing_id pin gone x =
     (if \<not> sv_has_store A then (Inl no_credential_store, x)
      else if \<not> six_digits (trim pin) then (Inl bad_pin, x)
      else case pairing_id of
        None \<Rightarrow>
          (Inl (v1_error 400 ''INVALID_REQUEST'' ''pairing_id is required to confirm pairing''), x)
      | Some pid \<Rightarrow>
     (case confirm_pairing (sv_pairing A) pid (trim pin) (fst x) of
        (Inl e, s) \<Rightarrow> (Inl (v1_error 400 ''PAIR_CONFIRM_FAILED'' e), s, snd x)
      | (Inr i, s) \<Rightarrow>
     (case persist_paired_receiver A i (s, snd x) of
        (Inl e, x) \<Rightarrow>
          (Inl (v1_error 500 ''PERSISTENCE_FAILED''
                  (''pairing confirmed but persistence failed: '' @ e)),
           server_journal A ''recovery_required''
             (journal_recovery_required (sv_clock A) pid (''persistence failed: '' @ e)) x)
      | (Inr _, x) \<Rightarrow>
          (let x = (gone (fst x), snd x) in
           case entry_of (ps_manager (fst x)) i of
             Some e \<Rightarrow>
               (Inr (paired_answer A i e),
                server_journal A ''persisted'' (journal_completed (sv_clock A) pid) x)
           | None \<Rightarrow>
               (Inl (v1_error 500 ''PAIRING_REGISTRY_INVARIANT_VIOLATION''
                       ''Receiver registry invariant violation: entry unexpectedly absent after pairing confirmation. Remote pairing may have completed but local registry convergence failed.''),
                server_journal A ''recovery_required''
                  (journal_recovery_required (sv_clock A) pid
                     ''Receiver entry missing from registry after confirmation and persistence'')
                  x)))))"

definition discover_receiver_handler ::
  "ServerEnv \<Rightarrow> PairingEnv \<Rightarrow> string \<Rightarrow> string option \<Rightarrow> string option
   \<Rightarrow> (PairingState \<Rightarrow> PairingState) \<Rightarrow> server \<Rightarrow> (ApiError + PairedAnswer) \<times> server" where
  "discover_receiver_handler A W base_url initiator pin gone x =
     (if \<not> sv_has_store A then (Inl no_credential_store, x)
      else if (case pin of Some p \<Rightarrow> \<not> six_digits (trim p) | None \<Rightarrow> True) then (Inl bad_pin, x)
      else case discover_and_pair (sv_pairing A) W base_url
                  (unwrap_or ''michi-micro-server'' initiator) (trim (the pin)) (fst x) of
        (Inl e, s) \<Rightarrow> (Inl (v1_error 400 ''DISCOVER_PAIR_FAILED'' e), s, snd x)
      | (Inr i, s) \<Rightarrow>
     (case persist_paired_receiver A i (s, snd x) of
        (Inl e, x) \<Rightarrow>
          (Inl (v1_error 500 ''PERSISTENCE_FAILED''
                  (''discovery pairing confirmed but persistence failed: '' @ e)), x)
      | (Inr _, x) \<Rightarrow>
          (let x = (gone (fst x), snd x) in
           case entry_of (ps_manager (fst x)) i of
             Some e \<Rightarrow> (Inr (paired_answer A i e), x)
           | None \<Rightarrow>
               (Inl (v1_error 500 ''PAIRING_REGISTRY_INVARIANT_VIOLATION''
                       ''Receiver registry invariant violation: entry unexpectedly absent after discovery pairing confirmation. Remote pairing may have completed but local registry convergence failed.''),
                x))))"

section \<open>Authenticating a receiver by its URL\<close>

definition shifted :: "nat \<Rightarrow> ReceiverNet \<Rightarrow> ReceiverNet" where
  "shifted n N = N\<lparr>nt_info := \<lambda>k. nt_info N (k + n)\<rparr>"

definition url_entry :: "string \<Rightarrow> string \<Rightarrow> ReceiverInfo \<Rightarrow> ReceiverRegistryEntry" where
  "url_entry rid base_url info =
     update_entry_capabilities info
       (default_entry\<lparr>en_receiver_id := rid, en_michi_id := ri_michi_id info,
          en_name := unwrap_or ''Michi Receiver'' (ri_name info), en_base_url := base_url,
          en_device_type := unwrap_or ''standard'' (ri_device_type info)\<rparr>)"

definition authenticate_url ::
  "ReceiverNet \<Rightarrow> utc \<Rightarrow> string \<Rightarrow> Manager \<Rightarrow> (ReceiverClientError + ReceiverInfo) \<times> Manager" where
  "authenticate_url N now base_url m =
     (case client_get_info N 0 (new_client (mg_has_identity m) base_url) of
        Inl e \<Rightarrow> (Inl (CeProtocol e), m)
      | Inr info \<Rightarrow>
          (let known = map_option en_receiver_id (find_entry (\<lambda>e. en_base_url e = base_url) (mg_registry m));
               rid = unwrap_or (unwrap_or base_url
                       (or_else (ri_device_id info) (or_else (ri_server_id info) (ri_michi_id info)))) known;
               m = (if entry_of m rid = None then upd_registry (reg_add (url_entry rid base_url info)) m
                    else m)
           in authenticate_receiver (shifted 1 N) now rid m))"

definition speaks_trust_v2 :: "ReceiverInfo \<Rightarrow> bool" where
  "speaks_trust_v2 info \<longleftrightarrow>
     (case ri_service info of Some s \<Rightarrow> starts_with s ''michi-stream'' | None \<Rightarrow> False)
     \<or> Option.bind (Option.bind (ri_auth info) (json_get ''strategy'')) as_str = Some ''HOME_MEMBERSHIP''"

definition is_music_stream :: "string + ReceiverInfo \<Rightarrow> bool" where
  "is_music_stream r = (case r of Inr info \<Rightarrow> speaks_trust_v2 info | Inl _ \<Rightarrow> False)"

section \<open>The start handler\<close>

datatype PairStartAnswer =
    AnswerAuthenticated string ReceiverInfo string
    \<comment> \<open>receiver id, information and base URL\<close>
  | AnswerPending PendingReceiverPairing

definition pair_target ::
  "ServerEnv \<Rightarrow> string option \<Rightarrow> string option \<Rightarrow> bool \<Rightarrow> registry \<Rightarrow> ApiError + string" where
  "pair_target A base_url receiver_id re_pair r =
     (case (base_url, receiver_id) of
        (Some url, _) \<Rightarrow> Inr url
      | (None, None) \<Rightarrow>
          Inl (v1_error 400 ''INVALID_REQUEST'' ''either base_url or receiver_id must be provided'')
      | (None, Some rid) \<Rightarrow>
          (case reg_get r rid of
             Some e \<Rightarrow>
               (if en_qualification e = IdentityMismatch
                  then Inl (v1_error 400 ''IDENTITY_MISMATCH''
                         ''receiver has an unresolved identity mismatch and cannot be paired'')
                else if en_paired e \<and> \<not> re_pair
                  then Inl (v1_error 400 ''ALREADY_PAIRED'' ''receiver is already paired'')
                else Inr (en_base_url e))
           | None \<Rightarrow>
               (case or_else (scent_get (sv_scent A) rid)
                       (List.find (\<lambda>v. sr_device_id v = rid) (scent_list (sv_scent A))) of
                  None \<Rightarrow>
                    Inl (v1_error 404 ''RECEIVER_NOT_FOUND'' (''receiver not found: '' @ rid))
                | Some v \<Rightarrow>
                    (if effective_presence v (sv_now A) = EffOffline
                     then Inl (v1_error 400 ''RECEIVER_OFFLINE''
                            (''receiver '' @ rid @ '' is offline or stale in scent store''))
                     else case sr_base_url v of
                       Some url \<Rightarrow> Inr url
                     | None \<Rightarrow>
                         Inl (v1_error 404 ''RECEIVER_NOT_FOUND''
                                (''receiver not found or has no base_url: '' @ rid))))))"

definition stream_required :: ApiError where
  "stream_required =
     v1_error 400 ''STREAM_AUTH_REQUIRED''
       ''Music Stream receivers require Michi Trust Architecture V2 mutual authentication (HOME_MEMBERSHIP); legacy pair_start/RECEIVER_BUTTON is retired and not available as fallback. Please configure a Home first.''"

definition start_error :: "string \<Rightarrow> ApiError" where
  "start_error e =
     (if contains e ''IDENTITY_MISMATCH'' then v1_error 400 ''IDENTITY_MISMATCH'' e
      else if contains e ''ALREADY_PAIRED'' then v1_error 400 ''ALREADY_PAIRED'' e
      else v1_error 400 ''PAIR_START_FAILED'' e)"

text \<open>The environment of a later part of an operation: its information requests come after \<open>n\<close>
  earlier ones.\<close>

definition later_env :: "nat \<Rightarrow> PairingEnv \<Rightarrow> PairingEnv" where
  "later_env n V = V\<lparr>pv_net := (pv_net V)\<lparr>pn_net := shifted n (pn_net (pv_net V))\<rparr>\<rparr>"

definition receiver_pair_start_handler ::
  "ServerEnv \<Rightarrow> string option \<Rightarrow> string option \<Rightarrow> string option
   \<Rightarrow> bool option \<Rightarrow> server \<Rightarrow> (ApiError + PairStartAnswer) \<times> server" where
  "receiver_pair_start_handler A base_url receiver_id initiator re_pair x =
     (let V = sv_pairing A; N = pn_net (pv_net V); s = fst x; m = ps_manager s in
      case pair_target A base_url receiver_id (re_pair = Some True) (mg_registry m) of
        Inl e \<Rightarrow> (Inl e, x)
      | Inr url \<Rightarrow>
          (if is_music_stream (client_get_info N 0 (new_client True url)) \<or> mg_home m \<noteq> None then
             (if mg_home m = None then (Inl stream_required, x)
              else case authenticate_url (shifted 1 N) (sv_clock A) url m of
                (Inl e, m) \<Rightarrow>
                  (Inl (v1_error 401 ''STREAM_AUTH_FAILED''
                          (''Music Stream authentication failed under Michi Trust Architecture V2: ''
                           @ show_client_error e)), s\<lparr>ps_manager := m\<rparr>, snd x)
              | (Inr info, m) \<Rightarrow>
                  (Inr (AnswerAuthenticated
                          (unwrap_or url (or_else
                             (map_option en_receiver_id
                                (find_entry (\<lambda>e. en_base_url e = url) (mg_registry m)))
                             (or_else (ri_device_id info) (or_else (ri_michi_id info) (ri_server_id info)))))
                          info url), s\<lparr>ps_manager := m\<rparr>, snd x))
           else case start_pairing_ext (later_env 1 V) url (unwrap_or ''michi-micro-server'' initiator)
                       (unwrap_or False re_pair) s of
             (Inl e, s) \<Rightarrow> (Inl (start_error e), s, snd x)
           | (Inr p, s) \<Rightarrow>
               (Inr (AnswerPending p),
                server_journal A ''started''
                  (journal_start (sv_clock A) (pd_pairing_id p) (pd_expected_server_id p)
                     (pd_base_url p) (pd_expected_michi_id p) (Some (pd_pair_session_id p)))
                  (s, snd x))))"

section \<open>Reconciliation\<close>

text \<open>The row of a receiver that was recovered, and its entry; the capabilities of the entry are fixed
  defaults.\<close>

definition recovered_receiver ::
  "ServerEnv \<Rightarrow> string \<Rightarrow> PairingJournalEntry \<Rightarrow> ReceiverInfo \<Rightarrow> bool \<Rightarrow> PersistedReceiver" where
  "recovered_receiver A i j info with_caps =
     (let caps = (case ri_audio info of Some a \<Rightarrow> sv_json_text A a | None \<Rightarrow> ''{}'') in
      \<lparr>pr_id = i, pr_name = unwrap_or i (ri_name info),
       pr_device_type = unwrap_or ''michi-stream-standard'' (or_else (ri_device_type info) (ri_service info)),
       pr_base_url = pj_base_url j, pr_paired = True, pr_online = False,
       pr_audio_capabilities = caps, pr_last_seen = Some (sv_clock A),
       pr_paired_at = Some (sv_clock A), pr_created_at = sv_clock A, pr_updated_at = sv_clock A,
       pr_michi_id = ri_michi_id info,
       pr_capabilities_json = (if with_caps then Some caps else None),
       pr_capabilities_observed_at = None, pr_authority_supported = False\<rparr>)"

definition recovered_entry ::
  "ServerEnv \<Rightarrow> string \<Rightarrow> PairingJournalEntry \<Rightarrow> ReceiverInfo \<Rightarrow> string \<Rightarrow> ReceiverRegistryEntry"
where
  "recovered_entry A i j info tok =
     default_entry
       \<lparr>en_receiver_id := i, en_michi_id := ri_michi_id info, en_name := unwrap_or i (ri_name info),
        en_device_type := unwrap_or ''michi-stream-standard''
                            (or_else (ri_device_type info) (ri_service info)),
        en_base_url := pj_base_url j, en_paired := True, en_token := Some tok,
        en_presence := Offline, en_last_seen := Some (sv_clock A),
        en_capabilities := [''pcm'', ''rtp''], en_capabilities_verified_at := Some (sv_clock A),
        en_capabilities_stale := False, en_max_sample_rate := 48000, en_max_bit_depth := 16,
        en_supported_transports := [''rtp_udp''], en_supported_codecs := [''pcm_s16le''],
        en_supported_sample_rates := [48000], en_supported_bit_depths := [16],
        en_supported_channels := [2], en_maximum_safe_volume := Some 100,
        en_qualification := Qualified\<rparr>"

definition add_recovered ::
  "ServerEnv \<Rightarrow> string \<Rightarrow> PersistedReceiver \<Rightarrow> PersistedReceiverCredential \<Rightarrow> ReceiverRegistryEntry
   \<Rightarrow> server \<Rightarrow> server" where
  "add_recovered A pid rec cred e x =
     server_journal A ''persisted'' (journal_completed (sv_clock A) pid)
       ((fst x)\<lparr>ps_manager := upd_registry (reg_add e) (ps_manager (fst x))\<rparr>,
        persist_paired_transaction rec cred (snd x))"

definition require_recovery :: "ServerEnv \<Rightarrow> PairingJournalEntry \<Rightarrow> string \<Rightarrow> server \<Rightarrow> server" where
  "require_recovery A j reason =
     server_journal A ''recovery_required''
       (journal_recovery_required (sv_clock A) (pj_pairing_id j) reason)"

definition complete_journal :: "ServerEnv \<Rightarrow> PairingJournalEntry \<Rightarrow> server \<Rightarrow> server" where
  "complete_journal A j =
     server_journal A ''persisted'' (journal_completed (sv_clock A) (pj_pairing_id j))"

text \<open>A token that was received and stored before the crash, if it still works.\<close>

definition recover_from_token :: "ServerEnv \<Rightarrow> PairingJournalEntry \<Rightarrow> server \<Rightarrow> server option" where
  "recover_from_token A j x =
     (case (pj_token_ciphertext j, pj_token_nonce j) of
        (Some ct, Some nonce) \<Rightarrow>
          (if pj_state j \<noteq> ''token_received'' \<or> \<not> sv_has_store A then None
           else case sv_decrypt A (pj_receiver_id j) ct nonce of
             Inl _ \<Rightarrow> None
           | Inr tok \<Rightarrow>
               (let P = pv_net (sv_pairing A);
                    c = (new_client True (pj_base_url j))\<lparr>rc_token := Some tok\<rparr>;
                    i = pj_receiver_id j
                in case (verify_token P 0 c, client_get_info (pn_net P) 0 c, sv_tx_err A 0) of
                     (Inr True, Inr info, None) \<Rightarrow>
                       Some (add_recovered A (pj_pairing_id j) (recovered_receiver A i j info True)
                               (stored_credential A i (ct, nonce)) (recovered_entry A i j info tok) x)
                   | _ \<Rightarrow> None))
      | _ \<Rightarrow> None)"

text \<open>After the receiver has confirmed: recover a token, check it, store both rows.\<close>

definition recover_remote ::
  "ServerEnv \<Rightarrow> PairingJournalEntry \<Rightarrow> ReceiverClient \<Rightarrow> server
   \<Rightarrow> bool \<times> server" where
  "recover_remote A j c x =
     (let P = pv_net (sv_pairing A) in
      case pair_recover_auto P 0 (Some (pj_michi_id j)) None c of
        (Inl e, _) \<Rightarrow> (False, require_recovery A j (''recovery failed: '' @ show_protocol_error e) x)
      | (Inr r, c) \<Rightarrow>
     (case verify_token P 1 c of
        Inl _ \<Rightarrow> (False, x)
      | Inr False \<Rightarrow>
          (False, require_recovery A j ''recovered token rejected on authenticated endpoint'' x)
      | Inr True \<Rightarrow>
     (case client_get_info (pn_net P) 2 c of
        Inl _ \<Rightarrow> (False, x)
      | Inr info \<Rightarrow>
          (let i = unwrap_or (pj_receiver_id j)
                     (or_else (cp_device_id r) (or_else (ri_michi_id info) (ri_server_id info))) in
           case cp_token r of
             None \<Rightarrow> (False, x)
           | Some tok \<Rightarrow>
               (if \<not> sv_has_store A then (False, x)
                else case (pv_encrypt (sv_pairing A) i tok, sv_tx_err A 0) of
                  (Inr cr, None) \<Rightarrow>
                    (True, add_recovered A (pj_pairing_id j) (recovered_receiver A i j info False)
                             (stored_credential A i cr) (recovered_entry A i j info tok) x)
                | _ \<Rightarrow> (False, x))))))"

definition reconcile_remote ::
  "ServerEnv \<Rightarrow> PairingJournalEntry \<Rightarrow> server \<Rightarrow> bool \<times> server" where
  "reconcile_remote A j x =
     (case pj_remote_session_id j of
        None \<Rightarrow> (False, x)
      | Some session \<Rightarrow>
          (let P = pv_net (sv_pairing A); N = pn_net P; m = ps_manager (fst x);
               c = new_client True (pj_base_url j)
           in if is_music_stream (client_get_info N 1 c) then
                (if mg_home m = None then (False, x)
                 else case authenticate_url (shifted 2 N) (sv_clock A) (pj_base_url j) m of
                   (Inr _, m) \<Rightarrow> (True, complete_journal A j ((fst x)\<lparr>ps_manager := m\<rparr>, snd x))
                 | (Inl e, m) \<Rightarrow>
                     (False, require_recovery A j (''Trust V2 reauth failed: '' @ show_client_error e)
                               ((fst x)\<lparr>ps_manager := m\<rparr>, snd x)))
              else case pair_status P 0 session c of
                Inl _ \<Rightarrow> (False, x)
              | Inr st \<Rightarrow>
                  (if st_status st = ''confirmed'' then recover_remote A j c x
                   else if List.member [''expired'', ''not_found'', ''locked''] (st_status st)
                     then (False, server_journal A ''failed''
                             (journal_failed (sv_clock A) (pj_pairing_id j)
                                (''terminal remote session status: '' @ st_status st)) x)
                   else (False, x))))"

text \<open>One open row; whether it counts as recovered.\<close>

definition reconcile_row ::
  "ServerEnv \<Rightarrow> PairingJournalEntry \<Rightarrow> server \<Rightarrow> bool \<times> server" where
  "reconcile_row A j x =
     (if sv_lookup_ok A \<and> get_receiver (pj_receiver_id j) (snd x) \<noteq> None
        then (False, complete_journal A j x)
      else if entry_of (ps_manager (fst x)) (pj_receiver_id j) \<noteq> None
        then (case persist_paired_receiver A (pj_receiver_id j) x of
                (Inr _, x) \<Rightarrow> (True, complete_journal A j x)
              | (Inl _, x) \<Rightarrow> (False, x))
      else case recover_from_token A j x of
        Some x \<Rightarrow> (True, x)
      | None \<Rightarrow> reconcile_remote A j x)"

text \<open>The rows one after the other, each in its own environment.\<close>

fun reconcile_rows ::
  "(PairingJournalEntry \<Rightarrow> ServerEnv) \<Rightarrow> PairingJournalEntry list \<Rightarrow> nat \<Rightarrow> server \<Rightarrow> nat \<times> server"
where
  "reconcile_rows E [] n x = (n, x)"
| "reconcile_rows E (j # js) n x =
     (case reconcile_row (E j) j x of
        (recovered, x) \<Rightarrow>
          reconcile_rows E js (if recovered then n + 1 else n) x)"

definition reconcile_unrecovered_pairings ::
  "string option \<Rightarrow> (PairingJournalEntry \<Rightarrow> ServerEnv) \<Rightarrow> server \<Rightarrow> (string + nat) \<times> server" where
  "reconcile_unrecovered_pairings list_err E x =
     (case list_err of
        Some e \<Rightarrow> (Inl (''failed to list unrecovered pairing journals: '' @ e), x)
      | None \<Rightarrow>
          (case reconcile_rows E (list_unrecovered (ps_journal (fst x))) 0 x of
             (n, x) \<Rightarrow> (Inr n, x)))"

end
