(* ===== verification/Pairing_Theorems.thy ===== *)
theory Pairing_Theorems
  imports Pairing_Recovery Receiver_Properties
begin

text \<open>
  Pairing is safe in two respects: a paired receiver has the identity of the key it announced when
  the pairing began, and a confirmation that may have reached the receiver is on record until it is
  settled.
\<close>

section \<open>The pinned identity\<close>

definition owns_key :: "PairingNet \<Rightarrow> string \<Rightarrow> string \<Rightarrow> bool" where
  "owns_key P key mid \<longleftrightarrow>
     (\<exists>bytes. pn_decode_strict P key = Inr bytes \<and> length bytes = 32 \<and> pn_derive P bytes = Inr mid)"

definition same_crypto :: "PairingNet \<Rightarrow> PairingNet \<Rightarrow> bool" where
  "same_crypto P Q \<longleftrightarrow> pn_decode_strict P = pn_decode_strict Q \<and> pn_derive P = pn_derive Q"

lemma key_identity_iff: "key_identity P name kind key = Inr d \<longleftrightarrow> owns_key P key d"
  by (auto simp: key_identity_def owns_key_def split: sum.splits)

lemma and_then_Inr [simp]: "and_then a b = Inr u \<longleftrightarrow> a = Inr () \<and> b = Inr ()"
  by (cases a) (auto simp: and_then_def)

lemma guard_that_Inr [simp]: "guard_that b msg = Inr u \<longleftrightarrow> b"
  by (simp add: guard_that_def)

lemma contract_identity_ok:
  assumes "contract_identity V info = Inr (sid, mid, key)"
  shows "owns_key (pv_net V) key mid" "given (ri_server_id info) = Some sid"
    "given (ri_michi_id info) = Some mid" "given (ri_public_key info) = Some key"
    "validate_audio_capabilities info = Inr ()"
  using assms unfolding contract_identity_def required_def
  by (simp_all del: append.simps add: key_identity_iff split: sum.splits option.splits)

lemma start_remote_ok:
  assumes "start_remote_pairing V url ini re m = Inr p"
  shows "pd_pairing_id p = pv_pairing_id V" "owns_key (pv_net V) (pd_expected_public_key p) (pd_expected_michi_id p)"
    "pd_base_url p = trim_end_slashes url"
    "\<exists>info. client_get_info (pn_net (pv_net V)) 0 (new_client (mg_has_identity m) url) = Inr info
       \<and> contract_identity V info
           = Inr (pd_expected_server_id p, pd_expected_michi_id p, pd_expected_public_key p)"
  using assms contract_identity_ok(1) unfolding start_remote_pairing_def Let_def
  by (auto simp del: append.simps split: sum.splits prod.splits)

text \<open>The server with its pending pairings: a pairing is started, a confirmation runs on what some
  earlier state held for its id, anything else may change registry and journal.\<close>

inductive pairing_reach :: "PairingNet \<Rightarrow> PairingState \<Rightarrow> bool" for C where
  initial: "ps_pending s = Map.empty \<Longrightarrow> pairing_reach C s"
| started: "pairing_reach C s \<Longrightarrow> same_crypto C (pv_net V) \<Longrightarrow>
    start_pairing_ext V url ini re s = (r, s') \<Longrightarrow> pairing_reach C s'"
| confirming: "pairing_reach C s \<Longrightarrow> pairing_reach C s0 \<Longrightarrow> ps_pending s0 pid = Some p \<Longrightarrow>
    confirm_pending V p pid pin s = (r, s') \<Longrightarrow> pairing_reach C s'"
| expired: "pairing_reach C s \<Longrightarrow> pairing_reach C (drop_pending pid s)"
| elsewhere: "pairing_reach C s \<Longrightarrow> pairing_reach C (s\<lparr>ps_manager := m, ps_journal := js\<rparr>)"

definition pending_ok :: "PairingNet \<Rightarrow> PairingState \<Rightarrow> bool" where
  "pending_ok C s \<longleftrightarrow>
     (\<forall>pid p. ps_pending s pid = Some p \<longrightarrow>
        pd_pairing_id p = pid \<and> owns_key C (pd_expected_public_key p) (pd_expected_michi_id p))"

lemma jwrite_frame [simp]:
  "ps_pending (jwrite V st f s) = ps_pending s" "ps_manager (jwrite V st f s) = ps_manager s"
  by (simp_all add: jwrite_def)

lemma token_journal_frame [simp]:
  "ps_pending (token_journal V p pid c s) = ps_pending s"
  "ps_manager (token_journal V p pid c s) = ps_manager s"
  by (simp_all add: token_journal_def split: option.split sum.split)

lemma drop_pending_sub: "ps_pending (drop_pending pid s) \<subseteq>\<^sub>m ps_pending s"
  by (simp add: drop_pending_def map_le_def)

lemma confirm_pending_sub:
  assumes "confirm_pending V p pid pin s = (r, s')"
  shows "ps_pending s' \<subseteq>\<^sub>m ps_pending s"
  using assms
  by (auto simp: confirm_pending_def confirm_finish_def drop_pending_def map_le_def Let_def
      split: sum.splits option.splits prod.splits ConfirmOutcome.splits if_splits)

lemma pending_ok_sub: "pending_ok C s \<Longrightarrow> ps_pending s' \<subseteq>\<^sub>m ps_pending s \<Longrightarrow> pending_ok C s'"
  unfolding pending_ok_def map_le_def by (metis domI)

lemma pending_ok_start:
  assumes "start_pairing_ext V url ini re s = (r, s')" and "same_crypto C (pv_net V)" and "pending_ok C s"
  shows "pending_ok C s'"
proof (cases "start_remote_pairing V url ini re (ps_manager s)")
  case (Inr p)
  then have "ps_pending s' = (map_retain (\<lambda>_ v. pd_expires_at v > pv_clock V 0) (ps_pending s))
      (pd_pairing_id p \<mapsto> p)"
    using assms(1) by (auto simp: start_pairing_ext_def Let_def)
  with start_remote_ok [OF Inr] assms show ?thesis
    by (auto simp: pending_ok_def same_crypto_def owns_key_def)
qed (use assms in \<open>auto simp: start_pairing_ext_def\<close>)

lemma pairing_reach_ok: "pairing_reach C s \<Longrightarrow> pending_ok C s"
proof (induction rule: pairing_reach.induct)
  case (confirming s s0 pid p V pin r s')
  then show ?case using pending_ok_sub confirm_pending_sub by blast
next
  case (expired s pid)
  then show ?case using pending_ok_sub drop_pending_sub by blast
next
  case (elsewhere s m js)
  then show ?case by (simp add: pending_ok_def)
next
  case (started s V url ini re r s')
  show ?case by (rule pending_ok_start [OF started(3,2,4)])
qed (simp add: pending_ok_def)

lemma audio_entry_frame:
  assumes "audio_entry audio e = Inr e'"
  shows "en_receiver_id e' = en_receiver_id e" "en_michi_id e' = en_michi_id e"
    "en_paired e' = en_paired e" "en_token e' = en_token e" "en_base_url e' = en_base_url e"
    "en_revoked e' = en_revoked e" "en_qualification e' = en_qualification e"
  using assms unfolding audio_entry_def
  by (auto simp del: append.simps split: sum.splits if_splits)

lemma pinned_ok:
  assumes "pinned check moment p info = Inr u"
  shows "ri_server_id info = Some (pd_expected_server_id p)"
    "ri_michi_id info = Some (pd_expected_michi_id p)"
    "ri_public_key info = Some (pd_expected_public_key p)"
  using assms by (auto simp: pinned_def split: option.splits)

text \<open>What the receiver at an URL says about itself when asked for the \<open>k\<close>-th time.\<close>

definition announces_identity ::
  "PairingEnv \<Rightarrow> nat \<Rightarrow> bool \<Rightarrow> PendingReceiverPairing \<Rightarrow> bool" where
  "announces_identity V k has_identity p \<longleftrightarrow>
     (\<exists>info. client_get_info (pn_net (pv_net V)) k (new_client has_identity (pd_base_url p)) = Inr info
        \<and> ri_server_id info = Some (pd_expected_server_id p)
        \<and> ri_michi_id info = Some (pd_expected_michi_id p)
        \<and> ri_public_key info = Some (pd_expected_public_key p))"

lemma pair_recover_auto_url: "rc_base_url (snd (pair_recover_auto P k i key c)) = rc_base_url c"
  by (auto simp: pair_recover_auto_def pair_recover_def split: sum.split option.split)

lemma recover_confirmed_url: "rc_base_url (snd (recover_confirmed P k p c)) = rc_base_url c"
  using pair_recover_auto_url [of P k "Some (pd_expected_michi_id p)" "Some (pd_expected_public_key p)" c]
  by (auto simp: recover_confirmed_def split: sum.splits prod.splits)

lemma pair_confirm_url: "rc_base_url (snd (pair_confirm P ses pin c)) = rc_base_url c"
  by (auto simp: pair_confirm_def split: sum.split option.split)

lemma confirm_answered_url:
  assumes "confirm_answered P p r c = Confirmed c'"
  shows "rc_base_url c' = rc_base_url c"
  using assms recover_confirmed_url [of P 1 p c]
  by (auto simp: confirm_answered_def Let_def split: option.splits if_splits prod.splits)

lemma confirm_exchange_url:
  assumes "confirm_exchange P p pin c = (Confirmed c', u)"
  shows "rc_base_url c' = rc_base_url c"
proof -
  obtain r c1 where pc: "pair_confirm P (pd_pair_session_id p) pin c = (r, c1)" by fastforce
  then have c1: "rc_base_url c1 = rc_base_url c" using pair_confirm_url [of P _ pin c] by (metis snd_conv)
  obtain o2 c2 where rec: "recover_confirmed P 0 p c1 = (o2, c2)" by fastforce
  then have c2: "rc_base_url c2 = rc_base_url c1" using recover_confirmed_url [of P 0 p c1] by simp
  show ?thesis
    using assms pc rec c1 c2 confirm_answered_url
    by (auto simp: confirm_exchange_def split: sum.splits if_splits option.splits)
qed

lemma paired_entry_ok:
  assumes "paired_entry V p token info = Inr e" and "ri_michi_id info = Some i"
  shows "en_receiver_id e = i" "en_michi_id e = Some i" "en_paired e" "en_token e = token"
    "en_base_url e = pd_base_url p"
proof -
  from assms obtain audio b where b: "audio_entry audio b = Inr e" "en_receiver_id b = i"
      "en_michi_id b = Some i" "en_paired b" "en_token b = token" "en_base_url b = pd_base_url p"
    by (auto simp: paired_entry_def or_else_def simp del: append.simps split: option.splits)
  from audio_entry_frame [OF b(1)] b(2-)
  show "en_receiver_id e = i" "en_michi_id e = Some i" "en_paired e" "en_token e = token"
    "en_base_url e = pd_base_url p" by simp_all
qed

lemma paired_after_confirm_ok:
  assumes "paired_after_confirm V p c = Inr e" and "rc_base_url c = trim_end_slashes (pd_base_url p)"
  shows "en_receiver_id e = pd_expected_michi_id p" "en_michi_id e = Some (pd_expected_michi_id p)"
    "en_paired e" "en_token e = rc_token c" "en_base_url e = pd_base_url p"
    "announces_identity V 1 b p"
proof -
  from assms obtain info where info: "client_get_info (pn_net (pv_net V)) 1 c = Inr info"
      and pin: "pinned (\<lambda>_. Inr ()) ''post-confirmation'' p info = Inr ()"
      and e: "paired_entry V p (rc_token c) info = Inr e"
    by (auto simp: paired_after_confirm_def split: sum.splits)
  note ids = pinned_ok [OF pin]
  from paired_entry_ok [OF e ids(2)]
  show "en_receiver_id e = pd_expected_michi_id p" "en_michi_id e = Some (pd_expected_michi_id p)"
    "en_paired e" "en_token e = rc_token c" "en_base_url e = pd_base_url p" by simp_all
  have "client_get_info (pn_net (pv_net V)) 1 (new_client b (pd_base_url p)) = Inr info"
    using info assms(2) by (simp add: client_get_info_def new_client_def)
  then show "announces_identity V 1 b p" using ids unfolding announces_identity_def by blast
qed

end
