(* ===== verification/Pairing_Properties.thy ===== *)
theory Pairing_Properties
  imports Pairing_Theorems
begin

text \<open>
  The properties of pairing: the pinned identity, the journal of a confirmation, and what
  reconciliation leaves.
\<close>

lemma confirm_pairing_ok:
  assumes "confirm_pairing V pid pin s = (Inr d, s')"
  obtains p c u e where "ps_pending s pid = Some p" "pv_clock V 0 \<le> pd_expires_at p"
    "pre_confirm_check V p (new_client (mg_has_identity (ps_manager s)) (pd_base_url p)) = Inr ()"
    "confirm_exchange (pv_net V) p pin (new_client (mg_has_identity (ps_manager s)) (pd_base_url p))
       = (Confirmed c, u)"
    "paired_after_confirm V p c = Inr e" "d = en_receiver_id e"
    "ps_pending s' = (ps_pending s)(pid := None)"
    "mg_registry (ps_manager s') = reg_add e (mg_registry (ps_manager s))"
  using assms
  by (auto simp: confirm_pairing_def confirm_pending_def confirm_finish_def Let_def drop_pending_def
      upd_registry_def split: option.splits if_splits sum.splits prod.splits ConfirmOutcome.splits)

section \<open>A pairing, run\<close>

definition demo_pair_info :: ReceiverInfo where
  "demo_pair_info =
     demo_info\<lparr>ri_server_id := Some ''s1'', ri_michi_id := Some ''m1'', ri_public_key := Some ''k1'',
       ri_identity_scheme := Some ''ed25519-blake3-v1'', ri_service := Some ''michi-stream-standard'',
       ri_api_version := Some ''v1-lite'', ri_roles := Some [''audio_receiver'']\<rparr>"

definition demo_pairing_net :: PairingNet where
  "demo_pairing_net =
     \<lparr>pn_net = demo_net\<lparr>nt_info := \<lambda>_ _. Answer 200 [] (Inr demo_pair_info)\<rparr>,
      pn_start = \<lambda>_. Answer 200 [] (Inr \<lparr>sp_session_id = Some ''ses'', sp_expires_at = Some ''soon'',
        sp_server_michi_id = Some ''m1'', sp_server_public_key = Some ''k1'', sp_error = None\<rparr>),
      pn_confirm = \<lambda>_ _ _. Answer 200 [] (Inr \<lparr>cp_token = Some ''tok'', cp_expires_in = None,
        cp_device_id = None, cp_server_id = None, cp_error = None\<rparr>),
      pn_status = \<lambda>_ _. SendFailed True [], pn_recover_start = \<lambda>_ _. SendFailed True [],
      pn_recover = \<lambda>_ _ _ _. SendFailed True [], pn_session_probe = \<lambda>_ _. SendFailed True [],
      pn_decode = \<lambda>_. Inr (replicate 32 0), pn_decode_strict = \<lambda>_. Inr (replicate 32 0),
      pn_derive = \<lambda>_. Inr ''m1'', pn_sign = \<lambda>_. [], pn_rfc3339 = \<lambda>_. Inr 300\<rparr>"

definition demo_pairing :: PairingEnv where
  "demo_pairing =
     \<lparr>pv_net = demo_pairing_net, pv_clock = \<lambda>_. 0, pv_uuid = \<lambda>_. Inr (), pv_pairing_id = ''p1'',
      pv_has_pool = True, pv_has_store = True, pv_journal_ok = \<lambda>_. True,
      pv_encrypt = \<lambda>_ _. Inr ([1], [2]), pv_scent = \<lambda>_. None\<rparr>"

definition demo_unpaired :: PairingState where
  "demo_unpaired = \<lparr>ps_manager = new_manager True, ps_pending = Map.empty, ps_journal = []\<rparr>"

definition demo_pending :: PairingState where
  "demo_pending = snd (start_pairing_ext demo_pairing ''http://h/'' ''me'' False demo_unpaired)"

lemma demo_pending_reach: "pairing_reach demo_pairing_net demo_pending"
proof -
  have "same_crypto demo_pairing_net (pv_net demo_pairing)"
    by (simp add: demo_pairing_def same_crypto_def)
  moreover have "pairing_reach demo_pairing_net demo_unpaired"
    by (rule pairing_reach.initial) (simp add: demo_unpaired_def)
  ultimately show ?thesis unfolding demo_pending_def
    using pairing_reach.started [of demo_pairing_net demo_unpaired demo_pairing] surjective_pairing by blast
qed

lemma demo_confirm_ok: "fst (confirm_pairing demo_pairing ''p1'' ''123456'' demo_pending) = Inr ''m1''"
  by code_simp

section \<open>The identity of a paired receiver\<close>

text \<open>C22 (pinned identity). In every state the server can reach, a confirmation that succeeds registers
  the receiver under the identity of the very key it announced when the pairing began: the id is
  derived from 32 key bytes, the receiver announced this server id, Michi id and key again before
  and after the confirmation, the entry is paired at the URL of the pairing, the pending pairing is
  used up, and no other entry changes.\<close>

theorem paired_identity_is_pinned:
  assumes reach: "pairing_reach C s" and ok: "confirm_pairing V pid pin s = (Inr d, s')"
  shows "\<exists>p e. ps_pending s pid = Some p \<and> pv_clock V 0 \<le> pd_expires_at p
    \<and> owns_key C (pd_expected_public_key p) d \<and> d = pd_expected_michi_id p
    \<and> announces_identity V 0 (mg_has_identity (ps_manager s)) p
    \<and> announces_identity V 1 (mg_has_identity (ps_manager s)) p
    \<and> map_of (mg_registry (ps_manager s')) d = Some e \<and> en_michi_id e = Some d \<and> en_paired e
    \<and> en_base_url e = pd_base_url p
    \<and> ps_pending s' pid = None
    \<and> (\<forall>i. i \<noteq> d \<longrightarrow> map_of (mg_registry (ps_manager s')) i = map_of (mg_registry (ps_manager s)) i)"
  using ok
proof (rule confirm_pairing_ok)
  fix p c u e
  let ?h = "mg_has_identity (ps_manager s)"
  assume p: "ps_pending s pid = Some p" "pv_clock V 0 \<le> pd_expires_at p"
    and pre: "pre_confirm_check V p (new_client ?h (pd_base_url p)) = Inr ()"
    and ex: "confirm_exchange (pv_net V) p pin (new_client ?h (pd_base_url p)) = (Confirmed c, u)"
    and e: "paired_after_confirm V p c = Inr e" "d = en_receiver_id e"
    and s': "ps_pending s' = (ps_pending s)(pid := None)"
      "mg_registry (ps_manager s') = reg_add e (mg_registry (ps_manager s))"
  have "rc_base_url c = trim_end_slashes (pd_base_url p)"
    using confirm_exchange_url [OF ex] by (simp add: new_client_def)
  note entry = paired_after_confirm_ok [OF e(1) this]
  have "announces_identity V 0 ?h p"
    using pre pinned_ok by (auto simp: pre_confirm_check_def announces_identity_def split: sum.splits)
  moreover have "owns_key C (pd_expected_public_key p) (pd_expected_michi_id p)"
    using pairing_reach_ok [OF reach] p(1) by (simp add: pending_ok_def)
  ultimately show ?thesis using p s' e(2) entry
    by (intro exI [of _ p] exI [of _ e]) (auto simp: reg_add_def update_conv)
qed

theorem paired_identity_is_pinned_witness:
  "owns_key demo_pairing_net ''k1'' ''m1'' \<and>
   (\<exists>e. map_of (mg_registry (ps_manager (snd (confirm_pairing demo_pairing ''p1'' ''123456'' demo_pending))))
          ''m1'' = Some e \<and> en_paired e \<and> en_base_url e = ''http://h'')"
proof -
  have run: "confirm_pairing demo_pairing ''p1'' ''123456'' demo_pending
      = (Inr ''m1'', snd (confirm_pairing demo_pairing ''p1'' ''123456'' demo_pending))"
    using demo_confirm_ok by (metis prod.collapse)
  have pending: "map_option (\<lambda>p. (pd_expected_public_key p, pd_base_url p)) (ps_pending demo_pending ''p1'')
      = Some (''k1'', ''http://h'')"
    by code_simp
  from paired_identity_is_pinned [OF demo_pending_reach run] pending show ?thesis by auto
qed

section \<open>The journal of a confirmation\<close>

lemma upd_journal_twice:
  assumes "\<And>j. pj_pairing_id (g j) = pj_pairing_id j"
  shows "upd_journal pid f (upd_journal pid g js) = upd_journal pid (f \<circ> g) js"
  using assms by (simp add: upd_journal_def comp_def)

lemma upd_journal_mem: "j \<in> set js \<Longrightarrow> pj_pairing_id j = pid \<Longrightarrow> f j \<in> set (upd_journal pid f js)"
  unfolding upd_journal_def by force

lemma upd_journal_others:
  assumes "\<And>j. pj_pairing_id (f j) = pj_pairing_id j"
  shows "filter (\<lambda>j. pj_pairing_id j \<noteq> pid) (upd_journal pid f js) = filter (\<lambda>j. pj_pairing_id j \<noteq> pid) js"
  using assms by (induction js) (auto simp: upd_journal_def)

lemma unrecovered_listed: "j \<in> set (list_unrecovered js) \<longleftrightarrow> j \<in> set js \<and> unrecovered j"
  by (simp add: list_unrecovered_def)

text \<open>Whether a confirmation gets as far as the request.\<close>

definition confirm_is_sent :: "PairingEnv \<Rightarrow> string \<Rightarrow> PairingState \<Rightarrow> bool" where
  "confirm_is_sent V pid s \<longleftrightarrow>
     (\<exists>p. ps_pending s pid = Some p \<and> pv_clock V 0 \<le> pd_expires_at p
        \<and> pre_confirm_check V p (new_client (mg_has_identity (ps_manager s)) (pd_base_url p)) = Inr ())"

text \<open>What a run of journal writes to one row comes to.\<close>

definition journal_run :: "string \<Rightarrow> (PairingJournalEntry \<Rightarrow> bool) \<Rightarrow> PairingState \<Rightarrow> PairingState \<Rightarrow> bool" where
  "journal_run pid Q s s' \<longleftrightarrow>
     (\<exists>f. ps_journal s' = upd_journal pid f (ps_journal s)
        \<and> (\<forall>j. pj_pairing_id (f j) = pj_pairing_id j \<and> Q (f j)))"

lemma journal_run_write:
  assumes "pv_has_pool V" "pv_journal_ok V st"
    and "\<And>js. g js = upd_journal pid h js" and "\<And>j. pj_pairing_id (h j) = pj_pairing_id j"
    and "\<And>j. P j \<Longrightarrow> Q (h j)" and "journal_run pid P s s1"
  shows "journal_run pid Q s (jwrite V st g s1)"
proof -
  obtain f where f: "ps_journal s1 = upd_journal pid f (ps_journal s)"
      "\<And>j. pj_pairing_id (f j) = pj_pairing_id j \<and> P (f j)"
    using assms(6) by (auto simp: journal_run_def)
  show ?thesis unfolding journal_run_def
    using assms f by (intro exI [of _ "h \<circ> f"]) (simp add: jwrite_def upd_journal_twice)
qed

lemma journal_run_frame:
  "journal_run pid Q s s1 \<Longrightarrow> ps_journal s2 = ps_journal s1 \<Longrightarrow> journal_run pid Q s s2"
  by (simp add: journal_run_def)

lemma drop_pending_journal [simp]: "ps_journal (drop_pending pid s) = ps_journal s"
  by (simp add: drop_pending_def)

lemma confirm_pending_journal:
  assumes pool: "pv_has_pool V" "\<And>st. pv_journal_ok V st"
    and run: "confirm_pending V p pid pin s = (r, s')"
    and sent: "pre_confirm_check V p (new_client (mg_has_identity (ps_manager s)) (pd_base_url p)) = Inr ()"
  shows "journal_run pid (\<lambda>j. if is_ok r then pj_state j = ''persisted'' else unrecovered j) s s'"
proof -
  define s1 where "s1 = jwrite V ''confirm_sent'' (journal_confirm_sent (pv_clock V 1) pid) s"
  have s1: "journal_run pid unrecovered s s1" unfolding s1_def
    by (rule journal_run_write [OF pool journal_confirm_sent_def [THEN fun_cong], where P = "\<lambda>_. True"])
      (auto simp: unrecovered_def journal_run_def upd_journal_def intro!: exI [of _ "\<lambda>j. j"])
  obtain outcome unclear where ex: "confirm_exchange (pv_net V) p pin
      (new_client (mg_has_identity (ps_manager s)) (pd_base_url p)) = (outcome, unclear)" by fastforce
  define s2 where "s2 = (case unclear of
      Some msg \<Rightarrow> jwrite V ''remote_outcome_unknown'' (journal_outcome_unknown (pv_clock V 2) pid msg) s1
    | None \<Rightarrow> s1)"
  have s2: "journal_run pid unrecovered s s2" unfolding s2_def
    by (auto split: option.split intro!: s1 journal_run_write
          [OF pool journal_outcome_unknown_def [THEN fun_cong], where P = unrecovered])
      (auto simp: unrecovered_def)
  have fin: "(r, s') = (case outcome of
        Refused e gone \<Rightarrow> (Inl e, if gone then drop_pending pid s2 else s2)
      | Confirmed c \<Rightarrow> confirm_finish V p pid c (token_journal V p pid c s2))"
    using run [symmetric] sent ex unfolding s2_def s1_def
    by (simp add: confirm_pending_def Let_def del: One_nat_def)
  show ?thesis
  proof (cases outcome)
    case (Refused e gone)
    then show ?thesis using fin s2 by (auto intro: journal_run_frame)
  next
    case (Confirmed c)
    have tok: "journal_run pid unrecovered s (token_journal V p pid c s2)"
      using s2 by (auto simp: token_journal_def split: option.split sum.split
          intro!: journal_run_write [OF pool journal_token_received_def [THEN fun_cong], where P = unrecovered])
        (auto simp: unrecovered_def)
    show ?thesis
    proof (cases "paired_after_confirm V p c")
      case (Inl e)
      then show ?thesis using fin Confirmed
        by (auto simp: confirm_finish_def intro!: tok journal_run_write
            [OF pool journal_recovery_required_def [THEN fun_cong], where P = unrecovered])
          (auto simp: unrecovered_def)
    next
      case (Inr entry)
      have "journal_run pid (\<lambda>j. pj_state j = ''persisted'') s
        (jwrite V ''persisted'' (journal_completed (pv_clock V 6) pid)
          ((token_journal V p pid c s2)\<lparr>ps_manager := m\<rparr>))" for m
        by (rule journal_run_write [OF pool journal_completed_def [THEN fun_cong], where P = unrecovered])
          (auto intro: journal_run_frame [OF tok])
      then show ?thesis using fin Confirmed Inr
        by (auto simp: confirm_finish_def Let_def intro!: journal_run_frame [OF _ drop_pending_journal])
    qed
  qed
qed

text \<open>C23 (journal). With a journal that can be written, a confirmation that reaches the request leaves
  the row of its pairing persisted when it succeeds and on the list of unrecovered pairings
  otherwise; one that stops before the request changes no row. Rows of other pairings are never
  touched.\<close>

theorem confirmation_is_on_record:
  assumes pool: "pv_has_pool V" "\<And>st. pv_journal_ok V st"
    and run: "confirm_pairing V pid pin s = (r, s')"
    and row: "j \<in> set (ps_journal s)" "pj_pairing_id j = pid"
  shows "(if confirm_is_sent V pid s
          then \<exists>j'. pj_pairing_id j' = pid
                 \<and> (if is_ok r then j' \<in> set (ps_journal s') \<and> pj_state j' = ''persisted''
                    else j' \<in> set (list_unrecovered (ps_journal s')))
          else is_err r \<and> ps_journal s' = ps_journal s)
    \<and> filter (\<lambda>j. pj_pairing_id j \<noteq> pid) (ps_journal s')
        = filter (\<lambda>j. pj_pairing_id j \<noteq> pid) (ps_journal s)"
proof (cases "confirm_is_sent V pid s")
  case True
  then obtain p where p: "ps_pending s pid = Some p" "pv_clock V 0 \<le> pd_expires_at p"
      "pre_confirm_check V p (new_client (mg_has_identity (ps_manager s)) (pd_base_url p)) = Inr ()"
    by (auto simp: confirm_is_sent_def)
  then have "confirm_pending V p pid pin s = (r, s')" using run by (simp add: confirm_pairing_def)
  then obtain f where f: "ps_journal s' = upd_journal pid f (ps_journal s)"
      "\<And>j. pj_pairing_id (f j) = pj_pairing_id j"
      "\<And>j. if is_ok r then pj_state (f j) = ''persisted'' else unrecovered (f j)"
    using confirm_pending_journal [OF pool _ p(3)] unfolding journal_run_def by blast
  have "f j \<in> set (ps_journal s')" unfolding f(1) by (rule upd_journal_mem [OF row])
  then show ?thesis using True f(2,3) [of j] row(2) upd_journal_others [of f] f(1,2)
    by (intro conjI) (auto simp: unrecovered_listed intro!: exI [of _ "f j"])
next
  case False
  then have "is_err r \<and> ps_journal s' = ps_journal s"
    using run by (auto simp: confirm_pairing_def confirm_pending_def confirm_is_sent_def Let_def
        split: option.splits if_splits sum.splits)
  then show ?thesis using False by simp
qed

theorem confirmation_is_on_record_witness:
  "confirm_is_sent demo_pairing ''p1'' demo_pending \<and>
   (\<exists>j'. pj_pairing_id j' = ''p1'' \<and> pj_state j' = ''persisted''
      \<and> j' \<in> set (ps_journal (snd (confirm_pairing demo_pairing ''p1'' ''123456'' demo_pending))))"
proof -
  have run: "confirm_pairing demo_pairing ''p1'' ''123456'' demo_pending
      = (Inr ''m1'', snd (confirm_pairing demo_pairing ''p1'' ''123456'' demo_pending))"
    using demo_confirm_ok by (metis prod.collapse)
  have "map pj_pairing_id (ps_journal demo_pending) = [''p1'']" by code_simp
  then obtain j where j: "j \<in> set (ps_journal demo_pending)" "pj_pairing_id j = ''p1''"
    by (cases "ps_journal demo_pending") auto
  have pool: "pv_has_pool demo_pairing" "\<And>st. pv_journal_ok demo_pairing st"
    by (simp_all add: demo_pairing_def)
  from confirmation_is_on_record [OF pool run j] show ?thesis
    by (cases "confirm_is_sent demo_pairing ''p1'' demo_pending") auto
qed

text \<open>The journal already says persisted when the confirmation returns, before its caller has stored the
  receiver: a crash in between leaves nothing to recover.\<close>

lemma crash_after_confirm_loses_pairing:
  "list_unrecovered (ps_journal (snd (confirm_pairing demo_pairing ''p1'' ''123456'' demo_pending))) = []"
  by code_simp

end
