(* ===== verification/Reconcile_Properties.thy ===== *)
theory Reconcile_Properties
  imports Pairing_Properties
begin

text \<open>
  What \<open>reconcile_unrecovered_pairings\<close> leaves of the open pairings, and how a confirmed pairing is
  recovered.
\<close>

section \<open>Evidence\<close>

abbreviation row_client :: "PairingJournalEntry \<Rightarrow> ReceiverClient" where
  "row_client j \<equiv> new_client True (pj_base_url j)"

text \<open>The receiver handed out a token for the identity of the row, accepted it, and named this id.\<close>

definition recovered_as :: "ServerEnv \<Rightarrow> PairingJournalEntry \<Rightarrow> string \<Rightarrow> bool" where
  "recovered_as A j i \<longleftrightarrow>
     (\<exists>r c. pair_recover_auto (pv_net (sv_pairing A)) 0 (Some (pj_michi_id j)) None (row_client j)
              = (Inr r, c)
        \<and> verify_token (pv_net (sv_pairing A)) 1 c = Inr True \<and> cp_device_id r = Some i)"

definition reauthenticated :: "ServerEnv \<Rightarrow> PairingJournalEntry \<Rightarrow> bool" where
  "reauthenticated A j \<longleftrightarrow>
     (\<exists>m info m'. authenticate_url (shifted 2 (pn_net (pv_net (sv_pairing A)))) (sv_clock A)
                    (pj_base_url j) m = (Inr info, m'))"

definition on_record :: "ServerEnv \<Rightarrow> PairingJournalEntry \<Rightarrow> ReceiverDb \<Rightarrow> bool" where
  "on_record A j db \<longleftrightarrow>
     get_receiver (pj_receiver_id j) db \<noteq> None
     \<or> (\<exists>i. recovered_as A j i \<and> get_receiver i db \<noteq> None \<and> get_receiver_credential i db \<noteq> None)
     \<or> reauthenticated A j"

definition remote_gone :: "ServerEnv \<Rightarrow> PairingJournalEntry \<Rightarrow> bool" where
  "remote_gone A j \<longleftrightarrow>
     (\<exists>session st. pj_remote_session_id j = Some session
        \<and> pair_status (pv_net (sv_pairing A)) 0 session (row_client j) = Inr st
        \<and> List.member [''expired'', ''not_found'', ''locked''] (st_status st))"

definition db_grows :: "ReceiverDb \<Rightarrow> ReceiverDb \<Rightarrow> bool" where
  "db_grows db db' \<longleftrightarrow>
     (\<forall>i. get_receiver i db \<noteq> None \<longrightarrow> get_receiver i db' \<noteq> None)
     \<and> (\<forall>i. get_receiver_credential i db \<noteq> None \<longrightarrow> get_receiver_credential i db' \<noteq> None)"

lemma db_grows_refl [simp]: "db_grows db db"
  by (simp add: db_grows_def)

lemma db_grows_trans: "db_grows a b \<Longrightarrow> db_grows b c \<Longrightarrow> db_grows a c"
  by (auto simp: db_grows_def)

lemma on_record_grows: "on_record A j db \<Longrightarrow> db_grows db db' \<Longrightarrow> on_record A j db'"
  unfolding on_record_def db_grows_def by blast

lemma find_None_mem: "List.find P xs \<noteq> None \<longleftrightarrow> (\<exists>x \<in> set xs. P x)"
  by (auto simp: find_None_iff)

lemma get_receiver_iff: "get_receiver i db \<noteq> None \<longleftrightarrow> i \<in> pr_id ` set (rd_receivers db)"
  by (auto simp: get_receiver_def find_None_iff)

lemma get_credential_iff:
  "get_receiver_credential i db \<noteq> None \<longleftrightarrow> i \<in> pc_receiver_id ` set (rd_credentials db)"
  by (auto simp: get_receiver_credential_def find_None_iff)

lemma upsert_receiver_ids: "pr_id ` set (upsert_receiver rec rows) = insert (pr_id rec) (pr_id ` set rows)"
proof (cases "list_ex (\<lambda>r. pr_id r = pr_id rec) rows")
  case True
  then have "map pr_id (upsert_receiver rec rows) = map pr_id rows"
    by (simp add: upsert_receiver_def Let_def)
  then have "pr_id ` set (upsert_receiver rec rows) = pr_id ` set rows" by (metis set_map)
  moreover have "pr_id rec \<in> pr_id ` set rows" using True by (simp add: list_ex_iff image_iff) metis
  ultimately show ?thesis by (simp add: insert_absorb)
qed (simp add: upsert_receiver_def Let_def)

lemma save_credential_ids:
  "pc_receiver_id ` set (save_credential cred rows) = insert (pc_receiver_id cred) (pc_receiver_id ` set rows)"
proof (cases "list_ex (\<lambda>r. pc_receiver_id r = pc_receiver_id cred) rows")
  case True
  then have "map pc_receiver_id (save_credential cred rows) = map pc_receiver_id rows"
    by (simp add: save_credential_def)
  then have "pc_receiver_id ` set (save_credential cred rows) = pc_receiver_id ` set rows"
    by (metis set_map)
  moreover have "pc_receiver_id cred \<in> pc_receiver_id ` set rows"
    using True by (simp add: list_ex_iff image_iff) metis
  ultimately show ?thesis by (simp add: insert_absorb)
qed (simp add: save_credential_def)

lemma persist_transaction_stores:
  "get_receiver (pr_id rec) (persist_paired_transaction rec cred db) \<noteq> None"
  "get_receiver_credential (pc_receiver_id cred) (persist_paired_transaction rec cred db) \<noteq> None"
  "db_grows db (persist_paired_transaction rec cred db)"
  unfolding get_receiver_iff get_credential_iff db_grows_def
  by (simp_all add: persist_paired_transaction_def upsert_receiver_ids save_credential_ids)

section \<open>One row\<close>

definition row_result ::
  "ServerEnv \<Rightarrow> PairingJournalEntry \<Rightarrow> ReceiverDb \<Rightarrow> PairingJournalEntry \<Rightarrow> PairingJournalEntry \<Rightarrow> bool"
where
  "row_result A j db k k' \<longleftrightarrow>
     pj_pairing_id k' = pj_pairing_id k
     \<and> (pj_state k' = pj_state k \<or> pj_state k' = ''recovery_required''
        \<or> (pj_state k' = ''persisted'' \<and> on_record A j db)
        \<or> (pj_state k' = ''failed'' \<and> remote_gone A j))"

text \<open>A step on the server that writes at most the row of \<open>j\<close>, with one of the results.\<close>

definition row_step :: "ServerEnv \<Rightarrow> PairingJournalEntry \<Rightarrow> server \<Rightarrow> server \<Rightarrow> bool" where
  "row_step A j x x' \<longleftrightarrow>
     db_grows (snd x) (snd x')
     \<and> (\<exists>f. ps_journal (fst x') = upd_journal (pj_pairing_id j) f (ps_journal (fst x))
          \<and> (\<forall>k. row_result A j (snd x') k (f k)))"

lemma row_step_frame:
  assumes "ps_journal (fst x') = ps_journal (fst x)" and "db_grows (snd x) (snd x')"
  shows "row_step A j x x'"
  unfolding row_step_def using assms
  by (intro conjI exI [of _ "\<lambda>k. k"]) (simp_all add: row_result_def upd_journal_def)

lemma row_step_refl [simp]: "row_step A j x x"
  by (simp add: row_step_frame)

lemma row_step_recovery:
  assumes "ps_journal (fst x1) = ps_journal (fst x)" and "snd x1 = snd x"
  shows "row_step A j x (require_recovery A j reason x1)"
proof (cases "sv_journal_ok A ''recovery_required''")
  case True
  then show ?thesis unfolding row_step_def using assms
    by (intro conjI exI [of _ "\<lambda>k. k\<lparr>pj_state := ''recovery_required'', pj_error_reason := Some reason,
          pj_updated_at := sv_clock A\<rparr>"])
      (simp_all add: require_recovery_def server_journal_def journal_recovery_required_def row_result_def)
qed (use assms in \<open>auto simp: require_recovery_def server_journal_def intro: row_step_frame\<close>)

lemma row_step_complete:
  assumes "ps_journal (fst x1) = ps_journal (fst x)" and "db_grows (snd x) (snd x1)"
    and "on_record A j (snd x1)"
  shows "row_step A j x (complete_journal A j x1)"
proof (cases "sv_journal_ok A ''persisted''")
  case True
  then show ?thesis unfolding row_step_def using assms
    by (intro conjI exI [of _ "\<lambda>k. k\<lparr>pj_state := ''persisted'', pj_updated_at := sv_clock A\<rparr>"])
      (simp_all add: complete_journal_def server_journal_def journal_completed_def row_result_def)
qed (use assms in \<open>auto simp: complete_journal_def server_journal_def intro: row_step_frame\<close>)

lemma row_step_failed:
  assumes "remote_gone A j"
  shows "row_step A j x (server_journal A ''failed'' (journal_failed now (pj_pairing_id j) reason) x)"
proof (cases "sv_journal_ok A ''failed''")
  case True
  then show ?thesis unfolding row_step_def using assms
    by (intro conjI exI [of _ "\<lambda>k. k\<lparr>pj_state := ''failed'', pj_error_reason := Some reason,
          pj_updated_at := now\<rparr>"])
      (simp_all add: server_journal_def journal_failed_def row_result_def)
qed (auto simp: server_journal_def)

lemma add_recovered_complete:
  "add_recovered A (pj_pairing_id j) rec cred e x =
     complete_journal A j ((fst x)\<lparr>ps_manager := upd_registry (reg_add e) (ps_manager (fst x))\<rparr>,
       persist_paired_transaction rec cred (snd x))"
  by (simp add: add_recovered_def complete_journal_def)

lemma row_step_added:
  assumes "pr_id rec = pj_receiver_id j \<or> (recovered_as A j (pr_id rec) \<and> pc_receiver_id cred = pr_id rec)"
  shows "row_step A j x (add_recovered A (pj_pairing_id j) rec cred e x)"
  unfolding add_recovered_complete
proof (rule row_step_complete)
  show "on_record A j (snd ((fst x)\<lparr>ps_manager := upd_registry (reg_add e) (ps_manager (fst x))\<rparr>,
       persist_paired_transaction rec cred (snd x)))"
    using assms persist_transaction_stores [where rec = rec and cred = cred and db = "snd x"]
    by (auto simp: on_record_def)
qed (use persist_transaction_stores(3) in simp_all)

lemma persist_paired_receiver_step:
  assumes "persist_paired_receiver A i x = (r, x')"
  shows "fst x' = fst x" "db_grows (snd x) (snd x')" "is_ok r \<Longrightarrow> get_receiver i (snd x') \<noteq> None"
  using assms persist_transaction_stores(1) [of "stored_receiver A i e" for e]
    persist_transaction_stores(3)
  by (auto simp: persist_paired_receiver_def stored_receiver_def simp del: append.simps bex_simps
      split: option.splits sum.splits if_splits prod.splits)

lemma recover_device_id:
  assumes "pair_recover_auto P k i key c = (Inr r, c')"
  shows "cp_device_id r \<noteq> None" "cp_token r \<noteq> None"
  using assms
  by (auto simp: pair_recover_auto_def pair_recover_def recover_violation_def present_def
      simp del: append.simps split: sum.splits option.splits if_splits)

lemma recover_from_token_step:
  assumes "recover_from_token A j x = Some x'"
  shows "row_step A j x x'"
  using assms
  by (auto simp: recover_from_token_def Let_def recovered_receiver_def simp del: append.simps
      split: option.splits if_splits sum.splits bool.splits intro!: row_step_added)

lemma recover_remote_step:
  assumes "recover_remote A j (row_client j) x = (b, x')"
  shows "row_step A j x x'"
proof (cases "pair_recover_auto (pv_net (sv_pairing A)) 0 (Some (pj_michi_id j)) None (row_client j)")
  case (Pair a c)
  show ?thesis
  proof (cases a)
    case (Inl e)
    then show ?thesis using assms Pair by (auto simp: recover_remote_def Let_def intro: row_step_recovery)
  next
    case (Inr r)
    obtain i where i: "cp_device_id r = Some i" using recover_device_id(1) Pair Inr by blast
    have rec: "recovered_as A j i" if "verify_token (pv_net (sv_pairing A)) 1 c = Inr True"
      using that Pair Inr i unfolding recovered_as_def by blast
    show ?thesis using assms Pair Inr i rec
      by (auto simp: recover_remote_def Let_def or_else_def unwrap_or_def stored_credential_def
          recovered_receiver_def simp del: append.simps One_nat_def
          split: sum.splits option.splits if_splits bool.splits prod.splits
          intro!: row_step_recovery row_step_added)
  qed
qed

lemma reconcile_remote_step:
  assumes "reconcile_remote A j x = (b, x')"
  shows "row_step A j x x'"
proof (cases "pj_remote_session_id j")
  case None
  then show ?thesis using assms by (simp add: reconcile_remote_def)
next
  case (Some session)
  let ?N = "pn_net (pv_net (sv_pairing A))" and ?m = "ps_manager (fst x)"
  show ?thesis
  proof (cases "is_music_stream (client_get_info ?N 1 (row_client j))")
    case True
    have auth: "on_record A j (snd x)"
      if "authenticate_url (shifted 2 ?N) (sv_clock A) (pj_base_url j) ?m = (Inr info, m)" for info m
      using that unfolding on_record_def reauthenticated_def by blast
    show ?thesis using assms True Some auth
      by (auto simp: reconcile_remote_def Let_def simp del: append.simps One_nat_def
          split: if_splits prod.splits sum.splits intro!: row_step_recovery row_step_complete)
  next
    case False
    have gone: "remote_gone A j" if "pair_status (pv_net (sv_pairing A)) 0 session (row_client j) = Inr st"
      "List.member [''expired'', ''not_found'', ''locked''] (st_status st)" for st
      using that Some unfolding remote_gone_def by blast
    show ?thesis using assms False Some gone
      by (auto simp: reconcile_remote_def Let_def simp del: append.simps One_nat_def
          split: if_splits prod.splits sum.splits intro: recover_remote_step row_step_failed)
  qed
qed

lemma reconcile_row_step:
  assumes "reconcile_row A j x = (b, x')"
  shows "row_step A j x x'"
proof (cases "sv_lookup_ok A \<and> get_receiver (pj_receiver_id j) (snd x) \<noteq> None")
  case True
  then have "x' = complete_journal A j x" using assms by (simp add: reconcile_row_def)
  then show ?thesis using True by (simp add: row_step_complete on_record_def)
next
  case no_row: False
  show ?thesis
  proof (cases "entry_of (ps_manager (fst x)) (pj_receiver_id j)")
    case (Some e)
    obtain r x1 where p: "persist_paired_receiver A (pj_receiver_id j) x = (r, x1)" by (metis surj_pair)
    note stored = persist_paired_receiver_step [OF p]
    show ?thesis
    proof (cases r)
      case (Inl e)
      then show ?thesis using assms no_row Some p stored
        by (auto simp: reconcile_row_def intro!: row_step_frame)
    next
      case (Inr u)
      then have "x' = complete_journal A j x1" using assms no_row Some p
        by (auto simp: reconcile_row_def)
      then show ?thesis using Inr stored by (simp add: row_step_complete on_record_def)
    qed
  next
    case None
    then show ?thesis using assms no_row
      by (auto simp: reconcile_row_def split: option.splits
          intro: recover_from_token_step reconcile_remote_step)
  qed
qed

section \<open>All rows\<close>

lemma upd_journal_other:
  "\<lbrakk>pj_pairing_id k = pid'; pid' \<noteq> pid; k \<in> set js\<rbrakk> \<Longrightarrow> k \<in> set (upd_journal pid f js)"
  unfolding upd_journal_def by force

lemma upd_journal_ids:
  "(\<And>k. pj_pairing_id (f k) = pj_pairing_id k) \<Longrightarrow>
   map pj_pairing_id (upd_journal pid f js) = map pj_pairing_id js"
  by (simp add: upd_journal_def)

lemma reconcile_rows_grow:
  "reconcile_rows E js n x = (n', x') \<Longrightarrow> db_grows (snd x) (snd x')"
proof (induction js arbitrary: n x)
  case (Cons j js)
  obtain b x1 where r: "reconcile_row (E j) j x = (b, x1)" by (metis surj_pair)
  show ?case using Cons r reconcile_row_step [OF r] db_grows_trans by (fastforce simp: row_step_def)
qed simp

lemma reconcile_rows_other:
  assumes "reconcile_rows E js n x = (n', x')" and "pj_pairing_id k \<notin> pj_pairing_id ` set js"
    and "k \<in> set (ps_journal (fst x))"
  shows "k \<in> set (ps_journal (fst x'))"
  using assms
proof (induction js arbitrary: n x)
  case (Cons j js)
  obtain b x1 where r: "reconcile_row (E j) j x = (b, x1)" by (metis surj_pair)
  then have "k \<in> set (ps_journal (fst x1))"
    using reconcile_row_step [OF r] Cons.prems upd_journal_other by (fastforce simp: row_step_def)
  then show ?case using Cons r by (fastforce split: prod.splits)
qed simp

lemma reconcile_rows_result:
  assumes "reconcile_rows E js n x = (n', x')" and "j \<in> set js"
    and "distinct (map pj_pairing_id js)" and "set js \<subseteq> set (ps_journal (fst x))"
  shows "\<exists>j' \<in> set (ps_journal (fst x')). row_result (E j) j (snd x') j j'"
  using assms
proof (induction js arbitrary: n x)
  case (Cons i js)
  obtain b x1 where r: "reconcile_row (E i) i x = (b, x1)" by (metis surj_pair)
  then obtain n1 where rest: "reconcile_rows E js n1 x1 = (n', x')" using Cons.prems(1) by auto
  from reconcile_row_step [OF r] obtain f where f:
      "ps_journal (fst x1) = upd_journal (pj_pairing_id i) f (ps_journal (fst x))"
      "\<And>k. row_result (E i) i (snd x1) k (f k)"
    by (auto simp: row_step_def)
  have ids: "\<And>k. pj_pairing_id (f k) = pj_pairing_id k" using f(2) by (simp add: row_result_def)
  show ?case
  proof (cases "j = i")
    case True
    have "f i \<in> set (ps_journal (fst x1))"
      unfolding f(1) using Cons.prems(4) by (auto intro: upd_journal_mem)
    then have "f i \<in> set (ps_journal (fst x'))"
      by (rule reconcile_rows_other [OF rest, rotated]) (use Cons.prems(3) ids in auto)
    moreover have "row_result (E i) i (snd x') i (f i)"
      using f(2) [of i] on_record_grows [OF _ reconcile_rows_grow [OF rest]] by (auto simp: row_result_def)
    ultimately show ?thesis using True by blast
  next
    case False
    have "set js \<subseteq> set (ps_journal (fst x1))"
    proof
      fix k assume k: "k \<in> set js"
      have "pj_pairing_id k \<noteq> pj_pairing_id i" using imageI [OF k, of pj_pairing_id] Cons.prems(3) by auto
      then show "k \<in> set (ps_journal (fst x1))"
        unfolding f(1) using k Cons.prems(4) by (intro upd_journal_other [OF refl]) auto
    qed
    then show ?thesis using Cons.IH [OF rest] Cons.prems False by auto
  qed
qed simp

text \<open>C24 (reconciliation). Whatever the network and the database answer for each row, every pairing that
  was open before a reconciliation is afterwards either still on the list of unrecovered pairings,
  or failed because the receiver reported its session as expired, not found or locked, or persisted
  with evidence on record: a row of its receiver, or the row and the credential of the id under
  which the receiver handed out and accepted a token, or a successful mutual authentication. No
  stored receiver or credential disappears.\<close>

theorem reconciliation_loses_no_pairing:
  assumes run: "reconcile_unrecovered_pairings None E x = (r, x')"
    and keys: "distinct (map pj_pairing_id (ps_journal (fst x)))"
    and j: "j \<in> set (list_unrecovered (ps_journal (fst x)))"
  shows "(\<exists>j' \<in> set (ps_journal (fst x')). pj_pairing_id j' = pj_pairing_id j
    \<and> (j' \<in> set (list_unrecovered (ps_journal (fst x')))
       \<or> (pj_state j' = ''failed'' \<and> remote_gone (E j) j)
       \<or> (pj_state j' = ''persisted'' \<and> on_record (E j) j (snd x'))))
    \<and> db_grows (snd x) (snd x')"
proof -
  obtain n where rows: "reconcile_rows E (list_unrecovered (ps_journal (fst x))) 0 x = (n, x')"
    using run by (auto simp: reconcile_unrecovered_pairings_def split: prod.splits)
  have grow: "db_grows (snd x) (snd x')" by (rule reconcile_rows_grow [OF rows])
  have "distinct (map pj_pairing_id (list_unrecovered (ps_journal (fst x))))"
    using keys by (simp add: list_unrecovered_def distinct_map inj_on_def)
  moreover have "set (list_unrecovered (ps_journal (fst x))) \<subseteq> set (ps_journal (fst x))"
    by (auto simp: unrecovered_listed)
  ultimately obtain j' where "j' \<in> set (ps_journal (fst x'))" "row_result (E j) j (snd x') j j'"
    using reconcile_rows_result [OF rows j] by blast
  moreover have "unrecovered j" using j by (simp add: unrecovered_listed)
  ultimately show ?thesis using grow
    by (auto simp: row_result_def unrecovered_listed unrecovered_def intro!: bexI [of _ j'])
qed

section \<open>A recovery, run\<close>

text \<open>A confirmation was sent and the answer lost; asked again, the receiver reports it as confirmed and
  hands out a token for the device \<open>''other''\<close>.\<close>

definition demo_recovery_net :: PairingNet where
  "demo_recovery_net =
     demo_pairing_net\<lparr>pn_net := demo_net,
       pn_status := \<lambda>_ _. Answer 200 [] (Inr \<lparr>st_session_id = ''ses'', st_status = ''confirmed''\<rparr>),
       pn_recover_start := \<lambda>_ _. Answer 200 [] (Inr \<lparr>rp_challenge_nonce = ''n'',
         rp_server_michi_id = ''m1'', rp_server_public_key = ''k1''\<rparr>),
       pn_recover := \<lambda>_ _ _ _. Answer 200 [] (Inr \<lparr>cp_token = Some ''tok2'', cp_expires_in = Some 1,
         cp_device_id = Some ''other'', cp_server_id = Some ''s1'', cp_error = None\<rparr>),
       pn_session_probe := \<lambda>_ _. Answer 200 [] (Inr JNull)\<rparr>"

definition demo_server :: ServerEnv where
  "demo_server =
     \<lparr>sv_pairing = demo_pairing\<lparr>pv_net := demo_recovery_net, pv_encrypt := \<lambda>_ _. Inr ([7], [8])\<rparr>,
      sv_has_store = True, sv_decrypt = \<lambda>_ _ _. Inl ''bad'', sv_lookup_ok = True,
      sv_tx_err = \<lambda>_. None, sv_journal_ok = \<lambda>_. True, sv_clock = 9, sv_caps_text = \<lambda>_. ''caps'',
      sv_json_text = \<lambda>_. ''json'', sv_scent = [], sv_now = 0\<rparr>"

definition demo_open_row :: PairingJournalEntry where
  "demo_open_row =
     \<lparr>pj_pairing_id = ''p1'', pj_receiver_id = ''m1'', pj_base_url = ''http://h'', pj_michi_id = ''m1'',
      pj_remote_session_id = Some ''ses'', pj_token_ciphertext = None, pj_token_nonce = None,
      pj_state = ''confirm_sent'', pj_error_reason = None, pj_created_at = 0, pj_updated_at = 0\<rparr>"

definition demo_other :: PersistedReceiver where
  "demo_other =
     \<lparr>pr_id = ''other'', pr_name = ''Kitchen'', pr_device_type = ''standard'', pr_base_url = ''http://k'',
      pr_paired = True, pr_online = True, pr_audio_capabilities = ''caps'', pr_last_seen = None,
      pr_paired_at = Some 1, pr_created_at = 1, pr_updated_at = 1, pr_michi_id = Some ''m2'',
      pr_capabilities_json = None, pr_capabilities_observed_at = None, pr_authority_supported = False\<rparr>"

definition demo_restarted :: server where
  "demo_restarted =
     (demo_unpaired\<lparr>ps_journal := [demo_open_row]\<rparr>,
      \<lparr>rd_receivers = [demo_other],
       rd_credentials = [\<lparr>pc_receiver_id = ''other'', pc_ciphertext = [1], pc_nonce = [2],
                          pc_version = 1, pc_created_at = 1, pc_updated_at = 1\<rparr>]\<rparr>)"

definition demo_reconciled :: "(string + nat) \<times> server" where
  "demo_reconciled = reconcile_unrecovered_pairings None (\<lambda>_. demo_server) demo_restarted"

lemma demo_reconciled_run:
  "fst demo_reconciled = Inr 1"
  "map pj_state (ps_journal (fst (snd demo_reconciled))) = [''persisted'']"
  by code_simp+

theorem reconciliation_loses_no_pairing_witness:
  "demo_open_row \<in> set (list_unrecovered (ps_journal (fst demo_restarted)))
   \<and> on_record demo_server demo_open_row (snd (snd demo_reconciled))"
proof -
  have j: "demo_open_row \<in> set (list_unrecovered (ps_journal (fst demo_restarted)))"
    by (simp add: unrecovered_listed unrecovered_def demo_restarted_def demo_open_row_def)
  have run: "reconcile_unrecovered_pairings None (\<lambda>_. demo_server) demo_restarted
      = (Inr 1, snd demo_reconciled)"
    using demo_reconciled_run(1) unfolding demo_reconciled_def by (metis prod.collapse)
  have states: "pj_state k = ''persisted''" if "k \<in> set (ps_journal (fst (snd demo_reconciled)))" for k
    using that demo_reconciled_run(2) by (cases "ps_journal (fst (snd demo_reconciled))") auto
  have "distinct (map pj_pairing_id (ps_journal (fst demo_restarted)))"
    by (simp add: demo_restarted_def)
  from reconciliation_loses_no_pairing [OF run this j] j states show ?thesis
    by (auto simp: unrecovered_listed unrecovered_def)
qed

section \<open>Weak points\<close>

text \<open>The id under which a recovered receiver is stored is the one its answer names: it can replace the
  row and the credential of another receiver.\<close>

lemma recovered_id_replaces_other:
  "map_option pr_base_url (get_receiver ''other'' (snd demo_restarted)) = Some ''http://k''"
  "map_option pr_base_url (get_receiver ''other'' (snd (snd demo_reconciled))) = Some ''http://h''"
  "map_option pc_ciphertext (get_receiver_credential ''other'' (snd (snd demo_reconciled))) = Some [7]"
  by code_simp+

text \<open>The handler records the server id for the row, while the token is encrypted for the Michi id:
  recovery decrypts with the id of the row.\<close>

lemma handler_records_server_id:
  assumes "receiver_pair_start_handler A url rid ini re x = (Inr (AnswerPending p), x')"
    and "sv_journal_ok A ''started''" and "j \<in> set (ps_journal (fst x'))"
    and "pj_pairing_id j = pd_pairing_id p"
  shows "pj_receiver_id j = pd_expected_server_id p"
proof -
  have "\<exists>s js. ps_journal (fst x') = journal_start (sv_clock A) (pd_pairing_id p) (pd_expected_server_id p)
      (pd_base_url p) (pd_expected_michi_id p) (Some (pd_pair_session_id p)) js"
    using assms(1,2)
    by (auto simp: receiver_pair_start_handler_def server_journal_def Let_def simp del: append.simps
        split: sum.splits if_splits prod.splits)
  then show ?thesis using assms(3,4)
    by (auto simp: journal_start_def upd_journal_def list_ex_iff split: if_splits)
qed

text \<open>A receiver paired again has a row already: an open confirmation of the new pairing is closed by
  the old row, and the new token is never recovered.\<close>

lemma repairing_is_closed_by_old_row:
  assumes "sv_lookup_ok A" and "get_receiver (pj_receiver_id j) (snd x) = Some rec"
  shows "reconcile_row A j x = (False, complete_journal A j x)"
  using assms by (simp add: reconcile_row_def)

end
