(* ===== verification/Peer_Discovery.thy ===== *)
theory Peer_Discovery
  imports Scent_Store Receiver_Models
begin

text \<open>
  The two feeders of the scent store, of \<open>michi-connect/src\<close>: the listener for signed announcements
  (\<open>discovery_listener.rs\<close>) with its counters and its choice of interfaces, and the mDNS resolver
  (\<open>mdns_resolver.rs\<close>), which probes a candidate's \<open>server/info\<close>. The parsing and verification of an
  announcement, URLs and the HTTP client are parameters.
\<close>

section \<open>Interfaces for the multicast group\<close>

type_synonym ipv4 = "u8 \<times> u8 \<times> u8 \<times> u8"

record MulticastInterfaceCandidate =
  mi_name :: string
  mi_ip :: ipv4
  mi_is_loopback :: bool

fun is_rfc1918 :: "ipv4 \<Rightarrow> bool" where
  "is_rfc1918 (a, b, _, _) \<longleftrightarrow> a = 10 \<or> (a = 172 \<and> 16 \<le> b \<and> b \<le> 31) \<or> (a = 192 \<and> b = 168)"

definition is_virtual_or_docker :: "string \<Rightarrow> bool" where
  "is_virtual_or_docker name =
     list_ex (starts_with (to_lowercase name))
       [''docker'', ''br-'', ''veth'', ''virbr'', ''podman'', ''cni'', ''flannel'']"

definition usable_interface :: "MulticastInterfaceCandidate \<Rightarrow> bool" where
  "usable_interface c =
     (case mi_ip c of (a, b, x, y) \<Rightarrow>
        \<not> (mi_is_loopback c \<or> a = 127) \<and> (a, b, x, y) \<noteq> (0, 0, 0, 0)
        \<and> (a, b, x, y) \<noteq> (255, 255, 255, 255) \<and> \<not> (a = 169 \<and> b = 254))"

fun dedup_by_ip ::
  "ipv4 list \<Rightarrow> MulticastInterfaceCandidate list \<Rightarrow> MulticastInterfaceCandidate list" where
  "dedup_by_ip seen [] = []"
| "dedup_by_ip seen (c # cs) =
     (if List.member seen (mi_ip c) then dedup_by_ip seen cs
      else c # dedup_by_ip (mi_ip c # seen) cs)"

definition by_priority :: "MulticastInterfaceCandidate list \<Rightarrow> MulticastInterfaceCandidate list"
where
  "by_priority cs =
     dedup_by_ip [] (sort_key (\<lambda>c. if is_rfc1918 (mi_ip c) then 0 else 1 :: nat) cs)"

definition select_multicast_interfaces ::
  "MulticastInterfaceCandidate list \<Rightarrow> MulticastInterfaceCandidate list" where
  "select_multicast_interfaces candidates =
     (let (virtuals, physical) =
        partition (\<lambda>c. is_virtual_or_docker (mi_name c)) (filter usable_interface candidates)
      in if physical \<noteq> [] then by_priority physical else by_priority virtuals)"

section \<open>The listener for signed announcements\<close>

text \<open>The fields of \<open>michi_identity\<close>'s announcement, trust levels and errors that the listener tells
  apart. \<open>OtherRole\<close> carries the lower-case debug text of the role.\<close>

datatype Service = StreamStandard | StreamHiFi | OtherService
datatype Role = AudioReceiver | OtherRole string

record Announce =
  an_service :: Service
  an_roles :: "Role list"
  an_device_id :: string
  an_name :: string
  an_michi_home_id :: "string option"
  an_membership_fingerprint :: "string option"

datatype TrustLevel = Verified string | Untrusted string | Invalid
datatype IdentityError = TimestampOutOfWindow | ReplayDetected | OtherIdentityError string

record WhiskerMetrics =
  wm_packets_received :: u64
  wm_announces_verified :: u64
  wm_signature_rejected :: u64
  wm_timestamp_rejected :: u64
  wm_replay_rejected :: u64
  wm_non_stream_filtered :: u64
  wm_last_verified_announce_at :: u64
  wm_last_packet_at :: u64

record Whisker =
  wh_metrics :: WhiskerMetrics
  wh_scent :: scent_store

text \<open>\<open>verify_announce\<close> keeps the nonces it has seen; its answer for the packet at hand is the
  argument \<open>verify\<close>.\<close>

definition announce_info :: "string \<Rightarrow> Announce \<Rightarrow> VerifiedServerInfo" where
  "announce_info mid a =
     \<lparr>vi_michi_id = mid, vi_device_id = an_device_id a, vi_name = an_name a,
      vi_service = (case an_service a of
                      StreamStandard \<Rightarrow> ''michi-stream-standard''
                    | StreamHiFi \<Rightarrow> ''michi-stream-hifi''
                    | OtherService \<Rightarrow> ''unknown''),
      vi_roles = map (\<lambda>r. case r of AudioReceiver \<Rightarrow> ''audio_receiver'' | OtherRole s \<Rightarrow> s)
                     (an_roles a)\<rparr>"

definition reject_signature :: "WhiskerMetrics \<Rightarrow> WhiskerMetrics" where
  "reject_signature m = m\<lparr>wm_signature_rejected := wm_signature_rejected m + 1\<rparr>"

definition handle_packet ::
  "(u8 list \<Rightarrow> Announce option) \<Rightarrow> (Announce \<Rightarrow> string \<Rightarrow> IdentityError + TrustLevel) \<Rightarrow> u64
   \<Rightarrow> u8 list \<Rightarrow> string \<Rightarrow> instant \<Rightarrow> Whisker \<Rightarrow> bool \<times> Whisker \<times> ScentEvent list" where
  "handle_packet parse verify epoch_ms buf source now w =
     (let m = wh_metrics w;
          m = m\<lparr>wm_packets_received := wm_packets_received m + 1, wm_last_packet_at := epoch_ms\<rparr>;
          reject = (\<lambda>m. (False, w\<lparr>wh_metrics := m\<rparr>, []))
      in case parse buf of
        None \<Rightarrow> reject (reject_signature m)
      | Some a \<Rightarrow>
          (case verify a source of
             Inr (Verified mid) \<Rightarrow>
               (if an_service a = OtherService \<or> \<not> List.member (an_roles a) AudioReceiver
                then reject (m\<lparr>wm_non_stream_filtered := wm_non_stream_filtered m + 1\<rparr>)
                else
                  (let m = m\<lparr>wm_announces_verified := wm_announces_verified m + 1,
                             wm_last_verified_announce_at := epoch_ms\<rparr>;
                       (st, evs) = observe_signed_with_home (announce_info mid a) (Some source) now
                                     (an_michi_home_id a) (an_membership_fingerprint a) (wh_scent w)
                   in (True, \<lparr>wh_metrics = m, wh_scent = st\<rparr>, evs)))
           | Inr (Untrusted _) \<Rightarrow> reject (reject_signature m)
           | Inr Invalid \<Rightarrow> reject (reject_signature m)
           | Inl TimestampOutOfWindow \<Rightarrow>
               reject (m\<lparr>wm_timestamp_rejected := wm_timestamp_rejected m + 1\<rparr>)
           | Inl ReplayDetected \<Rightarrow>
               reject (m\<lparr>wm_replay_rejected := wm_replay_rejected m + 1\<rparr>)
           | Inl (OtherIdentityError _) \<Rightarrow> reject (reject_signature m)))"

section \<open>The mDNS resolver\<close>

text \<open>What the resolver uses of the world: \<open>Url::parse\<close> and \<open>Url::join\<close>, an HTTP GET with its status
  and its body as JSON, and \<open>derive_michi_id\<close> of a public key, as its base64url text.\<close>

record ProbeNet =
  pn_parse_url :: "string \<Rightarrow> string + string"
  pn_join :: "string \<Rightarrow> string \<Rightarrow> string + string"
  pn_get :: "string \<Rightarrow> string + u16 \<times> (string + json)"
  pn_derive_michi_id :: "string \<Rightarrow> string + string"

definition host_port :: "string \<Rightarrow> u16 \<Rightarrow> string" where
  "host_port host port =
     (if List.member host CHR '':'' \<and> \<not> starts_with host ''[''
      then ''['' @ host @ '']:'' @ show_nat (unat port)
      else host @ '':'' @ show_nat (unat port))"

definition format_base_url :: "ProbeNet \<Rightarrow> string \<Rightarrow> u16 \<Rightarrow> string + string" where
  "format_base_url net host port = pn_parse_url net (''http://'' @ host_port host port @ ''/'')"

text \<open>\<open>body.get(k).and_then(as_str).unwrap_or_default()\<close>\<close>

definition text_field :: "string \<Rightarrow> json \<Rightarrow> string" where
  "text_field k body =
     (case Option.bind (json_get k body) as_str of Some s \<Rightarrow> s | None \<Rightarrow> [])"

definition check_server_info ::
  "ProbeNet \<Rightarrow> string \<Rightarrow> json \<Rightarrow> string + VerifiedServerInfo option" where
  "check_server_info net expected body =
     (let mid = text_field ''michi_id'' body;
          key = text_field ''public_key'' body;
          service = text_field ''service'' body;
          roles = (case get_array ''roles'' body of Some xs \<Rightarrow> strings_of xs | None \<Rightarrow> []);
          server_id = text_field ''server_id'' body;
          name = text_field ''name'' body
      in if mid = [] then Inl ''server/info did not return a michi_id''
         else if mid \<noteq> expected then Inr None
         else if key = [] then Inr None
         else case pn_derive_michi_id net key of
           Inl _ \<Rightarrow> Inr None
         | Inr derived \<Rightarrow>
             if derived \<noteq> expected then Inr None
             else if service \<noteq> ''michi-stream-standard'' \<and> service \<noteq> ''michi-stream-hifi'' then Inr None
             else if text_field ''api_version'' body \<noteq> ''v1-lite'' then Inr None
             else if \<not> List.member roles ''audio_receiver'' then Inr None
             else if server_id = [] then Inr None
             else Inr (Some \<lparr>vi_michi_id = expected, vi_device_id = server_id,
                             vi_name = (if name = [] then ''Michi Stream'' else name),
                             vi_service = service, vi_roles = roles\<rparr>))"

definition verify_identity_endpoint ::
  "ProbeNet \<Rightarrow> string \<Rightarrow> string \<Rightarrow> string + VerifiedServerInfo option" where
  "verify_identity_endpoint net base_url expected =
     (case pn_join net base_url ''api/v1/server/info'' of
        Inl e \<Rightarrow> Inl (''invalid URL join: '' @ e)
      | Inr info_url \<Rightarrow>
          (case pn_get net info_url of
             Inl e \<Rightarrow> Inl (''server/info request failed: '' @ e)
           | Inr (status, body) \<Rightarrow>
               if \<not> (200 \<le> status \<and> status < 300)
               then Inl (''server/info returned status '' @ show_nat (unat status))
               else case body of
                 Inl e \<Rightarrow> Inl (''failed to parse server/info json: '' @ e)
               | Inr j \<Rightarrow> check_server_info net expected j))"

text \<open>The loop over the candidate's addresses ends at the first one that verifies.\<close>

fun probe_addresses ::
  "ProbeNet \<Rightarrow> string \<Rightarrow> u16 \<Rightarrow> instant \<Rightarrow> string list \<Rightarrow> scent_store
   \<Rightarrow> scent_store \<times> ScentEvent list" where
  "probe_addresses net mid port now [] st = (st, [])"
| "probe_addresses net mid port now (ip # ips) st =
     (case format_base_url net ip port of
        Inl _ \<Rightarrow> probe_addresses net mid port now ips st
      | Inr url \<Rightarrow>
          (case verify_identity_endpoint net url mid of
             Inr (Some info) \<Rightarrow>
               observe_mdns_candidate info url (Some (host_port ip port)) now st
           | _ \<Rightarrow> probe_addresses net mid port now ips st))"

definition handle_resolved_service ::
  "ProbeNet \<Rightarrow> string option \<Rightarrow> u16 \<Rightarrow> string list \<Rightarrow> instant \<Rightarrow> scent_store
   \<Rightarrow> scent_store \<times> ScentEvent list" where
  "handle_resolved_service net prop port addresses now st =
     (case prop of
        Some (c # cs) \<Rightarrow> probe_addresses net (c # cs) port now addresses st
      | _ \<Rightarrow> (st, []))"

end
