(* ===== verification/Discovery_Bridge.thy ===== *)
theory Discovery_Bridge
  imports Scent_Store Receiver_Models
begin

text \<open>
  \<open>michi-receivers/src/discovery_bridge.rs\<close>: the bridge that carries the events of the scent store
  into the receiver registry. The tasks it spawns are returned; the clock reading of an update is
  an argument.
\<close>

section \<open>Tasks and helpers\<close>

datatype BridgeTask =
    AuthTask string
  | EndpointTask string bool
    \<comment> \<open>re-authenticate the receiver first if the flag is set, then flush the revocation outbox\<close>

fun str_contains :: "string \<Rightarrow> string \<Rightarrow> bool" where
  "str_contains [] p \<longleftrightarrow> p = []"
| "str_contains (c # cs) p \<longleftrightarrow> starts_with (c # cs) p \<or> str_contains cs p"

text \<open>The entry that \<open>get_mut\<close> returns.\<close>

definition reg_get_mut :: "string \<Rightarrow> registry \<Rightarrow> ReceiverRegistryEntry option" where
  "reg_get_mut i r =
     (case map_of r i of
        Some e \<Rightarrow> Some e
      | None \<Rightarrow> find_entry (\<lambda>e. en_michi_id e = Some i) r)"

definition bridge_presence :: "ScentPresenceSource \<Rightarrow> bool \<Rightarrow> ReceiverPresence" where
  "bridge_presence source verified =
     (if source = WhiskerSigned \<and> verified then VerifiedOnline else ProvisionalMdns)"

definition bridge_device_type :: "ScentRecord \<Rightarrow> string" where
  "bridge_device_type r =
     (if str_contains (sr_service r) ''hifi'' then ''hifi'' else ''standard'')"

section \<open>Records\<close>

definition bridgeable :: "ScentRecord \<Rightarrow> bool" where
  "bridgeable r \<longleftrightarrow>
     (sr_verified r \<or> sr_source r = MdnsProvisional)
     \<and> (sr_service r = ''michi-stream-standard'' \<or> sr_service r = ''michi-stream-hifi'')
     \<and> List.member (sr_roles r) ''audio_receiver''"

definition bridge_refresh ::
  "ScentRecord \<Rightarrow> string \<Rightarrow> utc \<Rightarrow> ReceiverRegistryEntry \<Rightarrow> ReceiverRegistryEntry" where
  "bridge_refresh r url now e =
     e\<lparr>en_base_url := url, en_presence := bridge_presence (sr_source r) (sr_verified r),
       en_last_seen := Some now, en_name := sr_name r, en_device_type := bridge_device_type r\<rparr>"

definition bridge_adopt ::
  "ScentRecord \<Rightarrow> string \<Rightarrow> utc \<Rightarrow> ReceiverRegistryEntry \<Rightarrow> ReceiverRegistryEntry" where
  "bridge_adopt r url now e =
     e\<lparr>en_michi_id := Some (sr_michi_id r), en_base_url := url,
       en_presence := bridge_presence (sr_source r) (sr_verified r), en_last_seen := Some now,
       en_name := sr_name r,
       en_michi_home_id := (if sr_michi_home_id r \<noteq> None then sr_michi_home_id r
                            else en_michi_home_id e)\<rparr>"

definition projected_entry :: "ScentRecord \<Rightarrow> string \<Rightarrow> utc \<Rightarrow> ReceiverRegistryEntry" where
  "projected_entry r url now =
     \<lparr>en_receiver_id = sr_michi_id r, en_michi_id = Some (sr_michi_id r), en_name = sr_name r,
      en_device_type = bridge_device_type r, en_base_url = url, en_paired = False, en_token = None,
      en_presence = bridge_presence (sr_source r) (sr_verified r), en_last_seen = Some now,
      en_capabilities = [], en_capabilities_verified_at = None, en_capabilities_stale = True,
      en_authority_supported = False, en_owner_michi_id = None, en_owner_name = None,
      en_active_session_id = None, en_max_sample_rate = 0, en_max_bit_depth = 0,
      en_supported_transports = [], en_supported_codecs = [], en_supported_sample_rates = [],
      en_supported_bit_depths = [], en_supported_channels = [], en_maximum_safe_volume = None,
      en_qualification = NeedsCapabilityRefresh, en_michi_home_id = sr_michi_home_id r,
      en_server_membership = None, en_authenticated = False, en_revoked = False\<rparr>"

definition legacy_match :: "ScentRecord \<Rightarrow> ReceiverRegistryEntry \<Rightarrow> bool" where
  "legacy_match r e \<longleftrightarrow> en_receiver_id e = sr_device_id r \<or> en_receiver_id e = sr_michi_id r"

definition reconcile_record ::
  "ScentRecord \<Rightarrow> utc \<Rightarrow> registry \<Rightarrow> registry \<times> BridgeTask list" where
  "reconcile_record r now reg =
     (if \<not> bridgeable r then (reg, [])
      else case sr_base_url r of
        None \<Rightarrow> (reg, [])
      | Some url \<Rightarrow>
          (case reg_get_mut (sr_michi_id r) reg of
             Some e \<Rightarrow>
               (reg_update (sr_michi_id r) (bridge_refresh r url now) reg,
                if \<not> en_authenticated e \<and> \<not> en_revoked e then [AuthTask (sr_michi_id r)] else [])
           | None \<Rightarrow>
               if find_entry (legacy_match r) reg \<noteq> None
               then (update_first (legacy_match r) (bridge_adopt r url now) reg, [])
               else (reg_add (projected_entry r url now) reg, [AuthTask (sr_michi_id r)])))"

section \<open>Events\<close>

definition bridge_endpoint ::
  "string \<Rightarrow> string \<Rightarrow> ScentPresenceSource \<Rightarrow> bool \<Rightarrow> utc \<Rightarrow> registry \<Rightarrow> registry \<times> BridgeTask list"
where
  "bridge_endpoint mid url source verified now reg =
     (case reg_get_mut mid reg of
        None \<Rightarrow> (reg, [])
      | Some e \<Rightarrow>
          (reg_update mid (\<lambda>e. e\<lparr>en_base_url := url, en_presence := bridge_presence source verified,
                                 en_last_seen := Some now\<rparr>) reg,
           [EndpointTask (en_receiver_id e) (\<not> en_authenticated e \<and> \<not> en_revoked e)]))"

fun bridge_handle_event :: "ScentEvent \<Rightarrow> utc \<Rightarrow> registry \<Rightarrow> registry \<times> BridgeTask list" where
  "bridge_handle_event (Discovered r) now reg = reconcile_record r now reg"
| "bridge_handle_event (Updated r) now reg = reconcile_record r now reg"
| "bridge_handle_event (EndpointChanged mid old new source verified) now reg =
     bridge_endpoint mid new source verified now reg"
| "bridge_handle_event (PeerOffline mid) now reg =
     (reg_update mid (\<lambda>e. e\<lparr>en_presence := Offline, en_capabilities_stale := True\<rparr>) reg, [])"

text \<open>\<open>list_online\<close> of the scent store: what is effectively present when the snapshot is taken.\<close>

fun reconcile_records ::
  "ScentRecord list \<Rightarrow> (nat \<Rightarrow> utc) \<Rightarrow> registry \<Rightarrow> registry \<times> BridgeTask list" where
  "reconcile_records [] clock reg = (reg, [])"
| "reconcile_records (r # rs) clock reg =
     (let (reg, tasks) = reconcile_record r (clock 0) reg;
          (reg, more) = reconcile_records rs (\<lambda>n. clock (Suc n)) reg
      in (reg, tasks @ more))"

definition reconcile_snapshot ::
  "scent_store \<Rightarrow> instant \<Rightarrow> (nat \<Rightarrow> utc) \<Rightarrow> registry \<Rightarrow> registry \<times> BridgeTask list" where
  "reconcile_snapshot st now clock reg = reconcile_records (list_active_at now st) clock reg"

section \<open>The worker\<close>

text \<open>One turn of the worker: cancellation and a closed channel end it, a lagged channel makes it read
  the whole store.\<close>

datatype BridgeWake = Cancelled | Event ScentEvent | Lagged scent_store instant | ChannelClosed

fun bridge_wake ::
  "BridgeWake \<Rightarrow> (nat \<Rightarrow> utc) \<Rightarrow> registry \<Rightarrow> bool \<times> registry \<times> BridgeTask list" where
  "bridge_wake Cancelled clock reg = (False, reg, [])"
| "bridge_wake (Event e) clock reg = (True, bridge_handle_event e (clock 0) reg)"
| "bridge_wake (Lagged st now) clock reg = (True, reconcile_snapshot st now clock reg)"
| "bridge_wake ChannelClosed clock reg = (False, reg, [])"

fun bridge_worker ::
  "(nat \<Rightarrow> nat \<Rightarrow> utc) \<Rightarrow> BridgeWake list \<Rightarrow> registry \<Rightarrow> registry \<times> BridgeTask list" where
  "bridge_worker clock [] reg = (reg, [])"
| "bridge_worker clock (w # ws) reg =
     (let (go, reg, tasks) = bridge_wake w (clock 0) reg
      in if go
         then (let (reg, more) = bridge_worker (\<lambda>n. clock (Suc n)) ws reg in (reg, tasks @ more))
         else (reg, tasks))"

end
