(* ===== verification/Presence_Theorems.thy ===== *)
theory Presence_Theorems
  imports Peer_Discovery Discovery_Bridge
begin

text \<open>
  Runs of the scent store and what they keep: the records against the history of observations, and
  the events against the records. The bridge is a client of that contract (locale
  \<open>presence_feed\<close>): whatever feeds it, an entry it shows as verified is backed by the feed.
\<close>

section \<open>Runs\<close>

datatype PresenceStep =
    SignedStep VerifiedServerInfo "string option" "string option" "string option" instant
  | MdnsStep VerifiedServerInfo string "string option" instant
  | SweepStep instant

fun step_time :: "PresenceStep \<Rightarrow> instant" where
  "step_time (SignedStep i src home fp t) = t"
| "step_time (MdnsStep i url src t) = t"
| "step_time (SweepStep t) = t"

fun signed_of :: "string \<Rightarrow> PresenceStep \<Rightarrow> bool" where
  "signed_of m (SignedStep i src home fp t) \<longleftrightarrow> vi_michi_id i = m"
| "signed_of m _ \<longleftrightarrow> False"

fun mdns_of :: "string \<Rightarrow> PresenceStep \<Rightarrow> bool" where
  "mdns_of m (MdnsStep i url src t) \<longleftrightarrow> vi_michi_id i = m"
| "mdns_of m _ \<longleftrightarrow> False"

fun presence_step :: "PresenceStep \<Rightarrow> scent_store \<Rightarrow> scent_store \<times> ScentEvent list" where
  "presence_step (SignedStep i src home fp t) = observe_signed_with_home i src t home fp"
| "presence_step (MdnsStep i url src t) = observe_mdns_candidate i url src t"
| "presence_step (SweepStep t) = scent_check_expirations t"

fun presence_run :: "PresenceStep list \<Rightarrow> scent_store \<Rightarrow> scent_store \<times> ScentEvent list" where
  "presence_run [] st = (st, [])"
| "presence_run (s # ss) st =
     (let (st, evs) = presence_step s st; (st, more) = presence_run ss st in (st, evs @ more))"

lemma presence_run_snoc:
  "presence_run (ss @ [s]) st =
     (let (st', evs) = presence_run ss st; (st'', more) = presence_step s st'
      in (st'', evs @ more))"
  by (induction ss arbitrary: st) (auto simp: split_def Let_def)

definition step_ordered :: "PresenceStep list \<Rightarrow> bool" where
  "step_ordered ss \<longleftrightarrow> sorted (map step_time ss)"

definition last_time :: "(string \<Rightarrow> PresenceStep \<Rightarrow> bool) \<Rightarrow> string \<Rightarrow> PresenceStep list \<Rightarrow> instant option"
where
  "last_time P m ss = fold (\<lambda>s acc. if P m s then Some (step_time s) else acc) ss None"

lemma last_time_nil [simp]: "last_time P m [] = None"
  by (simp add: last_time_def)

lemma last_time_snoc [simp]:
  "last_time P m (ss @ [s]) = (if P m s then Some (step_time s) else last_time P m ss)"
  by (simp add: last_time_def)

lemma sorted_snoc_le:
  "step_ordered (ss @ [s]) \<Longrightarrow> step_ordered ss \<and> (\<forall>x\<in>set ss. step_time x \<le> step_time s)"
  by (auto simp: step_ordered_def sorted_append)

lemma seen_recently_mono:
  "seen_recently x t' \<Longrightarrow> t \<le> t' \<Longrightarrow> seen_recently x t"
  by (auto simp: seen_recently_def split: option.splits)

lemma seen_recently_later: "seen_recently (Some a) t \<Longrightarrow> a \<le> b \<Longrightarrow> seen_recently (Some b) t"
  by (auto simp: seen_recently_def)

text \<open>The last observation is recent exactly when some observation is.\<close>

lemma last_time_recent:
  "step_ordered ss \<Longrightarrow>
   seen_recently (last_time P m ss) now \<longleftrightarrow>
   (\<exists>s\<in>set ss. P m s \<and> seen_recently (Some (step_time s)) now)"
proof (induction ss rule: rev_induct)
  case Nil
  then show ?case by (simp add: seen_recently_def)
next
  case (snoc s ss)
  then show ?case
    by (auto dest!: sorted_snoc_le intro: seen_recently_later)
qed

lemma last_time_None: "last_time P m ss = None \<longleftrightarrow> (\<forall>s\<in>set ss. \<not> P m s)"
  by (induction ss rule: rev_induct) auto

section \<open>Records against the history\<close>

text \<open>What holds of the record under key \<open>k\<close> at time \<open>t\<close>, the time of the last step.\<close>

definition record_ok :: "instant \<Rightarrow> string \<Rightarrow> ScentRecord \<Rightarrow> bool" where
  "record_ok t k r \<longleftrightarrow>
     sr_michi_id r = k
     \<and> (sr_verified r \<longrightarrow> sr_source r = WhiskerSigned \<and> sr_online r)
     \<and> (\<not> sr_verified r \<longrightarrow> \<not> is_signed_fresh r t)
     \<and> (\<not> sr_online r \<longrightarrow> effective_presence r t = EffOffline)
     \<and> (sr_last_mdns_seen r \<noteq> None \<longrightarrow> sr_base_url r \<noteq> None)
     \<and> (sr_last_signed_seen r = None \<longrightarrow> \<not> sr_verified r)
     \<and> (sr_online r \<and> \<not> sr_verified r \<longrightarrow> sr_last_mdns_seen r \<noteq> None \<and> sr_source r = MdnsProvisional)"

definition record_tracks :: "PresenceStep list \<Rightarrow> string \<Rightarrow> ScentRecord option \<Rightarrow> bool" where
  "record_tracks ss m r \<longleftrightarrow>
     last_time signed_of m ss = Option.bind r sr_last_signed_seen
     \<and> last_time mdns_of m ss = Option.bind r sr_last_mdns_seen
     \<and> (r \<noteq> None \<longrightarrow> (\<exists>s\<in>set ss. signed_of m s \<or> mdns_of m s))"

definition store_ok :: "PresenceStep list \<Rightarrow> instant \<Rightarrow> scent_store \<Rightarrow> bool" where
  "store_ok ss t st \<longleftrightarrow>
     distinct (map fst st)
     \<and> (\<forall>k r. map_of st k = Some r \<longrightarrow> record_ok t k r)
     \<and> (\<forall>k. record_tracks ss k (map_of st k))"

lemma effective_presence_later:
  "effective_presence r t = EffOffline \<Longrightarrow> t \<le> t' \<Longrightarrow> effective_presence r t' = EffOffline"
  by (auto simp: effective_presence_def is_signed_fresh_def is_mdns_fresh_def
           intro: seen_recently_mono split: if_splits)

lemma signed_fresh_later: "is_signed_fresh r t' \<Longrightarrow> t \<le> t' \<Longrightarrow> is_signed_fresh r t"
  by (auto simp: is_signed_fresh_def intro: seen_recently_mono)

lemma record_ok_later: "record_ok t k r \<Longrightarrow> t \<le> t' \<Longrightarrow> record_ok t' k r"
  unfolding record_ok_def using signed_fresh_later effective_presence_later by blast

lemma seen_now [simp]: "seen_recently (Some t) t"
  by (simp add: seen_recently_def scent_expiry_timeout_def from_secs_def)

lemma record_ok_signed:
  "record_ok t k r \<Longrightarrow> record_ok t' k (signed_refresh i src t' home fp r)"
  by (simp add: record_ok_def signed_refresh_def)

lemma record_ok_signed_new: "record_ok t' (vi_michi_id i) (signed_record i src t' home fp)"
  by (simp add: record_ok_def signed_record_def)

lemma record_ok_mdns:
  assumes "record_ok t k r"
  shows "record_ok t' k (mdns_refresh i url src t' r)"
proof (cases "is_signed_fresh r t'")
  case True
  with assms show ?thesis
    by (simp add: record_ok_def mdns_refresh_def is_signed_fresh_def seen_recently_def
             split: option.splits)
next
  case False
  with assms show ?thesis
    by (simp add: record_ok_def mdns_refresh_def is_signed_fresh_def)
qed

lemma record_ok_mdns_new: "record_ok t' (vi_michi_id i) (mdns_record i url src t')"
  by (simp add: record_ok_def mdns_record_def is_signed_fresh_def seen_recently_def)

lemma record_ok_expire:
  assumes ok: "record_ok t k r" and "t \<le> t'"
  shows "record_ok t' k (fst (expire_record t' (k, r)))"
proof -
  have ok: "record_ok t' k r" using assms by (rule record_ok_later)
  show ?thesis
  proof (cases "effective_presence r t'")
    case EffVerifiedOnline
    with ok show ?thesis by (simp add: expire_record_def)
  next
    case EffProvisionalMdns
    then have "\<not> is_signed_fresh r t'" by (auto simp: effective_presence_def split: if_splits)
    moreover from EffProvisionalMdns calculation have "sr_last_mdns_seen r \<noteq> None"
      by (auto simp: effective_presence_def is_mdns_fresh_def seen_recently_def
               split: if_splits option.splits)
    ultimately show ?thesis using ok EffProvisionalMdns
      by (simp add: record_ok_def expire_record_def Let_def is_signed_fresh_def)
  next
    case EffOffline
    then have "\<not> is_signed_fresh r t'" by (auto simp: effective_presence_def)
    with ok EffOffline show ?thesis
      by (auto simp: record_ok_def expire_record_def effective_presence_def is_signed_fresh_def
                     is_mdns_fresh_def)
  qed
qed

lemma map_of_map_key:
  "map_of (map (\<lambda>x. (fst x, g x)) st) k = map_option (\<lambda>r. g (k, r)) (map_of st k)"
  by (induction st) auto

lemma map_of_sweep:
  "map_of (fst (scent_check_expirations t st)) k =
   map_option (\<lambda>r. fst (expire_record t (k, r))) (map_of st k)"
  by (simp add: scent_check_expirations_def map_of_map_key)

lemma expire_seen [simp]:
  "sr_last_signed_seen (fst (expire_record t x)) = sr_last_signed_seen (snd x)"
  "sr_last_mdns_seen (fst (expire_record t x)) = sr_last_mdns_seen (snd x)"
  by (auto simp: expire_record_def Let_def split: prod.splits EffectivePresence.splits)

lemma tracks_sweep:
  "record_tracks ss k r \<Longrightarrow>
   record_tracks (ss @ [SweepStep t]) k (map_option (\<lambda>r. fst (expire_record t (k, r))) r)"
  by (cases r) (auto simp: record_tracks_def)

text \<open>One observation: the record of the peer becomes \<open>r'\<close>, the others stay.\<close>

lemma store_ok_observe:
  assumes ok: "store_ok ss t st"
    and r': "record_ok (step_time s) m r'"
    and others: "\<And>k. k \<noteq> m \<Longrightarrow> \<not> signed_of k s \<and> \<not> mdns_of k s"
    and tr: "record_tracks (ss @ [s]) m (Some r')"
    and le: "t \<le> step_time s"
  shows "store_ok (ss @ [s]) (step_time s) (AList.update m r' st)"
  unfolding store_ok_def
proof (intro conjI allI impI)
  show "distinct (map fst (AList.update m r' st))"
    using ok by (simp add: store_ok_def distinct_update)
next
  fix k r assume "map_of (AList.update m r' st) k = Some r"
  then show "record_ok (step_time s) k r"
    using ok r' le by (auto simp: AList.update_conv' store_ok_def split: if_splits
                            intro: record_ok_later)
next
  fix k
  show "record_tracks (ss @ [s]) k (map_of (AList.update m r' st) k)"
  proof (cases "k = m")
    case True
    with tr show ?thesis by (simp add: AList.update_conv')
  next
    case False
    with ok others [OF False] show ?thesis
      by (auto simp: AList.update_conv' store_ok_def record_tracks_def)
  qed
qed

lemma tracks_observe:
  assumes "record_tracks ss m old" and "signed_of m s \<or> mdns_of m s"
    and "sr_last_signed_seen r' = (if signed_of m s then Some (step_time s)
                                    else Option.bind old sr_last_signed_seen)"
    and "sr_last_mdns_seen r' = (if mdns_of m s then Some (step_time s)
                                  else Option.bind old sr_last_mdns_seen)"
  shows "record_tracks (ss @ [s]) m (Some r')"
  using assms by (auto simp: record_tracks_def)

lemma refresh_seen [simp]:
  "sr_last_signed_seen (signed_refresh i src t home fp r) = Some t"
  "sr_last_mdns_seen (signed_refresh i src t home fp r) = sr_last_mdns_seen r"
  "sr_last_signed_seen (signed_record i src t home fp) = Some t"
  "sr_last_mdns_seen (signed_record i src t home fp) = None"
  "sr_last_signed_seen (mdns_refresh i url src t r) = sr_last_signed_seen r"
  "sr_last_mdns_seen (mdns_refresh i url src t r) = Some t"
  "sr_last_signed_seen (mdns_record i url src t) = None"
  "sr_last_mdns_seen (mdns_record i url src t) = Some t"
  by (simp_all add: signed_refresh_def signed_record_def mdns_refresh_def mdns_record_def Let_def)

lemma presence_step_observe:
  "fst (observe_signed_with_home i src t home fp st) =
     AList.update (vi_michi_id i)
       (case map_of st (vi_michi_id i) of
          Some r \<Rightarrow> signed_refresh i src t home fp r | None \<Rightarrow> signed_record i src t home fp) st"
  "fst (observe_mdns_candidate i url src t st) =
     AList.update (vi_michi_id i)
       (case map_of st (vi_michi_id i) of
          Some r \<Rightarrow> mdns_refresh i url src t r | None \<Rightarrow> mdns_record i url src t) st"
  by (auto simp: observe_signed_with_home_def observe_mdns_candidate_def Let_def
           split: option.splits)

lemma store_ok_step:
  assumes ok: "store_ok ss t st" and le: "t \<le> step_time s"
  shows "store_ok (ss @ [s]) (step_time s) (fst (presence_step s st))"
proof (cases s)
  case (SignedStep i src home fp t')
  let ?m = "vi_michi_id i"
  let ?r = "case map_of st ?m of Some r \<Rightarrow> signed_refresh i src t' home fp r
                               | None \<Rightarrow> signed_record i src t' home fp"
  have "record_ok t' ?m ?r"
    using ok by (auto simp: store_ok_def record_ok_signed_new intro!: record_ok_signed [of t] split: option.splits)
  moreover have "record_tracks (ss @ [s]) ?m (Some ?r)"
    by (rule tracks_observe [where old = "map_of st ?m"])
       (use ok SignedStep in \<open>auto simp: store_ok_def split: option.splits\<close>)
  ultimately show ?thesis
    using store_ok_observe [OF ok, of s ?m ?r] le SignedStep by (simp add: presence_step_observe)
next
  case (MdnsStep i url src t')
  let ?m = "vi_michi_id i"
  let ?r = "case map_of st ?m of Some r \<Rightarrow> mdns_refresh i url src t' r
                               | None \<Rightarrow> mdns_record i url src t'"
  have "record_ok t' ?m ?r"
    using ok by (auto simp: store_ok_def record_ok_mdns_new intro!: record_ok_mdns [of t] split: option.splits)
  moreover have "record_tracks (ss @ [s]) ?m (Some ?r)"
    by (rule tracks_observe [where old = "map_of st ?m"])
       (use ok MdnsStep in \<open>auto simp: store_ok_def split: option.splits\<close>)
  ultimately show ?thesis
    using store_ok_observe [OF ok, of s ?m ?r] le MdnsStep by (simp add: presence_step_observe)
next
  case (SweepStep t')
  have "distinct (map fst (fst (scent_check_expirations t' st)))"
    using ok by (simp add: store_ok_def scent_check_expirations_def comp_def)
  with ok le SweepStep show ?thesis
    by (auto simp: store_ok_def map_of_sweep intro!: record_ok_expire [of t] tracks_sweep)
qed

lemma store_ok_run:
  "step_ordered ss \<Longrightarrow>
   store_ok ss (if ss = [] then 0 else step_time (last ss)) (fst (presence_run ss []))"
proof (induction ss rule: rev_induct)
  case Nil
  then show ?case by (simp add: store_ok_def record_tracks_def)
next
  case (snoc s ss)
  then have le: "(if ss = [] then 0 else step_time (last ss)) \<le> step_time s"
    by (auto dest: sorted_snoc_le)
  from snoc sorted_snoc_le have "store_ok ss (if ss = [] then 0 else step_time (last ss))
                                   (fst (presence_run ss []))" by blast
  from store_ok_step [OF this le] show ?case
    by (simp add: presence_run_snoc split_def Let_def)
qed

section \<open>Presence against the history\<close>

definition heard :: "(string \<Rightarrow> PresenceStep \<Rightarrow> bool) \<Rightarrow> string \<Rightarrow> PresenceStep list \<Rightarrow> instant \<Rightarrow> bool"
where
  "heard P m ss now \<longleftrightarrow> list_ex (\<lambda>s. P m s \<and> now - step_time s < scent_expiry_timeout) ss"

definition presence_spec :: "string \<Rightarrow> PresenceStep list \<Rightarrow> instant \<Rightarrow> EffectivePresence" where
  "presence_spec m ss now =
     (if heard signed_of m ss now then EffVerifiedOnline
      else if heard mdns_of m ss now then EffProvisionalMdns
      else EffOffline)"

lemma heard_last_time:
  "step_ordered ss \<Longrightarrow> heard P m ss now \<longleftrightarrow> seen_recently (last_time P m ss) now"
  by (subst last_time_recent) (auto simp: heard_def list_ex_iff seen_recently_def)

lemma presence_spec_record:
  assumes "step_ordered ss" and "store_ok ss t st" and "map_of st m = Some r"
  shows "effective_presence r now = presence_spec m ss now"
proof -
  from assms have "record_tracks ss m (Some r)" unfolding store_ok_def by metis
  then show ?thesis
    using assms(1)
    by (simp add: presence_spec_def heard_last_time effective_presence_def is_signed_fresh_def
                  is_mdns_fresh_def record_tracks_def)
qed

lemma heard_sweep [simp]:
  "heard signed_of m (ss @ [SweepStep t]) now = heard signed_of m ss now"
  "heard mdns_of m (ss @ [SweepStep t]) now = heard mdns_of m ss now"
  by (simp_all add: heard_def)

lemma presence_spec_sweep [simp]:
  "presence_spec m (ss @ [SweepStep t]) now = presence_spec m ss now"
  by (simp add: presence_spec_def)

text \<open>After a sweep the flags of a record are those of its effective presence.\<close>

lemma swept_flags:
  assumes "record_ok t k r" and "t \<le> now"
  shows "let r' = fst (expire_record now (k, r)) in
           (sr_verified r' \<longleftrightarrow> effective_presence r now = EffVerifiedOnline)
           \<and> (sr_online r' \<longleftrightarrow> effective_presence r now \<noteq> EffOffline)"
proof -
  have "record_ok now k r" using assms by (rule record_ok_later)
  then show ?thesis
    by (cases "effective_presence r now")
       (auto simp: expire_record_def record_ok_def Let_def effective_presence_def split: if_splits)
qed

lemma expire_presence [simp]:
  "effective_presence (fst (expire_record t (k, r))) now = effective_presence r now"
  by (simp add: effective_presence_def is_signed_fresh_def is_mdns_fresh_def)

end
