(* ===== verification/Presence_Feed.thy ===== *)
theory Presence_Feed
  imports Presence_Theorems
begin

text \<open>
  The events of a run against its store, the contract that the bridge needs of what feeds it
  (\<open>presence_feed\<close>), and the registry the bridge builds from such a feed.
\<close>

section \<open>Verdicts of the event log\<close>

fun event_about :: "ScentEvent \<Rightarrow> string" where
  "event_about (Discovered r) = sr_michi_id r"
| "event_about (Updated r) = sr_michi_id r"
| "event_about (EndpointChanged m old new source verified) = m"
| "event_about (PeerOffline m) = m"

fun event_verified :: "ScentEvent \<Rightarrow> bool" where
  "event_verified (Discovered r) \<longleftrightarrow> sr_source r = WhiskerSigned \<and> sr_verified r"
| "event_verified (Updated r) \<longleftrightarrow> sr_source r = WhiskerSigned \<and> sr_verified r"
| "event_verified (EndpointChanged m old new source verified) \<longleftrightarrow> source = WhiskerSigned \<and> verified"
| "event_verified (PeerOffline m) \<longleftrightarrow> False"

definition judge :: "string \<Rightarrow> ScentEvent \<Rightarrow> bool \<Rightarrow> bool" where
  "judge m e b = (if event_about e = m then event_verified e else b)"

definition verdict :: "ScentEvent list \<Rightarrow> string \<Rightarrow> bool" where
  "verdict evs m = fold (judge m) evs False"

lemma verdict_nil [simp]: "\<not> verdict [] m"
  by (simp add: verdict_def)

lemma verdict_snoc [simp]: "verdict (evs @ [e]) m = judge m e (verdict evs m)"
  by (simp add: verdict_def)

definition stream_record :: "ScentRecord \<Rightarrow> bool" where
  "stream_record r \<longleftrightarrow>
     (sr_service r = ''michi-stream-standard'' \<or> sr_service r = ''michi-stream-hifi'')
     \<and> List.member (sr_roles r) ''audio_receiver''"

definition carried_ok :: "ScentRecord \<Rightarrow> bool" where
  "carried_ok r \<longleftrightarrow>
     stream_record r
     \<and> (\<not> (sr_source r = WhiskerSigned \<and> sr_verified r)
        \<longrightarrow> sr_source r = MdnsProvisional \<and> sr_base_url r \<noteq> None)"

fun event_ok :: "ScentEvent \<Rightarrow> bool" where
  "event_ok (Discovered r) \<longleftrightarrow> carried_ok r"
| "event_ok (Updated r) \<longleftrightarrow> carried_ok r"
| "event_ok _ \<longleftrightarrow> True"

lemma carried_ok_bridgeable: "carried_ok r \<Longrightarrow> bridgeable r"
  by (auto simp: carried_ok_def bridgeable_def stream_record_def)

section \<open>The registry under the bridge\<close>

text \<open>Distinct keys, each entry under its receiver id, distinct Michi ids, and a Michi id that differs
  from its key is no key itself.\<close>

definition registry_ok :: "registry \<Rightarrow> bool" where
  "registry_ok reg \<longleftrightarrow>
     distinct (map fst reg)
     \<and> (\<forall>k e. (k, e) \<in> set reg \<longrightarrow> en_receiver_id e = k)
     \<and> (\<forall>k e k' e' m. (k, e) \<in> set reg \<longrightarrow> (k', e') \<in> set reg
          \<longrightarrow> en_michi_id e = Some m \<longrightarrow> en_michi_id e' = Some m \<longrightarrow> k = k')
     \<and> (\<forall>k e m. (k, e) \<in> set reg \<longrightarrow> en_michi_id e = Some m \<longrightarrow> m \<in> fst ` set reg \<longrightarrow> m = k)"

lemma registry_okD:
  assumes "registry_ok reg"
  shows registry_distinct: "distinct (map fst reg)"
    and registry_id: "\<And>k e. (k, e) \<in> set reg \<Longrightarrow> en_receiver_id e = k"
    and registry_michi: "\<And>k e k' e' m. (k, e) \<in> set reg \<Longrightarrow> (k', e') \<in> set reg
        \<Longrightarrow> en_michi_id e = Some m \<Longrightarrow> en_michi_id e' = Some m \<Longrightarrow> k = k'"
    and registry_foreign: "\<And>k e m. (k, e) \<in> set reg \<Longrightarrow> en_michi_id e = Some m
        \<Longrightarrow> m \<in> fst ` set reg \<Longrightarrow> m = k"
  using assms unfolding registry_ok_def by blast+

definition shown_by :: "string \<Rightarrow> ReceiverRegistryEntry \<Rightarrow> string set" where
  "shown_by k e = insert k (set_option (en_michi_id e))"

definition backed :: "(string \<Rightarrow> bool) \<Rightarrow> registry \<Rightarrow> bool" where
  "backed V reg \<longleftrightarrow>
     (\<forall>(k, e)\<in>set reg. en_presence e = VerifiedOnline \<longrightarrow> (\<exists>m\<in>shown_by k e. V m))"

lemma find_entry_Some:
  "find_entry P reg = Some e \<Longrightarrow> P e \<and> (\<exists>k. (k, e) \<in> set reg)"
  by (induction P reg rule: find_entry.induct) (auto split: if_splits)

lemma find_entry_None: "find_entry P reg = None \<longleftrightarrow> (\<forall>(k, e)\<in>set reg. \<not> P e)"
  by (induction P reg rule: find_entry.induct) auto

text \<open>What every update of the bridge does: the entries that satisfy \<open>Q\<close> are changed by \<open>f\<close>, where
  at most one entry satisfies \<open>Q\<close>.\<close>

definition change :: "(string \<Rightarrow> ReceiverRegistryEntry \<Rightarrow> bool)
    \<Rightarrow> (ReceiverRegistryEntry \<Rightarrow> ReceiverRegistryEntry) \<Rightarrow> registry \<Rightarrow> registry" where
  "change Q f reg = map (\<lambda>(k, e). if Q k e then (k, f e) else (k, e)) reg"

lemma update_first_change:
  assumes "\<And>k e k' e'. (k, e) \<in> set reg \<Longrightarrow> (k', e') \<in> set reg \<Longrightarrow> P e \<Longrightarrow> P e' \<Longrightarrow> k = k'"
    and "distinct (map fst reg)"
  shows "update_first P f reg = change (\<lambda>k e. P e) f reg"
  using assms
proof (induction P f reg rule: update_first.induct)
  case (2 P f k e r)
  show ?case
  proof (cases "P e")
    case True
    have "\<not> P e'" if "(k', e') \<in> set r" for k' e'
      using 2(2) [of k e k' e'] 2(3) that True by force
    then have "change (\<lambda>k e. P e) f r = r"
      unfolding change_def by (intro map_idI) auto
    with True show ?thesis by (simp add: change_def)
  next
    case False
    have "update_first P f r = change (\<lambda>k e. P e) f r"
    proof (rule 2(1) [OF False])
      show "k1 = k2" if "(k1, e1) \<in> set r" "(k2, e2) \<in> set r" "P e1" "P e2" for k1 e1 k2 e2
        using 2(2) [of k1 e1 k2 e2] that by simp
      show "distinct (map fst r)" using 2(3) by simp
    qed
    with False show ?thesis by (simp add: change_def)
  qed
qed (simp add: change_def)

definition meant :: "string \<Rightarrow> registry \<Rightarrow> string \<Rightarrow> ReceiverRegistryEntry \<Rightarrow> bool" where
  "meant m reg k e \<longleftrightarrow> k = m \<or> (m \<notin> fst ` set reg \<and> en_michi_id e = Some m)"

lemma reg_update_change:
  assumes ok: "registry_ok reg"
  shows "reg_update m f reg = change (meant m reg) f reg"
proof (cases "map_of reg m")
  case None
  then have fresh: "m \<notin> fst ` set reg" by (simp add: map_of_eq_None_iff)
  have "update_first (\<lambda>e. en_michi_id e = Some m) f reg = change (\<lambda>k e. en_michi_id e = Some m) f reg"
    by (rule update_first_change) (erule (3) registry_michi [OF ok], rule registry_distinct [OF ok])
  also have "\<dots> = change (meant m reg) f reg"
    unfolding change_def using fresh by (intro map_cong) (auto simp: meant_def rev_image_eqI)
  finally show ?thesis using None by (simp add: reg_update_def)
next
  case (Some e)
  then have key: "m \<in> fst ` set reg" by (metis domI dom_map_of_conv_image_fst)
  show ?thesis
    unfolding reg_update_def change_def meant_def using key Some by simp
qed

lemma reg_get_mut_None:
  "reg_get_mut m reg = None \<longleftrightarrow>
   m \<notin> fst ` set reg \<and> (\<forall>(k, e)\<in>set reg. en_michi_id e \<noteq> Some m)"
proof (cases "map_of reg m")
  case None
  then have "m \<notin> fst ` set reg" by (simp only: map_of_eq_None_iff not_False_eq_True)
  then show ?thesis by (simp only: reg_get_mut_def None option.case find_entry_None simp_thms)
next
  case (Some e)
  then have "m \<in> fst ` set reg" by (metis domI dom_map_of_conv_image_fst)
  then show ?thesis by (simp add: reg_get_mut_def Some)
qed

text \<open>An update that leaves the ids alone keeps the registry well formed and shows as verified only what
  the verdicts back.\<close>

lemma change_keys [simp]: "map fst (change Q f reg) = map fst reg"
  by (auto simp: change_def)

lemma change_key_set [simp]: "fst ` set (change Q f reg) = fst ` set reg"
  by (metis change_keys set_map)

lemma in_change:
  "(k, e) \<in> set (change Q f reg) \<longleftrightarrow>
   (\<exists>a. (k, a) \<in> set reg \<and> e = (if Q k a then f a else a))"
  by (induction reg) (auto simp: change_def split: if_splits)

lemma registry_ok_change:
  assumes ok: "registry_ok reg"
    and ids: "\<And>e. en_receiver_id (f e) = en_receiver_id e \<and> en_michi_id (f e) = en_michi_id e"
  shows "registry_ok (change Q f reg)"
  unfolding registry_ok_def
proof (intro conjI allI impI)
  have same: "\<exists>a. (k, a) \<in> set reg \<and> en_michi_id a = en_michi_id e
                    \<and> en_receiver_id a = en_receiver_id e"
    if "(k, e) \<in> set (change Q f reg)" for k e
    using that ids by (auto simp: in_change)
  show "distinct (map fst (change Q f reg))" using registry_distinct [OF ok] by simp
  show "en_receiver_id e = k" if "(k, e) \<in> set (change Q f reg)" for k e
    using same [OF that] registry_id [OF ok] by metis
  show "k = k'" if "(k, e) \<in> set (change Q f reg)" "(k', e') \<in> set (change Q f reg)"
    "en_michi_id e = Some m" "en_michi_id e' = Some m" for k e k' e' m
    using same [OF that(1)] same [OF that(2)] that(3,4) registry_michi [OF ok] by metis
  show "m = k" if "(k, e) \<in> set (change Q f reg)" "en_michi_id e = Some m"
    "m \<in> fst ` set (change Q f reg)" for k e m
    using same [OF that(1)] that(2,3) registry_foreign [OF ok] by (metis change_key_set)
qed

lemma backed_change:
  assumes ok: "registry_ok reg" and old: "backed V reg"
    and ids: "\<And>e. en_michi_id (f e) = en_michi_id e"
    and pres: "\<And>e. en_presence (f e) = p"
    and new: "p = VerifiedOnline \<Longrightarrow> W m"
    and other: "\<And>m'. m' \<noteq> m \<Longrightarrow> W m' = V m'"
  shows "backed W (change (meant m reg) f reg)"
  unfolding backed_def
proof (clarify)
  fix k e assume "(k, e) \<in> set (change (meant m reg) f reg)" and on: "en_presence e = VerifiedOnline"
  then obtain a where a: "(k, a) \<in> set reg" and e: "e = (if meant m reg k a then f a else a)"
    by (auto simp: in_change)
  show "\<exists>m\<in>shown_by k e. W m"
  proof (cases "meant m reg k a")
    case True
    with e on pres have "W m" by (simp add: new)
    moreover have "m \<in> shown_by k e" using True e by (auto simp: shown_by_def meant_def ids)
    ultimately show ?thesis by blast
  next
    case False
    with e on a old obtain x where x: "x \<in> shown_by k a" and "V x" by (auto simp: backed_def)
    have "x \<noteq> m"
    proof
      assume "x = m"
      with x False have "en_michi_id a = Some m" and "m \<noteq> k" and "m \<in> fst ` set reg"
        by (auto simp: shown_by_def meant_def)
      with registry_foreign [OF ok a] show False by blast
    qed
    with other \<open>V x\<close> x e False show ?thesis by auto
  qed
qed

lemma backed_mono:
  "backed V reg \<Longrightarrow> (\<And>m. V m \<Longrightarrow> W m) \<Longrightarrow> backed W reg"
  by (fastforce simp: backed_def)

lemma backed_absent:
  assumes old: "backed V reg" and none: "reg_get_mut m reg = None"
    and other: "\<And>m'. m' \<noteq> m \<Longrightarrow> W m' = V m'"
  shows "backed W reg"
  unfolding backed_def
proof (clarify)
  fix k e assume e: "(k, e) \<in> set reg" and "en_presence e = VerifiedOnline"
  with old obtain x where x: "x \<in> shown_by k e" and "V x" by (fastforce simp: backed_def)
  have "x \<noteq> m"
  proof
    assume "x = m"
    with x consider "k = m" | "en_michi_id e = Some m" by (auto simp: shown_by_def)
    then show False using none e by cases (auto simp: reg_get_mut_None rev_image_eqI)
  qed
  with other x \<open>V x\<close> show "\<exists>m\<in>shown_by k e. W m" by auto
qed

text \<open>Adopting an entry by its device id, and adding a new one.\<close>

lemma legacy_change:
  assumes ok: "registry_ok reg" and none: "reg_get_mut (sr_michi_id r) reg = None"
  shows "update_first (legacy_match r) f reg = change (\<lambda>k e. k = sr_device_id r) f reg"
proof -
  have key: "k = sr_device_id r \<longleftrightarrow> legacy_match r e" if "(k, e) \<in> set reg" for k e
  proof -
    have "k \<noteq> sr_michi_id r" using none that by (auto simp: reg_get_mut_None rev_image_eqI)
    then show ?thesis using registry_id [OF ok that] by (auto simp: legacy_match_def)
  qed
  have "update_first (legacy_match r) f reg = change (\<lambda>k e. legacy_match r e) f reg"
  proof (rule update_first_change)
    show "k = k'" if "(k, e) \<in> set reg" "(k', e') \<in> set reg" "legacy_match r e" "legacy_match r e'"
      for k e k' e' using key [OF that(1)] key [OF that(2)] that(3,4) by simp
  qed (rule registry_distinct [OF ok])
  also have "\<dots> = change (\<lambda>k e. k = sr_device_id r) f reg"
    unfolding change_def using key by (intro map_cong) auto
  finally show ?thesis .
qed

lemma registry_ok_adopt:
  assumes ok: "registry_ok reg" and none: "reg_get_mut (sr_michi_id r) reg = None"
  shows "registry_ok (change (\<lambda>k e. k = d) (bridge_adopt r url now) reg)" (is "registry_ok ?R")
  unfolding registry_ok_def
proof (intro conjI allI impI)
  let ?m = "sr_michi_id r"
  have noKey: "?m \<notin> fst ` set reg"
    and noId: "en_michi_id e \<noteq> Some ?m" if "(k, e) \<in> set reg" for k e
    using none that by (auto simp: reg_get_mut_None)
  have old: "\<exists>a. (k, a) \<in> set reg \<and> en_receiver_id e = en_receiver_id a
      \<and> en_michi_id e = (if k = d then Some ?m else en_michi_id a)" if "(k, e) \<in> set ?R" for k e
    using that by (auto simp: in_change bridge_adopt_def)
  show "distinct (map fst ?R)" using registry_distinct [OF ok] by simp
  show "en_receiver_id e = k" if "(k, e) \<in> set ?R" for k e
    using old [OF that] registry_id [OF ok] by metis
  show "k = k'" if "(k, e) \<in> set ?R" "(k', e') \<in> set ?R" "en_michi_id e = Some m"
    "en_michi_id e' = Some m" for k e k' e' m
    using old [OF that(1)] old [OF that(2)] that(3,4) registry_michi [OF ok] noId
    by (metis option.inject)
  show "m = k" if "(k, e) \<in> set ?R" "en_michi_id e = Some m" "m \<in> fst ` set ?R" for k e m
    using old [OF that(1)] that(2,3) registry_foreign [OF ok] noKey
    by (metis change_key_set option.inject)
qed

lemma backed_adopt:
  assumes ok: "registry_ok reg" and none: "reg_get_mut (sr_michi_id r) reg = None"
    and old: "backed V reg"
    and new: "bridge_presence (sr_source r) (sr_verified r) = VerifiedOnline \<Longrightarrow> W (sr_michi_id r)"
    and other: "\<And>m'. m' \<noteq> sr_michi_id r \<Longrightarrow> W m' = V m'"
  shows "backed W (change (\<lambda>k e. k = d) (bridge_adopt r url now) reg)"
  unfolding backed_def
proof (clarify)
  fix k e assume "(k, e) \<in> set (change (\<lambda>k e. k = d) (bridge_adopt r url now) reg)"
    and on: "en_presence e = VerifiedOnline"
  then obtain a where a: "(k, a) \<in> set reg" and e: "e = (if k = d then bridge_adopt r url now a else a)"
    by (auto simp: in_change)
  show "\<exists>m\<in>shown_by k e. W m"
  proof (cases "k = d")
    case True
    with e on show ?thesis by (auto simp: bridge_adopt_def shown_by_def new)
  next
    case False
    have "backed W reg" using old none other by (rule backed_absent)
    with a e on False show ?thesis by (fastforce simp: backed_def)
  qed
qed

lemma alist_update_new: "k \<notin> fst ` set xs \<Longrightarrow> AList.update k v xs = xs @ [(k, v)]"
  by (induction xs) auto

lemma reg_add_new:
  assumes "reg_get_mut (sr_michi_id r) reg = None"
  shows "reg_add (projected_entry r url now) reg
         = reg @ [(sr_michi_id r, projected_entry r url now)]"
  using assms by (simp add: reg_add_def projected_entry_def alist_update_new reg_get_mut_None)

lemma registry_ok_add:
  assumes ok: "registry_ok reg" and none: "reg_get_mut (sr_michi_id r) reg = None"
  shows "registry_ok (reg @ [(sr_michi_id r, projected_entry r url now)])" (is "registry_ok ?R")
  unfolding registry_ok_def
proof (intro conjI allI impI)
  let ?m = "sr_michi_id r"
  have noKey: "?m \<notin> fst ` set reg" using none by (auto simp: reg_get_mut_None)
  have noId: "en_michi_id e \<noteq> Some ?m" if "(k, e) \<in> set reg" for k e
    using none that by (auto simp: reg_get_mut_None)
  have in_R: "(k, e) \<in> set reg \<or> (k = ?m \<and> en_receiver_id e = ?m \<and> en_michi_id e = Some ?m)"
    if "(k, e) \<in> set ?R" for k e using that by (auto simp: projected_entry_def)
  show "distinct (map fst ?R)" using registry_distinct [OF ok] noKey by simp
  show "en_receiver_id e = k" if "(k, e) \<in> set ?R" for k e
    using in_R [OF that] registry_id [OF ok] by metis
  show "k = k'" if "(k, e) \<in> set ?R" "(k', e') \<in> set ?R" "en_michi_id e = Some m"
    "en_michi_id e' = Some m" for k e k' e' m
    using in_R [OF that(1)] in_R [OF that(2)] that(3,4) registry_michi [OF ok] noId
    by (metis option.inject)
  show "m = k" if "(k, e) \<in> set ?R" "en_michi_id e = Some m" "m \<in> fst ` set ?R" for k e m
    using in_R [OF that(1)]
  proof
    assume e: "(k, e) \<in> set reg"
    with noId that(2) have "m \<in> fst ` set reg" using that(3) by auto
    with registry_foreign [OF ok e that(2)] show ?thesis .
  qed (use that(2) in simp)
qed

lemma backed_add:
  assumes none: "reg_get_mut (sr_michi_id r) reg = None" and old: "backed V reg"
    and new: "bridge_presence (sr_source r) (sr_verified r) = VerifiedOnline \<Longrightarrow> W (sr_michi_id r)"
    and other: "\<And>m'. m' \<noteq> sr_michi_id r \<Longrightarrow> W m' = V m'"
  shows "backed W (reg @ [(sr_michi_id r, projected_entry r url now)])"
proof -
  have "backed W reg" using old none other by (rule backed_absent)
  then show ?thesis using new by (auto simp: backed_def projected_entry_def shown_by_def)
qed

section \<open>One event\<close>

lemma bridge_presence_verified [simp]:
  "bridge_presence s v = VerifiedOnline \<longleftrightarrow> s = WhiskerSigned \<and> v"
  by (simp add: bridge_presence_def)

lemma reconcile_record_keeps:
  assumes ok: "registry_ok reg" and old: "backed V reg" and r: "carried_ok r"
    and new: "sr_source r = WhiskerSigned \<Longrightarrow> sr_verified r \<Longrightarrow> W (sr_michi_id r)"
    and other: "\<And>m'. m' \<noteq> sr_michi_id r \<Longrightarrow> W m' = V m'"
  shows "registry_ok (fst (reconcile_record r now reg)) \<and> backed W (fst (reconcile_record r now reg))"
proof (cases "sr_base_url r")
  case None
  with r have "W (sr_michi_id r)" by (auto simp: carried_ok_def intro: new)
  with other have "V m \<Longrightarrow> W m" for m by (cases "m = sr_michi_id r") auto
  with old have "backed W reg" by (rule backed_mono)
  with None ok show ?thesis by (simp add: reconcile_record_def)
next
  case (Some url)
  note b = carried_ok_bridgeable [OF r]
  show ?thesis
  proof (cases "reg_get_mut (sr_michi_id r) reg")
    case found: (Some e)
    have "backed W (change (meant (sr_michi_id r) reg) (bridge_refresh r url now) reg)"
      by (rule backed_change [OF ok old, where p = "bridge_presence (sr_source r) (sr_verified r)"])
         (use new other in \<open>auto simp: bridge_refresh_def\<close>)
    moreover have "registry_ok (change (meant (sr_michi_id r) reg) (bridge_refresh r url now) reg)"
      by (rule registry_ok_change [OF ok]) (simp add: bridge_refresh_def)
    ultimately show ?thesis
      using found Some b by (simp add: reconcile_record_def reg_update_change [OF ok])
  next
    case none: None
    have new': "bridge_presence (sr_source r) (sr_verified r) = VerifiedOnline \<Longrightarrow> W (sr_michi_id r)"
      using new by simp
    show ?thesis
    proof (cases "find_entry (legacy_match r) reg")
      case None
      with none Some b show ?thesis
        using registry_ok_add [OF ok none] backed_add [where W = W, OF none old new' other]
        by (simp add: reconcile_record_def reg_add_new)
    next
      case (Some e)
      with none \<open>sr_base_url r = Some url\<close> b show ?thesis
        using registry_ok_adopt [OF ok none] backed_adopt [where W = W, OF ok none old new' other]
        by (simp add: reconcile_record_def legacy_change [OF ok none])
    qed
  qed
qed

lemma bridge_handle_event_keeps:
  assumes ok: "registry_ok reg" and old: "backed V reg" and e: "event_ok e"
  shows "registry_ok (fst (bridge_handle_event e now reg))
         \<and> backed (\<lambda>m. judge m e (V m)) (fst (bridge_handle_event e now reg))"
proof (cases e)
  case (Discovered r)
  with e show ?thesis
    using reconcile_record_keeps [OF ok old, of r "\<lambda>m. judge m e (V m)"] by (simp add: judge_def)
next
  case (Updated r)
  with e show ?thesis
    using reconcile_record_keeps [OF ok old, of r "\<lambda>m. judge m e (V m)"] by (simp add: judge_def)
next
  case (EndpointChanged mid old_url url source verified)
  let ?f = "\<lambda>e. e\<lparr>en_base_url := url, en_presence := bridge_presence source verified,
                  en_last_seen := Some now\<rparr>"
  let ?W = "\<lambda>m. judge m e (V m)"
  show ?thesis
  proof (cases "reg_get_mut mid reg")
    case None
    have "backed ?W reg"
      by (rule backed_absent [OF old None]) (simp add: EndpointChanged judge_def)
    with None ok EndpointChanged show ?thesis by (simp add: bridge_endpoint_def)
  next
    case (Some a)
    have "backed ?W (change (meant mid reg) ?f reg)"
      by (rule backed_change [OF ok old, where p = "bridge_presence source verified"])
         (simp_all add: EndpointChanged judge_def)
    moreover have "registry_ok (change (meant mid reg) ?f reg)"
      by (rule registry_ok_change [OF ok]) simp
    ultimately show ?thesis
      using Some EndpointChanged by (simp add: bridge_endpoint_def reg_update_change [OF ok])
  qed
next
  case (PeerOffline mid)
  let ?f = "\<lambda>e. e\<lparr>en_presence := Offline, en_capabilities_stale := True\<rparr>"
  have "backed (\<lambda>m. judge m e (V m)) (change (meant mid reg) ?f reg)"
    by (rule backed_change [OF ok old, where p = Offline]) (simp_all add: PeerOffline judge_def)
  moreover have "registry_ok (change (meant mid reg) ?f reg)"
    by (rule registry_ok_change [OF ok]) simp
  ultimately show ?thesis using PeerOffline by (simp add: reg_update_change [OF ok])
qed

lemma bridge_worker_snoc:
  "fst (bridge_worker clock (map Event (evs @ [e])) reg) =
   fst (bridge_handle_event e (clock (length evs) 0) (fst (bridge_worker clock (map Event evs) reg)))"
  by (induction evs arbitrary: clock reg) (auto simp: split_def Let_def)

lemma bridge_worker_keeps:
  assumes "registry_ok reg" and "\<forall>(k, e)\<in>set reg. en_presence e \<noteq> VerifiedOnline"
    and "\<forall>e\<in>set evs. event_ok e"
  shows "registry_ok (fst (bridge_worker clock (map Event evs) reg))
         \<and> backed (verdict evs) (fst (bridge_worker clock (map Event evs) reg))"
  using assms(3)
proof (induction evs rule: rev_induct)
  case Nil
  with assms(1,2) show ?case by (auto simp: backed_def)
next
  case (snoc e evs)
  then have "registry_ok (fst (bridge_worker clock (map Event evs) reg))"
    and "backed (verdict evs) (fst (bridge_worker clock (map Event evs) reg))"
    and "event_ok e" by auto
  from bridge_handle_event_keeps [OF this, of "clock (length evs) 0"] show ?case
    unfolding bridge_worker_snoc by (simp add: verdict_def judge_def [abs_def])
qed

section \<open>The contract of a feed\<close>

text \<open>What the bridge needs of the store: on the runs it is fed with, every event is one it carries
  over, and the last event about a peer says whether its record is verified.\<close>

locale presence_feed =
  fixes log :: "'a \<Rightarrow> ScentEvent list"
    and verified :: "'a \<Rightarrow> string \<Rightarrow> bool"
    and fed :: "'a \<Rightarrow> bool"
  assumes log_ok: "fed x \<Longrightarrow> e \<in> set (log x) \<Longrightarrow> event_ok e"
    and log_verdict: "fed x \<Longrightarrow> verdict (log x) m \<longleftrightarrow> verified x m"
begin

lemma shown_verified_backed:
  assumes "fed x" and "registry_ok reg" and "\<forall>(k, e)\<in>set reg. en_presence e \<noteq> VerifiedOnline"
    and "(k, e) \<in> set (fst (bridge_worker clock (map Event (log x)) reg))"
    and "en_presence e = VerifiedOnline"
  shows "\<exists>m\<in>shown_by k e. verified x m"
proof -
  have "backed (verdict (log x)) (fst (bridge_worker clock (map Event (log x)) reg))"
    using bridge_worker_keeps assms(1-3) log_ok by blast
  with assms(4,5) log_verdict [OF assms(1)] show ?thesis by (fastforce simp: backed_def)
qed

lemma registry_stays_ok:
  "fed x \<Longrightarrow> registry_ok reg \<Longrightarrow> \<forall>(k, e)\<in>set reg. en_presence e \<noteq> VerifiedOnline \<Longrightarrow>
   registry_ok (fst (bridge_worker clock (map Event (log x)) reg))"
  using bridge_worker_keeps log_ok by blast

end

end
