(* ===== verification/Store_Feed.thy ===== *)
theory Store_Feed
  imports Presence_Feed
begin

text \<open>
  The scent store as a feed of the bridge: on every run in the order of its times, over receivers of
  the stream services, its events agree with its records.
\<close>

section \<open>The store as a feed\<close>

definition stream_info :: "VerifiedServerInfo \<Rightarrow> bool" where
  "stream_info i \<longleftrightarrow>
     (vi_service i = ''michi-stream-standard'' \<or> vi_service i = ''michi-stream-hifi'')
     \<and> List.member (vi_roles i) ''audio_receiver''"

fun stream_step :: "PresenceStep \<Rightarrow> bool" where
  "stream_step (SignedStep i src home fp t) \<longleftrightarrow> stream_info i"
| "stream_step (MdnsStep i url src t) \<longleftrightarrow> stream_info i"
| "stream_step (SweepStep t) \<longleftrightarrow> True"

definition record_verified :: "scent_store \<Rightarrow> string \<Rightarrow> bool" where
  "record_verified st m \<longleftrightarrow> (case map_of st m of Some r \<Rightarrow> sr_verified r | None \<Rightarrow> False)"

definition fed_run :: "PresenceStep list \<Rightarrow> bool" where
  "fed_run ss \<longleftrightarrow> step_ordered ss \<and> (\<forall>s\<in>set ss. stream_step s)"

definition log_agrees :: "scent_store \<Rightarrow> ScentEvent list \<Rightarrow> bool" where
  "log_agrees st evs \<longleftrightarrow>
     (\<forall>m. verdict evs m = record_verified st m)
     \<and> (\<forall>e\<in>set evs. event_ok e)
     \<and> (\<forall>k r. map_of st k = Some r \<longrightarrow> stream_record r)"

lemma log_agreesI:
  assumes "\<And>m. verdict evs m = record_verified st m" "\<And>e. e \<in> set evs \<Longrightarrow> event_ok e"
    "\<And>k r. map_of st k = Some r \<Longrightarrow> stream_record r"
  shows "log_agrees st evs"
  unfolding log_agrees_def using assms by blast

lemma log_agreesD:
  assumes "log_agrees st evs"
  shows agrees_verdict: "\<And>m. verdict evs m = record_verified st m"
    and agrees_event: "\<And>e. e \<in> set evs \<Longrightarrow> event_ok e"
    and agrees_stream: "\<And>k r. map_of st k = Some r \<Longrightarrow> stream_record r"
  using assms unfolding log_agrees_def by blast+

text \<open>An observation sends one event about its peer, which says what the new record says.\<close>

lemma log_agrees_observe:
  assumes "log_agrees st evs" and "event_about e = m" and "event_verified e = sr_verified r'"
    and "event_ok e" and "stream_record r'"
  shows "log_agrees (AList.update m r' st) (evs @ [e])"
proof (rule log_agreesI)
  have m: "map_of (AList.update m r' st) k = (if k = m then Some r' else map_of st k)" for k
    by (simp add: AList.update_conv')
  show "verdict (evs @ [e]) k = record_verified (AList.update m r' st) k" for k
    using assms(2,3) agrees_verdict [OF assms(1), of k]
    by (simp add: record_verified_def m judge_def)
  show "event_ok x" if "x \<in> set (evs @ [e])" for x
    using that assms(4) agrees_event [OF assms(1)] by auto
  show "stream_record r" if "map_of (AList.update m r' st) k = Some r" for k r
    using that assms(5) agrees_stream [OF assms(1), of k r] unfolding m by (cases "k = m") simp_all
qed
lemma record_ok_carried:
  "record_ok t k r \<Longrightarrow> sr_online r \<Longrightarrow> stream_record r \<Longrightarrow> carried_ok r"
  unfolding record_ok_def carried_ok_def by blast

lemma record_ok_id: "record_ok t k r \<Longrightarrow> sr_michi_id r = k"
  by (simp add: record_ok_def)

lemma record_ok_verified:
  "record_ok t k r \<Longrightarrow> (sr_source r = WhiskerSigned \<and> sr_verified r) = sr_verified r"
  unfolding record_ok_def by blast

lemma stream_signed:
  "stream_info i \<Longrightarrow> stream_record (signed_refresh i src t home fp r)"
  "stream_info i \<Longrightarrow> stream_record (signed_record i src t home fp)"
  by (simp_all add: stream_info_def stream_record_def signed_refresh_def signed_record_def)

lemma stream_mdns:
  "stream_info i \<Longrightarrow> stream_record r \<Longrightarrow> stream_record (mdns_refresh i url src t r)"
  "stream_info i \<Longrightarrow> stream_record (mdns_record i url src t)"
  by (simp_all add: stream_info_def stream_record_def mdns_refresh_def mdns_record_def Let_def)

lemma online_after [simp]:
  "sr_online (signed_refresh i src t home fp r)" "sr_online (signed_record i src t home fp)"
  "sr_online (mdns_refresh i url src t r)" "sr_online (mdns_record i url src t)"
  by (simp_all add: signed_refresh_def signed_record_def mdns_refresh_def mdns_record_def Let_def)

lemma log_agrees_new:
  assumes agree: "log_agrees st evs" and new: "record_ok t m r'" and str: "stream_record r'"
    and on: "sr_online r'"
    and e: "e \<in> {Discovered r', Updated r', EndpointChanged m old url (sr_source r') (sr_verified r')}"
  shows "log_agrees (AList.update m r' st) (evs @ [e])"
proof (rule log_agrees_observe [OF agree])
  show "event_about e = m" using e record_ok_id [OF new] by auto
  show "event_verified e = sr_verified r'" using e record_ok_verified [OF new] by auto
  show "event_ok e" using e record_ok_carried [OF new on str] by auto
qed (rule str)

lemma log_agrees_signed:
  assumes agree: "log_agrees st evs" and ok: "store_ok ss t0 st" and i: "stream_info i"
  shows "log_agrees (fst (observe_signed_with_home i src t home fp st))
           (evs @ snd (observe_signed_with_home i src t home fp st))"
proof (cases "map_of st (vi_michi_id i)")
  case None
  then show ?thesis
    unfolding observe_signed_with_home_def Let_def
    by (auto intro!: log_agrees_new [OF agree record_ok_signed_new stream_signed(2) [OF i]])
next
  case (Some r)
  from ok Some have "record_ok t0 (vi_michi_id i) r" unfolding store_ok_def by metis
  with Some show ?thesis
    unfolding observe_signed_with_home_def Let_def
    by (auto intro!: log_agrees_new [OF agree record_ok_signed stream_signed(1) [OF i]]
             simp del: map_of_eq_Some_iff)
qed

lemma log_agrees_mdns:
  assumes agree: "log_agrees st evs" and ok: "store_ok ss t0 st" and i: "stream_info i"
  shows "log_agrees (fst (observe_mdns_candidate i url src t st))
           (evs @ snd (observe_mdns_candidate i url src t st))"
proof (cases "map_of st (vi_michi_id i)")
  case None
  then show ?thesis
    unfolding observe_mdns_candidate_def Let_def
    by (auto intro!: log_agrees_new [OF agree record_ok_mdns_new stream_mdns(2) [OF i]])
next
  case (Some r)
  from ok Some have "record_ok t0 (vi_michi_id i) r" unfolding store_ok_def by metis
  moreover have "stream_record r" using agree Some by (rule agrees_stream)
  ultimately show ?thesis
    using Some unfolding observe_mdns_candidate_def Let_def
    by (auto intro!: log_agrees_new [OF agree record_ok_mdns stream_mdns(1) [OF i]]
             simp del: map_of_eq_Some_iff)
qed

lemma expire_event:
  assumes ok: "record_ok t k r" and str: "stream_record r"
  shows "case snd (expire_record t' (k, r)) of
           Some e \<Rightarrow> event_about e = k \<and> \<not> event_verified e \<and> event_ok e
                     \<and> \<not> sr_verified (fst (expire_record t' (k, r)))
         | None \<Rightarrow> fst (expire_record t' (k, r)) = r"
proof (cases "effective_presence r t'")
  case EffProvisionalMdns
  then have "sr_last_mdns_seen r \<noteq> None"
    by (auto simp: effective_presence_def is_mdns_fresh_def seen_recently_def
             split: if_splits option.splits)
  with ok have url: "sr_base_url r \<noteq> None" and k: "sr_michi_id r = k"
    unfolding record_ok_def by blast+
  have "carried_ok (r\<lparr>sr_source := MdnsProvisional, sr_verified := False, sr_online := True\<rparr>)"
    using str url by (simp add: carried_ok_def stream_record_def)
  with EffProvisionalMdns k show ?thesis by (simp add: expire_record_def Let_def)
qed (simp_all add: expire_record_def)
lemma stream_expire: "stream_record r \<Longrightarrow> stream_record (fst (expire_record t (k, r)))"
  by (auto simp: expire_record_def stream_record_def Let_def split: EffectivePresence.splits)

lemma verdict_sweep:
  assumes "distinct (map fst st)"
    and "\<forall>(k, r)\<in>set st. \<forall>e. snd (expire_record t (k, r)) = Some e \<longrightarrow> event_about e = k"
  shows "fold (judge m) (snd (scent_check_expirations t st)) b =
         (case map_of st m of
            None \<Rightarrow> b
          | Some r \<Rightarrow> (case snd (expire_record t (m, r)) of None \<Rightarrow> b | Some e \<Rightarrow> event_verified e))"
  using assms
proof (induction st arbitrary: b)
  case Nil
  then show ?case by (simp add: scent_check_expirations_def List.map_filter_simps)
next
  case (Cons x st)
  obtain k r where x: "x = (k, r)" by (cases x)
  have IH: "fold (judge m) (snd (scent_check_expirations t st)) b =
         (case map_of st m of
            None \<Rightarrow> b
          | Some r \<Rightarrow> (case snd (expire_record t (m, r)) of None \<Rightarrow> b | Some e \<Rightarrow> event_verified e))"
    for b using Cons by simp
  have step: "snd (scent_check_expirations t (x # st)) =
    (case snd (expire_record t (k, r)) of None \<Rightarrow> [] | Some e \<Rightarrow> [e]) @ snd (scent_check_expirations t st)"
    by (simp add: scent_check_expirations_def List.map_filter_simps x split: option.splits)
  have about: "event_about e = k" if "snd (expire_record t (k, r)) = Some e" for e
    using Cons.prems(2) that x by simp
  have judged: "judge m e b = (if k = m then event_verified e else b)"
    if "snd (expire_record t (k, r)) = Some e" for e b
    using about [OF that] by (simp add: judge_def)
  have new: "map_of st k = None" using Cons.prems(1) x by (simp add: map_of_eq_None_iff)
  show ?case
  proof (cases "snd (expire_record t (k, r))")
    case None
    then have "fold (judge m) (snd (scent_check_expirations t (x # st))) b =
               fold (judge m) (snd (scent_check_expirations t st)) b" by (simp add: step)
    with None new x show ?thesis unfolding IH by (cases "k = m") simp_all
  next
    case (Some e)
    then have "fold (judge m) (snd (scent_check_expirations t (x # st))) b =
               fold (judge m) (snd (scent_check_expirations t st)) (judge m e b)" by (simp add: step)
    with Some new x show ?thesis
      unfolding IH judged [OF Some] by (cases "k = m") simp_all
  qed
qed

lemma log_agrees_sweep:
  assumes agree: "log_agrees st evs" and ok: "store_ok ss t0 st"
  shows "log_agrees (fst (scent_check_expirations t st)) (evs @ snd (scent_check_expirations t st))"
proof (rule log_agreesI)
  have d: "distinct (map fst st)"
    and rok: "\<And>k r. map_of st k = Some r \<Longrightarrow> record_ok t0 k r"
    using ok unfolding store_ok_def by blast+
  have ev: "case snd (expire_record t (k, r)) of
           Some e \<Rightarrow> event_about e = k \<and> \<not> event_verified e \<and> event_ok e
                     \<and> \<not> sr_verified (fst (expire_record t (k, r)))
         | None \<Rightarrow> fst (expire_record t (k, r)) = r" if "map_of st k = Some r" for k r
    using expire_event [OF rok [OF that] agrees_stream [OF agree that]] .
  have ev_in: "map_of st k = Some r" if "(k, r) \<in> set st" for k r using d that by simp
  show "event_ok e" if "e \<in> set (evs @ snd (scent_check_expirations t st))" for e
  proof (cases "e \<in> set evs")
    case False
    with that obtain k r where kr: "(k, r) \<in> set st" and e: "snd (expire_record t (k, r)) = Some e"
      by (auto simp: scent_check_expirations_def List.map_filter_def)
    from ev [OF ev_in [OF kr]] show ?thesis unfolding e option.case by blast
  qed (rule agrees_event [OF agree])
  show "stream_record r" if "map_of (fst (scent_check_expirations t st)) k = Some r" for k r
    using that stream_expire agrees_stream [OF agree] unfolding map_of_sweep by blast
  have abouts: "\<forall>(k, r)\<in>set st. \<forall>e. snd (expire_record t (k, r)) = Some e \<longrightarrow> event_about e = k"
  proof (clarify)
    fix k r e assume "(k, r) \<in> set st" and e: "snd (expire_record t (k, r)) = Some e"
    from ev [OF ev_in [OF this(1)]] show "event_about e = k" unfolding e option.case by blast
  qed
  show "verdict (evs @ snd (scent_check_expirations t st)) m
        = record_verified (fst (scent_check_expirations t st)) m" for m
  proof (cases "map_of st m")
    case None
    then show ?thesis
      using agrees_verdict [OF agree, of m]
      by (simp only: verdict_def fold_append comp_apply verdict_sweep [OF d abouts]
                     record_verified_def map_of_sweep option.case option.map)
  next
    case (Some r)
    show ?thesis
      using ev [OF Some] agrees_verdict [OF agree, of m]
      unfolding verdict_def fold_append comp_apply verdict_sweep [OF d abouts]
                record_verified_def map_of_sweep Some option.case option.map
      by (cases "snd (expire_record t (m, r))") simp_all
  qed
qed

lemma log_agrees_run:
  "fed_run ss \<Longrightarrow> log_agrees (fst (presence_run ss [])) (snd (presence_run ss []))"
proof (induction ss rule: rev_induct)
  case Nil
  then show ?case by (simp add: log_agrees_def record_verified_def)
next
  case (snoc s ss)
  from snoc.prems have ord: "step_ordered ss" and "fed_run ss" and s: "stream_step s"
    using sorted_snoc_le by (auto simp: fed_run_def)
  with snoc.IH have agree: "log_agrees (fst (presence_run ss [])) (snd (presence_run ss []))" by blast
  note ok = store_ok_run [OF ord]
  have "log_agrees (fst (presence_step s (fst (presence_run ss []))))
          (snd (presence_run ss []) @ snd (presence_step s (fst (presence_run ss []))))"
    using s by (cases s) (simp_all add: log_agrees_signed [OF agree ok] log_agrees_mdns [OF agree ok]
                                        log_agrees_sweep [OF agree ok])
  then show ?case by (simp add: presence_run_snoc split_def Let_def)
qed

interpretation scent: presence_feed
  "\<lambda>ss. snd (presence_run ss [])" "\<lambda>ss. record_verified (fst (presence_run ss []))" fed_run
  using log_agrees_run by unfold_locales (auto dest: agrees_event agrees_verdict)

end
