(* ===== verification/Presence_Properties.thy ===== *)
theory Presence_Properties
  imports Store_Feed
begin

text \<open>
  The properties of discovery and presence: what the two feeders let into the scent store, the
  records against the history of announcements, what the registry shows, and the choice of
  interfaces; then three weaknesses that the model shows.
\<close>

section \<open>What the feeders let in\<close>

definition metric_outcomes :: "WhiskerMetrics \<Rightarrow> u64" where
  "metric_outcomes m =
     wm_announces_verified m + wm_signature_rejected m + wm_timestamp_rejected m
     + wm_replay_rejected m + wm_non_stream_filtered m"

definition stream_announce :: "Announce \<Rightarrow> bool" where
  "stream_announce a \<longleftrightarrow> an_service a \<noteq> OtherService \<and> AudioReceiver \<in> set (an_roles a)"

lemma announce_info_stream: "stream_announce a \<Longrightarrow> stream_info (announce_info mid a)"
  by (cases "an_service a")
     (auto simp: stream_announce_def stream_info_def announce_info_def image_iff
           intro!: bexI [of _ AudioReceiver])

text \<open>
  Announcement admission: \<open>handle_packet\<close> accepts a datagram exactly when it parses, the engine
  verifies it, and it announces a stream service with the role of an audio receiver; an accepted one
  is one signed observation of the verified peer, a rejected one leaves the scent store alone and
  sends nothing. Each datagram is counted as received and under exactly one outcome.
\<close>

theorem announcement_admission:
  "case handle_packet parse verify epoch_ms buf source now w of
     (accepted, w', evs) \<Rightarrow>
       (if \<exists>a mid. parse buf = Some a \<and> verify a source = Inr (Verified mid) \<and> stream_announce a
        then accepted \<and> (\<exists>a mid. parse buf = Some a \<and> verify a source = Inr (Verified mid)
               \<and> stream_info (announce_info mid a)
               \<and> (wh_scent w', evs) =
                   presence_step (SignedStep (announce_info mid a) (Some source)
                     (an_michi_home_id a) (an_membership_fingerprint a) now) (wh_scent w))
        else \<not> accepted \<and> wh_scent w' = wh_scent w \<and> evs = [])
       \<and> wm_packets_received (wh_metrics w') = wm_packets_received (wh_metrics w) + 1
       \<and> metric_outcomes (wh_metrics w') = metric_outcomes (wh_metrics w) + 1"
proof (cases "parse buf")
  case None
  then show ?thesis by (simp add: handle_packet_def reject_signature_def metric_outcomes_def Let_def)
next
  case (Some a)
  show ?thesis
  proof (cases "verify a source")
    case (Inl err)
    with Some show ?thesis
      by (cases err) (simp_all add: handle_packet_def reject_signature_def metric_outcomes_def Let_def)
  next
    case (Inr level)
    show ?thesis
    proof (cases level)
      case (Verified mid)
      note here = Some Inr Verified
      show ?thesis
      proof (cases "stream_announce a")
        case True
        with here announce_info_stream [OF True] show ?thesis
          by (simp add: handle_packet_def stream_announce_def metric_outcomes_def Let_def split_def)
      next
        case False
        with here show ?thesis
          by (auto simp: handle_packet_def stream_announce_def metric_outcomes_def Let_def)
      qed
    qed (use Some Inr in \<open>simp_all add: handle_packet_def reject_signature_def metric_outcomes_def Let_def\<close>)
  qed
qed

lemma check_server_info_Some:
  assumes "check_server_info net mid body = Inr (Some i)"
  shows "vi_michi_id i = mid \<and> stream_info i \<and> text_field ''michi_id'' body = mid
         \<and> pn_derive_michi_id net (text_field ''public_key'' body) = Inr mid"
  using assms unfolding check_server_info_def Let_def
  by (auto simp: stream_info_def simp del: List.member_iff split: if_splits sum.splits)

lemma verify_identity_Some:
  assumes "verify_identity_endpoint net url mid = Inr (Some i)"
  shows "\<exists>info_url status body.
           pn_join net url ''api/v1/server/info'' = Inr info_url
           \<and> pn_get net info_url = Inr (status, Inr body) \<and> 200 \<le> status \<and> status < 300
           \<and> text_field ''michi_id'' body = mid
           \<and> pn_derive_michi_id net (text_field ''public_key'' body) = Inr mid
           \<and> vi_michi_id i = mid \<and> stream_info i"
proof -
  obtain info_url where j: "pn_join net url ''api/v1/server/info'' = Inr info_url"
    using assms by (auto simp: verify_identity_endpoint_def split: sum.splits)
  obtain status r where g: "pn_get net info_url = Inr (status, r)"
    using assms j by (auto simp: verify_identity_endpoint_def split: sum.splits)
  have ok: "200 \<le> status \<and> status < 300"
    using assms by (auto simp: verify_identity_endpoint_def j g split: if_splits)
  obtain body where r: "r = Inr body"
    using assms ok by (cases r) (auto simp: verify_identity_endpoint_def j g)
  have "check_server_info net mid body = Inr (Some i)"
    using assms ok by (auto simp: verify_identity_endpoint_def j g r)
  from check_server_info_Some [OF this] j g ok r show ?thesis by blast
qed

lemma probe_addresses_cases:
  "probe_addresses net mid port now ips st = (st, [])
   \<or> (\<exists>ip url i. ip \<in> set ips \<and> format_base_url net ip port = Inr url
        \<and> verify_identity_endpoint net url mid = Inr (Some i)
        \<and> probe_addresses net mid port now ips st =
            presence_step (MdnsStep i url (Some (host_port ip port)) now) st)"
proof (induction net mid port now ips st rule: probe_addresses.induct)
  case (2 net mid port now ip ips st)
  show ?case
  proof (cases "format_base_url net ip port")
    case (Inl e)
    with 2(1) show ?thesis by fastforce
  next
    case (Inr url)
    show ?thesis
    proof (cases "\<exists>i. verify_identity_endpoint net url mid = Inr (Some i)")
      case True
      with Inr show ?thesis by fastforce
    next
      case False
      then have "probe_addresses net mid port now (ip # ips) st
                 = probe_addresses net mid port now ips st"
        using Inr by (auto split: sum.splits option.splits)
      moreover from False 2(2,3) [OF Inr] have
        "probe_addresses net mid port now ips st = (st, [])
         \<or> (\<exists>ip url i. ip \<in> set ips \<and> format_base_url net ip port = Inr url
              \<and> verify_identity_endpoint net url mid = Inr (Some i)
              \<and> probe_addresses net mid port now ips st =
                  presence_step (MdnsStep i url (Some (host_port ip port)) now) st)"
        by (cases "verify_identity_endpoint net url mid"; cases "projr (verify_identity_endpoint net url mid)")
           (auto simp del: presence_step.simps)
      ultimately show ?thesis by (metis list.set_intros(2))
    qed
  qed
qed simp

text \<open>
  Candidate admission: an mDNS answer enters the scent store only as one observation of the
  Michi id it names, at an address of the answer whose \<open>server/info\<close> came back with a success status
  and names that id, a public key from which that id derives, and a stream service with the role of
  an audio receiver; otherwise nothing changes.
\<close>

theorem candidate_admission:
  "handle_resolved_service net prop port addresses now st = (st, [])
   \<or> (\<exists>mid ip url info_url status body i.
        prop = Some mid \<and> ip \<in> set addresses \<and> format_base_url net ip port = Inr url
        \<and> pn_join net url ''api/v1/server/info'' = Inr info_url
        \<and> pn_get net info_url = Inr (status, Inr body) \<and> 200 \<le> status \<and> status < 300
        \<and> text_field ''michi_id'' body = mid
        \<and> pn_derive_michi_id net (text_field ''public_key'' body) = Inr mid
        \<and> vi_michi_id i = mid \<and> stream_info i
        \<and> handle_resolved_service net prop port addresses now st =
            presence_step (MdnsStep i url (Some (host_port ip port)) now) st)"
proof (cases "\<exists>c cs. prop = Some (c # cs)")
  case True
  then obtain c cs where id: "prop = Some (c # cs)" by blast
  show ?thesis
    using probe_addresses_cases [of net "c # cs" port now addresses st] verify_identity_Some
    unfolding handle_resolved_service_def id option.case list.case by metis
next
  case False
  then show ?thesis by (auto simp: handle_resolved_service_def split: option.splits list.splits)
qed

section \<open>Presence\<close>

lemma swept_store:
  assumes "step_ordered (steps @ [SweepStep now])"
  shows "map_of (fst (presence_run (steps @ [SweepStep now]) [])) m =
         map_option (\<lambda>r. fst (expire_record now (m, r))) (map_of (fst (presence_run steps [])) m)"
    and "record_tracks steps m (map_of (fst (presence_run steps [])) m)"
proof -
  show "map_of (fst (presence_run (steps @ [SweepStep now]) [])) m =
        map_option (\<lambda>r. fst (expire_record now (m, r))) (map_of (fst (presence_run steps [])) m)"
    by (simp add: presence_run_snoc split_def Let_def map_of_sweep)
  have "step_ordered steps" using sorted_snoc_le [OF assms] by blast
  from store_ok_run [OF this] show "record_tracks steps m (map_of (fst (presence_run steps [])) m)"
    unfolding store_ok_def by (elim conjE) (erule spec)
qed

lemma swept_record:
  assumes "step_ordered (steps @ [SweepStep now])"
    and "map_of (fst (presence_run (steps @ [SweepStep now]) [])) m = Some r"
  shows "effective_presence r now = presence_spec m steps now"
    and "sr_verified r \<longleftrightarrow> presence_spec m steps now = EffVerifiedOnline"
    and "sr_online r \<longleftrightarrow> presence_spec m steps now \<noteq> EffOffline"
proof -
  let ?t = "if steps = [] then 0 else step_time (last steps)"
  have ord: "step_ordered steps" and le: "?t \<le> now"
    using sorted_snoc_le [OF assms(1)] by (auto split: if_splits)
  note ok = store_ok_run [OF ord]
  obtain a where a: "map_of (fst (presence_run steps [])) m = Some a"
    and r: "r = fst (expire_record now (m, a))"
    using assms(2) unfolding swept_store(1) [OF assms(1)] map_option_eq_Some by blast
  have rok: "record_ok ?t m a" using ok a unfolding store_ok_def by blast
  have "effective_presence a now = presence_spec m steps now"
    by (rule presence_spec_record [OF ord ok a])
  with swept_flags [OF rok le]
  show "effective_presence r now = presence_spec m steps now"
    and "sr_verified r \<longleftrightarrow> presence_spec m steps now = EffVerifiedOnline"
    and "sr_online r \<longleftrightarrow> presence_spec m steps now \<noteq> EffOffline"
    by (simp_all add: r Let_def)
qed

lemma swept_verified:
  assumes "step_ordered (steps @ [SweepStep now])"
    and "record_verified (fst (presence_run (steps @ [SweepStep now]) [])) m"
  shows "heard signed_of m steps now"
proof -
  from assms(2) obtain r where r: "map_of (fst (presence_run (steps @ [SweepStep now]) [])) m = Some r"
    and v: "sr_verified r"
    unfolding record_verified_def by (metis option.case_eq_if option.collapse)
  from swept_record(2) [OF assms(1) r] v show ?thesis
    by (auto simp: presence_spec_def split: if_splits)
qed

text \<open>
  C25 (Presence follows history): after a sweep at the end of any run in the order of its times, a peer has
  a record exactly when it was ever observed, and its effective presence, its flag \<open>verified\<close> and its
  flag \<open>online\<close> are those of the history: verified if a signed announcement is less than 90 s old,
  else provisional if an mDNS observation is, else offline.
\<close>

theorem presence_follows_history:
  assumes "step_ordered (steps @ [SweepStep now])"
  shows "case scent_get (fst (presence_run (steps @ [SweepStep now]) [])) m of
           None \<Rightarrow> \<forall>s\<in>set steps. \<not> signed_of m s \<and> \<not> mdns_of m s
         | Some r \<Rightarrow>
             (\<exists>s\<in>set steps. signed_of m s \<or> mdns_of m s)
             \<and> effective_presence r now = presence_spec m steps now
             \<and> (sr_verified r \<longleftrightarrow> presence_spec m steps now = EffVerifiedOnline)
             \<and> (sr_online r \<longleftrightarrow> presence_spec m steps now \<noteq> EffOffline)"
proof (cases "map_of (fst (presence_run (steps @ [SweepStep now]) [])) m")
  case None
  then have "map_of (fst (presence_run steps [])) m = None"
    unfolding swept_store(1) [OF assms] by (metis option.map_disc_iff)
  with swept_store(2) [OF assms, of m] have "record_tracks steps m None" by metis
  then show ?thesis unfolding scent_get_def None by (simp add: record_tracks_def last_time_None)
next
  case (Some r)
  then obtain a where "map_of (fst (presence_run steps [])) m = Some a"
    unfolding swept_store(1) [OF assms] map_option_eq_Some by blast
  with swept_store(2) [OF assms, of m] have "record_tracks steps m (Some a)" by metis
  then have "\<exists>s\<in>set steps. signed_of m s \<or> mdns_of m s" by (simp add: record_tracks_def)
  with swept_record [OF assms Some] show ?thesis unfolding scent_get_def Some by simp
qed

definition demo_peer :: VerifiedServerInfo where
  "demo_peer =
     \<lparr>vi_michi_id = ''p'', vi_device_id = ''d'', vi_name = ''n'', vi_service = ''michi-stream-hifi'',
      vi_roles = [''audio_receiver'']\<rparr>"

theorem presence_follows_history_witness:
  "case scent_get (fst (presence_run ([SignedStep demo_peer None None None 0] @ [SweepStep 5]) [])) ''p'' of
     None \<Rightarrow> False | Some r \<Rightarrow> effective_presence r 5 = EffVerifiedOnline"
proof -
  have "step_ordered ([SignedStep demo_peer None None None 0] @ [SweepStep 5])"
    by (simp add: step_ordered_def)
  from presence_follows_history [OF this, of "''p''"] show ?thesis
    by (auto simp: presence_spec_def heard_def demo_peer_def scent_expiry_timeout_def from_secs_def
             split: option.splits)
qed

text \<open>
  C26 (Shown online is fresh): the bridge is fed with all events of a run that ends with a sweep, over
  stream receivers, and starts with a registry whose ids are consistent and that shows nobody as
  verified. Then each entry it shows as \<open>VerifiedOnline\<close> belongs, by its key or its Michi id, to a peer
  whose signed announcement is less than 90 s old, and the ids stay consistent.
\<close>

theorem shown_online_is_fresh:
  assumes "step_ordered (steps @ [SweepStep now])" and "\<forall>s\<in>set steps. stream_step s"
    and "registry_ok reg" and "\<forall>(k, e)\<in>set reg. en_presence e \<noteq> VerifiedOnline"
    and "bridge_worker clock (map Event (snd (presence_run (steps @ [SweepStep now]) []))) reg
         = (reg', tasks)"
  shows "registry_ok reg'
         \<and> (\<forall>(k, e)\<in>set reg'. en_presence e = VerifiedOnline
              \<longrightarrow> (\<exists>m\<in>shown_by k e. heard signed_of m steps now))"
proof
  have fed: "fed_run (steps @ [SweepStep now])" using assms(1,2) by (simp add: fed_run_def)
  from scent.registry_stays_ok [OF fed assms(3,4), of clock] assms(5) show "registry_ok reg'" by simp
  show "\<forall>(k, e)\<in>set reg'. en_presence e = VerifiedOnline
          \<longrightarrow> (\<exists>m\<in>shown_by k e. heard signed_of m steps now)"
  proof (clarify)
    fix k e assume "(k, e) \<in> set reg'" and "en_presence e = VerifiedOnline"
    then have "\<exists>m\<in>shown_by k e. record_verified (fst (presence_run (steps @ [SweepStep now]) [])) m"
      using scent.shown_verified_backed [OF fed assms(3,4), of k e clock] assms(5) by simp
    then obtain m where m: "m \<in> shown_by k e"
      and "record_verified (fst (presence_run (steps @ [SweepStep now]) [])) m" by blast
    then have "heard signed_of m steps now"
      using swept_verified [OF assms(1), of m] by blast
    with m show "\<exists>m\<in>shown_by k e. heard signed_of m steps now" by blast
  qed
qed

theorem shown_online_is_fresh_witness:
  "\<exists>reg' tasks.
     bridge_worker (\<lambda>i j. 0)
       (map Event (snd (presence_run ([SignedStep demo_peer None None None 0, MdnsStep demo_peer ''u'' None 1,
                                        SignedStep demo_peer None None None 2] @ [SweepStep 5]) []))) []
       = (reg', tasks)
     \<and> map (\<lambda>(k, e). (k, en_presence e, en_base_url e)) reg' = [(''p'', VerifiedOnline, ''u'')]
     \<and> registry_ok reg'"
proof -
  let ?steps = "[SignedStep demo_peer None None None 0, MdnsStep demo_peer ''u'' None 1,
                 SignedStep demo_peer None None None 2]"
  have ord: "step_ordered (?steps @ [SweepStep 5])" by (simp add: step_ordered_def)
  have str: "\<forall>s\<in>set ?steps. stream_step s" by (simp add: stream_info_def demo_peer_def)
  have "registry_ok []" by (simp add: registry_ok_def)
  note fresh = shown_online_is_fresh [OF ord str this]
  let ?out = "bridge_worker (\<lambda>i j. 0) (map Event (snd (presence_run (?steps @ [SweepStep 5]) []))) []"
  have "map (\<lambda>(k, e). (k, en_presence e, en_base_url e)) (fst ?out) = [(''p'', VerifiedOnline, ''u'')]"
    by (simp add: observe_signed_with_home_def observe_mdns_candidate_def Let_def signed_record_def
                  signed_refresh_def mdns_refresh_def demo_peer_def scent_check_expirations_def
                  expire_record_def effective_presence_def is_signed_fresh_def seen_recently_def
                  scent_expiry_timeout_def from_secs_def add_endpoint_def List.map_filter_def
                  reconcile_record_def bridge_endpoint_def bridgeable_def reg_get_mut_def
                  reg_add_def projected_entry_def)
  moreover have "registry_ok (fst ?out)"
    using fresh [of "\<lambda>i j. 0" "fst ?out" "snd ?out", OF _ prod.collapse [symmetric]]
    unfolding list.set ball_empty by (rule conjunct1) (rule TrueI)
  ultimately show ?thesis
    by (intro exI [of _ "fst ?out"] exI [of _ "snd ?out"] conjI) (rule prod.collapse [symmetric])
qed

section \<open>The choice of interfaces\<close>

lemma dedup_subset: "set (dedup_by_ip seen cs) \<subseteq> set cs"
  by (induction seen cs rule: dedup_by_ip.induct) auto

lemma dedup_ips: "mi_ip ` set (dedup_by_ip seen cs) = mi_ip ` set cs - set seen"
  by (induction seen cs rule: dedup_by_ip.induct) (auto simp: List.member_iff)

lemma dedup_distinct: "distinct (map mi_ip (dedup_by_ip seen cs))"
proof (induction seen cs rule: dedup_by_ip.induct)
  case (2 seen c cs)
  then show ?case using dedup_ips [of "mi_ip c # seen" cs] by (auto simp: List.member_iff)
qed simp

lemma dedup_sorted: "sorted (map f cs) \<Longrightarrow> sorted (map f (dedup_by_ip seen cs))"
proof (induction seen cs rule: dedup_by_ip.induct)
  case (2 seen c cs)
  then show ?case using dedup_subset [of "mi_ip c # seen" cs] by auto
qed simp

definition interface_rank :: "MulticastInterfaceCandidate \<Rightarrow> nat" where
  "interface_rank c = (if is_rfc1918 (mi_ip c) then 0 else 1)"

lemma by_priority_props:
  "distinct (map mi_ip (by_priority cs))" "set (by_priority cs) \<subseteq> set cs"
  "mi_ip ` set (by_priority cs) = mi_ip ` set cs" "sorted (map interface_rank (by_priority cs))"
proof -
  have rank: "(\<lambda>c. if is_rfc1918 (mi_ip c) then 0 else 1) = interface_rank"
    by (simp add: interface_rank_def [abs_def])
  note def = by_priority_def [of cs, unfolded rank]
  show "distinct (map mi_ip (by_priority cs))" "set (by_priority cs) \<subseteq> set cs"
    "mi_ip ` set (by_priority cs) = mi_ip ` set cs" "sorted (map interface_rank (by_priority cs))"
    unfolding def using dedup_subset [of "[]" "sort_key interface_rank cs"]
    by (simp_all add: dedup_distinct dedup_ips dedup_sorted)
qed

text \<open>
  Choice of interfaces: the multicast group is joined once per address, on exactly the addresses
  of the usable interfaces that are not virtual or, when every usable interface is virtual, of all
  of them; private addresses come first.
\<close>

theorem interface_choice:
  "let chosen = select_multicast_interfaces cs;
       wanted = (\<lambda>c. c \<in> set cs \<and> usable_interface c
                     \<and> (is_virtual_or_docker (mi_name c)
                        = (\<forall>c'\<in>set cs. usable_interface c' \<longrightarrow> is_virtual_or_docker (mi_name c'))))
   in distinct (map mi_ip chosen) \<and> (\<forall>c\<in>set chosen. wanted c)
      \<and> mi_ip ` set chosen = mi_ip ` Collect wanted \<and> sorted (map interface_rank chosen)"
proof -
  let ?p = "filter (\<lambda>c. \<not> is_virtual_or_docker (mi_name c)) (filter usable_interface cs)"
  let ?v = "filter (\<lambda>c. is_virtual_or_docker (mi_name c)) (filter usable_interface cs)"
  let ?w = "{c. c \<in> set cs \<and> usable_interface c
                     \<and> (is_virtual_or_docker (mi_name c)
                        = (\<forall>c'\<in>set cs. usable_interface c' \<longrightarrow> is_virtual_or_docker (mi_name c')))}"
  have sel: "select_multicast_interfaces cs = by_priority (if ?p \<noteq> [] then ?p else ?v)"
    by (simp add: select_multicast_interfaces_def partition_filter_conv comp_def Let_def split_def)
  have "?w = set (if ?p \<noteq> [] then ?p else ?v)"
    by (auto simp: filter_empty_conv)
  then show ?thesis
    using by_priority_props [of "if ?p \<noteq> [] then ?p else ?v"] unfolding sel Let_def by blast
qed

theorem interface_choice_witness:
  "map mi_name (select_multicast_interfaces
     [\<lparr>mi_name = ''docker0'', mi_ip = (172, 17, 0, 1), mi_is_loopback = False\<rparr>,
      \<lparr>mi_name = ''ppp0'', mi_ip = (8, 8, 8, 8), mi_is_loopback = False\<rparr>,
      \<lparr>mi_name = ''eth0'', mi_ip = (192, 168, 1, 2), mi_is_loopback = False\<rparr>])
   = [''eth0'', ''ppp0'']"
  by code_simp

section \<open>What the model shows\<close>

text \<open>An mDNS observation of a peer with a fresh signed announcement replaces its URL and passes the
  new one on as verified, although the probe only saw the peer's public data.\<close>

lemma mdns_redirects_signed_peer:
  assumes "map_of st (vi_michi_id i) = Some r" and "sr_online r" and "is_signed_fresh r now"
    and "sr_base_url r \<noteq> Some url"
  shows "snd (observe_mdns_candidate i url src now st)
         = [EndpointChanged (vi_michi_id i) (sr_base_url r) url WhiskerSigned True]"
proof -
  have "sr_source (mdns_refresh i url src now r) = WhiskerSigned"
    "sr_verified (mdns_refresh i url src now r)"
    using assms(3) by (simp_all add: mdns_refresh_def is_signed_fresh_def)
  with assms show ?thesis
    by (simp add: observe_mdns_candidate_def Let_def del: map_of_eq_Some_iff)
qed

text \<open>A verified peer that announces the id of another receiver as its device id takes over that
  receiver's entry, with the credential the server holds for the other one.\<close>

lemma device_id_takes_over_entry:
  assumes "carried_ok r" and "sr_base_url r = Some url" and "sr_michi_id r \<noteq> k"
    and "sr_device_id r = k" and "en_receiver_id e = k" and "en_michi_id e \<noteq> Some (sr_michi_id r)"
  shows "reconcile_record r now [(k, e)] = ([(k, bridge_adopt r url now e)], [])
         \<and> en_michi_id (bridge_adopt r url now e) = Some (sr_michi_id r)
         \<and> en_base_url (bridge_adopt r url now e) = url
         \<and> en_token (bridge_adopt r url now e) = en_token e
         \<and> en_paired (bridge_adopt r url now e) = en_paired e"
  using assms carried_ok_bridgeable [OF assms(1)]
  by (simp add: reconcile_record_def reg_get_mut_def legacy_match_def bridge_adopt_def)

text \<open>\<open>update_base_url\<close> can take a verified record back to provisional without an event.\<close>

lemma base_url_downgrade_is_silent:
  assumes "map_of st mid = Some r" and "\<not> is_signed_fresh r now" and "sr_base_url r = Some url"
  shows "snd (update_base_url mid url src now st) = []
         \<and> (\<exists>r'. map_of (fst (update_base_url mid url src now st)) mid = Some r' \<and> \<not> sr_verified r')"
  using assms
  by (simp add: update_base_url_def Let_def is_signed_fresh_def AList.update_conv' del: map_of_eq_Some_iff)

end
