(* ===== verification/Streaming.thy ===== *)
theory Streaming
  imports Rust_Strings Host_Env
begin

text \<open>
  \<open>michi-streaming/src/lib.rs\<close>: byte ranges, the library guard for paths, the decision between direct
  play and transcoding, the ffmpeg command lines, HLS files. Process creation and the file system
  are the parameter \<open>StreamEnv\<close>.
\<close>

section \<open>Errors and byte ranges\<close>

datatype StreamError =
    FileNotFound string
  | UnsafePath string
  | StreamDatabase string
  | StreamIo string
  | InvalidRange string

fun stream_error_text :: "StreamError \<Rightarrow> string" where
  "stream_error_text (FileNotFound s) = ''file not found on disk: '' @ s"
| "stream_error_text (UnsafePath s) = ''file outside music library: '' @ s"
| "stream_error_text (StreamDatabase s) = ''database error: '' @ s"
| "stream_error_text (StreamIo s) = ''I/O error: '' @ s"
| "stream_error_text (InvalidRange s) = ''invalid range header: '' @ s"

record ByteRange =
  br_start :: u64
  br_end :: u64
  br_total :: u64

definition content_length :: "ByteRange \<Rightarrow> u64" where
  "content_length r = br_end r - br_start r + 1"

definition content_range_header :: "ByteRange \<Rightarrow> string" where
  "content_range_header r =
     ''bytes '' @ show_nat (unat (br_start r)) @ ''-'' @ show_nat (unat (br_end r))
     @ ''/'' @ show_nat (unat (br_total r))"

definition quoted_text :: "string \<Rightarrow> string" where
  "quoted_text s = [CHR 0x27] @ s @ [CHR 0x27]"

definition suffix_range :: "string \<Rightarrow> u64 \<Rightarrow> StreamError + ByteRange" where
  "suffix_range end_str file_size =
     (case parse_u64 end_str of
        None \<Rightarrow> Inl (InvalidRange ''invalid suffix range'')
      | Some suffix \<Rightarrow>
          if suffix = 0 then Inl (InvalidRange ''suffix range of zero'')
          else (let start = sat_sub file_size suffix in
                if start \<ge> file_size then Inl (InvalidRange ''suffix range out of bounds'')
                else Inr \<lparr>br_start = start, br_end = file_size - 1, br_total = file_size\<rparr>))"

definition range_end :: "string \<Rightarrow> u64 \<Rightarrow> StreamError + u64" where
  "range_end end_str file_size =
     (if end_str = [] then Inr (file_size - 1)
      else case parse_u64 end_str of
        None \<Rightarrow> Inl (InvalidRange ''invalid end offset'')
      | Some e \<Rightarrow> Inr (if e \<ge> file_size then file_size - 1 else e))"

definition offset_range :: "string \<Rightarrow> string \<Rightarrow> u64 \<Rightarrow> StreamError + ByteRange" where
  "offset_range start_str end_str file_size =
     (case parse_u64 start_str of
        None \<Rightarrow> Inl (InvalidRange ''invalid start offset'')
      | Some start \<Rightarrow>
          if start \<ge> file_size then Inl (InvalidRange ''start beyond file size'')
          else case range_end end_str file_size of
            Inl e \<Rightarrow> Inl e
          | Inr end_pos \<Rightarrow>
              if start > end_pos then Inl (InvalidRange ''start after end'')
              else Inr \<lparr>br_start = start, br_end = end_pos, br_total = file_size\<rparr>)"

definition parse_range :: "string \<Rightarrow> u64 \<Rightarrow> StreamError + ByteRange" where
  "parse_range header file_size =
     (case strip_prefix ''bytes='' (trim header) of
        None \<Rightarrow> Inl (InvalidRange (''must start with '' @ quoted_text ''bytes=''))
      | Some rest \<Rightarrow>
          (case split_once CHR ''-'' (trim rest) of
             None \<Rightarrow> Inl (InvalidRange (''missing '' @ quoted_text ''-'' @ '' in range''))
           | Some (start_str, end_str) \<Rightarrow>
               (let start_str = trim start_str; end_str = trim end_str in
                if start_str = [] \<and> end_str = [] then Inl (InvalidRange ''empty range'')
                else if file_size = 0
                  then Inl (InvalidRange ''range not satisfiable for empty file'')
                else if start_str = [] then suffix_range end_str file_size
                else offset_range start_str end_str file_size)))"

definition mime_type_for_ext :: "string \<Rightarrow> string" where
  "mime_type_for_ext ext = mime_type (from_extension ext)"

section \<open>Files\<close>

text \<open>A file is opened by its path; \<open>se_read\<close> gives the bytes it holds while it is served. One call of
  \<open>read\<close> into a buffer returns \<open>se_chunk\<close> of the room that is left, at least one byte unless the
  file ends.\<close>

record StreamEnv = HostEnv +
  se_open :: "string \<Rightarrow> string option"
    \<comment> \<open>the error of opening, if any\<close>
  se_metadata :: "string \<Rightarrow> string + u64"
  se_seek_error :: "string option"
  se_read_error :: "string option"
    \<comment> \<open>the error of some call of \<open>read\<close>, if any\<close>
  se_read :: "string \<Rightarrow> u8 list"
  se_chunk :: "nat \<Rightarrow> nat"
  se_exists :: "string \<Rightarrow> bool"
  se_run_ffmpeg :: "string list \<Rightarrow> string + bool"
    \<comment> \<open>spawning and waiting: the error, or whether the exit status is success\<close>
  se_read_text :: "string \<Rightarrow> string + string"
  se_has_ffmpeg :: bool

definition validate_track_path ::
  "StreamEnv \<Rightarrow> string list \<Rightarrow> string \<Rightarrow> StreamError + string" where
  "validate_track_path E music_paths file_path =
     (case env_canonicalize E file_path of
        Inl _ \<Rightarrow> Inl (FileNotFound (''file not found: '' @ file_path))
      | Inr canonical \<Rightarrow>
          if inside_roots E music_paths canonical then Inr canonical
          else Inl (UnsafePath (''file '' @ canonical
                                 @ '' is outside all configured music libraries'')))"

definition open_track_file_async ::
  "StreamEnv \<Rightarrow> string list \<Rightarrow> Track \<Rightarrow> StreamError + string" where
  "open_track_file_async E music_paths track =
     (case validate_track_path E music_paths (trk_file_path track) of
        Inl e \<Rightarrow> Inl e
      | Inr canonical \<Rightarrow>
          if \<not> env_is_file E canonical
          then Inl (FileNotFound (''file does not exist: '' @ canonical))
          else case se_open E canonical of
            Some e \<Rightarrow> Inl (StreamIo e)
          | None \<Rightarrow> Inr canonical)"

definition max_range_bytes :: u64 where
  "max_range_bytes = 16 * 1024 * 1024"

text \<open>The read loop: what is left of the file, the room left in the buffer. A read that returns nothing
  ends it.\<close>

function read_loop :: "(nat \<Rightarrow> nat) \<Rightarrow> u8 list \<Rightarrow> nat \<Rightarrow> u8 list" where
  "read_loop chunk bytes room =
     (if room = 0 then []
      else (let n = min (min (chunk room) room) (length bytes) in
            if n = 0 then [] else take n bytes @ read_loop chunk (drop n bytes) (room - n)))"
  by pat_completeness auto
termination by (relation "measure (\<lambda>(c, b, r). r)") (auto simp: Let_def)

declare read_loop.simps [simp del]

definition read_range_from_file_async ::
  "StreamEnv \<Rightarrow> string \<Rightarrow> ByteRange \<Rightarrow> StreamError + u8 list" where
  "read_range_from_file_async E path r =
     (if content_length r > max_range_bytes
      then Inl (InvalidRange (''range too large: '' @ show_nat (unat (content_length r))
                              @ '' bytes (max '' @ show_nat (unat max_range_bytes) @ '')''))
      else case se_seek_error E of
        Some e \<Rightarrow> Inl (StreamIo e)
      | None \<Rightarrow>
          (case se_read_error E of
             Some e \<Rightarrow> Inl (StreamIo e)
           | None \<Rightarrow>
               Inr (read_loop (se_chunk E) (drop (unat (br_start r)) (se_read E path))
                      (unat (content_length r)))))"

section \<open>Transcoding plans\<close>

datatype TranscodeCodec = CodecOpus | CodecMp3 | CodecPcm | CodecOgg | CodecHls
datatype TranscodeContainer = ContainerOgg | ContainerMp3 | ContainerWav | ContainerHls

record TranscodePlan =
  tp_codec :: TranscodeCodec
  tp_container :: TranscodeContainer
  tp_bitrate_bps :: "u32 option"
  tp_sample_rate_hz :: "u32 option"
  tp_bit_depth :: "u8 option"
  tp_channels :: "u8 option"

definition plan_mime_type :: "TranscodePlan \<Rightarrow> string" where
  "plan_mime_type p =
     (case tp_container p of
        ContainerOgg \<Rightarrow> ''audio/ogg''
      | ContainerMp3 \<Rightarrow> ''audio/mpeg''
      | ContainerWav \<Rightarrow> ''audio/wav''
      | ContainerHls \<Rightarrow> ''application/vnd.apple.mpegurl'')"

datatype StreamMode = Direct | Transcode TranscodePlan

record StreamDecision =
  sd_mode :: StreamMode
  sd_source_format :: AudioFormat
  sd_output_mime_type :: string
  sd_reason :: string

definition needs_transcode :: "StreamDecision \<Rightarrow> bool" where
  "needs_transcode d = (case sd_mode d of Transcode _ \<Rightarrow> True | Direct \<Rightarrow> False)"

datatype TranscodeFormat = FormatMp3 | FormatOgg | FormatOpus | FormatHls | FormatPcm

fun transcode_mime_type :: "TranscodeFormat \<Rightarrow> string" where
  "transcode_mime_type FormatMp3 = ''audio/mpeg''"
| "transcode_mime_type FormatOgg = ''audio/ogg''"
| "transcode_mime_type FormatOpus = ''audio/ogg''"
| "transcode_mime_type FormatHls = ''application/vnd.apple.mpegurl''"
| "transcode_mime_type FormatPcm = ''audio/wav''"

fun ffmpeg_format :: "TranscodeFormat \<Rightarrow> string" where
  "ffmpeg_format FormatMp3 = ''mp3''"
| "ffmpeg_format FormatOgg = ''ogg''"
| "ffmpeg_format FormatOpus = ''ogg''"
| "ffmpeg_format FormatHls = ''hls''"
| "ffmpeg_format FormatPcm = ''wav''"

fun transcode_extension :: "TranscodeFormat \<Rightarrow> string" where
  "transcode_extension FormatMp3 = ''mp3''"
| "transcode_extension FormatOgg = ''ogg''"
| "transcode_extension FormatOpus = ''opus''"
| "transcode_extension FormatHls = ''m3u8''"
| "transcode_extension FormatPcm = ''wav''"

definition transcode_format_from_str :: "string \<Rightarrow> TranscodeFormat option" where
  "transcode_format_from_str s =
     (let l = to_lowercase s in
      if l = ''mp3'' then Some FormatMp3
      else if l = ''ogg'' then Some FormatOgg
      else if l = ''opus'' then Some FormatOpus
      else if l = ''hls'' then Some FormatHls
      else if l = ''pcm'' \<or> l = ''wav'' then Some FormatPcm
      else None)"

fun format_plan :: "TranscodeFormat \<Rightarrow> TranscodePlan" where
  "format_plan FormatMp3 =
     \<lparr>tp_codec = CodecMp3, tp_container = ContainerMp3, tp_bitrate_bps = Some 192000,
      tp_sample_rate_hz = None, tp_bit_depth = None, tp_channels = Some 2\<rparr>"
| "format_plan FormatOpus =
     \<lparr>tp_codec = CodecOpus, tp_container = ContainerOgg, tp_bitrate_bps = Some 128000,
      tp_sample_rate_hz = None, tp_bit_depth = None, tp_channels = Some 2\<rparr>"
| "format_plan FormatOgg =
     \<lparr>tp_codec = CodecOgg, tp_container = ContainerOgg, tp_bitrate_bps = None,
      tp_sample_rate_hz = None, tp_bit_depth = None, tp_channels = Some 2\<rparr>"
| "format_plan FormatPcm =
     \<lparr>tp_codec = CodecPcm, tp_container = ContainerWav, tp_bitrate_bps = None,
      tp_sample_rate_hz = Some 48000, tp_bit_depth = Some 24, tp_channels = Some 2\<rparr>"
| "format_plan FormatHls =
     \<lparr>tp_codec = CodecHls, tp_container = ContainerHls, tp_bitrate_bps = None,
      tp_sample_rate_hz = None, tp_bit_depth = None, tp_channels = Some 2\<rparr>"

definition bitrate_args :: "u32 option \<Rightarrow> string list" where
  "bitrate_args b =
     (case b of
        Some bps \<Rightarrow> [''-b:a'', show_nat (unat (max (bps div 1000) 32)) @ ''k'']
      | None \<Rightarrow> [])"

definition codec_args :: "TranscodePlan \<Rightarrow> StreamError + string list" where
  "codec_args p =
     (case tp_codec p of
        CodecOpus \<Rightarrow> Inr ([''-c:a'', ''libopus''] @ bitrate_args (tp_bitrate_bps p) @ [''-f'', ''ogg''])
      | CodecMp3 \<Rightarrow> Inr ([''-c:a'', ''libmp3lame''] @ bitrate_args (tp_bitrate_bps p) @ [''-f'', ''mp3''])
      | CodecPcm \<Rightarrow>
          Inr ([''-c:a'', if tp_bit_depth p = Some 24 then ''pcm_s24le'' else ''pcm_s16le'']
               @ (case tp_sample_rate_hz p of Some sr \<Rightarrow> [''-ar'', show_nat (unat sr)] | None \<Rightarrow> [])
               @ [''-f'', ''wav''])
      | CodecOgg \<Rightarrow> Inr ([''-c:a'', ''libvorbis''] @ bitrate_args (tp_bitrate_bps p) @ [''-f'', ''ogg''])
      | CodecHls \<Rightarrow>
          Inl (StreamIo (''HLS transcoding requires segmented output via generate_hls_playlist, ''
                         @ ''not stdout pipe'')))"

definition transcode_stream_with_plan ::
  "StreamEnv \<Rightarrow> string \<Rightarrow> TranscodePlan \<Rightarrow> StreamError + string list" where
  "transcode_stream_with_plan E path p =
     (case codec_args p of
        Inl e \<Rightarrow> Inl e
      | Inr cargs \<Rightarrow>
          (let args = [''-i'', path, ''-vn''] @ cargs
                      @ (case tp_channels p of Some c \<Rightarrow> [''-ac'', show_nat (unat c)] | None \<Rightarrow> [])
                      @ [''-'']
           in case env_spawn E args of
             Inl e \<Rightarrow> Inl (StreamIo e)
           | Inr False \<Rightarrow> Inl (StreamIo ''failed to capture ffmpeg stdout'')
           | Inr True \<Rightarrow> Inr args))"

definition transcode_stream ::
  "StreamEnv \<Rightarrow> string \<Rightarrow> TranscodeFormat \<Rightarrow> StreamError + string list" where
  "transcode_stream E path f = transcode_stream_with_plan E path (format_plan f)"

section \<open>The decision\<close>

definition direct_decision :: "AudioFormat \<Rightarrow> string \<Rightarrow> StreamDecision" where
  "direct_decision f reason =
     \<lparr>sd_mode = Direct, sd_source_format = f, sd_output_mime_type = mime_type f, sd_reason = reason\<rparr>"

definition lossy_plan ::
  "TranscodeCodec \<Rightarrow> TranscodeContainer \<Rightarrow> u32 \<Rightarrow> u32 option \<Rightarrow> TranscodePlan" where
  "lossy_plan codec container bps sr =
     \<lparr>tp_codec = codec, tp_container = container, tp_bitrate_bps = Some bps,
      tp_sample_rate_hz = sr, tp_bit_depth = None, tp_channels = Some 2\<rparr>"

definition pcm_plan :: "u32 option \<Rightarrow> u8 option \<Rightarrow> TranscodePlan" where
  "pcm_plan sr depth =
     \<lparr>tp_codec = CodecPcm, tp_container = ContainerWav, tp_bitrate_bps = None,
      tp_sample_rate_hz = sr, tp_bit_depth = depth, tp_channels = Some 2\<rparr>"

fun is_same_format :: "AudioFormat \<Rightarrow> string \<Rightarrow> bool" where
  "is_same_format Mp3 r \<longleftrightarrow> r = ''mp3''"
| "is_same_format Flac r \<longleftrightarrow> r = ''flac''"
| "is_same_format Ogg r \<longleftrightarrow> r = ''ogg'' \<or> r = ''opus''"
| "is_same_format Opus r \<longleftrightarrow> r = ''ogg'' \<or> r = ''opus''"
| "is_same_format Wav r \<longleftrightarrow> r = ''wav''"
| "is_same_format Aac r \<longleftrightarrow> r = ''aac'' \<or> r = ''m4a''"
| "is_same_format _ r \<longleftrightarrow> False"

definition forbidden :: "string \<Rightarrow> string" where
  "forbidden why = ''TRANSCODING_FORBIDDEN_BY_POLICY: '' @ why"

text \<open>An error, a final decision, or a plan.\<close>

type_synonym resolution = "string + StreamDecision + TranscodePlan"

definition unless_lossless ::
  "AudioFormatPolicy \<Rightarrow> string \<Rightarrow> TranscodePlan \<Rightarrow> resolution" where
  "unless_lossless policy why p =
     (if policy = LosslessOnly then Inl (forbidden (''LosslessOnly policy forbids '' @ why))
      else Inr (Inr p))"

definition requested_format ::
  "AudioFormat \<Rightarrow> u32 option \<Rightarrow> u32 option \<Rightarrow> string \<Rightarrow> AudioFormatPolicy \<Rightarrow> u32 \<Rightarrow> resolution" where
  "requested_format fmt sr depth req policy max_rate =
     (let l = to_lowercase req in
      if l = ''mp3'' then unless_lossless policy ''lossy MP3 transcoding''
                           (lossy_plan CodecMp3 ContainerMp3 (min 192000 max_rate) sr)
      else if l = ''opus'' then unless_lossless policy ''lossy Opus transcoding''
                           (lossy_plan CodecOpus ContainerOgg (min 128000 max_rate) sr)
      else if l = ''ogg'' then unless_lossless policy ''lossy Ogg transcoding''
                           (lossy_plan CodecOgg ContainerOgg (min 160000 max_rate) sr)
      else if l = ''wav'' \<or> l = ''pcm'' then
        Inr (Inr (pcm_plan sr (case depth of Some d \<Rightarrow> Some (ucast d) | None \<Rightarrow> Some 16)))
      else if l = ''flac'' then
        (if is_lossless fmt then Inr (Inl (direct_decision fmt ''direct lossless play''))
         else Inl ''UNSUPPORTED_TRANSCODE_PLAN: transcoding lossy source to FLAC is not supported'')
      else Inl (''INVALID_STREAM_PROFILE: requested format '' @ quoted_text req
                @ '' is not supported''))"

fun profile_plan ::
  "AudioFormat \<Rightarrow> u32 option \<Rightarrow> u32 option \<Rightarrow> AudioFormatPolicy \<Rightarrow> u32 \<Rightarrow> StreamProfile \<Rightarrow> resolution"
where
  "profile_plan fmt sr depth policy max_rate Original =
     Inr (Inl (direct_decision fmt ''profile: original''))"
| "profile_plan fmt sr depth policy max_rate CustomStream =
     Inr (Inl (direct_decision fmt ''profile: original''))"
| "profile_plan fmt sr depth policy max_rate LosslessCompatible =
     Inr (Inl (direct_decision fmt
       (if is_lossless fmt then ''profile: lossless compatible direct play''
        else ''profile: direct play source'')))"
| "profile_plan fmt sr depth policy max_rate OpusMobile96 =
     unless_lossless policy ''OpusMobile96''
       (lossy_plan CodecOpus ContainerOgg (min 96000 max_rate) sr)"
| "profile_plan fmt sr depth policy max_rate OpusMobile160 =
     unless_lossless policy ''OpusMobile160''
       (lossy_plan CodecOpus ContainerOgg (min 160000 max_rate) sr)"
| "profile_plan fmt sr depth policy max_rate Mp3Compatibility192 =
     unless_lossless policy ''Mp3Compatibility192''
       (lossy_plan CodecMp3 ContainerMp3 (min 192000 max_rate) sr)"
| "profile_plan fmt sr depth policy max_rate Mp3Compatibility320 =
     unless_lossless policy ''Mp3Compatibility320''
       (lossy_plan CodecMp3 ContainerMp3 (min 320000 max_rate) sr)"
| "profile_plan fmt sr depth policy max_rate Downsample2448 =
     Inr (Inr (pcm_plan (Some (min (case sr of Some x \<Rightarrow> x | None \<Rightarrow> 48000) 48000))
                        (Some (ucast (min (case depth of Some x \<Rightarrow> x | None \<Rightarrow> 24) 24)))))"

fun stream_profile_debug :: "StreamProfile \<Rightarrow> string" where
  "stream_profile_debug Original = ''Original''"
| "stream_profile_debug LosslessCompatible = ''LosslessCompatible''"
| "stream_profile_debug OpusMobile96 = ''OpusMobile96''"
| "stream_profile_debug OpusMobile160 = ''OpusMobile160''"
| "stream_profile_debug Mp3Compatibility192 = ''Mp3Compatibility192''"
| "stream_profile_debug Mp3Compatibility320 = ''Mp3Compatibility320''"
| "stream_profile_debug Downsample2448 = ''Downsample2448''"
| "stream_profile_debug CustomStream = ''Custom''"

definition resolve_stream_decision ::
  "AudioFormat \<Rightarrow> u32 option \<Rightarrow> u32 option \<Rightarrow> string option \<Rightarrow> StreamProfile \<Rightarrow> AudioFormatPolicy
   \<Rightarrow> ResourceProfile \<Rightarrow> u32 \<Rightarrow> string + StreamDecision" where
  "resolve_stream_decision fmt sr depth explicit profile policy resource max_rate =
     (if policy = DirectPlay then
        (if (case explicit of Some req \<Rightarrow> \<not> is_same_format fmt (to_lowercase req) | None \<Rightarrow> False)
         then Inl (forbidden ''DirectPlay format policy forbids transcoding'')
         else Inr (direct_decision fmt ''policy: DirectPlay enforced''))
      else
        (case (case explicit of
                 Some req \<Rightarrow> requested_format fmt sr depth req policy max_rate
               | None \<Rightarrow> profile_plan fmt sr depth policy max_rate profile) of
           Inl e \<Rightarrow> Inl e
         | Inr (Inl d) \<Rightarrow> Inr d
         | Inr (Inr p) \<Rightarrow>
             if max_transcodes resource = 0
             then Inl ''TRANSCODING_DISABLED: current resource profile (Eco) does not allow transcoding''
             else Inr \<lparr>sd_mode = Transcode p, sd_source_format = fmt,
                       sd_output_mime_type = plan_mime_type p,
                       sd_reason = ''transcode to '' @ stream_profile_debug profile
                                   @ '' via profile '' @ stream_profile_debug profile\<rparr>))"

definition select_stream_profile ::
  "StreamProfile \<Rightarrow> AudioFormat \<Rightarrow> u32 option \<Rightarrow> u32 option \<Rightarrow> nat \<Rightarrow> nat \<Rightarrow> StreamDecision" where
  "select_stream_profile profile fmt sr depth max_t active =
     (if active \<ge> max_t \<and> stream_needs_transcode profile
      then direct_decision fmt ''capacity reached, falling back to direct play''
      else case resolve_stream_decision fmt sr depth None profile StandardOnly
                  (if max_t = 0 then Eco else Balanced) 10000000 of
        Inr d \<Rightarrow> d
      | Inl _ \<Rightarrow> direct_decision fmt ''fallback direct play'')"

section \<open>HLS\<close>

text \<open>\<open>Path::join\<close>: an absolute second path replaces the first.\<close>

definition path_join :: "string \<Rightarrow> string \<Rightarrow> string" where
  "path_join p q =
     (case q of
        c # _ \<Rightarrow> if c = CHR ''/'' then q
                 else if p = [] \<or> last p = CHR ''/'' then p @ q else p @ ''/'' @ q
      | [] \<Rightarrow> if p = [] \<or> last p = CHR ''/'' then p else p @ ''/'')"

definition hls_segment_duration :: nat where
  "hls_segment_duration = 10"

definition hls_output_dir :: "string \<Rightarrow> string \<Rightarrow> string" where
  "hls_output_dir cache_path track_id = path_join (path_join cache_path ''hls'') track_id"

definition generate_hls_playlist ::
  "StreamEnv \<Rightarrow> string \<Rightarrow> string \<Rightarrow> string \<Rightarrow> StreamError + unit" where
  "generate_hls_playlist E file_path cache_path track_id =
     (let dir = hls_output_dir cache_path track_id in
      case se_run_ffmpeg E
             [''-i'', file_path, ''-vn'', ''-c:a'', ''aac'', ''-b:a'', ''192k'', ''-ar'', ''48000'',
              ''-ac'', ''2'', ''-f'', ''hls'', ''-hls_time'', show_nat hls_segment_duration,
              ''-hls_list_size'', ''0'', ''-hls_segment_filename'', path_join dir ''seg_%05d.ts'',
              path_join dir ''playlist.m3u8''] of
        Inl e \<Rightarrow> Inl (StreamIo e)
      | Inr False \<Rightarrow> Inl (StreamIo ''ffmpeg hls segmentation failed'')
      | Inr True \<Rightarrow> Inr ())"

definition read_hls_playlist :: "StreamEnv \<Rightarrow> string \<Rightarrow> string \<Rightarrow> StreamError + string" where
  "read_hls_playlist E cache_path track_id =
     (let path = path_join (hls_output_dir cache_path track_id) ''playlist.m3u8'' in
      case se_read_text E path of
        Inl _ \<Rightarrow> Inl (FileNotFound (''HLS playlist not found: '' @ path))
      | Inr t \<Rightarrow> Inr t)"

definition hls_segment_path :: "string \<Rightarrow> string \<Rightarrow> string \<Rightarrow> string" where
  "hls_segment_path cache_path track_id segment = path_join (hls_output_dir cache_path track_id) segment"

end
