(* ===== verification/Stream_Routes.thy ===== *)
theory Stream_Routes
  imports Streaming
begin

text \<open>
  The routes that serve audio: \<open>michi-api/src/routes/v1/stream.rs\<close> (stream and download, with the
  permits for transcodes) and the older \<open>michi-api/src/stream.rs\<close> (stream, HLS segments). The body of
  a response is the bytes it yields, the command whose output it passes on, or a text.
\<close>

section \<open>Requests and responses\<close>

datatype RangeHeader = NoRange | RangeText string | RangeBinary

datatype StreamBody = BodyBytes "u8 list" | BodyPipe "string list" | BodyText string

record StreamResponse =
  sp_status :: u16
  sp_headers :: "(string \<times> string) list"
  sp_body :: StreamBody

record StreamFailure =
  sf_status :: u16
  sf_code :: string
  sf_message :: string

record StreamState =
  st_disabled_modules :: "string set"
  st_music_paths :: "string list"
  st_cache_path :: string
  st_stream_profile :: StreamProfile
  st_format_policy :: AudioFormatPolicy
  st_resource_profile :: ResourceProfile
  st_max_remote_bitrate :: u32
  st_tracks :: "uuid \<Rightarrow> string + Track option"
    \<comment> \<open>\<open>michi_db::get_track\<close>\<close>

definition stream_v1_error :: "u16 \<Rightarrow> string \<Rightarrow> string \<Rightarrow> StreamFailure" where
  "stream_v1_error status code msg = \<lparr>sf_status = status, sf_code = code, sf_message = msg\<rparr>"

section \<open>Files\<close>

definition disposition_header :: "string option \<Rightarrow> string \<Rightarrow> (string \<times> string) list" where
  "disposition_header disposition filename =
     (case disposition of
        Some d \<Rightarrow> [(''content-disposition'', d @ ''; filename=\"'' @ filename @ [CHR 0x22])]
      | None \<Rightarrow> [])"

definition range_body :: "StreamEnv \<Rightarrow> string \<Rightarrow> ByteRange \<Rightarrow> StreamBody" where
  "range_body E path r =
     BodyBytes (take (unat (content_length r)) (drop (unat (br_start r)) (se_read E path)))"

definition partial_content ::
  "StreamEnv \<Rightarrow> string \<Rightarrow> ByteRange \<Rightarrow> string \<Rightarrow> (string \<times> string) list \<Rightarrow> StreamResponse" where
  "partial_content E path r mime disposition =
     \<lparr>sp_status = 206,
      sp_headers = [(''content-range'', content_range_header r),
                    (''content-length'', show_nat (unat (content_length r)))]
                   @ disposition @ [(''content-type'', mime), (''accept-ranges'', ''bytes'')],
      sp_body = range_body E path r\<rparr>"

definition serve_range ::
  "StreamEnv \<Rightarrow> string \<Rightarrow> u64 \<Rightarrow> string \<Rightarrow> string \<Rightarrow> (string \<times> string) list
   \<Rightarrow> StreamFailure + StreamResponse" where
  "serve_range E path file_size header mime disposition =
     (case parse_range header file_size of
        Inl _ \<Rightarrow> Inl (stream_v1_error 416 ''RANGE_NOT_SATISFIABLE'' ''range not satisfiable'')
      | Inr r \<Rightarrow>
          (case se_seek_error E of
             Some e \<Rightarrow> Inl (stream_v1_error 500 ''IO_ERROR'' e)
           | None \<Rightarrow> Inr (partial_content E path r mime disposition)))"

definition stream_file ::
  "StreamEnv \<Rightarrow> string list \<Rightarrow> Track \<Rightarrow> RangeHeader \<Rightarrow> string option \<Rightarrow> StreamFailure + StreamResponse"
where
  "stream_file E music_paths track rh disposition =
     (case open_track_file_async E music_paths track of
        Inl e \<Rightarrow> Inl (stream_v1_error 404 ''FILE_NOT_FOUND'' (stream_error_text e))
      | Inr path \<Rightarrow>
     (case se_metadata E path of
        Inl e \<Rightarrow> Inl (stream_v1_error 500 ''IO_ERROR'' e)
      | Inr file_size \<Rightarrow>
          (let mime = mime_type (trk_format track);
               filename = trk_id track @ ''.'' @ format_as_str (trk_format track);
               disp = disposition_header disposition filename
           in case rh of
             RangeBinary \<Rightarrow>
               Inl (stream_v1_error 400 ''INVALID_RANGE'' ''invalid range header encoding'')
           | RangeText t \<Rightarrow> serve_range E path file_size t mime disp
           | NoRange \<Rightarrow>
               Inr \<lparr>sp_status = 200,
                    sp_headers = [(''content-type'', mime),
                                  (''content-length'', show_nat (unat file_size)),
                                  (''accept-ranges'', ''bytes'')] @ disp,
                    sp_body = BodyBytes (se_read E path)\<rparr>)))"

definition find_track :: "StreamState \<Rightarrow> uuid \<Rightarrow> StreamFailure + Track" where
  "find_track S i =
     (if ''stream'' \<in> st_disabled_modules S
      then Inl (stream_v1_error 503 ''MODULE_DISABLED'' ''Streaming module is disabled'')
      else case st_tracks S i of
        Inl e \<Rightarrow> Inl (stream_v1_error 500 ''DATABASE_ERROR'' e)
      | Inr None \<Rightarrow> Inl (stream_v1_error 404 ''TRACK_NOT_FOUND'' (''track not found: '' @ i))
      | Inr (Some t) \<Rightarrow> Inr t)"

definition download_handler ::
  "StreamEnv \<Rightarrow> StreamState \<Rightarrow> uuid \<Rightarrow> RangeHeader \<Rightarrow> StreamFailure + StreamResponse" where
  "download_handler E S i rh =
     (case find_track S i of
        Inl e \<Rightarrow> Inl e
      | Inr t \<Rightarrow> stream_file E (st_music_paths S) t rh (Some ''attachment''))"

section \<open>Streams with transcoding\<close>

definition decision_failure :: "string \<Rightarrow> StreamFailure" where
  "decision_failure e =
     stream_v1_error 400
       (if starts_with e ''TRANSCODING_FORBIDDEN_BY_POLICY'' then ''TRANSCODING_FORBIDDEN_BY_POLICY''
        else if starts_with e ''TRANSCODING_DISABLED'' then ''TRANSCODING_DISABLED''
        else if starts_with e ''INVALID_STREAM_PROFILE'' then ''INVALID_STREAM_PROFILE''
        else if starts_with e ''UNSUPPORTED_TRANSCODE_PLAN'' then ''UNSUPPORTED_TRANSCODE_PLAN''
        else ''STREAM_RESOLUTION_ERROR'') e"

definition track_decision :: "StreamState \<Rightarrow> Track \<Rightarrow> string option \<Rightarrow> string + StreamDecision" where
  "track_decision S t format =
     resolve_stream_decision (trk_format t) (trk_sample_rate t) (map_option ucast (trk_bit_depth t))
       format (st_stream_profile S) (st_format_policy S) (st_resource_profile S)
       (st_max_remote_bitrate S)"

definition start_transcode ::
  "StreamEnv \<Rightarrow> StreamState \<Rightarrow> Track \<Rightarrow> TranscodePlan \<Rightarrow> string \<Rightarrow> StreamFailure + StreamResponse" where
  "start_transcode E S t p mime =
     (if \<not> se_has_ffmpeg E
      then Inl (stream_v1_error 400 ''FFMPEG_UNAVAILABLE'' ''ffmpeg is not available on this system'')
      else case validate_track_path E (st_music_paths S) (trk_file_path t) of
        Inl e \<Rightarrow> Inl (stream_v1_error 404 ''FILE_NOT_FOUND'' (stream_error_text e))
      | Inr canonical \<Rightarrow>
          (case transcode_stream_with_plan E canonical p of
             Inl e \<Rightarrow> Inl (stream_v1_error 500 ''TRANSCODING_FAILED'' (stream_error_text e))
           | Inr cmd \<Rightarrow>
               Inr \<lparr>sp_status = 200, sp_headers = [(''content-type'', mime)],
                    sp_body = BodyPipe cmd\<rparr>))"

text \<open>The permit is taken before ffmpeg is looked for; an error drops it, a response keeps it in its
  body until the body is dropped. The state beside the answer is the number of free permits.\<close>

definition stream_handler ::
  "StreamEnv \<Rightarrow> StreamState \<Rightarrow> uuid \<Rightarrow> string option \<Rightarrow> RangeHeader \<Rightarrow> nat
   \<Rightarrow> (StreamFailure + StreamResponse) \<times> nat" where
  "stream_handler E S i format rh permits =
     (case find_track S i of
        Inl e \<Rightarrow> (Inl e, permits)
      | Inr t \<Rightarrow>
     (case track_decision S t format of
        Inl e \<Rightarrow> (Inl (decision_failure e), permits)
      | Inr d \<Rightarrow>
     (case sd_mode d of
        Direct \<Rightarrow> (stream_file E (st_music_paths S) t rh None, permits)
      | Transcode p \<Rightarrow>
          if permits = 0
          then (Inl (stream_v1_error 503 ''MAX_TRANSCODES_REACHED''
                       ''maximum concurrent transcodes reached; please retry later''), permits)
          else (case start_transcode E S t p (sd_output_mime_type d) of
                  Inl e \<Rightarrow> (Inl e, permits)
                | Inr r \<Rightarrow> (Inr r, permits - 1)))))"

definition drop_body :: "StreamBody \<Rightarrow> nat \<Rightarrow> nat" where
  "drop_body b permits = (case b of BodyPipe _ \<Rightarrow> permits + 1 | _ \<Rightarrow> permits)"

section \<open>The older routes\<close>

record ErrorResponse =
  er_status :: u16
  er_message :: string

definition err_response :: "u16 \<Rightarrow> string \<Rightarrow> ErrorResponse" where
  "err_response status msg = \<lparr>er_status = status, er_message = msg\<rparr>"

text \<open>\<open>Path::extension\<close>: what follows the last dot of the last component, unless that dot begins it.\<close>

definition file_extension :: "string \<Rightarrow> string option" where
  "file_extension path =
     (case filter (\<lambda>c. c \<noteq> ''.'') (path_components [] path) of
        [] \<Rightarrow> None
      | cs \<Rightarrow>
          if last cs = ''..'' then None
          else (case split_once CHR ''.'' (rev (last cs)) of
                  Some (ext, c # before) \<Rightarrow> Some (rev ext)
                | _ \<Rightarrow> None))"

definition mime_from_ext :: "string \<Rightarrow> string" where
  "mime_from_ext path =
     (case file_extension path of
        Some ext \<Rightarrow> mime_type_for_ext ext
      | None \<Rightarrow> ''application/octet-stream'')"

definition legacy_error :: "StreamError \<Rightarrow> ErrorResponse" where
  "legacy_error e =
     (case e of
        FileNotFound msg \<Rightarrow> err_response 404 msg
      | UnsafePath _ \<Rightarrow> err_response 403 ''access denied''
      | _ \<Rightarrow> err_response 500 ''internal server error'')"

definition stream_range_async ::
  "StreamEnv \<Rightarrow> string \<Rightarrow> ByteRange \<Rightarrow> string \<Rightarrow> StreamError + StreamResponse" where
  "stream_range_async E path r mime =
     (case se_seek_error E of
        Some e \<Rightarrow> Inl (StreamIo e)
      | None \<Rightarrow>
          Inr \<lparr>sp_status = 206,
               sp_headers = [(''content-type'', mime), (''content-range'', content_range_header r),
                             (''content-length'', show_nat (unat (content_length r))),
                             (''accept-ranges'', ''bytes'')],
               sp_body = range_body E path r\<rparr>)"

definition ends_with :: "string \<Rightarrow> string \<Rightarrow> bool" where
  "ends_with s p = starts_with (rev s) (rev p)"

fun join_lines :: "string list \<Rightarrow> string" where
  "join_lines [] = []"
| "join_lines [l] = l"
| "join_lines (l # ls) = l @ LF # join_lines ls"

definition absolute_segments :: "string \<Rightarrow> string \<Rightarrow> string" where
  "absolute_segments prefix playlist =
     join_lines (map (\<lambda>l. if ends_with l ''.ts'' then prefix @ l else l) (lines playlist))"

definition legacy_hls ::
  "StreamEnv \<Rightarrow> StreamState \<Rightarrow> uuid \<Rightarrow> string \<Rightarrow> ErrorResponse + StreamResponse" where
  "legacy_hls E S i canonical =
     (let cache = st_cache_path S;
          generated = (if se_exists E (path_join (hls_output_dir cache i) ''playlist.m3u8'') then Inr ()
                       else generate_hls_playlist E canonical cache i)
      in case generated of
        Inl _ \<Rightarrow> Inl (err_response 500 ''HLS generation failed'')
      | Inr () \<Rightarrow>
          (case read_hls_playlist E cache i of
             Inl _ \<Rightarrow> Inl (err_response 500 ''HLS playlist read failed'')
           | Inr playlist \<Rightarrow>
               Inr \<lparr>sp_status = 200,
                    sp_headers = [(''content-type'', ''application/vnd.apple.mpegurl'')],
                    sp_body = BodyText (absolute_segments (''/api/hls/'' @ i @ ''/'') playlist)\<rparr>))"

definition legacy_transcode ::
  "StreamEnv \<Rightarrow> StreamState \<Rightarrow> uuid \<Rightarrow> Track \<Rightarrow> string \<Rightarrow> ErrorResponse + StreamResponse" where
  "legacy_transcode E S i t format =
     (if \<not> se_has_ffmpeg E then Inl (err_response 400 ''ffmpeg is not available on this system'')
      else case transcode_format_from_str format of
        None \<Rightarrow> Inl (err_response 400 (''invalid format: '' @ quoted_text format
                                        @ ''. Supported: mp3, ogg, hls''))
      | Some tf \<Rightarrow>
     (case validate_track_path E (st_music_paths S) (trk_file_path t) of
        Inl e \<Rightarrow> Inl (legacy_error e)
      | Inr canonical \<Rightarrow>
          if tf = FormatHls then legacy_hls E S i canonical
          else (case transcode_stream E canonical tf of
                  Inl _ \<Rightarrow> Inl (err_response 500 ''transcoding failed'')
                | Inr cmd \<Rightarrow>
                    Inr \<lparr>sp_status = 200, sp_headers = [(''content-type'', transcode_mime_type tf)],
                         sp_body = BodyPipe cmd\<rparr>)))"

definition legacy_file ::
  "StreamEnv \<Rightarrow> StreamState \<Rightarrow> Track \<Rightarrow> RangeHeader \<Rightarrow> ErrorResponse + StreamResponse" where
  "legacy_file E S t rh =
     (case open_track_file_async E (st_music_paths S) t of
        Inl e \<Rightarrow> Inl (legacy_error e)
      | Inr path \<Rightarrow>
     (case se_metadata E path of
        Inl _ \<Rightarrow> Inl (err_response 500 ''internal server error'')
      | Inr file_size \<Rightarrow>
          (let mime = mime_from_ext (trk_file_path t) in
           case rh of
             RangeBinary \<Rightarrow> Inl (err_response 400 ''invalid range header encoding'')
           | RangeText h \<Rightarrow>
               (case parse_range h file_size of
                  Inr r \<Rightarrow>
                    (case stream_range_async E path r mime of
                       Inl _ \<Rightarrow> Inl (err_response 500 ''internal server error'')
                     | Inr resp \<Rightarrow> Inr resp)
                | Inl (InvalidRange msg) \<Rightarrow>
                    Inl (err_response 416 (''range not satisfiable: '' @ msg))
                | Inl _ \<Rightarrow> Inl (err_response 500 ''internal server error''))
           | NoRange \<Rightarrow>
               Inr \<lparr>sp_status = 200,
                    sp_headers = [(''content-type'', mime),
                                  (''content-length'', show_nat (unat file_size)),
                                  (''accept-ranges'', ''bytes'')],
                    sp_body = BodyBytes (se_read E path)\<rparr>)))"

definition track_from_db :: "StreamState \<Rightarrow> uuid \<Rightarrow> ErrorResponse + Track" where
  "track_from_db S i =
     (case st_tracks S i of
        Inl e \<Rightarrow> Inl (err_response 500 (''db error: '' @ e))
      | Inr None \<Rightarrow> Inl (err_response 404 (''track not found: '' @ i))
      | Inr (Some t) \<Rightarrow> Inr t)"

definition legacy_stream_handler ::
  "StreamEnv \<Rightarrow> StreamState \<Rightarrow> uuid \<Rightarrow> string option \<Rightarrow> RangeHeader \<Rightarrow> ErrorResponse + StreamResponse"
where
  "legacy_stream_handler E S i format rh =
     (if ''stream'' \<in> st_disabled_modules S
      then Inl (err_response 503 ''Streaming module is disabled'')
      else case track_from_db S i of
        Inl e \<Rightarrow> Inl e
      | Inr t \<Rightarrow>
          (case format of
             Some f \<Rightarrow> legacy_transcode E S i t f
           | None \<Rightarrow> legacy_file E S t rh))"

definition hls_segment_handler ::
  "StreamEnv \<Rightarrow> StreamState \<Rightarrow> string \<Rightarrow> string \<Rightarrow> ErrorResponse + StreamResponse" where
  "hls_segment_handler E S i segment =
     (if ''stream'' \<in> st_disabled_modules S
      then Inl (err_response 503 ''Streaming module is disabled'')
      else (let path = hls_segment_path (st_cache_path S) i segment in
        if \<not> se_exists E path then Inl (err_response 404 ''HLS segment not found'')
        else case se_open E path of
          Some e \<Rightarrow> Inl (err_response 500 (''failed to read segment: '' @ e))
        | None \<Rightarrow>
            Inr \<lparr>sp_status = 200,
                 sp_headers = [(''content-type'', ''video/MP2T''),
                               (''content-length'', show_nat (length (se_read E path)))],
                 sp_body = BodyBytes (se_read E path)\<rparr>))"

end
