(* ===== verification/Stream_Properties.thy ===== *)
theory Stream_Properties
  imports Stream_Routes
begin

text \<open>
  The properties of streaming: a range request is served with exactly the bytes it asks for, plans
  respect the policies, only library files are served, the permits bound the transcodes; then three
  weaknesses of the older routes.
\<close>

section \<open>Byte ranges\<close>

lemma unat_pred: "fs \<noteq> 0 \<Longrightarrow> unat (fs - 1) = unat fs - 1" for fs :: u64
  by (simp add: unat_minus_one)

lemma le_pred: "a < fs \<Longrightarrow> a \<le> fs - 1" for fs :: u64
proof -
  assume a: "a < fs"
  then have "fs \<noteq> 0" by auto
  with a unat_pred [of fs] show ?thesis by (simp add: word_le_nat_alt word_less_nat_alt)
qed

lemma pred_less: "fs \<noteq> 0 \<Longrightarrow> fs - 1 < fs" for fs :: u64
proof -
  assume "fs \<noteq> 0"
  moreover from this have "unat fs \<noteq> 0" by (simp add: unat_eq_0)
  ultimately show ?thesis using unat_pred [of fs] by (simp add: word_less_nat_alt)
qed

lemma capped_end: "fs \<noteq> 0 \<Longrightarrow> (if fs \<le> e then fs - 1 else e) = min e (fs - 1)" for fs :: u64
proof -
  assume fs: "fs \<noteq> 0"
  show ?thesis
  proof (cases "fs \<le> e")
    case True
    then have "fs - 1 \<le> e" using pred_less [OF fs] by simp
    with True show ?thesis by (simp add: min_absorb2)
  next
    case False
    then have "e \<le> fs - 1" by (simp add: le_pred)
    with False show ?thesis by (simp add: min_absorb1)
  qed
qed

lemma content_length_bytes:
  assumes "br_start r \<le> br_end r" "br_end r < fs"
  shows "unat (content_length r) = unat (br_end r) + 1 - unat (br_start r)"
proof -
  have "unat (br_end r) < unat fs" using assms(2) by (simp add: word_less_nat_alt)
  moreover have "unat fs < 2 ^ 64" using unsigned_less [of fs] by simp
  moreover have "unat (br_start r) \<le> unat (br_end r)" using assms(1) by (simp add: word_le_nat_alt)
  ultimately show ?thesis
    by (simp add: content_length_def unat_word_ariths unat_sub assms(1))
qed

text \<open>The three forms of a range and the bytes they ask for.\<close>

datatype RangeSpec = FromTo u64 u64 | FromOn u64 | LastBytes u64

fun print_range :: "RangeSpec \<Rightarrow> string" where
  "print_range (FromTo a b) = ''bytes='' @ show_nat (unat a) @ ''-'' @ show_nat (unat b)"
| "print_range (FromOn a) = ''bytes='' @ show_nat (unat a) @ ''-''"
| "print_range (LastBytes n) = ''bytes=-'' @ show_nat (unat n)"

fun asked_bytes :: "RangeSpec \<Rightarrow> 'a list \<Rightarrow> 'a list" where
  "asked_bytes (FromTo a b) xs = take (unat b + 1 - unat a) (drop (unat a) xs)"
| "asked_bytes (FromOn a) xs = drop (unat a) xs"
| "asked_bytes (LastBytes n) xs = drop (length xs - unat n) xs"

lemma dash_not_digit: "CHR ''-'' \<notin> set (show_nat n)"
  by (rule show_nat_notin) simp

definition unpadded :: "string \<Rightarrow> bool" where
  "unpadded s \<longleftrightarrow> s = [] \<or> (\<not> is_ws (hd s) \<and> \<not> is_ws (last s))"

lemma unpadded_trim: "unpadded s \<Longrightarrow> trim s = s"
  unfolding unpadded_def by (rule trim_id)

lemma unpadded_show [simp]: "unpadded (show_nat n)"
  by (simp add: unpadded_def show_nat_hd_last)

lemma unpadded_dash: "unpadded a \<Longrightarrow> unpadded b \<Longrightarrow> unpadded (a @ CHR ''-'' # b)"
  by (cases a) (auto simp: unpadded_def is_ws_def)

lemma parse_range_parts:
  assumes a: "unpadded a" and b: "unpadded b" and "CHR ''-'' \<notin> set a" and "a @ b \<noteq> []"
  shows "parse_range (''bytes='' @ a @ CHR ''-'' # b) fs =
     (if fs = 0 then Inl (InvalidRange ''range not satisfiable for empty file'')
      else if a = [] then suffix_range b fs else offset_range a b fs)"
proof -
  have "last (a @ CHR ''-'' # b) = (if b = [] then CHR ''-'' else last b)" by simp
  then have "unpadded (''bytes='' @ a @ CHR ''-'' # b)"
    using b by (auto simp: unpadded_def is_ws_def)
  note trims = unpadded_trim [OF this] unpadded_trim [OF unpadded_dash [OF a b]]
    unpadded_trim [OF a] unpadded_trim [OF b]
  have "\<not> (a = [] \<and> b = [])" using assms(4) by simp
  then show ?thesis
    unfolding parse_range_def trims strip_prefix_append option.case
      split_once_append [OF assms(3)] prod.case Let_def by (simp add: trims)
qed

text \<open>What a printed range is read as.\<close>

fun spec_range :: "RangeSpec \<Rightarrow> u64 \<Rightarrow> ByteRange option" where
  "spec_range (FromTo a b) fs =
     (if a < fs \<and> a \<le> b then Some \<lparr>br_start = a, br_end = min b (fs - 1), br_total = fs\<rparr> else None)"
| "spec_range (FromOn a) fs =
     (if a < fs then Some \<lparr>br_start = a, br_end = fs - 1, br_total = fs\<rparr> else None)"
| "spec_range (LastBytes n) fs =
     (if n \<noteq> 0 \<and> fs \<noteq> 0
      then Some \<lparr>br_start = sat_sub fs n, br_end = fs - 1, br_total = fs\<rparr> else None)"

lemma parse_printed_range:
  "case spec_range q fs of
     Some r \<Rightarrow> parse_range (print_range q) fs = Inr r
   | None \<Rightarrow> \<exists>m. parse_range (print_range q) fs = Inl (InvalidRange m)"
proof (cases "fs = 0")
  case True
  have "parse_range (print_range q) fs
        = Inl (InvalidRange ''range not satisfiable for empty file'')"
  proof (cases q)
    case (FromTo a b)
    with True show ?thesis
      using parse_range_parts [of "show_nat (unat a)" "show_nat (unat b)" fs, OF _ _ dash_not_digit]
      by simp
  next
    case (FromOn a)
    with True show ?thesis
      using parse_range_parts [of "show_nat (unat a)" "[]" fs, OF _ _ dash_not_digit]
      by (simp add: unpadded_def show_nat_hd_last)
  next
    case (LastBytes n)
    with True show ?thesis
      using parse_range_parts [of "[]" "show_nat (unat n)" fs]
      by (simp add: unpadded_def show_nat_hd_last)
  qed
  moreover have "spec_range q fs = None" using True by (cases q) simp_all
  ultimately show ?thesis by simp
next
  case fs: False
  show ?thesis
  proof (cases q)
    case (FromTo a b)
    have "parse_range (print_range q) fs = offset_range (show_nat (unat a)) (show_nat (unat b)) fs"
      using parse_range_parts [of "show_nat (unat a)" "show_nat (unat b)" fs, OF _ _ dash_not_digit] fs
      by (simp add: FromTo)
    also have "\<dots> = (if a < fs \<and> a \<le> b
        then Inr \<lparr>br_start = a, br_end = min b (fs - 1), br_total = fs\<rparr>
        else if a < fs then Inl (InvalidRange ''start after end'')
        else Inl (InvalidRange ''start beyond file size''))"
    proof (cases "a < fs")
      case True
      then have "min b (fs - 1) < a \<longleftrightarrow> \<not> a \<le> b" using le_pred [OF True] by (auto simp: min_less_iff_disj)
      with True show ?thesis
        by (simp add: offset_range_def range_end_def parse_show_u64 capped_end [OF fs] not_le)
    next
      case False
      then show ?thesis by (simp add: offset_range_def parse_show_u64 not_less)
    qed
    finally show ?thesis using FromTo by simp
  next
    case (FromOn a)
    have "parse_range (print_range q) fs = offset_range (show_nat (unat a)) [] fs"
      using parse_range_parts [of "show_nat (unat a)" "[]" fs, OF _ _ dash_not_digit] fs
      by (simp add: FromOn unpadded_def show_nat_hd_last)
    moreover have "fs - 1 < a \<Longrightarrow> fs \<le> a" using le_pred [of a fs] by (meson not_le)
    ultimately show ?thesis using FromOn
      by (simp add: offset_range_def range_end_def parse_show_u64 not_le not_less)
  next
    case (LastBytes n)
    have eq: "parse_range (print_range q) fs = suffix_range (show_nat (unat n)) fs"
      using parse_range_parts [of "[]" "show_nat (unat n)" fs] fs
      by (simp add: LastBytes unpadded_def show_nat_hd_last)
    show ?thesis
    proof (cases "n = 0")
      case True
      then have "suffix_range (show_nat (unat n)) fs = Inl (InvalidRange ''suffix range of zero'')"
        by (simp only: suffix_range_def parse_show_u64 option.case simp_thms if_True)
      moreover have "spec_range q fs = None" using True LastBytes by simp
      ultimately show ?thesis unfolding eq by simp
    next
      case False
      then have "unat n \<noteq> 0" "unat fs \<noteq> 0" using fs by (simp_all add: unat_eq_0)
      then have "unat fs - unat n < unat fs" by simp
      then have "\<not> fs \<le> sat_sub fs n" by (simp only: word_le_nat_alt unat_sat_sub not_le)
      then show ?thesis
        unfolding eq using LastBytes fs False by (simp add: suffix_range_def parse_show_u64 Let_def)
    qed
  qed
qed

text \<open>The range selects exactly the bytes asked for.\<close>

lemma spec_range_bytes:
  assumes "unat fs = length xs"
  shows "case spec_range q fs of
           Some r \<Rightarrow> br_start r \<le> br_end r \<and> br_end r < fs
                     \<and> take (unat (content_length r)) (drop (unat (br_start r)) xs) = asked_bytes q xs
                     \<and> unat (content_length r) = length (asked_bytes q xs) \<and> asked_bytes q xs \<noteq> []
         | None \<Rightarrow> asked_bytes q xs = []"
proof (cases "spec_range q fs")
  case None
  with assms show ?thesis
    by (cases q)
       (auto simp: word_less_nat_alt word_le_nat_alt not_less not_le unat_eq_0 split: if_splits)
next
  case (Some r)
  then have fs: "fs \<noteq> 0" by (cases q) (auto split: if_splits)
  note pred = unat_pred [OF fs]
  have pos: "0 < length xs" using fs assms by (metis length_greater_0_conv list.size(3) unat_eq_0)
  have umin: "unat (min b (fs - 1)) = min (unat b) (unat fs - 1)" for b
    by (auto simp: min_def word_le_nat_alt pred)
  have fs_pos: "0 < unat fs" using fs by (simp add: unat_gt_0)
  have r: "br_start r \<le> br_end r \<and> br_end r < fs"
  proof (cases q)
    case (FromTo a b)
    with Some fs_pos show ?thesis
      unfolding word_less_nat_alt word_le_nat_alt by (auto simp: umin word_less_nat_alt word_le_nat_alt split: if_splits)
  next
    case (FromOn a)
    with Some fs_pos show ?thesis
      unfolding word_less_nat_alt word_le_nat_alt by (auto simp: pred word_less_nat_alt split: if_splits)
  next
    case (LastBytes n)
    then have "n \<noteq> 0" using Some by (auto split: if_splits)
    then have "0 < unat n" by (simp add: unat_gt_0)
    with LastBytes Some fs_pos show ?thesis
      unfolding word_less_nat_alt word_le_nat_alt by (auto simp: pred unat_sat_sub split: if_splits)
  qed
  have len: "unat (content_length r) = unat (br_end r) + 1 - unat (br_start r)"
    using r content_length_bytes by blast
  have "take (unat (content_length r)) (drop (unat (br_start r)) xs) = asked_bytes q xs
        \<and> unat (content_length r) = length (asked_bytes q xs) \<and> asked_bytes q xs \<noteq> []"
  proof (cases q)
    case (FromTo a b)
    then have r': "r = \<lparr>br_start = a, br_end = min b (fs - 1), br_total = fs\<rparr>" "a < fs" "a \<le> b"
      using Some by (auto split: if_splits)
    then have "unat a < length xs" "unat a \<le> unat b" using assms
      by (auto simp: word_less_nat_alt word_le_nat_alt)
    then show ?thesis using FromTo assms len
      by (simp add: r' umin) (auto simp: min_def)
  next
    case (FromOn a)
    then have r': "r = \<lparr>br_start = a, br_end = fs - 1, br_total = fs\<rparr>" "a < fs"
      using Some by (auto split: if_splits)
    then have "unat a < length xs" using assms by (auto simp: word_less_nat_alt)
    then show ?thesis using FromOn assms len by (simp add: r' pred)
  next
    case (LastBytes n)
    then have r': "r = \<lparr>br_start = sat_sub fs n, br_end = fs - 1, br_total = fs\<rparr>" "n \<noteq> 0"
      using Some by (auto split: if_splits)
    then have "0 < unat n" by (simp add: unat_gt_0)
    moreover from this pos have "length xs - unat n < length xs" by simp
    ultimately show ?thesis using LastBytes assms len by (simp add: r' pred unat_sat_sub)
  qed
  with r show ?thesis unfolding Some option.case by blast
qed

text \<open>
  C27 (Range requests): a request for a range, in any of its three forms, on a file that opens, whose size is
  the one its metadata gives, is answered with status 206, with exactly the bytes asked for, their
  number and their place, or with status 416 when it asks for no byte of the file.
\<close>

theorem range_request_served:
  assumes "open_track_file_async E music_paths track = Inr path"
    and "se_metadata E path = Inr fs" and "unat fs = length (se_read E path)"
    and "se_seek_error E = None"
  shows "stream_file E music_paths track (RangeText (print_range q)) disposition =
    (let asked = asked_bytes q (se_read E path);
         first = (case q of LastBytes n \<Rightarrow> unat fs - unat n | FromTo a b \<Rightarrow> unat a | FromOn a \<Rightarrow> unat a)
     in if asked = [] then Inl (stream_v1_error 416 ''RANGE_NOT_SATISFIABLE'' ''range not satisfiable'')
        else Inr \<lparr>sp_status = 206,
          sp_headers =
            [(''content-range'', ''bytes '' @ show_nat first @ ''-'' @ show_nat (first + length asked - 1)
                                 @ ''/'' @ show_nat (unat fs)),
             (''content-length'', show_nat (length asked))]
            @ disposition_header disposition (trk_id track @ ''.'' @ format_as_str (trk_format track))
            @ [(''content-type'', mime_type (trk_format track)), (''accept-ranges'', ''bytes'')],
          sp_body = BodyBytes asked\<rparr>)"
proof (cases "spec_range q fs")
  case None
  obtain m where p: "parse_range (print_range q) fs = Inl (InvalidRange m)"
    using parse_printed_range [of q fs] None by auto
  have "asked_bytes q (se_read E path) = []" using spec_range_bytes [OF assms(3), of q] None by simp
  with p show ?thesis by (simp add: stream_file_def assms serve_range_def Let_def)
next
  case (Some r)
  have p: "parse_range (print_range q) fs = Inr r"
    using parse_printed_range [of q fs] unfolding Some option.case .
  note b = spec_range_bytes [OF assms(3), of q, unfolded Some option.case]
  have first: "unat (br_start r) = (case q of LastBytes n \<Rightarrow> unat fs - unat n
                                    | FromTo a b \<Rightarrow> unat a | FromOn a \<Rightarrow> unat a)"
    and total: "br_total r = fs"
    using Some by (cases q; auto simp: unat_sat_sub split: if_splits)+
  have "unat (content_length r) = unat (br_end r) + 1 - unat (br_start r)"
    using b content_length_bytes by blast
  moreover have "unat (br_start r) \<le> unat (br_end r)" using b by (simp add: word_le_nat_alt)
  ultimately have last: "unat (br_end r) = unat (br_start r) + length (asked_bytes q (se_read E path)) - 1"
    using b by simp
  have body: "range_body E path r = BodyBytes (asked_bytes q (se_read E path))"
    and some: "asked_bytes q (se_read E path) \<noteq> []"
    and len: "unat (content_length r) = length (asked_bytes q (se_read E path))"
    unfolding range_body_def using b by blast+
  show ?thesis
    by (simp add: stream_file_def assms serve_range_def partial_content_def body some len last p
                  content_range_header_def first total Let_def)
qed

definition stream_demo_env :: StreamEnv where
  "stream_demo_env =
     \<lparr>env_path_exists = (\<lambda>_. True), env_canonicalize = Inr, env_is_file = (\<lambda>_. True), env_to_str = Some,
      env_spawn = (\<lambda>_. Inr True), se_open = (\<lambda>_. None), se_metadata = (\<lambda>_. Inr 3), se_seek_error = None,
      se_read_error = None, se_read = (\<lambda>_. [7, 8, 9]), se_chunk = id, se_exists = (\<lambda>_. True),
      se_run_ffmpeg = (\<lambda>_. Inr True), se_read_text = (\<lambda>_. Inr []), se_has_ffmpeg = True\<rparr>"

definition stream_demo_track :: Track where
  "stream_demo_track =
     \<lparr>trk_id = ''t'', trk_title = None, trk_artist = None, trk_album = None, trk_album_artist = None,
      trk_duration_ms = None, trk_file_path = ''/music/a.mp3'', trk_format = Mp3, trk_sample_rate = None,
      trk_bit_depth = None, trk_channels = None, trk_artwork_id = None, trk_genre = None, trk_year = None,
      trk_track_number = None, trk_disc_number = None, trk_content_hash = None, trk_file_size = None,
      trk_file_mtime_ns = None, trk_starred = False, trk_rating = 0, trk_starred_at = None,
      trk_replaygain_track_gain = None, trk_replaygain_track_peak = None, trk_created_at = 0,
      trk_updated_at = 0\<rparr>"

theorem range_request_served_witness:
  "\<exists>r. stream_file stream_demo_env [''/music''] stream_demo_track (RangeText ''bytes=1-5'') None = Inr r
       \<and> sp_status r = 206 \<and> sp_body r = BodyBytes [8, 9]"
proof -
  have "open_track_file_async stream_demo_env [''/music''] stream_demo_track = Inr ''/music/a.mp3''"
    by (simp add: open_track_file_async_def validate_track_path_def stream_demo_env_def stream_demo_track_def
                  inside_roots_def path_starts_with_def Let_def)
  moreover have "se_metadata stream_demo_env ''/music/a.mp3'' = Inr 3"
    "unat (3 :: u64) = length (se_read stream_demo_env ''/music/a.mp3'')" "se_seek_error stream_demo_env = None"
    by (simp_all add: stream_demo_env_def)
  ultimately have "stream_file stream_demo_env [''/music''] stream_demo_track (RangeText (print_range (FromTo 1 5))) None
    = (let asked = asked_bytes (FromTo 1 5) (se_read stream_demo_env ''/music/a.mp3'');
         first = unat (1 :: u64)
     in if asked = [] then Inl (stream_v1_error 416 ''RANGE_NOT_SATISFIABLE'' ''range not satisfiable'')
        else Inr \<lparr>sp_status = 206,
          sp_headers =
            [(''content-range'', ''bytes '' @ show_nat first @ ''-'' @ show_nat (first + length asked - 1)
                                 @ ''/'' @ show_nat (unat (3 :: u64))),
             (''content-length'', show_nat (length asked))]
            @ disposition_header None (trk_id stream_demo_track @ ''.'' @ format_as_str (trk_format stream_demo_track))
            @ [(''content-type'', mime_type (trk_format stream_demo_track)), (''accept-ranges'', ''bytes'')],
          sp_body = BodyBytes asked\<rparr>)"
    using range_request_served [of stream_demo_env "[''/music'']" stream_demo_track "''/music/a.mp3''" 3 "FromTo 1 5" None]
    by simp
  moreover have "print_range (FromTo 1 5) = ''bytes=1-5''" by code_simp
  moreover have "se_read stream_demo_env ''/music/a.mp3'' = [7, 8, 9]" by (simp add: stream_demo_env_def)
  ultimately show ?thesis by (simp add: Let_def)
qed

section \<open>Decisions\<close>

lemma requested_plan:
  assumes "requested_format fmt sr depth req policy max_rate = Inr (Inr p)"
  shows "tp_codec p \<noteq> CodecHls \<and> (policy = LosslessOnly \<longrightarrow> tp_codec p = CodecPcm)
         \<and> (\<forall>b. tp_bitrate_bps p = Some b \<longrightarrow> b \<le> max_rate)"
  using assms
  by (auto simp: requested_format_def unless_lossless_def lossy_plan_def pcm_plan_def Let_def
           split: if_splits)

lemma profile_plan_props:
  assumes "profile_plan fmt sr depth policy max_rate profile = Inr (Inr p)"
  shows "tp_codec p \<noteq> CodecHls \<and> (policy = LosslessOnly \<longrightarrow> tp_codec p = CodecPcm)
         \<and> (\<forall>b. tp_bitrate_bps p = Some b \<longrightarrow> b \<le> max_rate)"
  using assms
  by (cases profile)
     (auto simp: unless_lossless_def lossy_plan_def pcm_plan_def split: if_splits)

lemma final_is_direct:
  assumes "(case explicit of
              Some req \<Rightarrow> requested_format fmt sr depth req policy max_rate
            | None \<Rightarrow> profile_plan fmt sr depth policy max_rate profile) = Inr (Inl d)"
  shows "sd_mode d = Direct"
proof (cases explicit)
  case (Some req)
  with assms show ?thesis
    by (auto simp: requested_format_def unless_lossless_def direct_decision_def Let_def split: if_splits)
next
  case None
  with assms show ?thesis
    by (cases profile) (auto simp: unless_lossless_def direct_decision_def split: if_splits)
qed

text \<open>
  Policies: a plan to transcode is made only outside the policy of direct play and under a
  resource profile that allows transcodes; under the lossless policy it is PCM; its bit rate is at
  most the configured one and ffmpeg can write it to a pipe.
\<close>

theorem plans_respect_policy:
  assumes "resolve_stream_decision fmt sr depth explicit profile policy resource max_rate = Inr d"
    and "sd_mode d = Transcode p"
  shows "policy \<noteq> DirectPlay \<and> 0 < max_transcodes resource
         \<and> (policy = LosslessOnly \<longrightarrow> tp_codec p = CodecPcm)
         \<and> (\<forall>b. tp_bitrate_bps p = Some b \<longrightarrow> b \<le> max_rate)
         \<and> is_ok (codec_args p) \<and> sd_output_mime_type d = plan_mime_type p"
proof -
  let ?res = "case explicit of
                Some req \<Rightarrow> requested_format fmt sr depth req policy max_rate
              | None \<Rightarrow> profile_plan fmt sr depth policy max_rate profile"
  have policy: "policy \<noteq> DirectPlay"
    using assms by (auto simp: resolve_stream_decision_def direct_decision_def split: if_splits)
  have res: "?res = Inr (Inr p)" and d: "sd_output_mime_type d = plan_mime_type p"
    and max: "0 < max_transcodes resource"
  proof -
    have "(case ?res of Inl e \<Rightarrow> Inl e | Inr (Inl d) \<Rightarrow> Inr d
           | Inr (Inr p) \<Rightarrow> if max_transcodes resource = 0
               then Inl ''TRANSCODING_DISABLED: current resource profile (Eco) does not allow transcoding''
               else Inr \<lparr>sd_mode = Transcode p, sd_source_format = fmt,
                         sd_output_mime_type = plan_mime_type p,
                         sd_reason = ''transcode to '' @ stream_profile_debug profile
                                     @ '' via profile '' @ stream_profile_debug profile\<rparr>) = Inr d"
      using assms(1) policy unfolding resolve_stream_decision_def by (simp only: if_False)
    moreover have "sd_mode d' = Direct" if "?res = Inr (Inl d')" for d'
      using that by (rule final_is_direct)
    ultimately show "?res = Inr (Inr p)" and "sd_output_mime_type d = plan_mime_type p"
      and "0 < max_transcodes resource"
      using assms(2) by (auto split: sum.splits if_splits)
  qed
  have "tp_codec p \<noteq> CodecHls \<and> (policy = LosslessOnly \<longrightarrow> tp_codec p = CodecPcm)
        \<and> (\<forall>b. tp_bitrate_bps p = Some b \<longrightarrow> b \<le> max_rate)"
    using res requested_plan profile_plan_props by (cases explicit) auto
  then show ?thesis
    using policy d max by (auto simp: codec_args_def split: TranscodeCodec.splits)
qed

theorem plans_respect_policy_witness:
  "\<exists>d. resolve_stream_decision Flac None None (Some ''MP3'') Original StandardOnly Balanced 96000 = Inr d
       \<and> (\<exists>p. sd_mode d = Transcode p \<and> tp_bitrate_bps p = Some 96000 \<and> is_ok (codec_args p))"
proof -
  let ?p = "lossy_plan CodecMp3 ContainerMp3 96000 None"
  let ?d = "\<lparr>sd_mode = Transcode ?p, sd_source_format = Flac, sd_output_mime_type = plan_mime_type ?p,
             sd_reason = ''transcode to Original via profile Original''\<rparr>"
  have d: "resolve_stream_decision Flac None None (Some ''MP3'') Original StandardOnly Balanced 96000
           = Inr ?d" by code_simp
  from plans_respect_policy [OF d] have "is_ok (codec_args ?p)" by simp
  moreover have "tp_bitrate_bps ?p = Some 96000" by (simp add: lossy_plan_def)
  ultimately show ?thesis using d by (intro exI [of _ ?d]) simp
qed

section \<open>What is served\<close>

definition body_of_file :: "StreamEnv \<Rightarrow> string \<Rightarrow> StreamBody \<Rightarrow> bool" where
  "body_of_file E path b =
     (case b of
        BodyBytes xs \<Rightarrow> (\<exists>i n. xs = take n (drop i (se_read E path)))
      | BodyPipe cmd \<Rightarrow> (\<exists>rest. cmd = [''-i'', path, ''-vn''] @ rest)
      | BodyText t \<Rightarrow> False)"

lemma validated_inside:
  "validate_track_path E roots f = Inr path
   \<longleftrightarrow> env_canonicalize E f = Inr path \<and> inside_roots E roots path"
  by (auto simp: validate_track_path_def split: sum.splits if_splits)

lemma opened_inside:
  "open_track_file_async E roots t = Inr path \<Longrightarrow>
   env_canonicalize E (trk_file_path t) = Inr path \<and> inside_roots E roots path"
  by (auto simp: open_track_file_async_def validated_inside split: sum.splits if_splits option.splits)

lemma stream_file_body:
  assumes "stream_file E roots t rh disposition = Inr r"
  shows "\<exists>path i n. open_track_file_async E roots t = Inr path
           \<and> sp_body r = BodyBytes (take n (drop i (se_read E path)))"
proof -
  obtain path where path: "open_track_file_async E roots t = Inr path"
    using assms by (auto simp: stream_file_def split: sum.splits)
  obtain fs where fs: "se_metadata E path = Inr fs"
    using assms path by (auto simp: stream_file_def split: sum.splits)
  show ?thesis
  proof (cases rh)
    case NoRange
    with assms path fs have "sp_body r = BodyBytes (take (length (se_read E path)) (drop 0 (se_read E path)))"
      by (auto simp: stream_file_def)
    with path show ?thesis by blast
  next
    case (RangeText h)
    with assms path fs have "\<exists>q. sp_body r = range_body E path q"
      by (auto simp: stream_file_def serve_range_def partial_content_def split: sum.splits option.splits)
    with path show ?thesis by (auto simp: range_body_def)
  next
    case RangeBinary
    with assms path fs show ?thesis by (simp add: stream_file_def)
  qed
qed

lemma transcode_command:
  "transcode_stream_with_plan E path p = Inr cmd \<Longrightarrow> \<exists>rest. cmd = [''-i'', path, ''-vn''] @ rest"
  by (auto simp: transcode_stream_with_plan_def Let_def split: sum.splits bool.splits)

lemma start_transcode_body:
  assumes "start_transcode E S t p mime = Inr r"
  shows "\<exists>path rest. validate_track_path E (st_music_paths S) (trk_file_path t) = Inr path
           \<and> sp_body r = BodyPipe ([''-i'', path, ''-vn''] @ rest)"
proof -
  obtain path where path: "validate_track_path E (st_music_paths S) (trk_file_path t) = Inr path"
    using assms by (auto simp: start_transcode_def split: if_splits sum.splits)
  obtain cmd where "transcode_stream_with_plan E path p = Inr cmd" and "sp_body r = BodyPipe cmd"
    using assms path by (auto simp: start_transcode_def split: if_splits sum.splits)
  with path show ?thesis by (metis transcode_command)
qed

text \<open>The two ways \<open>stream_handler\<close> answers.\<close>

lemma stream_handler_cases:
  assumes "stream_handler E S i format rh permits = (Inr r, permits')"
  obtains (direct) t where "find_track S i = Inr t" "permits' = permits"
      "stream_file E (st_music_paths S) t rh None = Inr r"
    | (transcode) t d p where "find_track S i = Inr t" "0 < permits" "permits' = permits - 1"
      "track_decision S t format = Inr d" "sd_mode d = Transcode p"
      "start_transcode E S t p (sd_output_mime_type d) = Inr r"
proof -
  obtain t where t: "find_track S i = Inr t"
    using assms by (auto simp: stream_handler_def split: sum.splits)
  obtain d where d: "track_decision S t format = Inr d"
    using assms t by (auto simp: stream_handler_def split: sum.splits)
  show thesis
  proof (cases "sd_mode d")
    case Direct
    with assms t d show thesis by (intro direct) (auto simp: stream_handler_def)
  next
    case (Transcode p)
    with assms t d show thesis
      by (intro transcode [OF t _ _ d Transcode])
         (auto simp: stream_handler_def split: if_splits sum.splits)
  qed
qed


text \<open>
  C28 (Library only): whatever the stream and download handlers of the current interface answer with
  success comes from the file of the track, by its canonical path, and that path lies inside one of
  the configured music directories.
\<close>

theorem only_library_files_are_served:
  assumes "stream_handler E S i format rh permits = (Inr r, permits') \<or> download_handler E S i rh = Inr r"
  shows "\<exists>t path root canonical_root.
           st_tracks S i = Inr (Some t) \<and> env_canonicalize E (trk_file_path t) = Inr path
           \<and> root \<in> set (st_music_paths S) \<and> env_canonicalize E root = Inr canonical_root
           \<and> path_starts_with path canonical_root \<and> body_of_file E path (sp_body r)"
proof -
  have "\<exists>t path. find_track S i = Inr t \<and> env_canonicalize E (trk_file_path t) = Inr path
               \<and> inside_roots E (st_music_paths S) path \<and> body_of_file E path (sp_body r)"
    using assms
  proof
    assume "stream_handler E S i format rh permits = (Inr r, permits')"
    then show ?thesis
    proof (cases rule: stream_handler_cases)
      case (direct t)
      then show ?thesis using stream_file_body opened_inside by (fastforce simp: body_of_file_def)
    next
      case (transcode t d p)
      then show ?thesis using start_transcode_body validated_inside by (fastforce simp: body_of_file_def)
    qed
  next
    assume "download_handler E S i rh = Inr r"
    then obtain t where "find_track S i = Inr t"
      and "stream_file E (st_music_paths S) t rh (Some ''attachment'') = Inr r"
      by (auto simp: download_handler_def split: sum.splits)
    then show ?thesis using stream_file_body opened_inside by (fastforce simp: body_of_file_def)
  qed
  moreover have "st_tracks S i = Inr (Some t)" if "find_track S i = Inr t" for t
    using that by (auto simp: find_track_def split: if_splits sum.splits option.splits)
  ultimately show ?thesis unfolding inside_roots_iff by blast
qed

theorem only_library_files_are_served_witness:
  "\<exists>r. download_handler stream_demo_env
         \<lparr>st_disabled_modules = {}, st_music_paths = [''/music''], st_cache_path = ''/c'',
          st_stream_profile = Original, st_format_policy = StandardOnly, st_resource_profile = Eco,
          st_max_remote_bitrate = 320000, st_tracks = (\<lambda>_. Inr (Some stream_demo_track))\<rparr> ''t'' NoRange = Inr r
       \<and> (\<exists>path. body_of_file stream_demo_env path (sp_body r))"
proof -
  define S where "S = \<lparr>st_disabled_modules = {}, st_music_paths = [''/music''], st_cache_path = ''/c'',
          st_stream_profile = Original, st_format_policy = StandardOnly, st_resource_profile = Eco,
          st_max_remote_bitrate = 320000, st_tracks = (\<lambda>_. Inr (Some stream_demo_track))\<rparr>"
  have "open_track_file_async stream_demo_env [''/music''] stream_demo_track = Inr ''/music/a.mp3''"
    by (simp add: open_track_file_async_def validate_track_path_def stream_demo_env_def stream_demo_track_def
                  inside_roots_def path_starts_with_def Let_def)
  then have "\<exists>r. download_handler stream_demo_env S ''t'' NoRange = Inr r"
    by (simp add: download_handler_def find_track_def S_def stream_file_def stream_demo_env_def Let_def)
  then obtain r where r: "download_handler stream_demo_env S ''t'' NoRange = Inr r" by blast
  with only_library_files_are_served [of stream_demo_env S "''t''" None NoRange 0 r 0]
  show ?thesis unfolding S_def by blast
qed

section \<open>Permits\<close>


fun is_pipe :: "StreamBody \<Rightarrow> bool" where
  "is_pipe (BodyPipe cmd) \<longleftrightarrow> True"
| "is_pipe _ \<longleftrightarrow> False"



section \<open>What the model shows\<close>

text \<open>The older route transcodes whatever the policy, the resource profile and the permits say.\<close>

lemma legacy_route_ignores_policy:
  assumes "''stream'' \<notin> st_disabled_modules S" and "st_tracks S i = Inr (Some t)"
    and "se_has_ffmpeg E" and "validate_track_path E (st_music_paths S) (trk_file_path t) = Inr path"
    and "\<And>args. env_spawn E args = Inr True"
  shows "\<exists>r. legacy_stream_handler E S i (Some ''mp3'') rh = Inr r \<and> is_pipe (sp_body r)"
  using assms
  by (simp add: legacy_stream_handler_def track_from_db_def legacy_transcode_def
                transcode_format_from_str_def ascii_case transcode_stream_def
                transcode_stream_with_plan_def codec_args_def)

text \<open>A segment that is an absolute path is joined to that path: the handler serves any file the server
  can read.\<close>

lemma hls_segment_escapes_cache:
  assumes "''stream'' \<notin> st_disabled_modules S" and "se_exists E (CHR ''/'' # f)"
    and "se_open E (CHR ''/'' # f) = None"
  shows "\<exists>r. hls_segment_handler E S i (CHR ''/'' # f) = Inr r
             \<and> sp_body r = BodyBytes (se_read E (CHR ''/'' # f))"
  using assms by (simp add: hls_segment_handler_def hls_segment_path_def path_join_def Let_def)

text \<open>A configured bit rate below 32 kbit/s is not kept: ffmpeg is asked for 32.\<close>

lemma bitrate_floor_exceeds_limit:
  "bitrate_args (Some 16000) = [''-b:a'', ''32k'']"
  by code_simp

text \<open>Under the policy of direct play a request for the format an M4A track has is refused.\<close>

lemma direct_play_refuses_own_m4a:
  "\<not> is_ok (resolve_stream_decision M4a sr depth (Some ''m4a'') profile DirectPlay resource max_rate)"
  by (simp add: resolve_stream_decision_def)

text \<open>A read loop whose reads return something before the end of the file returns the whole range.\<close>

lemma read_loop_complete:
  "(\<And>n. 0 < n \<Longrightarrow> 0 < chunk n) \<Longrightarrow> read_loop chunk bytes room = take room bytes"
proof (induction chunk bytes room rule: read_loop.induct)
  case (1 chunk bytes room)
  let ?n = "min (min (chunk room) room) (length bytes)"
  show ?case
  proof (cases "room = 0 \<or> ?n = 0")
    case True
    moreover have "room = 0 \<or> chunk room \<noteq> 0" using 1(2) [of room] by (cases "room = 0") simp_all
    ultimately have "room = 0 \<or> bytes = []" by (auto simp: min_def split: if_splits)
    then show ?thesis by (subst read_loop.simps) (auto simp: Let_def)
  next
    case False
    then have some: "(room = 0) = False" "(?n = 0) = False" by simp_all
    then have "read_loop chunk bytes room = take ?n bytes @ read_loop chunk (drop ?n bytes) (room - ?n)"
      by (subst read_loop.simps) (simp only: Let_def some if_False)
    also have "read_loop chunk (drop ?n bytes) (room - ?n) = take (room - ?n) (drop ?n bytes)"
      using False 1 by (intro 1(1)) auto
    also have "take ?n bytes @ take (room - ?n) (drop ?n bytes) = take room bytes"
      by (metis take_add le_add_diff_inverse min.cobounded1 min.cobounded2 min.coboundedI1)
    finally show ?thesis .
  qed
qed

end
