(* ===== verification/Play_Queue.thy ===== *)
theory Play_Queue
  imports Engine_Commands Playback_Projection
begin

text \<open>
  \<open>michi-api/src/playback_queue.rs\<close> and the statements on the tables \<open>queues\<close>, \<open>queue_items\<close> and
  \<open>playback_sessions\<close> that the queue routes use: finding or creating the active queue, loading its
  tracks, and handing it to the playback engine.
\<close>

section \<open>Tables, host, results\<close>

record QueueRow =
  qr_id :: string
  qr_name :: string
  qr_created_at :: utc
  qr_updated_at :: utc

record QueueItem =
  qi_id :: string
  qi_queue_id :: string
  qi_track_id :: string
  qi_position :: int
  qi_added_at :: utc

record QueueDb =
  qd_queues :: "QueueRow list"
  qd_items :: "QueueItem list"
  qd_sessions :: "(PlaybackSessionDb \<times> utc) list"

datatype QueueMessage =
    QueueUpdated uuid nat
  | PlaybackStateChanged uuid u32
  | QueueTransferred uuid
  | QueueReordered uuid

record 's QueueHost =
  qh_db :: QueueDb
  qh_engine :: "'s engine_task"
  qh_bus :: "QueueMessage list"

record QueueFailure =
  qf_status :: u16
  qf_code :: string
  qf_message :: string

text \<open>The environment of one request: which statement fails, by its name and the number of its
  repetition, and with what error; fresh UUIDs, the clock, the table of tracks.\<close>

record QueueEnv =
  qe_engine :: EngineEnv
  qe_disabled :: bool
    \<comment> \<open>the module \<open>playback\<close> is disabled\<close>
  qe_fail :: "string \<Rightarrow> nat \<Rightarrow> string option"
  qe_parse_uuid :: "string \<Rightarrow> string + uuid"
  qe_uuid :: "nat \<Rightarrow> uuid"
  qe_now :: utc
  qe_tracks :: "uuid \<Rightarrow> string + Track option"
  qe_music_paths :: "string list"
  qe_ids_text :: "uuid list \<Rightarrow> string"

type_synonym 'a queue_result = "QueueFailure + 'a"

definition and_then :: "'e + 'a \<Rightarrow> ('a \<Rightarrow> 'e + 'b) \<Rightarrow> 'e + 'b" where
  "and_then r f = (case r of Inl e \<Rightarrow> Inl e | Inr x \<Rightarrow> f x)"

definition map_err :: "('e \<Rightarrow> 'f) \<Rightarrow> 'e + 'a \<Rightarrow> 'f + 'a" where
  "map_err f r = (case r of Inl e \<Rightarrow> Inl (f e) | Inr x \<Rightarrow> Inr x)"

definition queue_v1_error :: "u16 \<Rightarrow> string \<Rightarrow> string \<Rightarrow> QueueFailure" where
  "queue_v1_error status code msg = \<lparr>qf_status = status, qf_code = code, qf_message = msg\<rparr>"

definition database_error :: "string \<Rightarrow> QueueFailure" where
  "database_error e = queue_v1_error 500 ''DATABASE_ERROR'' e"

definition sync_failed :: "string \<Rightarrow> QueueFailure" where
  "sync_failed e = queue_v1_error 500 ''RUNTIME_SYNC_FAILED'' e"

definition run_statement :: "QueueEnv \<Rightarrow> string \<Rightarrow> nat \<Rightarrow> string + unit" where
  "run_statement V label i = (case qe_fail V label i of Some e \<Rightarrow> Inl e | None \<Rightarrow> Inr ())"

definition statement :: "QueueEnv \<Rightarrow> string \<Rightarrow> nat \<Rightarrow> 'a \<Rightarrow> 'a queue_result" where
  "statement V label i x = and_then (map_err database_error (run_statement V label i)) (\<lambda>_. Inr x)"

section \<open>Statements\<close>

text \<open>\<open>ORDER BY datetime(created_at) DESC LIMIT 1\<close> among the rows of that name.\<close>

fun latest_row :: "QueueRow list \<Rightarrow> QueueRow option" where
  "latest_row [] = None"
| "latest_row (r # rs) =
     (case latest_row rs of
        None \<Rightarrow> Some r
      | Some r' \<Rightarrow> Some (if qr_created_at r < qr_created_at r' then r' else r))"

definition active_row :: "QueueDb \<Rightarrow> QueueRow option" where
  "active_row db = latest_row (filter (\<lambda>r. qr_name r = ''active-queue'') (qd_queues db))"

definition new_queue :: "uuid \<Rightarrow> string \<Rightarrow> utc \<Rightarrow> QueueDb \<Rightarrow> QueueDb" where
  "new_queue i name now db =
     db\<lparr>qd_queues := qd_queues db @
          [\<lparr>qr_id = i, qr_name = name, qr_created_at = now, qr_updated_at = now\<rparr>]\<rparr>"

definition items_of :: "QueueDb \<Rightarrow> uuid \<Rightarrow> QueueItem list" where
  "items_of db q = sort_key qi_position (filter (\<lambda>i. qi_queue_id i = q) (qd_items db))"

definition max_position :: "QueueDb \<Rightarrow> uuid \<Rightarrow> int" where
  "max_position db q = fold max (map qi_position (filter (\<lambda>i. qi_queue_id i = q) (qd_items db))) (-1)"

definition add_item :: "uuid \<Rightarrow> uuid \<Rightarrow> uuid \<Rightarrow> int \<Rightarrow> utc \<Rightarrow> QueueDb \<Rightarrow> QueueDb" where
  "add_item i q t pos now db =
     db\<lparr>qd_items := qd_items db @
          [\<lparr>qi_id = i, qi_queue_id = q, qi_track_id = t, qi_position = pos, qi_added_at = now\<rparr>]\<rparr>"

text \<open>The loop that inserts the tracks of a list from a position on.\<close>

fun insert_items ::
  "QueueEnv \<Rightarrow> nat \<Rightarrow> uuid \<Rightarrow> int \<Rightarrow> uuid list \<Rightarrow> QueueDb \<Rightarrow> QueueDb queue_result" where
  "insert_items V n q pos [] db = Inr db"
| "insert_items V n q pos (t # ts) db =
     and_then (statement V ''insert item'' n (add_item (qe_uuid V (Suc n)) q t pos (qe_now V) db))
       (insert_items V (Suc n) q (pos + 1) ts)"

definition clear_items :: "uuid \<Rightarrow> QueueDb \<Rightarrow> QueueDb" where
  "clear_items q db = db\<lparr>qd_items := filter (\<lambda>i. qi_queue_id i \<noteq> q) (qd_items db)\<rparr>"

definition touch_queue :: "uuid \<Rightarrow> utc \<Rightarrow> QueueDb \<Rightarrow> QueueDb" where
  "touch_queue q now db =
     db\<lparr>qd_queues := map (\<lambda>r. if qr_id r = q then r\<lparr>qr_updated_at := now\<rparr> else r) (qd_queues db)\<rparr>"

definition drop_queue :: "uuid \<Rightarrow> QueueDb \<Rightarrow> QueueDb" where
  "drop_queue q db = db\<lparr>qd_queues := filter (\<lambda>r. qr_id r \<noteq> q) (qd_queues db)\<rparr>"

text \<open>A failed insertion of an item is ignored here.\<close>

fun save_items :: "QueueEnv \<Rightarrow> (nat \<Rightarrow> uuid) \<Rightarrow> nat \<Rightarrow> uuid \<Rightarrow> uuid list \<Rightarrow> QueueDb \<Rightarrow> QueueDb" where
  "save_items V u n q [] db = db"
| "save_items V u n q (t # ts) db =
     save_items V u (Suc n) q ts
       (if qe_fail V ''save item'' n = None
        then add_item (u (n + 2)) q t (int n) (qe_now V) db else db)"

definition saved_session ::
  "QueueEnv \<Rightarrow> uuid \<Rightarrow> uuid \<Rightarrow> uuid list \<Rightarrow> int \<Rightarrow> u64 \<Rightarrow> PlaybackSessionDb" where
  "saved_session V i q track_ids current_index position_ms =
     \<lparr>sess_id = i, sess_device_id = ''00000000-0000-0000-0000-000000000000'',
      sess_queue_id = Some q, sess_queue_state_json = qe_ids_text V track_ids,
      sess_current_index = current_index,
      sess_current_track_id = (case track_ids of t # _ \<Rightarrow> Some t | [] \<Rightarrow> None),
      sess_position_ms = position_ms, sess_playing = False, sess_repeat_mode = ''none'',
      sess_shuffle = False, sess_volume = 4 / 5, sess_source = ''cross-device'',
      sess_resume_policy = ''manual'', sess_restored = False\<rparr>"

text \<open>\<open>u\<close> draws the UUIDs: of the queue, the session and the items.\<close>

definition save_queue_state ::
  "QueueEnv \<Rightarrow> (nat \<Rightarrow> uuid) \<Rightarrow> string \<Rightarrow> uuid list \<Rightarrow> int \<Rightarrow> u64 \<Rightarrow> QueueDb
   \<Rightarrow> (string + uuid) \<times> QueueDb" where
  "save_queue_state V u name track_ids current_index position_ms db =
     (case run_statement V ''save queue'' 0 of
        Inl e \<Rightarrow> (Inl e, db)
      | Inr _ \<Rightarrow>
          (let db = save_items V u 0 (u 0) track_ids (new_queue (u 0) name (qe_now V) db) in
           case run_statement V ''save session'' 0 of
             Inl e \<Rightarrow> (Inl e, db)
           | Inr _ \<Rightarrow>
               (Inr (u 1),
                db\<lparr>qd_sessions := qd_sessions db @
                     [(saved_session V (u 1) (u 0) track_ids current_index position_ms, qe_now V)]\<rparr>)))"

definition get_queue_items :: "QueueEnv \<Rightarrow> QueueDb \<Rightarrow> uuid \<Rightarrow> string + (uuid \<times> int) list" where
  "get_queue_items V db q =
     and_then (run_statement V ''queue items'' 0)
       (\<lambda>_. Inr (map (\<lambda>i. (case qe_parse_uuid V (qi_track_id i) of
                              Inr t \<Rightarrow> t | Inl _ \<Rightarrow> ''00000000-0000-0000-0000-000000000000'',
                            qi_position i)) (items_of db q)))"

section \<open>The active queue\<close>

definition get_or_create_active_queue :: "QueueEnv \<Rightarrow> QueueDb \<Rightarrow> (string + uuid) \<times> QueueDb" where
  "get_or_create_active_queue V db =
     (case run_statement V ''select active'' 0 of
        Inl e \<Rightarrow> (Inl e, db)
      | Inr _ \<Rightarrow>
     (case active_row db of
        Some r \<Rightarrow>
          (case qe_parse_uuid V (qr_id r) of
             Inl e \<Rightarrow> (Inl (''corrupt queue UUID '' @ [CHR 39] @ qr_id r @ [CHR 39] @ '': '' @ e), db)
           | Inr q \<Rightarrow> (Inr q, db))
      | None \<Rightarrow>
          (case run_statement V ''insert active'' 0 of
             Inl e \<Rightarrow> (Inl e, db)
           | Inr _ \<Rightarrow>
               (Inr (qe_uuid V 0), new_queue (qe_uuid V 0) ''active-queue'' (qe_now V) db))))"

definition track_failure :: "uuid \<Rightarrow> PlaybackError \<Rightarrow> QueueFailure" where
  "track_failure t e =
     queue_v1_error (case e of TrackNotFound _ \<Rightarrow> 404 | TrackFileMissing _ \<Rightarrow> 404
                             | TrackOutsideLibrary _ \<Rightarrow> 404 | _ \<Rightarrow> 400)
       (error_code e) (''track '' @ t @ '' validation failed: '' @ error_to_string e)"

fun validate_and_load_tracks :: "QueueEnv \<Rightarrow> uuid list \<Rightarrow> Track list queue_result" where
  "validate_and_load_tracks V [] = Inr []"
| "validate_and_load_tracks V (t # ts) =
     (case get_track (qe_engine V) (qe_tracks V) (qe_music_paths V) t of
        Inl e \<Rightarrow> Inl (track_failure t e)
      | Inr track \<Rightarrow> and_then (validate_and_load_tracks V ts) (\<lambda>tracks. Inr (track # tracks)))"

text \<open>The tracks of the rows, for the engine.\<close>

fun runtime_tracks :: "QueueEnv \<Rightarrow> QueueItem list \<Rightarrow> Track list queue_result" where
  "runtime_tracks V [] = Inr []"
| "runtime_tracks V (i # items) =
     (case qe_parse_uuid V (qi_track_id i) of
        Inl e \<Rightarrow> Inl (sync_failed (''invalid track UUID '' @ qi_track_id i @ '' in queue: '' @ e))
      | Inr t \<Rightarrow>
          (case get_track (qe_engine V) (qe_tracks V) (qe_music_paths V) t of
             Inl e \<Rightarrow> Inl (sync_failed (''failed to resolve queue track '' @ t @ '': ''
                                         @ error_to_string e))
           | Inr track \<Rightarrow> and_then (runtime_tracks V items) (\<lambda>tracks. Inr (track # tracks))))"

definition engine_set_queue ::
  "'s AudioSink \<Rightarrow> QueueEnv \<Rightarrow> Track list \<Rightarrow> nat \<Rightarrow> uuid option \<Rightarrow> 's QueueHost
   \<Rightarrow> unit queue_result \<times> 's QueueHost" where
  "engine_set_queue A V tracks i cur S =
     (let (r, task) = handle_set_queue A (qe_engine V) tracks i cur (qh_engine S)
      in (map_err (sync_failed \<circ> error_to_string) r, S\<lparr>qh_engine := task\<rparr>))"

definition sync_active_queue_to_engine ::
  "'s AudioSink \<Rightarrow> QueueEnv \<Rightarrow> uuid \<Rightarrow> uuid option \<Rightarrow> 's QueueHost
   \<Rightarrow> unit queue_result \<times> 's QueueHost" where
  "sync_active_queue_to_engine A V q cur S =
     (case run_statement V ''sync items'' 0 of
        Inl e \<Rightarrow> (Inl (database_error e), S)
      | Inr _ \<Rightarrow>
          (let items = items_of (qh_db S) q in
           if items = [] then engine_set_queue A V [] 0 None S
           else case runtime_tracks V items of
             Inl e \<Rightarrow> (Inl e, S)
           | Inr tracks \<Rightarrow>
               (let cur_idx = (case cur of
                                 Some t \<Rightarrow> (case position (\<lambda>x. trk_id x = t) tracks of
                                              Some p \<Rightarrow> p | None \<Rightarrow> 0)
                               | None \<Rightarrow> 0)
                in engine_set_queue A V tracks cur_idx cur S)))"

end
