(* ===== verification/Queue_Routes.thy ===== *)
theory Queue_Routes
  imports Play_Queue
begin

text \<open>
  The queue handlers of \<open>michi-api/src/routes/v1/queue.rs\<close> over the tables, the playback engine and
  the event bus. A transaction is a computation on the tables whose result counts only when the
  commit succeeds.
\<close>

section \<open>Common steps\<close>

definition module_disabled :: QueueFailure where
  "module_disabled = queue_v1_error 503 ''MODULE_DISABLED'' ''playback module is disabled''"

definition active_or_error :: "QueueEnv \<Rightarrow> 's QueueHost \<Rightarrow> uuid queue_result \<times> 's QueueHost" where
  "active_or_error V S =
     (let (r, db) = get_or_create_active_queue V (qh_db S)
      in (map_err database_error r, S\<lparr>qh_db := db\<rparr>))"

definition engine_track :: "'s AudioSink \<Rightarrow> QueueEnv \<Rightarrow> 's QueueHost \<Rightarrow> uuid option queue_result" where
  "engine_track A V S =
     (case handle_snapshot A (qe_engine V) (qh_engine S) of
        Inl e \<Rightarrow> Inl (queue_v1_error 500 ''ENGINE_UNAVAILABLE'' (error_to_string e))
      | Inr snap \<Rightarrow> Inr (snap_track_id snap))"

definition engine_failure :: "PlaybackError \<Rightarrow> QueueFailure" where
  "engine_failure e = queue_v1_error 500 (error_code e) (error_to_string e)"

definition announce :: "QueueMessage \<Rightarrow> 's QueueHost \<Rightarrow> 's QueueHost" where
  "announce m S = S\<lparr>qh_bus := qh_bus S @ [m]\<rparr>"

section \<open>Reading the queue\<close>

record QueueView =
  qv_queue_id :: uuid
  qv_items :: "(string \<times> string \<times> int) list"
  qv_current_track_id :: "uuid option"
  qv_current_index :: "u32 option"
  qv_position_ms :: u64
  qv_playing :: bool
  qv_volume :: u8

definition queue_view :: "uuid \<Rightarrow> QueueItem list \<Rightarrow> EngineSnapshot \<Rightarrow> QueueView" where
  "queue_view q items snap =
     \<lparr>qv_queue_id = q,
      qv_items = map (\<lambda>i. (qi_id i, qi_track_id i, qi_position i)) items,
      qv_current_track_id = snap_track_id snap,
      qv_current_index =
        (case snap_track_id snap of
           Some t \<Rightarrow> map_option of_nat (position (\<lambda>i. qi_track_id i = t) items)
         | None \<Rightarrow> None),
      qv_position_ms = (if snap_lifecycle snap = Stopped \<or> snap_lifecycle snap = Ended then 0
                        else snap_position_ms snap),
      qv_playing = (snap_lifecycle snap = AudioFlowing \<or> snap_lifecycle snap = Playing),
      qv_volume = snap_volume snap\<rparr>"

definition queue_handler ::
  "'s AudioSink \<Rightarrow> QueueEnv \<Rightarrow> 's QueueHost \<Rightarrow> QueueView queue_result \<times> 's QueueHost" where
  "queue_handler A V S =
     (if qe_disabled V then (Inl module_disabled, S)
      else case handle_snapshot A (qe_engine V) (qh_engine S) of
        Inl e \<Rightarrow> (Inl (queue_v1_error 500 ''ENGINE_UNAVAILABLE'' (error_to_string e)), S)
      | Inr snap \<Rightarrow>
          (case active_or_error V S of
             (Inl e, S) \<Rightarrow> (Inl e, S)
           | (Inr q, S) \<Rightarrow>
               (and_then (statement V ''select items'' 0 (items_of (qh_db S) q))
                  (\<lambda>items. Inr (queue_view q items snap)), S)))"

section \<open>Adding items\<close>

definition active_in_tx :: "QueueEnv \<Rightarrow> QueueDb \<Rightarrow> (uuid \<times> QueueDb) queue_result" where
  "active_in_tx V db =
     and_then (statement V ''select active'' 0 ()) (\<lambda>_.
       case active_row db of
         Some r \<Rightarrow>
           (case qe_parse_uuid V (qr_id r) of
              Inl e \<Rightarrow> Inl (queue_v1_error 500 ''DATABASE_INVARIANT_VIOLATION''
                            (''corrupt queue UUID '' @ [CHR 39] @ qr_id r @ [CHR 39] @ '': '' @ e))
            | Inr q \<Rightarrow> Inr (q, db))
       | None \<Rightarrow>
           statement V ''insert active'' 0
             (qe_uuid V 0, new_queue (qe_uuid V 0) ''active-queue'' (qe_now V) db))"

definition add_items_tx :: "QueueEnv \<Rightarrow> uuid list \<Rightarrow> QueueDb \<Rightarrow> (uuid \<times> QueueDb) queue_result" where
  "add_items_tx V track_ids db =
     and_then (statement V ''begin'' 0 ()) (\<lambda>_.
     and_then (active_in_tx V db) (\<lambda>(q, db).
     and_then (statement V ''max position'' 0 (max_position db q)) (\<lambda>m.
     and_then (insert_items V 0 q (m + 1) track_ids db) (\<lambda>db.
     and_then (statement V ''touch'' 0 (touch_queue q (qe_now V) db)) (\<lambda>db.
     statement V ''commit'' 0 (q, db))))))"

definition queue_items_handler ::
  "'s AudioSink \<Rightarrow> QueueEnv \<Rightarrow> uuid list \<Rightarrow> 's QueueHost \<Rightarrow> (uuid \<times> nat) queue_result \<times> 's QueueHost"
where
  "queue_items_handler A V track_ids S =
     (if qe_disabled V then (Inl module_disabled, S)
      else if track_ids = []
        then (Inl (queue_v1_error 400 ''INVALID_REQUEST'' ''track_ids cannot be empty''), S)
      else case validate_and_load_tracks V track_ids of
        Inl e \<Rightarrow> (Inl e, S)
      | Inr _ \<Rightarrow>
     (case add_items_tx V track_ids (qh_db S) of
        Inl e \<Rightarrow> (Inl e, S)
      | Inr (q, db) \<Rightarrow>
          (let S = S\<lparr>qh_db := db\<rparr> in
           case engine_track A V S of
             Inl e \<Rightarrow> (Inl e, S)
           | Inr cur \<Rightarrow>
               (case sync_active_queue_to_engine A V q cur S of
                  (Inl e, S) \<Rightarrow> (Inl e, S)
                | (Inr _, S) \<Rightarrow>
                    (Inr (q, length track_ids), announce (QueueUpdated q (length track_ids)) S)))))"

section \<open>Jumping\<close>

fun parse_ids :: "QueueEnv \<Rightarrow> string list \<Rightarrow> uuid list queue_result" where
  "parse_ids V [] = Inr []"
| "parse_ids V (t # ts) =
     (case qe_parse_uuid V t of
        Inl e \<Rightarrow> Inl (queue_v1_error 500 ''INVALID_TRACK_ID'' e)
      | Inr i \<Rightarrow> and_then (parse_ids V ts) (\<lambda>is. Inr (i # is)))"

definition replace_items_tx :: "QueueEnv \<Rightarrow> uuid \<Rightarrow> uuid list \<Rightarrow> QueueDb \<Rightarrow> QueueDb queue_result" where
  "replace_items_tx V q track_ids db =
     and_then (statement V ''begin'' 0 ()) (\<lambda>_.
     and_then (statement V ''delete items'' 0 (clear_items q db)) (\<lambda>db.
     and_then (insert_items V 0 q 0 track_ids db) (\<lambda>db.
     and_then (statement V ''touch'' 0 (touch_queue q (qe_now V) db)) (\<lambda>db.
     statement V ''commit'' 0 db))))"

definition jump_in_queue ::
  "'s AudioSink \<Rightarrow> QueueEnv \<Rightarrow> Track list \<Rightarrow> u32 \<Rightarrow> uuid \<Rightarrow> 's QueueHost
   \<Rightarrow> (u32 \<times> uuid) queue_result \<times> 's QueueHost" where
  "jump_in_queue A V tracks index target S =
     (case engine_set_queue A V tracks (unat index) (Some target) S of
        (Inl e, S) \<Rightarrow> (Inl e, S)
      | (Inr _, S) \<Rightarrow>
          (case handle_jump_to_index A (qe_engine V) (unat index) (qh_engine S) of
             (Inl e, task) \<Rightarrow> (Inl (engine_failure e), S\<lparr>qh_engine := task\<rparr>)
           | (Inr _, task) \<Rightarrow>
               (Inr (index, target),
                announce (PlaybackStateChanged target index) (S\<lparr>qh_engine := task\<rparr>))))"

definition out_of_bounds :: "u32 \<Rightarrow> nat \<Rightarrow> QueueFailure" where
  "out_of_bounds index n =
     queue_v1_error 400 ''INVALID_INDEX''
       (''index '' @ show_nat (unat index) @ '' out of bounds for queue length '' @ show_nat n)"

definition queue_jump_handler ::
  "'s AudioSink \<Rightarrow> QueueEnv \<Rightarrow> uuid option \<Rightarrow> u32 \<Rightarrow> 's QueueHost
   \<Rightarrow> (u32 \<times> uuid) queue_result \<times> 's QueueHost" where
  "queue_jump_handler A V queue_id index S =
     (if qe_disabled V then (Inl module_disabled, S)
      else case active_or_error V S of
        (Inl e, S) \<Rightarrow> (Inl e, S)
      | (Inr active, S) \<Rightarrow>
          (let q = (case queue_id of Some q \<Rightarrow> q | None \<Rightarrow> active) in
           case statement V ''select items'' 0 (items_of (qh_db S) q) of
             Inl e \<Rightarrow> (Inl e, S)
           | Inr items \<Rightarrow>
               if items = [] then (Inl (queue_v1_error 400 ''QUEUE_EMPTY'' ''queue has no items''), S)
               else if length items \<le> unat index then (Inl (out_of_bounds index (length items)), S)
               else case qe_parse_uuid V (qi_track_id (items ! unat index)) of
                 Inl e \<Rightarrow> (Inl (queue_v1_error 500 ''INVALID_TRACK_ID'' e), S)
               | Inr target \<Rightarrow>
              (case parse_ids V (map qi_track_id items) of
                 Inl e \<Rightarrow> (Inl e, S)
               | Inr track_ids \<Rightarrow>
              (case validate_and_load_tracks V track_ids of
                 Inl e \<Rightarrow> (Inl e, S)
               | Inr tracks \<Rightarrow>
                   if q = active then jump_in_queue A V tracks index target S
                   else case replace_items_tx V active track_ids (qh_db S) of
                     Inl e \<Rightarrow> (Inl e, S)
                   | Inr db \<Rightarrow> jump_in_queue A V tracks index target (S\<lparr>qh_db := db\<rparr>)))))"

section \<open>Transfer from a player\<close>

record QueueTransferBody =
  qt_track_ids :: "uuid list"
  qt_current_index :: u32
  qt_position_ms :: u64
  qt_source :: string

definition transfer_tx :: "QueueEnv \<Rightarrow> uuid \<Rightarrow> uuid list \<Rightarrow> QueueDb \<Rightarrow> QueueDb queue_result" where
  "transfer_tx V q track_ids db =
     and_then (statement V ''begin'' 0 ()) (\<lambda>_.
     and_then (statement V ''delete items'' 0 (clear_items q db)) (\<lambda>db.
     and_then (insert_items V 0 q 0 track_ids db) (\<lambda>db.
     statement V ''commit'' 0 db)))"

definition transfer_tracks :: "QueueEnv \<Rightarrow> uuid list \<Rightarrow> Track list queue_result" where
  "transfer_tracks V track_ids =
     map_err (\<lambda>e. if qf_status e = 404
                   then queue_v1_error 400 ''UNKNOWN_TRACKS'' ''tracks not in library'' else e)
       (validate_and_load_tracks V track_ids)"

definition seek_after_transfer ::
  "'s AudioSink \<Rightarrow> QueueEnv \<Rightarrow> u64 \<Rightarrow> 's QueueHost \<Rightarrow> unit queue_result \<times> 's QueueHost" where
  "seek_after_transfer A V pos S =
     (if pos = 0 then (Inr (), S)
      else (let (r, task) = handle_seek A (qe_engine V) pos LocalOrigin (qh_engine S)
            in (map_err engine_failure r, S\<lparr>qh_engine := task\<rparr>)))"

definition queue_transfer_handler ::
  "'s AudioSink \<Rightarrow> QueueEnv \<Rightarrow> QueueTransferBody \<Rightarrow> 's QueueHost
   \<Rightarrow> (uuid \<times> uuid \<times> u32 \<times> u64) queue_result \<times> 's QueueHost" where
  "queue_transfer_handler A V b S =
     (let ids = qt_track_ids b; index = unat (qt_current_index b) in
      if qe_disabled V then (Inl module_disabled, S)
      else if ids = []
        then (Inl (queue_v1_error 400 ''INVALID_REQUEST'' ''track_ids must not be empty''), S)
      else if length ids \<le> index
        then (Inl (queue_v1_error 400 ''INVALID_INDEX'' ''current_index exceeds track_ids length''), S)
      else case transfer_tracks V ids of
        Inl e \<Rightarrow> (Inl e, S)
      | Inr tracks \<Rightarrow>
     (case active_or_error V S of
        (Inl e, S) \<Rightarrow> (Inl e, S)
      | (Inr q, S) \<Rightarrow>
     (case transfer_tx V q ids (qh_db S) of
        Inl e \<Rightarrow> (Inl e, S)
      | Inr db \<Rightarrow>
     (case save_queue_state V (\<lambda>k. qe_uuid V (length ids + 1 + k)) (qt_source b) ids
             (sint (qt_current_index b)) (qt_position_ms b) db of
        (Inl e, db) \<Rightarrow> (Inl (database_error e), S\<lparr>qh_db := db\<rparr>)
      | (Inr session, db) \<Rightarrow>
     (case engine_set_queue A V tracks index (nth_opt ids index) (S\<lparr>qh_db := db\<rparr>) of
        (Inl e, S) \<Rightarrow> (Inl e, S)
      | (Inr _, S) \<Rightarrow>
     (case seek_after_transfer A V (qt_position_ms b) S of
        (Inl e, S) \<Rightarrow> (Inl e, S)
      | (Inr _, S) \<Rightarrow>
          (Inr (q, session, qt_current_index b, qt_position_ms b),
           announce (QueueTransferred session) S)))))))"

section \<open>Reordering\<close>

definition set_position :: "uuid \<Rightarrow> uuid \<Rightarrow> int \<Rightarrow> QueueDb \<Rightarrow> QueueDb" where
  "set_position q i pos db =
     db\<lparr>qd_items := map (\<lambda>x. if qi_id x = i \<and> qi_queue_id x = q then x\<lparr>qi_position := pos\<rparr> else x)
                     (qd_items db)\<rparr>"

fun reposition :: "QueueEnv \<Rightarrow> nat \<Rightarrow> uuid \<Rightarrow> uuid list \<Rightarrow> QueueDb \<Rightarrow> QueueDb queue_result" where
  "reposition V n q [] db = Inr db"
| "reposition V n q (i # is) db =
     and_then (statement V ''update position'' n ()) (\<lambda>_.
       if list_ex (\<lambda>x. qi_id x = i \<and> qi_queue_id x = q) (qd_items db)
       then reposition V (Suc n) q is (set_position q i (int n) db)
       else Inl (queue_v1_error 500 ''REORDER_FAILED''
                  (''failed to update position for item '' @ i)))"

definition check_item_ids :: "uuid \<Rightarrow> uuid list \<Rightarrow> QueueItem list \<Rightarrow> unit queue_result" where
  "check_item_ids q item_ids existing =
     (if length existing \<noteq> length item_ids
      then Inl (queue_v1_error 400 ''COUNT_MISMATCH''
                 (''expected '' @ show_nat (length existing) @ '' items, got ''
                  @ show_nat (length item_ids)))
      else case List.find (\<lambda>i. i \<notin> set (map qi_id existing)) item_ids of
        Some i \<Rightarrow> Inl (queue_v1_error 400 ''UNKNOWN_ITEM_ID''
                        (''item '' @ i @ '' does not belong to queue '' @ q))
      | None \<Rightarrow> Inr ())"

definition reorder_tx :: "QueueEnv \<Rightarrow> uuid \<Rightarrow> uuid list \<Rightarrow> QueueDb \<Rightarrow> QueueDb queue_result" where
  "reorder_tx V q item_ids db =
     and_then (statement V ''begin'' 0 ()) (\<lambda>_.
     and_then (statement V ''select items'' 0 (filter (\<lambda>i. qi_queue_id i = q) (qd_items db))) (\<lambda>existing.
     and_then (check_item_ids q item_ids existing) (\<lambda>_.
     and_then (reposition V 0 q item_ids db) (\<lambda>db.
     and_then (statement V ''touch'' 0 (touch_queue q (qe_now V) db)) (\<lambda>db.
     statement V ''commit'' 0 db)))))"

definition queue_reorder_handler ::
  "'s AudioSink \<Rightarrow> QueueEnv \<Rightarrow> uuid list \<Rightarrow> uuid option \<Rightarrow> 's QueueHost
   \<Rightarrow> nat queue_result \<times> 's QueueHost" where
  "queue_reorder_handler A V item_ids queue_id S =
     (if qe_disabled V then (Inl module_disabled, S)
      else case (case queue_id of Some q \<Rightarrow> (Inr q, S) | None \<Rightarrow> active_or_error V S) of
        (Inl e, S) \<Rightarrow> (Inl e, S)
      | (Inr q, S) \<Rightarrow>
     (case reorder_tx V q item_ids (qh_db S) of
        Inl e \<Rightarrow> (Inl e, S)
      | Inr db \<Rightarrow>
          (let S = S\<lparr>qh_db := db\<rparr> in
           case engine_track A V S of
             Inl e \<Rightarrow> (Inl e, S)
           | Inr cur \<Rightarrow>
               (case sync_active_queue_to_engine A V q cur S of
                  (Inl e, S) \<Rightarrow> (Inl e, S)
                | (Inr _, S) \<Rightarrow> (Inr (length item_ids), announce (QueueReordered q) S)))))"

section \<open>Clearing and deleting\<close>

definition clear_queue_handler ::
  "'s AudioSink \<Rightarrow> QueueEnv \<Rightarrow> uuid \<Rightarrow> 's QueueHost \<Rightarrow> uuid queue_result \<times> 's QueueHost" where
  "clear_queue_handler A V q S =
     (if qe_disabled V then (Inl module_disabled, S)
      else case active_or_error V S of
        (Inl e, S) \<Rightarrow> (Inl e, S)
      | (Inr active, S) \<Rightarrow>
     (case statement V ''delete items'' 0 (clear_items q (qh_db S)) of
        Inl e \<Rightarrow> (Inl e, S)
      | Inr db \<Rightarrow>
          (let S = S\<lparr>qh_db := db\<rparr> in
           if q = active
           then (case engine_set_queue A V [] 0 None S of
                   (Inl e, S) \<Rightarrow> (Inl e, S)
                 | (Inr _, S) \<Rightarrow> (Inr q, S))
           else (Inr q, S))))"

definition delete_tx :: "QueueEnv \<Rightarrow> uuid \<Rightarrow> QueueDb \<Rightarrow> (string \<times> QueueDb) queue_result" where
  "delete_tx V q db =
     and_then (statement V ''begin'' 0 ()) (\<lambda>_.
     and_then (statement V ''queue name'' 0 (List.find (\<lambda>r. qr_id r = q) (qd_queues db))) (\<lambda>row.
     case row of
       None \<Rightarrow> Inl (queue_v1_error 404 ''NOT_FOUND'' (''queue '' @ q @ '' not found''))
     | Some r \<Rightarrow>
         and_then (statement V ''delete items'' 0 (clear_items q db)) (\<lambda>db.
         and_then (statement V ''delete queue'' 0 (drop_queue q db)) (\<lambda>db.
         statement V ''commit'' 0 (qr_name r, db)))))"

definition queue_delete_handler ::
  "'s AudioSink \<Rightarrow> QueueEnv \<Rightarrow> uuid \<Rightarrow> 's QueueHost \<Rightarrow> uuid queue_result \<times> 's QueueHost" where
  "queue_delete_handler A V q S =
     (if qe_disabled V then (Inl module_disabled, S)
      else case delete_tx V q (qh_db S) of
        Inl e \<Rightarrow> (Inl e, S)
      | Inr (name, db) \<Rightarrow>
          (let S = S\<lparr>qh_db := db\<rparr> in
           if name = ''active-queue''
           then (case engine_set_queue A V [] 0 None S of
                   (Inl e, S) \<Rightarrow> (Inl e, S)
                 | (Inr _, S) \<Rightarrow> (Inr q, S))
           else (Inr q, S)))"

section \<open>Saved queues\<close>

definition queue_save_handler ::
  "QueueEnv \<Rightarrow> uuid list \<Rightarrow> u32 \<Rightarrow> u64 \<Rightarrow> 's QueueHost \<Rightarrow> (uuid \<times> nat) queue_result \<times> 's QueueHost" where
  "queue_save_handler V track_ids current_index position_ms S =
     (if qe_disabled V then (Inl module_disabled, S)
      else (let (r, db) = save_queue_state V (qe_uuid V) ''saved-queue'' track_ids (sint current_index)
                            position_ms (qh_db S)
            in (and_then (map_err database_error r) (\<lambda>s. Inr (s, length track_ids)), S\<lparr>qh_db := db\<rparr>)))"

record SavedView =
  sw_found :: bool
  sw_session_id :: "uuid option"
  sw_queue_id :: "uuid option"
  sw_current_index :: int
  sw_position_ms :: u64
  sw_source :: string
  sw_items :: "(uuid \<times> int) list"

definition items_or_none :: "QueueEnv \<Rightarrow> QueueDb \<Rightarrow> uuid \<Rightarrow> (uuid \<times> int) list" where
  "items_or_none V db q = (case get_queue_items V db q of Inr xs \<Rightarrow> xs | Inl _ \<Rightarrow> [])"

definition queue_saved_handler ::
  "QueueEnv \<Rightarrow> 's QueueHost \<Rightarrow> SavedView queue_result \<times> 's QueueHost" where
  "queue_saved_handler V S =
     (if qe_disabled V then (Inl module_disabled, S)
      else case statement V ''latest session'' 0 (latest_session (qd_sessions (qh_db S))) of
        Inl e \<Rightarrow> (Inl e, S)
      | Inr (Some (s, _)) \<Rightarrow>
          (Inr \<lparr>sw_found = True, sw_session_id = Some (sess_id s), sw_queue_id = sess_queue_id s,
                sw_current_index = sess_current_index s, sw_position_ms = sess_position_ms s,
                sw_source = sess_source s,
                sw_items = (case sess_queue_id s of
                              Some q \<Rightarrow> items_or_none V (qh_db S) q | None \<Rightarrow> [])\<rparr>, S)
      | Inr None \<Rightarrow>
          (case active_or_error V S of
             (Inl e, S) \<Rightarrow> (Inl e, S)
           | (Inr q, S) \<Rightarrow>
               (let items = items_or_none V (qh_db S) q in
                (Inr \<lparr>sw_found = (items \<noteq> []), sw_session_id = None, sw_queue_id = Some q,
                      sw_current_index = 0, sw_position_ms = 0,
                      sw_source = (if items = [] then [] else ''queue''), sw_items = items\<rparr>, S))))"

end
