(* ===== verification/Playback_Routes.thy ===== *)
theory Playback_Routes
  imports Queue_Routes Receiver_Sink
begin

text \<open>
  The playback handlers of \<open>michi-api/src/routes/v1/playback.rs\<close>: state, output selection, control
  commands, seeking, sessions and their restoration, handoff. They run over the tables and the engine
  of \<open>Queue_Routes\<close>, with the receiver sinks an output selection resolves to.
\<close>

section \<open>Host and environment\<close>

text \<open>\<open>ph_sync\<close> is what was sent on the synchronization bus.\<close>

record 'm PlaybackHost =
  ph_host :: "'m ReceiverAudioSink QueueHost"
  ph_selection :: "PlaybackOutputSelection option"
  ph_sync :: "SyncMessage list"

text \<open>\<open>pv_call n\<close> is what the engine meets at its \<open>n\<close>-th call of the request.\<close>

record 'm PlaybackEnv =
  pv_queue :: QueueEnv
  pv_call :: "nat \<Rightarrow> EngineEnv"
  pv_output :: "'m OutputEnv"
  pv_session_id :: uuid

type_synonym ('a, 'm) played = "'a queue_result \<times> 'm PlaybackHost"

definition proceed :: "('a, 'm) played \<Rightarrow> ('a \<Rightarrow> 'm PlaybackHost \<Rightarrow> ('b, 'm) played) \<Rightarrow> ('b, 'm) played" where
  "proceed r f = (case r of (Inl e, H) \<Rightarrow> (Inl e, H) | (Inr x, H) \<Rightarrow> f x H)"

definition set_db :: "QueueDb \<Rightarrow> 'm PlaybackHost \<Rightarrow> 'm PlaybackHost" where
  "set_db db H = H\<lparr>ph_host := (ph_host H)\<lparr>qh_db := db\<rparr>\<rparr>"

abbreviation host_db :: "'m PlaybackHost \<Rightarrow> QueueDb" where
  "host_db H \<equiv> qh_db (ph_host H)"

abbreviation host_task :: "'m PlaybackHost \<Rightarrow> 'm ReceiverAudioSink engine_task" where
  "host_task H \<equiv> qh_engine (ph_host H)"

definition playback_error_status :: "PlaybackError \<Rightarrow> u16" where
  "playback_error_status e =
     (case e of
        NoOutputSelected \<Rightarrow> 409
      | TrackNotFound _ \<Rightarrow> 404 | OutputNotFound _ \<Rightarrow> 404
      | InvalidSeek _ \<Rightarrow> 400 | InvalidVolume _ \<Rightarrow> 400 | QueueIndexInvalid _ \<Rightarrow> 400
      | _ \<Rightarrow> 500)"

definition refused_by_kind :: "PlaybackError \<Rightarrow> QueueFailure" where
  "refused_by_kind e = queue_v1_error (playback_error_status e) (error_code e) (error_to_string e)"

text \<open>One call of the engine.\<close>

definition ask_engine ::
  "(PlaybackError \<Rightarrow> QueueFailure)
   \<Rightarrow> ('m ReceiverAudioSink engine_task \<Rightarrow> unit outcome \<times> 'm ReceiverAudioSink engine_task)
   \<Rightarrow> 'm PlaybackHost \<Rightarrow> (unit, 'm) played" where
  "ask_engine err f H =
     (let (r, task) = f (host_task H)
      in (map_err err r, H\<lparr>ph_host := (ph_host H)\<lparr>qh_engine := task\<rparr>\<rparr>))"

definition look ::
  "(PlaybackError \<Rightarrow> QueueFailure) \<Rightarrow> 'm SessionManager \<Rightarrow> EngineEnv \<Rightarrow> 'm PlaybackHost
   \<Rightarrow> (EngineSnapshot, 'm) played" where
  "look err M E H = (map_err err (handle_snapshot (receiver_sink M) E (host_task H)), H)"

definition engine_error :: "PlaybackError \<Rightarrow> QueueFailure" where
  "engine_error e = queue_v1_error 500 ''ENGINE_ERROR'' (error_to_string e)"

definition runtime_error :: "PlaybackError \<Rightarrow> QueueFailure" where
  "runtime_error e = sync_failed (error_to_string e)"

section \<open>State and output\<close>

record PlaybackView =
  vw_state :: string
  vw_playing :: bool
  vw_current_track :: "Track option"
  vw_position_ms :: u64
  vw_duration_ms :: "u64 option"
  vw_repeat :: string
  vw_snapshot :: EngineSnapshot

definition playback_state_handler ::
  "'m SessionManager \<Rightarrow> 'm PlaybackEnv \<Rightarrow> 'm PlaybackHost \<Rightarrow> (PlaybackView, 'm) played" where
  "playback_state_handler M V H =
     (if qe_disabled (pv_queue V) then (Inl module_disabled, H)
      else proceed (look engine_error M (pv_call V 0) H) (\<lambda>snap H.
        let playing = (snap_lifecycle snap = AudioFlowing \<or> snap_lifecycle snap = Playing);
            track = (case snap_track_id snap of
                       None \<Rightarrow> Inr None | Some t \<Rightarrow> qe_tracks (pv_queue V) t)
        in case track of
             Inl e \<Rightarrow> (Inl (database_error e), H)
           | Inr t \<Rightarrow>
               (Inr \<lparr>vw_state = (if playing then ''playing'' else ''paused''), vw_playing = playing,
                     vw_current_track = t,
                     vw_position_ms =
                       (if snap_lifecycle snap = Stopped \<or> snap_lifecycle snap = Ended then 0
                        else snap_position_ms snap),
                     vw_duration_ms =
                       (case snap_duration_ms snap of
                          Some d \<Rightarrow> Some d | None \<Rightarrow> Option.bind t trk_duration_ms),
                     vw_repeat = repeat_as_str (snap_repeat snap), vw_snapshot = snap\<rparr>, H)))"

definition get_playback_output_handler :: "'m PlaybackHost \<Rightarrow> PlaybackOutputSelection option" where
  "get_playback_output_handler H = ph_selection H"

definition set_playback_output_handler ::
  "'m SessionManager \<Rightarrow> 'm PlaybackEnv \<Rightarrow> PlaybackOutputSelection \<Rightarrow> 'm PlaybackHost
   \<Rightarrow> (PlaybackOutputDescription, 'm) played" where
  "set_playback_output_handler M V selection H =
     (if qe_disabled (pv_queue V) then (Inl module_disabled, H)
      else case resolve_output M selection (pv_output V) of
        Inr plan \<Rightarrow> (Inr (plan_description plan), H\<lparr>ph_selection := Some selection\<rparr>)
      | Inl e \<Rightarrow> (Inl (queue_v1_error 400 (error_code e) (error_to_string e)), H))"

text \<open>The plan of the selected output, for a track about to play.\<close>

definition selected_plan ::
  "QueueFailure \<Rightarrow> 'm SessionManager \<Rightarrow> 'm PlaybackEnv \<Rightarrow> 'm PlaybackHost
   \<Rightarrow> 'm ReceiverAudioSink ResolvedOutputPlan queue_result" where
  "selected_plan missing M V H =
     (case ph_selection H of
        None \<Rightarrow> Inl missing
      | Some selection \<Rightarrow>
          map_err (\<lambda>e. queue_v1_error 502 (error_code e) (error_to_string e))
            (resolve_output M selection (pv_output V)))"

definition play_plan ::
  "'m SessionManager \<Rightarrow> EngineEnv \<Rightarrow> Track \<Rightarrow> 'm ReceiverAudioSink ResolvedOutputPlan \<Rightarrow> u64
   \<Rightarrow> 'm PlaybackHost \<Rightarrow> (unit, 'm) played" where
  "play_plan M E track plan position_ms =
     ask_engine engine_failure
       (handle_play (receiver_sink M) E track (plan_sinks plan) (plan_description plan) position_ms
          LocalOrigin)"

section \<open>Control commands\<close>

datatype PlaybackControlValue = IntegerValue u64 | BooleanValue bool | RepeatValue RepeatMode

record PlaybackControlBody =
  cb_command :: string
  cb_track_id :: "uuid option"
  cb_position_ms :: "u64 option"
  cb_volume :: "u32 option"
  cb_value :: "PlaybackControlValue option"

datatype ControlAnswer =
    LifecycleAccepted string
  | Accepted
  | PositionAccepted u64
  | VolumeAccepted u8
  | ShuffleAccepted bool
  | RepeatAccepted string

definition valid_commands :: "string list" where
  "valid_commands =
     [''play'', ''pause'', ''resume'', ''toggle'', ''stop'', ''next'', ''previous'', ''seek'',
      ''set_volume'', ''mute'', ''unmute'', ''shuffle'', ''repeat'']"

definition invalid_request :: "string \<Rightarrow> QueueFailure" where
  "invalid_request = queue_v1_error 400 ''INVALID_REQUEST''"

text \<open>\<open>SELECT track_id ... ORDER BY position LIMIT 1\<close>.\<close>

definition first_queue_track :: "QueueEnv \<Rightarrow> uuid \<Rightarrow> QueueDb \<Rightarrow> uuid option queue_result" where
  "first_queue_track V q db =
     and_then (statement V ''first item'' 0 (items_of db q)) (\<lambda>items.
       case items of
         [] \<Rightarrow> Inr None
       | i # _ \<Rightarrow>
           (case qe_parse_uuid V (qi_track_id i) of
              Inr t \<Rightarrow> Inr (Some t)
            | Inl e \<Rightarrow> Inl (queue_v1_error 500 ''DATABASE_INVARIANT_VIOLATION''
                (''invalid persisted queue track UUID '' @ [CHR 39] @ qi_track_id i @ [CHR 39] @ '': ''
                 @ e))))"

definition resume_paused_failure :: "PlaybackError \<Rightarrow> QueueFailure" where
  "resume_paused_failure e =
     queue_v1_error (if e = NoOutputSelected then 409 else 500) (error_code e) (error_to_string e)"

definition no_output_selected :: QueueFailure where
  "no_output_selected =
     queue_v1_error 409 ''NO_OUTPUT_SELECTED''
       ''no playback output target selected; select an output first''"

definition engine_resume :: "(PlaybackError \<Rightarrow> QueueFailure) \<Rightarrow> 'm SessionManager \<Rightarrow> EngineEnv
   \<Rightarrow> 'm PlaybackHost \<Rightarrow> (ControlAnswer, 'm) played" where
  "engine_resume err M E H =
     proceed (ask_engine err (handle_resume (receiver_sink M) E LocalOrigin) H)
       (\<lambda>_ H. (Inr (LifecycleAccepted ''preparing''), H))"

definition control_play ::
  "'m SessionManager \<Rightarrow> 'm PlaybackEnv \<Rightarrow> uuid option \<Rightarrow> u64 option \<Rightarrow> 'm PlaybackHost
   \<Rightarrow> (ControlAnswer, 'm) played" where
  "control_play M V track_id position_ms H =
     proceed (look engine_error M (pv_call V 0) H) (\<lambda>snap H.
       if track_id = None \<and> snap_lifecycle snap = Paused
       then engine_resume resume_paused_failure M (pv_call V 1) H
       else
         (let (r, db) = get_or_create_active_queue (pv_queue V) (host_db H) in
          proceed (map_err database_error r, set_db db H) (\<lambda>q H.
          proceed (first_queue_track (pv_queue V) q (host_db H), H) (\<lambda>first H.
            case (case track_id of Some t \<Rightarrow> Some t | None \<Rightarrow> first) of
              None \<Rightarrow> (Inl (invalid_request ''no track_id specified and queue is empty''), H)
            | Some t \<Rightarrow>
                proceed (validate_and_load_tracks (pv_queue V) [t], H) (\<lambda>tracks H.
                proceed (selected_plan no_output_selected M V H, H) (\<lambda>plan H.
                proceed (play_plan M (pv_call V 1) (hd tracks) plan
                           (case position_ms of Some p \<Rightarrow> p | None \<Rightarrow> 0) H)
                  (\<lambda>_ H. (Inr (LifecycleAccepted ''preparing''), H))))))))"

definition control_toggle ::
  "'m SessionManager \<Rightarrow> 'm PlaybackEnv \<Rightarrow> 'm PlaybackHost \<Rightarrow> (ControlAnswer, 'm) played" where
  "control_toggle M V H =
     proceed (look engine_error M (pv_call V 0) H) (\<lambda>snap H.
       if snapshot_is_playing snap
       then proceed (ask_engine refused_by_kind (handle_pause (receiver_sink M) (pv_call V 1) LocalOrigin) H)
              (\<lambda>_ H. (Inr (LifecycleAccepted ''paused''), H))
       else engine_resume refused_by_kind M (pv_call V 1) H)"

definition engine_volume ::
  "'m SessionManager \<Rightarrow> EngineEnv \<Rightarrow> u8 \<Rightarrow> 'm PlaybackHost \<Rightarrow> (ControlAnswer, 'm) played" where
  "engine_volume M E v H =
     proceed (ask_engine engine_failure (handle_set_volume (receiver_sink M) E v LocalOrigin) H)
       (\<lambda>_ H. (Inr (VolumeAccepted v), H))"

text \<open>The casts: an integer value to \<open>u32\<close> first, the comparison, then to \<open>u8\<close>.\<close>

definition control_volume ::
  "'m SessionManager \<Rightarrow> EngineEnv \<Rightarrow> u32 option \<Rightarrow> PlaybackControlValue option \<Rightarrow> 'm PlaybackHost
   \<Rightarrow> (ControlAnswer, 'm) played" where
  "control_volume M E vol val H =
     (let requested = (case vol of Some v \<Rightarrow> Some v
                       | None \<Rightarrow> (case val of Some (IntegerValue v) \<Rightarrow> Some (ucast v) | _ \<Rightarrow> None))
      in case requested of
           Some v \<Rightarrow>
             if v > 100 then (Inl (invalid_request ''volume must be between 0 and 100''), H)
             else engine_volume M E (ucast v) H
         | None \<Rightarrow> engine_volume M E 80 H)"

definition control_seek ::
  "'m SessionManager \<Rightarrow> EngineEnv \<Rightarrow> u64 option \<Rightarrow> PlaybackControlValue option \<Rightarrow> 'm PlaybackHost
   \<Rightarrow> (ControlAnswer, 'm) played" where
  "control_seek M E position_ms val H =
     (case (case position_ms of Some p \<Rightarrow> Some p
            | None \<Rightarrow> (case val of Some (IntegerValue ms) \<Rightarrow> Some ms | _ \<Rightarrow> None)) of
        None \<Rightarrow> (Inl (invalid_request ''position_ms or integer value is required for seek''), H)
      | Some p \<Rightarrow>
          proceed (ask_engine engine_failure (handle_seek (receiver_sink M) E p LocalOrigin) H)
            (\<lambda>_ H. (Inr (PositionAccepted p), H)))"

definition requested_repeat :: "PlaybackControlValue option \<Rightarrow> RepeatMode" where
  "requested_repeat val =
     (case val of Some (RepeatValue RepeatOne) \<Rightarrow> RepeatOne
                | Some (RepeatValue RepeatAll) \<Rightarrow> RepeatAll
                | _ \<Rightarrow> RepeatOff)"

definition playback_control_handler ::
  "'m SessionManager \<Rightarrow> 'm PlaybackEnv \<Rightarrow> PlaybackControlBody \<Rightarrow> 'm PlaybackHost
   \<Rightarrow> (ControlAnswer, 'm) played" where
  "playback_control_handler M V body H =
     (let cmd = cb_command body; A = receiver_sink M; E = pv_call V 0 in
      if qe_disabled (pv_queue V) then (Inl module_disabled, H)
      else if cmd \<notin> set valid_commands
      then (Inl (invalid_request (''unknown playback command '' @ [CHR 39] @ cmd @ [CHR 39])), H)
      else if cmd = ''resume'' then engine_resume refused_by_kind M E H
      else if cmd = ''play'' then control_play M V (cb_track_id body) (cb_position_ms body) H
      else if cmd = ''pause''
      then proceed (ask_engine engine_failure (handle_pause A E LocalOrigin) H)
             (\<lambda>_ H. (Inr (LifecycleAccepted ''paused''), H))
      else if cmd = ''toggle'' then control_toggle M V H
      else if cmd = ''stop''
      then proceed (ask_engine refused_by_kind (handle_stop A E LocalOrigin) H)
             (\<lambda>_ H. (Inr (LifecycleAccepted ''stopped''), H))
      else if cmd = ''seek'' then control_seek M E (cb_position_ms body) (cb_value body) H
      else if cmd = ''next''
      then proceed (ask_engine engine_failure (handle_next A E) H) (\<lambda>_ H. (Inr Accepted, H))
      else if cmd = ''previous''
      then proceed (ask_engine engine_failure (handle_previous A E) H) (\<lambda>_ H. (Inr Accepted, H))
      else if cmd = ''set_volume'' then control_volume M E (cb_volume body) (cb_value body) H
      else if cmd = ''mute'' then engine_volume M E 0 H
      else if cmd = ''unmute'' then engine_volume M E 80 H
      else if cmd = ''shuffle''
      then (let b = (case cb_value body of Some (BooleanValue b) \<Rightarrow> b | _ \<Rightarrow> True)
            in proceed (ask_engine engine_failure (handle_set_shuffle A E b) H)
                 (\<lambda>_ H. (Inr (ShuffleAccepted b), H)))
      else (let r = requested_repeat (cb_value body)
            in proceed (ask_engine engine_failure (handle_set_repeat A E r) H)
                 (\<lambda>_ H. (Inr (RepeatAccepted (repeat_as_str r)), H))))"

definition playback_seek_handler ::
  "'m SessionManager \<Rightarrow> 'm PlaybackEnv \<Rightarrow> u64 \<Rightarrow> 'm PlaybackHost \<Rightarrow> (u64, 'm) played" where
  "playback_seek_handler M V position_ms H =
     (if qe_disabled (pv_queue V) then (Inl module_disabled, H)
      else proceed (ask_engine engine_failure
                      (handle_seek (receiver_sink M) (pv_call V 0) position_ms LocalOrigin) H)
             (\<lambda>_ H. (Inr position_ms, H)))"

end
