(* ===== verification/Playback_Restore.thy ===== *)
theory Playback_Restore
  imports Playback_Routes
begin

text \<open>
  Playback sessions of \<open>michi-api/src/routes/v1/playback.rs\<close>: storing one and loading it into the
  engine, reading it, restoring the latest on request and at the start of the server, and handoff.
\<close>

section \<open>Statements\<close>

definition create_playback_session ::
  "QueueEnv \<Rightarrow> PlaybackSessionDb \<Rightarrow> QueueDb \<Rightarrow> string + QueueDb" where
  "create_playback_session V s db =
     and_then (run_statement V ''create session'' 0) (\<lambda>_.
       if list_ex (\<lambda>(r, _). sess_id r = sess_id s) (qd_sessions db)
       then Inl ''UNIQUE constraint failed''
       else Inr (db\<lparr>qd_sessions := qd_sessions db @ [(s, qe_now V)]\<rparr>))"

definition get_playback_session :: "QueueEnv \<Rightarrow> uuid \<Rightarrow> QueueDb \<Rightarrow> string + PlaybackSessionDb option" where
  "get_playback_session V i db =
     and_then (run_statement V ''get session'' 0)
       (\<lambda>_. Inr (map_option fst (List.find (\<lambda>(r, _). sess_id r = i) (qd_sessions db))))"

definition get_latest_playback_session :: "QueueEnv \<Rightarrow> QueueDb \<Rightarrow> string + PlaybackSessionDb option" where
  "get_latest_playback_session V db =
     and_then (run_statement V ''latest session'' 0)
       (\<lambda>_. Inr (map_option fst (latest_session (qd_sessions db))))"

text \<open>Every column but the device is written.\<close>

definition update_session :: "QueueEnv \<Rightarrow> PlaybackSessionDb \<Rightarrow> QueueDb \<Rightarrow> string + QueueDb" where
  "update_session V s db =
     and_then (run_statement V ''update session'' 0) (\<lambda>_.
       Inr (db\<lparr>qd_sessions := map (\<lambda>(r, u). if sess_id r = sess_id s
              then (s\<lparr>sess_device_id := sess_device_id r\<rparr>, qe_now V) else (r, u)) (qd_sessions db)\<rparr>))"

section \<open>Creating a session\<close>

record PlaybackSessionBody =
  sb_queue :: "uuid list"
  sb_current_track_id :: "uuid option"
  sb_position_ms :: u64
  sb_playing :: bool
  sb_volume :: "rat option"
  sb_source :: "string option"
  sb_resume_policy :: "string option"
  sb_device_id :: "string option"
  sb_repeat_mode :: "string option"
  sb_shuffle :: "bool option"

definition parse_repeat :: "string option \<Rightarrow> RepeatMode queue_result" where
  "parse_repeat r =
     (case r of
        None \<Rightarrow> Inr RepeatOff
      | Some s \<Rightarrow>
          (let t = to_lowercase s in
           if t = ''off'' then Inr RepeatOff
           else if t = ''all'' then Inr RepeatAll
           else if t = ''one'' \<or> t = ''track'' then Inr RepeatOne
           else Inl (queue_v1_error 400 ''INVALID_REPEAT_MODE''
                  (''repeat_mode must be '' @ [CHR 39] @ ''off'' @ [CHR 39] @ '', '' @ [CHR 39] @ ''all''
                   @ [CHR 39] @ '', or '' @ [CHR 39] @ ''one'' @ [CHR 39]))))"

definition current_in_queue :: "uuid option \<Rightarrow> Track list \<Rightarrow> (uuid option \<times> nat) queue_result" where
  "current_in_queue cur tracks =
     (case cur of
        Some t \<Rightarrow>
          (case position (\<lambda>x. trk_id x = t) tracks of
             Some i \<Rightarrow> Inr (Some t, i)
           | None \<Rightarrow> Inl (queue_v1_error 400 ''CURRENT_TRACK_NOT_IN_QUEUE''
                            ''current_track_id must belong to the submitted queue''))
      | None \<Rightarrow> (case tracks of first # _ \<Rightarrow> Inr (Some (trk_id first), 0) | [] \<Rightarrow> Inr (None, 0)))"

definition output_required :: "string \<Rightarrow> QueueFailure" where
  "output_required msg = queue_v1_error 409 ''OUTPUT_REQUIRED'' msg"

definition planned_output ::
  "'m SessionManager \<Rightarrow> 'm PlaybackEnv \<Rightarrow> bool \<Rightarrow> Track list \<Rightarrow> nat \<Rightarrow> 'm PlaybackHost
   \<Rightarrow> 'm ReceiverAudioSink ResolvedOutputPlan option queue_result" where
  "planned_output M V playing tracks i H =
     (if \<not> playing then Inr None
      else and_then (selected_plan (output_required
               ''explicit output target selection required when playing is true'') M V H) (\<lambda>plan.
        if nth_opt tracks i = None
        then Inl (queue_v1_error 400 ''NO_TRACK_SELECTED'' ''no current track selected in queue'')
        else Inr (Some plan)))"

definition nil_uuid :: uuid where
  "nil_uuid = ''00000000-0000-0000-0000-000000000000''"

definition parse_device :: "QueueEnv \<Rightarrow> string option \<Rightarrow> uuid queue_result" where
  "parse_device V d =
     (case d of
        None \<Rightarrow> Inr nil_uuid
      | Some s \<Rightarrow>
          if trim s = [] then Inr nil_uuid
          else case qe_parse_uuid V s of
            Inr u \<Rightarrow> Inr u
          | Inl _ \<Rightarrow> Inl (queue_v1_error 400 ''INVALID_DEVICE_ID''
                (''device_id must be a valid UUID, got '' @ [CHR 39] @ s @ [CHR 39])))"

definition session_row ::
  "'m PlaybackEnv \<Rightarrow> PlaybackSessionBody \<Rightarrow> uuid \<Rightarrow> uuid \<Rightarrow> uuid option \<Rightarrow> nat \<Rightarrow> RepeatMode
   \<Rightarrow> PlaybackSessionDb" where
  "session_row V b device q cur i rep =
     \<lparr>sess_id = pv_session_id V, sess_device_id = device, sess_queue_id = Some q,
      sess_queue_state_json = qe_ids_text (pv_queue V) (sb_queue b),
      sess_current_index = sint (of_nat i :: u32), sess_current_track_id = cur,
      sess_position_ms = sb_position_ms b, sess_playing = False,
      sess_repeat_mode = repeat_as_str rep,
      sess_shuffle = (case sb_shuffle b of Some s \<Rightarrow> s | None \<Rightarrow> False),
      sess_volume = (case sb_volume b of Some v \<Rightarrow> v | None \<Rightarrow> 4 / 5),
      sess_source = (case sb_source b of Some s \<Rightarrow> s | None \<Rightarrow> ''player''),
      sess_resume_policy = (case sb_resume_policy b of Some s \<Rightarrow> s | None \<Rightarrow> ''manual''),
      sess_restored = False\<rparr>"

text \<open>\<open>(volume * 100.0) as u8\<close> of a volume between 0 and 1.\<close>

definition percent_floor :: "rat \<Rightarrow> u8" where
  "percent_floor v = word_of_int (\<lfloor>v * 100\<rfloor>)"

record SessionCreated =
  sc_session_id :: uuid
  sc_queue_id :: uuid
  sc_playing :: bool

text \<open>The engine calls of a new session, after its row is stored.\<close>

definition load_session ::
  "'m SessionManager \<Rightarrow> 'm PlaybackEnv \<Rightarrow> PlaybackSessionBody \<Rightarrow> Track list \<Rightarrow> uuid option \<Rightarrow> nat
   \<Rightarrow> RepeatMode \<Rightarrow> 'm ReceiverAudioSink ResolvedOutputPlan option \<Rightarrow> 'm PlaybackHost
   \<Rightarrow> (EngineSnapshot, 'm) played" where
  "load_session M V b tracks cur i rep plan H =
     (let A = receiver_sink M; E = pv_call V in
      proceed (ask_engine runtime_error (handle_set_queue A (E 0) tracks i cur) H) (\<lambda>_ H.
      proceed (ask_engine engine_failure (handle_set_repeat A (E 1) rep) H) (\<lambda>_ H.
      proceed (case sb_shuffle b of
                 Some s \<Rightarrow> ask_engine engine_failure (handle_set_shuffle A (E 2) s) H
               | None \<Rightarrow> (Inr (), H)) (\<lambda>_ H.
      proceed (ask_engine engine_failure
                 (handle_set_volume A (E 3)
                    (percent_floor (case sb_volume b of Some v \<Rightarrow> v | None \<Rightarrow> 4 / 5)) LocalOrigin) H)
        (\<lambda>_ H.
      proceed (case plan of
                 Some p \<Rightarrow> play_plan M (E 4) (tracks ! i) p (sb_position_ms b) H
               | None \<Rightarrow>
                   (case nth_opt tracks i of
                      Some t \<Rightarrow> ask_engine engine_failure
                                  (handle_load_track A (E 4) t (sb_position_ms b) LocalOrigin) H
                    | None \<Rightarrow> (Inr (), H))) (\<lambda>_ H.
      look engine_error M (E 5) H))))))"

definition playback_session_handler ::
  "'m SessionManager \<Rightarrow> 'm PlaybackEnv \<Rightarrow> PlaybackSessionBody \<Rightarrow> 'm PlaybackHost
   \<Rightarrow> (SessionCreated, 'm) played" where
  "playback_session_handler M V b H =
     (let Q = pv_queue V in
      if qe_disabled Q then (Inl module_disabled, H)
      else if (case sb_volume b of Some v \<Rightarrow> \<not> (0 \<le> v \<and> v \<le> 1) | None \<Rightarrow> False)
      then (Inl (queue_v1_error 400 ''INVALID_VOLUME''
                   ''volume must be a finite number between 0.0 and 1.0''), H)
      else
      proceed (parse_repeat (sb_repeat_mode b), H) (\<lambda>rep H.
      proceed (validate_and_load_tracks Q (sb_queue b), H) (\<lambda>tracks H.
      proceed (current_in_queue (sb_current_track_id b) tracks, H) (\<lambda>(cur, i) H.
      proceed (planned_output M V (sb_playing b) tracks i H, H) (\<lambda>plan H.
      let (r, db) = get_or_create_active_queue Q (host_db H) in
      proceed (map_err database_error r, set_db db H) (\<lambda>q H.
      case replace_items_tx Q q (sb_queue b) (host_db H) of
        Inl e \<Rightarrow> (Inl e, H)
      | Inr db \<Rightarrow>
      proceed (parse_device Q (sb_device_id b), set_db db H) (\<lambda>device H.
      case create_playback_session Q (session_row V b device q cur i rep) (host_db H) of
        Inl e \<Rightarrow> (Inl (queue_v1_error 500 ''INTERNAL_ERROR'' e), H)
      | Inr db \<Rightarrow>
      proceed (load_session M V b tracks cur i rep plan (set_db db H)) (\<lambda>snap H.
      (Inr \<lparr>sc_session_id = pv_session_id V, sc_queue_id = q,
            sc_playing = snapshot_is_playing snap\<rparr>, H)))))))))"

record SessionView =
  sv_session :: PlaybackSessionDb
  sv_items :: "(uuid \<times> int) list"

definition get_playback_session_handler ::
  "'m PlaybackEnv \<Rightarrow> uuid \<Rightarrow> 'm PlaybackHost \<Rightarrow> SessionView queue_result" where
  "get_playback_session_handler V i H =
     (case get_playback_session (pv_queue V) i (host_db H) of
        Inl e \<Rightarrow> Inl (queue_v1_error 500 ''INTERNAL_ERROR'' e)
      | Inr None \<Rightarrow>
          Inl (queue_v1_error 404 ''NOT_FOUND'' (''playback session '' @ i @ '' not found''))
      | Inr (Some s) \<Rightarrow>
          (case sess_queue_id s of
             None \<Rightarrow> Inr \<lparr>sv_session = s, sv_items = []\<rparr>
           | Some q \<Rightarrow>
               (case get_queue_items (pv_queue V) (host_db H) q of
                  Inl e \<Rightarrow> Inl (database_error e)
                | Inr items \<Rightarrow> Inr \<lparr>sv_session = s, sv_items = items\<rparr>)))"

section \<open>Restoring\<close>

datatype RestoreError =
    CurrentTrackMissing uuid
  | InvalidCurrentIndex int nat
  | EmptyQueue

fun restore_error_text :: "RestoreError \<Rightarrow> string" where
  "restore_error_text (CurrentTrackMissing t) =
     ''persisted current track '' @ t @ '' is missing from validated queue''"
| "restore_error_text (InvalidCurrentIndex i n) =
     ''persisted current index '' @ (if i < 0 then ''-'' else []) @ show_nat (nat \<bar>i\<bar>)
     @ '' is out of bounds for queue length '' @ show_nat n"
| "restore_error_text EmptyQueue = ''no tracks available in restored queue''"

definition resolve_restore_index :: "Track list \<Rightarrow> uuid option \<Rightarrow> int \<Rightarrow> RestoreError + nat" where
  "resolve_restore_index tracks cur persisted_index =
     (if tracks = [] then Inl EmptyQueue
      else case cur of
        Some t \<Rightarrow>
          (case position (\<lambda>x. trk_id x = t) tracks of
             Some i \<Rightarrow> Inr i | None \<Rightarrow> Inl (CurrentTrackMissing t))
      | None \<Rightarrow>
          if persisted_index < 0 \<or> length tracks \<le> nat persisted_index
          then Inl (InvalidCurrentIndex persisted_index (length tracks))
          else Inr (nat persisted_index))"

text \<open>The \<open>n\<close>-th run of the same statements in a request.\<close>

definition again :: "nat \<Rightarrow> QueueEnv \<Rightarrow> QueueEnv" where
  "again n V = V\<lparr>qe_fail := (\<lambda>l i. qe_fail V l (i + n))\<rparr>"

text \<open>The tracks of a queue, or none when a statement or the check of a track fails.\<close>

definition tracks_of_queue :: "QueueEnv \<Rightarrow> QueueDb \<Rightarrow> uuid \<Rightarrow> Track list" where
  "tracks_of_queue V db q =
     (case get_queue_items V db q of
        Inl _ \<Rightarrow> []
      | Inr items \<Rightarrow>
          (case validate_and_load_tracks V (map fst items) of Inl _ \<Rightarrow> [] | Inr tracks \<Rightarrow> tracks))"

definition restored_tracks :: "QueueEnv \<Rightarrow> PlaybackSessionDb \<Rightarrow> QueueDb \<Rightarrow> Track list \<times> QueueDb" where
  "restored_tracks V s db =
     (let own = (case sess_queue_id s of Some q \<Rightarrow> tracks_of_queue V db q | None \<Rightarrow> []) in
      if own \<noteq> [] then (own, db)
      else
        (let (r, db) = get_or_create_active_queue V db;
             active = (case r of Inl _ \<Rightarrow> [] | Inr q \<Rightarrow> tracks_of_queue (again 1 V) db q)
         in if active \<noteq> [] then (active, db)
            else (case sess_current_track_id s of
                    None \<Rightarrow> []
                  | Some t \<Rightarrow> (case validate_and_load_tracks V [t] of Inl _ \<Rightarrow> [] | Inr ts \<Rightarrow> ts), db)))"

text \<open>\<open>(volume * 100.0).round().clamp(0.0, 100.0) as u8\<close>: halves are rounded away from zero.\<close>

definition percent_round :: "rat \<Rightarrow> u8" where
  "percent_round v = word_of_int (max 0 (min 100 (\<lfloor>v * 100 + 1 / 2\<rfloor>)))"

definition stored_repeat :: "string \<Rightarrow> RepeatMode" where
  "stored_repeat s = (if s = ''one'' then RepeatOne else if s = ''all'' then RepeatAll else RepeatOff)"

definition restore_position :: "Track \<Rightarrow> u64 \<Rightarrow> u64" where
  "restore_position t p = (case trk_duration_ms t of Some d \<Rightarrow> min p d | None \<Rightarrow> p)"

record RestoreAnswer =
  ra_session_id :: uuid
  ra_track_id :: "uuid option"
  ra_position_ms :: u64
  ra_volume :: u8
  ra_shuffle :: bool
  ra_repeat :: string
  ra_resume_policy :: string

definition restore_engine ::
  "'m SessionManager \<Rightarrow> 'm PlaybackEnv \<Rightarrow> PlaybackSessionDb \<Rightarrow> Track list \<Rightarrow> nat \<Rightarrow> 'm PlaybackHost
   \<Rightarrow> (u64, 'm) played" where
  "restore_engine M V s tracks i H =
     (let A = receiver_sink M; E = pv_call V in
      proceed (ask_engine runtime_error
                 (handle_set_queue A (E 0) tracks i (sess_current_track_id s)) H) (\<lambda>_ H.
      proceed (ask_engine engine_failure
                 (handle_set_volume A (E 1) (percent_round (sess_volume s)) LocalOrigin) H) (\<lambda>_ H.
      proceed (ask_engine engine_failure (handle_set_shuffle A (E 2) (sess_shuffle s)) H) (\<lambda>_ H.
      proceed (ask_engine engine_failure
                 (handle_set_repeat A (E 3) (stored_repeat (sess_repeat_mode s))) H) (\<lambda>_ H.
      case nth_opt tracks i of
        None \<Rightarrow> (Inr (sess_position_ms s), H)
      | Some t \<Rightarrow>
          (let p = restore_position t (sess_position_ms s) in
           proceed (ask_engine engine_failure (handle_load_track A (E 4) t p LocalOrigin) H)
             (\<lambda>_ H. (Inr p, H))))))))"

definition restore_playback_state_handler ::
  "'m SessionManager \<Rightarrow> 'm PlaybackEnv \<Rightarrow> 'm PlaybackHost \<Rightarrow> (RestoreAnswer option, 'm) played" where
  "restore_playback_state_handler M V H =
     (let Q = pv_queue V in
      if qe_disabled Q then (Inl module_disabled, H)
      else case get_latest_playback_session Q (host_db H) of
        Inl e \<Rightarrow> (Inl (queue_v1_error 500 ''INTERNAL_ERROR'' e), H)
      | Inr None \<Rightarrow> (Inr None, H)
      | Inr (Some s) \<Rightarrow>
          (let (tracks, db) = restored_tracks Q s (host_db H); H = set_db db H in
           case resolve_restore_index tracks (sess_current_track_id s) (sess_current_index s) of
             Inl e \<Rightarrow>
               (Inl (queue_v1_error 422 ''INVALID_RESTORE_STATE'' (restore_error_text e)), H)
           | Inr i \<Rightarrow>
               proceed (restore_engine M V s tracks i H) (\<lambda>p H.
               proceed (look engine_error M (pv_call V 5) H) (\<lambda>snap H.
               case update_session Q (s\<lparr>sess_restored := True\<rparr>) (host_db H) of
                 Inl e \<Rightarrow> (Inl (database_error (''failed to update restored flag: '' @ e)), H)
               | Inr db \<Rightarrow>
                   (Inr (Some \<lparr>ra_session_id = sess_id s, ra_track_id = snap_track_id snap,
                      ra_position_ms = p, ra_volume = snap_volume snap, ra_shuffle = snap_shuffle snap,
                      ra_repeat = repeat_as_str (snap_repeat snap),
                      ra_resume_policy = sess_resume_policy s\<rparr>), set_db db H)))))"

text \<open>
  The task of the start: only the session's own queue, and only a failed queue or track stops it.
  \<open>cancelled\<close>: the server shuts down before the session is read.
\<close>

definition ignoring ::
  "('m ReceiverAudioSink engine_task \<Rightarrow> unit outcome \<times> 'm ReceiverAudioSink engine_task)
   \<Rightarrow> 'm PlaybackHost \<Rightarrow> 'm PlaybackHost" where
  "ignoring f H = snd (ask_engine engine_failure f H)"

definition auto_restore_playback_state ::
  "'m SessionManager \<Rightarrow> 'm PlaybackEnv \<Rightarrow> bool \<Rightarrow> 'm PlaybackHost \<Rightarrow> 'm PlaybackHost" where
  "auto_restore_playback_state M V cancelled H =
     (let Q = pv_queue V; A = receiver_sink M; E = pv_call V in
      if cancelled then H
      else case get_latest_playback_session Q (host_db H) of
        Inr (Some s) \<Rightarrow>
          (case sess_queue_id s of
             None \<Rightarrow> H
           | Some q \<Rightarrow>
          (case get_queue_items Q (host_db H) q of
             Inl _ \<Rightarrow> H
           | Inr items \<Rightarrow>
          (case validate_and_load_tracks Q (map fst items) of
             Inl _ \<Rightarrow> H
           | Inr tracks \<Rightarrow>
          (case resolve_restore_index tracks (sess_current_track_id s) (sess_current_index s) of
             Inl _ \<Rightarrow> H
           | Inr i \<Rightarrow>
          (case ask_engine runtime_error
                  (handle_set_queue A (E 0) tracks i (sess_current_track_id s)) H of
             (Inl _, H) \<Rightarrow> H
           | (Inr _, H) \<Rightarrow>
               (let H = ignoring (handle_set_volume A (E 1) (percent_round (sess_volume s)) LocalOrigin) H;
                    H = ignoring (handle_set_shuffle A (E 2) (sess_shuffle s)) H;
                    H = ignoring (handle_set_repeat A (E 3) (stored_repeat (sess_repeat_mode s))) H
                in case (case nth_opt tracks i of
                           None \<Rightarrow> (Inr (), H)
                         | Some t \<Rightarrow> ask_engine engine_failure
                             (handle_load_track A (E 4) t (restore_position t (sess_position_ms s))
                                LocalOrigin) H) of
                     (Inl _, H) \<Rightarrow> H
                   | (Inr _, H) \<Rightarrow>
                       (case update_session Q (s\<lparr>sess_restored := True\<rparr>) (host_db H) of
                          Inl _ \<Rightarrow> H | Inr db \<Rightarrow> set_db db H)))))))
      | _ \<Rightarrow> H)"

section \<open>Handoff\<close>

record HandoffBody =
  hb_track_id :: uuid
  hb_position_ms :: u64
  hb_playing :: bool
  hb_volume :: "rat option"
  hb_from_device :: "string option"

definition handoff_handler ::
  "'m SessionManager \<Rightarrow> 'm PlaybackEnv \<Rightarrow> HandoffBody \<Rightarrow> 'm PlaybackHost \<Rightarrow> (u64 \<times> bool, 'm) played"
where
  "handoff_handler M V b H =
     (let Q = pv_queue V; A = receiver_sink M; E = pv_call V in
      if qe_disabled Q then (Inl module_disabled, H)
      else case get_track (qe_engine Q) (qe_tracks Q) (qe_music_paths Q) (hb_track_id b) of
        Inl e \<Rightarrow> (Inl (queue_v1_error 404 (error_code e) (error_to_string e)), H)
      | Inr track \<Rightarrow>
          proceed (case hb_volume b of
                     Some v \<Rightarrow> ask_engine engine_failure
                                 (handle_set_volume A (E 0) (percent_round v) LocalOrigin) H
                   | None \<Rightarrow> (Inr (), H)) (\<lambda>_ H.
          proceed (if hb_playing b
                   then proceed (selected_plan (output_required
                            ''Cannot handoff playing state without a selected output target'') M V H, H)
                          (\<lambda>plan H. play_plan M (E 1) track plan (hb_position_ms b) H)
                   else ask_engine engine_failure
                          (handle_load_track A (E 1) track (hb_position_ms b) LocalOrigin) H) (\<lambda>_ H.
          proceed (look engine_error M (E 2) H) (\<lambda>snap H.
          (Inr (snap_position_ms snap, snapshot_is_playing snap),
           H\<lparr>ph_sync := ph_sync H @ [HandoffRequest
                (case hb_from_device b of Some d \<Rightarrow> d | None \<Rightarrow> ''unknown'') ''server'']\<rparr>)))))"

end
