(* ===== verification/Queue_Theorems.thy ===== *)
theory Queue_Theorems
  imports Queue_Routes Engine_Theorems
begin

text \<open>
  Facts on the statements, transactions and engine calls of the queue routes: what an insertion, a
  replacement, a reordering, a deletion does to the items and to the active queue, and that the
  engine's queue after a load is the one that was loaded.
\<close>

section \<open>Results\<close>

lemma and_then_Inr_iff: "and_then r f = Inr y \<longleftrightarrow> (\<exists>x. r = Inr x \<and> f x = Inr y)"
  by (cases r) (simp_all add: and_then_def)

lemma and_then_simps [simp]:
  "and_then (Inl e) f = Inl e" "and_then (Inr x) f = f x"
  by (simp_all add: and_then_def)

lemma map_err_simps [simp]: "map_err g (Inl e) = Inl (g e)" "map_err g (Inr x) = Inr x"
  by (simp_all add: map_err_def)

lemma map_err_Inr_iff: "map_err g r = Inr x \<longleftrightarrow> r = Inr x"
  by (cases r) simp_all

lemma statement_Inr_iff: "statement V l i x = Inr y \<longleftrightarrow> qe_fail V l i = None \<and> y = x"
  by (auto simp: statement_def run_statement_def split: option.splits)

lemmas tx_simps = and_then_Inr_iff map_err_Inr_iff statement_Inr_iff

section \<open>Tables\<close>

lemma latest_row_map:
  assumes "\<And>r. qr_created_at (f r) = qr_created_at r"
  shows "latest_row (map f rs) = map_option f (latest_row rs)"
  by (induction rs) (auto simp: assms split: option.splits)

lemma latest_row_in: "latest_row rs = Some r \<Longrightarrow> r \<in> set rs"
  by (induction rs arbitrary: r) (auto split: option.splits if_splits)

lemma latest_row_None [simp]: "latest_row rs = None \<longleftrightarrow> rs = []"
  by (cases rs) (auto split: option.splits)

abbreviation active_rows :: "QueueDb \<Rightarrow> QueueRow list" where
  "active_rows db \<equiv> filter (\<lambda>r. qr_name r = ''active-queue'') (qd_queues db)"

lemma filter_map_row:
  assumes "\<And>r. P (f r) = P r" shows "filter P (map f rs) = map f (filter P rs)"
  using assms by (induction rs) auto

lemma active_row_touch [simp]:
  "active_row (touch_queue q now db) =
     map_option (\<lambda>r. if qr_id r = q then r\<lparr>qr_updated_at := now\<rparr> else r) (active_row db)"
  unfolding active_row_def touch_queue_def
  by (simp add: filter_map_row latest_row_map)

lemma table_frame [simp]:
  "qd_queues (add_item i q t p now db) = qd_queues db"
  "qd_queues (clear_items q db) = qd_queues db"
  "qd_queues (set_position q i p db) = qd_queues db"
  "qd_items (new_queue q nm now db) = qd_items db"
  "qd_items (touch_queue q now db) = qd_items db"
  "qd_items (drop_queue q db) = qd_items db"
  "qd_queues (db\<lparr>qd_items := is\<rparr>) = qd_queues db"
  by (simp_all add: add_item_def clear_items_def set_position_def new_queue_def touch_queue_def
      drop_queue_def)

lemma active_row_frame [simp]:
  "active_row (add_item i q t p now db) = active_row db"
  "active_row (clear_items q db) = active_row db"
  "active_row (set_position q i p db) = active_row db"
  by (simp_all add: active_row_def)

lemma insert_items_queues: "insert_items V n q p ts db = Inr db' \<Longrightarrow> qd_queues db' = qd_queues db"
  by (induction V n q p ts db arbitrary: db' rule: insert_items.induct) (auto simp: tx_simps)

lemma reposition_queues: "reposition V n q is db = Inr db' \<Longrightarrow> qd_queues db' = qd_queues db"
  by (induction V n q "is" db arbitrary: db' rule: reposition.induct)
     (auto simp: tx_simps split: if_splits)


section \<open>The items of a queue\<close>

lemma items_of_frame [simp]:
  "items_of (touch_queue q' now db) q = items_of db q"
  "items_of (new_queue i nm now db) q = items_of db q"
  "items_of (drop_queue q' db) q = items_of db q"
  "items_of (db\<lparr>qd_sessions := ss\<rparr>) q = items_of db q"
  "q' \<noteq> q \<Longrightarrow> items_of (add_item i q' t p now db) q = items_of db q"
  "items_of (clear_items q db) q = []"
  by (simp_all add: items_of_def add_item_def clear_items_def)

lemma items_of_clear_other: "q' \<noteq> q \<Longrightarrow> items_of (clear_items q' db) q = items_of db q"
  by (simp add: items_of_def clear_items_def) (rule arg_cong [where f = "sort_key _"], rule filter_cong, auto)

lemma sort_key_append_above:
  assumes "\<And>x y. x \<in> set xs \<Longrightarrow> y \<in> set ys \<Longrightarrow> f x \<le> f y" and "sorted (map f ys)"
  shows "sort_key f (xs @ ys) = sort_key f xs @ ys"
proof (rule properties_for_sort_key)
  show "mset (sort_key f xs @ ys) = mset (xs @ ys)" by simp
  show "sorted (map f (sort_key f xs @ ys))"
    using assms by (auto simp: sorted_append)
  show "filter (\<lambda>x. f k = f x) (sort_key f xs @ ys) = filter (\<lambda>x. f k = f x) (xs @ ys)"
    if "k \<in> set (sort_key f xs @ ys)" for k
    using sort_key_stable [of f "f k" xs] by (simp add: eq_commute [of "f k"])
qed

lemma items_of_add_last:
  assumes "\<And>x. x \<in> set (items_of db q) \<Longrightarrow> qi_position x \<le> p"
  shows "items_of (add_item i q t p now db) q =
    items_of db q @ [\<lparr>qi_id = i, qi_queue_id = q, qi_track_id = t, qi_position = p, qi_added_at = now\<rparr>]"
  using assms sort_key_append_above [of "filter (\<lambda>i. qi_queue_id i = q) (qd_items db)"
      "[\<lparr>qi_id = i, qi_queue_id = q, qi_track_id = t, qi_position = p, qi_added_at = now\<rparr>]" qi_position]
  by (simp add: items_of_def add_item_def)

text \<open>Inserting from a position above all others appends the tracks in their order.\<close>

lemma insert_items_appends:
  assumes "insert_items V n q p ts db = Inr db'"
    and "\<And>x. x \<in> set (items_of db q) \<Longrightarrow> qi_position x < p"
  shows "\<exists>new. items_of db' q = items_of db q @ new \<and> map qi_track_id new = ts \<and>
           map qi_position new = map (\<lambda>k. p + int k) [0..<length ts]"
  using assms
proof (induction V n q p ts db arbitrary: db' rule: insert_items.induct)
  case (1 V n q p db)
  then show ?case by simp
next
  case (2 V n q p t ts db)
  let ?db = "add_item (qe_uuid V (Suc n)) q t p (qe_now V) db"
  let ?i = "\<lparr>qi_id = qe_uuid V (Suc n), qi_queue_id = q, qi_track_id = t, qi_position = p,
             qi_added_at = qe_now V\<rparr>"
  have run: "insert_items V (Suc n) q (p + 1) ts ?db = Inr db'"
    using 2(2) by (auto simp: tx_simps)
  have here: "items_of ?db q = items_of db q @ [?i]"
    using 2(3) by (intro items_of_add_last) force
  obtain new where new: "items_of db' q = items_of ?db q @ new" "map qi_track_id new = ts"
    "map qi_position new = map (\<lambda>k. p + 1 + int k) [0..<length ts]"
    using 2(1) [OF run] 2(3) here by (force simp: tx_simps)
  have "map qi_position (?i # new) = map (\<lambda>k. p + int k) [0..<length (t # ts)]"
    unfolding list.map new(3) by (simp add: map_upt_Suc del: upt_Suc)
  then show ?case
    using new here by (intro exI [of _ "?i # new"]) simp
qed

lemma insert_items_others:
  assumes "insert_items V n q p ts db = Inr db'" and "q' \<noteq> q"
  shows "items_of db' q' = items_of db q'"
  using assms
  by (induction V n q p ts db arbitrary: db' rule: insert_items.induct) (auto simp: tx_simps)

lemma max_position_above: "x \<in> set (items_of db q) \<Longrightarrow> qi_position x \<le> max_position db q"
proof -
  have "a \<in> set xs \<Longrightarrow> a \<le> fold max xs b" and "b \<le> fold max xs b" for a b :: int and xs
  proof (induction xs arbitrary: b)
    case (Cons x xs)
    { case 1 then show ?case using Cons(2) [of "max x b"] Cons(1) by (auto simp: max.commute) }
    { case 2 then show ?case using Cons(2) [of "max x b"] by (simp add: max.commute) }
  qed simp_all
  then show "x \<in> set (items_of db q) \<Longrightarrow> qi_position x \<le> max_position db q"
    by (auto simp: items_of_def max_position_def)
qed


section \<open>Reordering\<close>

text \<open>What a run of \<open>reposition\<close> does to one row.\<close>

fun place :: "uuid \<Rightarrow> nat \<Rightarrow> uuid list \<Rightarrow> QueueItem \<Rightarrow> QueueItem" where
  "place q n [] x = x"
| "place q n (i # is) x =
     place q (Suc n) is (if qi_id x = i \<and> qi_queue_id x = q then x\<lparr>qi_position := int n\<rparr> else x)"

lemma reposition_place:
  "reposition V n q is db = Inr db' \<Longrightarrow> qd_items db' = map (place q n is) (qd_items db)"
proof (induction V n q "is" db arbitrary: db' rule: reposition.induct)
  case (1 V n q db)
  then show ?case by (auto simp: map_idI)
next
  case (2 V n q i ids db)
  then have "reposition V (Suc n) q ids (set_position q i (int n) db) = Inr db'"
    and "list_ex (\<lambda>x. qi_id x = i \<and> qi_queue_id x = q) (qd_items db)"
    by (auto simp: tx_simps split: if_splits)
  from 2(1) [OF this(2,1)] show ?case by (simp add: set_position_def)
qed

lemma place_frame [simp]:
  "qi_id (place q n is x) = qi_id x" "qi_queue_id (place q n is x) = qi_queue_id x"
  "qi_track_id (place q n is x) = qi_track_id x" "qi_added_at (place q n is x) = qi_added_at x"
  by (induction q n "is" x rule: place.induct) auto

lemma place_other: "qi_queue_id x \<noteq> q \<or> qi_id x \<notin> set is \<Longrightarrow> place q n is x = x"
  by (induction q n "is" x rule: place.induct) auto

lemma place_position:
  assumes "distinct is" and "k < length is" and "is ! k = qi_id x" and "qi_queue_id x = q"
  shows "qi_position (place q n is x) = int (n + k)"
  using assms
proof (induction q n "is" x arbitrary: k rule: place.induct)
  case (2 q n i ids x)
  show ?case
  proof (cases k)
    case 0
    then show ?thesis using 2(2-) by (simp add: place_other)
  next
    case (Suc j)
    then have "qi_id x \<noteq> i" using 2(2-4) by (auto simp: in_set_conv_nth)
    then show ?thesis using 2(1) [of j] 2(2-) Suc by simp
  qed
qed simp

lemma sorted_by_index:
  assumes "distinct ids" and "mset us = mset ids"
    and "sorted (map (\<lambda>u. the (position ((=) u) ids)) us)"
  shows "us = ids"
proof -
  let ?f = "\<lambda>u. the (position ((=) u) ids)"
  have at: "?f (ids ! k) = k" if "k < length ids" for k
    using position_mem [OF nth_mem [OF that]] that assms(1) by (auto simp: nth_eq_iff_index_eq)
  then have "map ?f ids = [0..<length ids]" by (intro nth_equalityI) auto
  then have "sorted (map ?f ids)" by simp
  moreover have "inj_on ?f (set us)"
  proof (rule inj_on_inverseI)
    show "ids ! ?f u = u" if "u \<in> set us" for u
      using that mset_eq_setD [OF assms(2)] position_mem [of u ids] by auto
  qed
  ultimately have "sort_key ?f us = ids" using assms(2) by (intro sort_key_inj_key_eq) auto
  moreover have "sort_key ?f us = us" using assms(3) by (rule sort_key_id_if_sorted)
  ultimately show ?thesis by simp
qed

lemma reposition_order:
  assumes "reposition V 0 q ids db = Inr db'" and "distinct ids"
    and "mset (map qi_id (items_of db q)) = mset ids"
  shows "map qi_id (items_of db' q) = ids"
proof (rule sorted_by_index [OF assms(2)])
  let ?xs = "filter (\<lambda>i. qi_queue_id i = q) (qd_items db)"
  have i': "items_of db' q = sort_key qi_position (map (place q 0 ids) ?xs)"
    using reposition_place [OF assms(1)] by (simp add: items_of_def filter_map comp_def)
  have perm: "mset (map qi_id ?xs) = mset ids" using assms(3) by (simp add: items_of_def)
  show "mset (map qi_id (items_of db' q)) = mset ids"
    unfolding i' mset_map mset_sort using perm by (simp add: multiset.map_comp comp_def)
  have "qi_position w = int (the (position ((=) (qi_id w)) ids))" if w: "w \<in> set (items_of db' q)" for w
  proof -
    obtain x where x: "x \<in> set ?xs" "w = place q 0 ids x" using w by (auto simp: i')
    then have "qi_id x \<in> set ids" unfolding mset_eq_setD [OF perm, symmetric] by simp
    then obtain k where "position ((=) (qi_id x)) ids = Some k" "k < length ids" "ids ! k = qi_id x"
      by (blast dest: position_mem)
    then show ?thesis using x place_position [OF assms(2), of k x q 0] by simp
  qed
  then have m: "map (\<lambda>u. int (the (position ((=) u) ids))) (map qi_id (items_of db' q)) =
      map qi_position (items_of db' q)"
    by simp
  have "sorted (map (\<lambda>u. int (the (position ((=) u) ids))) (map qi_id (items_of db' q)))"
    unfolding m by (simp add: items_of_def)
  then show "sorted (map (\<lambda>u. the (position ((=) u) ids)) (map qi_id (items_of db' q)))"
    by (simp add: sorted_iff_nth_mono_less)
qed


section \<open>The active queue\<close>

definition active_id :: "QueueDb \<Rightarrow> uuid option" where
  "active_id db = map_option qr_id (active_row db)"

text \<open>
  What the routes keep of the table \<open>queues\<close>: primary keys, identifiers that are the text of a UUID
  (\<open>P\<close> is \<open>Uuid::parse_str\<close>), at most one row named \<open>active-queue\<close>.
\<close>

definition tables_ok :: "(string \<Rightarrow> string + uuid) \<Rightarrow> QueueDb \<Rightarrow> bool" where
  "tables_ok P db \<longleftrightarrow>
     distinct (map qr_id (qd_queues db)) \<and>
     (\<forall>i \<in> set (map qr_id (qd_queues db)). P i = Inr i) \<and>
     length (active_rows db) \<le> 1"

text \<open>\<open>Uuid::new_v4\<close> draws identifiers that no row has.\<close>

definition fresh_ids :: "QueueEnv \<Rightarrow> QueueDb \<Rightarrow> bool" where
  "fresh_ids V db \<longleftrightarrow>
     inj (qe_uuid V) \<and> (\<forall>i. qe_parse_uuid V (qe_uuid V i) = Inr (qe_uuid V i)) \<and>
     (\<forall>i. \<forall>r \<in> set (qd_queues db). qr_id r \<noteq> qe_uuid V i) \<and>
     (\<forall>i. \<forall>x \<in> set (qd_items db). qi_queue_id x \<noteq> qe_uuid V i)"

lemma tables_ok_queues: "qd_queues db' = qd_queues db \<Longrightarrow> tables_ok P db' = tables_ok P db"
  by (simp add: tables_ok_def)

lemma tables_ok_touch [simp]: "tables_ok P (touch_queue q now db) = tables_ok P db"
proof -
  have "active_rows (touch_queue q now db) =
      map (\<lambda>r. if qr_id r = q then r\<lparr>qr_updated_at := now\<rparr> else r) (active_rows db)"
    by (simp add: touch_queue_def filter_map_row)
  moreover have "map qr_id (qd_queues (touch_queue q now db)) = map qr_id (qd_queues db)"
    by (simp add: touch_queue_def)
  ultimately show ?thesis unfolding tables_ok_def by (simp only: length_map)
qed

lemma tables_ok_drop:
  assumes "tables_ok P db" shows "tables_ok P (drop_queue q db)"
proof -
  have "active_rows (drop_queue q db) = filter (\<lambda>r. qr_id r \<noteq> q) (active_rows db)"
    by (simp add: drop_queue_def conj_commute)
  then have "length (active_rows (drop_queue q db)) \<le> length (active_rows db)"
    by (simp del: filter_filter)
  then show ?thesis using assms by (auto simp: tables_ok_def drop_queue_def distinct_map_filter)
qed

lemma tables_ok_new:
  assumes "tables_ok P db" and "P i = Inr i" and "i \<notin> qr_id ` set (qd_queues db)"
    and "nm = ''active-queue'' \<longrightarrow> active_row db = None"
  shows "tables_ok P (new_queue i nm now db)"
  using assms by (auto simp: tables_ok_def new_queue_def active_row_def)

lemma active_id_frame [simp]:
  "active_id (touch_queue q now db) = active_id db"
  "active_id (clear_items q db) = active_id db"
  "active_id (db\<lparr>qd_items := is\<rparr>) = active_id db"
  "active_id (db\<lparr>qd_sessions := ss\<rparr>) = active_id db"
  by (auto simp: active_id_def active_row_def option.map_comp touch_queue_def clear_items_def
      filter_map_row latest_row_map intro!: option.map_cong)

lemma active_id_queues: "qd_queues db' = qd_queues db \<Longrightarrow> active_id db' = active_id db"
  by (simp add: active_id_def active_row_def)

lemma active_id_new:
  "nm \<noteq> ''active-queue'' \<Longrightarrow> active_id (new_queue i nm now db) = active_id db"
  "active_row db = None \<Longrightarrow> active_id (new_queue i ''active-queue'' now db) = Some i"
  by (auto simp: active_id_def active_row_def new_queue_def)

lemma active_id_in: "active_id db = Some q \<Longrightarrow> q \<in> qr_id ` set (qd_queues db)"
  by (auto simp: active_id_def active_row_def dest!: latest_row_in)

lemma active_parse:
  "tables_ok P db \<Longrightarrow> active_row db = Some r \<Longrightarrow> P (qr_id r) = Inr (qr_id r)"
  by (auto simp: tables_ok_def active_row_def dest!: latest_row_in)

text \<open>The result of finding or creating it, in a transaction or outside of one.\<close>

definition active_found :: "QueueEnv \<Rightarrow> QueueDb \<Rightarrow> uuid \<Rightarrow> QueueDb \<Rightarrow> bool" where
  "active_found V db q db' \<longleftrightarrow>
     tables_ok (qe_parse_uuid V) db' \<and> active_id db' = Some q \<and> qd_items db' = qd_items db \<and>
     qd_sessions db' = qd_sessions db \<and>
     (\<forall>i. q \<noteq> qe_uuid V (Suc i)) \<and> (\<forall>i. \<forall>r \<in> set (qd_queues db'). qr_id r \<noteq> qe_uuid V (Suc i)) \<and>
     (active_id db = Some q \<and> db' = db \<or> active_id db = None \<and> items_of db q = [])"

lemma active_found_existing:
  assumes "tables_ok (qe_parse_uuid V) db" and "fresh_ids V db" and "active_row db = Some r"
  shows "active_found V db (qr_id r) db"
  using assms by (auto simp: active_found_def active_id_def fresh_ids_def active_row_def dest!: latest_row_in)

lemma active_found_new:
  assumes "tables_ok (qe_parse_uuid V) db" and "fresh_ids V db" and "active_row db = None"
  shows "active_found V db (qe_uuid V 0) (new_queue (qe_uuid V 0) ''active-queue'' (qe_now V) db)"
proof -
  have "qe_uuid V 0 \<noteq> qe_uuid V (Suc i)" for i
    using assms(2) by (auto simp: fresh_ids_def inj_eq)
  moreover have "qe_uuid V 0 \<notin> qr_id ` set (qd_queues db)"
    using assms(2) unfolding fresh_ids_def by (metis imageE)
  then have "tables_ok (qe_parse_uuid V) (new_queue (qe_uuid V 0) ''active-queue'' (qe_now V) db)"
    using assms by (intro tables_ok_new) (simp_all add: fresh_ids_def)
  moreover note this
  moreover have "items_of db (qe_uuid V 0) = []"
    using assms(2) by (auto simp: fresh_ids_def items_of_def filter_empty_conv)
  moreover have "\<forall>r \<in> set (qd_queues (new_queue (qe_uuid V 0) ''active-queue'' (qe_now V) db)).
      qr_id r \<noteq> qe_uuid V (Suc i)" for i
    using assms(2) calculation(1) by (auto simp: fresh_ids_def new_queue_def)
  moreover have "qd_sessions (new_queue (qe_uuid V 0) ''active-queue'' (qe_now V) db) = qd_sessions db"
    by (simp add: new_queue_def)
  moreover have "active_id db = None" using assms(3) by (simp add: active_id_def)
  ultimately show ?thesis
    unfolding active_found_def using active_id_new(2) [OF assms(3)] by simp
qed

lemma get_or_create_found:
  assumes "tables_ok (qe_parse_uuid V) db" and "fresh_ids V db"
  shows "case get_or_create_active_queue V db of
           (Inr q, db') \<Rightarrow> active_found V db q db' | (Inl _, db') \<Rightarrow> db' = db"
proof (cases "active_row db")
  case None
  with active_found_new [OF assms None] show ?thesis
    by (cases "qe_fail V ''select active'' 0"; cases "qe_fail V ''insert active'' 0")
       (simp_all add: get_or_create_active_queue_def run_statement_def)
next
  case (Some a)
  with active_found_existing [OF assms Some] active_parse [OF assms(1) Some]
  show ?thesis
    by (cases "qe_fail V ''select active'' 0")
       (simp_all add: get_or_create_active_queue_def run_statement_def)
qed

lemma active_in_tx_found:
  assumes "active_in_tx V db = Inr (q, db')"
    and "tables_ok (qe_parse_uuid V) db" and "fresh_ids V db"
  shows "active_found V db q db'"
proof (cases "active_row db")
  case None
  with assms(1) active_found_new [OF assms(2,3) None] show ?thesis
    by (simp add: active_in_tx_def tx_simps)
next
  case (Some a)
  with assms(1) active_found_existing [OF assms(2,3) Some] active_parse [OF assms(2) Some]
  show ?thesis by (simp add: active_in_tx_def tx_simps)
qed

lemma active_or_error_found:
  assumes "active_or_error V S = (r, S')"
    and "tables_ok (qe_parse_uuid V) (qh_db S)" and "fresh_ids V (qh_db S)"
  shows "qh_engine S' = qh_engine S" "qh_bus S' = qh_bus S"
    "case r of Inr q \<Rightarrow> active_found V (qh_db S) q (qh_db S') | Inl _ \<Rightarrow> S' = S"
proof -
  obtain r0 db' where g: "get_or_create_active_queue V (qh_db S) = (r0, db')" by fastforce
  have "r = map_err database_error r0" and S': "S' = S\<lparr>qh_db := db'\<rparr>"
    using assms(1) g by (auto simp: active_or_error_def)
  then show "qh_engine S' = qh_engine S" "qh_bus S' = qh_bus S"
    "case r of Inr q \<Rightarrow> active_found V (qh_db S) q (qh_db S') | Inl _ \<Rightarrow> S' = S"
    using get_or_create_found [OF assms(2,3)] by (auto simp: g split: sum.splits)
qed


section \<open>The engine's queue\<close>

text \<open>The engine task is up and plays from this list of tracks.\<close>

definition engine_queue :: "'s QueueHost \<Rightarrow> Track list \<Rightarrow> bool" where
  "engine_queue S ts \<longleftrightarrow> (\<exists>e. qh_engine S = Some e \<and> eng_queue e = ts)"

lemma engine_queue_frame [simp]:
  "engine_queue (S\<lparr>qh_db := db\<rparr>) ts = engine_queue S ts"
  "engine_queue (announce m S) ts = engine_queue S ts"
  "qh_db (announce m S) = qh_db S" "qh_engine (announce m S) = qh_engine S"
  by (simp_all add: engine_queue_def announce_def)

lemma ask_set_queue:
  assumes "handle_set_queue A E ts i c task = (Inr u, task')"
  shows "\<exists>e. task' = Some e \<and> eng_queue e = ts"
  using assms
  by (cases task) (auto simp: handle_set_queue_def ask_def send_command_def handle_command_def
      answer_def cmd_set_queue_def Let_def)

lemma ask_jump:
  assumes "handle_jump_to_index A E i task = (Inr u, task')" and "task = Some e"
  shows "\<exists>e'. task' = Some e' \<and> eng_queue e' = eng_queue e"
proof -
  let ?e = "e\<lparr>eng_command_origin := Some LocalOrigin\<rparr>"
  have "eng_queue (snd (cmd_jump_to_index A E i ?e)) = eng_queue e"
    by (auto simp: cmd_jump_to_index_def Let_def start_playback_frame(1) [OF prod.collapse [symmetric]]
        split: option.split)
  then show ?thesis
    using assms by (auto simp: handle_jump_to_index_def ask_def send_command_def handle_command_def
        answer_def split: prod.splits)
qed

lemma ask_seek:
  assumes "handle_seek A E p o' task = (Inr u, task')" and "task = Some e"
  shows "\<exists>e'. task' = Some e' \<and> eng_queue e' = eng_queue e"
proof -
  let ?e = "e\<lparr>eng_command_origin := Some o'\<rparr>"
  have "eng_queue (snd (cmd_seek E p ?e)) = eng_queue e"
    by (auto simp: cmd_seek_def Let_def split: option.split prod.split sum.split)
  then show ?thesis
    using assms by (auto simp: handle_seek_def ask_def send_command_def handle_command_def
        answer_def split: prod.splits)
qed

lemma engine_set_queue_result:
  assumes "engine_set_queue A V ts i c S = (r, S')"
  shows "qh_db S' = qh_db S" "is_ok r \<Longrightarrow> engine_queue S' ts"
  using assms ask_set_queue
  by (auto simp: engine_set_queue_def engine_queue_def is_ok_iff map_err_Inr_iff split: prod.splits)
     blast

text \<open>A track is found under its own identifier.\<close>

definition tracks_keyed :: "QueueEnv \<Rightarrow> bool" where
  "tracks_keyed V \<longleftrightarrow> (\<forall>t row. qe_tracks V t = Inr (Some row) \<longrightarrow> trk_id row = t)"

lemma resolved_track_id:
  assumes "tracks_keyed V" and "get_track E (qe_tracks V) roots t = Inr track"
  shows "trk_id track = t"
  using assms by (auto simp: tracks_keyed_def get_track_def split: sum.splits option.splits if_splits)

lemma validated_ids:
  "tracks_keyed V \<Longrightarrow> validate_and_load_tracks V ts = Inr tracks \<Longrightarrow> map trk_id tracks = ts"
  by (induction V ts arbitrary: tracks rule: validate_and_load_tracks.induct)
     (auto simp: tx_simps dest: resolved_track_id split: sum.splits)

lemma runtime_ids:
  "tracks_keyed V \<Longrightarrow> runtime_tracks V items = Inr tracks \<Longrightarrow>
   map (qe_parse_uuid V \<circ> qi_track_id) items = map (Inr \<circ> trk_id) tracks"
  by (induction V items arbitrary: tracks rule: runtime_tracks.induct)
     (auto simp: tx_simps dest: resolved_track_id split: sum.splits)

lemma parsed_ids:
  "parse_ids V ss = Inr ts \<Longrightarrow> map (qe_parse_uuid V) ss = map Inr ts"
  by (induction V ss arbitrary: ts rule: parse_ids.induct) (auto simp: tx_simps split: sum.splits)

text \<open>The queue of the table is what the engine plays from.\<close>

definition engine_shows :: "(string \<Rightarrow> string + uuid) \<Rightarrow> uuid \<Rightarrow> 's QueueHost \<Rightarrow> bool" where
  "engine_shows P q S \<longleftrightarrow>
     (\<exists>ts. engine_queue S ts \<and>
        map (P \<circ> qi_track_id) (items_of (qh_db S) q) = map (Inr \<circ> trk_id) ts)"

lemma engine_showsI:
  "engine_queue S ts \<Longrightarrow> map (P \<circ> qi_track_id) (items_of (qh_db S) q) = map (Inr \<circ> trk_id) ts
   \<Longrightarrow> engine_shows P q S"
  by (auto simp: engine_shows_def)

lemma sync_result:
  assumes "sync_active_queue_to_engine A V q c S = (r, S')"
  shows "qh_db S' = qh_db S"
    and "is_ok r \<Longrightarrow> tracks_keyed V \<Longrightarrow> engine_shows (qe_parse_uuid V) q S'"
proof -
  show db: "qh_db S' = qh_db S"
    using assms by (auto simp: sync_active_queue_to_engine_def Let_def engine_set_queue_result
        split: sum.splits if_splits)
  assume ok: "is_ok r" and k: "tracks_keyed V"
  then consider "items_of (qh_db S) q = []" "engine_set_queue A V [] 0 None S = (r, S')"
    | ts i where "runtime_tracks V (items_of (qh_db S) q) = Inr ts"
        "engine_set_queue A V ts i c S = (r, S')"
    using assms by (auto simp: sync_active_queue_to_engine_def Let_def is_ok_iff
        split: sum.splits if_splits)
  then show "engine_shows (qe_parse_uuid V) q S'"
  proof cases
    case 1
    then show ?thesis using engine_set_queue_result [OF 1(2)] ok db by (intro engine_showsI) auto
  next
    case 2
    then show ?thesis
      using engine_set_queue_result [OF 2(2)] ok db runtime_ids [OF k 2(1)]
      by (intro engine_showsI) auto
  qed
qed


section \<open>Transactions\<close>

lemma add_items_tx_result:
  assumes "add_items_tx V ts db = Inr (q, db')"
    and "tables_ok (qe_parse_uuid V) db" and "fresh_ids V db"
  shows "\<exists>db1 new. active_found V db q db1 \<and> tables_ok (qe_parse_uuid V) db' \<and>
           active_id db' = Some q \<and> items_of db' q = items_of db1 q @ new \<and>
           map qi_track_id new = ts \<and> (\<forall>q'. q' \<noteq> q \<longrightarrow> items_of db' q' = items_of db q')"
proof -
  obtain db1 db2 where a: "active_in_tx V db = Inr (q, db1)"
    and i: "insert_items V 0 q (max_position db1 q + 1) ts db1 = Inr db2"
    and t: "db' = touch_queue q (qe_now V) db2"
    using assms(1) by (auto simp: add_items_tx_def tx_simps split: prod.splits)
  note f = active_in_tx_found [OF a assms(2,3)]
  have sorted: "qi_position x < max_position db1 q + 1" if "x \<in> set (items_of db1 q)" for x
    using max_position_above [OF that] by simp
  obtain new where "items_of db2 q = items_of db1 q @ new" "map qi_track_id new = ts"
    using insert_items_appends [OF i sorted] by blast
  moreover have "items_of db2 q' = items_of db q'" if "q' \<noteq> q" for q'
    using insert_items_others [OF i that] f by (simp add: active_found_def items_of_def)
  moreover have q: "qd_queues db2 = qd_queues db1" by (rule insert_items_queues [OF i])
  ultimately show ?thesis
    using f tables_ok_queues [OF q] active_id_queues [OF q]
    by (intro exI [of _ db1] exI [of _ new]) (simp add: t active_found_def)
qed

lemma replaced_items:
  assumes "insert_items V 0 q 0 ts (clear_items q db) = Inr db'"
  shows "map qi_track_id (items_of db' q) = ts" "qd_queues db' = qd_queues db"
  using insert_items_appends [OF assms] insert_items_queues [OF assms] by auto

lemma replace_items_tx_result:
  assumes "replace_items_tx V q ts db = Inr db'"
  shows "map qi_track_id (items_of db' q) = ts" "active_id db' = active_id db"
    "tables_ok P db' = tables_ok P db"
proof -
  obtain db2 where i: "insert_items V 0 q 0 ts (clear_items q db) = Inr db2"
    and t: "db' = touch_queue q (qe_now V) db2"
    using assms by (auto simp: replace_items_tx_def tx_simps)
  note r = replaced_items [OF i]
  then show "map qi_track_id (items_of db' q) = ts" "active_id db' = active_id db"
    "tables_ok P db' = tables_ok P db"
    using active_id_queues [OF r(2)] tables_ok_queues [OF r(2)] by (simp_all add: t)
qed

lemma transfer_tx_result:
  assumes "transfer_tx V q ts db = Inr db'"
  shows "map qi_track_id (items_of db' q) = ts" "active_id db' = active_id db"
    "tables_ok P db' = tables_ok P db" "qd_queues db' = qd_queues db"
proof -
  have i: "insert_items V 0 q 0 ts (clear_items q db) = Inr db'"
    using assms by (auto simp: transfer_tx_def tx_simps)
  note r = replaced_items [OF i]
  then show "map qi_track_id (items_of db' q) = ts" "active_id db' = active_id db"
    "tables_ok P db' = tables_ok P db" "qd_queues db' = qd_queues db"
    using active_id_queues [OF r(2)] tables_ok_queues [OF r(2)] by simp_all
qed

lemma reorder_tx_result:
  assumes "reorder_tx V q ids db = Inr db'"
  shows "active_id db' = active_id db" "tables_ok P db' = tables_ok P db"
    "reposition V 0 q ids db = Inr db2 \<Longrightarrow> db' = touch_queue q (qe_now V) db2"
    "\<exists>db2. reposition V 0 q ids db = Inr db2"
    "check_item_ids q ids (filter (\<lambda>i. qi_queue_id i = q) (qd_items db)) = Inr ()"
proof -
  obtain db3 where i: "reposition V 0 q ids db = Inr db3"
    and t: "db' = touch_queue q (qe_now V) db3"
    and c: "check_item_ids q ids (filter (\<lambda>i. qi_queue_id i = q) (qd_items db)) = Inr ()"
    using assms by (auto simp: reorder_tx_def tx_simps)
  note r = reposition_queues [OF i]
  show "active_id db' = active_id db" "tables_ok P db' = tables_ok P db"
    using active_id_queues [OF r] tables_ok_queues [OF r] by (simp_all add: t)
  show "reposition V 0 q ids db = Inr db2 \<Longrightarrow> db' = touch_queue q (qe_now V) db2"
    "\<exists>db2. reposition V 0 q ids db = Inr db2"
    "check_item_ids q ids (filter (\<lambda>i. qi_queue_id i = q) (qd_items db)) = Inr ()"
    using i t c by simp_all
qed

lemma delete_tx_result:
  assumes "delete_tx V q db = Inr (nm, db')" and "tables_ok P db"
  shows "tables_ok P db'"
    and "nm = ''active-queue'' \<Longrightarrow> active_id db = Some q \<and> active_id db' = None"
    and "nm \<noteq> ''active-queue'' \<Longrightarrow> active_id db' = active_id db \<and> active_id db \<noteq> Some q"
    and "q' \<noteq> q \<Longrightarrow> items_of db' q' = items_of db q'"
proof -
  obtain r where r: "List.find (\<lambda>r. qr_id r = q) (qd_queues db) = Some r" and nm: "nm = qr_name r"
    and db': "db' = drop_queue q (clear_items q db)"
    using assms(1) by (auto simp: delete_tx_def tx_simps split: option.splits)
  have rin: "r \<in> set (qd_queues db)" "qr_id r = q" using r by (auto simp: find_Some_iff)
  have uniq: "x = r" if "x \<in> set (qd_queues db)" "qr_id x = q" for x
    using assms(2) rin that by (auto simp: tables_ok_def distinct_map inj_on_def)
  show "tables_ok P db'"
    unfolding db' by (intro tables_ok_drop) (simp add: assms(2) tables_ok_queues)
  have act: "active_rows db' = filter (\<lambda>x. qr_id x \<noteq> q) (active_rows db)"
    by (simp add: db' drop_queue_def conj_commute)
  show "active_id db = Some q \<and> active_id db' = None" if "nm = ''active-queue''"
  proof -
    have "r \<in> set (active_rows db)" using rin that nm by simp
    then have "active_rows db = [r]"
      using assms(2) by (cases "active_rows db") (auto simp: tables_ok_def)
    then show ?thesis using rin act by (simp add: active_id_def active_row_def)
  qed
  show "active_id db' = active_id db \<and> active_id db \<noteq> Some q" if "nm \<noteq> ''active-queue''"
  proof -
    have other: "\<forall>x \<in> set (active_rows db). qr_id x \<noteq> q" using uniq that nm by auto
    then have "active_rows db' = active_rows db" unfolding act by (intro filter_True)
    moreover have "active_id db \<noteq> Some q"
    proof
      assume "active_id db = Some q"
      then obtain x where "latest_row (active_rows db) = Some x" "qr_id x = q"
        by (auto simp: active_id_def active_row_def)
      then show False using other latest_row_in by blast
    qed
    ultimately show ?thesis by (simp add: active_id_def active_row_def)
  qed
  show "items_of db' q' = items_of db q'" if "q' \<noteq> q"
    using that by (simp add: db' items_of_clear_other)
qed


lemma save_items_frame:
  "qd_queues (save_items V u n q ts db) = qd_queues db"
  "q' \<noteq> q \<Longrightarrow> items_of (save_items V u n q ts db) q' = items_of db q'"
  by (induction V u n q ts db rule: save_items.induct) auto

lemma save_queue_state_result:
  assumes "save_queue_state V u nm ts i p db = (r, db')" and "nm \<noteq> ''active-queue''"
    and "P (u 0) = Inr (u 0)" and "u 0 \<notin> qr_id ` set (qd_queues db)" and "tables_ok P db"
  shows "tables_ok P db' \<and> active_id db' = active_id db \<and>
    (\<forall>q. q \<noteq> u 0 \<longrightarrow> items_of db' q = items_of db q)"
proof -
  let ?db = "new_queue (u 0) nm (qe_now V) db"
  have ok: "tables_ok P ?db" using assms by (intro tables_ok_new) auto
  have d: "db' = db \<or> db' = save_items V u 0 (u 0) ts ?db \<or>
      (\<exists>ss. db' = (save_items V u 0 (u 0) ts ?db)\<lparr>qd_sessions := ss\<rparr>)"
    using assms(1) by (auto simp: save_queue_state_def Let_def split: sum.splits)
  then consider "db' = db" | "qd_queues db' = qd_queues ?db"
      "\<forall>q. q \<noteq> u 0 \<longrightarrow> items_of db' q = items_of db q"
    by (elim disjE exE) (simp_all add: save_items_frame)
  then show ?thesis
  proof cases
    case 1
    then show ?thesis using assms(5) by simp
  next
    case 2
    then show ?thesis
      using tables_ok_queues [OF 2(1)] ok active_id_queues [OF 2(1)] active_id_new(1) [OF assms(2)]
      by simp
  qed
qed

end
