(* ===== verification/Queue_Properties.thy ===== *)
theory Queue_Properties
  imports Queue_Theorems
begin

text \<open>
  The queue routes as commands on one host: after every command that loads the queue, and as long as
  only commands that keep it follow, the engine plays from the active queue of the database; adding
  is all or nothing; reordering gives the requested order.
\<close>

section \<open>Commands\<close>

datatype QueueCommand =
    AddTracks "uuid list"
  | JumpTo "uuid option" u32
  | TransferIn QueueTransferBody
  | ReorderActive "uuid list"
  | ClearQueue uuid
  | DeleteQueue uuid
  | SaveQueue "uuid list" u32 u64
  | ShowQueue
  | ShowSaved

fun run_queue_command ::
  "'s AudioSink \<Rightarrow> QueueEnv \<Rightarrow> QueueCommand \<Rightarrow> 's QueueHost \<Rightarrow> bool \<times> 's QueueHost" where
  "run_queue_command A V (AddTracks ts) S = map_prod is_ok id (queue_items_handler A V ts S)"
| "run_queue_command A V (JumpTo q i) S = map_prod is_ok id (queue_jump_handler A V q i S)"
| "run_queue_command A V (TransferIn b) S = map_prod is_ok id (queue_transfer_handler A V b S)"
| "run_queue_command A V (ReorderActive is) S =
     map_prod is_ok id (queue_reorder_handler A V is None S)"
| "run_queue_command A V (ClearQueue q) S = map_prod is_ok id (clear_queue_handler A V q S)"
| "run_queue_command A V (DeleteQueue q) S = map_prod is_ok id (queue_delete_handler A V q S)"
| "run_queue_command A V (SaveQueue ts i p) S = map_prod is_ok id (queue_save_handler V ts i p S)"
| "run_queue_command A V ShowQueue S = map_prod is_ok id (queue_handler A V S)"
| "run_queue_command A V ShowSaved S = map_prod is_ok id (queue_saved_handler V S)"

text \<open>The commands that hand a queue to the engine.\<close>

fun loads_queue :: "QueueCommand \<Rightarrow> bool" where
  "loads_queue (AddTracks _) = True"
| "loads_queue (JumpTo _ _) = True"
| "loads_queue (TransferIn _) = True"
| "loads_queue (ReorderActive _) = True"
| "loads_queue _ = False"

text \<open>A transfer names its source; the identifiers of a request are UUIDs.\<close>

fun proper_command :: "(string \<Rightarrow> string + uuid) \<Rightarrow> QueueCommand \<Rightarrow> bool" where
  "proper_command P (TransferIn b) =
     (qt_source b \<noteq> ''active-queue'' \<and> list_all (\<lambda>t. P t = Inr t) (qt_track_ids b))"
| "proper_command P _ = True"

definition active_shown :: "(string \<Rightarrow> string + uuid) \<Rightarrow> 's QueueHost \<Rightarrow> bool" where
  "active_shown P S =
     (case qh_engine S of
        None \<Rightarrow> False
      | Some e \<Rightarrow>
          (case active_id (qh_db S) of
             None \<Rightarrow> eng_queue e = []
           | Some q \<Rightarrow>
               map (P \<circ> qi_track_id) (items_of (qh_db S) q) = map (Inr \<circ> trk_id) (eng_queue e)))"

lemma active_shown_iff:
  "active_shown P S \<longleftrightarrow>
     (case active_id (qh_db S) of None \<Rightarrow> engine_queue S [] | Some q \<Rightarrow> engine_shows P q S)"
  by (auto simp: active_shown_def engine_shows_def engine_queue_def split: option.splits)

lemma active_shownI:
  "active_id (qh_db S) = Some q \<Longrightarrow> engine_shows P q S \<Longrightarrow> active_shown P S"
  by (simp add: active_shown_iff)

lemma active_shown_cong:
  assumes "qh_engine S' = qh_engine S" and "active_id (qh_db S') = active_id (qh_db S)"
    and "\<And>q. active_id (qh_db S) = Some q \<Longrightarrow> items_of (qh_db S') q = items_of (qh_db S) q"
  shows "active_shown P S' = active_shown P S"
  using assms by (auto simp: active_shown_def split: option.splits)

text \<open>Finding the active queue changes nothing the engine's queue is compared with, and creates an
  empty one where there was none.\<close>

lemma found_keeps_shown:
  assumes "active_found V (qh_db S) q (qh_db S')" and "qh_engine S' = qh_engine S"
  shows "active_shown P S \<Longrightarrow> active_shown P S'"
  using assms by (auto simp: active_found_def active_shown_iff engine_shows_def engine_queue_def
      items_of_def split: option.splits)

lemma active_or_error_cases:
  assumes "tables_ok (qe_parse_uuid V) (qh_db S)" and "fresh_ids V (qh_db S)"
  obtains e where "active_or_error V S = (Inl e, S)"
  | q S1 where "active_or_error V S = (Inr q, S1)" "active_found V (qh_db S) q (qh_db S1)"
      "qh_engine S1 = qh_engine S"
proof (cases "active_or_error V S")
  case (Pair r S1)
  note f = active_or_error_found [OF Pair assms]
  show thesis
  proof (cases r)
    case (Inl e)
    then show thesis using that(1) f(3) Pair by simp
  next
    case (Inr q)
    then show thesis using that(2) f(1,3) Pair by simp
  qed
qed

section \<open>What each handler does to the tables and the engine\<close>

text \<open>Of a handler's answer: the tables stay well formed, and a success leaves the engine with the
  active queue, always (\<open>loads\<close>) or when it had it before.\<close>

definition keeps_step :: "QueueEnv \<Rightarrow> bool \<Rightarrow> 's QueueHost \<Rightarrow> 'a queue_result \<times> 's QueueHost \<Rightarrow> bool" where
  "keeps_step V loads S r \<longleftrightarrow>
     tables_ok (qe_parse_uuid V) (qh_db (snd r)) \<and>
     (is_ok (fst r) \<longrightarrow> loads \<or> active_shown (qe_parse_uuid V) S \<longrightarrow>
        active_shown (qe_parse_uuid V) (snd r))"

lemma keeps_stepI:
  assumes "tables_ok (qe_parse_uuid V) (qh_db S')"
    and "is_ok r \<Longrightarrow> loads \<or> active_shown (qe_parse_uuid V) S \<Longrightarrow> active_shown (qe_parse_uuid V) S'"
  shows "keeps_step V loads S (r, S')"
  using assms by (simp add: keeps_step_def)

lemma keeps_step_error: "tables_ok (qe_parse_uuid V) (qh_db S') \<Longrightarrow> keeps_step V loads S (Inl e, S')"
  by (simp add: keeps_step_def is_ok_iff)


lemma add_keeps:
  assumes ok: "tables_ok (qe_parse_uuid V) (qh_db S)" and fr: "fresh_ids V (qh_db S)"
    and k: "tracks_keyed V"
  shows "keeps_step V True S (queue_items_handler A V ts S)"
proof (cases "qe_disabled V \<or> ts = [] \<or> is_err (validate_and_load_tracks V ts)")
  case True
  then show ?thesis
    using ok by (auto simp: queue_items_handler_def is_err_iff keeps_step_error)
next
  case False
  then obtain trs where v: "\<not> qe_disabled V" "ts \<noteq> []" "validate_and_load_tracks V ts = Inr trs"
    by (auto simp: is_ok_iff)
  show ?thesis
  proof (cases "add_items_tx V ts (qh_db S)")
    case (Inl e)
    then show ?thesis using v ok by (simp add: queue_items_handler_def keeps_step_error)
  next
    case (Inr qdb)
    obtain q db where p: "qdb = (q, db)" by fastforce
    have tx: "tables_ok (qe_parse_uuid V) db" "active_id db = Some q"
      using add_items_tx_result [OF Inr [unfolded p] ok fr] by auto
    let ?S = "S\<lparr>qh_db := db\<rparr>"
    show ?thesis
    proof (cases "engine_track A V ?S")
      case (Inl e)
      then show ?thesis using v Inr p tx by (simp add: queue_items_handler_def keeps_step_error)
    next
      case cur: (Inr cur)
      obtain r S' where s: "sync_active_queue_to_engine A V q cur ?S = (r, S')" by fastforce
      note sr = sync_result [OF s]
      have h: "queue_items_handler A V ts S =
          (case r of Inl e \<Rightarrow> (Inl e, S') | Inr _ \<Rightarrow>
            (Inr (q, length ts), announce (QueueUpdated q (length ts)) S'))"
        using v Inr p cur s by (simp add: queue_items_handler_def split: sum.splits)
      show ?thesis
        unfolding h
        using sr tx k by (cases r) (auto simp: keeps_step_def is_ok_iff active_shown_iff engine_shows_def)
    qed
  qed
qed

lemma jump_in_queue_result:
  assumes "jump_in_queue A V tracks i t S = (r, S')"
  shows "qh_db S' = qh_db S" "is_ok r \<Longrightarrow> engine_queue S' tracks"
proof -
  obtain r1 S1 where s: "engine_set_queue A V tracks (unat i) (Some t) S = (r1, S1)" by fastforce
  obtain r2 task where j: "handle_jump_to_index A (qe_engine V) (unat i) (qh_engine S1) = (r2, task)"
    by fastforce
  note e = engine_set_queue_result [OF s]
  show "qh_db S' = qh_db S"
    using assms s j e(1) by (auto simp: jump_in_queue_def announce_def split: sum.splits)
  assume "is_ok r"
  then obtain u u2 where u: "r1 = Inr u" "r2 = Inr u2"
    and S': "S' = announce (PlaybackStateChanged t i) (S1\<lparr>qh_engine := task\<rparr>)"
    using assms s j by (auto simp: jump_in_queue_def is_ok_iff split: sum.splits)
  then obtain en where "qh_engine S1 = Some en" "eng_queue en = tracks"
    using e(2) by (auto simp: is_ok_iff engine_queue_def)
  then show "engine_queue S' tracks"
    using ask_jump [OF j [unfolded u]] S' by (auto simp: engine_queue_def)
qed

definition uuid_parser :: "(string \<Rightarrow> string + uuid) \<Rightarrow> bool" where
  "uuid_parser P \<longleftrightarrow> (\<forall>s t. P s = Inr t \<longrightarrow> P t = Inr t)"

lemma uuid_parserD: "uuid_parser P \<Longrightarrow> P s = Inr t \<Longrightarrow> P t = Inr t"
  unfolding uuid_parser_def by blast

lemma parsed_canonical:
  "uuid_parser P \<Longrightarrow> map P ss = map Inr ts \<Longrightarrow> map P ts = map Inr ts"
  by (induction ss ts rule: list_induct2') (auto dest: uuid_parserD)

lemma jump_keeps_loaded:
  assumes r: "jump_in_queue A V tracks i t S = r" and k: "tracks_keyed V"
    and ok: "tables_ok (qe_parse_uuid V) (qh_db S)" and a: "active_id (qh_db S) = Some q"
    and v: "validate_and_load_tracks V ts = Inr tracks"
    and q: "map (qe_parse_uuid V \<circ> qi_track_id) (items_of (qh_db S) q) = map Inr ts"
  shows "keeps_step V True S0 r"
proof -
  obtain r1 S' where p: "r = (r1, S')" by fastforce
  note j = jump_in_queue_result [OF r [unfolded p]]
  have "map Inr ts = map (Inr \<circ> trk_id) tracks" using validated_ids [OF k v] by auto
  then have "active_shown (qe_parse_uuid V) S'" if "is_ok r1"
    using j that a q by (intro active_shownI [of _ q] engine_showsI [of _ tracks]) auto
  then show ?thesis unfolding p using j ok by (intro keeps_stepI) auto
qed

lemma jump_keeps:
  assumes ok: "tables_ok (qe_parse_uuid V) (qh_db S)" and fr: "fresh_ids V (qh_db S)"
    and k: "tracks_keyed V" and pr: "uuid_parser (qe_parse_uuid V)"
  shows "keeps_step V True S (queue_jump_handler A V qid i S)"
  using ok fr
proof (cases rule: active_or_error_cases)
  case (1 e)
  then show ?thesis using ok by (simp add: queue_jump_handler_def keeps_step_error)
next
  case (2 act S1)
  have ok1: "tables_ok (qe_parse_uuid V) (qh_db S1)" and a: "active_id (qh_db S1) = Some act"
    using 2(2) by (simp_all add: active_found_def)
  define q where "q = (case qid of Some q \<Rightarrow> q | None \<Rightarrow> act)"
  define items where "items = items_of (qh_db S1) q"
  show ?thesis
  proof (cases "\<exists>e. queue_jump_handler A V qid i S = (Inl e, S1) \<or> queue_jump_handler A V qid i S = (Inl e, S)")
    case True
    then show ?thesis using ok ok1 by (auto simp: keeps_step_error)
  next
    case False
    let ?h = "queue_jump_handler A V qid i S"
    have no: "?h \<noteq> (Inl e, S1)" "?h \<noteq> (Inl e, S)" for e using False by auto
    have nd: "\<not> qe_disabled V" using no(2) [of module_disabled] by (auto simp: queue_jump_handler_def)
    have h1: "?h = (case statement V ''select items'' 0 items of
         Inl e \<Rightarrow> (Inl e, S1)
       | Inr items \<Rightarrow>
           if items = [] then (Inl (queue_v1_error 400 ''QUEUE_EMPTY'' ''queue has no items''), S1)
           else if length items \<le> unat i then (Inl (out_of_bounds i (length items)), S1)
           else case qe_parse_uuid V (qi_track_id (items ! unat i)) of
             Inl e \<Rightarrow> (Inl (queue_v1_error 500 ''INVALID_TRACK_ID'' e), S1)
           | Inr target \<Rightarrow>
          (case parse_ids V (map qi_track_id items) of
             Inl e \<Rightarrow> (Inl e, S1)
           | Inr track_ids \<Rightarrow>
          (case validate_and_load_tracks V track_ids of
             Inl e \<Rightarrow> (Inl e, S1)
           | Inr tracks \<Rightarrow>
               if q = act then jump_in_queue A V tracks i target S1
               else case replace_items_tx V act track_ids (qh_db S1) of
                 Inl e \<Rightarrow> (Inl e, S1)
               | Inr db \<Rightarrow> jump_in_queue A V tracks i target (S1\<lparr>qh_db := db\<rparr>))))"
      unfolding queue_jump_handler_def 2(1) q_def items_def by (simp add: nd Let_def)
    have sel: "statement V ''select items'' 0 items = Inr items"
      using no h1 by (cases "statement V ''select items'' 0 items") (auto simp: statement_Inr_iff)
    have ne: "items \<noteq> []" "\<not> length items \<le> unat i"
      using no(1) [of "queue_v1_error 400 ''QUEUE_EMPTY'' ''queue has no items''"]
        no(1) [of "out_of_bounds i (length items)"] h1 sel by (auto split: if_splits)
    obtain target where tgt: "qe_parse_uuid V (qi_track_id (items ! unat i)) = Inr target"
      using no h1 sel ne by (cases "qe_parse_uuid V (qi_track_id (items ! unat i))") auto
    obtain ts where ids: "parse_ids V (map qi_track_id items) = Inr ts"
      using no h1 sel ne tgt by (cases "parse_ids V (map qi_track_id items)") auto
    obtain tracks where v: "validate_and_load_tracks V ts = Inr tracks"
      using no h1 sel ne tgt ids by (cases "validate_and_load_tracks V ts") auto
    have h: "?h = (if q = act then jump_in_queue A V tracks i target S1
         else case replace_items_tx V act ts (qh_db S1) of
           Inl e \<Rightarrow> (Inl e, S1)
         | Inr db \<Rightarrow> jump_in_queue A V tracks i target (S1\<lparr>qh_db := db\<rparr>))"
      using h1 sel ne tgt ids v by simp
    note parsed = parsed_ids [OF ids]
    show ?thesis
    proof (cases "q = act")
      case True
      then show ?thesis
        unfolding h using jump_keeps_loaded [OF refl k ok1 a v] parsed by (simp add: items_def)
    next
      case False
      show ?thesis
      proof (cases "replace_items_tx V act ts (qh_db S1)")
        case (Inl e)
        then show ?thesis using h False ok1 by (simp add: keeps_step_error)
      next
        case (Inr db)
        note rep = replace_items_tx_result [OF Inr]
        have "map (qe_parse_uuid V \<circ> qi_track_id) (items_of db act) = map Inr ts"
          using parsed_canonical [OF pr parsed] rep(1) by (metis list.map_comp)
        then show ?thesis
          using h False Inr rep(2,3) ok1 a
            jump_keeps_loaded [OF refl k, of "S1\<lparr>qh_db := db\<rparr>" act ts tracks] v by simp
      qed
    qed
  qed
qed


lemma transfer_keeps:
  assumes ok: "tables_ok (qe_parse_uuid V) (qh_db S)" and fr: "fresh_ids V (qh_db S)"
    and k: "tracks_keyed V" and src: "qt_source b \<noteq> ''active-queue''"
    and ids: "list_all (\<lambda>t. qe_parse_uuid V t = Inr t) (qt_track_ids b)"
  shows "keeps_step V True S (queue_transfer_handler A V b S)"
proof -
  let ?ids = "qt_track_ids b" and ?i = "unat (qt_current_index b)" and ?P = "qe_parse_uuid V"
  let ?h = "queue_transfer_handler A V b S"
  show ?thesis
  proof (cases "qe_disabled V \<or> ?ids = [] \<or> length ?ids \<le> ?i \<or> is_err (transfer_tracks V ?ids)")
    case True
    then show ?thesis
      using ok by (auto simp: queue_transfer_handler_def Let_def is_err_iff keeps_step_error)
  next
    case False
    then obtain tracks where go: "\<not> qe_disabled V" "?ids \<noteq> []" "\<not> length ?ids \<le> ?i"
      "transfer_tracks V ?ids = Inr tracks"
      by (auto simp: is_ok_iff)
    have v: "validate_and_load_tracks V ?ids = Inr tracks"
      using go(4) by (simp add: transfer_tracks_def map_err_Inr_iff)
    show ?thesis
      using ok fr
    proof (cases rule: active_or_error_cases)
      case (1 e)
      then show ?thesis using go ok by (simp add: queue_transfer_handler_def Let_def keeps_step_error)
    next
      case (2 q S1)
      have f: "tables_ok ?P (qh_db S1)" "active_id (qh_db S1) = Some q"
        using 2(2) by (simp_all add: active_found_def)
      show ?thesis
      proof (cases "transfer_tx V q ?ids (qh_db S1)")
        case (Inl e)
        then show ?thesis using go 2 f by (simp add: queue_transfer_handler_def Let_def keeps_step_error)
      next
        case (Inr db)
        note tx = transfer_tx_result [OF Inr]
        let ?u = "\<lambda>k. qe_uuid V (length ?ids + 1 + k)"
        obtain r1 db1 where s: "save_queue_state V ?u (qt_source b) ?ids (sint (qt_current_index b))
            (qt_position_ms b) db = (r1, db1)" by fastforce
        have u: "?P (?u 0) = Inr (?u 0)" "?u 0 \<notin> qr_id ` set (qd_queues db)" "?u 0 \<noteq> q"
        proof -
          have n: "?u 0 = qe_uuid V (Suc (length ?ids))" by simp
          show "?P (?u 0) = Inr (?u 0)" using fr unfolding fresh_ids_def by blast
          have "q \<noteq> qe_uuid V (Suc i)" "\<forall>r \<in> set (qd_queues (qh_db S1)). qr_id r \<noteq> qe_uuid V (Suc i)" for i
            using 2(2) unfolding active_found_def by blast+
          then show "?u 0 \<notin> qr_id ` set (qd_queues db)" "?u 0 \<noteq> q"
            unfolding n tx(4) by (metis imageE, metis)
        qed
        have sv: "tables_ok ?P db1" "active_id db1 = Some q" "items_of db1 q = items_of db q"
          using save_queue_state_result [where P = ?P and u = ?u, OF s src u(1,2)] tx f u(3) by auto
        obtain r2 S2 where e: "engine_set_queue A V tracks ?i (nth_opt ?ids ?i) (S1\<lparr>qh_db := db1\<rparr>) = (r2, S2)"
          by fastforce
        note er = engine_set_queue_result [OF e]
        obtain r3 S3 where sk: "seek_after_transfer A V (qt_position_ms b) S2 = (r3, S3)" by fastforce
        have db3: "qh_db S3 = qh_db S2"
          using sk by (auto simp: seek_after_transfer_def split: if_splits prod.splits)
        have q3: "engine_queue S3 tracks" if "engine_queue S2 tracks" "is_ok r3"
          using sk that ask_seek
          by (fastforce simp: seek_after_transfer_def engine_queue_def is_ok_iff map_err_Inr_iff
              split: if_splits prod.splits)
        have h: "?h = (case r1 of Inl e \<Rightarrow> (Inl (database_error e), S1\<lparr>qh_db := db1\<rparr>)
           | Inr session \<Rightarrow> (case r2 of Inl e \<Rightarrow> (Inl e, S2)
           | Inr _ \<Rightarrow> (case r3 of Inl e \<Rightarrow> (Inl e, S3)
           | Inr _ \<Rightarrow> (Inr (q, session, qt_current_index b, qt_position_ms b),
                       announce (QueueTransferred session) S3))))"
          using go 2(1) Inr s e sk
          by (simp add: queue_transfer_handler_def Let_def split: sum.splits)
        have P: "map ?P ?ids = map Inr ?ids" using ids by (simp add: list_all_iff)
        have "engine_shows ?P q S3" if "engine_queue S3 tracks"
          using that db3 er(1) sv(3) tx(1) P validated_ids [OF k v]
          by (intro engine_showsI) (auto simp flip: map_map)
        then show ?thesis
          unfolding h using sv er db3 q3
          by (cases r1; cases r2; cases r3)
             (auto simp: keeps_step_def is_ok_iff active_shown_iff engine_shows_def)
      qed
    qed
  qed
qed

lemma reorder_keeps:
  assumes ok: "tables_ok (qe_parse_uuid V) (qh_db S)" and fr: "fresh_ids V (qh_db S)"
    and k: "tracks_keyed V"
  shows "keeps_step V True S (queue_reorder_handler A V is None S)"
  using ok fr
proof (cases rule: active_or_error_cases)
  case (1 e)
  then show ?thesis using ok by (auto simp: queue_reorder_handler_def keeps_step_error)
next
  case (2 q S1)
  have f: "tables_ok (qe_parse_uuid V) (qh_db S1)" "active_id (qh_db S1) = Some q"
    using 2(2) by (simp_all add: active_found_def)
  show ?thesis
  proof (cases "\<exists>e. queue_reorder_handler A V is None S \<in> {(Inl e, S), (Inl e, S1)}")
    case True
    then show ?thesis using ok f by (auto simp: keeps_step_error)
  next
    case False
    then obtain db where tx: "reorder_tx V q is (qh_db S1) = Inr db"
      and nd: "\<not> qe_disabled V"
      using 2(1) by (cases "reorder_tx V q is (qh_db S1)")
        (auto simp: queue_reorder_handler_def Let_def split: if_splits)
    note t = reorder_tx_result(1,2) [OF tx]
    show ?thesis
    proof (cases "engine_track A V (S1\<lparr>qh_db := db\<rparr>)")
      case (Inl e)
      then show ?thesis
        using 2(1) tx nd t f by (simp add: queue_reorder_handler_def keeps_step_error)
    next
      case (Inr cur)
      obtain r S' where s: "sync_active_queue_to_engine A V q cur (S1\<lparr>qh_db := db\<rparr>) = (r, S')"
        by fastforce
      have h: "queue_reorder_handler A V is None S =
          (case r of Inl e \<Rightarrow> (Inl e, S') | Inr _ \<Rightarrow> (Inr (length is), announce (QueueReordered q) S'))"
        using 2(1) tx nd Inr s by (simp add: queue_reorder_handler_def split: sum.splits)
      show ?thesis
        unfolding h using sync_result [OF s] t f k
        by (cases r) (auto simp: keeps_step_def is_ok_iff active_shown_iff engine_shows_def)
    qed
  qed
qed


lemma engine_cleared:
  assumes "engine_set_queue A V [] 0 None S = (r, S')" and "is_ok r"
    and "case active_id (qh_db S) of None \<Rightarrow> True | Some q \<Rightarrow> items_of (qh_db S) q = []"
  shows "active_shown P S'"
  using engine_set_queue_result [OF assms(1)] assms(2,3)
  by (auto simp: active_shown_iff intro: engine_showsI split: option.splits)

lemma clear_keeps:
  assumes ok: "tables_ok (qe_parse_uuid V) (qh_db S)" and fr: "fresh_ids V (qh_db S)"
  shows "keeps_step V False S (clear_queue_handler A V q S)"
  using ok fr
proof (cases rule: active_or_error_cases)
  case (1 e)
  then show ?thesis using ok by (simp add: clear_queue_handler_def keeps_step_error)
next
  case (2 act S1)
  have f: "tables_ok (qe_parse_uuid V) (qh_db S1)" "active_id (qh_db S1) = Some act"
    using 2(2) by (simp_all add: active_found_def)
  let ?S = "S1\<lparr>qh_db := clear_items q (qh_db S1)\<rparr>"
  have okc: "tables_ok (qe_parse_uuid V) (qh_db ?S)"
    using f tables_ok_queues [of "clear_items q (qh_db S1)" "qh_db S1"] by simp
  show ?thesis
  proof (cases "qe_disabled V \<or> qe_fail V ''delete items'' 0 \<noteq> None")
    case True
    then show ?thesis
      using 2(1) ok f by (cases "qe_fail V ''delete items'' 0")
        (simp_all add: clear_queue_handler_def statement_def run_statement_def keeps_step_error)
  next
    case False
    then have st: "statement V ''delete items'' 0 (clear_items q (qh_db S1)) = Inr (clear_items q (qh_db S1))"
      and nd: "\<not> qe_disabled V" by (simp_all add: statement_Inr_iff)
    show ?thesis
    proof (cases "q = act")
      case True
      obtain r S' where e: "engine_set_queue A V [] 0 None ?S = (r, S')" by fastforce
      have h: "clear_queue_handler A V q S = (case r of Inl e \<Rightarrow> (Inl e, S') | Inr _ \<Rightarrow> (Inr q, S'))"
        using 2(1) st nd True e by (simp add: clear_queue_handler_def split: sum.splits)
      show ?thesis
        unfolding h using engine_set_queue_result [OF e] okc engine_cleared [OF e] f True
        by (cases r) (auto simp: keeps_step_def)
    next
      case False
      have "active_shown P ?S = active_shown P S1" for P
        using f False by (intro active_shown_cong) (auto simp: items_of_clear_other)
      then show ?thesis
        using 2(1) st nd False okc found_keeps_shown [OF 2(2,3)]
        by (auto simp: clear_queue_handler_def intro: keeps_stepI)
    qed
  qed
qed

lemma delete_keeps:
  assumes ok: "tables_ok (qe_parse_uuid V) (qh_db S)"
  shows "keeps_step V False S (queue_delete_handler A V q S)"
proof (cases "qe_disabled V \<or> is_err (delete_tx V q (qh_db S))")
  case True
  then show ?thesis using ok by (auto simp: queue_delete_handler_def is_err_iff keeps_step_error)
next
  case False
  then obtain nm db where tx: "delete_tx V q (qh_db S) = Inr (nm, db)" and nd: "\<not> qe_disabled V"
    by (auto simp: is_ok_iff)
  note d = delete_tx_result [OF tx ok]
  show ?thesis
  proof (cases "nm = ''active-queue''")
    case True
    obtain r S' where e: "engine_set_queue A V [] 0 None (S\<lparr>qh_db := db\<rparr>) = (r, S')" by fastforce
    have h: "queue_delete_handler A V q S = (case r of Inl e \<Rightarrow> (Inl e, S') | Inr _ \<Rightarrow> (Inr q, S'))"
      using tx nd True e by (simp add: queue_delete_handler_def split: sum.splits)
    show ?thesis
      unfolding h using engine_set_queue_result [OF e] d(1) engine_cleared [OF e] d(2) [OF True]
      by (cases r) (auto simp: keeps_step_def)
  next
    case False
    have "active_shown P (S\<lparr>qh_db := db\<rparr>) = active_shown P S" for P
      using d(3) [OF False] d(4) by (intro active_shown_cong) auto
    then show ?thesis
      using tx nd False d(1) by (auto simp: queue_delete_handler_def intro: keeps_stepI)
  qed
qed

lemma save_keeps:
  assumes ok: "tables_ok (qe_parse_uuid V) (qh_db S)" and fr: "fresh_ids V (qh_db S)"
  shows "keeps_step V False S (queue_save_handler V ts i p S)"
proof (cases "qe_disabled V")
  case True
  then show ?thesis using ok by (simp add: queue_save_handler_def keeps_step_error)
next
  case False
  obtain r db where s: "save_queue_state V (qe_uuid V) ''saved-queue'' ts (sint i) p (qh_db S) = (r, db)"
    by fastforce
  have u: "qe_parse_uuid V (qe_uuid V 0) = Inr (qe_uuid V 0)"
      "qe_uuid V 0 \<notin> qr_id ` set (qd_queues (qh_db S))"
    using fr unfolding fresh_ids_def by (blast, metis imageE)
  note sv = save_queue_state_result [OF s _ u ok, simplified]
  have "active_id (qh_db S) \<noteq> Some (qe_uuid V 0)" using u(2) active_id_in by blast
  then have "active_shown P (S\<lparr>qh_db := db\<rparr>) = active_shown P S" for P
    using sv by (intro active_shown_cong) auto
  then show ?thesis
    using False s sv by (auto simp: queue_save_handler_def intro: keeps_stepI)
qed

lemma keeps_same: "tables_ok (qe_parse_uuid V) (qh_db S) \<Longrightarrow> keeps_step V False S (r, S)"
  by (auto intro: keeps_stepI)

lemma keeps_found:
  assumes "active_found V (qh_db S) q (qh_db S1)" and "qh_engine S1 = qh_engine S"
  shows "keeps_step V False S (r, S1)"
  using assms found_keeps_shown [OF assms] by (auto simp: active_found_def intro: keeps_stepI)

lemma show_keeps:
  assumes ok: "tables_ok (qe_parse_uuid V) (qh_db S)" and fr: "fresh_ids V (qh_db S)"
  shows "keeps_step V False S (queue_handler A V S)"
    and "keeps_step V False S (queue_saved_handler V S)"
proof -
  show "keeps_step V False S (queue_handler A V S)"
    using ok fr
  proof (cases rule: active_or_error_cases)
    case 1
    then show ?thesis by (simp add: queue_handler_def keeps_same [OF ok] split: sum.split)
  next
    case (2 q S1)
    then show ?thesis
      by (simp add: queue_handler_def keeps_same [OF ok] keeps_found [OF 2(2,3)] split: sum.split)
  qed
  show "keeps_step V False S (queue_saved_handler V S)"
    using ok fr
  proof (cases rule: active_or_error_cases)
    case 1
    then show ?thesis
      by (simp add: queue_saved_handler_def keeps_same [OF ok] split: sum.split option.split)
  next
    case (2 q S1)
    then show ?thesis
      by (simp add: queue_saved_handler_def Let_def keeps_same [OF ok] keeps_found [OF 2(2,3)]
          split: sum.split option.split prod.split)
  qed
qed

lemma keeps_stepD:
  assumes "keeps_step V l S p" and "map_prod is_ok id p = (done, S')"
  shows "tables_ok (qe_parse_uuid V) (qh_db S') \<and>
      (done \<longrightarrow> l \<or> active_shown (qe_parse_uuid V) S \<longrightarrow> active_shown (qe_parse_uuid V) S')"
  using assms by (cases p) (auto simp: keeps_step_def)

text \<open>One command.\<close>

lemma command_keeps:
  assumes "run_queue_command A V c S = (done, S')"
    and "tables_ok (qe_parse_uuid V) (qh_db S)" and "fresh_ids V (qh_db S)"
    and "tracks_keyed V" and "uuid_parser (qe_parse_uuid V)" and "proper_command (qe_parse_uuid V) c"
  shows "tables_ok (qe_parse_uuid V) (qh_db S')"
    and "done \<Longrightarrow> loads_queue c \<or> active_shown (qe_parse_uuid V) S \<Longrightarrow>
           active_shown (qe_parse_uuid V) S'"
proof -
  have "tables_ok (qe_parse_uuid V) (qh_db S') \<and>
      (done \<longrightarrow> loads_queue c \<or> active_shown (qe_parse_uuid V) S \<longrightarrow> active_shown (qe_parse_uuid V) S')"
  proof (cases c)
    case (AddTracks ts)
    then show ?thesis using assms(1) add_keeps [OF assms(2-4)] by (auto dest!: keeps_stepD)
  next
    case (JumpTo q i)
    then show ?thesis using assms(1) jump_keeps [OF assms(2-5)] by (auto dest!: keeps_stepD)
  next
    case (TransferIn b)
    then show ?thesis using assms(1,6) transfer_keeps [OF assms(2-4), of b] by (auto dest!: keeps_stepD)
  next
    case (ReorderActive "is")
    then show ?thesis using assms(1) reorder_keeps [OF assms(2-4)] by (auto dest!: keeps_stepD)
  next
    case (ClearQueue q)
    then show ?thesis using assms(1) clear_keeps [OF assms(2,3)] by (auto dest!: keeps_stepD)
  next
    case (DeleteQueue q)
    then show ?thesis using assms(1) delete_keeps [OF assms(2)] by (auto dest!: keeps_stepD)
  next
    case (SaveQueue ts i p)
    then show ?thesis using assms(1) save_keeps [OF assms(2,3)] by (auto dest!: keeps_stepD)
  next
    case ShowQueue
    then show ?thesis using assms(1) show_keeps(1) [OF assms(2,3)] by (auto dest!: keeps_stepD)
  next
    case ShowSaved
    then show ?thesis using assms(1) show_keeps(2) [OF assms(2,3)] by (auto dest!: keeps_stepD)
  qed
  then show "tables_ok (qe_parse_uuid V) (qh_db S')"
    "done \<Longrightarrow> loads_queue c \<or> active_shown (qe_parse_uuid V) S \<Longrightarrow> active_shown (qe_parse_uuid V) S'"
    by blast+
qed


section \<open>Runs\<close>

text \<open>
  Any sequence of queue commands, successful or not, from an empty table of queues, and in between
  whatever else happens to the engine as long as it keeps its queue. The flag says that the last
  commands since one that loaded the queue all succeeded.
\<close>

inductive queue_run ::
  "'s AudioSink \<Rightarrow> (string \<Rightarrow> string + uuid) \<Rightarrow> 's QueueHost \<Rightarrow> bool \<Rightarrow> bool" for A P where
  start: "qd_queues (qh_db S) = [] \<Longrightarrow> queue_run A P S False"
| command: "queue_run A P S b \<Longrightarrow> qe_parse_uuid V = P \<Longrightarrow> fresh_ids V (qh_db S) \<Longrightarrow> tracks_keyed V \<Longrightarrow>
     proper_command P c \<Longrightarrow> run_queue_command A V c S = (done, S') \<Longrightarrow>
     queue_run A P S' (done \<and> (loads_queue c \<or> b))"
| playback: "queue_run A P S b \<Longrightarrow> map_option eng_queue task = map_option eng_queue (qh_engine S) \<Longrightarrow>
     queue_run A P (S\<lparr>qh_engine := task\<rparr>) b"

lemma active_shown_playback:
  assumes "map_option eng_queue task = map_option eng_queue (qh_engine S)" and "active_shown P S"
  shows "active_shown P (S\<lparr>qh_engine := task\<rparr>)"
  using assms by (cases task; cases "qh_engine S") (auto simp: active_shown_def split: option.splits)

section \<open>Properties\<close>

text \<open>
  Invariant. Whatever the queue routes do, the table of queues keeps one active queue at most;
  and from a successful add, jump, transfer or reorder on, until a command fails, the engine plays
  exactly the tracks of the active queue, in their order.
\<close>

theorem engine_plays_active_queue:
  assumes "uuid_parser P" and "queue_run A P S shown"
  shows "tables_ok P (qh_db S) \<and> (shown \<longrightarrow> active_shown P S)"
  using assms(2)
proof (induction rule: queue_run.induct)
  case (start S)
  then show ?case by (simp add: tables_ok_def)
next
  case (command S b V c d S')
  then show ?case
    using command_keeps [OF command.hyps(6), folded command.hyps(2)] assms(1) by auto
next
  case (playback S b task)
  then show ?case by (auto intro: active_shown_playback)
qed

definition queue_demo_env :: QueueEnv where
  "queue_demo_env =
     \<lparr>qe_engine = demo_env, qe_disabled = False, qe_fail = (\<lambda>_ _. None), qe_parse_uuid = Inr,
      qe_uuid = (\<lambda>n. replicate (Suc n) (CHR ''q'')), qe_now = 7,
      qe_tracks = (\<lambda>t. Inr (Some (demo_track t))), qe_music_paths = [], qe_ids_text = concat\<rparr>"

definition queue_demo_host :: "unit ReceiverAudioSink QueueHost" where
  "queue_demo_host =
     \<lparr>qh_db = \<lparr>qd_queues = [], qd_items = [], qd_sessions = []\<rparr>,
      qh_engine = Some (new_with_events default_pcm_format 0), qh_bus = []\<rparr>"

definition queue_demo_added :: "unit ReceiverAudioSink QueueHost" where
  "queue_demo_added =
     snd (run_queue_command (receiver_sink demo_manager) queue_demo_env
            (AddTracks [''b'', ''a'']) queue_demo_host)"

lemma queue_demo_sound:
  "fresh_ids queue_demo_env (qh_db queue_demo_host)" "tracks_keyed queue_demo_env"
  "uuid_parser Inr" "qe_parse_uuid queue_demo_env = Inr" "tables_ok Inr (qh_db queue_demo_host)"
  by (auto simp: fresh_ids_def tracks_keyed_def uuid_parser_def queue_demo_env_def tables_ok_def
      queue_demo_host_def demo_track_def inj_def replicate_eq_replicate)

lemmas queue_eval = queue_items_handler_def get_track_def add_items_tx_def active_in_tx_def
  statement_def run_statement_def active_row_def new_queue_def max_position_def add_item_def
  touch_queue_def engine_track_def handle_snapshot_def send_command_def handle_command_def
  engine_snapshot_def sync_active_queue_to_engine_def items_of_def engine_set_queue_def
  handle_set_queue_def ask_def answer_def cmd_set_queue_def recompute_play_order_def Let_def
  announce_def new_with_events_def current_track_id_def

lemma queue_demo_adds:
  "run_queue_command (receiver_sink demo_manager) queue_demo_env (AddTracks [''b'', ''a''])
     queue_demo_host = (True, queue_demo_added)"
  "map qi_track_id (items_of (qh_db queue_demo_added) ''q'') = [''b'', ''a'']"
  "map_option (map trk_id \<circ> eng_queue) (qh_engine queue_demo_added) = Some [''b'', ''a'']"
  by (simp_all add: queue_demo_added_def queue_demo_host_def queue_demo_env_def demo_env_def
      demo_track_def queue_eval)


lemma engine_plays_active_queue_witness:
  "uuid_parser Inr \<and> queue_run (receiver_sink demo_manager) Inr queue_demo_added True \<and>
   tables_ok Inr (qh_db queue_demo_added) \<and> active_shown Inr queue_demo_added"
proof -
  have "queue_run (receiver_sink demo_manager) Inr queue_demo_host False"
    by (rule queue_run.start) (simp add: queue_demo_host_def)
  from queue_run.command [OF this queue_demo_sound(4,1,2) _ queue_demo_adds(1)]
  have r: "queue_run (receiver_sink demo_manager) Inr queue_demo_added True" by simp
  show ?thesis
    using r queue_demo_sound(3) engine_plays_active_queue [OF queue_demo_sound(3) r] by simp
qed

text \<open>
  C30 (safety). Adding to the queue is all or nothing: either the tables are as they were and the
  answer is an error, or every requested track stands, in order, behind the items the active queue
  had, and no other queue has changed. An answer without error means the second.
\<close>

theorem adding_is_all_or_nothing:
  assumes "queue_items_handler A V ts S = (r, S')"
    and "tables_ok (qe_parse_uuid V) (qh_db S)" and "fresh_ids V (qh_db S)"
  shows "is_err r \<and> qh_db S' = qh_db S \<or>
    (\<exists>q. active_id (qh_db S') = Some q \<and> active_id (qh_db S) \<in> {None, Some q} \<and>
       map qi_track_id (items_of (qh_db S') q) = map qi_track_id (items_of (qh_db S) q) @ ts \<and>
       (\<forall>q'. q' \<noteq> q \<longrightarrow> items_of (qh_db S') q' = items_of (qh_db S) q'))"
proof (cases "is_err r \<and> qh_db S' = qh_db S")
  case False
  then obtain q db where tx: "add_items_tx V ts (qh_db S) = Inr (q, db)" and db: "qh_db S' = db"
    using assms(1) by (auto simp: queue_items_handler_def Let_def is_err_iff dest: sync_result(1)
        split: if_splits sum.splits prod.splits)
  obtain db1 new where f: "active_found V (qh_db S) q db1" and "active_id db = Some q"
    "items_of db q = items_of db1 q @ new" "map qi_track_id new = ts"
    "\<forall>q'. q' \<noteq> q \<longrightarrow> items_of db q' = items_of (qh_db S) q'"
    using add_items_tx_result [OF tx assms(2,3)] by blast
  moreover have "items_of db1 q = items_of (qh_db S) q" "active_id (qh_db S) \<in> {None, Some q}"
    using f by (auto simp: active_found_def items_of_def)
  ultimately show ?thesis unfolding db by (intro disjI2 exI [of _ q]) simp
qed blast

lemma adding_is_all_or_nothing_witness:
  "\<exists>r S'. queue_items_handler (receiver_sink demo_manager) queue_demo_env [''b'', ''a'']
       queue_demo_host = (r, S') \<and>
     (is_err r \<and> qh_db S' = qh_db queue_demo_host \<or>
      (\<exists>q. active_id (qh_db S') = Some q \<and> active_id (qh_db queue_demo_host) \<in> {None, Some q} \<and>
         map qi_track_id (items_of (qh_db S') q) =
           map qi_track_id (items_of (qh_db queue_demo_host) q) @ [''b'', ''a''] \<and>
         (\<forall>q'. q' \<noteq> q \<longrightarrow> items_of (qh_db S') q' = items_of (qh_db queue_demo_host) q')))"
proof -
  obtain r S' where h: "queue_items_handler (receiver_sink demo_manager) queue_demo_env
      [''b'', ''a''] queue_demo_host = (r, S')" by fastforce
  show ?thesis
    using h adding_is_all_or_nothing [OF h] queue_demo_sound by (intro exI conjI) auto
qed

lemma same_ids:
  assumes "distinct xs" and "distinct ys" and "length xs = length ys" and "set ys \<subseteq> set xs"
  shows "mset xs = mset ys"
proof -
  have "set ys = set xs" using assms by (intro card_subset_eq) (simp_all add: distinct_card)
  then show ?thesis using assms by (simp add: set_eq_iff_mset_eq_distinct)
qed

text \<open>
  C31 (functional). A reordering that succeeds with the identifiers of the queue's items, each once,
  leaves the same items in exactly the requested order.
\<close>

theorem reorder_gives_requested_order:
  assumes "queue_reorder_handler A V ids qid S = (Inr n, S')" and "distinct ids"
    and "qid = Some q \<or> qid = None \<and> active_id (qh_db S) = Some q"
    and "tables_ok (qe_parse_uuid V) (qh_db S)" and "fresh_ids V (qh_db S)"
    and "distinct (map qi_id (items_of (qh_db S) q))"
  shows "map qi_id (items_of (qh_db S') q) = ids \<and>
    mset (map (\<lambda>i. (qi_id i, qi_track_id i)) (items_of (qh_db S') q)) =
    mset (map (\<lambda>i. (qi_id i, qi_track_id i)) (items_of (qh_db S) q))"
proof -
  obtain S1 where q: "(case qid of Some q \<Rightarrow> (Inr q, S) | None \<Rightarrow> active_or_error V S) = (Inr q, S1)"
    and db1: "qh_db S1 = qh_db S"
  proof (cases qid)
    case (Some q')
    then show thesis using assms(3) that by auto
  next
    case None
    from assms(4,5) show thesis
    proof (cases rule: active_or_error_cases)
      case (1 e)
      then show thesis using assms(1) None by (auto simp: queue_reorder_handler_def split: if_splits)
    next
      case (2 q' S1)
      then have "q' = q" "qh_db S1 = qh_db S" using assms(3) None by (auto simp: active_found_def)
      then show thesis using 2(1) None that by simp
    qed
  qed
  then obtain db where tx: "reorder_tx V q ids (qh_db S) = Inr db" and db: "qh_db S' = db"
    using assms(1) by (auto simp: queue_reorder_handler_def Let_def dest: sync_result(1)
        split: if_splits sum.splits prod.splits)
  obtain db2 where rp: "reposition V 0 q ids (qh_db S) = Inr db2" and t: "db = touch_queue q (qe_now V) db2"
    using reorder_tx_result(3,4) [OF tx] by blast
  have "length (map qi_id (items_of (qh_db S) q)) = length ids"
    "set ids \<subseteq> set (map qi_id (items_of (qh_db S) q))"
    using reorder_tx_result(5) [OF tx]
    by (auto simp: check_item_ids_def items_of_def find_None_iff split: if_splits option.splits)
  then have m: "mset (map qi_id (items_of (qh_db S) q)) = mset ids"
    by (rule same_ids [OF assms(6,2)])
  have "map qi_id (items_of db2 q) = ids" by (rule reposition_order [OF rp assms(2) m])
  moreover have "mset (map (\<lambda>i. (qi_id i, qi_track_id i)) (items_of db2 q)) =
      mset (map (\<lambda>i. (qi_id i, qi_track_id i)) (items_of (qh_db S) q))"
    using reposition_place [OF rp] by (simp add: items_of_def filter_map comp_def multiset.map_comp)
  ultimately show ?thesis by (simp add: db t)
qed


text \<open>The next request draws other identifiers.\<close>

definition queue_demo_next :: QueueEnv where
  "queue_demo_next = queue_demo_env\<lparr>qe_uuid := \<lambda>n. replicate (Suc n) (CHR ''p'')\<rparr>"

lemma queue_demo_added_db:
  "qd_queues (qh_db queue_demo_added) =
     [\<lparr>qr_id = ''q'', qr_name = ''active-queue'', qr_created_at = 7, qr_updated_at = 7\<rparr>]"
  "qd_items (qh_db queue_demo_added) =
     [\<lparr>qi_id = ''qq'', qi_queue_id = ''q'', qi_track_id = ''b'', qi_position = 0, qi_added_at = 7\<rparr>,
      \<lparr>qi_id = ''qqq'', qi_queue_id = ''q'', qi_track_id = ''a'', qi_position = 1, qi_added_at = 7\<rparr>]"
  by (simp_all add: queue_demo_added_def queue_demo_host_def queue_demo_env_def demo_env_def
      demo_track_def queue_eval)

lemma queue_demo_next_sound:
  "fresh_ids queue_demo_next (qh_db queue_demo_added)"
  "tables_ok (qe_parse_uuid queue_demo_next) (qh_db queue_demo_added)"
  by (auto simp: fresh_ids_def tables_ok_def queue_demo_added_db queue_demo_next_def
      queue_demo_env_def inj_def replicate_eq_replicate Cons_replicate_eq)

definition queue_demo_reordered :: "unit ReceiverAudioSink QueueHost" where
  "queue_demo_reordered =
     snd (queue_reorder_handler (receiver_sink demo_manager) queue_demo_next
            [''qqq'', ''qq''] None queue_demo_added)"

lemmas queue_reorder_eval = queue_eval queue_reorder_handler_def active_or_error_def
  get_or_create_active_queue_def reorder_tx_def check_item_ids_def set_position_def

lemma queue_demo_reorders:
  "queue_reorder_handler (receiver_sink demo_manager) queue_demo_next [''qqq'', ''qq''] None
     queue_demo_added = (Inr 2, queue_demo_reordered)"
  "map qi_track_id (items_of (qh_db queue_demo_reordered) ''q'') = [''a'', ''b'']"
  by (simp_all add: queue_demo_reordered_def queue_demo_added_def queue_demo_host_def
      queue_demo_next_def queue_demo_env_def demo_env_def demo_track_def queue_reorder_eval)

lemma reorder_gives_requested_order_witness:
  "map qi_id (items_of (qh_db queue_demo_reordered) ''q'') = [''qqq'', ''qq''] \<and>
   mset (map (\<lambda>i. (qi_id i, qi_track_id i)) (items_of (qh_db queue_demo_reordered) ''q'')) =
   mset (map (\<lambda>i. (qi_id i, qi_track_id i)) (items_of (qh_db queue_demo_added) ''q''))"
proof (rule reorder_gives_requested_order [OF queue_demo_reorders(1) _ _ queue_demo_next_sound(2,1)])
  show "(None :: uuid option) = Some ''q'' \<or> (None :: uuid option) = None \<and>
      active_id (qh_db queue_demo_added) = Some ''q''"
    by (simp add: active_id_def active_row_def queue_demo_added_db)
  show "distinct (map qi_id (items_of (qh_db queue_demo_added) ''q''))"
    by (simp add: items_of_def queue_demo_added_db)
qed simp

section \<open>What the routes do not check\<close>

text \<open>The identifiers of a reordering may repeat: one item is left where it was, and two items share
  a position.\<close>

lemma reorder_accepts_repeated_ids:
  "map qi_position (qd_items (qh_db (snd (queue_reorder_handler (receiver_sink demo_manager)
     queue_demo_next [''qq'', ''qq''] None queue_demo_added)))) = [1, 1] \<and>
   is_ok (fst (queue_reorder_handler (receiver_sink demo_manager)
     queue_demo_next [''qq'', ''qq''] None queue_demo_added))"
  by (simp_all add: queue_demo_added_def queue_demo_host_def
      queue_demo_next_def queue_demo_env_def demo_env_def demo_track_def queue_reorder_eval)

text \<open>Reordering another queue loads that queue into the engine, which then no longer plays from the
  active queue.\<close>

definition queue_demo_saved :: "unit ReceiverAudioSink QueueHost" where
  "queue_demo_saved =
     snd (run_queue_command (receiver_sink demo_manager) queue_demo_next
            (SaveQueue [''c''] 0 0) queue_demo_added)"

lemma reordering_another_queue_loads_it:
  "active_shown Inr queue_demo_saved \<and>
   (let r = queue_reorder_handler (receiver_sink demo_manager) queue_demo_env [''ppp''] (Some ''p'')
              queue_demo_saved
    in is_ok (fst r) \<and> active_id (qh_db (snd r)) = Some ''q'' \<and>
       map_option (map trk_id \<circ> eng_queue) (qh_engine (snd r)) = Some [''c''] \<and>
       \<not> active_shown Inr (snd r))"
  by (simp add: queue_demo_saved_def queue_demo_added_def queue_demo_host_def
      queue_demo_next_def queue_demo_env_def demo_env_def demo_track_def queue_reorder_eval
      queue_save_handler_def save_queue_state_def active_shown_def active_id_def saved_session_def)


text \<open>A transfer of a queue that has the current track twice: the engine's cursor goes to the first
  occurrence, not to the transferred index.\<close>

definition queue_demo_transfer :: "string \<Rightarrow> QueueTransferBody" where
  "queue_demo_transfer source =
     \<lparr>qt_track_ids = [''a'', ''b'', ''a''], qt_current_index = 2, qt_position_ms = 0,
      qt_source = source\<rparr>"

lemmas queue_transfer_eval = queue_eval queue_transfer_handler_def transfer_tracks_def transfer_tx_def
  clear_items_def active_or_error_def get_or_create_active_queue_def save_queue_state_def
  saved_session_def seek_after_transfer_def queue_demo_transfer_def

lemma third_id: "nth_opt [''a'', ''b'', ''a''] 2 = Some ''a''"
  by (simp add: nth_opt_def)

lemma transfer_moves_the_cursor:
  "let r = queue_transfer_handler (receiver_sink demo_manager) queue_demo_env
             (queue_demo_transfer ''phone'') queue_demo_host
   in is_ok (fst r) \<and> map_option eng_queue_index (qh_engine (snd r)) = Some 0"
  by (simp add: queue_demo_host_def queue_demo_env_def demo_env_def demo_track_def
      queue_transfer_eval third_id del: nth_opt_Some_iff)

text \<open>The saved session names the first track as the current one, whatever the index.\<close>

lemma saved_session_names_first_track:
  "sess_current_track_id (saved_session V i q (t # ts) k p) = Some t \<and>
   sess_current_index (saved_session V i q (t # ts) k p) = k"
  by (simp add: saved_session_def)

text \<open>A transfer whose source is called \<open>active-queue\<close> leaves two active queues.\<close>

lemma transfer_can_duplicate_active_queue:
  "\<not> tables_ok Inr (qh_db (snd (queue_transfer_handler (receiver_sink demo_manager) queue_demo_env
       (queue_demo_transfer ''active-queue'') queue_demo_host)))"
  by (simp add: queue_demo_host_def queue_demo_env_def demo_env_def demo_track_def
      queue_transfer_eval tables_ok_def)

end
