(* ===== verification/Playback_Theorems.thy ===== *)
theory Playback_Theorems
  imports Playback_Restore Queue_Properties
begin

text \<open>
  What one call of the engine leaves of it, and what the playback handlers do to the tables and to
  the engine's queue.
\<close>

section \<open>The queue of the engine\<close>

lemma switch_track_queue: "eng_queue (snd (switch_track A E t e)) = eng_queue e"
  by (simp add: switch_track_def Let_def start_playback_frame(1) [OF prod.collapse [symmetric]])

lemma switch_selected_queue:
  "switch_selected A E e = Inr r \<Longrightarrow> eng_queue (snd r) = eng_queue e"
  by (auto simp: switch_selected_def switch_track_queue select_current_def split: sum.splits option.splits)

lemma restart_current_queue: "eng_queue (snd (restart_current A E e)) = eng_queue e"
  by (simp add: restart_current_def start_playback_frame(1) [OF prod.collapse [symmetric]]
      split: option.split)

lemma command_queues:
  "eng_queue (snd (cmd_play A E t ss od p e)) = eng_queue e"
  "eng_queue (snd (cmd_load_track A t p e)) = eng_queue e"
  "eng_queue (snd (cmd_jump_to_index A E i e)) = eng_queue e"
  "eng_queue (snd (cmd_pause A E e)) = eng_queue e"
  "eng_queue (snd (cmd_resume A E e)) = eng_queue e"
  "eng_queue (snd (cmd_seek E p e)) = eng_queue e"
  "eng_queue (snd (cmd_stop A e)) = eng_queue e"
  "eng_queue (snd (cmd_set_volume A v e)) = eng_queue e"
  "eng_queue (snd (cmd_set_shuffle E b e)) = eng_queue e"
  "eng_queue (snd (cmd_set_repeat r e)) = eng_queue e"
  by (simp_all add: cmd_play_def cmd_load_track_def cmd_jump_to_index_def cmd_pause_def cmd_resume_def
      cmd_seek_def cmd_stop_def cmd_set_volume_def cmd_set_shuffle_def cmd_set_repeat_def Let_def
      start_playback_frame(1) [OF prod.collapse [symmetric]]
      split_beta split: option.split sum.split)

lemma switching_queues:
  "cmd_next A E e = Inr r \<Longrightarrow> eng_queue (snd r) = eng_queue e"
  "cmd_previous A E e = Inr r \<Longrightarrow> eng_queue (snd r) = eng_queue e"
  by (auto simp: cmd_next_def cmd_previous_def Let_def restart_current_queue dest!: switch_selected_queue
      split: if_splits)


text \<open>The commands that leave the queue alone.\<close>

fun leaves_queue :: "'s EngineCommand \<Rightarrow> bool" where
  "leaves_queue (CmdSetQueue _ _ _ _) = False"
| "leaves_queue CmdShutdown = False"
| "leaves_queue _ = True"

lemma answer_eq: "answer x = Inr (reply, e', go) \<longleftrightarrow> reply = Answer (fst x) \<and> e' = snd x \<and> go"
  by (auto simp: answer_def)

lemma command_leaves_queue:
  assumes "handle_command A E cmd e = Inr (reply, e', go)" and "leaves_queue cmd"
  shows "eng_queue e' = eng_queue e \<and> go"
  using assms
  by (cases cmd) (auto simp: handle_command_def answer_eq answer_or_panic_def command_queues
      split: sum.splits dest: switching_queues)

lemma ask_leaves_queue:
  assumes "ask A E cmd task = (r, task')" and "leaves_queue cmd"
  shows "task' = None \<or> map_option eng_queue task' = map_option eng_queue task"
    and "is_ok r \<Longrightarrow> map_option eng_queue task' = map_option eng_queue task"
proof -
  have *: "map_option eng_queue task' = map_option eng_queue task \<or> task' = None \<and> r = Inl ChannelClosed"
  proof (cases task)
    case None
    then show ?thesis using assms(1) by (simp add: ask_def send_command_def)
  next
    case (Some e)
    show ?thesis
    proof (cases "handle_command A E cmd e")
      case (Inl p)
      then show ?thesis using assms(1) Some by (simp add: ask_def send_command_def)
    next
      case (Inr x)
      obtain reply e' go where x: "x = (reply, e', go)" by (cases x)
      note q = command_leaves_queue [OF Inr [unfolded x] assms(2)]
      have "task' = Some e'"
        using assms(1) Some Inr x q by (cases reply) (simp_all add: ask_def send_command_def)
      then show ?thesis using q Some by simp
    qed
  qed
  then show "task' = None \<or> map_option eng_queue task' = map_option eng_queue task" by blast
  show "is_ok r \<Longrightarrow> map_option eng_queue task' = map_option eng_queue task"
    using * by (auto simp: is_ok_iff)
qed

text \<open>One call of a command that cannot panic.\<close>

lemma ask_answered:
  assumes "handle_command_inner A E cmd (e\<lparr>eng_command_origin := Some (cmd_origin cmd)\<rparr>) = answer x"
  shows "ask A E cmd (Some e) = (fst x, Some ((snd x)\<lparr>eng_command_origin := None\<rparr>))"
  using assms by (simp add: ask_def send_command_def handle_command_def answer_def)

section \<open>Handlers that only talk to the engine\<close>

text \<open>The tables and, short of a dead engine, its queue are as before.\<close>

definition engine_only :: "'m PlaybackHost \<Rightarrow> ('a, 'm) played \<Rightarrow> bool" where
  "engine_only H p \<longleftrightarrow>
     host_db (snd p) = host_db H \<and>
     (host_task (snd p) = None \<or> map_option eng_queue (host_task (snd p)) = map_option eng_queue (host_task H)) \<and>
     (is_ok (fst p) \<longrightarrow> map_option eng_queue (host_task (snd p)) = map_option eng_queue (host_task H))"

lemma engine_only_same: "engine_only H (r, H)"
  by (simp add: engine_only_def)

lemma engine_only_ask:
  assumes "\<And>task. f task = ask A E cmd task" and "leaves_queue cmd"
  shows "engine_only H (ask_engine err f H)"
proof -
  obtain r task' where a: "ask A E cmd (host_task H) = (r, task')" by fastforce
  have "is_ok (map_err err r) = is_ok r" by (cases r) simp_all
  then show ?thesis
    using ask_leaves_queue [OF a assms(2)] by (auto simp: ask_engine_def assms(1) a engine_only_def)
qed

lemma engine_only_proceed:
  assumes "engine_only H p" and "\<And>x H'. p = (Inr x, H') \<Longrightarrow> engine_only H' (f x H')"
  shows "engine_only H (proceed p f)"
proof (cases p)
  case (Pair r H1)
  show ?thesis
  proof (cases r)
    case (Inl e)
    then show ?thesis using assms(1) Pair by (simp add: proceed_def engine_only_def)
  next
    case (Inr x)
    then show ?thesis
      using assms(1) assms(2) [of x H1] Pair
      by (cases "f x H1") (auto simp: proceed_def engine_only_def)
  qed
qed

lemma look_same: "snd (look err M E H) = H"
  by (simp add: look_def)

lemma engine_only_look: "engine_only H (look err M E H)"
  by (simp add: look_def engine_only_same)

lemmas handle_asks = handle_play_def handle_load_track_def handle_jump_to_index_def handle_pause_def
  handle_resume_def handle_seek_def handle_next_def handle_previous_def handle_stop_def
  handle_set_volume_def handle_set_shuffle_def handle_set_repeat_def

lemma engine_only_calls:
  "engine_only H (ask_engine err (handle_play A E t ss od p o') H)"
  "engine_only H (ask_engine err (handle_load_track A E t p o') H)"
  "engine_only H (ask_engine err (handle_pause A E o') H)"
  "engine_only H (ask_engine err (handle_resume A E o') H)"
  "engine_only H (ask_engine err (handle_seek A E p o') H)"
  "engine_only H (ask_engine err (handle_next A E) H)"
  "engine_only H (ask_engine err (handle_previous A E) H)"
  "engine_only H (ask_engine err (handle_stop A E o') H)"
  "engine_only H (ask_engine err (handle_set_volume A E v o') H)"
  "engine_only H (ask_engine err (handle_set_shuffle A E b) H)"
  "engine_only H (ask_engine err (handle_set_repeat A E r) H)"
  by (rule engine_only_ask, simp add: handle_asks, simp)+

lemma engine_only_plan: "engine_only H (play_plan M E t plan p H)"
  by (simp add: play_plan_def engine_only_calls)

lemmas engine_only_intros = engine_only_proceed engine_only_same engine_only_look engine_only_calls
  engine_only_plan

lemma control_only:
  "engine_only H (engine_resume err M E H)" "engine_only H (control_toggle M V H)"
  "engine_only H (engine_volume M E v H)" "engine_only H (control_volume M E vol val H)"
  "engine_only H (control_seek M E p val H)"
proof -
  show r: "engine_only H (engine_resume err M E H)" for err E H
    unfolding engine_resume_def by (intro engine_only_intros)
  show "engine_only H (control_toggle M V H)"
    unfolding control_toggle_def by (intro engine_only_intros) (simp add: r engine_only_intros)
  show v: "engine_only H (engine_volume M E v H)" for v H
    unfolding engine_volume_def by (intro engine_only_intros)
  show "engine_only H (control_volume M E vol val H)"
    by (simp add: control_volume_def Let_def v engine_only_same split: option.split)
  show "engine_only H (control_seek M E p val H)"
    by (simp add: control_seek_def engine_only_intros split: option.split)
qed


section \<open>Tables and queue after each handler\<close>

abbreviation queue_side :: "('a, 'm) played \<Rightarrow> 'a queue_result \<times> 'm ReceiverAudioSink QueueHost" where
  "queue_side p \<equiv> map_prod id ph_host p"

lemma active_shown_queue:
  assumes "qh_db S' = qh_db S" and "map_option eng_queue (qh_engine S') = map_option eng_queue (qh_engine S)"
  shows "active_shown P S' = active_shown P S"
  using assms by (cases "qh_engine S"; cases "qh_engine S'")
    (auto simp: active_shown_def split: option.splits)

lemma engine_only_keeps:
  assumes "engine_only H p" and "tables_ok (qe_parse_uuid V) (host_db H)"
  shows "keeps_step V False (ph_host H) (queue_side p)"
  using assms active_shown_queue [of "ph_host (snd p)" "ph_host H"]
  by (cases p) (auto simp: engine_only_def keeps_step_def)

lemma keeps_step_trans:
  assumes "keeps_step V l S (Inr x, S1)" and "keeps_step V False S1 p"
  shows "keeps_step V l S p"
  using assms by (cases p) (auto simp: keeps_step_def)

lemma proceed_simps [simp]:
  "proceed (Inl e, H) f = (Inl e, H)" "proceed (Inr x, H) f = f x H"
  by (simp_all add: proceed_def)

lemma host_fields [simp]:
  "host_db (set_db db H) = db" "host_task (set_db db H) = host_task H"
  "ph_selection (set_db db H) = ph_selection H" "ph_host (set_db db H) = (ph_host H)\<lparr>qh_db := db\<rparr>"
  by (simp_all add: set_db_def)

lemma active_or_error_split:
  "active_or_error V S = (case get_or_create_active_queue V (qh_db S) of
     (r, db) \<Rightarrow> (map_err database_error r, S\<lparr>qh_db := db\<rparr>))"
  by (simp add: active_or_error_def)

lemma control_play_keeps:
  assumes ok: "tables_ok (qe_parse_uuid (pv_queue V)) (host_db H)" and fr: "fresh_ids (pv_queue V) (host_db H)"
  shows "keeps_step (pv_queue V) False (ph_host H) (queue_side (control_play M V t p H))"
proof (cases "handle_snapshot (receiver_sink M) (pv_call V 0) (host_task H)")
  case (Inl e)
  then show ?thesis using ok by (simp add: control_play_def look_def keeps_step_error)
next
  case (Inr snap)
  show ?thesis
  proof (cases "t = None \<and> snap_lifecycle snap = Paused")
    case True
    then have "control_play M V t p H = engine_resume resume_paused_failure M (pv_call V 1) H"
      using Inr by (simp add: control_play_def look_def)
    then show ?thesis using engine_only_keeps [OF control_only(1) ok] by metis
  next
    case False
    obtain r db where g: "get_or_create_active_queue (pv_queue V) (host_db H) = (r, db)" by fastforce
    have ae: "active_or_error (pv_queue V) (ph_host H) = (map_err database_error r, (ph_host H)\<lparr>qh_db := db\<rparr>)"
      by (simp add: active_or_error_split g)
    define rest where "rest = (\<lambda>q H. proceed (first_queue_track (pv_queue V) q (host_db H), H) (\<lambda>first H.
            case (case t of Some t \<Rightarrow> Some t | None \<Rightarrow> first) of
              None \<Rightarrow> (Inl (invalid_request ''no track_id specified and queue is empty''), H)
            | Some t \<Rightarrow>
                proceed (validate_and_load_tracks (pv_queue V) [t], H) (\<lambda>tracks H.
                proceed (selected_plan no_output_selected M V H, H) (\<lambda>plan H.
                proceed (play_plan M (pv_call V 1) (hd tracks) plan
                           (case p of Some p \<Rightarrow> p | None \<Rightarrow> 0) H)
                  (\<lambda>_ H. (Inr (LifecycleAccepted ''preparing''), H))))))"
    have h: "control_play M V t p H = proceed (map_err database_error r, set_db db H) rest"
      using Inr False by (cases t) (simp_all add: control_play_def look_def g rest_def)
    have only: "engine_only H' (rest q H')" for q H'
      unfolding rest_def
      by (intro engine_only_intros) (auto intro!: engine_only_intros split: option.split)
    from ok fr show ?thesis
    proof (cases rule: active_or_error_cases)
      case (1 e)
      then have "set_db db H = H" "map_err database_error r = Inl e"
        using ae by (simp_all add: set_db_def)
      then show ?thesis using h ok by (simp add: keeps_step_error)
    next
      case (2 q S1)
      then have S1: "S1 = (ph_host H)\<lparr>qh_db := db\<rparr>" and r: "map_err database_error r = Inr q"
        using ae by simp_all
      have ok1: "tables_ok (qe_parse_uuid (pv_queue V)) (host_db (set_db db H))"
        using 2(2) S1 by (simp add: active_found_def)
      have "keeps_step (pv_queue V) False (ph_host H) (Inr q, ph_host (set_db db H))"
        using keeps_found [OF 2(2,3)] S1 by simp
      then show ?thesis
        unfolding h r using engine_only_keeps [OF only ok1] by (auto intro: keeps_step_trans)
    qed
  qed
qed

lemma control_keeps:
  assumes ok: "tables_ok (qe_parse_uuid (pv_queue V)) (host_db H)" and fr: "fresh_ids (pv_queue V) (host_db H)"
  shows "keeps_step (pv_queue V) False (ph_host H) (queue_side (playback_control_handler M V b H))"
proof (cases "cb_command b = ''play'' \<and> \<not> qe_disabled (pv_queue V)")
  case True
  then have "playback_control_handler M V b H = control_play M V (cb_track_id b) (cb_position_ms b) H"
    by (simp add: playback_control_handler_def Let_def valid_commands_def)
  then show ?thesis using control_play_keeps [OF ok fr] by metis
next
  case False
  have "engine_only H (playback_control_handler M V b H)"
    using False unfolding playback_control_handler_def Let_def
    by (auto simp: control_only intro!: engine_only_intros)
  then show ?thesis using engine_only_keeps ok by metis
qed

lemma seek_keeps:
  assumes "tables_ok (qe_parse_uuid (pv_queue V)) (host_db H)"
  shows "keeps_step (pv_queue V) False (ph_host H) (queue_side (playback_seek_handler M V p H))"
proof -
  have "engine_only H (playback_seek_handler M V p H)"
    by (auto simp: playback_seek_handler_def intro!: engine_only_intros)
  then show ?thesis using engine_only_keeps assms by metis
qed

lemma handoff_keeps:
  assumes "tables_ok (qe_parse_uuid (pv_queue V)) (host_db H)"
  shows "keeps_step (pv_queue V) False (ph_host H) (queue_side (handoff_handler M V b H))"
proof -
  have sent: "engine_only H' (Inr x, H'\<lparr>ph_sync := m\<rparr>)" for H' :: "'a PlaybackHost" and x :: "u64 \<times> bool" and m
    by (simp add: engine_only_def)
  have "engine_only H (handoff_handler M V b H)"
    unfolding handoff_handler_def Let_def
    by (auto intro!: engine_only_intros sent split: sum.split option.split)
  then show ?thesis using engine_only_keeps assms by metis
qed

section \<open>A session\<close>

lemma set_queue_loads:
  assumes "ask_engine err (handle_set_queue A E ts i c) H = (r, H')"
  shows "host_db H' = host_db H" and "ph_selection H' = ph_selection H"
    and "is_ok r \<Longrightarrow> map_option eng_queue (host_task H') = Some ts"
proof -
  obtain q task where s: "handle_set_queue A E ts i c (host_task H) = (q, task)" by fastforce
  have H': "H' = H\<lparr>ph_host := (ph_host H)\<lparr>qh_engine := task\<rparr>\<rparr>" and r: "r = map_err err q"
    using assms s by (simp_all add: ask_engine_def)
  show "host_db H' = host_db H" "ph_selection H' = ph_selection H" by (simp_all add: H')
  assume "is_ok r"
  then obtain u where "q = Inr u" by (cases q) (auto simp: r)
  then show "map_option eng_queue (host_task H') = Some ts"
    using ask_set_queue [of A E ts i c "host_task H" u task] s by (auto simp: H')
qed

definition loaded :: "Track list \<Rightarrow> 'm PlaybackHost \<Rightarrow> ('a, 'm) played \<Rightarrow> bool" where
  "loaded ts H p \<longleftrightarrow>
     host_db (snd p) = host_db H \<and>
     (is_ok (fst p) \<longrightarrow> map_option eng_queue (host_task (snd p)) = Some ts)"

lemma loaded_set_queue: "loaded ts H (ask_engine err (handle_set_queue A E ts i c) H)"
  using set_queue_loads by (cases "ask_engine err (handle_set_queue A E ts i c) H")
    (fastforce simp: loaded_def)

lemma loaded_proceed:
  assumes "loaded ts H p" and "\<And>x H'. engine_only H' (f x H')"
  shows "loaded ts H (proceed p f)"
proof (cases p)
  case (Pair r H1)
  show ?thesis
  proof (cases r)
    case (Inl e)
    then show ?thesis using assms(1) Pair by (simp add: loaded_def)
  next
    case (Inr x)
    then show ?thesis using assms(1) assms(2) [of H1 x] Pair by (auto simp: loaded_def engine_only_def)
  qed
qed

lemma load_session_loads: "loaded tracks H (load_session M V b tracks cur i rep plan H)"
  unfolding load_session_def Let_def
  by (rule loaded_proceed [OF loaded_set_queue])
    (auto intro!: engine_only_intros split: option.split)

lemma restore_engine_loads: "loaded tracks H (restore_engine M V s tracks i H)"
  unfolding restore_engine_def Let_def
  by (rule loaded_proceed [OF loaded_set_queue])
    (auto intro!: engine_only_intros split: option.split)

lemma create_session_frame:
  assumes "create_playback_session V s db = Inr db'"
  shows "db' = db\<lparr>qd_sessions := qd_sessions db @ [(s, qe_now V)]\<rparr>"
    and "\<And>r u. (r, u) \<in> set (qd_sessions db) \<Longrightarrow> sess_id r \<noteq> sess_id s"
  using assms by (auto simp: create_playback_session_def and_then_Inr_iff list_ex_iff
      split: if_splits)

lemma shown_loaded:
  assumes "map_option eng_queue (host_task H) = Some tracks" and "active_id (host_db H) = Some q"
    and "map qi_track_id (items_of (host_db H) q) = ts" and "list_all (\<lambda>t. P t = Inr t) ts"
    and "map trk_id tracks = ts"
  shows "active_shown P (ph_host H)"
proof -
  have "map (P \<circ> qi_track_id) (items_of (host_db H) q) = map P ts"
    using assms(3) by (auto simp flip: map_map)
  also have "\<dots> = map Inr ts" using assms(4) by (simp add: list_all_iff)
  also have "\<dots> = map (Inr \<circ> trk_id) tracks" using assms(5) by (auto simp flip: map_map)
  finally show ?thesis
    using assms(1,2) by (intro active_shownI [of _ q] engine_showsI [of _ tracks])
      (auto simp: engine_queue_def)
qed

lemma set_db_twice [simp]: "set_db d2 (set_db d1 H) = set_db d2 H"
  by (simp add: set_db_def)

text \<open>A request that gets as far as storing its session.\<close>

lemma session_steps:
  assumes "playback_session_handler M V b H = (r, H')"
  obtains (refused) e where "r = Inl e" "H' = H"
  | (unqueued) e e' db where "r = Inl e" "get_or_create_active_queue (pv_queue V) (host_db H) = (Inl e', db)"
      "H' = set_db db H"
  | (untouched) e q db where "r = Inl e" "get_or_create_active_queue (pv_queue V) (host_db H) = (Inr q, db)"
      "H' = set_db db H"
  | (queued) e q db db1 where "r = Inl e"
      "get_or_create_active_queue (pv_queue V) (host_db H) = (Inr q, db)"
      "replace_items_tx (pv_queue V) q (sb_queue b) db = Inr db1" "H' = set_db db1 H"
  | (stored) rep tracks cur i plan q db db1 device db2 res where
      "parse_repeat (sb_repeat_mode b) = Inr rep"
      "validate_and_load_tracks (pv_queue V) (sb_queue b) = Inr tracks"
      "current_in_queue (sb_current_track_id b) tracks = Inr (cur, i)"
      "planned_output M V (sb_playing b) tracks i H = Inr plan"
      "get_or_create_active_queue (pv_queue V) (host_db H) = (Inr q, db)"
      "replace_items_tx (pv_queue V) q (sb_queue b) db = Inr db1"
      "parse_device (pv_queue V) (sb_device_id b) = Inr device"
      "create_playback_session (pv_queue V) (session_row V b device q cur i rep) db1 = Inr db2"
      "load_session M V b tracks cur i rep plan (set_db db2 H) = (res, H')"
      "r = and_then res (\<lambda>snap. Inr \<lparr>sc_session_id = pv_session_id V, sc_queue_id = q,
            sc_playing = snapshot_is_playing snap\<rparr>)"
proof -
  let ?Q = "pv_queue V"
  let ?h = "playback_session_handler M V b H"
  define bad where "bad \<longleftrightarrow> (case sb_volume b of Some v \<Rightarrow> \<not> (0 \<le> v \<and> v \<le> 1) | None \<Rightarrow> False)"
  show thesis
  proof (cases "qe_disabled ?Q \<or> bad")
    case True
    then show thesis using assms refused
      by (auto simp: playback_session_handler_def Let_def bad_def [symmetric] split: if_splits)
  next
    case False
    note go = playback_session_handler_def [of M V b H, unfolded Let_def bad_def [symmetric]]
    show thesis
    proof (cases "parse_repeat (sb_repeat_mode b)")
      case (Inl e)
      then show thesis using assms refused False by (auto simp: go)
    next
      case rep: (Inr rep)
      show thesis
      proof (cases "validate_and_load_tracks ?Q (sb_queue b)")
        case (Inl e)
        then show thesis using assms refused False rep by (auto simp: go)
      next
        case tracks: (Inr tracks)
        show thesis
        proof (cases "current_in_queue (sb_current_track_id b) tracks")
          case (Inl e)
          then show thesis using assms refused False rep tracks by (auto simp: go)
        next
          case cur: (Inr ci)
          obtain cur i where ci: "ci = (cur, i)" by fastforce
          show thesis
          proof (cases "planned_output M V (sb_playing b) tracks i H")
            case (Inl e)
            then show thesis using assms refused False rep tracks cur ci by (auto simp: go)
          next
            case plan: (Inr plan)
            obtain a db where g: "get_or_create_active_queue ?Q (host_db H) = (a, db)" by fastforce
            note pre = False rep tracks cur ci plan g
            show thesis
            proof (cases a)
              case (Inl e)
              then show thesis using assms unqueued pre by (auto simp: go)
            next
              case q: (Inr q)
              show thesis
              proof (cases "replace_items_tx ?Q q (sb_queue b) db")
                case (Inl e)
                then show thesis using assms untouched pre q by (auto simp: go)
              next
                case tx: (Inr db1)
                show thesis
                proof (cases "parse_device ?Q (sb_device_id b)")
                  case (Inl e)
                  then show thesis using assms queued pre q tx by (auto simp: go)
                next
                  case dev: (Inr device)
                  show thesis
                  proof (cases "create_playback_session ?Q (session_row V b device q cur i rep) db1")
                    case (Inl e)
                    then show thesis using assms queued pre q tx dev by (auto simp: go)
                  next
                    case cr: (Inr db2)
                    obtain res H2 where l: "load_session M V b tracks cur i rep plan
                        (set_db db2 H) = (res, H2)" by fastforce
                    then show thesis
                      using assms stored [of rep tracks cur i plan q db db1 device db2 res] pre q tx dev cr l
                      by (cases res) (simp_all add: go)
                  qed
                qed
              qed
            qed
          qed
        qed
      qed
    qed
  qed
qed

text \<open>The identifiers of a body are UUIDs.\<close>

lemma session_keeps:
  assumes ok: "tables_ok (qe_parse_uuid (pv_queue V)) (host_db H)" and fr: "fresh_ids (pv_queue V) (host_db H)"
    and k: "tracks_keyed (pv_queue V)" and ids: "list_all (\<lambda>t. qe_parse_uuid (pv_queue V) t = Inr t) (sb_queue b)"
  shows "keeps_step (pv_queue V) True (ph_host H) (queue_side (playback_session_handler M V b H))"
proof -
  let ?Q = "pv_queue V" and ?P = "qe_parse_uuid (pv_queue V)"
  obtain r H' where h: "playback_session_handler M V b H = (r, H')" by fastforce
  have found: "tables_ok ?P db \<and> (\<forall>q. a = Inr q \<longrightarrow> active_id db = Some q)"
    if "get_or_create_active_queue ?Q (host_db H) = (a, db)" for a db
    using get_or_create_found [OF ok fr] ok that by (cases a) (auto simp: active_found_def)
  from h have "keeps_step ?Q True (ph_host H) (r, ph_host H')"
  proof (cases rule: session_steps)
    case (refused e)
    then show ?thesis using ok by (simp add: keeps_step_error)
  next
    case (unqueued e e' db)
    then show ?thesis using found by (simp add: keeps_step_error)
  next
    case (untouched e q db)
    then show ?thesis using found by (simp add: keeps_step_error)
  next
    case (queued e q db db1)
    then show ?thesis using found replace_items_tx_result(3) [OF queued(3)] by (simp add: keeps_step_error)
  next
    case (stored rep tracks cur i plan q db db1 device db2 res)
    note tx = replace_items_tx_result [OF stored(6)]
    note db2 = create_session_frame(1) [OF stored(8)]
    have items: "items_of db2 q = items_of db1 q" by (simp add: db2 items_of_def)
    have l: "loaded tracks (set_db db2 H) (res, H')"
      using load_session_loads [of tracks "set_db db2 H" M V b cur i rep plan] stored(9) by simp
    have t: "tables_ok ?P (host_db H')"
      using l found [OF stored(5)] tx(3) tables_ok_queues [of db2 db1 ?P] by (simp add: loaded_def db2)
    have "active_shown ?P (ph_host H')" if "is_ok r"
    proof -
      have "is_ok res" using that stored(10) by (cases res) auto
      then have "map_option eng_queue (host_task H') = Some tracks" and db: "host_db H' = db2"
        using l by (simp_all add: loaded_def)
      moreover have "active_id db2 = Some q"
        using found [OF stored(5)] tx(2) by (simp add: db2)
      ultimately show ?thesis
        using tx(1) items ids validated_ids [OF k stored(2)] by (intro shown_loaded) auto
    qed
    then show ?thesis using t by (intro keeps_stepI) auto
  qed
  then show ?thesis by (simp add: h)
qed

end
