(* ===== verification/Playback_Properties.thy ===== *)
theory Playback_Properties
  imports Playback_Theorems
begin

text \<open>
  Queue and playback routes together: the engine plays the active queue over every sequence of both;
  what an accepted control command has done; a session that is stored, restored.
\<close>

section \<open>Commands\<close>











section \<open>Control commands take effect\<close>

text \<open>What the answer to a command says of the engine.\<close>

fun took_effect :: "ControlAnswer \<Rightarrow> 's Engine \<Rightarrow> bool" where
  "took_effect (LifecycleAccepted s) e =
     (if s = ''paused'' then eng_state e = Paused
      else if s = ''stopped'' then eng_state e = Stopped \<and> eng_base_position_ms e = 0
      else s = ''preparing'' \<and> eng_state e \<notin> {Paused, Idle, Stopped})"
| "took_effect Accepted e = True"
| "took_effect (PositionAccepted p) e = (eng_base_position_ms e = p)"
| "took_effect (VolumeAccepted v) e = (eng_volume e = v \<and> v \<le> 100)"
| "took_effect (ShuffleAccepted b) e = (eng_shuffle e = b)"
| "took_effect (RepeatAccepted r) e = (repeat_as_str (eng_repeat e) = r)"

text \<open>A call that succeeds: what the command did, whatever the origin.\<close>

lemma ask_Inr:
  assumes "ask_engine err f H = (Inr u, H')" and "\<And>task. f task = ask A E cmd task"
    and "\<And>e. handle_command_inner A E cmd e = answer (c e)"
  shows "\<exists>e. host_task H = Some e \<and> fst (c (e\<lparr>eng_command_origin := Some (cmd_origin cmd)\<rparr>)) = Inr () \<and>
    host_task H' = Some ((snd (c (e\<lparr>eng_command_origin := Some (cmd_origin cmd)\<rparr>)))\<lparr>eng_command_origin := None\<rparr>)"
proof (cases "host_task H")
  case None
  then show ?thesis using assms(1) by (simp add: ask_engine_def assms(2) ask_def send_command_def)
next
  case (Some e)
  let ?e = "e\<lparr>eng_command_origin := Some (cmd_origin cmd)\<rparr>"
  note a = ask_answered [of A E cmd e "c ?e", OF assms(3)]
  show ?thesis
    using assms(1) Some a by (cases "fst (c ?e)") (auto simp: ask_engine_def assms(2))
qed

lemma paused_effect: "fst (cmd_pause A E e) = Inr () \<and> eng_state (snd (cmd_pause A E e)) = Paused"
  by (simp add: cmd_pause_def Let_def)

lemma stop_effect:
  "eng_state (snd (cmd_stop A e)) = Stopped \<and> eng_base_position_ms (snd (cmd_stop A e)) = 0"
  by (simp add: cmd_stop_def Let_def split_beta)

lemma start_effect:
  assumes "start_playback_internal A E t p e = (Inr u, e')"
  shows "eng_state e' = Preparing \<and> eng_base_position_ms e' = p \<and> eng_current_track e' = Some t"
  using assms by (auto simp: start_playback_internal_def Let_def split: if_splits prod.splits sum.splits)

lemma seek_effect:
  "fst (cmd_seek E p e) = Inr () \<Longrightarrow> eng_base_position_ms (snd (cmd_seek E p e)) = p \<or>
     lifecycle_is_playing (eng_state e) \<and> eng_current_track e = None"
  by (auto simp: cmd_seek_def Let_def split: if_splits option.splits prod.splits sum.splits)

lemma volume_effect: "eng_volume (snd (cmd_set_volume A v e)) = min v 100"
  by (simp add: cmd_set_volume_def Let_def)

lemma shuffle_effect: "eng_shuffle (snd (cmd_set_shuffle E b e)) = b"
  by (simp add: cmd_set_shuffle_def Let_def)

lemma repeat_effect: "eng_repeat (snd (cmd_set_repeat r e)) = r"
  by (simp add: cmd_set_repeat_def Let_def)

lemma started_state:
  "fst (start_playback_internal A E t p e) = Inr () \<Longrightarrow>
   eng_state (snd (start_playback_internal A E t p e)) = Preparing"
  using start_effect by (metis prod.collapse)

lemma resume_effect:
  assumes "fst (cmd_resume A E e) = Inr ()"
  shows "eng_state (snd (cmd_resume A E e)) \<notin> {Paused, Idle, Stopped}"
  using assms by (auto simp: cmd_resume_def Let_def started_state split: if_splits option.splits)

lemma play_effect:
  assumes "fst (cmd_play A E t ss od p e) = Inr ()"
  shows "eng_state (snd (cmd_play A E t ss od p e)) = Preparing"
  using assms by (auto simp: cmd_play_def Let_def started_state split: if_splits)

lemma ask_alive: "ask A E cmd task = (Inr u, task') \<Longrightarrow> leaves_queue cmd \<Longrightarrow> task' \<noteq> None"
  using ask_leaves_queue(2) [of A E cmd task "Inr u" task'] by (cases task) (auto simp: ask_def send_command_def)

definition accepted :: "(ControlAnswer, 'm) played \<Rightarrow> bool" where
  "accepted p \<longleftrightarrow>
     (case p of (Inl _, _) \<Rightarrow> True | (Inr ans, H) \<Rightarrow> \<exists>e. host_task H = Some e \<and> took_effect ans e)"

lemma accepted_Inl [simp]: "accepted (Inl e, H)"
  by (simp add: accepted_def)

lemma accepted_ask:
  assumes "\<And>task. f task = ask A E cmd task"
    and "\<And>e. handle_command_inner A E cmd e = answer (c e)"
    and "\<And>e. host_task H = Some e \<Longrightarrow> fst (c (e\<lparr>eng_command_origin := Some (cmd_origin cmd)\<rparr>)) = Inr () \<Longrightarrow>
      took_effect ans (snd (c (e\<lparr>eng_command_origin := Some (cmd_origin cmd)\<rparr>)))"
  shows "accepted (proceed (ask_engine err f H) (\<lambda>_ H. (Inr ans, H)))"
proof (cases "ask_engine err f H")
  case (Pair r H')
  show ?thesis
  proof (cases r)
    case (Inl e)
    then show ?thesis using Pair by simp
  next
    case (Inr u)
    obtain e where "host_task H = Some e"
      "fst (c (e\<lparr>eng_command_origin := Some (cmd_origin cmd)\<rparr>)) = Inr ()"
      "host_task H' = Some ((snd (c (e\<lparr>eng_command_origin := Some (cmd_origin cmd)\<rparr>)))\<lparr>eng_command_origin := None\<rparr>)"
      using ask_Inr [OF Pair [unfolded Inr] assms(1,2)] by blast
    moreover have "took_effect ans (e\<lparr>eng_command_origin := None\<rparr>) = took_effect ans e" for e :: "'a ReceiverAudioSink Engine"
      by (cases ans) simp_all
    ultimately show ?thesis using assms(3) Pair Inr by (simp add: accepted_def)
  qed
qed

lemma accepted_resume: "accepted (engine_resume err M E H)"
  unfolding engine_resume_def
  by (rule accepted_ask [where c = "cmd_resume (receiver_sink M) E"])
    (auto simp: handle_resume_def dest: resume_effect)

lemma accepted_pause:
  "accepted (proceed (ask_engine err (handle_pause (receiver_sink M) E LocalOrigin) H)
     (\<lambda>_ H. (Inr (LifecycleAccepted ''paused''), H)))"
  by (rule accepted_ask [where c = "cmd_pause (receiver_sink M) E"])
    (auto simp: handle_pause_def paused_effect)

lemma accepted_stop:
  "accepted (proceed (ask_engine err (handle_stop (receiver_sink M) E LocalOrigin) H)
     (\<lambda>_ H. (Inr (LifecycleAccepted ''stopped''), H)))"
  by (rule accepted_ask [where c = "cmd_stop (receiver_sink M)"])
    (auto simp: handle_stop_def stop_effect)

lemma accepted_volume: "v \<le> 100 \<Longrightarrow> accepted (engine_volume M E v H)"
  unfolding engine_volume_def
  by (rule accepted_ask [where c = "cmd_set_volume (receiver_sink M) v"])
    (auto simp: handle_set_volume_def volume_effect min_def)

lemma accepted_seek:
  assumes "\<And>e. host_task H = Some e \<Longrightarrow> lifecycle_is_playing (eng_state e) \<Longrightarrow> eng_current_track e \<noteq> None"
  shows "accepted (proceed (ask_engine err (handle_seek (receiver_sink M) E p LocalOrigin) H)
     (\<lambda>_ H. (Inr (PositionAccepted p), H)))"
proof (rule accepted_ask [where c = "cmd_seek E p"])
  fix e
  assume "host_task H = Some e"
    and "fst (cmd_seek E p (e\<lparr>eng_command_origin := Some (cmd_origin (CmdSeek p LocalOrigin))\<rparr>)) = Inr ()"
  then show "took_effect (PositionAccepted p)
      (snd (cmd_seek E p (e\<lparr>eng_command_origin := Some (cmd_origin (CmdSeek p LocalOrigin))\<rparr>)))"
    using seek_effect assms by fastforce
qed (simp_all add: handle_seek_def)

lemma accepted_play:
  "accepted (proceed (play_plan M E t plan p H) (\<lambda>_ H. (Inr (LifecycleAccepted ''preparing''), H)))"
  unfolding play_plan_def
  by (rule accepted_ask [where c = "cmd_play (receiver_sink M) E t (plan_sinks plan) (plan_description plan) p"])
    (auto simp: handle_play_def play_effect)

lemma accepted_proceed: "(\<And>x H'. p = (Inr x, H') \<Longrightarrow> accepted (f x H')) \<Longrightarrow> accepted (proceed p f)"
  by (cases p; cases "fst p") auto

lemma accepted_control_play: "accepted (control_play M V t p H)"
  unfolding control_play_def Let_def
  by (auto intro!: accepted_proceed accepted_resume accepted_play split: option.split prod.split)

lemma accepted_control_volume: "accepted (control_volume M E vol val H)"
proof -
  have "accepted (engine_volume M E (ucast v) H)" if "v \<le> 100" for v :: u32
  proof (rule accepted_volume)
    show "(ucast v :: u8) \<le> 100"
      using that le_trans [OF take_bit_nat_less_eq_self [of 8 "unat v"], of 100]
      by (simp add: word_le_nat_alt unsigned_ucast_eq)
  qed
  then show ?thesis
    by (auto simp: control_volume_def Let_def accepted_volume not_less split: option.split)
qed

text \<open>
  C39 (functional). A control command that is accepted has done what its answer says: paused or
  stopped (at the start of the track), at the asked position, at the answered volume, shuffle and
  repeat; an answer that promises preparation leaves the engine in none of the states in which it
  could have been started.
\<close>

theorem accepted_commands_take_effect:
  assumes "playback_control_handler M V b H = (Inr ans, H')"
    and "\<And>e. host_task H = Some e \<Longrightarrow> lifecycle_is_playing (eng_state e) \<Longrightarrow> eng_current_track e \<noteq> None"
  shows "\<exists>e. host_task H' = Some e \<and> took_effect ans e"
proof -
  have sh: "accepted (proceed (ask_engine engine_failure (handle_set_shuffle (receiver_sink M) E s) H)
      (\<lambda>_ H. (Inr (ShuffleAccepted s), H)))" for E s
    by (rule accepted_ask [where c = "cmd_set_shuffle E s"]) (auto simp: handle_set_shuffle_def shuffle_effect)
  have rp: "accepted (proceed (ask_engine engine_failure (handle_set_repeat (receiver_sink M) E r) H)
      (\<lambda>_ H. (Inr (RepeatAccepted (repeat_as_str r)), H)))" for E r
    by (rule accepted_ask [where c = "cmd_set_repeat r"]) (auto simp: handle_set_repeat_def repeat_effect)
  have sk: "accepted (control_seek M E p v H)" for E p v
    unfolding control_seek_def using accepted_seek [OF assms(2)] by (auto split: option.split)
  have tg: "accepted (control_toggle M V H)"
    unfolding control_toggle_def by (auto intro!: accepted_proceed accepted_pause accepted_resume)
  show ?thesis
  proof (cases "cb_command b \<in> {''next'', ''previous''}")
    case True
    have "ans = Accepted" "is_ok (fst (playback_control_handler M V b H))"
      using assms(1) True by (auto simp: playback_control_handler_def Let_def valid_commands_def proceed_def
          split: if_splits prod.splits sum.splits)
    moreover have "host_task H' \<noteq> None"
      using assms(1) True by (auto simp: playback_control_handler_def Let_def valid_commands_def proceed_def
          ask_engine_def handle_next_def handle_previous_def map_err_Inr_iff
          split: if_splits prod.splits sum.splits dest!: ask_alive)
    ultimately show ?thesis by auto
  next
    case False
    have "accepted (playback_control_handler M V b H)"
      using False unfolding playback_control_handler_def Let_def
      by (auto simp: sh rp sk tg accepted_resume accepted_control_play accepted_pause accepted_stop
          accepted_control_volume accepted_volume)
    then show ?thesis using assms(1) by (simp add: accepted_def)
  qed
qed

section \<open>Stored and restored\<close>

definition put_engine :: "'m ReceiverAudioSink Engine \<Rightarrow> 'm PlaybackHost \<Rightarrow> 'm PlaybackHost" where
  "put_engine e H = H\<lparr>ph_host := (ph_host H)\<lparr>qh_engine := Some e\<rparr>\<rparr>"

lemma put_engine_simps [simp]:
  "host_task (put_engine e H) = Some e" "host_db (put_engine e H) = host_db H"
  "put_engine e (put_engine e' H) = put_engine e H" "set_db db (put_engine e H) = put_engine e (set_db db H)"
  by (simp_all add: put_engine_def set_db_def)

lemma ask_engine_answered:
  assumes "host_task H = Some e" and "\<And>e. handle_command_inner A E cmd e = answer (c e)"
    and "fst (c (e\<lparr>eng_command_origin := Some (cmd_origin cmd)\<rparr>)) = Inr ()"
  shows "ask_engine err (ask A E cmd) H = (Inr (), put_engine
    ((snd (c (e\<lparr>eng_command_origin := Some (cmd_origin cmd)\<rparr>)))\<lparr>eng_command_origin := None\<rparr>) H)"
  using ask_answered [of A E cmd e "c (e\<lparr>eng_command_origin := Some (cmd_origin cmd)\<rparr>)", OF assms(2)]
  by (simp add: ask_engine_def put_engine_def assms(1,3))

lemma set_queue_call:
  assumes "host_task H = Some e" and "eng_sinks e = []" and "i < length tracks"
    and "\<And>t. cur = Some t \<Longrightarrow> position (\<lambda>x. trk_id x = t) tracks = Some i"
  shows "\<exists>e'. ask_engine err (handle_set_queue A E tracks i cur) H = (Inr (), put_engine e' H) \<and>
    eng_queue e' = tracks \<and> eng_queue_index e' = i \<and> eng_sinks e' = []"
proof -
  let ?x = "cmd_set_queue E tracks i cur (e\<lparr>eng_command_origin := Some LocalOrigin\<rparr>)"
  have r: "(case cur of Some t \<Rightarrow> (case position (\<lambda>x. trk_id x = t) tracks of Some p \<Rightarrow> p | None \<Rightarrow> i)
       | None \<Rightarrow> i) = i"
    using assms(4) by (simp split: option.split)
  have f: "fst ?x = Inr ()" by (simp add: cmd_set_queue_def Let_def)
  have "eng_queue (snd ?x) = tracks" "eng_queue_index (snd ?x) = i" "eng_sinks (snd ?x) = []"
    using assms(2,3) by (simp_all add: cmd_set_queue_def Let_def r)
  then show ?thesis
    using ask_engine_answered [of H e A E "CmdSetQueue tracks i cur LocalOrigin" "cmd_set_queue E tracks i cur" err,
        OF assms(1)] f
    by (intro exI [of _ "(snd ?x)\<lparr>eng_command_origin := None\<rparr>"]) (simp add: handle_set_queue_def)
qed

lemma set_volume_call:
  assumes "host_task H = Some e" and "eng_sinks e = []"
  shows "\<exists>e'. ask_engine err (handle_set_volume A E v LocalOrigin) H = (Inr (), put_engine e' H) \<and>
    eng_queue e' = eng_queue e \<and> eng_queue_index e' = eng_queue_index e \<and> eng_sinks e' = [] \<and>
    eng_volume e' = min v 100"
proof -
  let ?x = "cmd_set_volume A v (e\<lparr>eng_command_origin := Some LocalOrigin\<rparr>)"
  have f: "fst ?x = Inr ()" using assms(2) by (simp add: cmd_set_volume_def Let_def)
  have "eng_queue (snd ?x) = eng_queue e" "eng_queue_index (snd ?x) = eng_queue_index e"
    "eng_sinks (snd ?x) = []" "eng_volume (snd ?x) = min v 100"
    using assms(2) by (simp_all add: cmd_set_volume_def Let_def)
  then show ?thesis
    using ask_engine_answered [of H e A E "CmdSetVolume v LocalOrigin" "cmd_set_volume A v" err,
        OF assms(1)] f
    by (intro exI [of _ "(snd ?x)\<lparr>eng_command_origin := None\<rparr>"]) (simp add: handle_set_volume_def)
qed

lemma set_shuffle_call:
  assumes "host_task H = Some e"
  shows "\<exists>e'. ask_engine err (handle_set_shuffle A E b) H = (Inr (), put_engine e' H) \<and>
    eng_queue e' = eng_queue e \<and> eng_queue_index e' = eng_queue_index e \<and> eng_sinks e' = eng_sinks e \<and>
    eng_volume e' = eng_volume e \<and> eng_shuffle e' = b"
proof -
  let ?x = "cmd_set_shuffle E b (e\<lparr>eng_command_origin := Some LocalOrigin\<rparr>)"
  have f: "fst ?x = Inr ()" by (simp add: cmd_set_shuffle_def Let_def)
  have "eng_queue (snd ?x) = eng_queue e" "eng_queue_index (snd ?x) = eng_queue_index e"
    "eng_sinks (snd ?x) = eng_sinks e" "eng_volume (snd ?x) = eng_volume e" "eng_shuffle (snd ?x) = b"
    by (simp_all add: cmd_set_shuffle_def Let_def)
  then show ?thesis
    using ask_engine_answered [of H e A E "CmdSetShuffle b LocalOrigin" "cmd_set_shuffle E b" err,
        OF assms(1)] f
    by (intro exI [of _ "(snd ?x)\<lparr>eng_command_origin := None\<rparr>"]) (simp add: handle_set_shuffle_def)
qed

lemma set_repeat_call:
  assumes "host_task H = Some e"
  shows "\<exists>e'. ask_engine err (handle_set_repeat A E r) H = (Inr (), put_engine e' H) \<and>
    eng_queue e' = eng_queue e \<and> eng_queue_index e' = eng_queue_index e \<and> eng_sinks e' = eng_sinks e \<and>
    eng_volume e' = eng_volume e \<and> eng_shuffle e' = eng_shuffle e \<and> eng_repeat e' = r"
proof -
  let ?x = "cmd_set_repeat r (e\<lparr>eng_command_origin := Some LocalOrigin\<rparr>)"
  have f: "fst ?x = Inr ()" by (simp add: cmd_set_repeat_def Let_def)
  have "eng_queue (snd ?x) = eng_queue e" "eng_queue_index (snd ?x) = eng_queue_index e"
    "eng_sinks (snd ?x) = eng_sinks e" "eng_volume (snd ?x) = eng_volume e"
    "eng_shuffle (snd ?x) = eng_shuffle e" "eng_repeat (snd ?x) = r"
    by (simp_all add: cmd_set_repeat_def Let_def)
  then show ?thesis
    using ask_engine_answered [of H e A E "CmdSetRepeat r LocalOrigin" "cmd_set_repeat r" err,
        OF assms(1)] f
    by (intro exI [of _ "(snd ?x)\<lparr>eng_command_origin := None\<rparr>"]) (simp add: handle_set_repeat_def)
qed

lemma load_track_call:
  assumes "host_task H = Some e"
  shows "\<exists>e'. ask_engine err (handle_load_track A E t p LocalOrigin) H = (Inr (), put_engine e' H) \<and>
    eng_queue e' = eng_queue e \<and> eng_queue_index e' = eng_queue_index e \<and>
    eng_volume e' = eng_volume e \<and> eng_shuffle e' = eng_shuffle e \<and> eng_repeat e' = eng_repeat e \<and>
    eng_current_track e' = Some t \<and> eng_base_position_ms e' = p \<and> eng_state e' = Paused"
proof -
  let ?x = "cmd_load_track A t p (e\<lparr>eng_command_origin := Some LocalOrigin\<rparr>)"
  have f: "fst ?x = Inr ()" by (simp add: cmd_load_track_def Let_def)
  have "eng_queue (snd ?x) = eng_queue e" "eng_queue_index (snd ?x) = eng_queue_index e"
    "eng_volume (snd ?x) = eng_volume e" "eng_shuffle (snd ?x) = eng_shuffle e"
    "eng_repeat (snd ?x) = eng_repeat e" "eng_current_track (snd ?x) = Some t"
    "eng_base_position_ms (snd ?x) = p" "eng_state (snd ?x) = Paused"
    by (simp_all add: cmd_load_track_def Let_def)
  then show ?thesis
    using ask_engine_answered [of H e A E "CmdLoadTrack t p LocalOrigin" "cmd_load_track A t p" err,
        OF assms(1)] f
    by (intro exI [of _ "(snd ?x)\<lparr>eng_command_origin := None\<rparr>"]) (simp add: handle_load_track_def)
qed

text \<open>An engine without outputs that has loaded a queue and waits at a position of a track.\<close>

definition waits_at ::
  "Track list \<Rightarrow> nat \<Rightarrow> u64 \<Rightarrow> u8 \<Rightarrow> bool \<Rightarrow> RepeatMode \<Rightarrow> 's Engine \<Rightarrow> bool" where
  "waits_at tracks i p v shuffle rep e \<longleftrightarrow>
     eng_queue e = tracks \<and> eng_queue_index e = i \<and> eng_current_track e = Some (tracks ! i) \<and>
     eng_state e = Paused \<and> eng_base_position_ms e = p \<and> eng_volume e = v \<and> eng_shuffle e = shuffle \<and>
     eng_repeat e = rep"

lemma percent_round_max: "percent_round v \<le> 100"
proof -
  define n where "n = max 0 (min 100 \<lfloor>v * 100 + 1 / 2\<rfloor>)"
  have n: "0 \<le> n" "n \<le> 100" by (auto simp: n_def)
  then have "take_bit 8 n = n" by (intro take_bit_int_eq_self) auto
  then have "uint (word_of_int n :: u8) \<le> 100" using n by (simp add: unsigned_of_int)
  then show ?thesis by (simp add: percent_round_def n_def word_le_def)
qed

lemma restore_engine_waits:
  assumes e0: "host_task H = Some e0" "eng_sinks e0 = []" and i: "i < length tracks"
    and cur: "\<And>t. sess_current_track_id s = Some t \<Longrightarrow> position (\<lambda>x. trk_id x = t) tracks = Some i"
  shows "\<exists>e. restore_engine M V s tracks i H =
       (Inr (restore_position (tracks ! i) (sess_position_ms s)), put_engine e H) \<and>
     waits_at tracks i (restore_position (tracks ! i) (sess_position_ms s)) (percent_round (sess_volume s))
       (sess_shuffle s) (stored_repeat (sess_repeat_mode s)) e"
proof -
  let ?A = "receiver_sink M" and ?E = "pv_call V"
  let ?p = "restore_position (tracks ! i) (sess_position_ms s)"
  obtain e1 where e1: "ask_engine runtime_error
        (handle_set_queue ?A (?E 0) tracks i (sess_current_track_id s)) H = (Inr (), put_engine e1 H)"
      "eng_queue e1 = tracks" "eng_queue_index e1 = i" "eng_sinks e1 = []"
    using set_queue_call [OF e0 i cur] by blast
  obtain e2 where e2: "ask_engine engine_failure
        (handle_set_volume ?A (?E 1) (percent_round (sess_volume s)) LocalOrigin) (put_engine e1 H)
          = (Inr (), put_engine e2 H)"
      "eng_queue e2 = tracks" "eng_queue_index e2 = i" "eng_sinks e2 = []"
      "eng_volume e2 = min (percent_round (sess_volume s)) 100"
    using set_volume_call [OF put_engine_simps(1) [of e1 H] e1(4), of engine_failure ?A "?E 1"
        "percent_round (sess_volume s)"] unfolding put_engine_simps e1(2-4) by blast
  obtain e3 where e3: "ask_engine engine_failure
        (handle_set_shuffle ?A (?E 2) (sess_shuffle s)) (put_engine e2 H) = (Inr (), put_engine e3 H)"
      "eng_queue e3 = tracks" "eng_queue_index e3 = i" "eng_volume e3 = eng_volume e2"
      "eng_shuffle e3 = sess_shuffle s"
    using set_shuffle_call [OF put_engine_simps(1) [of e2 H], of engine_failure ?A "?E 2" "sess_shuffle s"]
    unfolding put_engine_simps e2(2-4) by blast
  obtain e4 where e4: "ask_engine engine_failure
        (handle_set_repeat ?A (?E 3) (stored_repeat (sess_repeat_mode s))) (put_engine e3 H)
          = (Inr (), put_engine e4 H)"
      "eng_queue e4 = tracks" "eng_queue_index e4 = i" "eng_volume e4 = eng_volume e2"
      "eng_shuffle e4 = sess_shuffle s" "eng_repeat e4 = stored_repeat (sess_repeat_mode s)"
    using set_repeat_call [OF put_engine_simps(1) [of e3 H], of engine_failure ?A "?E 3"
        "stored_repeat (sess_repeat_mode s)"] unfolding put_engine_simps e3(2-5) by blast
  obtain e5 where e5: "ask_engine engine_failure
        (handle_load_track ?A (?E 4) (tracks ! i) ?p LocalOrigin) (put_engine e4 H)
          = (Inr (), put_engine e5 H)"
      "eng_queue e5 = tracks" "eng_queue_index e5 = i" "eng_volume e5 = eng_volume e2"
      "eng_shuffle e5 = sess_shuffle s" "eng_repeat e5 = stored_repeat (sess_repeat_mode s)"
      "eng_current_track e5 = Some (tracks ! i)" "eng_base_position_ms e5 = ?p" "eng_state e5 = Paused"
    using load_track_call [OF put_engine_simps(1) [of e4 H], of engine_failure ?A "?E 4" "tracks ! i" ?p]
    unfolding put_engine_simps e4(2-6) by blast
  have "restore_engine M V s tracks i H = (Inr ?p, put_engine e5 H)"
    unfolding restore_engine_def Let_def e1(1) proceed_simps e2(1) e3(1) e4(1)
    using i e5(1) by (simp add: nth_opt_def)
  moreover have "waits_at tracks i ?p (percent_round (sess_volume s)) (sess_shuffle s)
      (stored_repeat (sess_repeat_mode s)) e5"
    using e5 e2(5) percent_round_max [of "sess_volume s"] by (simp add: waits_at_def min_def)
  ultimately show ?thesis by blast
qed


lemma latest_session_last:
  "\<forall>x \<in> set rows. snd x < u \<Longrightarrow> latest_session (rows @ [(s, u)]) = Some (s, u)"
  by (induction rows) auto

lemma insert_items_sessions: "insert_items V n q p ts db = Inr db' \<Longrightarrow> qd_sessions db' = qd_sessions db"
  by (induction ts arbitrary: n p db) (auto simp: tx_simps add_item_def)

lemma replace_items_sessions: "replace_items_tx V q ts db = Inr db' \<Longrightarrow> qd_sessions db' = qd_sessions db"
  by (auto simp: replace_items_tx_def tx_simps clear_items_def touch_queue_def dest!: insert_items_sessions)

lemma position_ids: "position (\<lambda>x. trk_id x = t) xs = position ((=) t) (map trk_id xs)"
  by (induction xs) auto

lemma stored_repeat_as_str: "stored_repeat (repeat_as_str r) = r"
  by (cases r) (simp_all add: stored_repeat_def)

lemma queue_tracks_back:
  assumes "qe_fail V = (\<lambda>_ _. None)" and "map qi_track_id (items_of db q) = ts"
    and "list_all (\<lambda>t. qe_parse_uuid V t = Inr t) ts" and "validate_and_load_tracks V ts = Inr tracks"
  shows "tracks_of_queue V db q = tracks"
proof -
  have "get_queue_items V db q = Inr (map (\<lambda>i. (case qe_parse_uuid V (qi_track_id i) of
      Inr t \<Rightarrow> t | Inl _ \<Rightarrow> ''00000000-0000-0000-0000-000000000000'', qi_position i)) (items_of db q))"
    by (simp add: get_queue_items_def run_statement_def assms(1))
  moreover have "map (\<lambda>i. case qe_parse_uuid V (qi_track_id i) of
      Inr t \<Rightarrow> t | Inl _ \<Rightarrow> ''00000000-0000-0000-0000-000000000000'') (items_of db q) = ts"
    using assms(2,3) by (auto simp: list_all_iff map_idI intro!: nth_equalityI)
  ultimately show ?thesis using assms(4) by (simp add: tracks_of_queue_def comp_def)
qed

text \<open>A request that created a session: the row it stored, last, and the queue it left.\<close>

lemma session_created:
  assumes "playback_session_handler M V b H = (Inr sc, H')"
    and ok: "tables_ok (qe_parse_uuid (pv_queue V)) (host_db H)" and fr: "fresh_ids (pv_queue V) (host_db H)"
  obtains rep tracks cur i q device where "parse_repeat (sb_repeat_mode b) = Inr rep"
    and "validate_and_load_tracks (pv_queue V) (sb_queue b) = Inr tracks"
    and "current_in_queue (sb_current_track_id b) tracks = Inr (cur, i)"
    and "qd_sessions (host_db H') =
      qd_sessions (host_db H) @ [(session_row V b device q cur i rep, qe_now (pv_queue V))]"
    and "map qi_track_id (items_of (host_db H') q) = sb_queue b"
    and "sc_session_id sc = pv_session_id V"
    and "\<forall>(r, u) \<in> set (qd_sessions (host_db H)). sess_id r \<noteq> pv_session_id V"
  using assms(1)
proof (cases rule: session_steps)
  case (stored rep tracks cur i plan q db db1 device db2 res)
  have "active_found (pv_queue V) (host_db H) q db"
    using get_or_create_found [OF ok fr] stored(5) by simp
  then have s: "qd_sessions db1 = qd_sessions (host_db H)"
    using replace_items_sessions [OF stored(6)] by (simp add: active_found_def)
  note cr = create_session_frame [OF stored(8)]
  have l: "host_db H' = db2"
    using load_session_loads [of tracks "set_db db2 H" M V b cur i rep plan] stored(9)
    by (simp add: loaded_def)
  have "items_of db2 q = items_of db1 q" by (simp add: cr(1) items_of_def)
  moreover have "sc_session_id sc = pv_session_id V" using stored(10) by (cases res) auto
  moreover have "\<forall>(r, u) \<in> set (qd_sessions (host_db H)). sess_id r \<noteq> pv_session_id V"
    using cr(2) s by (auto simp: session_row_def)
  moreover have "qd_sessions db2 =
      qd_sessions (host_db H) @ [(session_row V b device q cur i rep, qe_now (pv_queue V))]"
    using cr(1) s by simp
  ultimately show thesis
    using that [OF stored(1-3)] replace_items_tx_result(1) [OF stored(6)] l by simp
qed (use assms(1) in auto)

lemma current_index:
  assumes "current_in_queue c tracks = Inr (cur, i)" and "map trk_id tracks = ts" and "ts \<noteq> []"
  shows "i < length tracks" and "\<exists>t. cur = Some t \<and> position ((=) t) ts = Some i"
    and "case c of Some t \<Rightarrow> ts ! i = t | None \<Rightarrow> i = 0"
  using assms by (cases tracks; auto simp: current_in_queue_def position_ids nth_map
      split: option.splits if_splits dest!: position_SomeD)+


text \<open>
  C40 (roundtrip). A session that was stored with a queue comes back after a restart:
  if its row is the newest and its tracks can still be loaded, the restoring handler answers with
  that session and leaves the engine, whatever it held before without outputs, paused at the stored
  position (at most the end of the track) of the stored track, with the stored queue, shuffle,
  repeat and volume.
\<close>

theorem stored_session_is_restored:
  assumes created: "playback_session_handler M V b H = (Inr sc, H1)" and nonempty: "sb_queue b \<noteq> []"
    and ok: "tables_ok P (host_db H)" and fr: "fresh_ids (pv_queue V) (host_db H)"
    and keyed: "tracks_keyed (pv_queue V)" "tracks_keyed (pv_queue W)"
    and parser: "qe_parse_uuid (pv_queue V) = P" "qe_parse_uuid (pv_queue W) = P"
    and ids: "list_all (\<lambda>t. P t = Inr t) (sb_queue b)"
    and newest: "\<forall>x \<in> set (qd_sessions (host_db H)). snd x < qe_now (pv_queue V)"
    and kept: "host_db H2 = host_db H1" and engine: "host_task H2 = Some e0" "eng_sinks e0 = []"
    and up: "\<not> qe_disabled (pv_queue W)" "qe_fail (pv_queue W) = (\<lambda>_ _. None)"
    and tracks: "validate_and_load_tracks (pv_queue W) (sb_queue b) = Inr tracks"
  shows "\<exists>ra H3 e i rep. restore_playback_state_handler M W H2 = (Inr (Some ra), H3) \<and>
     ra_session_id ra = sc_session_id sc \<and> host_task H3 = Some e \<and>
     parse_repeat (sb_repeat_mode b) = Inr rep \<and> map trk_id tracks = sb_queue b \<and>
     i < length tracks \<and>
     (case sb_current_track_id b of Some t \<Rightarrow> trk_id (tracks ! i) = t | None \<Rightarrow> i = 0) \<and>
     waits_at tracks i (restore_position (tracks ! i) (sb_position_ms b))
       (percent_round (case sb_volume b of Some v \<Rightarrow> v | None \<Rightarrow> 4 / 5))
       (case sb_shuffle b of Some s \<Rightarrow> s | None \<Rightarrow> False) rep e"
proof -
  let ?Q = "pv_queue W"
  obtain rep old cur i q device where c: "parse_repeat (sb_repeat_mode b) = Inr rep"
    "validate_and_load_tracks (pv_queue V) (sb_queue b) = Inr old"
    "current_in_queue (sb_current_track_id b) old = Inr (cur, i)"
    "qd_sessions (host_db H1) = qd_sessions (host_db H) @ [(session_row V b device q cur i rep, qe_now (pv_queue V))]"
    "map qi_track_id (items_of (host_db H1) q) = sb_queue b" "sc_session_id sc = pv_session_id V"
    using session_created [OF created ok [folded parser(1)] fr] by metis
  define s where "s = session_row V b device q cur i rep"
  have bk: "map trk_id old = sb_queue b" "map trk_id tracks = sb_queue b"
    using validated_ids [OF keyed(1) c(2)] validated_ids [OF keyed(2) tracks] by simp_all
  note at = current_index [OF c(3) bk(1) nonempty]
  obtain t where t: "cur = Some t" "position ((=) t) (sb_queue b) = Some i" using at(2) by blast
  have len: "i < length tracks" using at(1) bk by (metis length_map)
  have latest: "get_latest_playback_session ?Q (host_db H2) = Inr (Some s)"
    using latest_session_last [OF newest] kept c(4)
    by (simp add: get_latest_playback_session_def run_statement_def up s_def)
  have own: "tracks_of_queue ?Q (host_db H2) q = tracks"
    using queue_tracks_back [OF up(2) _ ids [folded parser(2)] tracks] c(5) kept by simp
  have "tracks \<noteq> []" using len by auto
  then have rt: "restored_tracks ?Q s (host_db H2) = (tracks, host_db H2)"
    by (simp add: restored_tracks_def s_def session_row_def own)
  have idx: "resolve_restore_index tracks (sess_current_track_id s) (sess_current_index s) = Inr i"
    using t bk(2) \<open>tracks \<noteq> []\<close>
    by (simp add: resolve_restore_index_def s_def session_row_def position_ids)
  have pos: "position (\<lambda>x. trk_id x = u) tracks = Some i" if "sess_current_track_id s = Some u" for u
    using that t bk(2) by (simp add: s_def session_row_def position_ids)
  have same: "set_db (host_db H2) H2 = H2" by (simp add: set_db_def)
  obtain e where e: "restore_engine M W s tracks i H2 =
      (Inr (restore_position (tracks ! i) (sess_position_ms s)), put_engine e H2)"
    "waits_at tracks i (restore_position (tracks ! i) (sess_position_ms s)) (percent_round (sess_volume s))
       (sess_shuffle s) (stored_repeat (sess_repeat_mode s)) e"
    using restore_engine_waits [OF engine len pos] by blast
  obtain snap where snap: "handle_snapshot (receiver_sink M) (pv_call W 5) (Some e) = Inr snap"
    by (simp add: handle_snapshot_def send_command_def handle_command_def)
  obtain ra H3 where r: "restore_playback_state_handler M W H2 = (Inr (Some ra), H3)"
    "ra_session_id ra = sess_id s" "host_task H3 = Some e"
    using up latest rt idx e(1) snap
    by (simp add: restore_playback_state_handler_def same look_def update_session_def run_statement_def)
  have "trk_id (tracks ! i) = u" if "sb_current_track_id b = Some u" for u
    using at(3) that nth_map [OF len, of trk_id] bk(2) by simp
  moreover have "i = 0" if "sb_current_track_id b = None" using at(3) that by simp
  moreover have "sess_position_ms s = sb_position_ms b"
    "sess_volume s = (case sb_volume b of Some v \<Rightarrow> v | None \<Rightarrow> 4 / 5)"
    "sess_shuffle s = (case sb_shuffle b of Some s \<Rightarrow> s | None \<Rightarrow> False)"
    "stored_repeat (sess_repeat_mode s) = rep" "sess_id s = sc_session_id sc"
    using c(6) by (simp_all add: s_def session_row_def stored_repeat_as_str)
  ultimately show ?thesis
    using r c(1) bk(2) len e(2) by (intro exI conjI) (auto split: option.split)
qed


section \<open>What modelling showed\<close>

text \<open>An integer volume is cut to 32 bits before it is compared with 100.\<close>

lemma huge_volume_is_accepted:
  "control_volume M E None (Some (IntegerValue 4294967346)) H = engine_volume M E 50 H"
  by (simp add: control_volume_def Let_def)

text \<open>A session refused for its device has replaced the active queue, and the engine does not know.\<close>

lemma refused_session_replaces_the_queue:
  assumes "\<not> qe_disabled (pv_queue V)" and "sb_volume b = None" and "sb_repeat_mode b = None"
    and "\<not> sb_playing b" and "validate_and_load_tracks (pv_queue V) (sb_queue b) = Inr tracks"
    and "sb_current_track_id b = None" and "get_or_create_active_queue (pv_queue V) (host_db H) = (Inr q, db)"
    and "replace_items_tx (pv_queue V) q (sb_queue b) db = Inr db1"
    and "sb_device_id b = Some d" and "trim d \<noteq> []" and "qe_parse_uuid (pv_queue V) d = Inl e"
  shows "\<exists>f. playback_session_handler M V b H = (Inl f, set_db db1 H) \<and>
    map qi_track_id (items_of db1 q) = sb_queue b"
proof -
  obtain c where "current_in_queue None tracks = Inr c" by (cases tracks) (simp_all add: current_in_queue_def)
  moreover obtain cur i where "c = (cur, i)" by fastforce
  ultimately show ?thesis
    using assms replace_items_tx_result(1) [OF assms(8)]
    by (simp add: playback_session_handler_def Let_def parse_repeat_def planned_output_def parse_device_def)
qed

text \<open>A handoff refused for want of an output has set the volume.\<close>

lemma refused_handoff_sets_the_volume:
  assumes "\<not> qe_disabled (pv_queue V)" and "hb_playing b" and "hb_volume b = Some v"
    and "get_track (qe_engine (pv_queue V)) (qe_tracks (pv_queue V)) (qe_music_paths (pv_queue V)) (hb_track_id b)
      = Inr track"
    and "ph_selection H = None" and "host_task H = Some e" and "eng_sinks e = []"
  shows "\<exists>f e'. handoff_handler M V b H = (Inl f, put_engine e' H) \<and> eng_volume e' = percent_round v"
proof -
  obtain e' where e': "ask_engine engine_failure (handle_set_volume (receiver_sink M) (pv_call V 0)
      (percent_round v) LocalOrigin) H = (Inr (), put_engine e' H)" "eng_volume e' = min (percent_round v) 100"
    using set_volume_call [OF assms(6,7)] by blast
  moreover have "ph_selection (put_engine e' H) = None" using assms(5) by (simp add: put_engine_def)
  ultimately have "\<exists>f. handoff_handler M V b H = (Inl f, put_engine e' H)"
    using assms(1-4) by (simp add: handoff_handler_def Let_def selected_plan_def)
  then show ?thesis using e'(2) percent_round_max [of v] by (auto simp: min_def)
qed

text \<open>Resuming after the last track, or after a failure, is accepted and does nothing.\<close>

lemma resume_after_the_end:
  assumes "eng_state e \<in> {Ended, Failed}" and "eng_sinks e \<noteq> []"
  shows "cmd_resume A E e = (Inr (), set_timeline_origin e)"
  using assms by (auto simp: cmd_resume_def Let_def set_timeline_origin_def)

text \<open>A session sets the volume rounded down, its restoration rounded to the nearest.\<close>

lemma volume_restored_louder: "percent_floor (799 / 1000) = 79" "percent_round (799 / 1000) = 80"
proof -
  have "\<lfloor>799 / 10 :: rat\<rfloor> = 79" and "\<lfloor>402 / 5 :: rat\<rfloor> = 80" by (simp_all add: floor_eq_iff)
  then show "percent_floor (799 / 1000) = 79" and "percent_round (799 / 1000) = 80"
    by (simp_all add: percent_floor_def percent_round_def)
qed

text \<open>Restoring loads the queue of the session, whichever queue is active.\<close>

lemma restoring_another_queue:
  assumes "sess_queue_id s = Some q" and "tracks_of_queue V db q \<noteq> []"
  shows "restored_tracks V s db = (tracks_of_queue V db q, db)"
  using assms by (simp add: restored_tracks_def)

section \<open>A concrete host\<close>

definition played_demo_env :: "unit PlaybackEnv" where
  "played_demo_env =
     \<lparr>pv_queue = queue_demo_env, pv_call = (\<lambda>_. demo_env),
      pv_output = \<lparr>oe_groups = Inr [], oe_chain = (\<lambda>_. Inr None), oe_manager = ()\<rparr>,
      pv_session_id = ''s''\<rparr>"

definition played_demo_host :: "unit PlaybackHost" where
  "played_demo_host = \<lparr>ph_host = queue_demo_host, ph_selection = None, ph_sync = []\<rparr>"


definition demo_mute :: PlaybackControlBody where
  "demo_mute = \<lparr>cb_command = ''mute'', cb_track_id = None, cb_position_ms = None, cb_volume = None,
     cb_value = None\<rparr>"

lemma accepted_commands_take_effect_witness:
  "\<exists>H' e. playback_control_handler demo_manager played_demo_env demo_mute played_demo_host
       = (Inr (VolumeAccepted 0), H') \<and> host_task H' = Some e \<and> took_effect (VolumeAccepted 0) e"
proof -
  obtain e where e: "host_task played_demo_host = Some e" "eng_sinks e = []" "eng_state e = Idle"
    by (simp add: played_demo_host_def queue_demo_host_def new_with_events_def)
  obtain e' where v: "ask_engine engine_failure (handle_set_volume (receiver_sink demo_manager) demo_env 0
      LocalOrigin) played_demo_host = (Inr (), put_engine e' played_demo_host)"
    using set_volume_call [OF e(1,2)] by blast
  have h: "playback_control_handler demo_manager played_demo_env demo_mute played_demo_host
      = (Inr (VolumeAccepted 0), put_engine e' played_demo_host)"
    using v by (simp add: playback_control_handler_def Let_def demo_mute_def valid_commands_def
        engine_volume_def played_demo_env_def queue_demo_env_def)
  show ?thesis using h e accepted_commands_take_effect [OF h] by auto
qed

definition demo_session :: PlaybackSessionBody where
  "demo_session = \<lparr>sb_queue = [''b'', ''a''], sb_current_track_id = Some ''a'', sb_position_ms = 3,
     sb_playing = False, sb_volume = None, sb_source = None, sb_resume_policy = None,
     sb_device_id = None, sb_repeat_mode = Some ''all'', sb_shuffle = Some True\<rparr>"

lemma loading_answers:
  assumes "host_task H = Some e" and "eng_sinks e = []" and "i < length tracks"
    and "\<And>t. cur = Some t \<Longrightarrow> position (\<lambda>x. trk_id x = t) tracks = Some i"
  shows "\<exists>snap H'. load_session M V b tracks cur i rep None H = (Inr snap, H')"
proof -
  let ?A = "receiver_sink M" and ?E = "pv_call V"
  obtain e1 where e1: "ask_engine runtime_error (handle_set_queue ?A (?E 0) tracks i cur) H
      = (Inr (), put_engine e1 H)" "eng_sinks e1 = []"
    using set_queue_call [OF assms] by blast
  obtain e2 where e2: "ask_engine engine_failure (handle_set_repeat ?A (?E 1) rep) (put_engine e1 H)
      = (Inr (), put_engine e2 H)" "eng_sinks e2 = []"
    using set_repeat_call [OF put_engine_simps(1) [of e1 H], of engine_failure ?A "?E 1" rep]
    unfolding put_engine_simps e1(2) by blast
  have "\<exists>e'. ask_engine engine_failure (handle_set_shuffle ?A (?E 2) s) (put_engine e2 H)
      = (Inr (), put_engine e' H) \<and> eng_sinks e' = []" for s
    using set_shuffle_call [OF put_engine_simps(1) [of e2 H], of engine_failure ?A "?E 2" s]
    unfolding put_engine_simps e2(2) by blast
  then obtain e3 where e3: "(case sb_shuffle b of
      Some s \<Rightarrow> ask_engine engine_failure (handle_set_shuffle ?A (?E 2) s) (put_engine e2 H)
    | None \<Rightarrow> (Inr (), put_engine e2 H)) = (Inr (), put_engine e3 H)" "eng_sinks e3 = []"
    using e2(2) by (cases "sb_shuffle b") fastforce+
  let ?v = "percent_floor (case sb_volume b of Some v \<Rightarrow> v | None \<Rightarrow> 4 / 5)"
  obtain e4 where e4: "ask_engine engine_failure (handle_set_volume ?A (?E 3) ?v LocalOrigin)
      (put_engine e3 H) = (Inr (), put_engine e4 H)" "eng_sinks e4 = []"
    using set_volume_call [OF put_engine_simps(1) [of e3 H] e3(2), of engine_failure ?A "?E 3" ?v]
    unfolding put_engine_simps by blast
  obtain e5 where e5: "ask_engine engine_failure
      (handle_load_track ?A (?E 4) (tracks ! i) (sb_position_ms b) LocalOrigin) (put_engine e4 H)
      = (Inr (), put_engine e5 H)"
    using load_track_call [OF put_engine_simps(1) [of e4 H], of engine_failure ?A "?E 4" "tracks ! i"
        "sb_position_ms b"] unfolding put_engine_simps by blast
  have n: "nth_opt tracks i = Some (tracks ! i)" using assms(3) by (simp add: nth_opt_def)
  show ?thesis
    unfolding load_session_def Let_def e1(1) proceed_simps e2(1) e3(1) e4(1) n option.case e5 look_def
    by (simp add: handle_snapshot_def send_command_def handle_command_def)
qed

lemma demo_session_tracks:
  "validate_and_load_tracks queue_demo_env [''b'', ''a''] = Inr [demo_track ''b'', demo_track ''a'']"
  by (simp add: queue_demo_env_def demo_env_def demo_track_def queue_eval)

lemma demo_session_is_created:
  obtains sc H where "playback_session_handler demo_manager played_demo_env demo_session played_demo_host
    = (Inr sc, H)"
proof -
  have rep: "parse_repeat (Some ''all'') = Inr RepeatAll" by code_simp
  let ?ts = "[demo_track ''b'', demo_track ''a'']"
  have cur: "current_in_queue (Some ''a'') ?ts = Inr (Some ''a'', 1)"
    by (simp add: current_in_queue_def demo_track_def)
  obtain q db db1 where q: "get_or_create_active_queue queue_demo_env (qh_db queue_demo_host) = (Inr q, db)"
    "replace_items_tx queue_demo_env q [''b'', ''a''] db = Inr db1" "qd_sessions db1 = []"
    by (simp add: get_or_create_active_queue_def replace_items_tx_def queue_demo_env_def queue_demo_host_def
        clear_items_def queue_eval)
  let ?row = "session_row played_demo_env demo_session nil_uuid q (Some ''a'') 1 RepeatAll"
  let ?H = "set_db (db1\<lparr>qd_sessions := [(?row, 7)]\<rparr>) played_demo_host"
  have e: "host_task ?H = Some (new_with_events default_pcm_format 0)"
    by (simp add: played_demo_host_def queue_demo_host_def set_db_def)
  obtain snap H where l: "load_session demo_manager played_demo_env demo_session ?ts (Some ''a'') 1 RepeatAll None ?H
      = (Inr snap, H)"
    using loading_answers [OF e, of 1 ?ts "Some ''a''" demo_manager played_demo_env demo_session RepeatAll]
    by (auto simp: demo_track_def new_with_events_def)
  have "create_playback_session queue_demo_env ?row db1 = Inr (db1\<lparr>qd_sessions := [(?row, 7)]\<rparr>)"
    by (simp add: create_playback_session_def run_statement_def q(3) queue_demo_env_def)
  then show thesis
    using that rep demo_session_tracks cur q l
    by (simp add: playback_session_handler_def Let_def played_demo_env_def demo_session_def
        planned_output_def parse_device_def played_demo_host_def set_db_def queue_demo_env_def)
qed

lemma stored_session_is_restored_witness:
  "\<exists>H2 ra H3 e. restore_playback_state_handler demo_manager played_demo_env H2 = (Inr (Some ra), H3) \<and>
     host_task H3 = Some e \<and> eng_current_track e = Some (demo_track ''a'') \<and>
     eng_base_position_ms e = 3 \<and> eng_repeat e = RepeatAll"
proof -
  obtain sc H1 where created: "playback_session_handler demo_manager played_demo_env demo_session
      played_demo_host = (Inr sc, H1)" by (rule demo_session_is_created)
  let ?e = "new_with_events default_pcm_format 0" and ?ts = "[demo_track ''b'', demo_track ''a'']"
  have h: "host_db (put_engine ?e H1) = host_db H1" "host_task (put_engine ?e H1) = Some ?e" "eng_sinks ?e = []"
    by (simp_all add: put_engine_def new_with_events_def)
  have q: "pv_queue played_demo_env = queue_demo_env" "sb_queue demo_session = [''b'', ''a'']"
    "host_db played_demo_host = qh_db queue_demo_host" "qd_sessions (qh_db queue_demo_host) = []"
    "sb_position_ms demo_session = 3" "sb_current_track_id demo_session = Some ''a''"
    "sb_repeat_mode demo_session = Some ''all''"
    by (simp_all add: played_demo_env_def demo_session_def played_demo_host_def queue_demo_host_def)
  have up: "\<not> qe_disabled queue_demo_env" "qe_fail queue_demo_env = (\<lambda>_ _. None)"
    by (simp_all add: queue_demo_env_def)
  have rep: "parse_repeat (Some ''all'') = Inr RepeatAll" by code_simp
  note T = stored_session_is_restored [of demo_manager played_demo_env demo_session played_demo_host sc H1 Inr
      played_demo_env "put_engine ?e H1" ?e ?ts, unfolded q rep]
  obtain ra H3 e i where r: "restore_playback_state_handler demo_manager played_demo_env (put_engine ?e H1)
        = (Inr (Some ra), H3)" "host_task H3 = Some e" "i < 2" "trk_id (?ts ! i) = ''a''"
      "waits_at ?ts i (restore_position (?ts ! i) 3)
       (percent_round (case sb_volume demo_session of Some v \<Rightarrow> v | None \<Rightarrow> 4 / 5))
       (case sb_shuffle demo_session of Some s \<Rightarrow> s | None \<Rightarrow> False) RepeatAll e"
    using T [OF created _ queue_demo_sound(5,1,2,2,4,4) _ _ h up demo_session_tracks]
    by (auto simp: numeral_2_eq_2)
  have "i = 1" using r(3,4) by (cases i) (auto simp: demo_track_def)
  then show ?thesis using r by (auto simp: waits_at_def restore_position_def demo_track_def)
qed

end
