(* ===== verification/Expiring_Store.thy ===== *)
theory Expiring_Store
  imports Receiver_Models
begin

text \<open>
  Stores whose entries expire: the contract, and the three stores of the server that keep it: the
  idempotency store (\<open>michi-security/src/idempotency.rs\<close>), the token store
  (\<open>michi-link/src/auth.rs\<close>) and the pending playback transfers
  (\<open>michi-sync/src/playback_transfer.rs\<close>). The contract says what a read returns whenever expired
  entries happen to be swept; each store is a \<open>HashMap\<close>, kept as its list of entries.
\<close>

section \<open>The contract\<close>

datatype ('t, 'k, 'v) store_op = Put 't 'k 'v | Sweep 't

fun op_time :: "('t, 'k, 'v) store_op \<Rightarrow> 't" where
  "op_time (Put t _ _) = t"
| "op_time (Sweep t) = t"

text \<open>The last write of a key in a sequence of operations.\<close>

fun last_put :: "('t, 'k, 'v) store_op list \<Rightarrow> 'k \<Rightarrow> ('t \<times> 'v) option \<Rightarrow> ('t \<times> 'v) option" where
  "last_put [] k d = d"
| "last_put (Put t k' v # ops) k d = last_put ops k (if k' = k then Some (t, v) else d)"
| "last_put (Sweep t # ops) k d = last_put ops k d"

fun apply_op ::
  "('t \<Rightarrow> 'k \<Rightarrow> 'v \<Rightarrow> 's \<Rightarrow> 's) \<Rightarrow> ('t \<Rightarrow> 's \<Rightarrow> 's) \<Rightarrow> ('t, 'k, 'v) store_op \<Rightarrow> 's \<Rightarrow> 's" where
  "apply_op put sweep (Put t k v) s = put t k v s"
| "apply_op put sweep (Sweep t) s = sweep t s"

lemma last_put_default:
  "last_put ops k d = (case last_put ops k None of Some x \<Rightarrow> Some x | None \<Rightarrow> d)"
proof (induction ops arbitrary: d)
  case (Cons op ops)
  show ?case
  proof (cases op)
    case (Put t k' v)
    show ?thesis
      unfolding Put last_put.simps
      using Cons.IH [of "if k' = k then Some (t, v) else d"]
        Cons.IH [of "if k' = k then Some (t, v) else None"]
      by (cases "last_put ops k None") auto
  next
    case (Sweep t)
    show ?thesis unfolding Sweep last_put.simps by (rule Cons.IH)
  qed
qed simp

locale expiring_store =
  fixes fetch :: "'s \<Rightarrow> 't::linorder \<Rightarrow> 'k \<Rightarrow> 'v option"
    and put :: "'t \<Rightarrow> 'k \<Rightarrow> 'v \<Rightarrow> 's \<Rightarrow> 's"
    and sweep :: "'t \<Rightarrow> 's \<Rightarrow> 's"
    and fresh :: "'t \<Rightarrow> 'v \<Rightarrow> 't \<Rightarrow> bool"
    and valid :: "'s \<Rightarrow> bool"
  assumes fetch_put:
      "valid s \<Longrightarrow> fetch (put t k v s) t' k' =
         (if k' = k then if fresh t v t' then Some v else None else fetch s t' k')"
    and fetch_sweep: "valid s \<Longrightarrow> t \<le> t' \<Longrightarrow> fetch (sweep t s) t' k = fetch s t' k"
    and valid_put: "valid s \<Longrightarrow> valid (put t k v s)"
    and valid_sweep: "valid s \<Longrightarrow> valid (sweep t s)"
begin

definition run :: "('t, 'k, 'v) store_op list \<Rightarrow> 's \<Rightarrow> 's" where
  "run ops s = fold (apply_op put sweep) ops s"

lemma fetch_run:
  assumes "valid s" and "\<forall>op \<in> set ops. op_time op \<le> now"
  shows "fetch (run ops s) now k =
    (case last_put ops k None of
       Some (t, v) \<Rightarrow> if fresh t v now then Some v else None
     | None \<Rightarrow> fetch s now k)"
  using assms
proof (induction ops arbitrary: s)
  case Nil
  then show ?case by (simp add: run_def)
next
  case (Cons op ops)
  have ih: "fetch (run ops s') now k =
      (case last_put ops k None of Some (t, v) \<Rightarrow> if fresh t v now then Some v else None
       | None \<Rightarrow> fetch s' now k)" if "valid s'" for s'
    using Cons.prems that by (intro Cons.IH) simp_all
  show ?case
  proof (cases op)
    case (Put t k' v)
    have "run (op # ops) s = run ops (put t k' v s)" by (simp add: run_def Put)
    moreover have "last_put (op # ops) k None =
        (case last_put ops k None of Some x \<Rightarrow> Some x | None \<Rightarrow> if k' = k then Some (t, v) else None)"
      unfolding Put last_put.simps by (rule last_put_default)
    ultimately show ?thesis
      using Cons.prems(1) by (auto simp: ih valid_put fetch_put split: option.splits)
  next
    case (Sweep t)
    have "run (op # ops) s = run ops (sweep t s)" by (simp add: run_def Sweep)
    moreover have "t \<le> now" using Cons.prems(2) Sweep by simp
    ultimately show ?thesis
      using Cons.prems(1) by (simp add: ih valid_sweep Sweep fetch_sweep split: option.splits)
  qed
qed

text \<open>Sweeping is invisible.\<close>

lemma sweeps_invisible:
  assumes "valid s" and "\<forall>op \<in> set ops. op_time op \<le> now"
  shows "fetch (run ops s) now k =
    fetch (run (filter (\<lambda>op. \<exists>t k v. op = Put t k v) ops) s) now k"
proof -
  have "last_put (filter (\<lambda>op. \<exists>t k v. op = Put t k v) ops) k d = last_put ops k d" for d
  proof (induction ops arbitrary: d)
    case (Cons op ops)
    then show ?case by (cases op) auto
  qed simp
  moreover have "\<forall>op \<in> set (filter (\<lambda>op. \<exists>t k v. op = Put t k v) ops). op_time op \<le> now"
    using assms(2) by auto
  ultimately show ?thesis using fetch_run [OF assms] fetch_run [OF assms(1)] by simp
qed

end

text \<open>A store that can also forget a key.\<close>

locale revocable_store = expiring_store +
  fixes forget :: "'c \<Rightarrow> 'a \<Rightarrow> 'a"
  assumes fetch_forget: "valid s \<Longrightarrow> fetch (forget k s) t k' = (if k' = k then None else fetch s t k')"
    and valid_forget: "valid s \<Longrightarrow> valid (forget k s)"
begin

lemma forgotten_stays_gone:
  assumes "valid s" and "\<forall>op \<in> set ops. op_time op \<le> now" and "last_put ops k None = None"
  shows "fetch (run ops (forget k s)) now k = None"
  using fetch_run [OF valid_forget [OF assms(1)] assms(2), of k] assms(1,3)
  by (simp add: fetch_forget)

end

section \<open>The idempotency store\<close>

record IdempotencyEntry =
  ie_response :: json
  ie_method :: string
  ie_path :: string
  ie_created_at :: instant

type_synonym idempotency_store = "(string \<times> IdempotencyEntry) list"

definition idempotency_ttl :: nat where
  "idempotency_ttl = from_secs 3600"

definition idem_live :: "instant \<Rightarrow> IdempotencyEntry \<Rightarrow> bool" where
  "idem_live now e \<longleftrightarrow> elapsed now (ie_created_at e) < idempotency_ttl"

definition idem_retain :: "instant \<Rightarrow> idempotency_store \<Rightarrow> idempotency_store" where
  "idem_retain now s = filter (\<lambda>(_, e). idem_live now e) s"

definition idem_get :: "instant \<Rightarrow> string \<Rightarrow> idempotency_store \<Rightarrow> json option \<times> idempotency_store" where
  "idem_get now k s = (let s = idem_retain now s in (map_option ie_response (map_of s k), s))"

definition idem_exists :: "string \<Rightarrow> idempotency_store \<Rightarrow> bool" where
  "idem_exists k s \<longleftrightarrow> map_of s k \<noteq> None"

definition idem_set ::
  "instant \<Rightarrow> string \<Rightarrow> json \<Rightarrow> string \<Rightarrow> string \<Rightarrow> idempotency_store \<Rightarrow> idempotency_store" where
  "idem_set now k response meth path s =
     AList.update k \<lparr>ie_response = response, ie_method = meth, ie_path = path,
                     ie_created_at = now\<rparr> s"

definition idem_check_reuse ::
  "string \<Rightarrow> string \<Rightarrow> string \<Rightarrow> idempotency_store \<Rightarrow> (string \<times> string) option" where
  "idem_check_reuse k meth path s =
     (case map_of s k of
        Some e \<Rightarrow> if ie_method e \<noteq> meth \<or> ie_path e \<noteq> path then Some (ie_method e, ie_path e) else None
      | None \<Rightarrow> None)"

definition idem_clean_expired :: "instant \<Rightarrow> idempotency_store \<Rightarrow> nat \<times> idempotency_store" where
  "idem_clean_expired now s = (let s' = idem_retain now s in (length s - length s', s'))"

text \<open>The value under the contract: response, method and path.\<close>

type_synonym idem_value = "json \<times> string \<times> string"

definition idem_fetch :: "idempotency_store \<Rightarrow> instant \<Rightarrow> string \<Rightarrow> idem_value option" where
  "idem_fetch s now k =
     (case map_of s k of
        Some e \<Rightarrow> if idem_live now e then Some (ie_response e, ie_method e, ie_path e) else None
      | None \<Rightarrow> None)"

definition idem_put :: "instant \<Rightarrow> string \<Rightarrow> idem_value \<Rightarrow> idempotency_store \<Rightarrow> idempotency_store" where
  "idem_put t k v s = (case v of (r, meth, path) \<Rightarrow> idem_set t k r meth path s)"

lemma map_of_filter_None: "map_of s k = None \<Longrightarrow> map_of (filter P s) k = None"
  by (induction s) (auto split: if_splits)

lemma map_of_filter_unique:
  "distinct (map fst s) \<Longrightarrow>
   map_of (filter (\<lambda>(_, e). P e) s) k =
     (case map_of s k of Some e \<Rightarrow> if P e then Some e else None | None \<Rightarrow> None)"
proof (induction s)
  case (Cons x s)
  obtain k' e where x: "x = (k', e)" by (metis surj_pair)
  have "map_of (filter (\<lambda>(_, e). P e) s) k' = None"
    using Cons.prems x by (intro map_of_filter_None) (simp add: map_of_eq_None_iff)
  then show ?case using Cons x by auto
qed simp

definition distinct_keys :: "('k \<times> 'v) list \<Rightarrow> bool" where
  "distinct_keys s \<longleftrightarrow> distinct (map fst s)"

lemma distinct_keys_update: "distinct_keys s \<Longrightarrow> distinct_keys (AList.update k v s)"
  by (simp add: distinct_keys_def distinct_update)

lemma distinct_keys_filter: "distinct_keys s \<Longrightarrow> distinct_keys (filter P s)"
  by (simp add: distinct_keys_def distinct_map_filter)

lemma distinct_keys_delete: "distinct_keys s \<Longrightarrow> distinct_keys (AList.delete k s)"
  by (simp add: distinct_keys_def distinct_delete)

lemma idem_fetch_retain:
  assumes "distinct_keys s" and "t \<le> t'"
  shows "idem_fetch (idem_retain t s) t' k = idem_fetch s t' k"
proof -
  have "idem_live t e" if "idem_live t' e" for e
    using that assms(2) by (simp add: idem_live_def elapsed_def)
  then show ?thesis
    using map_of_filter_unique [of s "idem_live t" k] assms(1)
    by (auto simp: idem_fetch_def idem_retain_def distinct_keys_def split: option.splits)
qed

interpretation idem: expiring_store idem_fetch idem_put idem_retain
  "\<lambda>t _ t'. elapsed t' t < idempotency_ttl" distinct_keys
proof unfold_locales
  fix s :: idempotency_store and t t' k v k'
  assume "distinct_keys s"
  then show "distinct_keys (idem_put t k v s)" "distinct_keys (idem_retain t s)"
    by (simp_all add: idem_put_def idem_set_def idem_retain_def distinct_keys_update
        distinct_keys_filter split: prod.splits)
  show "idem_fetch (idem_put t k v s) t' k' =
      (if k' = k then if elapsed t' t < idempotency_ttl then Some v else None else idem_fetch s t' k')"
    by (auto simp: idem_fetch_def idem_put_def idem_set_def idem_live_def update_conv'
        split: prod.splits)
qed (rule idem_fetch_retain)

section \<open>The token store\<close>

datatype TokenType = DeviceToken | RefreshToken

record TokenEntry =
  te_device_id :: uuid
  te_token_type :: TokenType
  te_expires_at :: utc

datatype LinkTokenError = InvalidToken | TokenExpired

type_synonym token_store = "(string \<times> TokenEntry) list"

definition seven_days :: int where
  "seven_days = 7 * 24 * 3600 * 1000000000"

text \<open>\<open>hash\<close> is SHA-256 in hexadecimal.\<close>

definition store_hash :: "utc \<Rightarrow> string \<Rightarrow> TokenType \<Rightarrow> uuid \<Rightarrow> token_store \<Rightarrow> token_store" where
  "store_hash now h ty dev s =
     AList.update h \<lparr>te_device_id = dev, te_token_type = ty, te_expires_at = now + seven_days\<rparr> s"

definition store_token ::
  "(string \<Rightarrow> string) \<Rightarrow> utc \<Rightarrow> string \<Rightarrow> TokenType \<Rightarrow> uuid \<Rightarrow> token_store \<Rightarrow> token_store" where
  "store_token hash now token ty dev s =
     AList.update (hash token)
       \<lparr>te_device_id = dev, te_token_type = ty, te_expires_at = now + seven_days\<rparr> s"

definition validate_token ::
  "(string \<Rightarrow> string) \<Rightarrow> utc \<Rightarrow> string \<Rightarrow> TokenType \<Rightarrow> token_store \<Rightarrow> LinkTokenError + uuid" where
  "validate_token hash now token expected s =
     (case map_of s (hash token) of
        Some e \<Rightarrow>
          (if te_token_type e \<noteq> expected then Inl InvalidToken
           else if te_expires_at e > now then Inr (te_device_id e)
           else Inl TokenExpired)
      | None \<Rightarrow> Inl InvalidToken)"

definition has_hash :: "string \<Rightarrow> token_store \<Rightarrow> bool" where
  "has_hash h s \<longleftrightarrow> map_of s h \<noteq> None"

text \<open>The rows of the devices that are not revoked: device and token hash.\<close>

definition load_tokens_from_db ::
  "utc \<Rightarrow> (uuid \<times> string) list \<Rightarrow> token_store \<Rightarrow> nat \<times> token_store" where
  "load_tokens_from_db now rows s =
     fold (\<lambda>(dev, h) (n, s). if has_hash h s then (n, s)
                             else (Suc n, store_hash now h DeviceToken dev s)) rows (0, s)"

definition revoke_by_hash :: "string \<Rightarrow> token_store \<Rightarrow> token_store" where
  "revoke_by_hash h s = AList.delete h s"

definition revoke_token :: "(string \<Rightarrow> string) \<Rightarrow> string \<Rightarrow> token_store \<Rightarrow> token_store" where
  "revoke_token hash token s = AList.delete (hash token) s"

definition revoke_all_by_device :: "uuid \<Rightarrow> token_store \<Rightarrow> token_store" where
  "revoke_all_by_device dev s = filter (\<lambda>(_, e). te_device_id e \<noteq> dev) s"

definition token_cleanup :: "utc \<Rightarrow> token_store \<Rightarrow> token_store" where
  "token_cleanup now s = filter (\<lambda>(_, e). te_expires_at e > now) s"

definition token_fetch :: "token_store \<Rightarrow> utc \<Rightarrow> string \<Rightarrow> (TokenType \<times> uuid) option" where
  "token_fetch s now h =
     (case map_of s h of
        Some e \<Rightarrow> if te_expires_at e > now then Some (te_token_type e, te_device_id e) else None
      | None \<Rightarrow> None)"

definition token_put :: "utc \<Rightarrow> string \<Rightarrow> TokenType \<times> uuid \<Rightarrow> token_store \<Rightarrow> token_store" where
  "token_put t h v s = store_hash t h (fst v) (snd v) s"

lemma token_fetch_cleanup:
  assumes "distinct_keys s" and "t \<le> t'"
  shows "token_fetch (token_cleanup t s) t' h = token_fetch s t' h"
  using map_of_filter_unique [of s "\<lambda>e. te_expires_at e > t" h] assms
  by (auto simp: token_fetch_def token_cleanup_def distinct_keys_def split: option.splits)

interpretation tokens: revocable_store token_fetch token_put token_cleanup
  "\<lambda>t _ t'. t + seven_days > t'" distinct_keys revoke_by_hash
proof unfold_locales
  fix s :: token_store and t t' h h' v
  assume d: "distinct_keys s"
  then show "distinct_keys (token_put t h v s)" "distinct_keys (token_cleanup t s)"
    "distinct_keys (revoke_by_hash h s)"
    by (simp_all add: token_put_def store_hash_def token_cleanup_def revoke_by_hash_def
        distinct_keys_update distinct_keys_filter distinct_keys_delete)
  show "token_fetch (token_put t h v s) t' h' =
      (if h' = h then if t + seven_days > t' then Some v else None else token_fetch s t' h')"
    by (auto simp: token_fetch_def token_put_def store_hash_def update_conv')
  show "token_fetch (revoke_by_hash h s) t' h' = (if h' = h then None else token_fetch s t' h')"
    by (simp add: token_fetch_def revoke_by_hash_def delete_conv')
qed (rule token_fetch_cleanup)

text \<open>What \<open>validate\<close> accepts is what the contract calls live, of the expected type.\<close>

lemma validate_token_iff:
  "validate_token hash now token ty s = Inr dev \<longleftrightarrow> token_fetch s now (hash token) = Some (ty, dev)"
  by (auto simp: validate_token_def token_fetch_def split: option.splits)

section \<open>Properties\<close>

text \<open>Idempotency. After any sequence of writes, reads and cleanings at instants up to now, a read
  of a key answers with the response of its last write when that is less than an hour old, and with
  nothing otherwise: sweeping expired entries is never seen.\<close>

theorem idempotency_answers_last_write:
  assumes "\<forall>op \<in> set ops. op_time op \<le> now"
  shows "fst (idem_get now k (fold (apply_op idem_put idem_retain) ops [])) =
    (case last_put ops k None of
       Some (t, r, _) \<Rightarrow> if elapsed now t < idempotency_ttl then Some r else None
     | None \<Rightarrow> None)"
proof -
  let ?s = "fold (apply_op idem_put idem_retain) ops []"
  have "distinct_keys (fold (apply_op idem_put idem_retain) ops s)" if "distinct_keys s" for s
    using that
  proof (induction ops arbitrary: s)
    case (Cons op ops)
    then show ?case by (cases op) (simp_all add: idem.valid_put idem.valid_sweep)
  qed simp
  then have d: "distinct_keys ?s" by (simp add: distinct_keys_def)
  have g: "fst (idem_get now k ?s) = map_option fst (idem_fetch ?s now k)"
    using map_of_filter_unique [of ?s "idem_live now" k] d
    by (auto simp: idem_get_def idem_retain_def idem_fetch_def distinct_keys_def split: option.splits)
  have "idem_fetch ?s now k =
      (case last_put ops k None of
         Some (t, v) \<Rightarrow> if elapsed now t < idempotency_ttl then Some v else None
       | None \<Rightarrow> idem_fetch [] now k)"
    using idem.fetch_run [of "[]" ops now k] assms by (simp add: idem.run_def distinct_keys_def)
  then show ?thesis unfolding g by (auto simp: idem_fetch_def split: option.splits)
qed

theorem idempotency_answers_last_write_witness:
  "fst (idem_get (from_secs 20) ''a'' (fold (apply_op idem_put idem_retain)
     [Put 0 ''a'' (JBool True, ''POST'', ''/x''), Sweep 5, Put 7 ''b'' (JNull, ''POST'', ''/y'')] [])) =
   (case last_put [Put 0 ''a'' (JBool True, ''POST'', ''/x''), Sweep 5,
       Put 7 ''b'' (JNull, ''POST'', ''/y'')] ''a'' None of
      Some (t, r, _) \<Rightarrow> if elapsed (from_secs 20) t < idempotency_ttl then Some r else None
    | None \<Rightarrow> None)"
  by (rule idempotency_answers_last_write) (simp add: from_secs_def)

section \<open>Findings\<close>

text \<open>\<open>exists\<close> and \<open>check_reuse\<close> do not look at the age of an entry.\<close>

lemma expired_key_still_exists:
  assumes "map_of s k = Some e" and "\<not> idem_live now e" and "ie_method e \<noteq> meth"
  shows "idem_fetch s now k = None" "idem_exists k s"
    "idem_check_reuse k meth path s = Some (ie_method e, ie_path e)"
  using assms by (simp_all add: idem_fetch_def idem_exists_def idem_check_reuse_def)

text \<open>A token loaded from the database at start-up lives seven days from then.\<close>

lemma restored_token_is_renewed:
  "token_fetch (snd (load_tokens_from_db now [(dev, h)] [])) t h =
     (if t < now + seven_days then Some (DeviceToken, dev) else None)"
  by (simp add: load_tokens_from_db_def has_hash_def token_fetch_def store_hash_def)

end
