(* ===== verification/Auth_Sessions.thy ===== *)
theory Auth_Sessions
  imports Attempt_Limiter Expiring_Store Rust_Strings "HOL-Library.Sublist"
begin

text \<open>
  \<open>michi-api/src/auth.rs\<close>: tokens and cookies of a request, the session store over its cache and its
  table, the two authorization middlewares, login, registration, logout and the status check;
  \<open>resolve_client_ip\<close> of \<open>michi-api/src/lib.rs\<close>; the statements of \<open>michi-db\<close> on users and
  sessions.
\<close>

section \<open>Tables, cache, environment\<close>

record UserRow =
  usr_id :: uuid
  usr_username :: string
  usr_password_hash :: string
  usr_is_admin :: bool
  usr_managed :: bool
  usr_created_at :: utc

text \<open>A time column is \<open>None\<close> when its text is not RFC 3339.\<close>

record SessionRow =
  ses_token_hash :: string
  ses_user_id :: uuid
  ses_created_at :: utc
  ses_expires_at :: "utc option"
  ses_last_seen_at :: "utc option"

record AuthDb =
  ad_users :: "UserRow list"
  ad_sessions :: "SessionRow list"

record LoginSession =
  sd_expiry :: instant
  sd_user_id :: uuid

text \<open>\<open>au_persistent\<close>: the \<open>db\<close> of \<open>AuthState\<close> is there.\<close>

record AuthHost =
  au_db :: AuthDb
  au_persistent :: bool
  au_sessions :: "string \<rightharpoonup> LoginSession"
  au_attempts :: attempts
  au_tokens :: token_store

text \<open>
  The environment of one operation: clocks, the fresh token and identifier, SHA-256, Argon2, which
  statement fails (by its name and the number of its repetition), the comparison of time texts in
  the clean-up, and the configuration.
\<close>

record AuthEnv =
  av_now :: instant
  av_utc :: utc
  av_token :: string
  av_uuid :: uuid
  av_hash :: "string \<Rightarrow> string"
  av_argon_hash :: "string \<Rightarrow> string + string"
  av_argon_verify :: "string \<Rightarrow> string \<Rightarrow> string + bool"
  av_fail :: "string \<Rightarrow> nat \<Rightarrow> string option"
  av_text_expired :: "utc option \<Rightarrow> utc \<Rightarrow> bool"
  av_header_ok :: "string \<Rightarrow> bool"
  av_parse_ip :: "string \<Rightarrow> string option"
  av_auth_enabled :: bool
  av_allow_registration :: bool
  av_login_limit :: u32
  av_trust_proxy :: bool
  av_trusted_proxies :: "string list"
  av_username :: "string option"
  av_password :: "string option"

definition query :: "AuthEnv \<Rightarrow> string \<Rightarrow> nat \<Rightarrow> 'a \<Rightarrow> string + 'a" where
  "query V label i x = (case av_fail V label i of Some e \<Rightarrow> Inl e | None \<Rightarrow> Inr x)"

section \<open>Statements on users and sessions\<close>

definition user_by_username :: "string \<Rightarrow> AuthDb \<Rightarrow> UserRow option" where
  "user_by_username name db = List.find (\<lambda>r. usr_username r = name) (ad_users db)"

definition user_by_id :: "uuid \<Rightarrow> AuthDb \<Rightarrow> UserRow option" where
  "user_by_id i db = List.find (\<lambda>r. usr_id r = i) (ad_users db)"

text \<open>The primary key and the unique name of \<open>users\<close>.\<close>

definition create_user :: "AuthEnv \<Rightarrow> uuid \<Rightarrow> string \<Rightarrow> string \<Rightarrow> bool \<Rightarrow> AuthDb \<Rightarrow> string + AuthDb" where
  "create_user V i name hash is_admin db =
     (case av_fail V ''create user'' 0 of
        Some e \<Rightarrow> Inl e
      | None \<Rightarrow>
          if list_ex (\<lambda>r. usr_id r = i \<or> usr_username r = name) (ad_users db)
          then Inl ''UNIQUE constraint failed''
          else Inr (db\<lparr>ad_users := ad_users db @
                 [\<lparr>usr_id = i, usr_username = name, usr_password_hash = hash,
                   usr_is_admin = is_admin, usr_managed = False, usr_created_at = av_utc V\<rparr>]\<rparr>))"

definition create_auth_session ::
  "AuthEnv \<Rightarrow> string \<Rightarrow> uuid \<Rightarrow> utc \<Rightarrow> utc \<Rightarrow> AuthDb \<Rightarrow> string + AuthDb" where
  "create_auth_session V h u created expires db =
     (case av_fail V ''create session'' 0 of
        Some e \<Rightarrow> Inl e
      | None \<Rightarrow>
          if list_ex (\<lambda>r. ses_token_hash r = h) (ad_sessions db)
          then Inl ''UNIQUE constraint failed''
          else Inr (db\<lparr>ad_sessions := ad_sessions db @
                 [\<lparr>ses_token_hash = h, ses_user_id = u, ses_created_at = created,
                   ses_expires_at = Some expires, ses_last_seen_at = Some created\<rparr>]\<rparr>))"

definition get_auth_session :: "string \<Rightarrow> AuthDb \<Rightarrow> (uuid \<times> utc option) option" where
  "get_auth_session h db =
     map_option (\<lambda>r. (ses_user_id r, ses_expires_at r))
       (List.find (\<lambda>r. ses_token_hash r = h) (ad_sessions db))"

definition touch_auth_session :: "string \<Rightarrow> utc \<Rightarrow> AuthDb \<Rightarrow> AuthDb" where
  "touch_auth_session h now db =
     db\<lparr>ad_sessions := map (\<lambda>r. if ses_token_hash r = h then r\<lparr>ses_last_seen_at := Some now\<rparr> else r)
                         (ad_sessions db)\<rparr>"

definition delete_auth_session :: "string \<Rightarrow> AuthDb \<Rightarrow> AuthDb" where
  "delete_auth_session h db =
     db\<lparr>ad_sessions := filter (\<lambda>r. ses_token_hash r \<noteq> h) (ad_sessions db)\<rparr>"

definition delete_auth_sessions_for_user :: "uuid \<Rightarrow> AuthDb \<Rightarrow> AuthDb" where
  "delete_auth_sessions_for_user u db =
     db\<lparr>ad_sessions := filter (\<lambda>r. ses_user_id r \<noteq> u) (ad_sessions db)\<rparr>"

definition cleanup_expired_auth_sessions :: "AuthEnv \<Rightarrow> AuthDb \<Rightarrow> AuthDb" where
  "cleanup_expired_auth_sessions V db =
     db\<lparr>ad_sessions := filter (\<lambda>r. \<not> av_text_expired V (ses_expires_at r) (av_utc V)) (ad_sessions db)\<rparr>"

section \<open>The session store\<close>

definition SESSION_DURATION :: nat where
  "SESSION_DURATION = from_secs (24 * 60 * 60)"

definition create_session :: "AuthEnv \<Rightarrow> uuid \<Rightarrow> AuthHost \<Rightarrow> (string + string) \<times> AuthHost" where
  "create_session V u H =
     (let token = av_token V;
          remember = (\<lambda>H. H\<lparr>au_sessions := (au_sessions H)(token \<mapsto>
             \<lparr>sd_expiry = av_now V + SESSION_DURATION, sd_user_id = u\<rparr>)\<rparr>)
      in if \<not> au_persistent H then (Inr token, remember H)
         else case create_auth_session V (av_hash V token) u (av_utc V)
                (av_utc V + int SESSION_DURATION) (au_db H) of
                Inl e \<Rightarrow> (Inl (''failed to persist session to database: '' @ e), H)
              | Inr db \<Rightarrow> (Inr token, remember (H\<lparr>au_db := db\<rparr>)))"

text \<open>What \<open>tokio::spawn\<close> leaves to run later.\<close>

datatype AuthTask = InvalidateToken string | TouchRow string utc | DeleteRow string

text \<open>\<open>extract_user_id\<close> up to its last wait: what it has read.\<close>

datatype Lookup = Known uuid | Unknown "AuthTask list" | Restored uuid nat "AuthTask list"

definition cached_user :: "AuthEnv \<Rightarrow> string \<Rightarrow> AuthHost \<Rightarrow> uuid option" where
  "cached_user V token H =
     (case au_sessions H token of
        Some d \<Rightarrow> if sd_expiry d > av_now V then Some (sd_user_id d) else None
      | None \<Rightarrow> None)"

definition lookup_session :: "AuthEnv \<Rightarrow> string \<Rightarrow> AuthHost \<Rightarrow> Lookup" where
  "lookup_session V token H =
     (case cached_user V token H of
        Some u \<Rightarrow>
          (if \<not> au_persistent H then Known u
           else case query V ''user by id'' 0 (user_by_id u (au_db H)) of
             Inr (Some _) \<Rightarrow> Known u
           | _ \<Rightarrow> Unknown [InvalidateToken token])
      | None \<Rightarrow>
          (if \<not> au_persistent H then Unknown []
           else case query V ''auth session'' 0 (get_auth_session (av_hash V token) (au_db H)) of
             Inr (Some (u, Some expires)) \<Rightarrow>
               (if expires > av_utc V then
                  (case query V ''user by id'' 0 (user_by_id u (au_db H)) of
                     Inr (Some _) \<Rightarrow>
                       Restored u (nat (expires - av_utc V))
                         [TouchRow (av_hash V token) (av_utc V)]
                   | _ \<Rightarrow> Unknown [DeleteRow (av_hash V token)])
                else Unknown [])
           | _ \<Rightarrow> Unknown []))"

text \<open>And from there on: the cache insertion of a restored session.\<close>

definition finish_lookup ::
  "AuthEnv \<Rightarrow> string \<Rightarrow> Lookup \<Rightarrow> AuthHost \<Rightarrow> uuid option \<times> AuthTask list \<times> AuthHost" where
  "finish_lookup V token l H =
     (case l of
        Known u \<Rightarrow> (Some u, [], H)
      | Unknown ts \<Rightarrow> (None, ts, H)
      | Restored u remaining ts \<Rightarrow>
          (Some u, ts, H\<lparr>au_sessions := (au_sessions H)(token \<mapsto>
             \<lparr>sd_expiry = av_now V + remaining, sd_user_id = u\<rparr>)\<rparr>))"

definition extract_user_id ::
  "AuthEnv \<Rightarrow> string \<Rightarrow> AuthHost \<Rightarrow> uuid option \<times> AuthTask list \<times> AuthHost" where
  "extract_user_id V token H = finish_lookup V token (lookup_session V token H) H"

definition validate_session :: "AuthEnv \<Rightarrow> string \<Rightarrow> AuthHost \<Rightarrow> bool \<times> AuthTask list \<times> AuthHost" where
  "validate_session V token H =
     (let (u, ts, H) = extract_user_id V token H in (u \<noteq> None, ts, H))"

definition db_step :: "AuthEnv \<Rightarrow> string \<Rightarrow> (AuthDb \<Rightarrow> AuthDb) \<Rightarrow> AuthHost \<Rightarrow> (string + unit) \<times> AuthHost" where
  "db_step V label f H =
     (if \<not> au_persistent H then (Inr (), H)
      else case av_fail V label 0 of
        Some e \<Rightarrow> (Inl (''database deletion error: '' @ e), H)
      | None \<Rightarrow> (Inr (), H\<lparr>au_db := f (au_db H)\<rparr>))"

definition invalidate :: "AuthEnv \<Rightarrow> string \<Rightarrow> AuthHost \<Rightarrow> (string + unit) \<times> AuthHost" where
  "invalidate V token H =
     (case db_step V ''delete session'' (delete_auth_session (av_hash V token)) H of
        (Inl e, H) \<Rightarrow> (Inl e, H)
      | (Inr _, H) \<Rightarrow> (Inr (), H\<lparr>au_sessions := (au_sessions H)(token := None)\<rparr>))"

definition invalidate_user_sessions :: "AuthEnv \<Rightarrow> uuid \<Rightarrow> AuthHost \<Rightarrow> (string + unit) \<times> AuthHost" where
  "invalidate_user_sessions V u H =
     (case db_step V ''delete user sessions'' (delete_auth_sessions_for_user u) H of
        (Inl e, H) \<Rightarrow> (Inl e, H)
      | (Inr _, H) \<Rightarrow>
          (Inr (), H\<lparr>au_sessions := map_retain (\<lambda>_ d. sd_user_id d \<noteq> u) (au_sessions H)\<rparr>))"

definition clear_all_sessions :: "AuthEnv \<Rightarrow> AuthHost \<Rightarrow> (string + unit) \<times> AuthHost" where
  "clear_all_sessions V H =
     (case db_step V ''delete all sessions'' (\<lambda>db. db\<lparr>ad_sessions := []\<rparr>) H of
        (Inl e, H) \<Rightarrow> (Inl e, H)
      | (Inr _, H) \<Rightarrow> (Inr (), H\<lparr>au_sessions := Map.empty\<rparr>))"

definition session_cleanup :: "AuthEnv \<Rightarrow> AuthHost \<Rightarrow> AuthHost" where
  "session_cleanup V H =
     snd (db_step V ''clean sessions'' (cleanup_expired_auth_sessions V)
            (H\<lparr>au_sessions := map_retain (\<lambda>_ d. sd_expiry d > av_now V) (au_sessions H)\<rparr>))"

definition run_task :: "AuthEnv \<Rightarrow> AuthTask \<Rightarrow> AuthHost \<Rightarrow> AuthHost" where
  "run_task V t H =
     (case t of
        InvalidateToken token \<Rightarrow> snd (invalidate V token H)
      | TouchRow h now \<Rightarrow> snd (db_step V ''touch session'' (touch_auth_session h now) H)
      | DeleteRow h \<Rightarrow> snd (db_step V ''delete session'' (delete_auth_session h) H))"

end
