(* ===== verification/Auth_Routes.thy ===== *)
theory Auth_Routes
  imports Auth_Sessions
begin

text \<open>
  The requests of \<open>michi-api/src/auth.rs\<close>: where a token comes from, whose address a request has
  (\<open>resolve_client_ip\<close>), the cookie, the middlewares of the protected routes and the four handlers.
\<close>

section \<open>Requests\<close>

text \<open>Headers whose value is not visible ASCII are absent here, as \<open>to_str\<close> makes them.\<close>

record AuthRequest =
  rq_path :: string
  rq_authorization :: "string option"
  rq_cookie :: "string option"
  rq_peer :: "string option"
  rq_forwarded_for :: "string option"
  rq_real_ip :: "string option"
  rq_forwarded_proto :: "string option"

definition bearer_token :: "string \<Rightarrow> string option" where
  "bearer_token h =
     (case strip_prefix ''Bearer '' h of
        Some token \<Rightarrow> (let t = trim token in if t = [] then None else Some t)
      | None \<Rightarrow> None)"

fun cookie_token :: "string list \<Rightarrow> string option" where
  "cookie_token [] = None"
| "cookie_token (c # cs) =
     (case strip_prefix ''michi_web_session='' (trim c) of
        Some val \<Rightarrow> (let t = trim val in if t = [] then cookie_token cs else Some t)
      | None \<Rightarrow> cookie_token cs)"

definition extract_token :: "AuthRequest \<Rightarrow> string option" where
  "extract_token rq =
     (case Option.bind (rq_authorization rq) bearer_token of
        Some t \<Rightarrow> Some t
      | None \<Rightarrow>
          (case rq_cookie rq of
             Some h \<Rightarrow> cookie_token (split_char (CHR '';'') [] h)
           | None \<Rightarrow> None))"

definition is_trusted_proxy :: "AuthEnv \<Rightarrow> string \<Rightarrow> bool" where
  "is_trusted_proxy V ip \<longleftrightarrow> av_trust_proxy V \<and> ip \<in> set (av_trusted_proxies V)"

text \<open>The loop over the entries of \<open>X-Forwarded-For\<close> from the right: \<open>Inl\<close> is the early return.\<close>

fun forwarded_ip :: "AuthEnv \<Rightarrow> string list \<Rightarrow> unit + string option" where
  "forwarded_ip V [] = Inr None"
| "forwarded_ip V (t # ts) =
     (if t = [] then Inl ()
      else case av_parse_ip V t of
        None \<Rightarrow> Inl ()
      | Some ip \<Rightarrow> if is_trusted_proxy V ip then forwarded_ip V ts else Inr (Some ip))"

definition forwarded_entries :: "string \<Rightarrow> string list" where
  "forwarded_entries h = rev (map trim (split_char (CHR '','') [] h))"

definition resolve_client_ip :: "AuthEnv \<Rightarrow> AuthRequest \<Rightarrow> string option" where
  "resolve_client_ip V rq =
     (case rq_peer rq of
        None \<Rightarrow> None
      | Some peer \<Rightarrow>
          if \<not> is_trusted_proxy V peer then Some peer
          else (let real = Option.bind (rq_real_ip rq) (\<lambda>h. av_parse_ip V (trim h)) in
                case rq_forwarded_for rq of
                  None \<Rightarrow> real
                | Some h \<Rightarrow>
                    (case forwarded_ip V (forwarded_entries h) of
                       Inl _ \<Rightarrow> None
                     | Inr (Some ip) \<Rightarrow> Some ip
                     | Inr None \<Rightarrow> real)))"

definition extract_client_ip :: "AuthEnv \<Rightarrow> AuthRequest \<Rightarrow> string" where
  "extract_client_ip V rq =
     (case resolve_client_ip V rq of Some ip \<Rightarrow> ip | None \<Rightarrow> ''127.0.0.1'')"

definition is_secure_request :: "AuthEnv \<Rightarrow> AuthRequest \<Rightarrow> bool" where
  "is_secure_request V rq =
     (case rq_peer rq of
        Some ip \<Rightarrow>
          is_trusted_proxy V ip \<and>
          (case rq_forwarded_proto rq of
             Some proto \<Rightarrow> eq_ignore_ascii_case proto ''https'' | None \<Rightarrow> False)
      | None \<Rightarrow> False)"

definition make_session_cookie :: "string \<Rightarrow> u64 \<Rightarrow> bool \<Rightarrow> string" where
  "make_session_cookie token max_age_secs secure =
     (if max_age_secs = 0
      then ''michi_web_session=; HttpOnly; SameSite=Strict; Path=/; Max-Age=0; ''
           @ ''Expires=Thu, 01 Jan 1970 00:00:00 GMT'' @ (if secure then ''; Secure'' else [])
      else ''michi_web_session='' @ token @ ''; HttpOnly; SameSite=Strict; Path=/; Max-Age=''
           @ show_nat (unat max_age_secs) @ (if secure then ''; Secure'' else []))"

definition response_headers :: "AuthEnv \<Rightarrow> string \<Rightarrow> (string \<times> string) list" where
  "response_headers V cookie =
     (if av_header_ok V cookie then [(''set-cookie'', cookie)] else [])
     @ [(''cache-control'', ''no-store'')]"

section \<open>Middlewares\<close>

datatype Verdict = Proceed | Refuse u16 string

definition admin_prefixes :: "string list" where
  "admin_prefixes =
     [''/api/v1/audit'', ''/api/v1/backup'', ''/api/v1/config'', ''/api/v1/devices'',
      ''/api/v1/diagnostics'', ''/api/v1/health/mounts'', ''/api/v1/health/storage'',
      ''/api/v1/health/verify'', ''/api/v1/home'', ''/api/v1/import'', ''/api/v1/jobs'',
      ''/api/v1/library/scan'', ''/api/v1/link/devices'', ''/api/v1/modules'',
      ''/api/v1/pair/start'', ''/api/v1/pair/qr'', ''/api/v1/receivers'', ''/api/v1/rooms'',
      ''/api/v1/settings'', ''/api/v1/setup'', ''/api/v1/sources'', ''/api/v1/webhook'',
      ''/api/v1/transcode'', ''/api/v1/update'']"

definition is_admin_route :: "string \<Rightarrow> bool" where
  "is_admin_route path =
     (if prefix ''/api/v1/pair/qr/'' path \<and> (suffix ''/claim'' path \<or> suffix ''/svg'' path)
      then False
      else list_ex (\<lambda>p. prefix p path) admin_prefixes)"

definition user_is_admin :: "AuthEnv \<Rightarrow> uuid \<Rightarrow> AuthHost \<Rightarrow> bool" where
  "user_is_admin V u H =
     (case query V ''user by id'' 1 (user_by_id u (au_db H)) of
        Inr (Some r) \<Rightarrow> usr_is_admin r | _ \<Rightarrow> False)"

definition v1_auth_middleware ::
  "AuthEnv \<Rightarrow> AuthRequest \<Rightarrow> AuthHost \<Rightarrow> Verdict \<times> AuthTask list \<times> AuthHost" where
  "v1_auth_middleware V rq H =
     (case extract_token rq of
        None \<Rightarrow> (Refuse 401 ''missing authorization header'', [], H)
      | Some token \<Rightarrow>
          if is_admin_route (rq_path rq) then
            (case extract_user_id V token H of
               (None, ts, H) \<Rightarrow> (Refuse 401 ''administrator session required'', ts, H)
             | (Some u, ts, H) \<Rightarrow>
                 ((if user_is_admin V u H then Proceed
                   else Refuse 403 ''administrator privileges required''), ts, H))
          else
            (let (valid, ts, H) = validate_session V token H in
             if valid \<or> is_ok (validate_token (av_hash V) (av_utc V) token DeviceToken (au_tokens H))
             then (Proceed, ts, H)
             else (Refuse 401 ''invalid or expired token'', ts, H)))"

definition auth_middleware ::
  "AuthEnv \<Rightarrow> AuthRequest \<Rightarrow> AuthHost \<Rightarrow> Verdict \<times> AuthTask list \<times> AuthHost" where
  "auth_middleware V rq H =
     (if \<not> av_auth_enabled V then (Proceed, [], H)
      else case extract_token rq of
        None \<Rightarrow> (Refuse 401 ''missing authorization header'', [], H)
      | Some token \<Rightarrow>
          (let (valid, ts, H) = validate_session V token H in
           ((if valid then Proceed else Refuse 401 ''invalid or expired token''), ts, H)))"

text \<open>The device behind a request: a paired device's token, or a session where login is enabled.\<close>

definition resolve_device_id ::
  "AuthEnv \<Rightarrow> AuthRequest \<Rightarrow> AuthHost \<Rightarrow> uuid option \<times> AuthTask list \<times> AuthHost" where
  "resolve_device_id V rq H =
     (case extract_token rq of
        None \<Rightarrow> (None, [], H)
      | Some token \<Rightarrow>
          (case validate_token (av_hash V) (av_utc V) token DeviceToken (au_tokens H) of
             Inr device \<Rightarrow> (Some device, [], H)
           | Inl _ \<Rightarrow>
               if av_auth_enabled V then extract_user_id V token H else (None, [], H)))"

section \<open>Handlers\<close>

record LoginOk =
  lo_token :: string
  lo_id :: uuid
  lo_username :: string
  lo_is_admin :: bool
  lo_headers :: "(string \<times> string) list"

type_synonym auth_failure = "u16 \<times> string"

definition password_matches :: "AuthEnv \<Rightarrow> string \<Rightarrow> string \<Rightarrow> bool" where
  "password_matches V password hash =
     (case av_argon_verify V password hash of Inr b \<Rightarrow> b | Inl _ \<Rightarrow> False)"

definition login_answer :: "AuthEnv \<Rightarrow> AuthRequest \<Rightarrow> string \<Rightarrow> uuid \<Rightarrow> string \<Rightarrow> bool \<Rightarrow> LoginOk" where
  "login_answer V rq token u name is_admin =
     \<lparr>lo_token = token, lo_id = u, lo_username = name, lo_is_admin = is_admin,
      lo_headers = response_headers V (make_session_cookie token 86400 (is_secure_request V rq))\<rparr>"

definition open_session ::
  "AuthEnv \<Rightarrow> AuthRequest \<Rightarrow> uuid \<Rightarrow> string \<Rightarrow> bool \<Rightarrow> AuthHost
   \<Rightarrow> (auth_failure + LoginOk) \<times> AuthHost" where
  "open_session V rq u name is_admin H =
     (case create_session V u H of
        (Inl _, H) \<Rightarrow> (Inl (500, ''failed to initialize session''), H)
      | (Inr token, H) \<Rightarrow> (Inr (login_answer V rq token u name is_admin), H))"

definition login_handler ::
  "AuthEnv \<Rightarrow> AuthRequest \<Rightarrow> string \<Rightarrow> string \<Rightarrow> AuthHost \<Rightarrow> (auth_failure + LoginOk) \<times> AuthHost" where
  "login_handler V rq username password H =
     (if \<not> av_auth_enabled V then (Inl (400, ''auth not configured''), H)
      else (let (open_gate, m) = login_gate (av_login_limit V) (av_now V) (extract_client_ip V rq)
                                   (au_attempts H);
                H = H\<lparr>au_attempts := m\<rparr>
            in if \<not> open_gate
               then (Inl (429, ''too many login attempts, please wait 60 seconds''), H)
               else case query V ''user by name'' 0 (user_by_username username (au_db H)) of
                 Inl e \<Rightarrow> (Inl (500, e), H)
               | Inr None \<Rightarrow> (Inl (401, ''invalid credentials''), H)
               | Inr (Some r) \<Rightarrow>
                   if \<not> password_matches V password (usr_password_hash r)
                   then (Inl (401, ''invalid credentials''), H)
                   else open_session V rq (usr_id r) (usr_username r) (usr_is_admin r) H))"

definition register_handler ::
  "AuthEnv \<Rightarrow> AuthRequest \<Rightarrow> string \<Rightarrow> string \<Rightarrow> AuthHost \<Rightarrow> (auth_failure + LoginOk) \<times> AuthHost" where
  "register_handler V rq username password H =
     (if \<not> av_auth_enabled V then (Inl (400, ''auth not configured''), H)
      else (let (open_gate, m) = register_gate (av_now V) (extract_client_ip V rq) (au_attempts H);
                H = H\<lparr>au_attempts := m\<rparr>
            in if \<not> open_gate
               then (Inl (429, ''too many registration attempts, please wait 60 seconds''), H)
               else if \<not> av_allow_registration V then (Inl (403, ''registration not allowed''), H)
               else if length (trim password) < 8
               then (Inl (400, ''password must be at least 8 non-whitespace characters''), H)
               else case query V ''user by name'' 0 (user_by_username username (au_db H)) of
                 Inl e \<Rightarrow> (Inl (500, e), H)
               | Inr (Some _) \<Rightarrow> (Inl (409, ''username already exists''), H)
               | Inr None \<Rightarrow>
                   (case av_argon_hash V password of
                      Inl e \<Rightarrow> (Inl (500, e), H)
                    | Inr hash \<Rightarrow>
                        (case create_user V (av_uuid V) username hash False (au_db H) of
                           Inl e \<Rightarrow> (Inl (500, e), H)
                         | Inr db \<Rightarrow>
                             open_session V rq (av_uuid V) username False (H\<lparr>au_db := db\<rparr>)))))"

text \<open>The headers are sent in both cases.\<close>

definition logout_handler ::
  "AuthEnv \<Rightarrow> AuthRequest \<Rightarrow> AuthHost \<Rightarrow> (u16 \<times> (string \<times> string) list) \<times> AuthHost" where
  "logout_handler V rq H =
     (let (failed, H) =
            (case extract_token rq of
               None \<Rightarrow> (False, H)
             | Some token \<Rightarrow> (let (r, H) = invalidate V token H in (is_err r, H)));
          headers = response_headers V (make_session_cookie [] 0 (is_secure_request V rq))
      in ((if failed then 500 else 200, headers), H))"

record AuthStatus =
  st_enabled :: bool
  st_authenticated :: bool
  st_id :: "uuid option"
  st_username :: "string option"
  st_is_admin :: "bool option"
  st_registration_allowed :: bool

definition signed_out :: "AuthEnv \<Rightarrow> AuthStatus" where
  "signed_out V =
     \<lparr>st_enabled = True, st_authenticated = False, st_id = None, st_username = None,
      st_is_admin = None, st_registration_allowed = av_allow_registration V\<rparr>"

definition check_handler ::
  "AuthEnv \<Rightarrow> AuthRequest \<Rightarrow> AuthHost \<Rightarrow> AuthStatus \<times> AuthTask list \<times> AuthHost" where
  "check_handler V rq H =
     (if \<not> av_auth_enabled V
      then ((signed_out V)\<lparr>st_enabled := False, st_authenticated := True\<rparr>, [], H)
      else case extract_token rq of
        None \<Rightarrow> (signed_out V, [], H)
      | Some t \<Rightarrow>
          (case extract_user_id V t H of
             (None, ts, H) \<Rightarrow> (signed_out V, ts, H)
           | (Some u, ts, H) \<Rightarrow>
               (case query V ''user by id'' 1 (user_by_id u (au_db H)) of
                  Inr (Some r) \<Rightarrow>
                    ((signed_out V)\<lparr>st_authenticated := True, st_id := Some (usr_id r),
                       st_username := Some (usr_username r), st_is_admin := Some (usr_is_admin r)\<rparr>,
                     ts, H)
                | _ \<Rightarrow> (signed_out V, ts, snd (invalidate V t H)))))"

end
