(* ===== verification/Admin_Setup.thy ===== *)
theory Admin_Setup
  imports Auth_Routes
begin

text \<open>
  The administrator named in the environment: \<open>init_admin_user\<close> of \<open>michi-api/src/lib.rs\<close>, run at
  every start, and the statements of \<open>michi-db\<close> it uses.
\<close>

definition get_managed_admin_user :: "AuthDb \<Rightarrow> UserRow option" where
  "get_managed_admin_user db = List.find usr_managed (ad_users db)"

definition list_admin_users :: "AuthDb \<Rightarrow> UserRow list" where
  "list_admin_users db = sort_key usr_created_at (filter usr_is_admin (ad_users db))"

text \<open>The statements refused by a unique index: the names, and one managed user.\<close>

definition create_managed_admin_user ::
  "AuthEnv \<Rightarrow> uuid \<Rightarrow> string \<Rightarrow> string \<Rightarrow> AuthDb \<Rightarrow> string + AuthDb" where
  "create_managed_admin_user V i name hash db =
     (case av_fail V ''create managed'' 0 of
        Some e \<Rightarrow> Inl e
      | None \<Rightarrow>
          if list_ex (\<lambda>r. usr_id r = i \<or> usr_username r = name \<or> usr_managed r) (ad_users db)
          then Inl ''UNIQUE constraint failed''
          else Inr (db\<lparr>ad_users := ad_users db @
                 [\<lparr>usr_id = i, usr_username = name, usr_password_hash = hash,
                   usr_is_admin = True, usr_managed = True, usr_created_at = av_utc V\<rparr>]\<rparr>))"

definition adopt_user :: "uuid \<Rightarrow> string \<Rightarrow> string \<Rightarrow> AuthDb \<Rightarrow> AuthDb" where
  "adopt_user i name hash db =
     db\<lparr>ad_users := map (\<lambda>r. if usr_id r = i
                           then r\<lparr>usr_username := name, usr_password_hash := hash,
                                  usr_is_admin := True, usr_managed := True\<rparr> else r) (ad_users db)\<rparr>"

text \<open>One pass of the transaction: an error that is retried, one that is not, or the new tables.\<close>

datatype Attempt_Result = Retry string | GiveUp string | Committed AuthDb

definition reconcile_attempt ::
  "AuthEnv \<Rightarrow> nat \<Rightarrow> uuid \<Rightarrow> string \<Rightarrow> string \<Rightarrow> bool \<Rightarrow> AuthDb \<Rightarrow> Attempt_Result" where
  "reconcile_attempt V n i name hash revoke db =
     (case av_fail V ''begin'' n of
        Some e \<Rightarrow> Retry e
      | None \<Rightarrow>
     (case av_fail V ''name taken'' n of
        Some e \<Rightarrow> Retry e
      | None \<Rightarrow>
          if list_ex (\<lambda>r. usr_username r = name \<and> usr_id r \<noteq> i) (ad_users db)
          then GiveUp (''Username collision: '' @ [CHR 39] @ name @ [CHR 39]
                       @ '' is already taken by another user'')
          else if av_fail V ''adopt'' n \<noteq> None then Retry (the (av_fail V ''adopt'' n))
          else if list_ex (\<lambda>r. usr_id r = i) (ad_users db)
                  \<and> list_ex (\<lambda>r. usr_managed r \<and> usr_id r \<noteq> i) (ad_users db)
          then Retry ''UNIQUE constraint failed''
          else if revoke \<and> av_fail V ''revoke'' n \<noteq> None then Retry (the (av_fail V ''revoke'' n))
          else case av_fail V ''commit'' n of
            Some e \<Rightarrow> Retry e
          | None \<Rightarrow>
              (let db = adopt_user i name hash db
               in Committed (if revoke then delete_auth_sessions_for_user i db else db))))"

text \<open>The loop: \<open>left\<close> passes remain after this one, ten in all.\<close>

fun reconcile_loop ::
  "AuthEnv \<Rightarrow> nat \<Rightarrow> uuid \<Rightarrow> string \<Rightarrow> string \<Rightarrow> bool \<Rightarrow> AuthDb \<Rightarrow> string + AuthDb" where
  "reconcile_loop V 0 i name hash revoke db =
     (case reconcile_attempt V 10 i name hash revoke db of
        Committed db \<Rightarrow> Inr db | GiveUp e \<Rightarrow> Inl e | Retry e \<Rightarrow> Inl e)"
| "reconcile_loop V (Suc left) i name hash revoke db =
     (case reconcile_attempt V (9 - left) i name hash revoke db of
        Committed db \<Rightarrow> Inr db | GiveUp e \<Rightarrow> Inl e
      | Retry _ \<Rightarrow> reconcile_loop V left i name hash revoke db)"

definition reconcile_managed_admin ::
  "AuthEnv \<Rightarrow> uuid \<Rightarrow> string \<Rightarrow> string \<Rightarrow> bool \<Rightarrow> AuthDb \<Rightarrow> string + AuthDb" where
  "reconcile_managed_admin V i name hash revoke db = reconcile_loop V 9 i name hash revoke db"

section \<open>Start\<close>

definition configured_username :: "AuthEnv \<Rightarrow> string option" where
  "configured_username V =
     (case av_username V of
        Some s \<Rightarrow> (let t = trim s in if t = [] then None else Some t) | None \<Rightarrow> None)"

definition configured_password :: "AuthEnv \<Rightarrow> string option" where
  "configured_password V =
     (case av_password V of
        Some s \<Rightarrow> (let t = trim s in if 8 \<le> length t then Some t else None) | None \<Rightarrow> None)"

definition or_err :: "string \<Rightarrow> string + 'a \<Rightarrow> string + 'a" where
  "or_err what r = (case r of Inl e \<Rightarrow> Inl (what @ e) | Inr x \<Rightarrow> Inr x)"

definition bind_err :: "string + 'a \<Rightarrow> ('a \<Rightarrow> string + 'b) \<Rightarrow> string + 'b" where
  "bind_err r f = (case r of Inl e \<Rightarrow> Inl e | Inr x \<Rightarrow> f x)"

definition target_hash :: "AuthEnv \<Rightarrow> string \<Rightarrow> string \<Rightarrow> string + string" where
  "target_hash V password current =
     (if password_matches V password current then Inr current
      else or_err ''failed to hash admin password: '' (av_argon_hash V password))"

text \<open>A user marked as managed: its identifier stays, its name and password follow the
  environment.\<close>

definition reconcile_marked ::
  "AuthEnv \<Rightarrow> string \<Rightarrow> string \<Rightarrow> UserRow \<Rightarrow> AuthDb \<Rightarrow> string + (uuid \<times> AuthDb)" where
  "reconcile_marked V username password managed db =
     (let changed = (\<not> password_matches V password (usr_password_hash managed)
                     \<or> usr_username managed \<noteq> username)
      in bind_err (target_hash V password (usr_password_hash managed)) (\<lambda>hash.
           if changed \<or> \<not> usr_is_admin managed
           then bind_err (or_err ''failed to reconcile managed admin: ''
                  (reconcile_managed_admin V (usr_id managed) username hash changed db))
                  (\<lambda>db. Inr (usr_id managed, db))
           else Inr (usr_id managed, db)))"

definition adopt_same_name ::
  "AuthEnv \<Rightarrow> string \<Rightarrow> string \<Rightarrow> UserRow \<Rightarrow> AuthDb \<Rightarrow> string + (uuid \<times> AuthDb)" where
  "adopt_same_name V username password r db =
     bind_err (target_hash V password (usr_password_hash r)) (\<lambda>hash.
     bind_err (or_err ''failed to adopt matching user as managed admin: ''
       (reconcile_managed_admin V (usr_id r) username hash
          (\<not> password_matches V password (usr_password_hash r)) db))
       (\<lambda>db. Inr (usr_id r, db)))"

definition adopt_legacy ::
  "AuthEnv \<Rightarrow> string \<Rightarrow> string \<Rightarrow> UserRow \<Rightarrow> AuthDb \<Rightarrow> string + (uuid \<times> AuthDb)" where
  "adopt_legacy V username password r db =
     bind_err (or_err ''failed to hash admin password: '' (av_argon_hash V password)) (\<lambda>hash.
     bind_err (or_err ''failed to adopt legacy admin: ''
       (reconcile_managed_admin V (usr_id r) username hash True db))
       (\<lambda>db. Inr (usr_id r, db)))"

definition create_admin ::
  "AuthEnv \<Rightarrow> string \<Rightarrow> string \<Rightarrow> AuthDb \<Rightarrow> string + (uuid \<times> AuthDb)" where
  "create_admin V username password db =
     bind_err (or_err ''failed to check username uniqueness: ''
       (query V ''user by name'' 1 (user_by_username username db))) (\<lambda>u.
     if u \<noteq> None
     then Inl (''Cannot create managed admin with username '' @ [CHR 39] @ username @ [CHR 39]
               @ '': username is already taken by a non-admin user'')
     else bind_err (or_err ''failed to hash admin password: '' (av_argon_hash V password)) (\<lambda>hash.
          bind_err (or_err ''failed to create managed admin user: ''
            (create_managed_admin_user V (av_uuid V) username hash db))
            (\<lambda>db. Inr (av_uuid V, db))))"

definition ambiguous_admins :: "nat \<Rightarrow> string \<Rightarrow> string" where
  "ambiguous_admins n username =
     ''Ambiguous administrator state: '' @ show_nat n
     @ '' admin users exist, but none matches configured MICHI_AUTH_USERNAME '' @ [CHR 39] @ username
     @ [CHR 39] @ '' and none is marked as managed_by_environment. Refusing to initialize ''
     @ ''administrator to prevent unauthorized privilege escalation or data corruption.''"

definition choose_admin ::
  "AuthEnv \<Rightarrow> string \<Rightarrow> string \<Rightarrow> AuthDb \<Rightarrow> string + (uuid \<times> AuthDb)" where
  "choose_admin V username password db =
     bind_err (or_err ''failed to check user by username: ''
       (query V ''user by name'' 0 (user_by_username username db))) (\<lambda>same.
     case same of
       Some r \<Rightarrow> adopt_same_name V username password r db
     | None \<Rightarrow>
         bind_err (or_err ''failed to list admin users: ''
           (query V ''list admins'' 0 (list_admin_users db))) (\<lambda>admins.
         case admins of
           [] \<Rightarrow> create_admin V username password db
         | [r] \<Rightarrow> adopt_legacy V username password r db
         | _ \<Rightarrow> Inl (ambiguous_admins (length admins) username)))"

definition init_admin_user :: "AuthEnv \<Rightarrow> AuthDb \<Rightarrow> string + (uuid option \<times> AuthDb)" where
  "init_admin_user V db =
     (if \<not> av_auth_enabled V then Inr (None, db)
      else case configured_username V of
        None \<Rightarrow> Inl ''MICHI_AUTH_USERNAME is missing or empty while auth is enabled''
      | Some username \<Rightarrow>
     (case configured_password V of
        None \<Rightarrow> Inl ''MICHI_AUTH_PASSWORD is missing or shorter than 8 characters''
      | Some password \<Rightarrow>
          bind_err (or_err ''failed to query managed admin from database: ''
            (query V ''managed admin'' 0 (get_managed_admin_user db))) (\<lambda>managed.
          bind_err (case managed of
                      Some r \<Rightarrow> reconcile_marked V username password r db
                    | None \<Rightarrow> choose_admin V username password db)
            (\<lambda>(i, db). Inr (Some i, db)))))"

end
