(* ===== verification/Auth_Theorems.thy ===== *)
theory Auth_Theorems
  imports Admin_Setup
begin

text \<open>
  Runs of the server over requests, spawned tasks, clean-ups, revocations and restarts; where every
  cached and stored session comes from; what a start does to the users; the unique indexes.
\<close>

section \<open>Lookups\<close>

lemma query_Inr_iff: "query V l i x = Inr y \<longleftrightarrow> av_fail V l i = None \<and> y = x"
  by (auto simp: query_def split: option.splits)

text \<open>What an answered lookup has seen: a live cache entry, or a live row that becomes one.\<close>

lemma extract_user_id_Some:
  assumes "extract_user_id V t H = (Some u, ts, H')"
  obtains (cached) d where "au_sessions H t = Some d" "sd_expiry d > av_now V" "u = sd_user_id d"
      "ts = []" "H' = H" "au_persistent H \<Longrightarrow> user_by_id u (au_db H) \<noteq> None"
  | (restored) expires where "au_persistent H"
      "get_auth_session (av_hash V t) (au_db H) = Some (u, Some expires)" "expires > av_utc V"
      "user_by_id u (au_db H) \<noteq> None"
      "H' = H\<lparr>au_sessions := (au_sessions H)(t \<mapsto>
         \<lparr>sd_expiry = av_now V + nat (expires - av_utc V), sd_user_id = u\<rparr>)\<rparr>"
proof (cases "cached_user V t H")
  case (Some v)
  then obtain d where d: "au_sessions H t = Some d" "sd_expiry d > av_now V" "v = sd_user_id d"
    by (auto simp: cached_user_def split: option.splits if_splits)
  have "u = v" "ts = []" "H' = H" "au_persistent H \<longrightarrow> user_by_id u (au_db H) \<noteq> None"
    using assms Some by (auto simp: extract_user_id_def lookup_session_def finish_lookup_def
        query_Inr_iff split: if_splits sum.splits option.splits)
  then show thesis using cached d by blast
next
  case None
  then show thesis
    using assms restored by (auto simp: extract_user_id_def lookup_session_def finish_lookup_def
        query_Inr_iff split: if_splits sum.splits option.splits)
qed

lemma extract_user_id_None:
  "extract_user_id V t H = (None, ts, H') \<Longrightarrow> H' = H"
  by (auto simp: extract_user_id_def finish_lookup_def split: Lookup.splits)

lemma get_auth_session_row:
  assumes "get_auth_session h db = Some (u, e)"
  shows "\<exists>r \<in> set (ad_sessions db). ses_token_hash r = h \<and> ses_user_id r = u \<and> ses_expires_at r = e"
proof -
  obtain r where "List.find (\<lambda>r. ses_token_hash r = h) (ad_sessions db) = Some r"
    "u = ses_user_id r" "e = ses_expires_at r"
    using assms by (auto simp: get_auth_session_def)
  then show ?thesis by (auto simp: find_Some_iff)
qed

lemma get_auth_session_None:
  "get_auth_session h db = None \<longleftrightarrow> (\<forall>r \<in> set (ad_sessions db). ses_token_hash r \<noteq> h)"
  by (auto simp: get_auth_session_def find_None_iff)

section \<open>Operations that only take sessions away\<close>

definition row_kept :: "SessionRow list \<Rightarrow> SessionRow \<Rightarrow> bool" where
  "row_kept rows r' \<longleftrightarrow>
     (\<exists>r \<in> set rows. ses_token_hash r = ses_token_hash r' \<and> ses_user_id r = ses_user_id r' \<and>
        ses_expires_at r = ses_expires_at r')"

definition shrinks :: "AuthHost \<Rightarrow> AuthHost \<Rightarrow> bool" where
  "shrinks H H' \<longleftrightarrow>
     map_le (au_sessions H') (au_sessions H) \<and> au_persistent H' = au_persistent H \<and>
     ad_users (au_db H') = ad_users (au_db H) \<and>
     (\<forall>r' \<in> set (ad_sessions (au_db H')). row_kept (ad_sessions (au_db H)) r')"

lemma row_kept_self: "r \<in> set rows \<Longrightarrow> row_kept rows r"
  by (auto simp: row_kept_def)

lemma shrinks_refl: "shrinks H H"
  by (simp add: shrinks_def row_kept_self)

lemma row_kept_trans: "row_kept rows r \<Longrightarrow> (\<And>x. x \<in> set rows \<Longrightarrow> row_kept rows' x) \<Longrightarrow> row_kept rows' r"
  unfolding row_kept_def by metis

lemma shrinks_trans: "shrinks H H1 \<Longrightarrow> shrinks H1 H2 \<Longrightarrow> shrinks H H2"
  by (auto simp: shrinks_def intro: map_le_trans row_kept_trans)

definition db_shrinks :: "(AuthDb \<Rightarrow> AuthDb) \<Rightarrow> bool" where
  "db_shrinks f \<longleftrightarrow>
     (\<forall>db. ad_users (f db) = ad_users db \<and> (\<forall>r' \<in> set (ad_sessions (f db)). row_kept (ad_sessions db) r'))"

lemma db_shrinks_ops:
  "db_shrinks (delete_auth_session h)" "db_shrinks (delete_auth_sessions_for_user u)"
  "db_shrinks (touch_auth_session h now)" "db_shrinks (cleanup_expired_auth_sessions V)"
  "db_shrinks (\<lambda>db. db\<lparr>ad_sessions := []\<rparr>)"
  by (auto simp: db_shrinks_def row_kept_def delete_auth_session_def touch_auth_session_def
      delete_auth_sessions_for_user_def cleanup_expired_auth_sessions_def)

lemma db_step_shrinks:
  assumes "db_shrinks f" shows "shrinks H (snd (db_step V l f H))"
  using assms by (auto simp: db_step_def shrinks_def db_shrinks_def row_kept_self split: option.split)

lemma sessions_shrink:
  "map_le m (au_sessions H) \<Longrightarrow> shrinks H (H\<lparr>au_sessions := m\<rparr>)"
  by (simp add: shrinks_def row_kept_self)

lemma map_le_delete [simp]: "map_le (m(k := None)) m" "map_le (map_retain P m) m" "map_le Map.empty m"
  by (auto simp: map_le_def)

lemma revoking_shrinks:
  assumes "db_shrinks f" and "\<And>m. map_le (g m) m"
  shows "shrinks H (snd (case db_step V l f H of
      (Inl e, H) \<Rightarrow> (Inl e, H)
    | (Inr _, H) \<Rightarrow> (Inr (), H\<lparr>au_sessions := g (au_sessions H)\<rparr>)))"
proof (cases "db_step V l f H")
  case (Pair r H1)
  have "shrinks H H1" using db_step_shrinks [OF assms(1), of H V l] Pair by simp
  then show ?thesis
    using Pair shrinks_trans [OF _ sessions_shrink [OF assms(2)]] by (cases r) auto
qed

lemma invalidate_shrinks: "shrinks H (snd (invalidate V t H))"
  unfolding invalidate_def
  by (rule revoking_shrinks) (auto simp: db_shrinks_ops map_le_def)

lemma invalidate_user_shrinks: "shrinks H (snd (invalidate_user_sessions V u H))"
  unfolding invalidate_user_sessions_def
  by (rule revoking_shrinks) (auto simp: db_shrinks_ops map_le_def)

lemma clear_all_shrinks: "shrinks H (snd (clear_all_sessions V H))"
  unfolding clear_all_sessions_def
  by (rule revoking_shrinks) (auto simp: db_shrinks_ops map_le_def)

lemma cleanup_shrinks: "shrinks H (session_cleanup V H)"
  unfolding session_cleanup_def
  by (rule shrinks_trans [OF sessions_shrink db_step_shrinks]) (simp_all add: db_shrinks_ops)

lemma run_task_shrinks: "shrinks H (run_task V t H)"
  by (cases t) (simp_all add: run_task_def invalidate_shrinks db_step_shrinks db_shrinks_ops)


section \<open>Runs\<close>

text \<open>A grant: the token a login or registration answered, its user, and when.\<close>

type_synonym grant = "string \<times> uuid \<times> utc"

definition session_grants :: "AuthEnv \<Rightarrow> auth_failure + LoginOk \<Rightarrow> grant list" where
  "session_grants V r = (case r of Inr ok \<Rightarrow> [(lo_token ok, lo_id ok, av_utc V)] | Inl _ \<Rightarrow> [])"

text \<open>\<open>hash\<close> is SHA-256; the monotonic and the wall clock advance together, \<open>off\<close> apart.\<close>

definition clocked :: "(string \<Rightarrow> string) \<Rightarrow> int \<Rightarrow> AuthEnv \<Rightarrow> bool" where
  "clocked hash off V \<longleftrightarrow> av_hash V = hash \<and> av_utc V = int (av_now V) + off"

definition restart :: "AuthDb \<Rightarrow> AuthHost \<Rightarrow> AuthHost" where
  "restart db H = H\<lparr>au_db := db, au_sessions := Map.empty, au_attempts := Map.empty, au_tokens := []\<rparr>"

text \<open>
  Every sequence of requests, spawned tasks, clean-ups, revocations and restarts from a state and
  its pending tasks, with the sessions granted on the way. Each operation is one step.
\<close>

inductive auth_run ::
  "(string \<Rightarrow> string) \<Rightarrow> int \<Rightarrow> AuthHost \<Rightarrow> AuthTask list \<Rightarrow> AuthHost \<Rightarrow> AuthTask list \<Rightarrow> grant list \<Rightarrow> bool" for hash off H0 ts0 where
  start: "auth_run hash off H0 ts0 H0 ts0 []"
| login: "auth_run hash off H0 ts0 H ts g \<Longrightarrow> clocked hash off V \<Longrightarrow> login_handler V rq n p H = (r, H') \<Longrightarrow>
     auth_run hash off H0 ts0 H' ts (session_grants V r @ g)"
| registration: "auth_run hash off H0 ts0 H ts g \<Longrightarrow> clocked hash off V \<Longrightarrow>
     register_handler V rq n p H = (r, H') \<Longrightarrow> auth_run hash off H0 ts0 H' ts (session_grants V r @ g)"
| logout: "auth_run hash off H0 ts0 H ts g \<Longrightarrow> clocked hash off V \<Longrightarrow> logout_handler V rq H = (r, H') \<Longrightarrow>
     auth_run hash off H0 ts0 H' ts g"
| status: "auth_run hash off H0 ts0 H ts g \<Longrightarrow> clocked hash off V \<Longrightarrow> check_handler V rq H = (r, ts', H') \<Longrightarrow>
     auth_run hash off H0 ts0 H' (ts' @ ts) g"
| guard: "auth_run hash off H0 ts0 H ts g \<Longrightarrow> clocked hash off V \<Longrightarrow>
     v1_auth_middleware V rq H = (r, ts', H') \<Longrightarrow> auth_run hash off H0 ts0 H' (ts' @ ts) g"
| older_guard: "auth_run hash off H0 ts0 H ts g \<Longrightarrow> clocked hash off V \<Longrightarrow>
     auth_middleware V rq H = (r, ts', H') \<Longrightarrow> auth_run hash off H0 ts0 H' (ts' @ ts) g"
| device: "auth_run hash off H0 ts0 H ts g \<Longrightarrow> clocked hash off V \<Longrightarrow>
     resolve_device_id V rq H = (r, ts', H') \<Longrightarrow> auth_run hash off H0 ts0 H' (ts' @ ts) g"
| task: "auth_run hash off H0 ts0 H ts g \<Longrightarrow> clocked hash off V \<Longrightarrow> t \<in> set ts \<Longrightarrow>
     auth_run hash off H0 ts0 (run_task V t H) (remove1 t ts) g"
| cleaning: "auth_run hash off H0 ts0 H ts g \<Longrightarrow> clocked hash off V \<Longrightarrow>
     auth_run hash off H0 ts0 (session_cleanup V H) ts g"
| user_revoked: "auth_run hash off H0 ts0 H ts g \<Longrightarrow> clocked hash off V \<Longrightarrow>
     invalidate_user_sessions V u H = (r, H') \<Longrightarrow> auth_run hash off H0 ts0 H' ts g"
| all_revoked: "auth_run hash off H0 ts0 H ts g \<Longrightarrow> clocked hash off V \<Longrightarrow>
     clear_all_sessions V H = (r, H') \<Longrightarrow> auth_run hash off H0 ts0 H' ts g"
| tokens: "auth_run hash off H0 ts0 H ts g \<Longrightarrow> auth_run hash off H0 ts0 (H\<lparr>au_tokens := s\<rparr>) ts g"
| restarted: "auth_run hash off H0 ts0 H ts g \<Longrightarrow> clocked hash off V \<Longrightarrow>
     init_admin_user V (au_db H) = Inr (i, db) \<Longrightarrow> auth_run hash off H0 ts0 (restart db H) [] g"

text \<open>Everything cached or stored stems from a grant and ends with it.\<close>

definition from_grant :: "(string \<Rightarrow> string) \<Rightarrow> grant set \<Rightarrow> string \<Rightarrow> uuid \<Rightarrow> int \<Rightarrow> bool" where
  "from_grant hash g h u ends \<longleftrightarrow>
     (\<exists>t a. (t, u, a) \<in> g \<and> hash t = h \<and> ends \<le> a + int SESSION_DURATION)"

definition grants_inv :: "(string \<Rightarrow> string) \<Rightarrow> int \<Rightarrow> grant set \<Rightarrow> AuthHost \<Rightarrow> bool" where
  "grants_inv hash off g H \<longleftrightarrow>
     au_persistent H \<and>
     (\<forall>t d. au_sessions H t = Some d \<longrightarrow>
        from_grant hash g (hash t) (sd_user_id d) (int (sd_expiry d) + off)) \<and>
     (\<forall>r \<in> set (ad_sessions (au_db H)). \<forall>e. ses_expires_at r = Some e \<longrightarrow>
        from_grant hash g (ses_token_hash r) (ses_user_id r) e)"

lemma from_grant_mono: "from_grant hash g h u e \<Longrightarrow> g \<subseteq> g' \<Longrightarrow> from_grant hash g' h u e"
  unfolding from_grant_def by blast

lemma grants_inv_mono: "grants_inv hash off g H \<Longrightarrow> g \<subseteq> g' \<Longrightarrow> grants_inv hash off g' H"
  unfolding grants_inv_def by (blast intro: from_grant_mono)

lemma grants_inv_less:
  assumes "grants_inv hash off g H" and "map_le (au_sessions H') (au_sessions H)"
    and "au_persistent H'" and "\<And>r. r \<in> set (ad_sessions (au_db H')) \<Longrightarrow> row_kept (ad_sessions (au_db H)) r"
  shows "grants_inv hash off g H'"
proof -
  have "au_sessions H t = Some d" if "au_sessions H' t = Some d" for t d
    using assms(2) that by (auto simp: map_le_def dom_def)
  moreover have "\<exists>r' \<in> set (ad_sessions (au_db H)). ses_token_hash r' = ses_token_hash r \<and>
      ses_user_id r' = ses_user_id r \<and> ses_expires_at r' = ses_expires_at r"
    if "r \<in> set (ad_sessions (au_db H'))" for r
    using assms(4) [OF that] unfolding row_kept_def .
  ultimately show ?thesis using assms(1,3) unfolding grants_inv_def by metis
qed

lemma grants_inv_shrinks: "grants_inv hash off g H \<Longrightarrow> shrinks H H' \<Longrightarrow> grants_inv hash off g H'"
  by (rule grants_inv_less) (auto simp: shrinks_def grants_inv_def)

lemma grants_inv_frame:
  "grants_inv hash off g (H\<lparr>au_attempts := m\<rparr>) = grants_inv hash off g H"
  "grants_inv hash off g (H\<lparr>au_tokens := s\<rparr>) = grants_inv hash off g H"
  by (simp_all add: grants_inv_def)

lemma grants_inv_extract:
  assumes "grants_inv hash off g H" and "clocked hash off V" and "extract_user_id V t H = (r, ts, H')"
  shows "grants_inv hash off g H'"
proof (cases r)
  case None
  then show ?thesis using assms extract_user_id_None by blast
next
  case (Some u)
  from assms(3) [unfolded Some] show ?thesis
  proof (cases rule: extract_user_id_Some)
    case cached
    then show ?thesis using assms(1) by simp
  next
    case (restored e)
    obtain x where "x \<in> set (ad_sessions (au_db H))" "ses_token_hash x = hash t" "ses_user_id x = u"
      "ses_expires_at x = Some e"
      using get_auth_session_row [OF restored(2)] assms(2) by (auto simp: clocked_def)
    then have "from_grant hash g (hash t) u e" using assms(1) unfolding grants_inv_def by metis
    moreover have "int (av_now V + nat (e - av_utc V)) + off = e"
      using restored(3) assms(2) by (simp add: clocked_def)
    ultimately show ?thesis using assms(1) by (simp add: restored(5) grants_inv_def)
  qed
qed

lemma grants_inv_extract_snd:
  "grants_inv hash off g H \<Longrightarrow> clocked hash off V \<Longrightarrow>
   grants_inv hash off g (snd (snd (extract_user_id V t H)))"
  using grants_inv_extract by (metis prod.collapse)

lemma extract_token_fields: "extract_user_id V t H = (Some u, ts, H') \<Longrightarrow> grants_inv hash off g H \<Longrightarrow>
    clocked hash off V \<Longrightarrow>
    user_by_id u (au_db H) \<noteq> None \<and>
    (\<exists>t0 a. (t0, u, a) \<in> g \<and> hash t0 = hash t \<and> av_utc V < a + int SESSION_DURATION) \<and>
    au_db H' = au_db H"
proof (erule extract_user_id_Some, goal_cases)
  case (1 d)
  then have "from_grant hash g (hash t) u (int (sd_expiry d) + off)" "au_persistent H"
    unfolding grants_inv_def by blast+
  then show ?case using 1 by (fastforce simp: from_grant_def clocked_def)
next
  case (2 e)
  obtain x where "x \<in> set (ad_sessions (au_db H))" "ses_token_hash x = hash t" "ses_user_id x = u"
    "ses_expires_at x = Some e"
    using get_auth_session_row [OF 2(4)] 2(2) by (auto simp: clocked_def)
  then have "from_grant hash g (hash t) u e" using 2(1) unfolding grants_inv_def by metis
  then show ?case using 2 by (fastforce simp: from_grant_def)
qed


lemma create_session_inv:
  assumes "grants_inv hash off g H" and "clocked hash off V" and "create_session V u H = (r, H')"
  shows "grants_inv hash off (g \<union> (case r of Inr token \<Rightarrow> {(token, u, av_utc V)} | Inl _ \<Rightarrow> {})) H'"
proof (cases "create_auth_session V (av_hash V (av_token V)) u (av_utc V)
    (av_utc V + int SESSION_DURATION) (au_db H)")
  case (Inl e)
  then show ?thesis
    using assms by (auto simp: create_session_def Let_def grants_inv_def)
next
  case (Inr db)
  let ?t = "av_token V" and ?e = "av_utc V + int SESSION_DURATION"
  let ?g = "insert (?t, u, av_utc V) g"
  have r: "r = Inr ?t" and H': "H' = H\<lparr>au_db := db, au_sessions := (au_sessions H)(?t \<mapsto>
      \<lparr>sd_expiry = av_now V + SESSION_DURATION, sd_user_id = u\<rparr>)\<rparr>"
    using assms Inr by (auto simp: create_session_def Let_def grants_inv_def)
  have rows: "ad_sessions db = ad_sessions (au_db H) @ [\<lparr>ses_token_hash = hash ?t, ses_user_id = u,
      ses_created_at = av_utc V, ses_expires_at = Some ?e, ses_last_seen_at = Some (av_utc V)\<rparr>]"
    using Inr assms(2) by (auto simp: create_auth_session_def clocked_def split: option.splits if_splits)
  have new: "from_grant hash ?g (hash ?t) u ?e" "int (av_now V) + int SESSION_DURATION + off = ?e"
    using assms(2) by (auto simp: from_grant_def clocked_def)
  have old: "grants_inv hash off ?g H" by (rule grants_inv_mono [OF assms(1)]) auto
  show ?thesis
    unfolding r using old new(1) by (auto simp: grants_inv_def H' rows new(2))
qed

lemma open_session_inv:
  assumes "grants_inv hash off g H" and "clocked hash off V"
    and "open_session V rq u name adm H = (r, H')"
  shows "grants_inv hash off (g \<union> set (session_grants V r)) H'"
proof (cases "create_session V u H")
  case (Pair r0 H1)
  then show ?thesis
    using assms create_session_inv [OF assms(1,2) Pair]
    by (cases r0) (auto simp: open_session_def session_grants_def login_answer_def)
qed

lemma open_session_inv_fst:
  assumes "grants_inv hash off g H" and "clocked hash off V"
  shows "grants_inv hash off (g \<union> set (session_grants V (fst (open_session V rq u name adm H))))
    (snd (open_session V rq u name adm H))"
  using open_session_inv [OF assms] by (cases "open_session V rq u name adm H") simp

lemma session_grants_Inl [simp]: "session_grants V (Inl e) = []"
  by (simp add: session_grants_def)

lemma login_inv:
  assumes "grants_inv hash off g H" and "clocked hash off V"
    and "login_handler V rq n p H = (r, H')"
  shows "grants_inv hash off (g \<union> set (session_grants V r)) H'"
proof -
  have "grants_inv hash off (g \<union> set (session_grants V (fst (login_handler V rq n p H))))
      (snd (login_handler V rq n p H))"
    using assms(1)
    by (simp add: login_handler_def Let_def open_session_inv_fst [OF _ assms(2)] grants_inv_frame
        split: prod.split sum.split option.split)
  then show ?thesis using assms(3) by simp
qed

lemma create_user_sessions:
  "create_user V i n h adm db = Inr db' \<Longrightarrow> ad_sessions db' = ad_sessions db"
  by (auto simp: create_user_def split: option.splits if_splits)

lemma register_inv:
  assumes "grants_inv hash off g H" and "clocked hash off V"
    and "register_handler V rq n p H = (r, H')"
  shows "grants_inv hash off (g \<union> set (session_grants V r)) H'"
proof -
  have new: "grants_inv hash off g (H\<lparr>au_attempts := m, au_db := db\<rparr>)"
    if "create_user V i n h False (au_db H) = Inr db" for m i h db
    using assms(1) create_user_sessions [OF that] by (simp add: grants_inv_def)
  have "grants_inv hash off (g \<union> set (session_grants V (fst (register_handler V rq n p H))))
      (snd (register_handler V rq n p H))"
    using assms(1)
    by (simp add: register_handler_def Let_def open_session_inv_fst [OF _ assms(2)] new
        grants_inv_frame split: prod.split sum.split option.split)
  then show ?thesis using assms(3) by simp
qed


lemma logout_shrinks: "shrinks H (snd (logout_handler V rq H))"
  using invalidate_shrinks by (auto simp: logout_handler_def Let_def shrinks_refl
      split: option.split prod.split) (metis snd_conv)

lemma grants_inv_check:
  assumes "grants_inv hash off g H" and "clocked hash off V" and "check_handler V rq H = (r, ts, H')"
  shows "grants_inv hash off g H'"
proof -
  have "grants_inv hash off g (snd (snd (check_handler V rq H)))"
    using assms(1) grants_inv_extract [OF assms(1,2)]
      grants_inv_shrinks [OF _ invalidate_shrinks, of hash off g]
    by (simp add: check_handler_def split: prod.split sum.split option.split)
  then show ?thesis using assms(3) by simp
qed

lemma grants_inv_validate:
  assumes "grants_inv hash off g H" and "clocked hash off V" and "validate_session V t H = (r, ts, H')"
  shows "grants_inv hash off g H'"
  using assms(3) grants_inv_extract [OF assms(1,2)]
  by (auto simp: validate_session_def split: prod.splits)

lemma grants_inv_guard:
  assumes "grants_inv hash off g H" and "clocked hash off V"
    and "v1_auth_middleware V rq H = (r, ts, H')"
  shows "grants_inv hash off g H'"
proof -
  have "grants_inv hash off g (snd (snd (v1_auth_middleware V rq H)))"
    using assms(1) grants_inv_extract [OF assms(1,2)] grants_inv_validate [OF assms(1,2)]
    by (simp add: v1_auth_middleware_def Let_def split: prod.split option.split)
  then show ?thesis using assms(3) by simp
qed

lemma grants_inv_older_guard:
  assumes "grants_inv hash off g H" and "clocked hash off V"
    and "auth_middleware V rq H = (r, ts, H')"
  shows "grants_inv hash off g H'"
proof -
  have "grants_inv hash off g (snd (snd (auth_middleware V rq H)))"
    using assms(1) grants_inv_validate [OF assms(1,2)]
    by (simp add: auth_middleware_def Let_def split: prod.split option.split)
  then show ?thesis using assms(3) by simp
qed

lemma grants_inv_device:
  assumes "grants_inv hash off g H" and "clocked hash off V"
    and "resolve_device_id V rq H = (r, ts, H')"
  shows "grants_inv hash off g H'"
proof -
  have "grants_inv hash off g (snd (snd (resolve_device_id V rq H)))"
    using assms(1) grants_inv_extract_snd [OF assms(1,2)]
    by (simp add: resolve_device_id_def split: sum.split option.split)
  then show ?thesis using assms(3) by simp
qed

section \<open>The setup of the administrator\<close>

definition rows_subset :: "AuthDb \<Rightarrow> AuthDb \<Rightarrow> bool" where
  "rows_subset db db' \<longleftrightarrow> set (ad_sessions db) \<subseteq> set (ad_sessions db')"

text \<open>What a transaction that ends well has done.\<close>

definition adopted :: "uuid \<Rightarrow> string \<Rightarrow> string \<Rightarrow> bool \<Rightarrow> AuthDb \<Rightarrow> AuthDb" where
  "adopted i name hash revoke db =
     (let db' = adopt_user i name hash db
      in if revoke then delete_auth_sessions_for_user i db' else db')"

lemma reconcile_attempt_Committed:
  assumes "reconcile_attempt V n i name hash revoke db = Committed db'"
  shows "db' = adopted i name hash revoke db"
    and "\<And>r. r \<in> set (ad_users db) \<Longrightarrow> usr_username r = name \<Longrightarrow> usr_id r = i"
    and "(\<exists>r \<in> set (ad_users db). usr_id r = i) \<Longrightarrow> r \<in> set (ad_users db) \<Longrightarrow> usr_managed r \<Longrightarrow> usr_id r = i"
  using assms by (auto simp: reconcile_attempt_def adopted_def Let_def list_ex_iff
      split: option.splits if_splits)

lemma reconcile_loop_Inr:
  "reconcile_loop V left i name hash revoke db = Inr db' \<Longrightarrow>
   \<exists>n. reconcile_attempt V n i name hash revoke db = Committed db'"
proof (induction left)
  case 0
  then show ?case by (auto split: Attempt_Result.splits)
next
  case (Suc left)
  then show ?case by (auto split: Attempt_Result.splits)
qed

lemma reconcile_Inr:
  assumes "reconcile_managed_admin V i name hash revoke db = Inr db'"
  shows "db' = adopted i name hash revoke db"
    and "\<And>r. r \<in> set (ad_users db) \<Longrightarrow> usr_username r = name \<Longrightarrow> usr_id r = i"
    and "\<And>r. (\<exists>r \<in> set (ad_users db). usr_id r = i) \<Longrightarrow> r \<in> set (ad_users db) \<Longrightarrow> usr_managed r \<Longrightarrow> usr_id r = i"
proof -
  obtain n where "reconcile_attempt V n i name hash revoke db = Committed db'"
    using reconcile_loop_Inr assms unfolding reconcile_managed_admin_def by blast
  note * = reconcile_attempt_Committed [OF this]
  show "db' = adopted i name hash revoke db" by (rule *(1))
  show "usr_id r = i" if "r \<in> set (ad_users db)" "usr_username r = name" for r using *(2) that by blast
  show "usr_id r = i" if "\<exists>r \<in> set (ad_users db). usr_id r = i" "r \<in> set (ad_users db)" "usr_managed r"
    for r using *(3) that by blast
qed

lemma bind_err_Inr: "bind_err r f = Inr y \<longleftrightarrow> (\<exists>x. r = Inr x \<and> f x = Inr y)"
  by (cases r) (auto simp: bind_err_def)

lemma or_err_Inr: "or_err what r = Inr x \<longleftrightarrow> r = Inr x"
  by (cases r) (auto simp: or_err_def)

lemmas setup_split = bind_err_Inr or_err_Inr query_Inr_iff


lemma find_SomeD: "List.find P xs = Some x \<Longrightarrow> x \<in> set xs \<and> P x"
  by (auto simp: find_Some_iff)

lemma user_by_username_Some: "user_by_username n db = Some r \<Longrightarrow> r \<in> set (ad_users db) \<and> usr_username r = n"
  unfolding user_by_username_def by (drule find_SomeD) simp

lemma managed_Some: "get_managed_admin_user db = Some r \<Longrightarrow> r \<in> set (ad_users db) \<and> usr_managed r"
  unfolding get_managed_admin_user_def by (drule find_SomeD) simp

lemma managed_None: "get_managed_admin_user db = None \<Longrightarrow> r \<in> set (ad_users db) \<Longrightarrow> \<not> usr_managed r"
  by (auto simp: get_managed_admin_user_def find_None_iff)

text \<open>Argon2 accepts the password it has hashed.\<close>

definition argon_sound :: "AuthEnv \<Rightarrow> bool" where
  "argon_sound V \<longleftrightarrow> (\<forall>p h. av_argon_hash V p = Inr h \<longrightarrow> av_argon_verify V p h = Inr True)"

lemma target_hash_verifies:
  assumes "target_hash V p current = Inr h" and "argon_sound V"
  shows "password_matches V p h"
  using assms by (auto simp: target_hash_def or_err_Inr argon_sound_def
      password_matches_def split: if_splits)

text \<open>The three ways a start can end well.\<close>

lemma init_admin_user_Inr:
  assumes "init_admin_user V db = Inr (Some i, db')"
  obtains (kept) n p r where "configured_username V = Some n" "configured_password V = Some p"
      "db' = db" "r \<in> set (ad_users db)" "usr_id r = i" "usr_username r = n" "usr_is_admin r"
      "usr_managed r" "password_matches V p (usr_password_hash r)"
  | (adopted) n p r h revoke where "configured_username V = Some n" "configured_password V = Some p"
      "r \<in> set (ad_users db)" "usr_id r = i" "argon_sound V \<Longrightarrow> password_matches V p h"
      "\<not> password_matches V p (usr_password_hash r) \<Longrightarrow> revoke"
      "reconcile_managed_admin V i n h revoke db = Inr db'"
  | (created) n p h where "configured_username V = Some n" "configured_password V = Some p"
      "get_managed_admin_user db = None" "argon_sound V \<Longrightarrow> password_matches V p h"
      "create_managed_admin_user V i n h db = Inr db'"
proof -
  from assms(1) obtain n p managed where np: "configured_username V = Some n" "configured_password V = Some p"
    and managed: "get_managed_admin_user db = managed"
    and res: "(case managed of Some r \<Rightarrow> reconcile_marked V n p r db
        | None \<Rightarrow> choose_admin V n p db) = Inr (i, db')"
    by (auto simp: init_admin_user_def setup_split split: if_splits option.splits)
  show thesis
  proof (cases managed)
    case (Some r)
    note r = managed_Some [OF managed [unfolded Some]]
    obtain h where h: "target_hash V p (usr_password_hash r) = Inr h"
      using res Some by (auto simp: reconcile_marked_def Let_def setup_split)
    show thesis
    proof (cases "password_matches V p (usr_password_hash r) \<and> usr_username r = n \<and> usr_is_admin r")
      case True
      then show thesis using res Some r kept [OF np, of r]
        by (auto simp: reconcile_marked_def Let_def setup_split)
    next
      case False
      then show thesis
        using res Some r h adopted [OF np, of r h "\<not> password_matches V p (usr_password_hash r) \<or> usr_username r \<noteq> n"]
          target_hash_verifies [OF h]
        by (auto simp: reconcile_marked_def Let_def setup_split)
    qed
  next
    case None
    from res None consider (same) r where "user_by_username n db = Some r"
        "adopt_same_name V n p r db = Inr (i, db')"
      | (legacy) r where "list_admin_users db = [r]" "adopt_legacy V n p r db = Inr (i, db')"
      | (new) "create_admin V n p db = Inr (i, db')"
      by (auto simp: choose_admin_def setup_split split: option.splits list.splits)
    then show thesis
    proof cases
      case same
      obtain h where h: "target_hash V p (usr_password_hash r) = Inr h"
        and rec: "reconcile_managed_admin V (usr_id r) n h
          (\<not> password_matches V p (usr_password_hash r)) db = Inr db'" and i: "i = usr_id r"
        using same(2) by (auto simp: adopt_same_name_def setup_split)
      show thesis
        using adopted [OF np _ _ target_hash_verifies [OF h] _ rec [folded i]]
          user_by_username_Some [OF same(1)] i by blast
    next
      case legacy
      obtain h where h: "av_argon_hash V p = Inr h"
        and rec: "reconcile_managed_admin V (usr_id r) n h True db = Inr db'" and i: "i = usr_id r"
        using legacy(2) by (auto simp: adopt_legacy_def setup_split)
      have "r \<in> set (list_admin_users db)" using legacy(1) by simp
      then have "r \<in> set (ad_users db)" by (simp add: list_admin_users_def)
      moreover have "argon_sound V \<Longrightarrow> password_matches V p h"
        using h by (simp add: argon_sound_def password_matches_def)
      ultimately show thesis using adopted [OF np _ _ _ _ rec [folded i]] i by blast
    next
      case new
      then obtain h where "av_argon_hash V p = Inr h" "i = av_uuid V"
        "create_managed_admin_user V i n h db = Inr db'"
        by (auto simp: create_admin_def setup_split split: if_splits)
      moreover have "argon_sound V \<Longrightarrow> password_matches V p h"
        using \<open>av_argon_hash V p = Inr h\<close>
        by (simp add: argon_sound_def password_matches_def)
      ultimately show thesis using created [OF np] managed None by blast
    qed
  qed
qed


text \<open>The unique indexes of \<open>users\<close>.\<close>

definition one_managed :: "UserRow list \<Rightarrow> bool" where
  "one_managed us \<longleftrightarrow> (\<forall>r \<in> set us. \<forall>s \<in> set us. usr_managed r \<and> usr_managed s \<longrightarrow> usr_id r = usr_id s)"

lemma one_managedD:
  "one_managed us \<Longrightarrow> r \<in> set us \<Longrightarrow> s \<in> set us \<Longrightarrow> usr_managed r \<Longrightarrow> usr_managed s \<Longrightarrow> usr_id r = usr_id s"
  unfolding one_managed_def by blast

lemma one_managedI:
  "(\<And>r. r \<in> set us \<Longrightarrow> usr_managed r \<Longrightarrow> usr_id r = i) \<Longrightarrow> one_managed us"
  unfolding one_managed_def by metis

definition users_ok :: "AuthDb \<Rightarrow> bool" where
  "users_ok db \<longleftrightarrow>
     distinct (map usr_id (ad_users db)) \<and> distinct (map usr_username (ad_users db)) \<and>
     one_managed (ad_users db)"

lemma users_ok_id:
  "users_ok db \<Longrightarrow> r \<in> set (ad_users db) \<Longrightarrow> s \<in> set (ad_users db) \<Longrightarrow> usr_id r = usr_id s \<Longrightarrow> r = s"
  unfolding users_ok_def distinct_map by (blast dest: inj_onD)

lemma users_ok_managed:
  "users_ok db \<Longrightarrow> r \<in> set (ad_users db) \<Longrightarrow> s \<in> set (ad_users db) \<Longrightarrow> usr_managed r \<Longrightarrow> usr_managed s
   \<Longrightarrow> r = s"
  by (rule users_ok_id) (auto simp: users_ok_def dest: one_managedD)

lemma adopted_users:
  "ad_users (adopted i n h revoke db) = map (\<lambda>r. if usr_id r = i
      then r\<lparr>usr_username := n, usr_password_hash := h, usr_is_admin := True, usr_managed := True\<rparr>
      else r) (ad_users db)"
  by (simp add: adopted_def adopt_user_def delete_auth_sessions_for_user_def Let_def)

lemma adopted_sessions:
  "ad_sessions (adopted i n h revoke db) =
     (if revoke then filter (\<lambda>r. ses_user_id r \<noteq> i) (ad_sessions db) else ad_sessions db)"
  by (simp add: adopted_def adopt_user_def delete_auth_sessions_for_user_def Let_def)

lemma users_ok_adopted:
  assumes "users_ok db" and names: "\<And>r. r \<in> set (ad_users db) \<Longrightarrow> usr_username r = n \<Longrightarrow> usr_id r = i"
    and managed: "\<And>r. r \<in> set (ad_users db) \<Longrightarrow> usr_managed r \<Longrightarrow> usr_id r = i"
  shows "users_ok (adopted i n h revoke db)"
proof -
  let ?f = "\<lambda>r. if usr_id r = i
      then r\<lparr>usr_username := n, usr_password_hash := h, usr_is_admin := True, usr_managed := True\<rparr>
      else r"
  have ids: "usr_id \<circ> ?f = usr_id" by (auto simp: fun_eq_iff)
  have "distinct (map usr_username (map ?f (ad_users db)))"
    unfolding map_map distinct_map
  proof (intro conjI inj_onI)
    show "distinct (ad_users db)" using assms(1) by (auto simp: users_ok_def distinct_map)
    fix r s assume "r \<in> set (ad_users db)" "s \<in> set (ad_users db)"
      "(usr_username \<circ> ?f) r = (usr_username \<circ> ?f) s"
    then show "r = s"
      using assms(1) names by (auto simp: users_ok_def distinct_map dest: inj_onD split: if_splits)
  qed
  moreover have "one_managed (map ?f (ad_users db))"
    by (rule one_managedI [of _ i]) (use managed in \<open>auto split: if_splits\<close>)
  ultimately show ?thesis
    using assms(1) unfolding users_ok_def adopted_users map_map ids by blast
qed

lemma users_ok_append:
  assumes "users_ok db" and "\<And>r. r \<in> set (ad_users db) \<Longrightarrow> usr_id r \<noteq> usr_id x \<and> usr_username r \<noteq> usr_username x"
    and "usr_managed x \<Longrightarrow> (\<And>r. r \<in> set (ad_users db) \<Longrightarrow> \<not> usr_managed r)"
  shows "users_ok (db\<lparr>ad_users := ad_users db @ [x]\<rparr>)"
proof -
  have "one_managed (ad_users db @ [x])"
  proof (cases "usr_managed x")
    case True
    then show ?thesis using assms(3) by (intro one_managedI [of _ "usr_id x"]) auto
  next
    case False
    have old: "one_managed (ad_users db)" using assms(1) by (simp add: users_ok_def)
    show ?thesis unfolding one_managed_def
    proof (intro ballI impI)
      fix r s
      assume "r \<in> set (ad_users db @ [x])" "s \<in> set (ad_users db @ [x])" "usr_managed r \<and> usr_managed s"
      then have "r \<in> set (ad_users db)" "s \<in> set (ad_users db)" "usr_managed r" "usr_managed s"
        using False by auto
      then show "usr_id r = usr_id s" by (rule one_managedD [OF old])
    qed
  qed
  moreover have "usr_id x \<notin> usr_id ` set (ad_users db)" "usr_username x \<notin> usr_username ` set (ad_users db)"
    using assms(2) by (metis imageE)+
  ultimately show ?thesis using assms(1) by (simp add: users_ok_def)
qed

lemma create_managed_Inr:
  assumes "create_managed_admin_user V i n h db = Inr db'"
  shows "db' = db\<lparr>ad_users := ad_users db @ [\<lparr>usr_id = i, usr_username = n, usr_password_hash = h,
      usr_is_admin = True, usr_managed = True, usr_created_at = av_utc V\<rparr>]\<rparr>"
    and "\<And>r. r \<in> set (ad_users db) \<Longrightarrow> usr_id r \<noteq> i \<and> usr_username r \<noteq> n \<and> \<not> usr_managed r"
  using assms by (auto simp: create_managed_admin_user_def list_ex_iff split: option.splits if_splits)

lemma users_ok_created:
  assumes "create_managed_admin_user V i n h db = Inr db'" and "users_ok db"
  shows "users_ok db'"
  unfolding create_managed_Inr(1) [OF assms(1)]
  by (rule users_ok_append [OF assms(2)]) (use create_managed_Inr(2) [OF assms(1)] in auto)

text \<open>What the operator is promised of the table after a start.\<close>

definition administrator_is :: "AuthEnv \<Rightarrow> uuid \<Rightarrow> AuthDb \<Rightarrow> bool" where
  "administrator_is V i db \<longleftrightarrow>
     (\<exists>r \<in> set (ad_users db). usr_id r = i \<and> Some (usr_username r) = configured_username V \<and>
        usr_is_admin r \<and> usr_managed r \<and>
        (\<exists>p. configured_password V = Some p \<and> password_matches V p (usr_password_hash r)))"

definition setup_done :: "AuthEnv \<Rightarrow> uuid \<Rightarrow> AuthDb \<Rightarrow> AuthDb \<Rightarrow> bool" where
  "setup_done V i db db' \<longleftrightarrow>
     administrator_is V i db' \<and> users_ok db' \<and>
     (\<forall>r. usr_id r \<noteq> i \<longrightarrow> (r \<in> set (ad_users db') \<longleftrightarrow> r \<in> set (ad_users db))) \<and>
     set (ad_sessions db') \<subseteq> set (ad_sessions db) \<and>
     (\<forall>r \<in> set (ad_users db). \<forall>p. usr_id r = i \<longrightarrow> configured_password V = Some p \<longrightarrow>
        \<not> password_matches V p (usr_password_hash r) \<longrightarrow>
        (\<forall>s \<in> set (ad_sessions db'). ses_user_id s \<noteq> i))"

lemma setup_users:
  assumes "init_admin_user V db = Inr (Some i, db')" and "argon_sound V" and "users_ok db"
  shows "setup_done V i db db'"
  using assms(1)
proof (cases rule: init_admin_user_Inr)
  case (kept n p r)
  have "s = r" if "s \<in> set (ad_users db)" "usr_id s = i" for s
    using users_ok_id [OF assms(3) that(1) kept(4)] that(2) kept(5) by simp
  then have "password_matches V q (usr_password_hash s)"
    if "s \<in> set (ad_users db)" "usr_id s = i" "configured_password V = Some q" for s q
    using that kept(2,9) by simp
  moreover have "administrator_is V i db"
    unfolding administrator_is_def using kept by (intro bexI [of _ r]) auto
  ultimately show ?thesis using assms(3) unfolding setup_done_def kept(3) by blast
next
  case (adopted n p r h revoke)
  note * = reconcile_Inr [OF adopted(7)]
  have managed: "usr_id s = i" if "s \<in> set (ad_users db)" "usr_managed s" for s
    using *(3) that adopted(3,4) by blast
  have "s = r" if "s \<in> set (ad_users db)" "usr_id s = i" for s
    using users_ok_id [OF assms(3) that(1) adopted(3)] that(2) adopted(4) by simp
  moreover have "administrator_is V i db'"
    unfolding administrator_is_def *(1) adopted_users set_map using adopted(1-5) assms(2)
    by (intro bexI [OF _ imageI [of r]]) auto
  moreover have "users_ok db'"
    using users_ok_adopted [OF assms(3) *(2) managed] unfolding *(1) by blast
  moreover have "s \<in> set (ad_users db') \<longleftrightarrow> s \<in> set (ad_users db)" if "usr_id s \<noteq> i" for s
    using that by (auto simp: *(1) adopted_users)
  moreover have "set (ad_sessions db') \<subseteq> set (ad_sessions db)"
    "revoke \<Longrightarrow> s \<in> set (ad_sessions db') \<Longrightarrow> ses_user_id s \<noteq> i" for s
    by (auto simp: *(1) adopted_sessions)
  ultimately show ?thesis
    using adopted(2,6) unfolding setup_done_def by (metis option.inject)
next
  case (created n p h)
  note db' = create_managed_Inr(1) [OF created(5)] and new = create_managed_Inr(2) [OF created(5)]
  have "users_ok db'" by (rule users_ok_created [OF created(5) assms(3)])
  moreover have "administrator_is V i db'"
    using created(1,2) created(4) [OF assms(2)] by (auto simp: administrator_is_def db')
  ultimately show ?thesis using new unfolding setup_done_def by (auto simp: db')
qed

lemma setup_rows:
  assumes "init_admin_user V db = Inr (i, db')"
  shows "set (ad_sessions db') \<subseteq> set (ad_sessions db)"
proof -
  have 1: "set (ad_sessions d) \<subseteq> set (ad_sessions db)" if "reconcile_managed_admin V j n h rv db = Inr d" for j n h rv d
    using reconcile_Inr(1) [OF that] by (auto simp: adopted_sessions)
  have 2: "ad_sessions d = ad_sessions db" if "create_managed_admin_user V j n h db = Inr d" for j n h d
    using that by (auto simp: create_managed_admin_user_def split: option.splits if_splits)
  show ?thesis
    using assms by (auto simp: init_admin_user_def reconcile_marked_def choose_admin_def
        adopt_same_name_def adopt_legacy_def create_admin_def setup_split Let_def
        dest: 1 2 split: if_splits option.splits list.splits)
qed

text \<open>The second start finds nothing to do.\<close>

lemma setup_again:
  assumes "users_ok db" and "administrator_is V i db" and "av_auth_enabled V"
    and "av_fail V ''managed admin'' 0 = None"
  shows "init_admin_user V db = Inr (Some i, db)"
proof -
  obtain r p where r: "r \<in> set (ad_users db)" "usr_id r = i" "Some (usr_username r) = configured_username V"
    "usr_is_admin r" "usr_managed r" "configured_password V = Some p"
    "password_matches V p (usr_password_hash r)"
    using assms(2) unfolding administrator_is_def by blast
  obtain m where m: "get_managed_admin_user db = Some m"
    using r(1,5) by (cases "get_managed_admin_user db") (auto dest: managed_None)
  have "m = r"
    using users_ok_managed [OF assms(1)] managed_Some [OF m] r(1,5) by blast
  then show ?thesis
    using assms(3,4) m r by (simp add: init_admin_user_def query_def or_err_def bind_err_def
        reconcile_marked_def target_hash_def Let_def r(3) [symmetric])
qed

text \<open>The unique indexes hold after any start.\<close>

lemma setup_hashes:
  assumes "init_admin_user V db = Inr (i, db')" and "distinct (map ses_token_hash (ad_sessions db))"
  shows "distinct (map ses_token_hash (ad_sessions db'))"
proof -
  have 1: "distinct (map ses_token_hash (ad_sessions d))"
    if "reconcile_managed_admin V j n h rv db = Inr d" for j n h rv d
    using reconcile_Inr(1) [OF that] assms(2) by (auto simp: adopted_sessions distinct_map_filter)
  have 2: "ad_sessions d = ad_sessions db" if "create_managed_admin_user V j n h db = Inr d" for j n h d
    using create_managed_Inr(1) [OF that] by simp
  show ?thesis
    using assms by (auto simp: init_admin_user_def reconcile_marked_def choose_admin_def
        adopt_same_name_def adopt_legacy_def create_admin_def setup_split Let_def
        dest: 1 2 split: if_splits option.splits list.splits)
qed

lemma setup_users_ok:
  assumes "init_admin_user V db = Inr (j, db')" and "users_ok db"
  shows "users_ok db'"
proof (cases j)
  case None
  then show ?thesis
    using assms by (auto simp: init_admin_user_def setup_split split: if_splits option.splits)
next
  case (Some i)
  from assms(1) [unfolded Some] show ?thesis
  proof (cases rule: init_admin_user_Inr)
    case kept
    then show ?thesis using assms(2) by simp
  next
    case (adopted n p r h revoke)
    note * = reconcile_Inr [OF adopted(7)]
    show ?thesis unfolding *(1)
      using users_ok_adopted [OF assms(2) *(2)] *(3) adopted(3,4) by blast
  next
    case (created n p h)
    then show ?thesis using assms(2) by (intro users_ok_created [OF created(5)])
  qed
qed

section \<open>Every reachable state\<close>

lemma grants_inv_setup:
  assumes "grants_inv hash off g H" and "init_admin_user V (au_db H) = Inr (i, db)"
  shows "grants_inv hash off g (restart db H)"
proof (rule grants_inv_less [OF assms(1)])
  show "au_persistent (restart db H)" using assms(1) by (simp add: grants_inv_def restart_def)
  show "row_kept (ad_sessions (au_db H)) r" if "r \<in> set (ad_sessions (au_db (restart db H)))" for r
    using that setup_rows [OF assms(2)] by (auto simp: restart_def row_kept_self)
qed (simp add: restart_def)

lemma grants_inv_shrunk:
  "grants_inv hash off g H \<Longrightarrow> shrinks H (snd x) \<Longrightarrow> x = (r, H') \<Longrightarrow> grants_inv hash off g H'"
  using grants_inv_shrinks by fastforce

lemma grants_inv_new:
  "grants_inv hash off (G \<union> set g \<union> set n) H \<Longrightarrow> grants_inv hash off (G \<union> set (n @ g)) H"
  by (simp add: Un_ac)

lemma auth_run_grants:
  assumes "auth_run hash off H0 ts0 H ts g" and "grants_inv hash off G H0"
  shows "grants_inv hash off (G \<union> set g) H"
  using assms
proof (induction rule: auth_run.induct)
  case (restarted H ts g V i db)
  then show ?case using grants_inv_setup by blast
qed (auto intro: grants_inv_new login_inv register_inv grants_inv_check grants_inv_guard
    grants_inv_older_guard grants_inv_device grants_inv_shrunk [OF _ logout_shrinks]
    grants_inv_shrunk [OF _ invalidate_user_shrinks] grants_inv_shrunk [OF _ clear_all_shrinks]
    grants_inv_shrinks [OF _ run_task_shrinks] grants_inv_shrinks [OF _ cleanup_shrinks]
    simp: grants_inv_frame simp del: set_append)


section \<open>The unique indexes\<close>

definition auth_tables_ok :: "AuthDb \<Rightarrow> bool" where
  "auth_tables_ok db \<longleftrightarrow> users_ok db \<and> distinct (map ses_token_hash (ad_sessions db))"

lemma users_ok_cong: "ad_users db' = ad_users db \<Longrightarrow> users_ok db' = users_ok db"
  by (simp add: users_ok_def)

text \<open>Statements that drop rows, or change none of the keys.\<close>

definition thins :: "(AuthDb \<Rightarrow> AuthDb) \<Rightarrow> bool" where
  "thins f \<longleftrightarrow>
     (\<forall>db. ad_users (f db) = ad_users db \<and>
        (\<exists>P. map ses_token_hash (ad_sessions (f db)) = map ses_token_hash (filter P (ad_sessions db))))"

lemma thins_ok:
  assumes "thins f" and "auth_tables_ok db"
  shows "auth_tables_ok (f db)"
proof -
  obtain P where "map ses_token_hash (ad_sessions (f db)) = map ses_token_hash (filter P (ad_sessions db))"
    using assms(1) unfolding thins_def by blast
  then have "distinct (map ses_token_hash (ad_sessions (f db)))"
    using assms(2) by (simp only: auth_tables_ok_def distinct_map_filter)
  moreover have "users_ok (f db) = users_ok db"
    using assms(1) users_ok_cong unfolding thins_def by blast
  ultimately show ?thesis using assms(2) by (simp add: auth_tables_ok_def)
qed

lemma thins_touch: "thins (touch_auth_session h now)"
proof -
  have "map ses_token_hash (ad_sessions (touch_auth_session h now db)) = map ses_token_hash (ad_sessions db)"
    for db by (simp add: touch_auth_session_def comp_def if_distrib cong: if_cong)
  then show ?thesis
    unfolding thins_def by (auto simp: touch_auth_session_def intro!: exI [of _ "\<lambda>_. True"])
qed

lemma thins_ops:
  "thins (delete_auth_session h)" "thins (delete_auth_sessions_for_user u)"
  "thins (cleanup_expired_auth_sessions V)" "thins (\<lambda>db. db\<lparr>ad_sessions := []\<rparr>)"
  unfolding thins_def delete_auth_session_def delete_auth_sessions_for_user_def
    cleanup_expired_auth_sessions_def
  by (auto intro: exI [of _ "\<lambda>_. False"])

lemma db_step_tables:
  "thins f \<Longrightarrow> auth_tables_ok (au_db H) \<Longrightarrow> auth_tables_ok (au_db (snd (db_step V l f H)))"
  by (auto simp: db_step_def thins_ok split: option.split)

lemma invalidate_tables:
  assumes "auth_tables_ok (au_db H)"
  shows "auth_tables_ok (au_db (snd (invalidate V t H)))"
proof -
  have "auth_tables_ok (au_db H')" if "db_step V l (delete_auth_session h) H = (r, H')" for l h r H'
    using db_step_tables [OF thins_ops(1) assms, of V l h] that by simp
  then show ?thesis by (auto simp: invalidate_def split: prod.split sum.split)
qed

lemma revocation_tables:
  assumes "auth_tables_ok (au_db H)"
  shows "auth_tables_ok (au_db (snd (invalidate_user_sessions V u H)))"
    and "auth_tables_ok (au_db (snd (clear_all_sessions V H)))"
    and "auth_tables_ok (au_db (session_cleanup V H))"
    and "auth_tables_ok (au_db (run_task V t H))"
proof -
  have *: "auth_tables_ok (au_db H')" if "db_step V l f H = (r, H')" "thins f" for l f r H'
    using db_step_tables [OF that(2) assms, of V l] that(1) by simp
  show "auth_tables_ok (au_db (snd (invalidate_user_sessions V u H)))"
    using thins_ops(2) by (auto simp: invalidate_user_sessions_def split: prod.split sum.split dest: *)
  show "auth_tables_ok (au_db (snd (clear_all_sessions V H)))"
    using thins_ops(4) by (auto simp: clear_all_sessions_def split: prod.split sum.split dest: *)
  show "auth_tables_ok (au_db (session_cleanup V H))"
    using assms by (simp add: session_cleanup_def db_step_tables thins_ops)
  show "auth_tables_ok (au_db (run_task V t H))"
    using assms by (cases t) (simp_all add: run_task_def invalidate_tables db_step_tables thins_ops thins_touch)
qed

lemma extract_db: "extract_user_id V t H = (r, ts, H') \<Longrightarrow> au_db H' = au_db H"
  by (auto simp: extract_user_id_def finish_lookup_def split: Lookup.splits)

lemma guards_db:
  "v1_auth_middleware V rq H = (v, ts, H') \<Longrightarrow> au_db H' = au_db H"
  "auth_middleware V rq H = (v, ts, H') \<Longrightarrow> au_db H' = au_db H"
  "resolve_device_id V rq H = (d, ts, H') \<Longrightarrow> au_db H' = au_db H"
  by (auto simp: v1_auth_middleware_def auth_middleware_def resolve_device_id_def validate_session_def
      Let_def extract_db split: option.splits prod.splits if_splits sum.splits)

lemma open_session_tables:
  assumes "auth_tables_ok (au_db H)"
  shows "auth_tables_ok (au_db (snd (open_session V rq u n adm H)))"
proof -
  have "auth_tables_ok db" if "create_auth_session V h u c e (au_db H) = Inr db" for h c e db
  proof -
    have users: "ad_users db = ad_users (au_db H)" and "distinct (map ses_token_hash (ad_sessions db))"
      using that assms by (auto simp: create_auth_session_def auth_tables_ok_def list_ex_iff
          split: option.splits if_splits)
    then show ?thesis using assms users_ok_cong [OF users] by (simp add: auth_tables_ok_def)
  qed
  then show ?thesis
    using assms by (auto simp: open_session_def create_session_def Let_def split: sum.split)
qed

lemma create_user_tables:
  assumes "create_user V i n h adm db = Inr db'" and "auth_tables_ok db"
  shows "auth_tables_ok db'"
proof -
  let ?x = "\<lparr>usr_id = i, usr_username = n, usr_password_hash = h, usr_is_admin = adm, usr_managed = False,
      usr_created_at = av_utc V\<rparr>"
  have "db' = db\<lparr>ad_users := ad_users db @ [?x]\<rparr>"
    and "\<And>r. r \<in> set (ad_users db) \<Longrightarrow> usr_id r \<noteq> usr_id ?x \<and> usr_username r \<noteq> usr_username ?x"
    using assms(1) by (auto simp: create_user_def list_ex_iff split: option.splits if_splits)
  then have "users_ok db'" using users_ok_append [of db ?x] assms(2) by (simp add: auth_tables_ok_def)
  then show ?thesis using assms create_user_sessions by (simp add: auth_tables_ok_def)
qed

lemma handlers_tables:
  assumes "auth_tables_ok (au_db H)"
  shows "auth_tables_ok (au_db (snd (login_handler V rq n p H)))"
    and "auth_tables_ok (au_db (snd (register_handler V rq n p H)))"
    and "auth_tables_ok (au_db (snd (logout_handler V rq H)))"
    and "auth_tables_ok (au_db (snd (snd (check_handler V rq H))))"
proof -
  show "auth_tables_ok (au_db (snd (login_handler V rq n p H)))"
    using assms by (simp add: login_handler_def Let_def open_session_tables
        split: prod.split sum.split option.split)
  show "auth_tables_ok (au_db (snd (register_handler V rq n p H)))"
    using assms by (simp add: register_handler_def Let_def open_session_tables create_user_tables
        split: prod.split sum.split option.split)
  show "auth_tables_ok (au_db (snd (logout_handler V rq H)))"
    using assms invalidate_tables [OF assms, of V]
    by (auto simp: logout_handler_def Let_def split: option.split prod.split) (metis snd_conv)
  show "auth_tables_ok (au_db (snd (snd (check_handler V rq H))))"
    using assms by (auto simp: check_handler_def extract_db invalidate_tables
        split: prod.split sum.split option.split)
qed

lemma run_tables:
  assumes "auth_run hash off H0 ts0 H ts g" and "auth_tables_ok (au_db H0)"
  shows "auth_tables_ok (au_db H)"
  using assms
proof (induction rule: auth_run.induct)
  case (restarted H ts g V i db)
  then show ?case
    using setup_users_ok [OF restarted.hyps(3)] setup_hashes [OF restarted.hyps(3)]
    by (auto simp: restart_def auth_tables_ok_def)
next
  case (login H ts g V rq n p r H')
  then show ?case using handlers_tables(1) [of H V rq n p] by simp
next
  case (registration H ts g V rq n p r H')
  then show ?case using handlers_tables(2) [of H V rq n p] by simp
next
  case (logout H ts g V rq r H')
  then show ?case using handlers_tables(3) [of H V rq] by simp
next
  case (status H ts g V rq r ts' H')
  then show ?case using handlers_tables(4) [of H V rq] by simp
next
  case (user_revoked H ts g V u r H')
  then show ?case using revocation_tables(1) [of H V u] by simp
next
  case (all_revoked H ts g V r H')
  then show ?case using revocation_tables(2) [of H V] by simp
qed (simp_all add: guards_db revocation_tables)

end
