(* ===== verification/Auth_Properties.thy ===== *)
theory Auth_Properties
  imports Auth_Theorems
begin

text \<open>
  What the guards, login, logout, the setup of the administrator and the client address promise,
  over every run of the server.
\<close>

section \<open>Guards\<close>

lemma validate_session_ok:
  assumes "validate_session V t H = (True, ts, H')"
  obtains u ts' where "extract_user_id V t H = (Some u, ts', H')"
  using assms by (auto simp: validate_session_def split: prod.splits)

lemma admitted:
  assumes "v1_auth_middleware V rq H = (Proceed, ts, H')"
  obtains (session) t u ts' H1 where "extract_token rq = Some t" "extract_user_id V t H = (Some u, ts', H1)"
      "is_admin_route (rq_path rq) \<Longrightarrow> user_is_admin V u H1"
  | (device) t d H1 where "extract_token rq = Some t" "\<not> is_admin_route (rq_path rq)"
      "validate_session V t H = (False, ts, H1)"
      "validate_token (av_hash V) (av_utc V) t DeviceToken (au_tokens H1) = Inr d"
proof -
  obtain t where t: "extract_token rq = Some t"
    using assms by (auto simp: v1_auth_middleware_def split: option.splits)
  show thesis
  proof (cases "is_admin_route (rq_path rq)")
    case True
    then show thesis using assms t session [OF t]
      by (auto simp: v1_auth_middleware_def split: option.splits prod.splits if_splits)
  next
    case False
    obtain valid ts1 H1 where v: "validate_session V t H = (valid, ts1, H1)" by (metis prod_cases3)
    show thesis
    proof (cases valid)
      case True
      then show thesis using v False session [OF t] by (auto elim: validate_session_ok)
    next
      case invalid: False
      then show thesis using assms t v False device [OF t False]
        by (auto simp: v1_auth_middleware_def is_ok_iff split: if_splits)
    qed
  qed
qed

text \<open>A host on which nobody is logged in.\<close>

definition signed_off :: "AuthHost \<Rightarrow> bool" where
  "signed_off H \<longleftrightarrow> au_persistent H \<and> au_sessions H = Map.empty \<and> ad_sessions (au_db H) = []"

lemma signed_off_inv: "signed_off H \<Longrightarrow> grants_inv hash off {} H"
  by (simp add: signed_off_def grants_inv_def)

text \<open>A live session of an existing user, granted by a login or a registration.\<close>

definition granted_to :: "(string \<Rightarrow> string) \<Rightarrow> AuthEnv \<Rightarrow> grant list \<Rightarrow> string \<Rightarrow> UserRow \<Rightarrow> AuthHost \<Rightarrow> bool" where
  "granted_to hash V g t r H \<longleftrightarrow>
     user_by_id (usr_id r) (au_db H) = Some r \<and>
     (\<exists>t0 a. (t0, usr_id r, a) \<in> set g \<and> hash t0 = hash t \<and> av_utc V < a + int SESSION_DURATION)"

lemma user_by_id_Some: "user_by_id i db = Some r \<Longrightarrow> r \<in> set (ad_users db) \<and> usr_id r = i"
  unfolding user_by_id_def by (drule find_SomeD) simp

lemma user_is_admin_row:
  "user_is_admin V u H \<Longrightarrow> user_by_id u (au_db H) = Some r \<Longrightarrow> usr_is_admin r"
  by (auto simp: user_is_admin_def query_def split: option.splits sum.splits)

text \<open>
  C32 (safety). In every state the server can reach from a signed-off start, a request that passes the
  guard of the API carries a token, and that token either belongs to a live session, granted less
  than 24 hours ago by a login or registration to a user that still exists and, on the
  administrator's routes, is an administrator; or the route is not one of those and the token is a
  paired device's. The comparison is on the token's SHA-256, which is all the server stores.
\<close>

theorem requests_are_authorized:
  assumes "signed_off H0" and "auth_run hash off H0 [] H ts g" and "clocked hash off V"
    and "v1_auth_middleware V rq H = (Proceed, ts', H')"
  shows "\<exists>t. extract_token rq = Some t \<and>
     ((\<exists>r. granted_to hash V g t r H \<and> (is_admin_route (rq_path rq) \<longrightarrow> usr_is_admin r)) \<or>
      (\<not> is_admin_route (rq_path rq) \<and>
       (\<exists>d. validate_token hash (av_utc V) t DeviceToken (au_tokens H) = Inr d)))"
proof -
  have inv: "grants_inv hash off (set g) H"
    using auth_run_grants [OF assms(2) signed_off_inv [OF assms(1)]] by simp
  from assms(4) show ?thesis
  proof (cases rule: admitted)
    case (session t u ts' H1)
    note * = extract_token_fields [OF session(2) inv assms(3)]
    then obtain r where r: "user_by_id u (au_db H) = Some r" by blast
    have "granted_to hash V g t r H"
      using * r user_by_id_Some [OF r] unfolding granted_to_def by auto
    moreover have "usr_is_admin r" if "is_admin_route (rq_path rq)"
      using user_is_admin_row [OF session(3) [OF that]] * r by simp
    ultimately show ?thesis using session(1) by blast
  next
    case (device t d H1)
    have "H1 = H"
      using device(3) by (auto simp: validate_session_def split: prod.splits dest: extract_user_id_None)
    then show ?thesis using device assms(3) by (auto simp: clocked_def)
  qed
qed

section \<open>Logout\<close>









text \<open>A lookup that read the row before the logout and caches it afterwards.\<close>

lemma lookup_in_flight_undoes_logout:
  assumes "au_persistent H" and "au_sessions H t = None" and "av_fail V = (\<lambda>_ _. None)"
    and "get_auth_session (av_hash V t) (au_db H) = Some (u, Some e)" and "e > av_utc V"
    and "user_by_id u (au_db H) = Some r"
  shows "\<exists>H1 ts H2. invalidate V t H = (Inr (), H1) \<and>
     finish_lookup V t (lookup_session V t H) H1 = (Some u, ts, H2) \<and>
     fst (extract_user_id V t H2) = Some u"
  using assms
  by (simp add: invalidate_def db_step_def finish_lookup_def lookup_session_def cached_user_def
      query_def extract_user_id_def delete_auth_session_def user_by_id_def)

text \<open>A statement that fails while the user is looked up costs the session.\<close>

lemma database_error_ends_session:
  assumes "au_persistent H" and "cached_user V t H = Some u" and "av_fail V ''user by id'' 0 = Some e"
    and "av_fail W = (\<lambda>_ _. None)" and "av_hash W = hash"
  shows "extract_user_id V t H = (None, [InvalidateToken t], H)"
    and "get_auth_session (hash t) (au_db (run_task W (InvalidateToken t) H)) = None"
    and "au_sessions (run_task W (InvalidateToken t) H) t = None"
  using assms
  by (simp_all add: extract_user_id_def lookup_session_def finish_lookup_def query_def run_task_def
      invalidate_def db_step_def get_auth_session_None delete_auth_session_def)

section \<open>The tables\<close>


section \<open>Login\<close>

text \<open>A statement fails on no repetition.\<close>

definition db_up :: "AuthEnv \<Rightarrow> bool" where
  "db_up V \<longleftrightarrow> av_fail V = (\<lambda>_ _. None)"

lemma open_session_Inr:
  assumes "open_session V rq u n adm H = (Inr ok, H')" and "au_persistent H"
  obtains db where "create_auth_session V (av_hash V (av_token V)) u (av_utc V)
      (av_utc V + int SESSION_DURATION) (au_db H) = Inr db"
    and "ok = login_answer V rq (av_token V) u n adm"
    and "H' = H\<lparr>au_db := db, au_sessions := (au_sessions H)(av_token V \<mapsto>
         \<lparr>sd_expiry = av_now V + SESSION_DURATION, sd_user_id = u\<rparr>)\<rparr>"
  using assms by (auto simp: open_session_def create_session_def Let_def split: sum.splits)

lemma open_session_Inl:
  "open_session V rq u n adm H = (Inl e, H') \<Longrightarrow> H' = H"
  by (auto simp: open_session_def create_session_def Let_def split: sum.splits if_splits)

lemma login_Inr:
  assumes "login_handler V rq n p H = (Inr ok, H')"
  obtains r m where "user_by_username n (au_db H) = Some r" "password_matches V p (usr_password_hash r)"
    "open_session V rq (usr_id r) (usr_username r) (usr_is_admin r) (H\<lparr>au_attempts := m\<rparr>) = (Inr ok, H')"
  using assms by (auto simp: login_handler_def Let_def query_Inr_iff
      split: if_splits prod.splits sum.splits option.splits)

lemma login_Inl:
  assumes "login_handler V rq n p H = (Inl e, H')"
  shows "\<exists>m. H' = H\<lparr>au_attempts := m\<rparr>"
proof -
  have "\<exists>m. H' = H\<lparr>au_attempts := m\<rparr>" if "H' = H"
    by (rule exI [of _ "au_attempts H"]) (simp add: that)
  then show ?thesis
    using assms by (auto simp: login_handler_def Let_def dest: open_session_Inl
        split: if_splits prod.splits sum.splits option.splits)
qed

lemma new_row_found:
  assumes "create_auth_session V h u c e db = Inr db'"
  shows "get_auth_session h db' = Some (u, Some e)" and "ad_users db' = ad_users db"
  using assms by (auto simp: create_auth_session_def get_auth_session_def list_ex_iff find_appended
      split: option.splits if_splits)

lemma user_by_id_found: "r \<in> set (ad_users db) \<Longrightarrow> user_by_id (usr_id r) db \<noteq> None"
  by (auto simp: user_by_id_def find_None_iff)

text \<open>A stored live session of an existing user is accepted, cached or not.\<close>

lemma live_session_accepted:
  assumes "au_persistent H" and "db_up V" and "get_auth_session (av_hash V t) (au_db H) = Some (u, Some e)"
    and "e > av_utc V" and "user_by_id u (au_db H) \<noteq> None"
    and "\<And>d. au_sessions H t = Some d \<Longrightarrow> sd_user_id d = u"
  shows "fst (extract_user_id V t H) = Some u"
  using assms by (auto simp: extract_user_id_def lookup_session_def finish_lookup_def query_def
      db_up_def cached_user_def split: option.split)

text \<open>
  C35 (functional). A login that succeeds was given the password of the named user, answers with that
  user's identity, and its token is accepted as that user's session until 24 hours later, by this
  process and by one restarted on the same database; a login that fails changes nothing but the
  counters of the attempt limiter.
\<close>

theorem login_needs_the_password:
  assumes "au_persistent H" and "login_handler V rq n p H = (res, H')"
  shows "case res of
      Inl _ \<Rightarrow> \<exists>m. H' = H\<lparr>au_attempts := m\<rparr>
    | Inr ok \<Rightarrow> \<exists>r. user_by_username n (au_db H) = Some r \<and>
        password_matches V p (usr_password_hash r) \<and> lo_id ok = usr_id r \<and>
        lo_username ok = usr_username r \<and> lo_is_admin ok = usr_is_admin r \<and>
        (\<forall>W. db_up W \<longrightarrow> av_hash W = av_hash V \<longrightarrow> av_utc W < av_utc V + int SESSION_DURATION \<longrightarrow>
           fst (extract_user_id W (lo_token ok) H') = Some (usr_id r) \<and>
           fst (extract_user_id W (lo_token ok) (restart (au_db H') H')) = Some (usr_id r))"
proof (cases res)
  case (Inl e)
  then show ?thesis using login_Inl assms(2) by simp
next
  case (Inr ok)
  from assms(2) [unfolded Inr] show ?thesis
  proof (rule login_Inr)
    fix r m
    assume r: "user_by_username n (au_db H) = Some r" "password_matches V p (usr_password_hash r)"
      and op: "open_session V rq (usr_id r) (usr_username r) (usr_is_admin r) (H\<lparr>au_attempts := m\<rparr>)
        = (Inr ok, H')"
    have p: "au_persistent (H\<lparr>au_attempts := m\<rparr>)" using assms(1) by simp
    from op p show ?thesis
    proof (rule open_session_Inr)
      fix db
      assume db: "create_auth_session V (av_hash V (av_token V)) (usr_id r) (av_utc V)
          (av_utc V + int SESSION_DURATION) (au_db (H\<lparr>au_attempts := m\<rparr>)) = Inr db"
        and ok: "ok = login_answer V rq (av_token V) (usr_id r) (usr_username r) (usr_is_admin r)"
        and H': "H' = H\<lparr>au_attempts := m, au_db := db, au_sessions := (au_sessions (H\<lparr>au_attempts := m\<rparr>))
          (av_token V \<mapsto> \<lparr>sd_expiry = av_now V + SESSION_DURATION, sd_user_id = usr_id r\<rparr>)\<rparr>"
      note row = new_row_found [OF db]
      have "user_by_id (usr_id r) db \<noteq> None"
        using user_by_id_found [of r] user_by_username_Some [OF r(1)] row(2) by (simp add: user_by_id_def)
      then have "fst (extract_user_id W (lo_token ok) H') = Some (usr_id r)"
        "fst (extract_user_id W (lo_token ok) (restart (au_db H') H')) = Some (usr_id r)"
        if "db_up W" "av_hash W = av_hash V" "av_utc W < av_utc V + int SESSION_DURATION" for W
        using that row(1) assms(1) by (auto intro!: live_session_accepted simp: H' ok login_answer_def restart_def)
      then show ?thesis using r ok Inr by (simp add: login_answer_def)
    qed
  qed
qed

text \<open>A configured password with outer blanks is stored trimmed, and refused as it is configured.\<close>

lemma padded_password_is_refused:
  assumes "av_password V = Some q" and "configured_password V = Some p" and "q \<noteq> p"
    and "user_by_username n (au_db H) = Some r"
    and "\<And>x. password_matches V x (usr_password_hash r) \<longleftrightarrow> x = p"
  shows "\<not> is_ok (fst (login_handler V rq n q H))"
proof
  assume "is_ok (fst (login_handler V rq n q H))"
  then obtain ok H' where "login_handler V rq n q H = (Inr ok, H')"
    by (cases "login_handler V rq n q H") (auto simp: is_ok_iff)
  then obtain r' where "user_by_username n (au_db H) = Some r'" "password_matches V q (usr_password_hash r')"
    by (rule login_Inr)
  then show False using assms(3,4) assms(5) [of q] by simp
qed

section \<open>The administrator\<close>

text \<open>
  C36 (functional). A start that ends well leaves exactly one user marked as managed by the
  environment, with the configured name, the administrator's flag and a hash the configured password
  verifies; every other user is as before, names and identifiers stay unique, no session is added,
  the user's sessions are gone when its password was another, and the next start with the same
  configuration changes nothing.
\<close>

theorem start_sets_up_the_administrator:
  assumes "init_admin_user V db = Inr (Some i, db')" and "argon_sound V" and "users_ok db"
  shows "setup_done V i db db' \<and> init_admin_user V db' = Inr (Some i, db')"
proof -
  have set_up: "setup_done V i db db'" by (rule setup_users [OF assms])
  have "av_auth_enabled V" "av_fail V ''managed admin'' 0 = None"
    using assms(1) by (auto simp: init_admin_user_def setup_split split: if_splits option.splits)
  then show ?thesis using set_up setup_again unfolding setup_done_def by blast
qed

section \<open>The client's address\<close>

text \<open>The header a chain of proxies leaves: each appends the address it was called from.\<close>

fun appended :: "string \<Rightarrow> string list \<Rightarrow> string" where
  "appended h [] = h"
| "appended h (p # ps) = appended (h @ CHR '','' # p) ps"


lemma forwarded_entries_append:
  "CHR '','' \<notin> set p \<Longrightarrow> forwarded_entries (h @ CHR '','' # p) = trim p # forwarded_entries h"
  by (simp add: forwarded_entries_def split_char_append)

lemma forwarded_through_proxies:
  assumes "\<forall>p \<in> set ps. CHR '','' \<notin> set p \<and> trim p \<noteq> [] \<and>
      (\<exists>ip. av_parse_ip V (trim p) = Some ip \<and> is_trusted_proxy V ip)"
  shows "forwarded_ip V (forwarded_entries (appended h ps)) = forwarded_ip V (forwarded_entries h)"
  using assms by (induction ps arbitrary: h) (auto simp: forwarded_entries_append)

text \<open>
  C37 (safety). The address a request counts under in the attempt limits is not the client's to
  choose. A peer that is no trusted proxy is itself the address, whatever its headers say. Behind
  trusted proxies it is the address from which the outermost of them was called, whether or not the
  client had sent an \<open>X-Forwarded-For\<close> of its own and whatever it wrote there.
\<close>

theorem client_address_is_not_forged:
  assumes "rq_peer rq = Some peer" and "CHR '','' \<notin> set client" and "trim client \<noteq> []"
    and "av_parse_ip V (trim client) = Some ip" and "\<not> is_trusted_proxy V ip"
    and "\<forall>p \<in> set ps. CHR '','' \<notin> set p \<and> trim p \<noteq> [] \<and>
      (\<exists>q. av_parse_ip V (trim p) = Some q \<and> is_trusted_proxy V q)"
  shows "extract_client_ip V
        (rq\<lparr>rq_forwarded_for := Some (appended forged (client # ps)), rq_real_ip := x\<rparr>)
      = (if is_trusted_proxy V peer then ip else peer) \<and>
    extract_client_ip V (rq\<lparr>rq_forwarded_for := Some (appended client ps), rq_real_ip := x\<rparr>)
      = (if is_trusted_proxy V peer then ip else peer)"
proof -
  have "forwarded_ip V (forwarded_entries (appended forged (client # ps))) = Inr (Some ip)"
    using forwarded_through_proxies [OF assms(6), of "forged @ CHR '','' # client"] assms(2-5)
    by (simp add: forwarded_entries_append)
  moreover have "forwarded_ip V (forwarded_entries (appended client ps)) = Inr (Some ip)"
    using forwarded_through_proxies [OF assms(6), of client] assms(2-5)
    by (simp add: forwarded_entries_def split_char_absent)
  ultimately show ?thesis
    using assms(1) by (simp add: extract_client_ip_def resolve_client_ip_def del: appended.simps)
qed

text \<open>Clients behind a trusted proxy that names none of them count as one, the local host.\<close>

lemma nameless_clients_share_an_address:
  assumes "rq_peer rq = Some peer" and "is_trusted_proxy V peer" and "rq_forwarded_for rq = None"
    and "rq_real_ip rq = None"
  shows "resolve_client_ip V rq = None" and "extract_client_ip V rq = ''127.0.0.1''"
  using assms by (simp_all add: resolve_client_ip_def extract_client_ip_def)

section \<open>A concrete host\<close>

definition demo_auth_env :: "instant \<Rightarrow> AuthEnv" where
  "demo_auth_env n =
     \<lparr>av_now = n, av_utc = int n, av_token = ''token'', av_uuid = ''u9'', av_hash = (\<lambda>t. CHR ''#'' # t),
      av_argon_hash = (\<lambda>p. Inr (CHR ''$'' # p)), av_argon_verify = (\<lambda>p h. Inr (h = CHR ''$'' # p)),
      av_fail = (\<lambda>_ _. None), av_text_expired = (\<lambda>_ _. False), av_header_ok = (\<lambda>_. True),
      av_parse_ip = Some, av_auth_enabled = True, av_allow_registration = False, av_login_limit = 5,
      av_trust_proxy = True, av_trusted_proxies = [''10.0.0.1''], av_username = Some ''admin'',
      av_password = Some ''correct horse''\<rparr>"

definition demo_auth_host :: AuthHost where
  "demo_auth_host =
     \<lparr>au_db = \<lparr>ad_users = [\<lparr>usr_id = ''u1'', usr_username = ''admin'',
          usr_password_hash = ''$correct horse'', usr_is_admin = True, usr_managed = True,
          usr_created_at = 0\<rparr>], ad_sessions = []\<rparr>,
      au_persistent = True, au_sessions = Map.empty, au_attempts = Map.empty, au_tokens = []\<rparr>"

definition demo_auth_request :: "string option \<Rightarrow> AuthRequest" where
  "demo_auth_request authorization =
     \<lparr>rq_path = ''/api/v1/settings'', rq_authorization = authorization, rq_cookie = None,
      rq_peer = Some ''9.9.9.9'', rq_forwarded_for = None, rq_real_ip = None,
      rq_forwarded_proto = None\<rparr>"

definition demo_login :: "(auth_failure + LoginOk) \<times> AuthHost" where
  "demo_login = login_handler (demo_auth_env 1000) (demo_auth_request None) ''admin'' ''correct horse''
     demo_auth_host"

lemmas demo_simps = demo_auth_env_def demo_auth_host_def demo_auth_request_def

text \<open>The session of the demonstration, as the login leaves it.\<close>

definition demo_logged_in :: AuthHost where
  "demo_logged_in = demo_auth_host
     \<lparr>au_db := (au_db demo_auth_host)\<lparr>ad_sessions := [\<lparr>ses_token_hash = ''#token'', ses_user_id = ''u1'',
        ses_created_at = 1000, ses_expires_at = Some (1000 + int SESSION_DURATION),
        ses_last_seen_at = Some 1000\<rparr>]\<rparr>,
      au_attempts := [''login_9.9.9.9'' \<mapsto> (1, 1000)],
      au_sessions := [''token'' \<mapsto> \<lparr>sd_expiry = 1000 + SESSION_DURATION, sd_user_id = ''u1''\<rparr>]\<rparr>"

lemma demo_login_eq:
  "\<exists>ok. demo_login = (Inr ok, demo_logged_in)"
  by (simp add: demo_login_def login_handler_def demo_simps demo_logged_in_def Let_def login_gate_def attempt_def
      extract_client_ip_def resolve_client_ip_def is_trusted_proxy_def query_def user_by_username_def
      password_matches_def open_session_def create_session_def create_auth_session_def)

lemma demo_clocked: "clocked (\<lambda>t. CHR ''#'' # t) 0 (demo_auth_env n)"
  by (simp add: clocked_def demo_auth_env_def)

lemma demo_signed_off: "signed_off demo_auth_host"
  by (simp add: signed_off_def demo_auth_host_def)

lemma demo_login_run:
  "auth_run (\<lambda>t. CHR ''#'' # t) 0 demo_auth_host [] demo_logged_in []
     (session_grants (demo_auth_env 1000) (fst demo_login) @ [])"
  by (rule auth_run.login [OF auth_run.start demo_clocked, where n = "''admin''" and p = "''correct horse''"])
    (use demo_login_eq in \<open>auto simp: demo_login_def\<close>)

lemma demo_extract:
  assumes "n < 1000 + SESSION_DURATION"
  shows "extract_user_id (demo_auth_env n) ''token'' demo_logged_in = (Some ''u1'', [], demo_logged_in)"
  using assms by (simp add: extract_user_id_def lookup_session_def finish_lookup_def cached_user_def
      query_def user_by_id_def demo_logged_in_def demo_simps)

lemma demo_request_token:
  "extract_token (demo_auth_request (Some ''Bearer token'')) = Some ''token''"
  by code_simp


lemma requests_are_authorized_witness:
  "\<exists>t. extract_token (demo_auth_request (Some ''Bearer token'')) = Some t \<and>
     ((\<exists>r. granted_to (\<lambda>t. CHR ''#'' # t) (demo_auth_env 2000)
          (session_grants (demo_auth_env 1000) (fst demo_login) @ []) t r demo_logged_in \<and>
          (is_admin_route (rq_path (demo_auth_request (Some ''Bearer token''))) \<longrightarrow> usr_is_admin r)) \<or>
      (\<not> is_admin_route (rq_path (demo_auth_request (Some ''Bearer token''))) \<and>
       (\<exists>d. validate_token (\<lambda>t. CHR ''#'' # t) (av_utc (demo_auth_env 2000)) t DeviceToken
          (au_tokens demo_logged_in) = Inr d)))"
proof -
  let ?out = "v1_auth_middleware (demo_auth_env 2000) (demo_auth_request (Some ''Bearer token''))
      demo_logged_in"
  have "is_admin_route (rq_path (demo_auth_request (Some ''Bearer token'')))" by code_simp
  moreover have "user_is_admin (demo_auth_env 2000) ''u1'' demo_logged_in"
    by (simp add: user_is_admin_def query_def user_by_id_def demo_logged_in_def demo_simps)
  ultimately have "fst ?out = Proceed"
    using demo_extract [of 2000]
    by (simp add: v1_auth_middleware_def demo_request_token SESSION_DURATION_def from_secs_def)
  then obtain ts H' where "?out = (Proceed, ts, H')" by (cases ?out) auto
  then show ?thesis
    by (rule requests_are_authorized [OF demo_signed_off demo_login_run demo_clocked])
qed


lemma login_needs_the_password_witness:
  "\<exists>ok r. fst demo_login = Inr ok \<and> user_by_username ''admin'' (au_db demo_auth_host) = Some r \<and>
     password_matches (demo_auth_env 1000) ''correct horse'' (usr_password_hash r) \<and> lo_id ok = usr_id r"
proof -
  have "au_persistent demo_auth_host" by code_simp
  note * = login_needs_the_password [OF this, of "demo_auth_env 1000" "demo_auth_request None" "''admin''"
      "''correct horse''" "fst demo_login" demo_logged_in]
  obtain ok where "demo_login = (Inr ok, demo_logged_in)" using demo_login_eq by blast
  then show ?thesis using * by (auto simp: demo_login_def)
qed

lemma start_sets_up_the_administrator_witness:
  "\<exists>db'. init_admin_user (demo_auth_env 1000) \<lparr>ad_users = [], ad_sessions = []\<rparr> = Inr (Some ''u9'', db') \<and>
     setup_done (demo_auth_env 1000) ''u9'' \<lparr>ad_users = [], ad_sessions = []\<rparr> db' \<and>
     init_admin_user (demo_auth_env 1000) db' = Inr (Some ''u9'', db')"
proof -
  let ?db' = "\<lparr>ad_users = [\<lparr>usr_id = ''u9'', usr_username = ''admin'',
      usr_password_hash = ''$correct horse'', usr_is_admin = True, usr_managed = True,
      usr_created_at = 1000\<rparr>], ad_sessions = []\<rparr>"
  have run: "init_admin_user (demo_auth_env 1000) \<lparr>ad_users = [], ad_sessions = []\<rparr> = Inr (Some ''u9'', ?db')"
    by code_simp
  have "argon_sound (demo_auth_env 1000)" by (simp add: argon_sound_def demo_auth_env_def)
  moreover have "users_ok \<lparr>ad_users = [], ad_sessions = []\<rparr>" by (simp add: users_ok_def one_managed_def)
  ultimately show ?thesis using start_sets_up_the_administrator [OF run] run by blast
qed

lemma client_address_is_not_forged_witness:
  "extract_client_ip (demo_auth_env 1000) ((demo_auth_request None)\<lparr>rq_peer := Some ''10.0.0.1''\<rparr>
     \<lparr>rq_forwarded_for := Some (appended ''1.2.3.4'' [''9.9.9.9'', ''10.0.0.1'']), rq_real_ip := None\<rparr>)
   = ''9.9.9.9''"
proof -
  have "rq_peer ((demo_auth_request None)\<lparr>rq_peer := Some ''10.0.0.1''\<rparr>) = Some ''10.0.0.1''" by code_simp
  moreover have "CHR '','' \<notin> set ''9.9.9.9''" "trim ''9.9.9.9'' \<noteq> []"
    "av_parse_ip (demo_auth_env 1000) (trim ''9.9.9.9'') = Some ''9.9.9.9''"
    "\<not> is_trusted_proxy (demo_auth_env 1000) ''9.9.9.9''"
    by code_simp+
  moreover have "\<forall>p \<in> set [''10.0.0.1'']. CHR '','' \<notin> set p \<and> trim p \<noteq> [] \<and>
      (\<exists>q. av_parse_ip (demo_auth_env 1000) (trim p) = Some q \<and> is_trusted_proxy (demo_auth_env 1000) q)"
    by (simp add: demo_auth_env_def is_trusted_proxy_def trim_def trim_start_def trim_end_def is_ws_def)
  moreover have "is_trusted_proxy (demo_auth_env 1000) ''10.0.0.1''" by code_simp
  ultimately show ?thesis
    using client_address_is_not_forged [where rq = "(demo_auth_request None)\<lparr>rq_peer := Some ''10.0.0.1''\<rparr>"
        and peer = "''10.0.0.1''" and client = "''9.9.9.9''" and V = "demo_auth_env 1000"
        and ip = "''9.9.9.9''" and ps = "[''10.0.0.1'']" and forged = "''1.2.3.4''" and x = None]
    by simp
qed

end
