(* ===== verification/M3u_Playlist.thy ===== *)
theory M3u_Playlist
  imports Rust_Strings
begin

text \<open>
  \<open>michi-m3u/src/lib.rs\<close>: reading and writing M3U playlists, and reading CUE sheets. A string is
  its ASCII characters; an arithmetic overflow, which panics in a debug build, is \<open>None\<close>.
\<close>

section \<open>M3U\<close>

record M3uEntry =
  m3_duration :: "u64 option"
  m3_title :: "string option"
  m3_path :: string

type_synonym extinf = "(u64 option \<times> string option) option"

definition parse_extinf :: "string \<Rightarrow> u64 option \<times> string option" where
  "parse_extinf info =
     (let (dur_str, title) = (case split_once (CHR '','') info of Some p \<Rightarrow> p | None \<Rightarrow> (info, []))
      in (parse_u64 (trim dur_str), if title = [] then None else Some title))"

definition m3u_line :: "string \<Rightarrow> M3uEntry list \<times> extinf \<Rightarrow> M3uEntry list \<times> extinf" where
  "m3u_line line st =
     (let (entries, extinf) = st; trimmed = trim line in
      if trimmed = [] then (entries, extinf)
      else if starts_with trimmed ''#'' then
        (case strip_prefix ''#EXTINF:'' trimmed of
           Some info \<Rightarrow> (entries, Some (parse_extinf info))
         | None \<Rightarrow> (entries, extinf))
      else
        (entries @ [\<lparr>m3_duration = Option.bind extinf fst, m3_title = Option.bind extinf snd,
                     m3_path = trimmed\<rparr>], None))"

definition parse_m3u :: "string \<Rightarrow> string + M3uEntry list" where
  "parse_m3u content = Inr (fst (fold m3u_line (lines content) ([], None)))"

definition extinf_line :: "M3uEntry \<Rightarrow> string" where
  "extinf_line e =
     ''#EXTINF:'' @ show_nat (unat (case m3_duration e of Some d \<Rightarrow> d | None \<Rightarrow> 0)) @ '',''
     @ (case m3_title e of Some t \<Rightarrow> t | None \<Rightarrow> [])"

definition serialize_entry :: "M3uEntry \<Rightarrow> string" where
  "serialize_entry e =
     (if m3_duration e \<noteq> None \<or> m3_title e \<noteq> None then extinf_line e @ [LF] else [])
     @ m3_path e @ [LF]"

definition serialize_m3u :: "M3uEntry list \<Rightarrow> string" where
  "serialize_m3u entries = ''#EXTM3U'' @ [LF] @ concat (map serialize_entry entries)"

section \<open>CUE\<close>

record CueTrack =
  cu_index :: u32
  cu_title :: string
  cu_performer :: "string option"
  cu_file :: string
  cu_start_ms :: nat
  cu_end_ms :: "nat option"

record CueState =
  cs_tracks :: "CueTrack list"
  cs_file :: string
  cs_performer :: "string option"
  cs_title :: string
  cs_index :: u32
  cs_start :: nat
  cs_in_track :: bool

text \<open>\<open>split_whitespace\<close>.\<close>

fun split_ws :: "string \<Rightarrow> string \<Rightarrow> string list" where
  "split_ws acc [] = (if acc = [] then [] else [rev acc])"
| "split_ws acc (c # cs) =
     (if is_ws c then (if acc = [] then split_ws [] cs else rev acc # split_ws [] cs)
      else split_ws (c # acc) cs)"

definition quoted_part :: "string \<Rightarrow> string option" where
  "quoted_part line = nth_opt (split_char (CHR 0x22) [] line) 1"

definition checked_u64 :: "nat \<Rightarrow> nat option" where
  "checked_u64 n = (if n < 2 ^ 64 then Some n else None)"

definition number_or_0 :: "string \<Rightarrow> nat" where
  "number_or_0 s = (case parse_u64 s of Some w \<Rightarrow> unat w | None \<Rightarrow> 0)"

text \<open>\<open>(mins * 60 + secs) * 1000 + (frames * 1000 / 75)\<close>.\<close>

definition cue_time :: "nat \<Rightarrow> nat \<Rightarrow> nat \<Rightarrow> nat option" where
  "cue_time mins secs frames =
     Option.bind (checked_u64 (mins * 60)) (\<lambda>a.
     Option.bind (checked_u64 (a + secs)) (\<lambda>b.
     Option.bind (checked_u64 (b * 1000)) (\<lambda>c.
     Option.bind (checked_u64 (frames * 1000)) (\<lambda>d.
     checked_u64 (c + d div 75)))))"

definition push_track :: "CueState \<Rightarrow> CueState" where
  "push_track s =
     (if cs_in_track s \<and> cs_title s \<noteq> []
      then s\<lparr>cs_tracks := cs_tracks s @
             [\<lparr>cu_index = cs_index s, cu_title = cs_title s, cu_performer = cs_performer s,
               cu_file = cs_file s, cu_start_ms = cs_start s, cu_end_ms = None\<rparr>]\<rparr>
      else s)"

definition cue_index_line :: "string \<Rightarrow> CueState \<Rightarrow> CueState option" where
  "cue_index_line time s =
     (case split_char (CHR '':'') [] time of
        [m, sec, f] \<Rightarrow>
          map_option (\<lambda>t. s\<lparr>cs_start := t\<rparr>) (cue_time (number_or_0 m) (number_or_0 sec) (number_or_0 f))
      | _ \<Rightarrow> Some s)"

definition cue_track_index :: "string \<Rightarrow> u32" where
  "cue_track_index line =
     (case Option.bind (nth_opt (split_ws [] line) 1) (parse_unsigned (2 ^ 32)) of
        Some n \<Rightarrow> of_nat n | None \<Rightarrow> 0)"

definition cue_line :: "string \<Rightarrow> CueState \<Rightarrow> CueState option" where
  "cue_line raw s =
     (let line = trim raw in
      if line = [] \<or> starts_with line ''#'' \<or> starts_with line ''REM'' then Some s
      else case strip_prefix ''FILE '' line of
        Some f \<Rightarrow> Some (case quoted_part f of Some p \<Rightarrow> s\<lparr>cs_file := p\<rparr> | None \<Rightarrow> s)
      | None \<Rightarrow>
      if starts_with line ''PERFORMER '' then Some (s\<lparr>cs_performer := quoted_part line\<rparr>)
      else if starts_with line ''TRACK '' then
        Some ((push_track s)\<lparr>cs_in_track := True, cs_index := cue_track_index line, cs_title := []\<rparr>)
      else if starts_with line ''TITLE '' then
        Some (s\<lparr>cs_title := (case quoted_part line of Some t \<Rightarrow> t | None \<Rightarrow> [])\<rparr>)
      else case strip_prefix ''INDEX 01 '' line of
        Some time \<Rightarrow> cue_index_line time s
      | None \<Rightarrow> Some s)"

fun cue_lines :: "string list \<Rightarrow> CueState \<Rightarrow> CueState option" where
  "cue_lines [] s = Some s"
| "cue_lines (l # ls) s = Option.bind (cue_line l s) (cue_lines ls)"

text \<open>\<open>end_ms\<close> of each track but the last: one before the start of the next, which underflows when
  that start is 0.\<close>

fun set_ends :: "CueTrack list \<Rightarrow> CueTrack list option" where
  "set_ends (a # b # ts) =
     (if cu_start_ms b = 0 then None
      else map_option (\<lambda>rest. a\<lparr>cu_end_ms := Some (cu_start_ms b - 1)\<rparr> # rest) (set_ends (b # ts)))"
| "set_ends ts = Some ts"

definition parse_cue :: "string \<Rightarrow> CueTrack list option" where
  "parse_cue content =
     Option.bind
       (cue_lines (lines content)
          \<lparr>cs_tracks = [], cs_file = [], cs_performer = None, cs_title = [], cs_index = 0,
           cs_start = 0, cs_in_track = False\<rparr>)
       (\<lambda>s. set_ends (cs_tracks (push_track s)))"

section \<open>Round trip\<close>

text \<open>What survives: a path or a title on one line, with nothing for \<open>trim\<close> to take away.\<close>

definition plain :: "string \<Rightarrow> bool" where
  "plain s \<longleftrightarrow> LF \<notin> set s \<and> s \<noteq> [] \<and> \<not> is_ws (last s)"

definition m3u_plain :: "M3uEntry \<Rightarrow> bool" where
  "m3u_plain e \<longleftrightarrow> plain (m3_path e) \<and> \<not> is_ws (hd (m3_path e)) \<and> hd (m3_path e) \<noteq> CHR ''#''
     \<and> (case m3_title e of None \<Rightarrow> True | Some t \<Rightarrow> t = [] \<or> plain t)"

text \<open>What the format cannot tell apart: no duration beside a title is read back as zero, an empty
  title as none.\<close>

definition m3u_normal :: "M3uEntry \<Rightarrow> M3uEntry" where
  "m3u_normal e =
     e\<lparr>m3_duration := (if m3_duration e = None \<and> m3_title e \<noteq> None then Some 0 else m3_duration e),
       m3_title := (if m3_title e = Some [] then None else m3_title e)\<rparr>"

lemma is_ws_CR: "is_ws CR"
  by (simp add: is_ws_def)

lemma plain_line:
  assumes "LF \<notin> set l" and "l \<noteq> []" and "\<not> is_ws (last l)"
  shows "lines (l @ LF # s) = l # lines s"
  using assms is_ws_CR by (auto simp: lines_line strip_cr_def)

lemma trim_plain: "s \<noteq> [] \<Longrightarrow> \<not> is_ws (hd s) \<Longrightarrow> \<not> is_ws (last s) \<Longrightarrow> trim s = s"
  by (rule trim_id) simp

lemma header_facts:
  "LF \<notin> set ''#EXTINF:''" "\<not> is_ws (hd (''#EXTINF:'' @ s))" "starts_with (''#EXTINF:'' @ s) ''#''"
  by (simp_all add: is_ws_def starts_with_def)

lemma header_line: "m3u_line ''#EXTM3U'' st = st"
  by (cases st) (simp add: m3u_line_def trim_def trim_start_def trim_end_def is_ws_def starts_with_def)

lemma serialize_lines:
  assumes "m3u_plain e"
  shows "lines (serialize_entry e @ s) =
    (if m3_duration e \<noteq> None \<or> m3_title e \<noteq> None then [extinf_line e] else [])
    @ m3_path e # lines s"
proof -
  have path: "LF \<notin> set (m3_path e)" "m3_path e \<noteq> []" "\<not> is_ws (last (m3_path e))"
    using assms by (simp_all add: m3u_plain_def plain_def)
  have lf: "LF \<notin> set (show_nat n)" for n by (rule show_nat_notin) simp
  obtain t where t: "t = (case m3_title e of Some t \<Rightarrow> t | None \<Rightarrow> [])" by blast
  have title: "t = [] \<or> plain t"
    using assms by (auto simp: t m3u_plain_def split: option.splits)
  have "LF \<notin> set (extinf_line e)" "extinf_line e \<noteq> []" "\<not> is_ws (last (extinf_line e))"
    using title header_facts(1) lf
    by (auto simp: extinf_line_def t [symmetric] plain_def is_ws_def)
  then show ?thesis
    using path by (simp add: serialize_entry_def plain_line)
qed

lemma extinf_line_read:
  assumes "m3u_plain e"
  shows "m3u_line (extinf_line e) (es, x) =
    (es, Some (Some (case m3_duration e of Some d \<Rightarrow> d | None \<Rightarrow> 0), m3_title (m3u_normal e)))"
proof -
  let ?d = "case m3_duration e of Some d \<Rightarrow> d | None \<Rightarrow> 0"
  let ?t = "case m3_title e of Some t \<Rightarrow> t | None \<Rightarrow> []"
  have comma: "CHR '','' \<notin> set (show_nat n)" for n by (rule show_nat_notin) simp
  have line: "extinf_line e = ''#EXTINF:'' @ (show_nat (unat ?d) @ CHR '','' # ?t)"
    by (simp add: extinf_line_def)
  have title: "?t = [] \<or> plain ?t"
    using assms by (auto simp: m3u_plain_def split: option.splits)
  have tr: "trim (extinf_line e) = extinf_line e"
    unfolding line
    by (rule trim_plain) (use title in \<open>auto simp: plain_def is_ws_def\<close>)
  have "parse_extinf (show_nat (unat ?d) @ CHR '','' # ?t) = (Some ?d, m3_title (m3u_normal e))"
    by (auto simp: parse_extinf_def split_once_append [OF comma] parse_show_u64 m3u_normal_def
        split: option.splits)
  moreover have "strip_prefix ''#EXTINF:'' (extinf_line e) = Some (show_nat (unat ?d) @ CHR '','' # ?t)"
    unfolding line by (rule strip_prefix_append)
  moreover have "starts_with (extinf_line e) ''#''" "extinf_line e \<noteq> []"
    unfolding line by (simp_all add: starts_with_def)
  ultimately show ?thesis by (simp add: m3u_line_def tr)
qed

lemma path_line_read:
  assumes "m3u_plain e"
  shows "m3u_line (m3_path e) (es, x) =
    (es @ [\<lparr>m3_duration = Option.bind x fst, m3_title = Option.bind x snd, m3_path = m3_path e\<rparr>], None)"
proof -
  have p: "m3_path e \<noteq> []" "\<not> is_ws (hd (m3_path e))" "\<not> is_ws (last (m3_path e))"
    "hd (m3_path e) \<noteq> CHR ''#''"
    using assms by (auto simp: m3u_plain_def plain_def)
  then have "\<not> starts_with (m3_path e) ''#''"
    by (cases "m3_path e") (auto simp: starts_with_def)
  with p show ?thesis by (simp add: m3u_line_def trim_plain)
qed

lemma entry_read:
  assumes "m3u_plain e"
  shows "fold m3u_line (lines (serialize_entry e @ s)) (es, None) =
    fold m3u_line (lines s) (es @ [m3u_normal e], None)"
proof (cases "m3_duration e \<noteq> None \<or> m3_title e \<noteq> None")
  case True
  then have "(if m3_duration e = None \<and> m3_title e \<noteq> None then Some 0 else m3_duration e) =
      Some (case m3_duration e of Some d \<Rightarrow> d | None \<Rightarrow> 0)"
    by (auto split: option.splits)
  then have n: "m3u_normal e = \<lparr>m3_duration = Some (case m3_duration e of Some d \<Rightarrow> d | None \<Rightarrow> 0),
      m3_title = m3_title (m3u_normal e), m3_path = m3_path e\<rparr>"
    by (simp add: m3u_normal_def)
  with True show ?thesis
    by (simp add: serialize_lines [OF assms] extinf_line_read [OF assms] path_line_read [OF assms])
next
  case False
  then have "m3u_normal e = \<lparr>m3_duration = None, m3_title = None, m3_path = m3_path e\<rparr>"
    by (simp add: m3u_normal_def)
  with False show ?thesis
    by (simp add: serialize_lines [OF assms] path_line_read [OF assms])
qed

lemma entries_read:
  "list_all m3u_plain entries \<Longrightarrow>
   fold m3u_line (lines (concat (map serialize_entry entries))) (es, None) =
     (es @ map m3u_normal entries, None)"
  by (induction entries arbitrary: es) (simp_all add: entry_read)

text \<open>Playlist round trip. Reading the playlist written for any list of entries, whose paths
  are single lines that do not start like a comment and whose paths and titles carry no white space
  that trimming would remove, gives the entries back in order, except that an entry with a title and
  no duration comes back with duration zero, and an empty title as no title.\<close>

theorem m3u_roundtrip:
  assumes "list_all m3u_plain entries"
  shows "parse_m3u (serialize_m3u entries) = Inr (map m3u_normal entries)"
proof -
  have "lines (serialize_m3u entries) =
      ''#EXTM3U'' # lines (concat (map serialize_entry entries))"
    unfolding serialize_m3u_def append_Cons append_Nil append_assoc
    using plain_line [of "''#EXTM3U''" "concat (map serialize_entry entries)"]
    by (simp add: is_ws_def)
  then show ?thesis
    using entries_read [OF assms, of "[]"] by (simp add: parse_m3u_def header_line)
qed

definition demo_playlist :: "M3uEntry list" where
  "demo_playlist =
     [\<lparr>m3_duration = Some 240, m3_title = Some ''Song, One'', m3_path = ''/m/one.flac''\<rparr>,
      \<lparr>m3_duration = None, m3_title = None, m3_path = ''/m/two.mp3''\<rparr>]"

lemma demo_playlist_plain: "list_all m3u_plain demo_playlist"
  by code_simp

theorem m3u_roundtrip_witness:
  "parse_m3u (serialize_m3u demo_playlist) = Inr demo_playlist"
proof -
  have "map m3u_normal demo_playlist = demo_playlist"
    by (simp add: demo_playlist_def m3u_normal_def)
  then show ?thesis using m3u_roundtrip [OF demo_playlist_plain] by simp
qed

section \<open>Findings\<close>

text \<open>An entry with a title of unknown length comes back as one of length zero.\<close>

lemma unknown_duration_becomes_zero:
  "m3_duration (m3u_normal \<lparr>m3_duration = None, m3_title = Some t, m3_path = p\<rparr>) = Some 0"
  by (simp add: m3u_normal_def)

text \<open>A second track that starts at 0, as the first track of a second file does, underflows.\<close>

lemma second_file_underflows: "cu_start_ms b = 0 \<Longrightarrow> set_ends (a # b # ts) = None"
  by simp

lemma set_ends_ok:
  "set_ends ts = Some ts' \<Longrightarrow>
   length ts' = length ts \<and> (\<forall>i. Suc i < length ts \<longrightarrow>
     cu_end_ms (ts' ! i) = Some (cu_start_ms (ts ! Suc i) - 1) \<and> 0 < cu_start_ms (ts ! Suc i))"
proof (induction ts arbitrary: ts' rule: set_ends.induct)
  case (1 a b ts)
  then obtain rest where r: "set_ends (b # ts) = Some rest" "cu_start_ms b \<noteq> 0"
    "ts' = a\<lparr>cu_end_ms := Some (cu_start_ms b - 1)\<rparr> # rest"
    by (auto split: if_splits)
  show ?case
  proof (intro conjI allI impI)
    show "length ts' = length (a # b # ts)" using 1(1) [OF r(2) r(1)] r(3) by simp
    fix i assume "Suc i < length (a # b # ts)"
    then show "cu_end_ms (ts' ! i) = Some (cu_start_ms ((a # b # ts) ! Suc i) - 1)"
      "0 < cu_start_ms ((a # b # ts) ! Suc i)"
      using 1(1) [OF r(2) r(1)] r(2,3) by (auto simp: nth_Cons split: nat.splits)
  qed
qed auto

end
