(* ===== verification/Playback_Transfer.thy ===== *)
theory Playback_Transfer
  imports Expiring_Store Core_Model
begin

text \<open>
  \<open>michi-sync/src/playback_transfer.rs\<close> and \<open>content_identity.rs\<close>: what a playback transfer between
  servers may contain, the store of transfers waiting to be committed, the payload of the target's
  ready proof, and how a content reference is resolved to a track of the library. Signing and
  verifying (\<open>michi_identity\<close>) and the database queries are parameters.
\<close>

section \<open>The transferred state\<close>

record ContentRef =
  cr_track_id :: "string option"
  cr_title :: string
  cr_artist :: string
  cr_album :: "string option"
  cr_duration_ms :: u64
  cr_content_sha256 :: "string option"

record TailSync =
  tl_transfer_id :: string
  tl_source_michi_id :: string
  tl_target_michi_id :: string
  tl_receiver_michi_id :: string
  tl_status :: string
  tl_position_ms :: u64
  tl_current_track :: ContentRef
  tl_queue :: "ContentRef list"
  tl_queue_index :: nat
  tl_repeat_mode :: string
  tl_shuffle :: bool
  tl_timestamp_ms :: int
  tl_source_revision :: u64

datatype TransferValidationError =
    QueueTooLarge nat
  | StringTooLong string nat
  | InvalidStatus string
  | MissingTrackMetadata
  | QueueIndexOutOfBounds

definition max_queue_entries :: nat where
  "max_queue_entries = 10000"

definition validate_content_ref :: "ContentRef \<Rightarrow> TransferValidationError + unit" where
  "validate_content_ref t =
     (if trim (cr_title t) = [] \<or> trim (cr_artist t) = [] then Inl MissingTrackMetadata
      else if length (cr_title t) > 512 then Inl (StringTooLong ''title'' 512)
      else if length (cr_artist t) > 512 then Inl (StringTooLong ''artist'' 512)
      else case cr_album t of
        Some a \<Rightarrow> if length a > 512 then Inl (StringTooLong ''album'' 512) else Inr ()
      | None \<Rightarrow> Inr ())"

fun validate_refs :: "ContentRef list \<Rightarrow> TransferValidationError + unit" where
  "validate_refs [] = Inr ()"
| "validate_refs (t # ts) =
     (case validate_content_ref t of Inl e \<Rightarrow> Inl e | Inr _ \<Rightarrow> validate_refs ts)"

definition validate_bounds :: "TailSync \<Rightarrow> TransferValidationError + unit" where
  "validate_bounds s =
     (if length (tl_queue s) > max_queue_entries then Inl (QueueTooLarge max_queue_entries)
      else if tl_status s \<noteq> ''playing'' \<and> tl_status s \<noteq> ''paused'' then Inl (InvalidStatus (tl_status s))
      else if tl_queue s \<noteq> [] \<and> tl_queue_index s \<ge> length (tl_queue s) then Inl QueueIndexOutOfBounds
      else if length (tl_transfer_id s) > 128 then Inl (StringTooLong ''transfer_id'' 128)
      else if length (tl_source_michi_id s) > 128 then Inl (StringTooLong ''source_michi_id'' 128)
      else if length (tl_target_michi_id s) > 128 then Inl (StringTooLong ''target_michi_id'' 128)
      else if length (tl_receiver_michi_id s) > 128 then Inl (StringTooLong ''receiver_michi_id'' 128)
      else case validate_content_ref (tl_current_track s) of
        Inl e \<Rightarrow> Inl e
      | Inr _ \<Rightarrow> validate_refs (tl_queue s))"

lemma validate_refs_ok: "validate_refs ts = Inr () \<Longrightarrow> t \<in> set ts \<Longrightarrow> validate_content_ref t = Inr ()"
  by (induction ts) (auto split: sum.splits)

text \<open>What passes has a current entry to index, and bounded names everywhere.\<close>

lemma validated_transfer_bounds:
  assumes "validate_bounds s = Inr ()"
  shows "length (tl_queue s) \<le> max_queue_entries"
    and "tl_queue s \<noteq> [] \<Longrightarrow> tl_queue_index s < length (tl_queue s)"
    and "t \<in> set (tl_current_track s # tl_queue s) \<Longrightarrow> validate_content_ref t = Inr ()"
proof -
  show "length (tl_queue s) \<le> max_queue_entries"
    using assms unfolding validate_bounds_def by (simp only: not_less split: if_split_asm) blast+
  show "tl_queue s \<noteq> [] \<Longrightarrow> tl_queue_index s < length (tl_queue s)"
    using assms unfolding validate_bounds_def by (simp only: split: if_split_asm) (simp_all only: sum.distinct simp_thms not_le)
  have "(case validate_content_ref (tl_current_track s) of Inl e \<Rightarrow> Inl e
      | Inr _ \<Rightarrow> validate_refs (tl_queue s)) = Inr ()"
    using assms unfolding validate_bounds_def
    by (simp only: split: if_split_asm) (simp_all only: sum.distinct)
  then have "validate_content_ref (tl_current_track s) = Inr ()" "validate_refs (tl_queue s) = Inr ()"
    by (simp_all split: sum.splits)
  then show "t \<in> set (tl_current_track s # tl_queue s) \<Longrightarrow> validate_content_ref t = Inr ()"
    using validate_refs_ok by (simp only: list.set insert_iff) blast
qed

section \<open>Pending transfers\<close>

record PendingPlaybackTransfer =
  pp_transfer_id :: string
  pp_source_michi_id :: string
  pp_target_michi_id :: string
  pp_receiver_michi_id :: string
  pp_tailsync :: TailSync
  pp_prepared_current_track :: Track
  pp_prepared_queue :: "Track list"
  pp_created_at :: utc
  pp_expires_at :: instant

type_synonym transfer_store = "(string \<times> PendingPlaybackTransfer) list"

definition is_expired :: "instant \<Rightarrow> PendingPlaybackTransfer \<Rightarrow> bool" where
  "is_expired now t \<longleftrightarrow> now \<ge> pp_expires_at t"

definition transfer_insert :: "PendingPlaybackTransfer \<Rightarrow> transfer_store \<Rightarrow> transfer_store" where
  "transfer_insert t s = AList.update (pp_transfer_id t) t s"

definition transfer_get :: "transfer_store \<Rightarrow> instant \<Rightarrow> string \<Rightarrow> PendingPlaybackTransfer option" where
  "transfer_get s now i =
     (case map_of s i of Some t \<Rightarrow> if \<not> is_expired now t then Some t else None | None \<Rightarrow> None)"

definition transfer_remove ::
  "string \<Rightarrow> transfer_store \<Rightarrow> PendingPlaybackTransfer option \<times> transfer_store" where
  "transfer_remove i s = (map_of s i, AList.delete i s)"

definition check_expirations :: "instant \<Rightarrow> transfer_store \<Rightarrow> string list \<times> transfer_store" where
  "check_expirations now s =
     (map fst (filter (\<lambda>(_, t). now \<ge> pp_expires_at t) s),
      filter (\<lambda>(_, t). \<not> now \<ge> pp_expires_at t) s)"

interpretation transfers: revocable_store transfer_get
  "\<lambda>_ i t. AList.update i t" "\<lambda>now s. snd (check_expirations now s)"
  "\<lambda>_ t now. \<not> is_expired now t" distinct_keys "\<lambda>i s. snd (transfer_remove i s)"
proof unfold_locales
  fix s :: transfer_store and t t' k v k'
  assume d: "distinct_keys s"
  then show "distinct_keys (AList.update k v s)" "distinct_keys (snd (check_expirations t s))"
    "distinct_keys (snd (transfer_remove k s))"
    by (simp_all add: check_expirations_def transfer_remove_def distinct_keys_update
        distinct_keys_filter distinct_keys_delete)
  show "transfer_get (AList.update k v s) t' k' =
      (if k' = k then if \<not> is_expired t' v then Some v else None else transfer_get s t' k')"
    by (auto simp: transfer_get_def update_conv')
  show "transfer_get (snd (transfer_remove k s)) t k' = (if k' = k then None else transfer_get s t k')"
    by (simp add: transfer_get_def transfer_remove_def delete_conv')
  assume "t \<le> t'"
  then show "transfer_get (snd (check_expirations t s)) t' k = transfer_get s t' k"
    using map_of_filter_unique [of s "\<lambda>x. \<not> t \<ge> pp_expires_at x" k] d
    by (auto simp: transfer_get_def check_expirations_def is_expired_def distinct_keys_def
        split: option.splits)
qed

section \<open>The ready proof\<close>

definition proof_payload ::
  "string \<Rightarrow> string \<Rightarrow> string \<Rightarrow> string \<Rightarrow> u64 \<Rightarrow> string \<Rightarrow> string" where
  "proof_payload transfer source target receiver epoch nonce =
     transfer @ CHR '':'' # source @ CHR '':'' # target @ CHR '':'' # receiver
     @ CHR '':'' # show_nat (unat epoch) @ CHR '':'' # nonce"

definition sign_target_ready_proof ::
  "(string \<Rightarrow> string) \<Rightarrow> string \<Rightarrow> string \<Rightarrow> string \<Rightarrow> string \<Rightarrow> u64 \<Rightarrow> string \<Rightarrow> string" where
  "sign_target_ready_proof sign transfer source target receiver epoch nonce =
     sign (proof_payload transfer source target receiver epoch nonce)"

definition verify_target_ready_proof ::
  "(string \<Rightarrow> string \<Rightarrow> string \<Rightarrow> string + bool) \<Rightarrow> string \<Rightarrow> string \<Rightarrow> string \<Rightarrow> string \<Rightarrow> u64
   \<Rightarrow> string \<Rightarrow> string \<Rightarrow> string \<Rightarrow> string + bool" where
  "verify_target_ready_proof verify transfer source target receiver epoch nonce sig pk =
     (case verify (proof_payload transfer source target receiver epoch nonce) sig pk of
        Inl e \<Rightarrow> Inl (''signature verify error: '' @ e) | Inr b \<Rightarrow> Inr b)"

lemma split_at_colon:
  "(d :: char) \<notin> set a \<Longrightarrow> d \<notin> set a' \<Longrightarrow> a @ d # b = a' @ d # b' \<longleftrightarrow> a = a' \<and> b = b'"
proof
  assume d: "d \<notin> set a" "d \<notin> set a'" and e: "a @ d # b = a' @ d # b'"
  have "split_once d (a @ d # b) = split_once d (a' @ d # b')" using e by (rule arg_cong)
  then show "a = a' \<and> b = b'"
    unfolding split_once_append [OF d(1)] split_once_append [OF d(2)] by simp
qed simp

text \<open>Between identities without a colon the payload determines the transfer.\<close>

lemma proof_payload_injective:
  assumes "CHR '':'' \<notin> set transfer \<union> set source \<union> set target \<union> set receiver"
    and "CHR '':'' \<notin> set transfer' \<union> set source' \<union> set target' \<union> set receiver'"
    and "proof_payload transfer source target receiver epoch nonce =
      proof_payload transfer' source' target' receiver' epoch' nonce'"
  shows "transfer = transfer' \<and> source = source' \<and> target = target' \<and> receiver = receiver' \<and>
    epoch = epoch' \<and> nonce = nonce'"
proof -
  have n: "CHR '':'' \<notin> set (show_nat n)" for n by (rule show_nat_notin) simp
  have c: "CHR '':'' \<notin> set transfer" "CHR '':'' \<notin> set source" "CHR '':'' \<notin> set target"
    "CHR '':'' \<notin> set receiver" "CHR '':'' \<notin> set transfer'" "CHR '':'' \<notin> set source'"
    "CHR '':'' \<notin> set target'" "CHR '':'' \<notin> set receiver'"
    using assms(1,2) by simp_all
  note e1 = split_at_colon [OF c(1,5), THEN iffD1, OF assms(3) [unfolded proof_payload_def]]
  note e2 = split_at_colon [OF c(2,6), THEN iffD1, OF conjunct2 [OF e1]]
  note e3 = split_at_colon [OF c(3,7), THEN iffD1, OF conjunct2 [OF e2]]
  note e4 = split_at_colon [OF c(4,8), THEN iffD1, OF conjunct2 [OF e3]]
  note e5 = split_at_colon [OF n n, THEN iffD1, OF conjunct2 [OF e4]]
  have "transfer = transfer' \<and> source = source' \<and> target = target' \<and> receiver = receiver' \<and>
      show_nat (unat epoch) = show_nat (unat epoch') \<and> nonce = nonce'"
    using e1 e2 e3 e4 e5 by blast
  moreover have "epoch = epoch'" if "show_nat (unat epoch) = show_nat (unat epoch')"
    using parse_show_u64 [of epoch] parse_show_u64 [of epoch'] unfolding that by simp
  ultimately show ?thesis by blast
qed

text \<open>With a colon in an identity two different transfers have the same payload, so a proof signed
  for the one verifies for the other.\<close>

lemma proof_payload_ambiguous:
  "proof_payload ''x'' ''a:b'' ''c'' ''r'' 1 ''n'' = proof_payload ''x'' ''a'' ''b'' ''c:r'' 1 ''n''"
  by (simp add: proof_payload_def)

section \<open>Resolving content\<close>

datatype ContentResolutionError =
    ContentNotFound string string
  | AmbiguousMatch string nat
  | ContentDatabase string

record ContentDb =
  cd_parse_uuid :: "string \<Rightarrow> uuid option"
  cd_by_uuid :: "uuid \<Rightarrow> string + Track option"
  cd_by_sha256 :: "string \<Rightarrow> string + Track list"
  cd_by_metadata :: "string \<Rightarrow> string \<Rightarrow> int \<Rightarrow> int \<Rightarrow> string + Track list"

text \<open>The range of durations; the sum panics in a debug build when it overflows, and the bounds are
  cast to \<open>i64\<close>.\<close>

definition duration_range :: "u64 \<Rightarrow> (int \<times> int) option" where
  "duration_range d =
     (if unat d + 3000 < 2 ^ 64
      then Some (sint (ucast (sat_sub d 3000) :: 64 word), sint (d + 3000)) else None)"

definition find_by_metadata ::
  "ContentDb \<Rightarrow> string \<Rightarrow> string \<Rightarrow> u64 \<Rightarrow> (ContentResolutionError + Track list) option" where
  "find_by_metadata D title artist d =
     (case duration_range d of
        None \<Rightarrow> None
      | Some (lo, hi) \<Rightarrow>
          Some (case cd_by_metadata D title artist lo hi of
                  Inl e \<Rightarrow> Inl (ContentDatabase e) | Inr ts \<Rightarrow> Inr ts))"

definition album_matches :: "string \<Rightarrow> Track \<Rightarrow> bool" where
  "album_matches a t = (case trk_album t of Some b \<Rightarrow> eq_ignore_ascii_case b a | None \<Rightarrow> False)"

definition pick_candidate :: "ContentRef \<Rightarrow> Track list \<Rightarrow> ContentResolutionError + Track" where
  "pick_candidate c ts =
     (case ts of
        [t] \<Rightarrow> Inr t
      | [] \<Rightarrow> Inl (ContentNotFound (cr_title c) (cr_artist c))
      | _ \<Rightarrow>
          (case cr_album c of
             Some a \<Rightarrow>
               (case filter (album_matches a) ts of
                  [t] \<Rightarrow> Inr t
                | _ \<Rightarrow> Inl (AmbiguousMatch (cr_title c) (length ts)))
           | None \<Rightarrow> Inl (AmbiguousMatch (cr_title c) (length ts))))"

definition by_track_id :: "ContentDb \<Rightarrow> ContentRef \<Rightarrow> Track option" where
  "by_track_id D c =
     (case Option.bind (cr_track_id c) (cd_parse_uuid D) of
        Some u \<Rightarrow> (case cd_by_uuid D u of Inr (Some t) \<Rightarrow> Some t | _ \<Rightarrow> None)
      | None \<Rightarrow> None)"

definition by_hash :: "ContentDb \<Rightarrow> ContentRef \<Rightarrow> (ContentResolutionError + Track) option" where
  "by_hash D c =
     (case cr_content_sha256 c of
        Some sha \<Rightarrow>
          (if trim sha = [] then None
           else case cd_by_sha256 D sha of
             Inl e \<Rightarrow> Some (Inl (ContentDatabase e))
           | Inr [] \<Rightarrow> None
           | Inr [t] \<Rightarrow> Some (Inr t)
           | Inr ts \<Rightarrow> Some (Inl (AmbiguousMatch (cr_title c) (length ts))))
      | None \<Rightarrow> None)"

text \<open>\<open>None\<close> is the panic of the duration range.\<close>

definition resolve_content ::
  "ContentDb \<Rightarrow> ContentRef \<Rightarrow> (ContentResolutionError + Track) option" where
  "resolve_content D c =
     (case by_track_id D c of
        Some t \<Rightarrow> Some (Inr t)
      | None \<Rightarrow>
          (case by_hash D c of
             Some r \<Rightarrow> Some r
           | None \<Rightarrow>
               map_option (\<lambda>r. case r of Inl e \<Rightarrow> Inl e | Inr ts \<Rightarrow> pick_candidate c ts)
                 (find_by_metadata D (cr_title c) (cr_artist c) (cr_duration_ms c))))"

text \<open>A reference that resolves by its metadata resolves to the only candidate, or to the only one on
  the album named.\<close>

lemma picked_is_unique:
  assumes "pick_candidate c ts = Inr t"
  shows "ts = [t] \<or> (\<exists>a. cr_album c = Some a \<and> filter (album_matches a) ts = [t])"
proof -
  consider "ts = []" | x where "ts = [x]" | x y zs where "ts = x # y # zs"
    by (metis neq_Nil_conv)
  then show ?thesis
  proof cases
    case (3 x y zs)
    then have "(case cr_album c of
        Some a \<Rightarrow> (case filter (album_matches a) ts of
            [t] \<Rightarrow> Inr t | _ \<Rightarrow> Inl (AmbiguousMatch (cr_title c) (length ts)))
      | None \<Rightarrow> Inl (AmbiguousMatch (cr_title c) (length ts))) = Inr t"
      using assms by (simp only: pick_candidate_def list.case)
    then obtain a where a: "cr_album c = Some a"
      "(case filter (album_matches a) ts of
          [t] \<Rightarrow> Inr t | _ \<Rightarrow> Inl (AmbiguousMatch (cr_title c) (length ts))) = Inr t"
      by (cases "cr_album c") simp_all
    then have "filter (album_matches a) ts = [t]"
      by (cases "filter (album_matches a) ts"; cases "tl (filter (album_matches a) ts)") simp_all
    with a(1) show ?thesis by blast
  qed (use assms in \<open>simp_all add: pick_candidate_def\<close>)
qed

lemma huge_duration_panics: "resolve_content D (c\<lparr>cr_track_id := None, cr_content_sha256 := None,
    cr_duration_ms := - 1\<rparr>) = None"
  by (simp add: resolve_content_def by_track_id_def by_hash_def find_by_metadata_def
      duration_range_def unat_max_word_eq)

end
