(* ===== verification/Spec2Isabelle.thy ===== *)
theory Spec2Isabelle
  imports Engine_Theorems Sync_Theorems Upload_Properties Rtp_Theorems Outbox_Properties
    Reconcile_Properties Presence_Properties Stream_Properties Playback_Properties
    Auth_Properties M3u_Playlist Attempt_Limiter Playback_Transfer
begin

text \<open>
  A verification library of the Michi micro server, the Rust workspace under \<open>src/crates\<close>.

  \<^bold>\<open>The program.\<close> The server plays music on receivers in the house. The playback engine
  (\<open>michi-playback\<close>) owns the queue and the lifecycle, decodes with an ffmpeg child and hands PCM to
  output sinks. A receiver sink (\<open>michi-api/src/output\<close>) passes volume, pause and PCM on to the
  receiver session manager (\<open>michi-receivers\<close>), which authenticates receivers, negotiates sessions
  over HTTP, keeps one RTP transport per session and supervises it with heartbeats. The engine's
  events are projected into a playback state (\<open>michi-api/src/playback_projection.rs\<close>) which is
  persisted and broadcast, and which other servers and clients change through the synchronization
  websocket (\<open>sync_ws.rs\<close>). Files arrive in chunks through the upload manager (\<open>michi-sync\<close>).
  Receivers are found by signed announcements and mDNS (\<open>michi-connect\<close>) and enter the registry by
  a bridge. Sessions, administrators, attempt limits, idempotency keys and tokens guard the HTTP
  interface.

  \<^bold>\<open>The theories\<close>, each named after what it models:

  \<^item> Shared: \<open>Michi_Prelude\<close> (integers at their width, saturating arithmetic, results as sums, list
    and map operations of the Rust library), \<open>Rust_Strings\<close> (trimming, splitting, printing and
    parsing of numbers), \<open>Host_Env\<close> (paths), \<open>Core_Model\<close> (\<open>michi-core/src/lib.rs\<close>).
  \<^item> Engine: \<open>Playback_Model\<close> (\<open>model.rs\<close>, \<open>error.rs\<close>, \<open>sink.rs\<close>), \<open>Playback_Decoder\<close> (\<open>decoder.rs\<close>,
    \<open>resolver.rs\<close>), \<open>Playback_Engine\<close> (state, audio path, start and end of a track of \<open>engine.rs\<close>),
    \<open>Engine_Commands\<close> (every arm of \<open>handle_command_inner\<close>, the run loop as a step relation, the
    handle). \<open>Engine_Properties\<close> and \<open>Engine_Invariant\<close> show that every operation keeps the
    invariant of the cursor and the lifecycle, \<open>Engine_Events\<close> which events an operation emits,
    \<open>Receiver_Sink\<close> models the sinks and interprets the sink contract, \<open>Engine_Theorems\<close> holds the
    properties.
  \<^item> Synchronization: \<open>Sync_State\<close> (states and precedence), \<open>Playback_Projection\<close> and
    \<open>Projection_Theorems\<close> (Lamport clock, sequences, peer cursors, persistence), \<open>Sync_Remote\<close> and
    \<open>Sync_Theorems\<close> (application of remote states, sender, handoff; composed with engine and
    projection).
  \<^item> Uploads: \<open>Sync_Upload\<close> (sessions, leases), \<open>Sync_Finalize\<close> (chunks, finalization, recovery),
    \<open>Upload_Theorems\<close> (rely conditions and what the owner of a lease can count on), \<open>Upload_Flow\<close>
    (whole uploads), \<open>Upload_Properties\<close>.
  \<^item> Receivers: \<open>Rtp_Transport\<close> and \<open>Rtp_Theorems\<close> (\<open>transport.rs\<close>), \<open>Receiver_Models\<close> (\<open>models.rs\<close>
    and the capability functions), \<open>Receiver_Client\<close> (\<open>client.rs\<close>, \<open>session_supervisor.rs\<close>),
    \<open>Receiver_Sessions\<close> (\<open>session_manager.rs\<close>, \<open>authority_gate.rs\<close>), \<open>Receiver_Invariant\<close> (the
    manager as a step relation, what every step keeps), \<open>Receiver_Theorems\<close>, \<open>Receiver_Properties\<close>.
    \<open>Receiver_Outbox\<close> (the tables of revocations and of their deliveries in \<open>michi-db\<close>, the flush,
    the home roster), \<open>Outbox_Theorems\<close> (a flush handles the rows one by one), \<open>Outbox_Properties\<close>.
  \<^item> Pairing of receivers: \<open>Pairing_Client\<close> (the pairing calls of \<open>client.rs\<close>), \<open>Receiver_Pairing\<close>
    (\<open>start_pairing_ext\<close> and \<open>confirm_pairing\<close> of \<open>session_manager.rs\<close>, the journal statements of
    \<open>michi-db\<close>), \<open>Pairing_Recovery\<close> (the pairing handlers and \<open>reconcile_unrecovered_pairings\<close> of
    \<open>routes/v1/receivers.rs\<close>, the receiver and credential tables). \<open>Pairing_Theorems\<close> shows that pending
    pairings carry the identity of a key in every reachable state, \<open>Pairing_Properties\<close> that
    confirmation pins it and leaves a journal record, \<open>Reconcile_Properties\<close> that reconciliation
    settles a record only on evidence.
  \<^item> Discovery: \<open>Scent_Store\<close> (\<open>scent_store.rs\<close> of \<open>michi-connect\<close>: records of peers, expiry, events),
    \<open>Peer_Discovery\<close> (\<open>discovery_listener.rs\<close>, \<open>mdns_resolver.rs\<close>, which feed it), \<open>Discovery_Bridge\<close>
    (\<open>discovery_bridge.rs\<close>, which carries its events into the registry). \<open>Presence_Theorems\<close> relates
    the records to the history of observations, \<open>Presence_Feed\<close> states the contract between the store
    and the bridge and what the bridge makes of it, \<open>Store_Feed\<close> shows that the store keeps the
    contract, \<open>Presence_Properties\<close> holds the properties.
  \<^item> Streaming: \<open>Streaming\<close> (\<open>michi-streaming/src/lib.rs\<close>: ranges, decisions, ffmpeg command lines),
    \<open>Stream_Routes\<close> (\<open>routes/v1/stream.rs\<close> and \<open>stream.rs\<close> of \<open>michi-api\<close>), \<open>Stream_Properties\<close>.
  \<^item> Play queue: \<open>Play_Queue\<close> (\<open>playback_queue.rs\<close> of \<open>michi-api\<close> and the statements on the tables
    \<open>queues\<close>, \<open>queue_items\<close>, \<open>playback_sessions\<close>), \<open>Queue_Routes\<close> (\<open>routes/v1/queue.rs\<close>, every
    handler over tables, engine and bus), \<open>Queue_Theorems\<close> (statements, transactions, engine calls),
    \<open>Queue_Properties\<close> (the routes as commands; the engine plays from the active queue).
  \<^item> Playback routes: \<open>Playback_Routes\<close> and \<open>Playback_Restore\<close> (\<open>routes/v1/playback.rs\<close>: state, choice of
    the output, control commands, seeking; sessions, their restoration on request and at the start,
    handoff), \<open>Playback_Theorems\<close> (what each request does to tables and engine), \<open>Playback_Properties\<close>
    (queue and playback routes in any order; what an accepted command has done; a stored session,
    restored).
  \<^item> Authentication: \<open>Auth_Sessions\<close> (the sessions of \<open>auth.rs\<close> of \<open>michi-api\<close>, cached and stored, and the
    statements of \<open>michi-db\<close> on users and sessions), \<open>Auth_Routes\<close> (tokens, the client's address, the
    guards, login, registration, logout, status), \<open>Admin_Setup\<close> (\<open>init_admin_user\<close>, run at every start),
    \<open>Auth_Theorems\<close> (runs of the server; every session stems from a login or a registration; the unique
    indexes), \<open>Auth_Properties\<close> (who is admitted, what a logout ends, what a start sets up).
  \<^item> Services: \<open>M3u_Playlist\<close> (\<open>michi-m3u\<close>), \<open>Attempt_Limiter\<close> (the counters of
    \<open>michi-security/src/lib.rs\<close>, \<open>pair.rs\<close>, \<open>auth.rs\<close>), \<open>Expiring_Store\<close> (\<open>idempotency.rs\<close> and the
    token store of \<open>michi-link/src/auth.rs\<close>), \<open>Playback_Transfer\<close> (\<open>playback_transfer.rs\<close>,
    \<open>content_identity.rs\<close> of \<open>michi-sync\<close>).

  \<^bold>\<open>Interfaces.\<close> The contracts are locales, each interpreted on the model's own definitions: the audio
  sink the engine drives, codecs between a type and its text forms, stores whose entries expire
  (with the idempotency store, the token store and the pending transfers as its instances) and
  their extension with removal, and the feed of events that the discovery bridge relies on, kept by
  the scent store.

  \<^bold>\<open>Conventions.\<close> Structs are records, enums datatypes, \<open>u8\<close> to \<open>u64\<close> words of that length with
  wrap-around (a sum whose overflow would panic in a debug build is checked and gives \<open>None\<close>
  where a reachable input can make it overflow), \<open>usize\<close> is \<open>nat\<close>; an \<open>f64\<close> is a rational, without
  rounding. Errors are the left side of a sum, panics \<open>None\<close>. Strings are lists of ASCII characters,
  so lengths in bytes and in characters agree; \<open>to_lowercase\<close> and \<open>trim\<close> are those of ASCII. A
  \<open>HashMap\<close> is a partial function, or the list of its entries in iteration order where the code
  iterates. Time, randomness, UUIDs, hashes, signatures, the database's own failures, sockets, HTTP
  answers and the contents of files are parameters: records of functions (\<open>EngineEnv\<close>, \<open>RtpEnv\<close>,
  \<open>ReceiverNet\<close> and their like), about which a theorem assumes only what it names.

  \<^bold>\<open>Concurrency.\<close> An async operation is atomic between its awaits. In the upload manager each await of
  a database statement or a file operation of \<open>verify_and_finalize_upload\<close> is a numbered point at
  which an arbitrary change within the rely condition may happen. In the session manager an
  operation is split at its network awaits into a begin part, the request and a finish part, and
  \<open>receiver_step\<close> interleaves the parts of all pending operations; the awaits of its own locks are
  not split. The engine is one task: its step relation interleaves commands and audio chunks.

  \<^bold>\<open>Bounds and fuel.\<close> The only bounded loop is the poll of a contended finalization, 20 rounds as in
  the code (\<open>for _ in 0..20\<close>). Every other loop is structural or has a measure: the RTP write loop
  shrinks the pending bytes by 1920 per round, the skipping of failed tracks is the code's single
  step, number parsing and printing recurse on the digits.

  \<^bold>\<open>Not modelled.\<close> The coordinator of transfers between servers and the HTTP client of the authority
  protocol (the latter appears as a parameter of the session manager), the database rows the session
  manager writes for its credentials, \<open>michi-db\<close> apart from the statements the modelled operations
  use, \<open>michi-config\<close> apart from the trusted proxies, and the HTTP routes of \<open>michi-api\<close> apart from
  those of streams, the queue, playback, receiver pairing and authentication: the remaining ones decode a
  request and call one of the components above, or, as the pairing of devices (\<open>routes/v1/pair.rs\<close>),
  a crate that is not in the repository. The sockets and loops around the discovery handlers.
  Scanning, tag reading, mDNS publication, room control, Home Assistant, Subsonic and the user
  interfaces are adapters to other programs: their behaviour is that of code outside this
  repository.
\<close>

end
